(* ===== verification/Prelude.thy ===== *)
theory Prelude
  imports Main "HOL-Library.Word"
begin

text \<open>
  Shared vocabulary of the development.

  The service is written in Go and its client in TypeScript.  Both return errors by value or by
  exception; the model makes each of them a value of a sum type, \<open>Inl\<close> for the error.  Operations
  that also change state are functions from a state to a result and the next state; the state is
  returned on the error path as well, because Go keeps the effects of a function that fails.

  The theory holds the types of the machine integers and byte strings, the two error types, the
  combinators that sequence fallible steps, and the lemmas that every component uses.
\<close>

section \<open>Collections of facts\<close>

named_theorems go_simps \<open>equations that run the error and state combinators\<close>
named_theorems key_simps \<open>layout of database keys\<close>
named_theorems codec_simps \<open>layout of encoded messages\<close>

section \<open>Types\<close>

type_synonym u8 = "8 word"
type_synonym u32 = "32 word"
type_synonym u64 = "64 word"
type_synonym u256 = "256 word"
type_synonym bytes = "8 word list"

section \<open>Counters\<close>

text \<open>The next value of an unsigned counter below a bound does not wrap around.\<close>

lemma unat_plus1:
  fixes x y :: "'a::len word"
  assumes "x < y"
  shows "unat (x + 1) = Suc (unat x)"
proof -
  have "Suc (unat x) < 2 ^ LENGTH('a)"
    using assms by (metis Suc_leI le_less_trans unsigned_less word_less_nat_alt)
  then show ?thesis
    by (simp add: unat_word_ariths)
qed

lemma unat_plus1_le:
  fixes x y :: "'a::len word"
  assumes "x < y"
  shows "x + 1 \<le> y"
  using assms unat_plus1 [OF assms] by (simp add: word_le_nat_alt word_less_nat_alt)

lemma div_power_Suc: "(j::nat) div 2 ^ Suc l = j div 2 ^ l div 2"
  by (metis div_mult2_eq mult.commute power_Suc)

text \<open>The two children of the parent of an index.\<close>

lemma children_of_parent:
  fixes i :: u32
  shows "(if i mod 2 \<noteq> 0 then (i - 1, i) else (i, i + 1)) = (2 * (i div 2), 2 * (i div 2) + 1)"
  using mult_div_mod_eq [of 2 i] by (cases "i mod 2 = 0") (simp, simp, metis add_diff_cancel_right')

lemma unat_children:
  fixes i :: u32
  shows "unat (2 * (i div 2)) = 2 * (unat i div 2)" "unat (2 * (i div 2) + 1) = 2 * (unat i div 2) + 1"
proof -
  have "unat i < 2 ^ 32"
    using unsigned_less [of i, where ?'a = nat] by simp
  then have *: "2 * (unat i div 2) + 1 < 2 ^ 32"
    by (simp; presburger)
  then show "unat (2 * (i div 2)) = 2 * (unat i div 2)"
    by (simp add: unat_word_ariths unat_div)
  with * show "unat (2 * (i div 2) + 1) = 2 * (unat i div 2) + 1"
    by (simp add: unat_word_ariths)
qed

section \<open>Errors of the Go service\<close>

text \<open>
  \<open>types.ErrNotFound\<close>, the error of a cancelled context, errors made by \<open>fmt.Errorf\<close> without
  \<open>%w\<close> (by their constant text), errors that wrap another one with \<open>%w\<close>, errors that come from
  the database, and run-time panics.
\<close>

datatype goerr =
    ErrNotFound
  | ErrCanceled
  | ErrDB string
  | ErrNew string
  | Wrap string goerr
  | Panic string

text \<open>\<open>errors.Is\<close> follows the chain of wrapped errors.\<close>

fun errorsIs :: "goerr \<Rightarrow> goerr \<Rightarrow> bool" where
  "errorsIs (Wrap m e) target = (Wrap m e = target \<or> errorsIs e target)"
| "errorsIs e target = (e = target)"

lemma errorsIs_Wrap_NotFound [simp]:
  "errorsIs (Wrap m e) ErrNotFound = errorsIs e ErrNotFound"
  by simp

section \<open>Sequencing fallible steps\<close>

definition bindE :: "'e + 'a \<Rightarrow> ('a \<Rightarrow> 'e + 'b) \<Rightarrow> 'e + 'b" where
  "bindE m f = (case m of Inl e \<Rightarrow> Inl e | Inr x \<Rightarrow> f x)"

lemma bindE_simps [simp, go_simps]:
  "bindE (Inl e) f = Inl e"
  "bindE (Inr x) f = f x"
  by (simp_all add: bindE_def)

lemma bindE_Inr_iff: "bindE m f = Inr y \<longleftrightarrow> (\<exists>x. m = Inr x \<and> f x = Inr y)"
  by (cases m) auto

lemma bindE_assoc: "bindE (bindE m f) g = bindE m (\<lambda>x. bindE (f x) g)"
  by (cases m) auto

text \<open>\<open>fmt.Errorf("msg: %w", err)\<close> on the error path.\<close>

definition wrapE :: "string \<Rightarrow> goerr + 'a \<Rightarrow> goerr + 'a" where
  "wrapE msg m = (case m of Inl e \<Rightarrow> Inl (Wrap msg e) | Inr x \<Rightarrow> Inr x)"

lemma wrapE_simps [simp, go_simps]:
  "wrapE msg (Inl e) = Inl (Wrap msg e)"
  "wrapE msg (Inr x) = Inr x"
  by (simp_all add: wrapE_def)

lemma wrapE_Inr_iff [simp]: "wrapE msg m = Inr x \<longleftrightarrow> m = Inr x"
  by (cases m) auto

text \<open>A slice read: Go panics out of range.\<close>

definition goIndex :: "'a list \<Rightarrow> nat \<Rightarrow> goerr + 'a" where
  "goIndex xs i = (if i < length xs then Inr (xs ! i) else Inl (Panic ''index out of range''))"

lemma goIndex_in [simp, go_simps]: "i < length xs \<Longrightarrow> goIndex xs i = Inr (xs ! i)"
  by (simp add: goIndex_def)

subsection \<open>Steps that also change a state\<close>

type_synonym ('s, 'a) go = "'s \<Rightarrow> (goerr + 'a) \<times> 's"

definition retG :: "'a \<Rightarrow> ('s, 'a) go" where
  "retG x = (\<lambda>s. (Inr x, s))"

definition raiseG :: "goerr \<Rightarrow> ('s, 'a) go" where
  "raiseG e = (\<lambda>s. (Inl e, s))"

definition bindG :: "('s, 'a) go \<Rightarrow> ('a \<Rightarrow> ('s, 'b) go) \<Rightarrow> ('s, 'b) go" where
  "bindG m f = (\<lambda>s. case m s of (Inl e, s') \<Rightarrow> (Inl e, s') | (Inr x, s') \<Rightarrow> f x s')"

definition wrapG :: "string \<Rightarrow> ('s, 'a) go \<Rightarrow> ('s, 'a) go" where
  "wrapG msg m = (\<lambda>s. case m s of (r, s') \<Rightarrow> (wrapE msg r, s'))"

lemma retG_apply [simp, go_simps]: "retG x s = (Inr x, s)"
  by (simp add: retG_def)

lemma raiseG_apply [simp, go_simps]: "raiseG e s = (Inl e, s)"
  by (simp add: raiseG_def)

lemma bindG_Inr [simp, go_simps]: "m s = (Inr x, s') \<Longrightarrow> bindG m f s = f x s'"
  by (simp add: bindG_def)

lemma bindG_Inl [simp, go_simps]: "m s = (Inl e, s') \<Longrightarrow> bindG m f s = (Inl e, s')"
  by (simp add: bindG_def)

lemma wrapG_Inr [simp, go_simps]: "m s = (Inr x, s') \<Longrightarrow> wrapG msg m s = (Inr x, s')"
  by (simp add: wrapG_def)

lemma wrapG_Inl [simp, go_simps]: "m s = (Inl e, s') \<Longrightarrow> wrapG msg m s = (Inl (Wrap msg e), s')"
  by (simp add: wrapG_def)

lemma bindG_eq_Inr:
  "bindG m f s = (Inr y, s'') \<longleftrightarrow> (\<exists>x s'. m s = (Inr x, s') \<and> f x s' = (Inr y, s''))"
  by (auto simp: bindG_def split: prod.splits sum.splits)

text \<open>
  Total correctness of a step: it succeeds and its result and next state satisfy \<open>Q\<close>.
\<close>

definition runs :: "('s, 'a) go \<Rightarrow> 's \<Rightarrow> ('a \<Rightarrow> 's \<Rightarrow> bool) \<Rightarrow> bool" where
  "runs m s Q \<longleftrightarrow> (\<exists>x s'. m s = (Inr x, s') \<and> Q x s')"

lemma runsI: "m s = (Inr x, s') \<Longrightarrow> Q x s' \<Longrightarrow> runs m s Q"
  by (auto simp: runs_def)

lemma runsE:
  assumes "runs m s Q"
  obtains x s' where "m s = (Inr x, s')" "Q x s'"
  using assms by (auto simp: runs_def)

lemma runs_retG [intro!]: "Q x s \<Longrightarrow> runs (retG x) s Q"
  by (simp add: runs_def)

lemma runs_Pair [simp]: "runs (Pair (Inr x)) s Q \<longleftrightarrow> Q x s"
  by (simp add: runs_def)

lemma runs_bindG: "runs m s (\<lambda>x s'. runs (f x) s' Q) \<Longrightarrow> runs (bindG m f) s Q"
  by (auto simp: runs_def bindG_def)

lemma runs_wrapG: "runs m s Q \<Longrightarrow> runs (wrapG msg m) s Q"
  by (auto simp: runs_def wrapG_def)

lemma runs_mono: "runs m s Q \<Longrightarrow> (\<And>x s'. Q x s' \<Longrightarrow> R x s') \<Longrightarrow> runs m s R"
  by (auto simp: runs_def)

lemma wrapG_eq_Inr: "wrapG msg m s = (Inr y, s') \<longleftrightarrow> m s = (Inr y, s')"
  by (cases "m s") (auto simp: wrapG_def)

text \<open>
  Partial correctness of a step: if it succeeds, its result and next state satisfy \<open>Q\<close>.
\<close>

definition safe :: "('s, 'a) go \<Rightarrow> 's \<Rightarrow> ('a \<Rightarrow> 's \<Rightarrow> bool) \<Rightarrow> bool" where
  "safe m s Q \<longleftrightarrow> (\<forall>x s'. m s = (Inr x, s') \<longrightarrow> Q x s')"

lemma safeD: "safe m s Q \<Longrightarrow> m s = (Inr x, s') \<Longrightarrow> Q x s'"
  by (simp add: safe_def)

lemma runs_safe: "runs m s Q \<Longrightarrow> safe m s Q"
  by (auto simp: runs_def safe_def)

lemma safe_bindG: "safe m s (\<lambda>x s'. safe (f x) s' Q) \<Longrightarrow> safe (bindG m f) s Q"
  by (auto simp: safe_def bindG_eq_Inr)

lemma safe_wrapG: "safe m s Q \<Longrightarrow> safe (wrapG msg m) s Q"
  by (auto simp: safe_def wrapG_eq_Inr)

lemma safe_raiseG [simp]: "safe (raiseG e) s Q"
  by (simp add: safe_def)

lemma safe_Pair [simp]: "safe (Pair (Inr x)) s Q \<longleftrightarrow> Q x s"
  by (simp add: safe_def)

lemma safe_Pair_Inl [simp]: "safe (Pair (Inl e)) s Q"
  by (simp add: safe_def)

lemma safe_retG [simp]: "safe (retG x) s Q \<longleftrightarrow> Q x s"
  by (simp add: safe_def)

lemma safe_mono: "safe m s Q \<Longrightarrow> (\<And>x s'. Q x s' \<Longrightarrow> R x s') \<Longrightarrow> safe m s R"
  by (auto simp: safe_def)

end
