(* ===== verification/Big_Endian.thy ===== *)
theory Big_Endian
  imports Prelude
begin

unbundle bit_operations_syntax

text \<open>
  Byte strings: the fixed-width integers of \<open>encoding/binary\<close> in big-endian order as
  \<open>internal/utils/uint.go\<close> uses them, and the writes into a key buffer.
\<close>

section \<open>Fixed-width integers\<close>

definition be32 :: "u32 \<Rightarrow> bytes" where
  "be32 v = [ucast (drop_bit 24 v), ucast (drop_bit 16 v), ucast (drop_bit 8 v), ucast v]"

definition be64 :: "u64 \<Rightarrow> bytes" where
  "be64 v = [ucast (drop_bit 56 v), ucast (drop_bit 48 v), ucast (drop_bit 40 v), ucast (drop_bit 32 v),
             ucast (drop_bit 24 v), ucast (drop_bit 16 v), ucast (drop_bit 8 v), ucast v]"

text \<open>\<open>binary.BigEndian.Uint32\<close> and \<open>Uint64\<close> read the first bytes and panic on a shorter slice.\<close>

fun Uint32 :: "bytes \<Rightarrow> goerr + u32" where
  "Uint32 (a # b # c # d # _) =
     Inr (push_bit 24 (ucast a) OR push_bit 16 (ucast b) OR push_bit 8 (ucast c) OR ucast d)"
| "Uint32 _ = Inl (Panic ''index out of range'')"

fun Uint64 :: "bytes \<Rightarrow> goerr + u64" where
  "Uint64 (a # b # c # d # e # f # g # h # _) =
     Inr (push_bit 56 (ucast a) OR push_bit 48 (ucast b) OR push_bit 40 (ucast c) OR
          push_bit 32 (ucast d) OR push_bit 24 (ucast e) OR push_bit 16 (ucast f) OR
          push_bit 8 (ucast g) OR ucast h)"
| "Uint64 _ = Inl (Panic ''index out of range'')"

definition Uint64ToBigEndian :: "u64 \<Rightarrow> bytes" where
  "Uint64ToBigEndian i = be64 i"

definition BigEndianToUint64 :: "bytes \<Rightarrow> goerr + u64" where
  "BigEndianToUint64 bz = (if length bz = 0 then Inr 0 else Uint64 bz)"

definition Uint8ToBigEndian :: "u8 \<Rightarrow> bytes" where
  "Uint8ToBigEndian i = [i]"

definition BigEndianToUint8 :: "bytes \<Rightarrow> u8" where
  "BigEndianToUint8 bz = (case bz of [] \<Rightarrow> 0 | b # _ \<Rightarrow> b)"

definition Uint32ToBigEndian :: "u32 \<Rightarrow> bytes" where
  "Uint32ToBigEndian i = be32 i"

definition BigEndianToUint32 :: "bytes \<Rightarrow> goerr + u32" where
  "BigEndianToUint32 bz = (if length bz = 0 then Inr 0 else Uint32 bz)"

section \<open>Writing into a buffer\<close>

text \<open>\<open>copy(dst[n:], src)\<close>: as many bytes as fit.\<close>

definition copyAt :: "bytes \<Rightarrow> nat \<Rightarrow> bytes \<Rightarrow> bytes" where
  "copyAt dst n src = take n dst @ take (length dst - n) src @ drop (n + length src) dst"

lemma length_be [simp]: "length (be32 v) = 4" "length (be64 w) = 8"
  by (simp_all add: be32_def be64_def)

lemma be32_join:
  fixes v :: u32
  shows "push_bit 24 (ucast (ucast (drop_bit 24 v) :: u8)) OR push_bit 16 (ucast (ucast (drop_bit 16 v) :: u8)) OR
    push_bit 8 (ucast (ucast (drop_bit 8 v) :: u8)) OR ucast (ucast v :: u8) = v"
proof (rule bit_word_eqI)
  fix n
  assume "n < LENGTH(32)"
  then consider "n < 8" | "8 \<le> n" "n < 16" | "16 \<le> n" "n < 24" | "24 \<le> n" "n < 32"
    by atomize_elim (simp; arith)
  then show "bit (push_bit 24 (ucast (ucast (drop_bit 24 v) :: u8)) OR push_bit 16 (ucast (ucast (drop_bit 16 v) :: u8)) OR
    push_bit 8 (ucast (ucast (drop_bit 8 v) :: u8)) OR ucast (ucast v :: u8) :: u32) n = bit v n"
    by cases (simp_all add: bit_simps less_diff_conv2)
qed

lemma Uint32_be32 [simp]: "Uint32 (be32 v @ xs) = Inr v"
  by (simp add: be32_def be32_join)

lemma be64_join:
  fixes v :: u64
  shows "push_bit 56 (ucast (ucast (drop_bit 56 v) :: u8)) OR push_bit 48 (ucast (ucast (drop_bit 48 v) :: u8)) OR
    push_bit 40 (ucast (ucast (drop_bit 40 v) :: u8)) OR push_bit 32 (ucast (ucast (drop_bit 32 v) :: u8)) OR
    push_bit 24 (ucast (ucast (drop_bit 24 v) :: u8)) OR push_bit 16 (ucast (ucast (drop_bit 16 v) :: u8)) OR
    push_bit 8 (ucast (ucast (drop_bit 8 v) :: u8)) OR ucast (ucast v :: u8) = v"
proof (rule bit_word_eqI)
  fix n
  assume "n < LENGTH(64)"
  then consider "n < 8" | "8 \<le> n" "n < 16" | "16 \<le> n" "n < 24" | "24 \<le> n" "n < 32" | "32 \<le> n" "n < 40" | "40 \<le> n" "n < 48" | "48 \<le> n" "n < 56" | "56 \<le> n" "n < 64"
    by atomize_elim (simp; arith)
  then show "bit (push_bit 56 (ucast (ucast (drop_bit 56 v) :: u8)) OR push_bit 48 (ucast (ucast (drop_bit 48 v) :: u8)) OR
    push_bit 40 (ucast (ucast (drop_bit 40 v) :: u8)) OR push_bit 32 (ucast (ucast (drop_bit 32 v) :: u8)) OR
    push_bit 24 (ucast (ucast (drop_bit 24 v) :: u8)) OR push_bit 16 (ucast (ucast (drop_bit 16 v) :: u8)) OR
    push_bit 8 (ucast (ucast (drop_bit 8 v) :: u8)) OR ucast (ucast v :: u8) :: u64) n = bit v n"
    by cases (simp_all add: bit_simps less_diff_conv2)
qed

lemma Uint64_be64 [simp]: "Uint64 (be64 v @ xs) = Inr v"
  by (simp add: be64_def be64_join)

lemma be32_inject [simp]: "be32 v = be32 w \<longleftrightarrow> v = w"
  by (metis Uint32_be32 append_Nil2 sum.inject(2))

lemma be64_inject [simp]: "be64 v = be64 w \<longleftrightarrow> v = w"
  by (metis Uint64_be64 append_Nil2 sum.inject(2))

end
