(* ===== verification/Storage_Keys.thy ===== *)
theory Storage_Keys
  imports Big_Endian
begin

text \<open>
  Database keys: the prefixes of \<open>internal/storage/keys.go\<close> and the key of every stored object
  (\<open>leaf_storage.go\<close>, \<open>index_storage.go\<close>, \<open>metadata_storage.go\<close>, \<open>job_storage.go\<close>).  All components
  share one key-value database, so the keys must not collide.

  \<open>uint256.Int.Bytes\<close>, \<open>SetBytes\<close>, \<open>Bytes32\<close>, \<open>FromDecimal\<close> and \<open>String\<close> belong to a package outside the
  repository: they are the argument \<open>U\<close>, and the locale \<open>u256_codec\<close> states their documented
  behaviour.
\<close>

section \<open>256-bit integers as bytes and decimal strings\<close>

record u256_ops =
  uBytes :: "u256 \<Rightarrow> bytes"
  uSetBytes :: "bytes \<Rightarrow> u256"
  uBytes32 :: "u256 \<Rightarrow> bytes"
  uFromDecimal :: "string \<Rightarrow> goerr + u256"
  uString :: "u256 \<Rightarrow> string"

locale u256_codec =
  fixes U :: u256_ops
  assumes SetBytes_Bytes: "uSetBytes U (uBytes U x) = x"
    and Bytes_zero: "uBytes U x = [] \<longleftrightarrow> x = 0"
    and length_Bytes32: "length (uBytes32 U x) = 32"
    and SetBytes_Bytes32: "uSetBytes U (uBytes32 U x) = x"
    and FromDecimal_String: "uFromDecimal U (uString U x) = Inr x"
begin

lemma Bytes_inject: "uBytes U x = uBytes U y \<longleftrightarrow> x = y"
  by (metis SetBytes_Bytes)

lemma Bytes32_inject: "uBytes32 U x = uBytes32 U y \<longleftrightarrow> x = y"
  by (metis SetBytes_Bytes32)

end

section \<open>Prefixes and lengths\<close>

definition PrefixLength :: nat where "PrefixLength = 1"

definition JobKeyPrefix :: u8 where "JobKeyPrefix = 0x00"
definition MerkleTreeLeafKeyPrefix :: u8 where "MerkleTreeLeafKeyPrefix = 0x01"
definition MerkleTreeLeafIndexPrefix :: u8 where "MerkleTreeLeafIndexPrefix = 0x02"
definition ZKCertificateRegistryKeyPrefix :: u8 where "ZKCertificateRegistryKeyPrefix = 0x03"
definition ZKCertificateRegistryIndexPrefix :: u8 where "ZKCertificateRegistryIndexPrefix = 0x04"
definition ZKCertificateRegistryCounterPrefix :: u8 where "ZKCertificateRegistryCounterPrefix = 0x05"

definition TreeLevelTypeLength :: nat where "TreeLevelTypeLength = 1"
definition LeafIndexTypeLength :: nat where "LeafIndexTypeLength = 4"
definition LeafValueTypeLength :: nat where "LeafValueTypeLength = 32"
definition ZKCertificateRegistryIndexLength :: nat where "ZKCertificateRegistryIndexLength = 1"
definition AddressLength :: nat where "AddressLength = 20"
definition BlockTypeLength :: nat where "BlockTypeLength = 8"

definition LeafKeyLength :: nat where
  "LeafKeyLength = PrefixLength + ZKCertificateRegistryIndexLength + TreeLevelTypeLength + LeafIndexTypeLength"

definition LeafIndexBytesSize :: nat where
  "LeafIndexBytesSize = PrefixLength + ZKCertificateRegistryIndexLength + LeafValueTypeLength"

definition zkCertificateRegistryKeyLength :: nat where
  "zkCertificateRegistryKeyLength = PrefixLength + AddressLength"

lemmas length_defs = PrefixLength_def TreeLevelTypeLength_def LeafIndexTypeLength_def
  LeafValueTypeLength_def ZKCertificateRegistryIndexLength_def AddressLength_def BlockTypeLength_def
  LeafKeyLength_def LeafIndexBytesSize_def zkCertificateRegistryKeyLength_def

lemmas prefix_defs = JobKeyPrefix_def MerkleTreeLeafKeyPrefix_def MerkleTreeLeafIndexPrefix_def
  ZKCertificateRegistryKeyPrefix_def ZKCertificateRegistryIndexPrefix_def
  ZKCertificateRegistryCounterPrefix_def

section \<open>Keys\<close>

text \<open>\<open>common.Address\<close> is an array of 20 bytes.\<close>

type_synonym address = bytes

definition addressOk :: "address \<Rightarrow> bool" where
  "addressOk a \<longleftrightarrow> length a = AddressLength"

definition makeLeafKey :: "u8 \<Rightarrow> u8 \<Rightarrow> u32 \<Rightarrow> bytes" where
  "makeLeafKey registryIndex level index =
     (let key = replicate LeafKeyLength 0;
          key = key[0 := MerkleTreeLeafKeyPrefix];
          key = key[PrefixLength := registryIndex];
          key = key[PrefixLength + ZKCertificateRegistryIndexLength := level]
      in copyAt key (PrefixLength + ZKCertificateRegistryIndexLength + TreeLevelTypeLength) (be32 index))"

definition makeLeafIndexKey :: "u256_ops \<Rightarrow> u8 \<Rightarrow> u256 \<Rightarrow> bytes" where
  "makeLeafIndexKey U registryIndex v =
     (let leafValueBytes = uBytes32 U v;
          key = replicate LeafIndexBytesSize 0;
          key = key[0 := MerkleTreeLeafIndexPrefix];
          key = key[PrefixLength := registryIndex]
      in copyAt key (PrefixLength + ZKCertificateRegistryIndexLength) (take LeafValueTypeLength leafValueBytes))"

definition makeRegistryIndexKey :: "address \<Rightarrow> bytes" where
  "makeRegistryIndexKey contractAddr =
     (let key = replicate zkCertificateRegistryKeyLength 0;
          key = key[0 := ZKCertificateRegistryIndexPrefix]
      in copyAt key PrefixLength (take AddressLength contractAddr))"

definition makeRegistryIndexCounterKey :: bytes where
  "makeRegistryIndexCounterKey = [ZKCertificateRegistryCounterPrefix]"

definition makeZKCertificateRegistryKey :: "address \<Rightarrow> bytes" where
  "makeZKCertificateRegistryKey address =
     (let key = replicate (PrefixLength + AddressLength) 0;
          key = key[0 := ZKCertificateRegistryKeyPrefix]
      in copyAt key PrefixLength (take AddressLength address))"

record job_descriptor =
  jdAddress :: address
  jdContract :: u8
  jdStartBlock :: u64

definition makeJobKey :: "job_descriptor \<Rightarrow> bytes" where
  "makeJobKey job =
     [JobKeyPrefix] @ take AddressLength (jdAddress job) @ [jdContract job] @
     take BlockTypeLength (Uint64ToBigEndian (jdStartBlock job))"

section \<open>Layout\<close>

lemma makeLeafKey_layout [key_simps]: "makeLeafKey r l i = MerkleTreeLeafKeyPrefix # r # l # be32 i"
  by (simp add: makeLeafKey_def length_defs copyAt_def be32_def numeral_eq_Suc)

lemma makeLeafIndexKey_layout [key_simps]:
  "u256_codec U \<Longrightarrow> makeLeafIndexKey U r v = MerkleTreeLeafIndexPrefix # r # uBytes32 U v"
  by (simp add: makeLeafIndexKey_def length_defs copyAt_def u256_codec.length_Bytes32 numeral_eq_Suc)

lemma makeRegistryIndexKey_layout [key_simps]:
  "addressOk a \<Longrightarrow> makeRegistryIndexKey a = ZKCertificateRegistryIndexPrefix # a"
  by (simp add: makeRegistryIndexKey_def length_defs copyAt_def addressOk_def numeral_eq_Suc)

lemma makeZKCertificateRegistryKey_layout [key_simps]:
  "addressOk a \<Longrightarrow> makeZKCertificateRegistryKey a = ZKCertificateRegistryKeyPrefix # a"
  by (simp add: makeZKCertificateRegistryKey_def length_defs copyAt_def addressOk_def numeral_eq_Suc)

lemma makeJobKey_layout [key_simps]:
  "addressOk (jdAddress j) \<Longrightarrow>
    makeJobKey j = JobKeyPrefix # jdAddress j @ jdContract j # be64 (jdStartBlock j)"
  by (simp add: makeJobKey_def length_defs addressOk_def Uint64ToBigEndian_def)

lemma makeLeafKey_inject [simp]:
  "makeLeafKey r l i = makeLeafKey r' l' i' \<longleftrightarrow> r = r' \<and> l = l' \<and> i = i'"
  by (simp add: key_simps)

lemma keys_nonempty [simp]:
  "makeLeafKey r l i \<noteq> []" "makeRegistryIndexCounterKey \<noteq> []" "makeJobKey j \<noteq> []"
  by (simp_all add: makeLeafKey_layout makeRegistryIndexCounterKey_def makeJobKey_def)

end
