(* ===== verification/Kv_Store.thy ===== *)
theory Kv_Store
  imports Prelude
begin

text \<open>
  The key-value database.  \<open>cometbft-db\<close> is outside the repository: its interfaces \<open>db.DB\<close> and
  \<open>db.Batch\<close> are the record \<open>db_ops\<close> over a database state \<open>'d\<close> and a batch state \<open>'b\<close>, and every
  storage operation takes it as its argument \<open>D\<close>.  The locale \<open>kv_db\<close> is the documented contract:
  a database is a finite map from non-empty keys to values, a read of an absent key returns nil, a
  batch collects writes and deletes in order, and \<open>WriteSync\<close> applies them together.

  The in-memory database at the end satisfies the contract.
\<close>

record ('d, 'b) db_ops =
  dbGet :: "'d \<Rightarrow> bytes \<Rightarrow> goerr + bytes"
  dbSet :: "bytes \<Rightarrow> bytes \<Rightarrow> ('d, unit) go"
  dbNewBatch :: "'d \<Rightarrow> 'b"
  batchSet :: "bytes \<Rightarrow> bytes \<Rightarrow> ('b, unit) go"
  batchDelete :: "bytes \<Rightarrow> ('b, unit) go"
  batchWriteSync :: "('d \<times> 'b, unit) go"

type_synonym kv = "bytes \<rightharpoonup> bytes"

text \<open>Writes a batch has collected: \<open>Some None\<close> is a delete.\<close>

type_synonym overlay = "bytes \<rightharpoonup> bytes option"

definition applyOverlay :: "overlay \<Rightarrow> kv \<Rightarrow> kv" where
  "applyOverlay ov m = (\<lambda>k. case ov k of None \<Rightarrow> m k | Some v \<Rightarrow> v)"

lemma applyOverlay_simps [simp]:
  "ov k = None \<Longrightarrow> applyOverlay ov m k = m k"
  "ov k = Some v \<Longrightarrow> applyOverlay ov m k = v"
  by (simp_all add: applyOverlay_def)

lemma applyOverlay_empty [simp]: "applyOverlay Map.empty m = m"
  by (simp add: applyOverlay_def)

text \<open>What a read returns: the nil slice for an absent key.\<close>

definition kvRead :: "kv \<Rightarrow> bytes \<Rightarrow> bytes" where
  "kvRead m k = (case m k of None \<Rightarrow> [] | Some v \<Rightarrow> v)"

lemma kvRead_simps [simp]:
  "m k = None \<Longrightarrow> kvRead m k = []"
  "m k = Some v \<Longrightarrow> kvRead m k = v"
  by (simp_all add: kvRead_def)

locale kv_db =
  fixes D :: "('d, 'b) db_ops"
    and content :: "'d \<Rightarrow> kv"
    and pending :: "'b \<Rightarrow> overlay"
    and isOpen :: "'b \<Rightarrow> bool"
  assumes get_ok: "k \<noteq> [] \<Longrightarrow> dbGet D d k = Inr (kvRead (content d) k)"
    and set_ok: "k \<noteq> [] \<Longrightarrow> \<exists>d'. dbSet D k v d = (Inr (), d') \<and> content d' = (content d)(k \<mapsto> v)"
    and new_ok: "isOpen (dbNewBatch D d) \<and> pending (dbNewBatch D d) = Map.empty"
    and bset_ok: "isOpen b \<Longrightarrow> k \<noteq> [] \<Longrightarrow>
      \<exists>b'. batchSet D k v b = (Inr (), b') \<and> isOpen b' \<and> pending b' = (pending b)(k \<mapsto> Some v)"
    and bdelete_ok: "isOpen b \<Longrightarrow> k \<noteq> [] \<Longrightarrow>
      \<exists>b'. batchDelete D k b = (Inr (), b') \<and> isOpen b' \<and> pending b' = (pending b)(k \<mapsto> None)"
    and write_ok: "isOpen b \<Longrightarrow>
      \<exists>d' b'. batchWriteSync D (d, b) = (Inr (), (d', b')) \<and> content d' = applyOverlay (pending b) (content d)"

section \<open>The in-memory database\<close>

text \<open>
  The database is the map itself; a batch is open with its writes, or closed after \<open>WriteSync\<close>.
\<close>

datatype mem_batch = MemOpen overlay | MemClosed

definition errKeyEmpty :: goerr where "errKeyEmpty = ErrDB ''key cannot be empty''"
definition errBatchClosed :: goerr where "errBatchClosed = ErrDB ''batch has been written or closed''"

definition memBatchWrite :: "bytes \<Rightarrow> bytes option \<Rightarrow> (mem_batch, unit) go" where
  "memBatchWrite k v b = (if k = [] then (Inl errKeyEmpty, b) else
     case b of MemClosed \<Rightarrow> (Inl errBatchClosed, b) | MemOpen ov \<Rightarrow> (Inr (), MemOpen (ov(k \<mapsto> v))))"

definition memdb :: "(kv, mem_batch) db_ops" where
  "memdb = \<lparr>
     dbGet = (\<lambda>d k. if k = [] then Inl errKeyEmpty else Inr (kvRead d k)),
     dbSet = (\<lambda>k v d. if k = [] then (Inl errKeyEmpty, d) else (Inr (), d(k \<mapsto> v))),
     dbNewBatch = (\<lambda>d. MemOpen Map.empty),
     batchSet = (\<lambda>k v. memBatchWrite k (Some v)),
     batchDelete = (\<lambda>k. memBatchWrite k None),
     batchWriteSync = (\<lambda>(d, b). case b of MemClosed \<Rightarrow> (Inl errBatchClosed, (d, b))
        | MemOpen ov \<Rightarrow> (Inr (), (applyOverlay ov d, MemClosed)))\<rparr>"

definition memPending :: "mem_batch \<Rightarrow> overlay" where
  "memPending b = (case b of MemOpen ov \<Rightarrow> ov | MemClosed \<Rightarrow> Map.empty)"

definition memIsOpen :: "mem_batch \<Rightarrow> bool" where
  "memIsOpen b = (b \<noteq> MemClosed)"

interpretation memdb: kv_db memdb "\<lambda>d. d" memPending memIsOpen
  by unfold_locales
     (auto simp: memdb_def memBatchWrite_def memPending_def memIsOpen_def split: mem_batch.splits)

end
