(* ===== verification/Sparse_Tree.thy ===== *)
theory Sparse_Tree
  imports Prelude
begin

unbundle bit_operations_syntax

text \<open>
  The sparse Merkle tree of \<open>internal/zkregistry/sparse_tree.go\<close>: the tree structure with its
  lazily filled cache of empty-branch hashes, the reads that fall back from a batch to the storage
  and from the storage to the empty branch, insertion of one leaf and of many leaves, and proofs.

  The Poseidon hash is a package outside the repository and is the argument \<open>P\<close> of every
  definition that hashes.  \<open>uint256.Int\<close> is a 256-bit word; \<open>ToBig\<close> and \<open>FromBig\<close> are \<open>unat\<close> and the
  reduction modulo \<open>2 ^ 256\<close> with its overflow flag.
\<close>

section \<open>Data\<close>

type_synonym tree_level = u8
type_synonym leaf_index = u32
type_synonym poseidon = "nat list \<Rightarrow> goerr + nat"
type_synonym leaf_getter = "tree_level \<Rightarrow> leaf_index \<Rightarrow> goerr + u256"

definition maxIterationsEmptyLeafProof :: nat where
  "maxIterationsEmptyLeafProof = 10"

text \<open>
  \<open>storageLeafGetter\<close> is the interface value the tree reads from; \<open>emptyBranchLevels\<close> is \<open>None\<close>
  while the Go slice is nil.
\<close>

record sparse_tree =
  emtpyLeaf :: u256
  depth :: tree_level
  emptyBranchLevels :: "u256 list option"
  storageLeafGetter :: leaf_getter

record merkle_proof =
  Leaf :: u256
  Path :: "u256 list"
  Index :: leaf_index
  Root :: u256

record tree_leaf =
  leafIndex :: leaf_index
  leafValue :: u256

text \<open>
  The interface \<open>TreeLeafGetterSetter\<close> of a batch with state \<open>'b\<close>.
\<close>

record 'b batch_ops =
  batchGetLeaf :: "'b \<Rightarrow> leaf_getter"
  batchSetLeaf :: "tree_level \<Rightarrow> leaf_index \<Rightarrow> u256 \<Rightarrow> ('b, unit) go"

text \<open>
  What a tree operation reads and changes: the tree (its cache), the batch, the context and the
  random number generator.  The context is the number of polls of \<open>ctx.Done()\<close> that still find it
  alive, \<open>None\<close> for a context that is never cancelled.
\<close>

type_synonym ctx = "nat option"

record ('b, 'g) world =
  w_tree :: sparse_tree
  w_batch :: 'b
  w_ctx :: ctx
  w_rng :: 'g

definition NewSparseTree :: "tree_level \<Rightarrow> u256 \<Rightarrow> leaf_getter \<Rightarrow> goerr + sparse_tree" where
  "NewSparseTree d emptyLeafValue getter =
     Inr \<lparr>emtpyLeaf = emptyLeafValue, depth = d, emptyBranchLevels = None,
          storageLeafGetter = getter\<rparr>"

text \<open>The \<open>select\<close> on \<open>ctx.Done()\<close> with a default branch.\<close>

definition pollCtx :: "(('b, 'g) world, unit) go" where
  "pollCtx w = (case w_ctx w of
       None \<Rightarrow> (Inr (), w)
     | Some 0 \<Rightarrow> (Inl ErrCanceled, w)
     | Some (Suc n) \<Rightarrow> (Inr (), w\<lparr>w_ctx := Some n\<rparr>))"

section \<open>Hashing and empty branches\<close>

definition calculateHash :: "poseidon \<Rightarrow> u256 \<Rightarrow> u256 \<Rightarrow> goerr + u256" where
  "calculateHash P left right =
     bindE (wrapE ''compute hash'' (P [unat left, unat right]))
       (\<lambda>hash. if hash < 2 ^ 256 then Inr (word_of_nat hash) else Inl (ErrNew ''invalid hash''))"

text \<open>
  The loop of \<open>calculateEmptyBranchHashes\<close> from level \<open>i\<close> on: \<open>levels\<close> is the slice of length
  \<open>depth + 1\<close>, an addition of \<open>uint8\<close>, and is written at index \<open>i\<close>.  The loop counter is the
  \<open>uint8\<close> \<open>i\<close> read as a number; the loop is entered with a slice longer than \<open>depth\<close> only, so the
  counter does not wrap.
\<close>

function emptyBranchLoop :: "poseidon \<Rightarrow> nat \<Rightarrow> nat \<Rightarrow> u256 list \<Rightarrow> goerr + u256 list" where
  "emptyBranchLoop P d i levels =
     (if i \<le> d then
        bindE (goIndex levels (i - 1)) (\<lambda>prevHash.
        bindE (wrapE ''compute hash for level'' (calculateHash P prevHash prevHash)) (\<lambda>hash.
        if i < length levels then emptyBranchLoop P d (Suc i) (levels[i := hash])
        else Inl (Panic ''index out of range'')))
      else Inr levels)"
  by pat_completeness auto
termination
  by (relation "measure (\<lambda>(P, d, i, levels). Suc d - i)") auto

declare emptyBranchLoop.simps [simp del]

definition calculateEmptyBranchHashes :: "poseidon \<Rightarrow> sparse_tree \<Rightarrow> goerr + u256 list" where
  "calculateEmptyBranchHashes P t =
     (if depth t < 1 then Inl (ErrNew ''invalid tree depth'')
      else let n = unat (depth t + 1)
           in if n = 0 then Inl (Panic ''index out of range'')
              else emptyBranchLoop P (unat (depth t)) 1 ((replicate n 0)[0 := emtpyLeaf t]))"

definition getEmptyBranchValue :: "poseidon \<Rightarrow> tree_level \<Rightarrow> (('b, 'g) world, u256) go" where
  "getEmptyBranchValue P level w =
     (let t = w_tree w in
      if level > depth t then (Inl (ErrNew ''invalid level inside a tree''), w)
      else case emptyBranchLevels t of
             Some levels \<Rightarrow> (goIndex levels (unat level), w)
           | None \<Rightarrow>
               (case wrapE ''calculate empty branch hashes'' (calculateEmptyBranchHashes P t) of
                  Inl e \<Rightarrow> (Inl e, w)
                | Inr levels \<Rightarrow>
                    (goIndex levels (unat level),
                     w\<lparr>w_tree := t\<lparr>emptyBranchLevels := Some levels\<rparr>\<rparr>)))"

section \<open>Reading nodes\<close>

definition getLeafFromStorage ::
    "poseidon \<Rightarrow> tree_level \<Rightarrow> leaf_index \<Rightarrow> (('b, 'g) world, u256) go" where
  "getLeafFromStorage P level index w =
     (let t = w_tree w in
      if level > depth t then (Inl (ErrNew ''invalid level inside a tree''), w)
      else case storageLeafGetter t level index of
             Inr leaf \<Rightarrow> (Inr leaf, w)
           | Inl err \<Rightarrow>
               if \<not> errorsIs err ErrNotFound then (Inl (Wrap ''get TreeLeaf'' err), w)
               else getEmptyBranchValue P level w)"

definition getLeafFromBatchOrStorage ::
    "poseidon \<Rightarrow> 'b batch_ops \<Rightarrow> tree_level \<Rightarrow> leaf_index \<Rightarrow> (('b, 'g) world, u256) go" where
  "getLeafFromBatchOrStorage P B level index w =
     (case batchGetLeaf B (w_batch w) level index of
        Inr node \<Rightarrow> (Inr node, w)
      | Inl err \<Rightarrow>
          if errorsIs err ErrNotFound
          then wrapG ''get leaf from storage'' (getLeafFromStorage P level index) w
          else (Inl (Wrap ''get leaf from batch'' err), w))"

definition getSiblingNodes ::
    "poseidon \<Rightarrow> 'b batch_ops \<Rightarrow> tree_level \<Rightarrow> leaf_index \<Rightarrow> (('b, 'g) world, u256 \<times> u256) go" where
  "getSiblingNodes P B level index =
     (let (leftNodeIndex, rightNodeIndex) =
            (if index mod 2 \<noteq> 0 then (index - 1, index) else (index, index + 1))
      in bindG (getLeafFromBatchOrStorage P B level leftNodeIndex) (\<lambda>leftNode.
         bindG (getLeafFromBatchOrStorage P B level rightNodeIndex) (\<lambda>rightNode.
         retG (leftNode, rightNode))))"

definition calculateHashForNode ::
    "poseidon \<Rightarrow> 'b batch_ops \<Rightarrow> tree_level \<Rightarrow> leaf_index \<Rightarrow> (('b, 'g) world, u256) go" where
  "calculateHashForNode P B level index =
     bindG (wrapG ''get sibling nodes'' (getSiblingNodes P B level index))
       (\<lambda>(leftNode, rightNode) w. (calculateHash P leftNode rightNode, w))"

definition GetRoot :: "poseidon \<Rightarrow> (('b, 'g) world, u256) go" where
  "GetRoot P w = getLeafFromStorage P (depth (w_tree w)) 0 w"

section \<open>Insertion\<close>

text \<open>\<open>batch.SetLeaf\<close> on the batch of the world.\<close>

definition setLeaf ::
    "'b batch_ops \<Rightarrow> tree_level \<Rightarrow> leaf_index \<Rightarrow> u256 \<Rightarrow> (('b, 'g) world, unit) go" where
  "setLeaf B level index v w =
     (case batchSetLeaf B level index v (w_batch w) of (r, b) \<Rightarrow> (r, w\<lparr>w_batch := b\<rparr>))"

function insertLeafLoop ::
    "poseidon \<Rightarrow> 'b batch_ops \<Rightarrow> tree_level \<Rightarrow> tree_level \<Rightarrow> leaf_index \<Rightarrow> (('b, 'g) world, unit) go" where
  "insertLeafLoop P B d level index =
     (if level < d then
        bindG (wrapG ''compute node hash'' (calculateHashForNode P B level index)) (\<lambda>nodeHash.
        bindG (wrapG ''set node'' (setLeaf B (level + 1) (index div 2) nodeHash)) (\<lambda>_.
        insertLeafLoop P B d (level + 1) (index div 2)))
      else retG ())"
  by pat_completeness auto
termination
  by (relation "measure (\<lambda>(P, B, d, level, index). unat d - unat level)")
     (auto simp: unat_plus1 word_less_nat_alt)

declare insertLeafLoop.simps [simp del]

definition InsertLeaf ::
    "poseidon \<Rightarrow> 'b batch_ops \<Rightarrow> leaf_index \<Rightarrow> u256 \<Rightarrow> (('b, 'g) world, unit) go" where
  "InsertLeaf P B index v =
     bindG (wrapG ''set leaf'' (setLeaf B 0 index v)) (\<lambda>_ w.
     insertLeafLoop P B (depth (w_tree w)) 0 index w)"

text \<open>
  The loop of \<open>InsertLeaves\<close> over the leaves of one level.  \<open>updatedIndexes\<close> holds the parents
  already hashed on this level; \<open>next\<close> collects the nodes of the level above.
\<close>

fun insertLevel ::
    "poseidon \<Rightarrow> 'b batch_ops \<Rightarrow> tree_level \<Rightarrow> tree_leaf list \<Rightarrow> tree_leaf list \<Rightarrow> leaf_index set
     \<Rightarrow> (('b, 'g) world, tree_leaf list) go" where
  "insertLevel P B level [] next updatedIndexes = retG next"
| "insertLevel P B level (leaf # leaves) next updatedIndexes =
     (let index = leafIndex leaf div 2 in
      if index \<in> updatedIndexes then insertLevel P B level leaves next updatedIndexes
      else
        bindG (wrapG ''compute node hash'' (calculateHashForNode P B level (leafIndex leaf))) (\<lambda>nodeHash.
        bindG (wrapG ''set node'' (setLeaf B (level + 1) index nodeHash)) (\<lambda>_.
        insertLevel P B level leaves (next @ [\<lparr>leafIndex = index, leafValue = nodeHash\<rparr>])
          (insert index updatedIndexes))))"

text \<open>
  From the second level on, \<open>leaves = nextLevelLeaves\<close> and \<open>nextLevelLeaves = nextLevelLeaves[:0]\<close>
  share one backing array \<open>arr\<close>: the loop reads position \<open>i\<close> and the append writes position \<open>k\<close> of
  the same array (the capacity suffices, since \<open>k \<le> i\<close>).  The result is the slice of the first \<open>k\<close>
  elements.
\<close>

function insertLevelShared ::
    "poseidon \<Rightarrow> 'b batch_ops \<Rightarrow> tree_level \<Rightarrow> nat \<Rightarrow> nat \<Rightarrow> tree_leaf list \<Rightarrow> leaf_index set
     \<Rightarrow> (('b, 'g) world, tree_leaf list) go" where
  "insertLevelShared P B level i k arr updatedIndexes =
     (if i < length arr then
        (let leaf = arr ! i; index = leafIndex leaf div 2 in
         if index \<in> updatedIndexes then insertLevelShared P B level (Suc i) k arr updatedIndexes
         else
           bindG (wrapG ''compute node hash'' (calculateHashForNode P B level (leafIndex leaf))) (\<lambda>nodeHash.
           bindG (wrapG ''set node'' (setLeaf B (level + 1) index nodeHash)) (\<lambda>_.
           insertLevelShared P B level (Suc i) (Suc k)
             (arr[k := \<lparr>leafIndex = index, leafValue = nodeHash\<rparr>]) (insert index updatedIndexes))))
      else retG (take k arr))"
  by pat_completeness auto
termination
  by (relation "measure (\<lambda>(P, B, level, i, k, arr, u). length arr - i)") auto

declare insertLevelShared.simps [simp del]

function insertLevels ::
    "poseidon \<Rightarrow> 'b batch_ops \<Rightarrow> tree_level \<Rightarrow> tree_level \<Rightarrow> tree_leaf list \<Rightarrow> (('b, 'g) world, unit) go" where
  "insertLevels P B d level leaves =
     (if level < d then
        bindG (if level = 0 then insertLevel P B level leaves [] {}
               else insertLevelShared P B level 0 0 leaves {}) (\<lambda>nextLevelLeaves.
        insertLevels P B d (level + 1) nextLevelLeaves)
      else retG ())"
  by pat_completeness auto
termination
  by (relation "measure (\<lambda>(P, B, d, level, leaves). unat d - unat level)")
     (auto simp: unat_plus1 word_less_nat_alt)

declare insertLevels.simps [simp del]

fun setLeaves :: "'b batch_ops \<Rightarrow> tree_leaf list \<Rightarrow> (('b, 'g) world, unit) go" where
  "setLeaves B [] = retG ()"
| "setLeaves B (leaf # leaves) =
     bindG (wrapG ''set leaf'' (setLeaf B 0 (leafIndex leaf) (leafValue leaf))) (\<lambda>_.
     setLeaves B leaves)"

definition InsertLeaves ::
    "poseidon \<Rightarrow> 'b batch_ops \<Rightarrow> tree_leaf list \<Rightarrow> (('b, 'g) world, unit) go" where
  "InsertLeaves P B leaves =
     bindG (setLeaves B leaves) (\<lambda>_ w. insertLevels P B (depth (w_tree w)) 0 leaves w)"

section \<open>Proofs\<close>

text \<open>
  The loop of \<open>CreateProof\<close>: the element of the path on each level is the node beside \<open>pathIndex\<close>.
  The slice \<open>pathElements\<close> has length \<open>depth\<close> and is filled from the front.
\<close>

function createProofLoop ::
    "poseidon \<Rightarrow> tree_level \<Rightarrow> tree_level \<Rightarrow> leaf_index \<Rightarrow> (('b, 'g) world, u256 list) go" where
  "createProofLoop P d level pathIndex =
     (if level < d then
        bindG pollCtx (\<lambda>_.
        bindG (if pathIndex mod 2 = 0
               then wrapG ''retrieve right node'' (getLeafFromStorage P level (pathIndex + 1))
               else wrapG ''retrieve left node'' (getLeafFromStorage P level (pathIndex - 1))) (\<lambda>element.
        bindG (createProofLoop P d (level + 1) (pathIndex div 2)) (\<lambda>elements.
        retG (element # elements))))
      else retG [])"
  by pat_completeness auto
termination
  by (relation "measure (\<lambda>(P, d, level, pathIndex). unat d - unat level)")
     (auto simp: unat_plus1 word_less_nat_alt)

declare createProofLoop.simps [simp del]

definition CreateProof :: "poseidon \<Rightarrow> leaf_index \<Rightarrow> (('b, 'g) world, merkle_proof) go" where
  "CreateProof P index =
     bindG (wrapG ''retrieve TreeLeaf'' (getLeafFromStorage P 0 index)) (\<lambda>leaf.
     bindG (\<lambda>w. createProofLoop P (depth (w_tree w)) 0 index w) (\<lambda>pathElements.
     bindG (wrapG ''get root'' (GetRoot P)) (\<lambda>root.
     retG \<lparr>Leaf = leaf, Path = pathElements, Index = index, Root = root\<rparr>)))"

section \<open>Choosing an empty leaf\<close>

definition maxLeaves :: "sparse_tree \<Rightarrow> u64" where
  "maxLeaves t = push_bit (unat (depth t)) 1"

text \<open>
  \<open>rand.Uint64()\<close> is the argument \<open>rand\<close>, a step of the generator state.  The remainder by zero
  panics in Go.
\<close>

definition randomIndex :: "('g \<Rightarrow> u64 \<times> 'g) \<Rightarrow> (('b, 'g) world, leaf_index) go" where
  "randomIndex rand w =
     (let n = maxLeaves (w_tree w); (r, g) = rand (w_rng w); w' = w\<lparr>w_rng := g\<rparr>
      in if n = 0 then (Inl (Panic ''integer divide by zero''), w')
         else (Inr (ucast (r mod n)), w'))"

fun randomEmptyLoop :: "('g \<Rightarrow> u64 \<times> 'g) \<Rightarrow> nat \<Rightarrow> (('b, 'g) world, leaf_index) go" where
  "randomEmptyLoop rand 0 = raiseG (ErrNew ''could not find an empty leaf index'')"
| "randomEmptyLoop rand (Suc maxIterations) =
     bindG pollCtx (\<lambda>_.
     bindG (randomIndex rand) (\<lambda>index w.
       case storageLeafGetter (w_tree w) 0 index of
         Inr v \<Rightarrow> randomEmptyLoop rand maxIterations w
       | Inl err \<Rightarrow> if errorsIs err ErrNotFound then (Inr index, w)
                    else randomEmptyLoop rand maxIterations w))"

definition GetRandomEmptyLeafIndex :: "('g \<Rightarrow> u64 \<times> 'g) \<Rightarrow> (('b, 'g) world, leaf_index) go" where
  "GetRandomEmptyLeafIndex rand = randomEmptyLoop rand maxIterationsEmptyLeafProof"

end
