(* ===== verification/Tree_Spec.thy ===== *)
theory Tree_Spec
  imports Sparse_Tree
begin

text \<open>
  What the sparse tree promises.  \<open>node H lf l i\<close> is the hash of the node at level \<open>l\<close>, index \<open>i\<close> of
  the full binary tree over the leaves \<open>lf\<close>; \<open>computeRoot\<close> recomputes the root from a leaf, a path
  and an index, as a verifier of a proof does.  \<open>nodeView\<close> is the value a read of the model returns
  for a node: from the batch, else from the storage, else the hash of the empty branch.

  The locale \<open>poseidon_field\<close> states what the code relies on of the Poseidon package, the locale
  \<open>leaf_batch\<close> what a tree operation relies on of its batch (the interface \<open>TreeLeafGetterSetter\<close>).
\<close>

section \<open>Reference definitions\<close>

fun node :: "(u256 \<Rightarrow> u256 \<Rightarrow> u256) \<Rightarrow> (nat \<Rightarrow> u256) \<Rightarrow> nat \<Rightarrow> nat \<Rightarrow> u256" where
  "node H lf 0 i = lf i"
| "node H lf (Suc l) i = H (node H lf l (2 * i)) (node H lf l (2 * i + 1))"

fun computeRoot :: "(u256 \<Rightarrow> u256 \<Rightarrow> u256) \<Rightarrow> u256 \<Rightarrow> u256 list \<Rightarrow> nat \<Rightarrow> u256" where
  "computeRoot H x [] i = x"
| "computeRoot H x (s # ss) i =
     computeRoot H (if even i then H x s else H s x) ss (i div 2)"

text \<open>The hash of two nodes where \<open>calculateHash\<close> succeeds.\<close>

definition hashOf :: "poseidon \<Rightarrow> u256 \<Rightarrow> u256 \<Rightarrow> u256" where
  "hashOf P x y = (case calculateHash P x y of Inr h \<Rightarrow> h | Inl _ \<Rightarrow> 0)"

fun emptyHash :: "poseidon \<Rightarrow> u256 \<Rightarrow> nat \<Rightarrow> u256" where
  "emptyHash P e 0 = e"
| "emptyHash P e (Suc l) = hashOf P (emptyHash P e l) (emptyHash P e l)"

definition storageView :: "poseidon \<Rightarrow> sparse_tree \<Rightarrow> tree_level \<Rightarrow> leaf_index \<Rightarrow> u256" where
  "storageView P t l i =
     (case storageLeafGetter t l i of Inr v \<Rightarrow> v | Inl _ \<Rightarrow> emptyHash P (emtpyLeaf t) (unat l))"

definition nodeView ::
    "poseidon \<Rightarrow> ('b \<Rightarrow> tree_level \<Rightarrow> leaf_index \<Rightarrow> u256 option) \<Rightarrow> ('b, 'g) world
     \<Rightarrow> tree_level \<Rightarrow> leaf_index \<Rightarrow> u256" where
  "nodeView P lookup w l i =
     (case lookup (w_batch w) l i of Some v \<Rightarrow> v | None \<Rightarrow> storageView P (w_tree w) l i)"

text \<open>
  A view of the nodes is the tree over the leaves \<open>lf\<close> when every node inside a tree of depth \<open>d\<close>
  has the hash of the specification.
\<close>

definition treeOf ::
    "poseidon \<Rightarrow> nat \<Rightarrow> (tree_level \<Rightarrow> leaf_index \<Rightarrow> u256) \<Rightarrow> (nat \<Rightarrow> u256) \<Rightarrow> bool" where
  "treeOf P d view lf \<longleftrightarrow>
     (\<forall>l i. unat l \<le> d \<longrightarrow> unat i < 2 ^ (d - unat l) \<longrightarrow> view l i = node (hashOf P) lf (unat l) (unat i))"

text \<open>The leaves after writing a list of leaves in order.\<close>

definition updLeaves :: "(nat \<Rightarrow> u256) \<Rightarrow> tree_leaf list \<Rightarrow> nat \<Rightarrow> u256" where
  "updLeaves lf ls = fold (\<lambda>x f. f(unat (leafIndex x) := leafValue x)) ls lf"

lemma updLeaves_simps [simp]:
  "updLeaves lf [] = lf"
  "updLeaves lf (x # xs) = updLeaves (lf(unat (leafIndex x) := leafValue x)) xs"
  by (simp_all add: updLeaves_def)

lemma updLeaves_other: "\<forall>x\<in>set ls. unat (leafIndex x) \<noteq> j \<Longrightarrow> updLeaves lf ls j = lf j"
  by (induction ls arbitrary: lf) auto

section \<open>Facts about the reference tree\<close>

lemma node_cong:
  "(\<And>j. j div 2 ^ l = i \<Longrightarrow> lf j = lf' j) \<Longrightarrow> node H lf l i = node H lf' l i"
proof (induction l arbitrary: i)
  case 0
  then show ?case by simp
next
  case (Suc l)
  have "node H lf l k = node H lf' l k" if "k div 2 = i" for k
  proof (rule Suc.IH)
    fix j :: nat
    assume "j div 2 ^ l = k"
    then have "j div 2 ^ Suc l = i"
      using that by (simp only: div_power_Suc)
    then show "lf j = lf' j" by (rule Suc.prems)
  qed
  from this [of "2 * i"] this [of "2 * i + 1"] show ?case by simp
qed

text \<open>The path of a leaf: its siblings on every level below \<open>d\<close>.\<close>

definition sibling :: "nat \<Rightarrow> nat" where
  "sibling i = (if even i then i + 1 else i - 1)"

fun pathFrom :: "(u256 \<Rightarrow> u256 \<Rightarrow> u256) \<Rightarrow> (nat \<Rightarrow> u256) \<Rightarrow> nat \<Rightarrow> nat \<Rightarrow> nat \<Rightarrow> u256 list" where
  "pathFrom H lf 0 l i = []"
| "pathFrom H lf (Suc n) l i = node H lf l (sibling i) # pathFrom H lf n (Suc l) (i div 2)"

lemma length_pathFrom [simp]: "length (pathFrom H lf n l i) = n"
  by (induction n arbitrary: l i) auto

lemma node_step:
  "(if even i then H (node H lf l i) (node H lf l (sibling i))
    else H (node H lf l (sibling i)) (node H lf l i)) = node H lf (Suc l) (i div 2)"
  by (auto simp: sibling_def elim!: evenE oddE)

lemma computeRoot_pathFrom:
  "computeRoot H (node H lf l i) (pathFrom H lf n l i) i = node H lf (l + n) (i div 2 ^ n)"
proof (induction n arbitrary: l i)
  case 0
  then show ?case by simp
next
  case (Suc n)
  have "computeRoot H (node H lf l i) (pathFrom H lf (Suc n) l i) i =
        computeRoot H (node H lf (Suc l) (i div 2)) (pathFrom H lf n (Suc l) (i div 2)) (i div 2)"
    by (simp only: pathFrom.simps computeRoot.simps node_step)
  also have "\<dots> = node H lf (Suc l + n) (i div 2 div 2 ^ n)"
    by (rule Suc.IH)
  also have "i div 2 div 2 ^ n = i div 2 ^ Suc n"
    by (simp add: div_mult2_eq)
  finally show ?case by simp
qed

text \<open>The siblings of a leaf do not depend on the leaf itself.\<close>

lemma sibling_div: "sibling i div 2 = i div 2" "sibling i \<noteq> i" "sibling i \<le> 2 * (i div 2) + 1"
  by (auto simp: sibling_def elim!: evenE oddE)

lemma pathFrom_upd:
  "j div 2 ^ l = i \<Longrightarrow> pathFrom H (lf(j := v)) n l i = pathFrom H lf n l i"
proof (induction n arbitrary: l i)
  case 0
  then show ?case by simp
next
  case (Suc n)
  have "node H (lf(j := v)) l (sibling i) = node H lf l (sibling i)"
    using Suc.prems sibling_div(2) [of i] by (intro node_cong) auto
  moreover have "pathFrom H (lf(j := v)) n (Suc l) (i div 2) = pathFrom H lf n (Suc l) (i div 2)"
    using Suc.prems by (intro Suc.IH) (simp only: div_power_Suc)
  ultimately show ?case by (simp only: pathFrom.simps)
qed

text \<open>
  The pairs of nodes that are hashed when a root is recomputed, from the leaf upwards.  Along the path
  of a leaf they are the two children of every node above the leaf.
\<close>

fun hashInputs :: "(u256 \<Rightarrow> u256 \<Rightarrow> u256) \<Rightarrow> u256 \<Rightarrow> u256 list \<Rightarrow> nat \<Rightarrow> (u256 \<times> u256) list" where
  "hashInputs H x [] i = []"
| "hashInputs H x (s # ss) i = (if even i then (x, s) else (s, x)) #
     hashInputs H (if even i then H x s else H s x) ss (i div 2)"

lemma hashInputs_pathFrom:
  "k < n \<Longrightarrow> hashInputs H (node H lf l i) (pathFrom H lf n l i) i ! k =
     (node H lf (l + k) (2 * (i div 2 ^ Suc k)), node H lf (l + k) (2 * (i div 2 ^ Suc k) + 1))"
proof (induction n arbitrary: l i k)
  case 0
  then show ?case by simp
next
  case (Suc n)
  show ?case
  proof (cases k)
    case 0
    then show ?thesis by (auto simp: sibling_def elim!: evenE oddE)
  next
    case (Suc k')
    have "hashInputs H (node H lf l i) (pathFrom H lf (Suc n) l i) i ! k =
        hashInputs H (node H lf (Suc l) (i div 2)) (pathFrom H lf n (Suc l) (i div 2)) (i div 2) ! k'"
      by (simp only: pathFrom.simps hashInputs.simps node_step nth_Cons_Suc Suc)
    also have "\<dots> = (node H lf (Suc l + k') (2 * (i div 2 div 2 ^ Suc k')),
        node H lf (Suc l + k') (2 * (i div 2 div 2 ^ Suc k') + 1))"
      using Suc.prems Suc by (intro Suc.IH) simp
    also have "i div 2 div 2 ^ Suc k' = i div 2 ^ Suc k" by (simp only: Suc power_Suc div_mult2_eq)
    finally show ?thesis by (simp only: Suc add_Suc add_Suc_right)
  qed
qed

lemma hashInputs_closed:
  assumes closed: "\<And>a b. F a \<Longrightarrow> F b \<Longrightarrow> F (H a b)" and "F x" "list_all F ss" "k < length ss"
    and "hashInputs H x ss i ! k = (a, b)"
  shows "F a \<and> F b"
  using assms(2-)
proof (induction ss arbitrary: x i k)
  case Nil
  then show ?case by simp
next
  case (Cons s ss)
  then have "F (if even i then H x s else H s x)" by (auto intro: closed)
  then show ?case using Cons by (cases k) (auto split: if_splits)
qed

text \<open>
  Two different openings of one root at one index: on some level the two recomputations hash
  different pairs to the same value.
\<close>

lemma computeRoot_collision:
  assumes "computeRoot H x ss i = computeRoot H y ts i" "length ss = length ts" "(x, ss) \<noteq> (y, ts)"
  shows "\<exists>k<length ss. hashInputs H x ss i ! k \<noteq> hashInputs H y ts i ! k \<and>
    case_prod H (hashInputs H x ss i ! k) = case_prod H (hashInputs H y ts i ! k)"
  using assms
proof (induction ss arbitrary: ts x y i)
  case Nil
  then show ?case by simp
next
  case (Cons s ss)
  then obtain t ts' where ts: "ts = t # ts'" by (cases ts) auto
  let ?x = "if even i then H x s else H s x"
  let ?y = "if even i then H y t else H t y"
  show ?case
  proof (cases "(?x, ss) = (?y, ts')")
    case True
    then have "(x, s) \<noteq> (y, t)" using Cons.prems(3) ts by auto
    then show ?thesis using True ts by (intro exI [of _ 0]) (auto split: if_splits)
  next
    case False
    then obtain k where "k < length ss"
        "hashInputs H ?x ss (i div 2) ! k \<noteq> hashInputs H ?y ts' (i div 2) ! k"
        "case_prod H (hashInputs H ?x ss (i div 2) ! k) = case_prod H (hashInputs H ?y ts' (i div 2) ! k)"
      using Cons.IH [of ?x "i div 2" ?y ts'] Cons.prems(1,2) ts by auto
    then show ?thesis using ts by (intro exI [of _ "Suc k"]) simp
  qed
qed

section \<open>What the tree relies on\<close>

text \<open>
  The Poseidon package: the hash of two elements of the scalar field is an element of the field.
\<close>

locale poseidon_field =
  fixes P :: poseidon and p :: nat
  assumes field_fits: "p \<le> 2 ^ 256"
    and hash_in_field: "x < p \<Longrightarrow> y < p \<Longrightarrow> \<exists>h. P [x, y] = Inr h \<and> h < p"
begin

lemma calculateHash_ok:
  assumes "unat x < p" "unat y < p"
  shows "calculateHash P x y = Inr (hashOf P x y)" "unat (hashOf P x y) < p"
proof -
  obtain h where h: "P [unat x, unat y] = Inr h" "h < p"
    using hash_in_field assms by blast
  then have c: "calculateHash P x y = Inr (word_of_nat h)"
    using field_fits by (simp add: calculateHash_def)
  then show "calculateHash P x y = Inr (hashOf P x y)"
    by (simp add: hashOf_def)
  show "unat (hashOf P x y) < p"
    using c h field_fits by (simp add: hashOf_def unat_of_nat)
qed

lemma emptyHash_in_field: "unat e < p \<Longrightarrow> unat (emptyHash P e l) < p"
  by (induction l) (auto simp: calculateHash_ok)

end

text \<open>
  A batch: what was set last is read back, everything else reads as before, an unset node is
  reported with an error that is \<open>ErrNotFound\<close>.  \<open>lookup\<close> is the content of the batch, \<open>valid\<close> the
  states in which it can still be written.
\<close>

locale leaf_batch =
  fixes B :: "'b batch_ops"
    and lookup :: "'b \<Rightarrow> tree_level \<Rightarrow> leaf_index \<Rightarrow> u256 option"
    and valid :: "'b \<Rightarrow> bool"
  assumes get_some: "valid b \<Longrightarrow> lookup b l i = Some v \<Longrightarrow> batchGetLeaf B b l i = Inr v"
    and get_none: "valid b \<Longrightarrow> lookup b l i = None \<Longrightarrow>
      \<exists>e. batchGetLeaf B b l i = Inl e \<and> errorsIs e ErrNotFound"
    and set_ok: "valid b \<Longrightarrow> \<exists>b'. batchSetLeaf B l i v b = (Inr (), b') \<and> valid b' \<and>
      (\<forall>l' i'. lookup b' l' i' = (if l' = l \<and> i' = i then Some v else lookup b l' i'))"

end
