(* ===== verification/Leaf_Storage.thy ===== *)
theory Leaf_Storage
  imports Storage_Keys Kv_Store Tree_Spec
begin

text \<open>
  Stored nodes and leaf indexes (\<open>internal/zkregistry/leaf_storage.go\<close>) and the batch that can be
  read before it is written (\<open>batch_with_leaves.go\<close>).  The batch implements the contract \<open>leaf_batch\<close>
  of the sparse tree; its invariant says that the underlying database batch holds exactly the
  buffered nodes on top of what it held before.

  The lock around the buffer serialises two map accesses that are single steps here.
\<close>

section \<open>Operations\<close>

definition LeafStorage_GetLeaf ::
    "('d, 'b) db_ops \<Rightarrow> u256_ops \<Rightarrow> 'd \<Rightarrow> u8 \<Rightarrow> tree_level \<Rightarrow> leaf_index \<Rightarrow> goerr + u256" where
  "LeafStorage_GetLeaf D U d registryIndex level index =
     bindE (dbGet D d (makeLeafKey registryIndex level index)) (\<lambda>leafBytes.
     if length leafBytes = 0 then Inl ErrNotFound else Inr (uSetBytes U leafBytes))"

definition LeafStorage_SetLeaf ::
    "('d, 'b) db_ops \<Rightarrow> u256_ops \<Rightarrow> u8 \<Rightarrow> tree_level \<Rightarrow> leaf_index \<Rightarrow> u256 \<Rightarrow> ('d, unit) go" where
  "LeafStorage_SetLeaf D U registryIndex level index v =
     dbSet D (makeLeafKey registryIndex level index) (uBytes U v)"

definition GetLeafIndex ::
    "('d, 'b) db_ops \<Rightarrow> u256_ops \<Rightarrow> 'd \<Rightarrow> u8 \<Rightarrow> u256 \<Rightarrow> goerr + leaf_index" where
  "GetLeafIndex D U d registryIndex val =
     bindE (dbGet D d (makeLeafIndexKey U registryIndex val)) (\<lambda>leafIndexBytes.
     if length leafIndexBytes = 0 then Inl ErrNotFound
     else if length leafIndexBytes \<noteq> LeafIndexBytesSize then Inl (ErrNew ''invalid leaf index bytes'')
     else Uint32 (take LeafIndexBytesSize leafIndexBytes))"

definition leafIndexBytes :: "leaf_index \<Rightarrow> bytes" where
  "leafIndexBytes index = copyAt (replicate LeafIndexBytesSize 0) 0 (be32 index)"

definition SetLeafIndex ::
    "('d, 'b) db_ops \<Rightarrow> u256_ops \<Rightarrow> u8 \<Rightarrow> u256 \<Rightarrow> leaf_index \<Rightarrow> ('b, unit) go" where
  "SetLeafIndex D U registryIndex val index =
     batchSet D (makeLeafIndexKey U registryIndex val) (leafIndexBytes index)"

definition DeleteLeafIndex ::
    "('d, 'b) db_ops \<Rightarrow> u256_ops \<Rightarrow> u8 \<Rightarrow> u256 \<Rightarrow> ('b, unit) go" where
  "DeleteLeafIndex D U registryIndex val = batchDelete D (makeLeafIndexKey U registryIndex val)"

text \<open>\<open>LeafView.GetLeaf\<close>: the getter a registry hands to its tree, reading the database state \<open>d\<close>.\<close>

definition LeafView_GetLeaf ::
    "('d, 'b) db_ops \<Rightarrow> u256_ops \<Rightarrow> 'd \<Rightarrow> u8 \<Rightarrow> leaf_getter" where
  "LeafView_GetLeaf D U d registryIndex level index = LeafStorage_GetLeaf D U d registryIndex level index"

record 'b batch_with_leaves =
  bwlBatch :: 'b
  bwlIndex :: u8
  bwlBuffer :: "bytes \<rightharpoonup> u256"

definition NewBatchWithLeavesBuffer :: "'b \<Rightarrow> u8 \<Rightarrow> 'b batch_with_leaves" where
  "NewBatchWithLeavesBuffer batch index = \<lparr>bwlBatch = batch, bwlIndex = index, bwlBuffer = Map.empty\<rparr>"

definition BatchWithLeavesBuffer_SetLeaf ::
    "('d, 'b) db_ops \<Rightarrow> u256_ops \<Rightarrow> tree_level \<Rightarrow> leaf_index \<Rightarrow> u256 \<Rightarrow> ('b batch_with_leaves, unit) go" where
  "BatchWithLeavesBuffer_SetLeaf D U level index v b =
     (let key = makeLeafKey (bwlIndex b) level index;
          b = b\<lparr>bwlBuffer := (bwlBuffer b)(take LeafKeyLength key \<mapsto> v)\<rparr>
      in case batchSet D key (uBytes U v) (bwlBatch b) of (r, b') \<Rightarrow> (r, b\<lparr>bwlBatch := b'\<rparr>))"

definition BatchWithLeavesBuffer_GetLeaf :: "'b batch_with_leaves \<Rightarrow> leaf_getter" where
  "BatchWithLeavesBuffer_GetLeaf b level index =
     (let key = makeLeafKey (bwlIndex b) level index
      in case bwlBuffer b (take LeafKeyLength key) of Some v \<Rightarrow> Inr v | None \<Rightarrow> Inl ErrNotFound)"

definition bwlOps :: "('d, 'b) db_ops \<Rightarrow> u256_ops \<Rightarrow> 'b batch_with_leaves batch_ops" where
  "bwlOps D U = \<lparr>batchGetLeaf = BatchWithLeavesBuffer_GetLeaf,
                 batchSetLeaf = BatchWithLeavesBuffer_SetLeaf D U\<rparr>"

section \<open>Invariant of the batch\<close>

lemma take_LeafKey [simp]: "take LeafKeyLength (makeLeafKey r l i) = makeLeafKey r l i"
  by (simp add: key_simps length_defs be32_def numeral_eq_Suc)

lemma take_leafIndexBytes: "Uint32 (take LeafIndexBytesSize (leafIndexBytes i)) = Inr i"
  "length (leafIndexBytes i) = LeafIndexBytesSize"
  using Uint32_be32 [of i "[]"]
  by (simp_all add: leafIndexBytes_def length_defs copyAt_def be32_def numeral_eq_Suc)

definition bwlLookup :: "'b batch_with_leaves \<Rightarrow> tree_level \<Rightarrow> leaf_index \<Rightarrow> u256 option" where
  "bwlLookup b l i = bwlBuffer b (makeLeafKey (bwlIndex b) l i)"

definition bwlValid ::
    "('b \<Rightarrow> overlay) \<Rightarrow> ('b \<Rightarrow> bool) \<Rightarrow> u256_ops \<Rightarrow> u8 \<Rightarrow> overlay \<Rightarrow> 'b batch_with_leaves \<Rightarrow> bool" where
  "bwlValid pending isOpen U r ov0 b \<longleftrightarrow>
     isOpen (bwlBatch b) \<and> bwlIndex b = r \<and>
     (\<forall>k. pending (bwlBatch b) k = (case bwlBuffer b k of Some v \<Rightarrow> Some (Some (uBytes U v)) | None \<Rightarrow> ov0 k)) \<and>
     (\<forall>k. bwlBuffer b k \<noteq> None \<longrightarrow> (\<exists>l i. k = makeLeafKey r l i))"

locale leaf_store = kv_db D content pending isOpen + u256_codec U
  for D :: "('d, 'b) db_ops" and content pending isOpen and U
begin

lemma new_batch_valid:
  "isOpen b \<Longrightarrow> bwlValid pending isOpen U r (pending b) (NewBatchWithLeavesBuffer b r)"
  "bwlLookup (NewBatchWithLeavesBuffer b r) l i = None"
  by (simp_all add: bwlValid_def NewBatchWithLeavesBuffer_def bwlLookup_def)

lemma bwl_set:
  assumes "bwlValid pending isOpen U r ov0 b"
  shows "\<exists>b'. BatchWithLeavesBuffer_SetLeaf D U l i v b = (Inr (), b') \<and> bwlValid pending isOpen U r ov0 b' \<and>
    (\<forall>l' i'. bwlLookup b' l' i' = (if l' = l \<and> i' = i then Some v else bwlLookup b l' i'))"
proof -
  let ?k = "makeLeafKey r l i"
  have v: "isOpen (bwlBatch b)" "bwlIndex b = r"
    using assms by (simp_all add: bwlValid_def)
  obtain b' where b': "batchSet D ?k (uBytes U v) (bwlBatch b) = (Inr (), b')" "isOpen b'"
      "pending b' = (pending (bwlBatch b))(?k \<mapsto> Some (uBytes U v))"
    using bset_ok [OF v(1)] by (metis keys_nonempty(1))
  let ?b = "b\<lparr>bwlBuffer := (bwlBuffer b)(?k \<mapsto> v), bwlBatch := b'\<rparr>"
  have "BatchWithLeavesBuffer_SetLeaf D U l i v b = (Inr (), ?b)"
    using b'(1) v(2) by (simp add: BatchWithLeavesBuffer_SetLeaf_def Let_def)
  moreover have "bwlValid pending isOpen U r ov0 ?b"
    using assms b'(2,3) by (auto simp: bwlValid_def)
  moreover have "bwlLookup ?b l' i' = (if l' = l \<and> i' = i then Some v else bwlLookup b l' i')" for l' i'
    using v(2) by (auto simp: bwlLookup_def)
  ultimately show ?thesis by blast
qed

sublocale bwl: leaf_batch "bwlOps D U" bwlLookup "bwlValid pending isOpen U r ov0" for r ov0
proof (unfold_locales, goal_cases)
  case (3 b l i v)
  then show ?case by (simp only: bwlOps_def batch_ops.simps bwl_set)
qed (simp_all add: bwlOps_def BatchWithLeavesBuffer_GetLeaf_def bwlLookup_def)

lemma GetLeaf_eq:
  "LeafStorage_GetLeaf D U d r l i =
     (case content d (makeLeafKey r l i) of
        Some (x # xs) \<Rightarrow> Inr (uSetBytes U (x # xs)) | _ \<Rightarrow> Inl ErrNotFound)"
  by (auto simp: LeafStorage_GetLeaf_def get_ok kvRead_def split: option.splits list.splits)

lemma get_after_set:
  "\<exists>d'. LeafStorage_SetLeaf D U r l i v d = (Inr (), d') \<and>
    (\<forall>r' l' i'. LeafStorage_GetLeaf D U d' r' l' i' =
       (if r' = r \<and> l' = l \<and> i' = i then (if v = 0 then Inl ErrNotFound else Inr v)
        else LeafStorage_GetLeaf D U d r' l' i'))"
proof -
  obtain d' where d': "dbSet D (makeLeafKey r l i) (uBytes U v) d = (Inr (), d')"
      "content d' = (content d)(makeLeafKey r l i \<mapsto> uBytes U v)"
    using set_ok by (metis keys_nonempty(1))
  have "LeafStorage_GetLeaf D U d' r' l' i' =
       (if r' = r \<and> l' = l \<and> i' = i then (if v = 0 then Inl ErrNotFound else Inr v)
        else LeafStorage_GetLeaf D U d r' l' i')" for r' l' i'
    using Bytes_zero [of v] SetBytes_Bytes [of v] by (auto simp: GetLeaf_eq d'(2) split: list.splits)
  then show ?thesis
    using d'(1) by (auto simp: LeafStorage_SetLeaf_def)
qed

lemma makeLeafIndexKey_props [simp]:
  "makeLeafIndexKey U r v = makeLeafIndexKey U r' v' \<longleftrightarrow> r = r' \<and> v = v'"
  "makeLeafIndexKey U r v \<noteq> []" "makeLeafKey r' l i \<noteq> makeLeafIndexKey U r v"
  "makeLeafIndexKey U r v \<noteq> makeLeafKey r' l i"
  using u256_codec_axioms Bytes32_inject by (auto simp: key_simps prefix_defs)

end

end
