(* ===== verification/Tree_Correct.thy ===== *)
theory Tree_Correct
  imports Tree_Spec
begin

text \<open>
  The operations of the sparse tree compute the reference tree: reads, the cache of empty branches,
  insertion of one leaf, insertion of many leaves and proofs.  Every lemma is total: the operation
  succeeds and its result is the specified one, for a tree of depth 1 to 32 whose storage holds
  field elements and fails with \<open>ErrNotFound\<close> only.
\<close>

section \<open>Well-formed states\<close>

definition cacheOk :: "poseidon \<Rightarrow> sparse_tree \<Rightarrow> bool" where
  "cacheOk P t \<longleftrightarrow> (case emptyBranchLevels t of None \<Rightarrow> True
     | Some levels \<Rightarrow> levels = map (emptyHash P (emtpyLeaf t)) [0..<Suc (unat (depth t))])"

definition getterOk :: "nat \<Rightarrow> leaf_getter \<Rightarrow> bool" where
  "getterOk p g \<longleftrightarrow>
     (\<forall>l i. case g l i of Inr v \<Rightarrow> unat v < p | Inl e \<Rightarrow> errorsIs e ErrNotFound)"

lemma getterOkD:
  "getterOk p g \<Longrightarrow> g l i = Inl e \<Longrightarrow> errorsIs e ErrNotFound"
  "getterOk p g \<Longrightarrow> g l i = Inr v \<Longrightarrow> unat v < p"
  unfolding getterOk_def by (metis sum.simps(5), metis sum.simps(6))

definition wfTree :: "poseidon \<Rightarrow> nat \<Rightarrow> sparse_tree \<Rightarrow> bool" where
  "wfTree P p t \<longleftrightarrow> 1 \<le> unat (depth t) \<and> unat (depth t) \<le> 32 \<and> unat (emtpyLeaf t) < p \<and>
     getterOk p (storageLeafGetter t) \<and> cacheOk P t"

text \<open>Two states that differ at most in the cache.\<close>

definition cacheStep :: "poseidon \<Rightarrow> ('b, 'g) world \<Rightarrow> ('b, 'g) world \<Rightarrow> bool" where
  "cacheStep P w w' \<longleftrightarrow>
     (\<exists>c. w' = w\<lparr>w_tree := (w_tree w)\<lparr>emptyBranchLevels := c\<rparr>\<rparr>) \<and> cacheOk P (w_tree w')"

lemma cacheStep_refl: "cacheOk P (w_tree w) \<Longrightarrow> cacheStep P w w"
  unfolding cacheStep_def by (intro conjI exI [of _ "emptyBranchLevels (w_tree w)"]) simp_all

lemma cacheStep_trans: "cacheStep P w w' \<Longrightarrow> cacheStep P w' w'' \<Longrightarrow> cacheStep P w w''"
  by (auto simp: cacheStep_def)

lemma cacheStep_wfTree: "cacheStep P w w' \<Longrightarrow> wfTree P p (w_tree w) \<Longrightarrow> wfTree P p (w_tree w')"
  by (auto simp: cacheStep_def wfTree_def)

lemma cacheStep_views:
  assumes "cacheStep P w w'"
  shows "depth (w_tree w') = depth (w_tree w)" "emtpyLeaf (w_tree w') = emtpyLeaf (w_tree w)"
    "storageLeafGetter (w_tree w') = storageLeafGetter (w_tree w)"
    "w_batch w' = w_batch w" "w_ctx w' = w_ctx w" "w_rng w' = w_rng w"
    "storageView P (w_tree w') = storageView P (w_tree w)"
    "nodeView P lookup w' = nodeView P lookup w"
  using assms by (auto simp: cacheStep_def storageView_def nodeView_def fun_eq_iff
      split: sum.splits option.splits)

section \<open>Reads\<close>

context poseidon_field
begin

lemma emptyBranchLoop_ok:
  assumes "unat e < p" "1 \<le> i" "i \<le> Suc d" "length levels = Suc d"
    "\<And>k. k < i \<Longrightarrow> levels ! k = emptyHash P e k"
  shows "emptyBranchLoop P d i levels = Inr (map (emptyHash P e) [0..<Suc d])"
  using assms(2-)
proof (induction "Suc d - i" arbitrary: i levels)
  case 0
  then have "i = Suc d" by simp
  then show ?case
    using 0 by (subst emptyBranchLoop.simps) (auto intro!: nth_equalityI simp del: upt_Suc)
next
  case (Suc n)
  then have i: "i \<le> d" by simp
  have c: "calculateHash P (levels ! (i - 1)) (levels ! (i - 1)) = Inr (emptyHash P e i)"
    using Suc.prems emptyHash_in_field [OF assms(1), of "i - 1"]
    by (cases i) (auto simp: calculateHash_ok)
  have "emptyBranchLoop P d (Suc i) (levels[i := emptyHash P e i]) =
        Inr (map (emptyHash P e) [0..<Suc d])"
    using Suc.hyps(2) Suc.prems i by (intro Suc.hyps(1)) (auto simp: nth_list_update elim!: less_SucE)
  then show ?case
    using i c Suc.prems by (subst emptyBranchLoop.simps) (simp add: goIndex_def)
qed

lemma calculateEmptyBranchHashes_ok:
  assumes "wfTree P p t"
  shows "calculateEmptyBranchHashes P t =
    Inr (map (emptyHash P (emtpyLeaf t)) [0..<Suc (unat (depth t))])"
proof -
  have d: "1 \<le> unat (depth t)" "unat (depth t) \<le> 32" and e: "unat (emtpyLeaf t) < p"
    using assms by (auto simp: wfTree_def)
  have n: "unat (depth t + 1) = Suc (unat (depth t))"
    using d by (simp add: unat_word_ariths)
  have "\<not> depth t < 1"
    using d(1) by (auto simp: word_less_nat_alt)
  then show ?thesis
    using emptyBranchLoop_ok [OF e, of 1 "unat (depth t)"] n
    by (simp add: calculateEmptyBranchHashes_def)
qed

lemma getEmptyBranchValue_ok:
  assumes "wfTree P p (w_tree w)" "l \<le> depth (w_tree w)"
  shows "runs (getEmptyBranchValue P l) w
    (\<lambda>x w'. x = emptyHash P (emtpyLeaf (w_tree w)) (unat l) \<and> cacheStep P w w')"
proof -
  have l: "unat l < Suc (unat (depth (w_tree w)))" and c: "cacheOk P (w_tree w)"
    using assms by (auto simp: word_le_nat_alt wfTree_def)
  have nl: "\<not> l > depth (w_tree w)" using assms(2) by simp
  show ?thesis
  proof (cases "emptyBranchLevels (w_tree w)")
    case None
    let ?ls = "map (emptyHash P (emtpyLeaf (w_tree w))) [0..<Suc (unat (depth (w_tree w)))]"
    show ?thesis
    proof (rule runsI)
      show "getEmptyBranchValue P l w =
        (Inr (emptyHash P (emtpyLeaf (w_tree w)) (unat l)),
         w\<lparr>w_tree := (w_tree w)\<lparr>emptyBranchLevels := Some ?ls\<rparr>\<rparr>)"
        using l nl None calculateEmptyBranchHashes_ok [OF assms(1)]
        by (simp add: getEmptyBranchValue_def goIndex_def Let_def del: upt_Suc)
    qed (auto simp: cacheStep_def cacheOk_def simp del: upt_Suc)
  next
    case (Some ls)
    with c have ls: "ls = map (emptyHash P (emtpyLeaf (w_tree w))) [0..<Suc (unat (depth (w_tree w)))]"
      by (simp add: cacheOk_def)
    show ?thesis
      by (rule runsI [of _ _ "emptyHash P (emtpyLeaf (w_tree w)) (unat l)" w])
         (use Some l nl c cacheStep_refl in
           \<open>auto simp: getEmptyBranchValue_def goIndex_def Let_def ls simp del: upt_Suc\<close>)
  qed
qed

lemma getLeafFromStorage_ok:
  assumes wf: "wfTree P p (w_tree w)" and l: "l \<le> depth (w_tree w)"
  shows "runs (getLeafFromStorage P l i) w
    (\<lambda>x w'. x = storageView P (w_tree w) l i \<and> cacheStep P w w')"
proof (cases "storageLeafGetter (w_tree w) l i")
  case (Inr v)
  then show ?thesis
    using l wf by (intro runsI [of _ _ v w])
      (auto simp: getLeafFromStorage_def storageView_def wfTree_def Let_def not_less
        intro: cacheStep_refl)
next
  case (Inl e)
  then have "errorsIs e ErrNotFound"
    using wf by (auto simp: wfTree_def dest: getterOkD)
  then have "getLeafFromStorage P l i w = getEmptyBranchValue P l w"
    using Inl l by (simp add: getLeafFromStorage_def Let_def leD)
  with getEmptyBranchValue_ok [OF wf l] Inl show ?thesis
    by (auto simp: runs_def storageView_def)
qed

lemma storageView_in_field:
  assumes "wfTree P p t" shows "unat (storageView P t l i) < p"
  using assms emptyHash_in_field
  by (auto simp: storageView_def wfTree_def getterOk_def split: sum.splits)

end

section \<open>Proofs from the storage\<close>

lemma children_in_range:
  fixes i :: u32
  assumes "unat i < 2 ^ (d - l)" "l < d"
  shows "2 * (unat i div 2) + 1 < 2 ^ (d - l)" "unat (i div 2) < 2 ^ (d - Suc l)"
proof -
  obtain n where n: "d - l = Suc n" "d - Suc l = n"
    using assms(2) by (metis Suc_diff_Suc)
  have *: "unat i div 2 < 2 ^ n"
    using assms(1) n by auto
  then show "unat (i div 2) < 2 ^ (d - Suc l)"
    using n by (simp add: unat_div)
  from * show "2 * (unat i div 2) + 1 < 2 ^ (d - l)"
    unfolding n power_Suc by linarith
qed

text \<open>A context that is never cancelled, or is polled \<open>n\<close> times before it is.\<close>

definition ctxAlive :: "nat \<Rightarrow> ctx \<Rightarrow> bool" where
  "ctxAlive n c \<longleftrightarrow> (case c of None \<Rightarrow> True | Some k \<Rightarrow> n \<le> k)"

definition ctxAfter :: "nat \<Rightarrow> ctx \<Rightarrow> ctx" where
  "ctxAfter n c = map_option (\<lambda>k. k - n) c"

lemma pollCtx_alive:
  assumes "ctxAlive (Suc n) (w_ctx w)"
  shows "pollCtx w = (Inr (), w\<lparr>w_ctx := ctxAfter 1 (w_ctx w)\<rparr>)" "ctxAlive n (ctxAfter 1 (w_ctx w))"
  using assms by (auto simp: pollCtx_def ctxAlive_def ctxAfter_def split: option.splits nat.splits)

lemma ctxAfter_Suc: "ctxAfter n (ctxAfter (Suc 0) c) = ctxAfter (Suc n) c"
  by (cases c) (auto simp: ctxAfter_def)

lemma sibling_word:
  fixes i :: u32
  shows "(if i mod 2 = 0 then i + 1 else i - 1) = word_of_nat (sibling (unat i))"
    "sibling (unat i) < 2 ^ 32"
proof -
  have lt: "unat i < 2 ^ 32"
    using unsigned_less [of i, where ?'a = nat] by simp
  have ev: "i mod 2 = 0 \<longleftrightarrow> even (unat i)"
    by (simp add: word_unat_eq_iff unat_mod even_iff_mod_2_eq_zero)
  show "sibling (unat i) < 2 ^ 32"
    using lt by (auto simp: sibling_def elim!: evenE)
  show "(if i mod 2 = 0 then i + 1 else i - 1) = word_of_nat (sibling (unat i))"
  proof (cases "even (unat i)")
    case True
    then show ?thesis by (simp add: ev sibling_def)
  next
    case False
    then have "1 \<le> unat i" by (simp add: Suc_leI odd_pos)
    then show ?thesis using False by (simp add: ev sibling_def of_nat_diff)
  qed
qed

context poseidon_field
begin

lemma read_sibling:
  assumes wf: "wfTree P p (w_tree w)" and l: "unat level < d" "unat (depth (w_tree w)) = d"
    and i: "unat index < 2 ^ (d - unat level)" and t: "treeOf P d (storageView P (w_tree w)) lf"
  shows "runs (if index mod 2 = 0 then wrapG m1 (getLeafFromStorage P level (index + 1))
      else wrapG m2 (getLeafFromStorage P level (index - 1))) w
    (\<lambda>x w'. x = node (hashOf P) lf (unat level) (sibling (unat index)) \<and> cacheStep P w w')"
proof -
  let ?s = "if index mod 2 = 0 then index + 1 else index - 1"
  have s: "unat ?s = sibling (unat index)"
    using sibling_word [of index] by (simp add: unat_of_nat)
  have "sibling (unat index) < 2 ^ (d - unat level)"
    using sibling_div(3) [of "unat index"] children_in_range(1) [OF i l(1)] by linarith
  then have "storageView P (w_tree w) level ?s = node (hashOf P) lf (unat level) (sibling (unat index))"
    using t l s by (auto simp: treeOf_def)
  moreover have "level \<le> depth (w_tree w)"
    using l by (simp add: word_le_nat_alt)
  ultimately show ?thesis
    using getLeafFromStorage_ok [OF wf, of level ?s]
    by (cases "index mod 2 = 0") (auto intro: runs_wrapG)
qed

lemma createProofLoop_ok:
  fixes w :: "('b, 'g) world"
  assumes "wfTree P p (w_tree w)" "unat (depth (w_tree w)) = d" "unat level \<le> d"
    "unat index < 2 ^ (d - unat level)" "ctxAlive (d - unat level) (w_ctx w)"
    "treeOf P d (storageView P (w_tree w)) lf"
  shows "runs (createProofLoop P (depth (w_tree w)) level index) w
    (\<lambda>path w'. path = pathFrom (hashOf P) lf (d - unat level) (unat level) (unat index) \<and>
       cacheStep P (w\<lparr>w_ctx := ctxAfter (d - unat level) (w_ctx w)\<rparr>) w')"
  using assms
proof (induction "d - unat level" arbitrary: level index w)
  case 0
  then have "\<not> level < depth (w_tree w)" "w\<lparr>w_ctx := ctxAfter 0 (w_ctx w)\<rparr> = w"
    by (auto simp: word_less_nat_alt ctxAfter_def option.map_ident)
  then show ?case
    using 0 by (subst createProofLoop.simps) (auto simp: wfTree_def intro!: cacheStep_refl)
next
  case (Suc n)
  then have l: "unat level < d" by simp
  then have lt: "level < depth (w_tree w)"
    using Suc.prems(2) by (simp add: word_less_nat_alt)
  have l1: "unat (level + 1) = Suc (unat level)"
    using lt by (rule unat_plus1)
  let ?w1 = "w\<lparr>w_ctx := ctxAfter 1 (w_ctx w)\<rparr>" and ?x = "node (hashOf P) lf (unat level) (sibling (unat index))"
  have poll: "pollCtx w = (Inr (), ?w1)" "ctxAlive n (ctxAfter 1 (w_ctx w))"
    using pollCtx_alive [of n w] Suc.prems(5) Suc.hyps(2) by auto
  obtain w2 where w2: "(if index mod 2 = 0 then wrapG ''retrieve right node'' (getLeafFromStorage P level (index + 1))
      else wrapG ''retrieve left node'' (getLeafFromStorage P level (index - 1))) ?w1 = (Inr ?x, w2)"
    "cacheStep P ?w1 w2"
    using read_sibling [of ?w1 level d index lf] Suc.prems l by (force elim!: runsE)
  note v = cacheStep_views [OF w2(2)]
  have n: "d - unat (level + 1) = n"
    using Suc.hyps(2) by (simp add: l1)
  have i': "unat (index div 2) < 2 ^ n"
    using children_in_range(2) [OF Suc.prems(4) l] n by (simp add: l1)
  have "runs (createProofLoop P (depth (w_tree w2)) (level + 1) (index div 2)) w2
    (\<lambda>path w'. path = pathFrom (hashOf P) lf (d - unat (level + 1)) (unat (level + 1)) (unat (index div 2)) \<and>
       cacheStep P (w2\<lparr>w_ctx := ctxAfter (d - unat (level + 1)) (w_ctx w2)\<rparr>) w')"
    using Suc.prems(1,2,6) l v poll cacheStep_wfTree [OF w2(2)] i'
    by (intro Suc.hyps(1)) (simp_all only: n, simp_all add: l1)
  then obtain w3 where w3: "createProofLoop P (depth (w_tree w)) (level + 1) (index div 2) w2 =
      (Inr (pathFrom (hashOf P) lf n (Suc (unat level)) (unat index div 2)), w3)"
    "cacheStep P (w2\<lparr>w_ctx := ctxAfter n (ctxAfter 1 (w_ctx w))\<rparr>) w3"
    unfolding n using v by (auto elim!: runsE simp: l1 unat_div)
  have "cacheStep P (w\<lparr>w_ctx := ctxAfter (Suc n) (w_ctx w)\<rparr>) w3"
    using w2(2) w3(2) by (auto simp: cacheStep_def ctxAfter_Suc)
  then show ?case
    using poll(1) w2(1) w3(1) unfolding Suc.hyps(2) [symmetric]
    by (subst createProofLoop.simps) (auto simp: lt runs_def bindG_def)
qed

lemma CreateProof_ok:
  assumes wf: "wfTree P p (w_tree w)" and d: "unat (depth (w_tree w)) = d"
    and i: "unat index < 2 ^ d" and alive: "ctxAlive d (w_ctx w)"
    and t: "treeOf P d (storageView P (w_tree w)) lf"
  shows "runs (CreateProof P index) w
    (\<lambda>pr w'. pr = \<lparr>Leaf = lf (unat index), Path = pathFrom (hashOf P) lf d 0 (unat index),
        Index = index, Root = node (hashOf P) lf d 0\<rparr> \<and>
      cacheStep P (w\<lparr>w_ctx := ctxAfter d (w_ctx w)\<rparr>) w')"
proof -
  have view: "storageView P (w_tree w) 0 index = lf (unat index)"
    "storageView P (w_tree w) (depth (w_tree w)) 0 = node (hashOf P) lf d 0"
    using t i d by (auto simp: treeOf_def)
  obtain w1 where w1: "getLeafFromStorage P 0 index w = (Inr (lf (unat index)), w1)" "cacheStep P w w1"
    using getLeafFromStorage_ok [OF wf, of 0 index] view by (auto elim: runsE)
  note v1 = cacheStep_views [OF w1(2)]
  have "runs (createProofLoop P (depth (w_tree w1)) 0 index) w1
    (\<lambda>path w'. path = pathFrom (hashOf P) lf (d - unat (0::u8)) (unat (0::u8)) (unat index) \<and>
       cacheStep P (w1\<lparr>w_ctx := ctxAfter (d - unat (0::u8)) (w_ctx w1)\<rparr>) w')"
    using d i alive t v1 cacheStep_wfTree [OF w1(2) wf] by (intro createProofLoop_ok) auto
  then obtain w2 where w2: "createProofLoop P (depth (w_tree w1)) 0 index w1 =
      (Inr (pathFrom (hashOf P) lf d 0 (unat index)), w2)"
    "cacheStep P (w1\<lparr>w_ctx := ctxAfter d (w_ctx w)\<rparr>) w2"
    using v1 by (auto elim: runsE)
  note v2 = cacheStep_views [OF w2(2)]
  have wf2: "wfTree P p (w_tree w2)"
    using cacheStep_wfTree [OF w2(2)] cacheStep_wfTree [OF w1(2) wf] by simp
  obtain w3 where w3: "GetRoot P w2 = (Inr (node (hashOf P) lf d 0), w3)" "cacheStep P w2 w3"
    using getLeafFromStorage_ok [OF wf2, of "depth (w_tree w2)" 0] view v1 v2
    by (auto elim: runsE simp: GetRoot_def)
  have "cacheStep P (w\<lparr>w_ctx := ctxAfter d (w_ctx w)\<rparr>) w3"
    using w1(2) w2(2) w3(2) by (auto simp: cacheStep_def)
  then show ?thesis
    unfolding CreateProof_def using w1(1) w2(1) w3(1) by (auto simp: runs_def bindG_def wrapG_def)
qed

text \<open>A context that is cancelled before the last level stops the loop with its error.\<close>

lemma createProofLoop_cancelled:
  assumes "wfTree P p (w_tree w)" "unat (depth (w_tree w)) = d" "unat index < 2 ^ (d - unat level)"
    "w_ctx w = Some k" "k < d - unat level" "treeOf P d (storageView P (w_tree w)) lf"
  shows "fst (createProofLoop P (depth (w_tree w)) level index w) = Inl ErrCanceled"
  using assms
proof (induction k arbitrary: level index w)
  case 0
  then have "level < depth (w_tree w)"
    by (simp add: word_less_nat_alt)
  with 0 show ?case
    by (subst createProofLoop.simps) (simp add: pollCtx_def bindG_def)
next
  case (Suc k)
  have l: "unat level < d" using Suc.prems(5) by simp
  then have lt: "level < depth (w_tree w)"
    using Suc.prems(2) by (simp add: word_less_nat_alt)
  have l1: "unat (level + 1) = Suc (unat level)"
    using lt by (rule unat_plus1)
  let ?w1 = "w\<lparr>w_ctx := Some k\<rparr>"
  obtain x w2 where w2: "(if index mod 2 = 0 then wrapG ''retrieve right node'' (getLeafFromStorage P level (index + 1))
      else wrapG ''retrieve left node'' (getLeafFromStorage P level (index - 1))) ?w1 = (Inr x, w2)"
    "cacheStep P ?w1 w2"
    using read_sibling [of ?w1 level d index lf] Suc.prems l by (force elim!: runsE)
  note v = cacheStep_views [OF w2(2)]
  have "fst (createProofLoop P (depth (w_tree w2)) (level + 1) (index div 2) w2) = Inl ErrCanceled"
    using Suc.prems v cacheStep_wfTree [OF w2(2)] children_in_range(2) [OF Suc.prems(3) l]
    by (intro Suc.IH) (auto simp: l1)
  then have "fst (bindG (createProofLoop P (depth (w_tree w)) (level + 1) (index div 2))
      (\<lambda>elements. retG (x # elements)) w2) = Inl ErrCanceled"
    using v by (auto simp: bindG_def split: prod.splits sum.splits)
  moreover have "pollCtx w = (Inr (), ?w1)"
    using Suc.prems(4) by (simp add: pollCtx_def)
  ultimately show ?case
    using w2(1) by (subst createProofLoop.simps) (simp add: lt bindG_def)
qed

lemma CreateProof_canceled:
  assumes wf: "wfTree P p (w_tree w)" and d: "unat (depth (w_tree w)) = d"
    and i: "unat index < 2 ^ d" and ctx: "w_ctx w = Some k" "k < d"
    and t: "treeOf P d (storageView P (w_tree w)) lf"
  shows "fst (CreateProof P index w) = Inl ErrCanceled"
proof -
  obtain x w1 where w1: "getLeafFromStorage P 0 index w = (Inr x, w1)" "cacheStep P w w1"
    using getLeafFromStorage_ok [OF wf, of 0 index] by (auto elim: runsE)
  have "fst (createProofLoop P (depth (w_tree w1)) 0 index w1) = Inl ErrCanceled"
    using assms cacheStep_views [OF w1(2)] cacheStep_wfTree [OF w1(2) wf]
    by (intro createProofLoop_cancelled) auto
  then show ?thesis
    using w1(1) by (auto simp: CreateProof_def bindG_def wrapG_def split: prod.splits sum.splits)
qed

text \<open>Inside the tree the reference nodes are field elements.\<close>

lemma node_in_field:
  assumes wf: "wfTree P p t" and "unat (depth t) = d" and tr: "treeOf P d (storageView P t) lf"
    and "l \<le> d" "i < 2 ^ (d - l)"
  shows "unat (node (hashOf P) lf l i) < p"
proof -
  have d: "d \<le> 32" using assms by (simp add: wfTree_def)
  have "(2::nat) ^ (d - l) \<le> 2 ^ 32"
    using d by (intro power_increasing) auto
  then have "unat (word_of_nat l :: u8) = l" "unat (word_of_nat i :: u32) = i"
    using assms d by (simp_all add: unat_of_nat)
  then show ?thesis
    using tr assms storageView_in_field [OF wf, of "word_of_nat l" "word_of_nat i"]
    by (simp add: treeOf_def)
qed

lemma pathFrom_in_field:
  assumes "wfTree P p t" "unat (depth t) = d" "treeOf P d (storageView P t) lf"
  shows "l + n = d \<Longrightarrow> i < 2 ^ n \<Longrightarrow> list_all (\<lambda>x. unat x < p) (pathFrom (hashOf P) lf n l i)"
proof (induction n arbitrary: l i)
  case 0
  then show ?case by simp
next
  case (Suc n)
  have "sibling i < 2 ^ Suc n"
    using sibling_div(3) [of i] Suc.prems(2) by (simp; presburger)
  then have "unat (node (hashOf P) lf l (sibling i)) < p"
    using Suc.prems(1) by (intro node_in_field [OF assms]) auto
  moreover have "list_all (\<lambda>x. unat x < p) (pathFrom (hashOf P) lf n (Suc l) (i div 2))"
    using Suc.prems by (intro Suc.IH) auto
  ultimately show ?case by simp
qed

end

section \<open>Reads through a batch\<close>

definition wfWorld ::
    "poseidon \<Rightarrow> nat \<Rightarrow> ('b \<Rightarrow> tree_level \<Rightarrow> leaf_index \<Rightarrow> u256 option) \<Rightarrow> ('b \<Rightarrow> bool)
     \<Rightarrow> ('b, 'g) world \<Rightarrow> bool" where
  "wfWorld P p lookup valid w \<longleftrightarrow> wfTree P p (w_tree w) \<and> valid (w_batch w) \<and>
     (\<forall>l i v. lookup (w_batch w) l i = Some v \<longrightarrow> unat v < p)"

text \<open>States that differ at most in the cache and the batch.\<close>

definition frame :: "('b, 'g) world \<Rightarrow> ('b, 'g) world \<Rightarrow> bool" where
  "frame w w' \<longleftrightarrow> w_ctx w' = w_ctx w \<and> w_rng w' = w_rng w \<and>
     depth (w_tree w') = depth (w_tree w) \<and> emtpyLeaf (w_tree w') = emtpyLeaf (w_tree w) \<and>
     storageLeafGetter (w_tree w') = storageLeafGetter (w_tree w)"

lemma frame_refl [simp]: "frame w w"
  by (simp add: frame_def)

lemma frame_trans: "frame w w' \<Longrightarrow> frame w' w'' \<Longrightarrow> frame w w''"
  by (simp add: frame_def)

lemma cacheStep_frame: "cacheStep P w w' \<Longrightarrow> frame w w'"
  by (simp add: frame_def cacheStep_views)

lemma cacheStep_wfWorld:
  "cacheStep P w w' \<Longrightarrow> wfWorld P p lookup valid w \<Longrightarrow> wfWorld P p lookup valid w'"
  by (auto simp: wfWorld_def cacheStep_views cacheStep_wfTree)

text \<open>
  A tree in the middle of an update: the nodes selected by \<open>Q\<close> are those of the tree over the new
  leaves \<open>lf'\<close>, the others those of the tree over the old leaves \<open>lf\<close>.
\<close>

definition mixed ::
    "poseidon \<Rightarrow> nat \<Rightarrow> (tree_level \<Rightarrow> leaf_index \<Rightarrow> u256) \<Rightarrow> (nat \<Rightarrow> u256) \<Rightarrow> (nat \<Rightarrow> u256)
     \<Rightarrow> (nat \<Rightarrow> nat \<Rightarrow> bool) \<Rightarrow> bool" where
  "mixed P d view lf lf' Q \<longleftrightarrow>
     (\<forall>l i. unat l \<le> d \<longrightarrow> unat i < 2 ^ (d - unat l) \<longrightarrow>
        view l i = node (hashOf P) (if Q (unat l) (unat i) then lf' else lf) (unat l) (unat i))"

lemma mixedD:
  "mixed P d view lf lf' Q \<Longrightarrow> unat l \<le> d \<Longrightarrow> unat i < 2 ^ (d - unat l) \<Longrightarrow>
    view l i = node (hashOf P) (if Q (unat l) (unat i) then lf' else lf) (unat l) (unat i)"
  by (simp add: mixed_def)

lemma mixed_treeOf:
  assumes "mixed P d view lf lf' Q" and "\<And>l i. l \<le> d \<Longrightarrow> Q l i"
  shows "treeOf P d view lf'"
  using assms by (auto simp: mixed_def treeOf_def)

text \<open>A level is complete when the leaves agree below every node that is not yet updated.\<close>

lemma mixed_complete:
  assumes "mixed P d view lf lf' Q"
    and "\<And>l i. l \<le> d \<Longrightarrow> Q l i \<noteq> Q' l i \<Longrightarrow> (\<forall>j. j div 2 ^ l = i \<longrightarrow> lf j = lf' j)"
  shows "mixed P d view lf lf' Q'"
  unfolding mixed_def
proof (intro allI impI)
  fix l :: tree_level and i :: leaf_index
  assume l: "unat l \<le> d" and i: "unat i < 2 ^ (d - unat l)"
  have "node (hashOf P) lf (unat l) (unat i) = node (hashOf P) lf' (unat l) (unat i)"
    if "Q (unat l) (unat i) \<noteq> Q' (unat l) (unat i)"
    using assms(2) [OF l that] by (intro node_cong) simp
  then show "view l i = node (hashOf P) (if Q' (unat l) (unat i) then lf' else lf) (unat l) (unat i)"
    using mixedD [OF assms(1) l i] by (cases "Q (unat l) (unat i) = Q' (unat l) (unat i)") auto
qed

lemma getSiblingNodes_children:
  "getSiblingNodes P B l i =
     bindG (getLeafFromBatchOrStorage P B l (2 * (i div 2))) (\<lambda>leftNode.
     bindG (getLeafFromBatchOrStorage P B l (2 * (i div 2) + 1)) (\<lambda>rightNode.
     retG (leftNode, rightNode)))"
  unfolding getSiblingNodes_def children_of_parent Let_def prod.case ..

text \<open>
  The loop over the shared backing array computes what the loop over separate slices computes:
  the append at position \<open>k \<le> i\<close> never overwrites an element that is still to be read.
\<close>

lemma insertLevelShared_eq:
  fixes B :: "'b batch_ops"
  assumes "k \<le> i" "i \<le> length arr"
  shows "(insertLevelShared P B level i k arr U :: (('b, 'g) world, tree_leaf list) go) =
    insertLevel P B level (drop i arr) (take k arr) U"
  using assms
proof (induction "length arr - i" arbitrary: i k arr U)
  case 0
  then show ?case by (subst insertLevelShared.simps) simp
next
  case (Suc n)
  then have i: "i < length arr" by simp
  then have dr: "drop i arr = arr ! i # drop (Suc i) arr"
    by (simp add: Cons_nth_drop_Suc)
  have skip: "(insertLevelShared P B level (Suc i) k arr V :: (('b, 'g) world, tree_leaf list) go) =
      insertLevel P B level (drop (Suc i) arr) (take k arr) V" for V
    using Suc.prems Suc.hyps(2) i by (intro Suc.hyps(1)) auto
  have app: "(insertLevelShared P B level (Suc i) (Suc k) (arr[k := x]) V
        :: (('b, 'g) world, tree_leaf list) go) =
      insertLevel P B level (drop (Suc i) arr) (take k arr @ [x]) V" for x V
  proof -
    have "(insertLevelShared P B level (Suc i) (Suc k) (arr[k := x]) V
          :: (('b, 'g) world, tree_leaf list) go) =
        insertLevel P B level (drop (Suc i) (arr[k := x])) (take (Suc k) (arr[k := x])) V"
      using Suc.prems Suc.hyps(2) i by (intro Suc.hyps(1)) auto
    moreover have "take (Suc k) (arr[k := x]) = take k arr @ [x]"
      using Suc.prems i by (simp add: take_Suc_conv_app_nth)
    ultimately show ?thesis
      using Suc.prems by simp
  qed
  show ?case
    unfolding dr by (subst insertLevelShared.simps) (simp add: i skip app Let_def)
qed

locale tree_env = poseidon_field P p + leaf_batch B lookup valid
  for P :: poseidon and p :: nat and B :: "'b batch_ops"
    and lookup :: "'b \<Rightarrow> tree_level \<Rightarrow> leaf_index \<Rightarrow> u256 option" and valid :: "'b \<Rightarrow> bool"
begin

lemma nodeView_in_field:
  "wfWorld P p lookup valid w \<Longrightarrow> unat (nodeView P lookup w l i) < p"
  using storageView_in_field by (auto simp: nodeView_def wfWorld_def split: option.splits)

lemma getLeafFromBatchOrStorage_ok:
  assumes wf: "wfWorld P p lookup valid w" and l: "l \<le> depth (w_tree w)"
  shows "runs (getLeafFromBatchOrStorage P B l i) w
    (\<lambda>x w'. x = nodeView P lookup w l i \<and> cacheStep P w w')"
proof (cases "lookup (w_batch w) l i")
  case None
  then obtain e where e: "batchGetLeaf B (w_batch w) l i = Inl e" "errorsIs e ErrNotFound"
    using get_none wf unfolding wfWorld_def by blast
  have "runs (wrapG ''get leaf from storage'' (getLeafFromStorage P l i)) w
    (\<lambda>x w'. x = storageView P (w_tree w) l i \<and> cacheStep P w w')"
    using wf l by (intro runs_wrapG getLeafFromStorage_ok) (auto simp: wfWorld_def)
  then show ?thesis
    using None e by (auto simp: runs_def getLeafFromBatchOrStorage_def nodeView_def)
next
  case (Some v)
  then have "batchGetLeaf B (w_batch w) l i = Inr v"
    using get_some wf by (auto simp: wfWorld_def)
  with Some wf show ?thesis
    by (intro runsI [of _ _ v w])
      (auto simp: getLeafFromBatchOrStorage_def nodeView_def wfWorld_def wfTree_def
        intro: cacheStep_refl)
qed

lemma calculateHashForNode_ok:
  assumes wf: "wfWorld P p lookup valid w" and l: "l \<le> depth (w_tree w)"
  shows "runs (calculateHashForNode P B l i) w
    (\<lambda>h w'. h = hashOf P (nodeView P lookup w l (2 * (i div 2))) (nodeView P lookup w l (2 * (i div 2) + 1))
       \<and> cacheStep P w w')"
proof -
  let ?L = "nodeView P lookup w l (2 * (i div 2))" and ?R = "nodeView P lookup w l (2 * (i div 2) + 1)"
  obtain w1 where w1: "getLeafFromBatchOrStorage P B l (2 * (i div 2)) w = (Inr ?L, w1)" "cacheStep P w w1"
    using getLeafFromBatchOrStorage_ok [OF wf l] by (blast elim: runsE)
  have "wfWorld P p lookup valid w1" "l \<le> depth (w_tree w1)"
    using w1(2) wf l by (auto simp: cacheStep_wfWorld cacheStep_views)
  then obtain w' where "getLeafFromBatchOrStorage P B l (2 * (i div 2) + 1) w1 =
      (Inr (nodeView P lookup w1 l (2 * (i div 2) + 1)), w')" "cacheStep P w1 w'"
    using getLeafFromBatchOrStorage_ok by (blast elim: runsE)
  then have w': "getSiblingNodes P B l i w = (Inr (?L, ?R), w')" "cacheStep P w w'"
    using w1 by (simp_all add: getSiblingNodes_children cacheStep_views
        cacheStep_trans [of P w w1])
  show ?thesis
    using w' calculateHash_ok(1) nodeView_in_field [OF wf]
    by (intro runsI [of _ _ "hashOf P ?L ?R" w']) (auto simp: calculateHashForNode_def)
qed

lemma setLeaf_ok:
  assumes wf: "wfWorld P p lookup valid w" and v: "unat v < p"
  shows "runs (setLeaf B l i v) w
    (\<lambda>_ w'. wfWorld P p lookup valid w' \<and> frame w w' \<and>
       (\<forall>l' i'. nodeView P lookup w' l' i' = (if l' = l \<and> i' = i then v else nodeView P lookup w l' i')))"
proof -
  obtain b' where b': "batchSetLeaf B l i v (w_batch w) = (Inr (), b')" "valid b'"
    "\<And>l' i'. lookup b' l' i' = (if l' = l \<and> i' = i then Some v else lookup (w_batch w) l' i')"
    using set_ok wf unfolding wfWorld_def by blast
  show ?thesis
    using wf v b' by (intro runsI [of _ _ "()" "w\<lparr>w_batch := b'\<rparr>"])
      (auto simp: setLeaf_def wfWorld_def frame_def nodeView_def split: option.splits)
qed

text \<open>One step of an insertion loop: hash the parent of \<open>index\<close>, store it and continue.\<close>

lemma hash_parent_step:
  assumes wf: "wfWorld P p lookup valid w"
    and d: "unat (depth (w_tree w)) = d" and l: "unat level < d" and i: "unat index < 2 ^ (d - unat level)"
    and mix: "mixed P d (nodeView P lookup w) lf lf' Q"
    and Q: "Q (unat level) (2 * (unat index div 2))" "Q (unat level) (2 * (unat index div 2) + 1)"
    and cont: "\<And>h w'. wfWorld P p lookup valid w' \<Longrightarrow> frame w w' \<Longrightarrow>
      mixed P d (nodeView P lookup w') lf lf'
        (\<lambda>l i. Q l i \<or> (l = Suc (unat level) \<and> i = unat index div 2)) \<Longrightarrow> runs (k h) w' R"
  shows "runs (bindG (wrapG m1 (calculateHashForNode P B level index)) (\<lambda>h.
    bindG (wrapG m2 (setLeaf B (level + 1) (index div 2) h)) (\<lambda>_. k h))) w R"
proof -
  let ?h = "hashOf P (nodeView P lookup w level (2 * (index div 2)))
                     (nodeView P lookup w level (2 * (index div 2) + 1))"
  have l1: "unat (level + 1) = Suc (unat level)"
    using l d by (intro unat_plus1 [of _ "depth (w_tree w)"]) (simp add: word_less_nat_alt)
  note r = children_in_range [OF i l]
  have h: "?h = node (hashOf P) lf' (Suc (unat level)) (unat index div 2)"
    using mixedD [OF mix, of level "2 * (index div 2)"] mixedD [OF mix, of level "2 * (index div 2) + 1"]
      l r(1) Q by (simp add: unat_children)
  have "level \<le> depth (w_tree w)"
    using l d by (simp add: word_le_nat_alt)
  from calculateHashForNode_ok [OF wf this] obtain w1
    where w1: "calculateHashForNode P B level index w = (Inr ?h, w1)" "cacheStep P w w1"
    by (blast elim: runsE)
  have wf1: "wfWorld P p lookup valid w1"
    using cacheStep_wfWorld w1(2) wf .
  have "unat ?h < p"
    using nodeView_in_field [OF wf] by (simp add: calculateHash_ok)
  from setLeaf_ok [OF wf1 this, of "level + 1" "index div 2"] obtain w2
    where w2: "setLeaf B (level + 1) (index div 2) ?h w1 = (Inr (), w2)" "wfWorld P p lookup valid w2"
      "frame w1 w2" "\<And>l' i'. nodeView P lookup w2 l' i' =
        (if l' = level + 1 \<and> i' = index div 2 then ?h else nodeView P lookup w l' i')"
    unfolding runs_def cacheStep_views(8) [OF w1(2)] by auto
  have "mixed P d (nodeView P lookup w2) lf lf'
      (\<lambda>l i. Q l i \<or> (l = Suc (unat level) \<and> i = unat index div 2))"
    unfolding mixed_def w2(4)
  proof (intro allI impI)
    fix l' :: tree_level and i' :: leaf_index
    assume *: "unat l' \<le> d" "unat i' < 2 ^ (d - unat l')"
    have "l' = level + 1 \<and> i' = index div 2 \<longleftrightarrow> unat l' = Suc (unat level) \<and> unat i' = unat index div 2"
      using l1 by (simp add: word_unat_eq_iff unat_div)
    then show "(if l' = level + 1 \<and> i' = index div 2 then ?h else nodeView P lookup w l' i') =
      node (hashOf P) (if Q (unat l') (unat i') \<or> unat l' = Suc (unat level) \<and> unat i' = unat index div 2
        then lf' else lf) (unat l') (unat i')"
      using mixedD [OF mix *] h by auto
  qed
  then have "runs (k ?h) w2 R"
    using w1(2) w2(2,3) by (intro cont) (auto intro: frame_trans cacheStep_frame)
  then show ?thesis
    using w1(1) w2(1) by (auto simp: runs_def bindG_def wrapG_def)
qed

subsection \<open>Insertion of one leaf\<close>

lemma insertLeafLoop_ok:
  assumes "wfWorld P p lookup valid w" "unat (depth (w_tree w)) = d" "unat level \<le> d"
    "unat index < 2 ^ (d - unat level)"
    "mixed P d (nodeView P lookup w) lf lf' (\<lambda>l i. l \<le> unat level)"
    "\<forall>j. j div 2 ^ unat level \<noteq> unat index \<longrightarrow> lf j = lf' j"
  shows "runs (insertLeafLoop P B (depth (w_tree w)) level index) w
    (\<lambda>_ w'. wfWorld P p lookup valid w' \<and> frame w w' \<and> treeOf P d (nodeView P lookup w') lf')"
  using assms
proof (induction "d - unat level" arbitrary: level index w)
  case 0
  then have "unat level = d" by simp
  then have "\<not> level < depth (w_tree w)" "treeOf P d (nodeView P lookup w) lf'"
    using 0 mixed_treeOf [OF "0.prems"(5)] by (auto simp: word_less_nat_alt)
  then show ?case
    using "0.prems"(1) by (subst insertLeafLoop.simps) auto
next
  case (Suc n)
  then have l: "unat level < d" by simp
  then have lt: "level < depth (w_tree w)"
    using Suc.prems(2) by (simp add: word_less_nat_alt)
  have l1: "unat (level + 1) = Suc (unat level)"
    using lt by (rule unat_plus1)
  have agree: "\<forall>j. j div 2 ^ unat (level + 1) \<noteq> unat (index div 2) \<longrightarrow> lf j = lf' j"
    using Suc.prems(6) by (auto simp: l1 unat_div div_power_Suc simp del: power_Suc)
  show ?case
  proof (subst insertLeafLoop.simps, simp only: lt if_True,
      rule hash_parent_step [OF Suc.prems(1,2) l Suc.prems(4,5)])
    fix h w'
    assume wf': "wfWorld P p lookup valid w'" and fr: "frame w w'"
      and mix: "mixed P d (nodeView P lookup w') lf lf'
        (\<lambda>l i. l \<le> unat level \<or> l = Suc (unat level) \<and> i = unat index div 2)"
    have mix': "mixed P d (nodeView P lookup w') lf lf' (\<lambda>l i. l \<le> unat (level + 1))"
      using agree by (intro mixed_complete [OF mix]) (auto simp: l1 unat_div le_Suc_eq)
    have dep: "depth (w_tree w') = depth (w_tree w)"
      using fr by (simp add: frame_def)
    have "runs (insertLeafLoop P B (depth (w_tree w')) (level + 1) (index div 2)) w'
      (\<lambda>_ w''. wfWorld P p lookup valid w'' \<and> frame w' w'' \<and> treeOf P d (nodeView P lookup w'') lf')"
      using Suc.hyps(2) Suc.prems(2,4) wf' mix' agree dep l children_in_range(2) [OF Suc.prems(4) l]
      by (intro Suc.hyps(1)) (auto simp: l1)
    then show "runs (insertLeafLoop P B (depth (w_tree w)) (level + 1) (index div 2)) w'
      (\<lambda>_ w''. wfWorld P p lookup valid w'' \<and> frame w w'' \<and> treeOf P d (nodeView P lookup w'') lf')"
      unfolding dep by (rule runs_mono) (auto intro: frame_trans [OF fr])
  qed simp_all
qed

text \<open>Writing the leaf level: only the written leaves change.\<close>

lemma setLeaf0_mixed:
  assumes "mixed P d view lf lf' (\<lambda>l i. l \<le> 0)" "unat i < 2 ^ d"
    "\<And>l' i'. view' l' i' = (if l' = 0 \<and> i' = i then v else view l' i')"
  shows "mixed P d view' lf (lf'(unat i := v)) (\<lambda>l i. l \<le> 0)"
  unfolding mixed_def
proof (intro allI impI)
  fix l :: tree_level and j :: leaf_index
  assume "unat l \<le> d" "unat j < 2 ^ (d - unat l)"
  from mixedD [OF assms(1) this] show "view' l j =
    node (hashOf P) (if unat l \<le> 0 then lf'(unat i := v) else lf) (unat l) (unat j)"
    using assms(3) [of l j] word_unat_eq_iff [of j i] by (cases "l = 0") (simp_all add: unat_eq_zero)
qed

lemma InsertLeaf_ok:
  assumes wf: "wfWorld P p lookup valid w" and d: "unat (depth (w_tree w)) = d"
    and i: "unat index < 2 ^ d" and v: "unat v < p" and t: "treeOf P d (nodeView P lookup w) lf"
  shows "runs (InsertLeaf P B index v) w
    (\<lambda>_ w'. wfWorld P p lookup valid w' \<and> frame w w' \<and>
       treeOf P d (nodeView P lookup w') (lf(unat index := v)))"
  unfolding InsertLeaf_def
proof (intro runs_bindG runs_wrapG, rule runs_mono [OF setLeaf_ok [OF wf v]], elim conjE)
  fix u w'
  assume wf': "wfWorld P p lookup valid w'" and fr: "frame w w'"
    and view: "\<forall>l' i'. nodeView P lookup w' l' i' =
      (if l' = 0 \<and> i' = index then v else nodeView P lookup w l' i')"
  have "mixed P d (nodeView P lookup w) lf lf (\<lambda>l i. l \<le> 0)"
    using t by (simp add: mixed_def treeOf_def)
  then have mix: "mixed P d (nodeView P lookup w') lf (lf(unat index := v)) (\<lambda>l i. l \<le> 0)"
    using i view by (intro setLeaf0_mixed) auto
  have "unat (depth (w_tree w')) = d"
    using fr d by (simp add: frame_def)
  then have "runs (insertLeafLoop P B (depth (w_tree w')) 0 index) w'
    (\<lambda>_ w''. wfWorld P p lookup valid w'' \<and> frame w' w'' \<and>
       treeOf P d (nodeView P lookup w'') (lf(unat index := v)))"
    using wf' mix i by (intro insertLeafLoop_ok) auto
  then show "runs (\<lambda>w. insertLeafLoop P B (depth (w_tree w)) 0 index w) w'
    (\<lambda>_ w''. wfWorld P p lookup valid w'' \<and> frame w w'' \<and>
       treeOf P d (nodeView P lookup w'') (lf(unat index := v)))"
    unfolding runs_def using frame_trans [OF fr] by blast
qed

subsection \<open>Insertion of many leaves\<close>

lemma insertLevel_ok:
  assumes "wfWorld P p lookup valid w" "unat (depth (w_tree w)) = d" "unat level < d"
    "\<forall>x\<in>set leaves. unat (leafIndex x) < 2 ^ (d - unat level)"
    "mixed P d (nodeView P lookup w) lf lf'
      (\<lambda>l i. l \<le> unat level \<or> l = Suc (unat level) \<and> i \<in> unat ` U)"
    "leafIndex ` set next = U"
  shows "runs (insertLevel P B level leaves next U) w
    (\<lambda>next' w'. wfWorld P p lookup valid w' \<and> frame w w' \<and>
       leafIndex ` set next' = U \<union> (\<lambda>x. leafIndex x div 2) ` set leaves \<and>
       mixed P d (nodeView P lookup w') lf lf'
         (\<lambda>l i. l \<le> unat level \<or> l = Suc (unat level) \<and> i \<in> unat ` leafIndex ` set next'))"
  using assms
proof (induction leaves arbitrary: w "next" U)
  case Nil
  then show ?case by auto
next
  case (Cons x leaves)
  let ?i = "leafIndex x div 2"
  show ?case
  proof (cases "?i \<in> U")
    case True
    then show ?thesis
      using Cons.IH [of w U "next"] Cons.prems by (simp add: Let_def insert_absorb)
  next
    case False
    let ?Q = "\<lambda>l i. l \<le> unat level \<or> l = Suc (unat level) \<and> i \<in> unat ` U"
    have i: "unat (leafIndex x) < 2 ^ (d - unat level)"
      using Cons.prems(4) by simp
    have "runs (bindG (wrapG ''compute node hash'' (calculateHashForNode P B level (leafIndex x))) (\<lambda>h.
        bindG (wrapG ''set node'' (setLeaf B (level + 1) ?i h)) (\<lambda>_.
        insertLevel P B level leaves (next @ [\<lparr>leafIndex = ?i, leafValue = h\<rparr>]) (insert ?i U)))) w
      (\<lambda>next' w'. wfWorld P p lookup valid w' \<and> frame w w' \<and>
       leafIndex ` set next' = U \<union> (\<lambda>x. leafIndex x div 2) ` set (x # leaves) \<and>
       mixed P d (nodeView P lookup w') lf lf'
         (\<lambda>l i. l \<le> unat level \<or> l = Suc (unat level) \<and> i \<in> unat ` leafIndex ` set next'))"
    proof (rule hash_parent_step [OF Cons.prems(1,2,3) i Cons.prems(5)])
      fix h w'
      assume wf': "wfWorld P p lookup valid w'" and fr: "frame w w'"
        and mix: "mixed P d (nodeView P lookup w') lf lf'
          (\<lambda>l i. ?Q l i \<or> l = Suc (unat level) \<and> i = unat (leafIndex x) div 2)"
      have Q': "(\<lambda>l i. ?Q l i \<or> l = Suc (unat level) \<and> i = unat (leafIndex x) div 2) =
          (\<lambda>l i. l \<le> unat level \<or> l = Suc (unat level) \<and> i \<in> unat ` insert ?i U)"
        by (auto simp: fun_eq_iff unat_div)
      have "unat (depth (w_tree w')) = d"
        using fr Cons.prems(2) by (simp add: frame_def)
      then have "runs (insertLevel P B level leaves (next @ [\<lparr>leafIndex = ?i, leafValue = h\<rparr>]) (insert ?i U)) w'
        (\<lambda>next' w''. wfWorld P p lookup valid w'' \<and> frame w' w'' \<and>
         leafIndex ` set next' = insert ?i U \<union> (\<lambda>x. leafIndex x div 2) ` set leaves \<and>
         mixed P d (nodeView P lookup w'') lf lf'
           (\<lambda>l i. l \<le> unat level \<or> l = Suc (unat level) \<and> i \<in> unat ` leafIndex ` set next'))"
        using Cons.prems(3,4,6) wf' mix unfolding Q' by (intro Cons.IH) auto
      then show "runs (insertLevel P B level leaves (next @ [\<lparr>leafIndex = ?i, leafValue = h\<rparr>]) (insert ?i U)) w'
        (\<lambda>next' w''. wfWorld P p lookup valid w'' \<and> frame w w'' \<and>
         leafIndex ` set next' = U \<union> (\<lambda>x. leafIndex x div 2) ` set (x # leaves) \<and>
         mixed P d (nodeView P lookup w'') lf lf'
           (\<lambda>l i. l \<le> unat level \<or> l = Suc (unat level) \<and> i \<in> unat ` leafIndex ` set next'))"
        by (rule runs_mono) (auto intro: frame_trans [OF fr])
    qed simp_all
    then show ?thesis
      using False by (simp add: Let_def)
  qed
qed

lemma insertLevels_ok:
  assumes "wfWorld P p lookup valid w" "unat (depth (w_tree w)) = d" "unat level \<le> d"
    "\<forall>x\<in>set leaves. unat (leafIndex x) < 2 ^ (d - unat level)"
    "mixed P d (nodeView P lookup w) lf lf' (\<lambda>l i. l \<le> unat level)"
    "\<forall>j. lf j \<noteq> lf' j \<longrightarrow> j div 2 ^ unat level \<in> unat ` leafIndex ` set leaves"
  shows "runs (insertLevels P B (depth (w_tree w)) level leaves) w
    (\<lambda>_ w'. wfWorld P p lookup valid w' \<and> frame w w' \<and> treeOf P d (nodeView P lookup w') lf')"
  using assms
proof (induction "d - unat level" arbitrary: level leaves w)
  case 0
  then have "unat level = d" by simp
  then have "\<not> level < depth (w_tree w)" "treeOf P d (nodeView P lookup w) lf'"
    using 0 mixed_treeOf [OF "0.prems"(5)] by (auto simp: word_less_nat_alt)
  then show ?case
    using "0.prems"(1) by (subst insertLevels.simps) auto
next
  case (Suc n)
  then have l: "unat level < d" by simp
  then have lt: "level < depth (w_tree w)"
    using Suc.prems(2) by (simp add: word_less_nat_alt)
  have l1: "unat (level + 1) = Suc (unat level)"
    using lt by (rule unat_plus1)
  let ?m = "insertLevel P B level leaves [] {}"
  have "runs ?m w (\<lambda>next' w'. wfWorld P p lookup valid w' \<and> frame w w' \<and>
       leafIndex ` set next' = {} \<union> (\<lambda>x. leafIndex x div 2) ` set leaves \<and>
       mixed P d (nodeView P lookup w') lf lf'
         (\<lambda>l i. l \<le> unat level \<or> l = Suc (unat level) \<and> i \<in> unat ` leafIndex ` set next'))"
    using Suc.prems l by (intro insertLevel_ok) auto
  then obtain next' w' where m: "?m w = (Inr next', w')" and wf': "wfWorld P p lookup valid w'"
    and fr: "frame w w'" and ix: "leafIndex ` set next' = (\<lambda>x. leafIndex x div 2) ` set leaves"
    and mix: "mixed P d (nodeView P lookup w') lf lf'
      (\<lambda>l i. l \<le> unat level \<or> l = Suc (unat level) \<and> i \<in> unat ` leafIndex ` set next')"
    by (auto elim: runsE)
  have nat_ix: "unat ` leafIndex ` set next' = (\<lambda>n. n div 2) ` unat ` leafIndex ` set leaves"
    unfolding ix by (auto simp: image_image unat_div)
  have agree: "\<forall>j. lf j \<noteq> lf' j \<longrightarrow> j div 2 ^ unat (level + 1) \<in> unat ` leafIndex ` set next'"
    using Suc.prems(6) by (auto simp: l1 nat_ix div_power_Suc simp del: power_Suc)
  have mix': "mixed P d (nodeView P lookup w') lf lf' (\<lambda>l i. l \<le> unat (level + 1))"
    using agree by (intro mixed_complete [OF mix]) (auto simp: l1 le_Suc_eq)
  have dep: "depth (w_tree w') = depth (w_tree w)"
    using fr by (simp add: frame_def)
  have range: "\<forall>x\<in>set next'. unat (leafIndex x) < 2 ^ (d - unat (level + 1))"
  proof
    fix x assume "x \<in> set next'"
    then have "leafIndex x \<in> (\<lambda>x. leafIndex x div 2) ` set leaves"
      by (simp flip: ix)
    then obtain y where "y \<in> set leaves" "leafIndex x = leafIndex y div 2"
      by auto
    then show "unat (leafIndex x) < 2 ^ (d - unat (level + 1))"
      using Suc.prems(4) l children_in_range(2) by (simp add: l1)
  qed
  have "runs (insertLevels P B (depth (w_tree w')) (level + 1) next') w'
    (\<lambda>_ w''. wfWorld P p lookup valid w'' \<and> frame w' w'' \<and> treeOf P d (nodeView P lookup w'') lf')"
    using Suc.hyps(2) Suc.prems(2) l wf' dep range mix' agree by (intro Suc.hyps(1)) (auto simp: l1)
  then have rest: "runs (insertLevels P B (depth (w_tree w)) (level + 1) next') w'
    (\<lambda>_ w''. wfWorld P p lookup valid w'' \<and> frame w w'' \<and> treeOf P d (nodeView P lookup w'') lf')"
    unfolding dep by (rule runs_mono) (auto intro: frame_trans [OF fr])
  have "(if level = 0 then ?m else insertLevelShared P B level 0 0 leaves {}) w = (Inr next', w')"
    using m by (cases "level = 0") (simp_all add: insertLevelShared_eq)
  with rest show ?case
    by (subst insertLevels.simps) (auto simp: lt runs_def bindG_def)
qed

lemma setLeaves_ok:
  assumes "wfWorld P p lookup valid w" "unat (depth (w_tree w)) = d"
    "\<forall>x\<in>set leaves. unat (leafIndex x) < 2 ^ d \<and> unat (leafValue x) < p"
    "mixed P d (nodeView P lookup w) lf lf' (\<lambda>l i. l \<le> 0)"
  shows "runs (setLeaves B leaves) w
    (\<lambda>_ w'. wfWorld P p lookup valid w' \<and> frame w w' \<and>
       mixed P d (nodeView P lookup w') lf (updLeaves lf' leaves) (\<lambda>l i. l \<le> 0))"
  using assms
proof (induction leaves arbitrary: w lf')
  case Nil
  then show ?case by simp
next
  case (Cons x leaves)
  have "unat (leafValue x) < p"
    using Cons.prems(3) by simp
  from setLeaf_ok [OF Cons.prems(1) this, of 0 "leafIndex x"] obtain w'
    where w': "setLeaf B 0 (leafIndex x) (leafValue x) w = (Inr (), w')" "wfWorld P p lookup valid w'"
      and fr: "frame w w'" and view: "\<And>l' i'. nodeView P lookup w' l' i' =
        (if l' = 0 \<and> i' = leafIndex x then leafValue x else nodeView P lookup w l' i')"
    unfolding runs_def by auto
  have "mixed P d (nodeView P lookup w') lf (lf'(unat (leafIndex x) := leafValue x)) (\<lambda>l i. l \<le> 0)"
    using Cons.prems(3,4) view by (intro setLeaf0_mixed) auto
  then have "runs (setLeaves B leaves) w' (\<lambda>_ w''. wfWorld P p lookup valid w'' \<and> frame w' w'' \<and>
       mixed P d (nodeView P lookup w'') lf (updLeaves lf' (x # leaves)) (\<lambda>l i. l \<le> 0))"
    using Cons.prems(2,3) w'(2) fr unfolding updLeaves_simps
    by (intro Cons.IH) (auto simp: frame_def simp del: fun_upd_apply)
  then have "runs (setLeaves B leaves) w' (\<lambda>_ w''. wfWorld P p lookup valid w'' \<and> frame w w'' \<and>
       mixed P d (nodeView P lookup w'') lf (updLeaves lf' (x # leaves)) (\<lambda>l i. l \<le> 0))"
    by (rule runs_mono) (auto intro: frame_trans [OF fr])
  then show ?case
    using w'(1) by (auto simp: runs_def bindG_def wrapG_def)
qed

lemma InsertLeaves_ok:
  assumes wf: "wfWorld P p lookup valid w" and d: "unat (depth (w_tree w)) = d"
    and i: "\<forall>x\<in>set leaves. unat (leafIndex x) < 2 ^ d \<and> unat (leafValue x) < p"
    and t: "treeOf P d (nodeView P lookup w) lf"
  shows "runs (InsertLeaves P B leaves) w
    (\<lambda>_ w'. wfWorld P p lookup valid w' \<and> frame w w' \<and>
       treeOf P d (nodeView P lookup w') (updLeaves lf leaves))"
proof -
  have "mixed P d (nodeView P lookup w) lf lf (\<lambda>l i. l \<le> 0)"
    using t by (simp add: mixed_def treeOf_def)
  from setLeaves_ok [OF wf d i this] obtain w'
    where w': "setLeaves B leaves w = (Inr (), w')" "wfWorld P p lookup valid w'" "frame w w'"
      "mixed P d (nodeView P lookup w') lf (updLeaves lf leaves) (\<lambda>l i. l \<le> 0)"
    unfolding runs_def by auto
  have "j \<in> unat ` leafIndex ` set leaves" if "lf j \<noteq> updLeaves lf leaves j" for j
    using updLeaves_other [of leaves j lf] that by (metis image_eqI)
  then have "runs (insertLevels P B (depth (w_tree w')) 0 leaves) w'
    (\<lambda>_ w''. wfWorld P p lookup valid w'' \<and> frame w' w'' \<and>
       treeOf P d (nodeView P lookup w'') (updLeaves lf leaves))"
    using w' d i by (intro insertLevels_ok) (auto simp: frame_def)
  then have "runs (insertLevels P B (depth (w_tree w')) 0 leaves) w'
    (\<lambda>_ w''. wfWorld P p lookup valid w'' \<and> frame w w'' \<and>
       treeOf P d (nodeView P lookup w'') (updLeaves lf leaves))"
    by (rule runs_mono) (auto intro: frame_trans [OF w'(3)])
  then show ?thesis
    unfolding InsertLeaves_def using w'(1) by (auto simp: runs_def bindG_def)
qed

end

section \<open>Choosing an empty leaf\<close>

lemma unat_maxLeaves:
  "unat (depth t) \<le> 32 \<Longrightarrow> unat (maxLeaves t) = 2 ^ unat (depth t)"
proof -
  assume "unat (depth t) \<le> 32"
  then have "(2::nat) ^ unat (depth t) < 2 ^ 64"
    by (intro power_strict_increasing) auto
  moreover have "maxLeaves t = word_of_nat (2 ^ unat (depth t))"
    by (simp add: maxLeaves_def push_bit_eq_mult)
  ultimately show ?thesis
    by (simp only: unat_of_nat take_bit_nat_eq_self) simp
qed

lemma randomIndex_ok:
  assumes "unat (depth (w_tree w)) \<le> 32"
  shows "runs (randomIndex rand) w (\<lambda>i w'. unat i < 2 ^ unat (depth (w_tree w)) \<and>
    i = ucast (fst (rand (w_rng w)) mod maxLeaves (w_tree w)) \<and> w' = w\<lparr>w_rng := snd (rand (w_rng w))\<rparr>)"
proof -
  let ?n = "maxLeaves (w_tree w)" and ?r = "fst (rand (w_rng w))"
  have n: "unat ?n = 2 ^ unat (depth (w_tree w))"
    using assms by (rule unat_maxLeaves)
  then have "?n \<noteq> 0" by (metis power_not_zero unat_0 zero_neq_numeral)
  moreover have "unat (ucast (?r mod ?n) :: u32) < 2 ^ unat (depth (w_tree w))"
    by (rule le_less_trans [OF _ mod_less_divisor [of "2 ^ unat (depth (w_tree w))" "unat ?r"]])
       (simp_all add: unsigned_ucast_eq unat_mod n take_bit_nat_less_eq_self)
  ultimately show ?thesis
    by (simp add: runs_def randomIndex_def Let_def split: prod.split)
qed

text \<open>The indexes that successive draws give.\<close>

fun draw :: "('g \<Rightarrow> u64 \<times> 'g) \<Rightarrow> u64 \<Rightarrow> 'g \<Rightarrow> nat \<Rightarrow> leaf_index" where
  "draw rand n g 0 = ucast (fst (rand g) mod n)"
| "draw rand n g (Suc k) = draw rand n (snd (rand g)) k"

definition isEmptyLeaf :: "leaf_getter \<Rightarrow> leaf_index \<Rightarrow> bool" where
  "isEmptyLeaf g i = (case g 0 i of Inl e \<Rightarrow> errorsIs e ErrNotFound | Inr _ \<Rightarrow> False)"

lemma randomEmptyLoop_ok:
  assumes "unat (depth (w_tree w)) \<le> 32" "ctxAlive (k + n) (w_ctx w)"
  shows "case randomEmptyLoop rand k w of
      (Inr i, w') \<Rightarrow> unat i < 2 ^ unat (depth (w_tree w)) \<and> isEmptyLeaf (storageLeafGetter (w_tree w)) i \<and>
         w_tree w' = w_tree w \<and> w_batch w' = w_batch w \<and> ctxAlive n (w_ctx w')
    | (Inl e, w') \<Rightarrow> \<forall>j<k. \<not> isEmptyLeaf (storageLeafGetter (w_tree w)) (draw rand (maxLeaves (w_tree w)) (w_rng w) j)"
  using assms
proof (induction k arbitrary: w n)
  case 0
  then show ?case by simp
next
  case (Suc k)
  let ?w1 = "w\<lparr>w_ctx := ctxAfter 1 (w_ctx w)\<rparr>"
  have p: "pollCtx w = (Inr (), ?w1)" "ctxAlive (k + n) (w_ctx ?w1)"
    using pollCtx_alive [of "k + n" w] Suc.prems(2) by simp_all
  obtain i where i: "randomIndex rand ?w1 = (Inr i, ?w1\<lparr>w_rng := snd (rand (w_rng w))\<rparr>)"
      "unat i < 2 ^ unat (depth (w_tree w))" "i = ucast (fst (rand (w_rng w)) mod maxLeaves (w_tree w))"
    using randomIndex_ok [of ?w1 rand] Suc.prems(1) by (auto elim: runsE)
  let ?w2 = "?w1\<lparr>w_rng := snd (rand (w_rng w))\<rparr>"
  have c: "ctxAlive n (w_ctx ?w2)" "ctxAlive (k + n) (w_ctx ?w2)"
    using p(2) by (simp_all add: ctxAlive_def split: option.splits)
  show ?case
  proof (cases "isEmptyLeaf (storageLeafGetter (w_tree w)) i")
    case True
    then have "randomEmptyLoop rand (Suc k) w = (Inr i, ?w2)"
      using p(1) i(1) by (auto simp: isEmptyLeaf_def bindG_def split: sum.splits)
    then show ?thesis using True i(2) c(1) by simp
  next
    case False
    then have "randomEmptyLoop rand (Suc k) w = randomEmptyLoop rand k ?w2"
      using p(1) i(1) by (auto simp: isEmptyLeaf_def bindG_def split: sum.splits)
    then show ?thesis
      using Suc.IH [of ?w2 n] Suc.prems(1) c(2) False i(3)
      by (auto split: prod.splits sum.splits simp: less_Suc_eq_0_disj)
  qed
qed

section \<open>The empty tree\<close>

text \<open>A tree over an empty storage is the tree of empty leaves.\<close>

lemma node_empty: "node (hashOf P) (\<lambda>_. e) l i = emptyHash P e l"
  by (induction l arbitrary: i) simp_all

lemma empty_treeOf:
  assumes "\<And>l i. storageLeafGetter t l i = Inl ErrNotFound"
  shows "treeOf P d (storageView P t) (\<lambda>_. emtpyLeaf t)"
  using assms by (simp add: treeOf_def storageView_def node_empty)

lemma empty_wfTree:
  assumes "\<And>l i. storageLeafGetter t l i = Inl ErrNotFound" "emptyBranchLevels t = None"
    "1 \<le> unat (depth t)" "unat (depth t) \<le> 32" "unat (emtpyLeaf t) < p"
  shows "wfTree P p t"
  using assms by (simp add: wfTree_def getterOk_def cacheOk_def)

end
