(* ===== verification/Registry.thy ===== *)
theory Registry
  imports Leaf_Storage Tree_Correct
begin

text \<open>
  One certificate registry (\<open>internal/zkregistry/zk_certificate_registry.go\<close>) with its operations
  buffer (\<open>operations_buffer.go\<close>) and progress flag (\<open>progress.go\<close>).

  The abstract registry is a function from positions to leaf values and a map from leaf values to
  positions.  \<open>represents\<close> relates it to the content of the database.  Committing a list of additions
  and revocations and writing the batch implements the abstract operations, and touches no key of
  any other object in the database.
\<close>

section \<open>Operations buffer and progress\<close>

definition OperationAddition :: u8 where "OperationAddition = 1"
definition OperationRevocation :: u8 where "OperationRevocation = 2"

record leaf_operation =
  opLeaf :: tree_leaf
  opOp :: u8

type_synonym operations_buffer = "leaf_operation list"

definition NewOperationsBuffer :: operations_buffer where
  "NewOperationsBuffer = []"

definition AppendAddition :: "leaf_index \<Rightarrow> u256 \<Rightarrow> (operations_buffer, unit) go" where
  "AppendAddition index v buffer =
     (Inr (), buffer @ [\<lparr>opLeaf = \<lparr>leafIndex = index, leafValue = v\<rparr>, opOp = OperationAddition\<rparr>])"

definition AppendRevocation :: "leaf_index \<Rightarrow> u256 \<Rightarrow> (operations_buffer, unit) go" where
  "AppendRevocation index v buffer =
     (Inr (), buffer @ [\<lparr>opLeaf = \<lparr>leafIndex = index, leafValue = v\<rparr>, opOp = OperationRevocation\<rparr>])"

definition Operations :: "operations_buffer \<Rightarrow> leaf_operation list" where
  "Operations buffer = buffer"

definition ResetBuffer :: "operations_buffer \<Rightarrow> operations_buffer" where
  "ResetBuffer buffer = take 0 buffer"

text \<open>\<open>Progress.onHead\<close>, an atomic \<open>uint32\<close>.\<close>

definition IsOnHead :: "u32 \<Rightarrow> bool" where
  "IsOnHead onHead \<longleftrightarrow> onHead = 1"

definition SetOnHead :: "bool \<Rightarrow> u32 \<Rightarrow> u32" where
  "SetOnHead onHead old = (if onHead then 1 else 0)"

section \<open>The registry\<close>

record metadata =
  mdAddress :: address
  mdDepth :: tree_level
  mdEmptyValue :: u256
  mdInitBlockHeight :: u64
  mdDescription :: string
  mdIndex :: u8

text \<open>
  \<open>regLeafView\<close> and \<open>regMutex\<close> are the registry index the leaf view and the mutex view hold.
\<close>

record registry =
  regMetadata :: metadata
  regTree :: sparse_tree
  regLeafView :: u8
  regMutex :: u8
  regProgress :: u32

definition NewZKCertificateRegistry ::
    "metadata \<Rightarrow> sparse_tree \<Rightarrow> u8 \<Rightarrow> u8 \<Rightarrow> u32 \<Rightarrow> registry" where
  "NewZKCertificateRegistry md tree view mutex progress =
     \<lparr>regMetadata = md, regTree = tree, regLeafView = view, regMutex = mutex, regProgress = progress\<rparr>"

text \<open>
  The tree of a registry reads through its leaf view, that is, the database at the time of the call.
\<close>

definition liveTree :: "('d, 'b) db_ops \<Rightarrow> u256_ops \<Rightarrow> 'd \<Rightarrow> registry \<Rightarrow> sparse_tree" where
  "liveTree D U d reg = (regTree reg)\<lparr>storageLeafGetter := LeafView_GetLeaf D U d (regLeafView reg)\<rparr>"

fun commitLoop ::
    "('d, 'b) db_ops \<Rightarrow> u256_ops \<Rightarrow> registry \<Rightarrow> leaf_operation list \<Rightarrow> tree_leaf list \<Rightarrow> ('b, tree_leaf list) go" where
  "commitLoop D U reg [] leaves = retG leaves"
| "commitLoop D U reg (operation # operations) leaves =
     (if opOp operation = OperationAddition then
        bindG (wrapG ''set leaf index'' (SetLeafIndex D U (regLeafView reg)
                 (leafValue (opLeaf operation)) (leafIndex (opLeaf operation)))) (\<lambda>_.
        commitLoop D U reg operations (leaves @ [opLeaf operation]))
      else if opOp operation = OperationRevocation then
        bindG (wrapG ''revoke leaf index'' (DeleteLeafIndex D U (regLeafView reg)
                 (leafValue (opLeaf operation)))) (\<lambda>_.
        commitLoop D U reg operations
          (leaves @ [\<lparr>leafIndex = leafIndex (opLeaf operation), leafValue = mdEmptyValue (regMetadata reg)\<rparr>]))
      else raiseG (ErrNew ''unknown operation''))"

text \<open>\<open>CommitOperations\<close> changes the batch, and the cache inside the registry's tree.\<close>

definition CommitOperations ::
    "poseidon \<Rightarrow> ('d, 'b) db_ops \<Rightarrow> u256_ops \<Rightarrow> 'd \<Rightarrow> ctx \<Rightarrow> leaf_operation list \<Rightarrow> (registry \<times> 'b, unit) go" where
  "CommitOperations P D U d ctx operations = (\<lambda>(reg, batch).
     case commitLoop D U reg operations [] batch of
       (Inl e, batch') \<Rightarrow> (Inl e, (reg, batch'))
     | (Inr leaves, batch') \<Rightarrow>
         (let batchWithBuffer = NewBatchWithLeavesBuffer batch' (mdIndex (regMetadata reg)) in
          case wrapG ''insert leaves'' (InsertLeaves P (bwlOps D U) leaves)
                 \<lparr>w_tree = liveTree D U d reg, w_batch = batchWithBuffer, w_ctx = ctx, w_rng = ()\<rparr> of
            (r, w) \<Rightarrow> (r, (reg\<lparr>regTree := w_tree w\<rparr>, bwlBatch (w_batch w)))))"

text \<open>
  \<open>CreateProof\<close> looks the index up before it takes the read lock; a commit can run in between.  The
  index is read in the database \<open>d0\<close>, the proof is made in the database \<open>d\<close> under the lock.
\<close>

definition Registry_CreateProof ::
    "poseidon \<Rightarrow> ('d, 'b) db_ops \<Rightarrow> u256_ops \<Rightarrow> 'd \<Rightarrow> 'd \<Rightarrow> u256 \<Rightarrow> (registry \<times> ctx, merkle_proof) go" where
  "Registry_CreateProof P D U d0 d leaf = (\<lambda>(reg, ctx).
     case GetLeafIndex D U d0 (regLeafView reg) leaf of
       Inl e \<Rightarrow> (Inl (Wrap ''failed to get leaf index'' e), (reg, ctx))
     | Inr index \<Rightarrow>
         (case wrapG ''failed to create proof'' (CreateProof P index)
                 \<lparr>w_tree = liveTree D U d reg, w_batch = (), w_ctx = ctx, w_rng = ()\<rparr> of
            (r, w) \<Rightarrow> (r, (reg\<lparr>regTree := w_tree w\<rparr>, w_ctx w))))"

definition GetRandomEmptyLeafProof ::
    "poseidon \<Rightarrow> ('d, 'b) db_ops \<Rightarrow> u256_ops \<Rightarrow> ('g \<Rightarrow> u64 \<times> 'g) \<Rightarrow> 'd \<Rightarrow> 'd
     \<Rightarrow> (registry \<times> ctx \<times> 'g, merkle_proof) go" where
  "GetRandomEmptyLeafProof P D U rand d0 d = (\<lambda>(reg, ctx, g).
     case wrapG ''failed to get random empty leaf proof'' (GetRandomEmptyLeafIndex rand)
            \<lparr>w_tree = liveTree D U d0 reg, w_batch = (), w_ctx = ctx, w_rng = g\<rparr> of
       (Inl e, w) \<Rightarrow> (Inl e, (reg\<lparr>regTree := w_tree w\<rparr>, w_ctx w, w_rng w))
     | (Inr emptyIndex, w) \<Rightarrow>
         (case wrapG ''failed to create proof'' (CreateProof P emptyIndex)
                 (w\<lparr>w_tree := liveTree D U d (reg\<lparr>regTree := w_tree w\<rparr>)\<rparr>) of
            (r, w') \<Rightarrow> (r, (reg\<lparr>regTree := w_tree w'\<rparr>, w_ctx w', w_rng w'))))"

section \<open>The abstract registry\<close>

type_synonym abs_registry = "(nat \<Rightarrow> u256) \<times> (u256 \<rightharpoonup> leaf_index)"

definition absOp :: "u256 \<Rightarrow> leaf_operation \<Rightarrow> abs_registry \<Rightarrow> abs_registry" where
  "absOp e op = (\<lambda>(lf, ix).
     if opOp op = OperationAddition
     then (lf(unat (leafIndex (opLeaf op)) := leafValue (opLeaf op)),
           ix(leafValue (opLeaf op) \<mapsto> leafIndex (opLeaf op)))
     else (lf(unat (leafIndex (opLeaf op)) := e), ix(leafValue (opLeaf op) := None)))"

definition absOps :: "u256 \<Rightarrow> leaf_operation list \<Rightarrow> abs_registry \<Rightarrow> abs_registry" where
  "absOps e ops = fold (absOp e) ops"

text \<open>A node as the database \<open>m\<close> stores it: the empty byte string counts as absent.\<close>

definition kvLeaf :: "u256_ops \<Rightarrow> kv \<Rightarrow> u8 \<Rightarrow> leaf_getter" where
  "kvLeaf U m r l i =
     (case m (makeLeafKey r l i) of
        Some (x # xs) \<Rightarrow> Inr (uSetBytes U (x # xs)) | _ \<Rightarrow> Inl ErrNotFound)"

definition kvTree :: "u256_ops \<Rightarrow> kv \<Rightarrow> u8 \<Rightarrow> sparse_tree \<Rightarrow> sparse_tree" where
  "kvTree U m r t = t\<lparr>storageLeafGetter := kvLeaf U m r\<rparr>"

definition represents ::
    "poseidon \<Rightarrow> nat \<Rightarrow> u256_ops \<Rightarrow> registry \<Rightarrow> kv \<Rightarrow> abs_registry \<Rightarrow> bool" where
  "represents P p U reg m = (\<lambda>(lf, ix).
     regLeafView reg = mdIndex (regMetadata reg) \<and>
     emtpyLeaf (regTree reg) = mdEmptyValue (regMetadata reg) \<and>
     wfTree P p (kvTree U m (regLeafView reg) (regTree reg)) \<and>
     treeOf P (unat (depth (regTree reg))) (storageView P (kvTree U m (regLeafView reg) (regTree reg))) lf \<and>
     (\<forall>v. m (makeLeafIndexKey U (regLeafView reg) v) = map_option leafIndexBytes (ix v)))"

text \<open>
  Operations the registry accepts: additions and revocations inside the tree, with field elements.
\<close>

definition opOk :: "nat \<Rightarrow> nat \<Rightarrow> leaf_operation \<Rightarrow> bool" where
  "opOk p d op \<longleftrightarrow> (opOp op = OperationAddition \<or> opOp op = OperationRevocation) \<and>
     unat (leafIndex (opLeaf op)) < 2 ^ d \<and> unat (leafValue (opLeaf op)) < p"

text \<open>
  The database cannot tell a node of value 0 from an absent node.  No node of the tree has that
  value, unless the empty branch of its level has it too.
\<close>

definition nonzeroTree :: "poseidon \<Rightarrow> u256 \<Rightarrow> nat \<Rightarrow> (nat \<Rightarrow> u256) \<Rightarrow> bool" where
  "nonzeroTree P e d lf \<longleftrightarrow>
     (\<forall>l i. l \<le> d \<longrightarrow> i < 2 ^ (d - l) \<longrightarrow> node (hashOf P) lf l i = 0 \<longrightarrow> emptyHash P e l = 0)"

text \<open>The keys of one registry.\<close>

definition registryKey :: "u256_ops \<Rightarrow> u8 \<Rightarrow> bytes \<Rightarrow> bool" where
  "registryKey U r k \<longleftrightarrow> (\<exists>l i. k = makeLeafKey r l i) \<or> (\<exists>v. k = makeLeafIndexKey U r v)"

text \<open>States of one registry that differ at most in the cache of its tree.\<close>

definition sameRegistry :: "registry \<Rightarrow> registry \<Rightarrow> bool" where
  "sameRegistry reg reg' \<longleftrightarrow> regMetadata reg' = regMetadata reg \<and> regLeafView reg' = regLeafView reg \<and>
     regMutex reg' = regMutex reg \<and> regProgress reg' = regProgress reg \<and>
     depth (regTree reg') = depth (regTree reg) \<and> emtpyLeaf (regTree reg') = emtpyLeaf (regTree reg)"

end
