(* ===== verification/Simulation.thy ===== *)
theory Simulation
  imports Registry
begin

unbundle bit_operations_syntax

text \<open>
  Batch proofs (second half of \<open>internal/zkregistry/sparse_tree.go\<close>): a list of additions and
  revocations is simulated on top of the storage, and each operation gets the Merkle path of its
  leaf in the state left by the operations before it.  The simulation batch is the second
  implementation of the contract \<open>leaf_batch\<close>.
\<close>

section \<open>Decimal numerals of \<open>fmt.Sprintf\<close>\<close>

function decNat :: "nat \<Rightarrow> string" where
  "decNat n = (if n < 10 then [char_of (n + 48)] else decNat (n div 10) @ [char_of (n mod 10 + 48)])"
  by pat_completeness auto
termination
  by (relation "measure id") auto

declare decNat.simps [simp del]

section \<open>The simulation batch\<close>

record simulation_batch =
  simStorage :: leaf_getter
  simBuffer :: "string \<rightharpoonup> u256"

definition NewSimulationBatch :: "leaf_getter \<Rightarrow> simulation_batch" where
  "NewSimulationBatch storage = \<lparr>simStorage = storage, simBuffer = Map.empty\<rparr>"

definition makeSimKey :: "tree_level \<Rightarrow> leaf_index \<Rightarrow> string" where
  "makeSimKey level index = decNat (unat level) @ '':'' @ decNat (unat index)"

definition SimulationBatch_GetLeaf :: "simulation_batch \<Rightarrow> leaf_getter" where
  "SimulationBatch_GetLeaf s level index =
     (case simBuffer s (makeSimKey level index) of
        Some v \<Rightarrow> Inr v
      | None \<Rightarrow> simStorage s level index)"

definition SimulationBatch_SetLeaf ::
    "tree_level \<Rightarrow> leaf_index \<Rightarrow> u256 \<Rightarrow> (simulation_batch, unit) go" where
  "SimulationBatch_SetLeaf level index v s =
     (Inr (), s\<lparr>simBuffer := (simBuffer s)(makeSimKey level index \<mapsto> v)\<rparr>)"

definition simOps :: "simulation_batch batch_ops" where
  "simOps = \<lparr>batchGetLeaf = SimulationBatch_GetLeaf, batchSetLeaf = SimulationBatch_SetLeaf\<rparr>"

section \<open>Proofs through a batch\<close>

function proofWithBatchLoop ::
    "poseidon \<Rightarrow> 'b batch_ops \<Rightarrow> tree_level \<Rightarrow> tree_level \<Rightarrow> leaf_index \<Rightarrow> (('b, 'g) world, u256 list) go" where
  "proofWithBatchLoop P B d level pathIndex =
     (if level < d then
        bindG pollCtx (\<lambda>_.
        bindG (wrapG ''retrieve sibling'' (getLeafFromBatchOrStorage P B level (pathIndex XOR 1))) (\<lambda>element.
        bindG (proofWithBatchLoop P B d (level + 1) (pathIndex div 2)) (\<lambda>elements.
        retG (element # elements))))
      else retG [])"
  by pat_completeness auto
termination
  by (relation "measure (\<lambda>(P, B, d, level, pathIndex). unat d - unat level)")
     (auto simp: unat_plus1 word_less_nat_alt)

declare proofWithBatchLoop.simps [simp del]

definition createProofWithBatch ::
    "poseidon \<Rightarrow> 'b batch_ops \<Rightarrow> leaf_index \<Rightarrow> (('b, 'g) world, merkle_proof) go" where
  "createProofWithBatch P B index =
     bindG (wrapG ''retrieve leaf'' (getLeafFromBatchOrStorage P B 0 index)) (\<lambda>leaf.
     bindG (\<lambda>w. proofWithBatchLoop P B (depth (w_tree w)) 0 index w) (\<lambda>pathElements.
     bindG (\<lambda>w. wrapG ''get root'' (getLeafFromBatchOrStorage P B (depth (w_tree w)) 0) w) (\<lambda>root.
     retG \<lparr>Leaf = leaf, Path = pathElements, Index = index, Root = root\<rparr>)))"

section \<open>Searching\<close>

fun findEmptyLoop ::
    "poseidon \<Rightarrow> 'b batch_ops \<Rightarrow> ('g \<Rightarrow> u64 \<times> 'g) \<Rightarrow> nat \<Rightarrow> (('b, 'g) world, leaf_index) go" where
  "findEmptyLoop P B rand 0 = raiseG (ErrNew ''could not find an empty leaf index'')"
| "findEmptyLoop P B rand (Suc maxIterations) =
     bindG pollCtx (\<lambda>_.
     bindG (randomIndex rand) (\<lambda>index.
     bindG (wrapG ''get leaf'' (getLeafFromBatchOrStorage P B 0 index)) (\<lambda>leaf w.
     if leaf = emtpyLeaf (w_tree w) then (Inr index, w)
     else findEmptyLoop P B rand maxIterations w)))"

definition findEmptyLeafIndexInSimulation ::
    "poseidon \<Rightarrow> 'b batch_ops \<Rightarrow> ('g \<Rightarrow> u64 \<times> 'g) \<Rightarrow> (('b, 'g) world, leaf_index) go" where
  "findEmptyLeafIndexInSimulation P B rand = findEmptyLoop P B rand maxIterationsEmptyLeafProof"

text \<open>The scan over all leaves; a read that fails is skipped.\<close>

function findLeafLoop ::
    "poseidon \<Rightarrow> 'b batch_ops \<Rightarrow> u256 \<Rightarrow> u64 \<Rightarrow> u64 \<Rightarrow> (('b, 'g) world, leaf_index) go" where
  "findLeafLoop P B v n i =
     (if i < n then
        bindG pollCtx (\<lambda>_ w.
          case getLeafFromBatchOrStorage P B 0 (ucast i) w of
            (Inl err, w') \<Rightarrow> findLeafLoop P B v n (i + 1) w'
          | (Inr leaf, w') \<Rightarrow>
              if leaf = v then (Inr (ucast i), w') else findLeafLoop P B v n (i + 1) w')
      else raiseG (ErrNew ''leaf with value not found''))"
  by pat_completeness auto
termination
  by (relation "measure (\<lambda>(P, B, v, n, i). unat n - unat i)")
     (auto simp: unat_plus1 word_less_nat_alt)

declare findLeafLoop.simps [simp del]

definition findLeafByValueInSimulation ::
    "poseidon \<Rightarrow> 'b batch_ops \<Rightarrow> u256 \<Rightarrow> (('b, 'g) world, leaf_index) go" where
  "findLeafByValueInSimulation P B v w = findLeafLoop P B v (maxLeaves (w_tree w)) 0 w"

section \<open>Simulation\<close>

record batch_proof_result =
  bprIndex :: leaf_index
  bprPath :: "u256 list"

text \<open>The body of the loop for one operation.\<close>

definition simulateOp ::
    "poseidon \<Rightarrow> 'b batch_ops \<Rightarrow> ('g \<Rightarrow> u64 \<times> 'g) \<Rightarrow> leaf_operation \<Rightarrow> (('b, 'g) world, batch_proof_result) go" where
  "simulateOp P B rand op =
     bindG pollCtx (\<lambda>_.
     if opOp op = OperationAddition then
       bindG (wrapG ''find empty leaf index for operation'' (findEmptyLeafIndexInSimulation P B rand)) (\<lambda>leafIndex.
       bindG (wrapG ''create proof for addition'' (createProofWithBatch P B leafIndex)) (\<lambda>proof w.
       if Leaf proof \<noteq> emtpyLeaf (w_tree w) then (Inl (ErrNew ''leaf is not empty''), w)
       else bindG (wrapG ''insert leaf'' (InsertLeaf P B leafIndex (leafValue (opLeaf op)))) (\<lambda>_.
            retG \<lparr>bprIndex = leafIndex, bprPath = Path proof\<rparr>) w))
     else if opOp op = OperationRevocation then
       bindG (wrapG ''find leaf for revocation'' (findLeafByValueInSimulation P B (leafValue (opLeaf op)))) (\<lambda>leafIndex.
       bindG (wrapG ''create proof for revocation'' (createProofWithBatch P B leafIndex)) (\<lambda>proof w.
       if Leaf proof \<noteq> leafValue (opLeaf op)
       then (Inl (ErrNew ''leaf does not match expected value''), w)
       else bindG (wrapG ''revoke leaf'' (InsertLeaf P B leafIndex (emtpyLeaf (w_tree w)))) (\<lambda>_.
            retG \<lparr>bprIndex = leafIndex, bprPath = Path proof\<rparr>) w))
     else raiseG (ErrNew ''unknown operation type''))"

fun simulateOps ::
    "poseidon \<Rightarrow> 'b batch_ops \<Rightarrow> ('g \<Rightarrow> u64 \<times> 'g) \<Rightarrow> leaf_operation list
     \<Rightarrow> (('b, 'g) world, batch_proof_result list) go" where
  "simulateOps P B rand [] = retG []"
| "simulateOps P B rand (op # ops) =
     bindG (simulateOp P B rand op) (\<lambda>proof.
     bindG (simulateOps P B rand ops) (\<lambda>proofs. retG (proof # proofs)))"

text \<open>
  \<open>SimulateBatchOperations\<close> makes its own batch on the tree's storage; the tree, the context and the
  generator are the state it leaves behind.
\<close>

definition SimulateBatchOperations ::
    "poseidon \<Rightarrow> ('g \<Rightarrow> u64 \<times> 'g) \<Rightarrow> leaf_operation list
     \<Rightarrow> ((simulation_batch, 'g) world, u256 \<times> batch_proof_result list) go" where
  "SimulateBatchOperations P rand operations =
     bindG (wrapG ''get initial root'' (GetRoot P)) (\<lambda>initialRoot w.
     bindG (simulateOps P simOps rand operations) (\<lambda>proofs. retG (initialRoot, proofs))
       (w\<lparr>w_batch := NewSimulationBatch (storageLeafGetter (w_tree w))\<rparr>))"

section \<open>What a verifier checks\<close>

text \<open>
  The verifier starts from a root and, for each operation, recomputes the current root from the old
  leaf and the next root from the new leaf, along the same path.
\<close>

definition oldLeaf :: "u256 \<Rightarrow> leaf_operation \<Rightarrow> u256" where
  "oldLeaf e op = (if opOp op = OperationAddition then e else leafValue (opLeaf op))"

definition newLeaf :: "u256 \<Rightarrow> leaf_operation \<Rightarrow> u256" where
  "newLeaf e op = (if opOp op = OperationAddition then leafValue (opLeaf op) else e)"

fun verifyBatch ::
    "(u256 \<Rightarrow> u256 \<Rightarrow> u256) \<Rightarrow> u256 \<Rightarrow> u256 \<Rightarrow> leaf_operation list \<Rightarrow> batch_proof_result list \<Rightarrow> u256 option" where
  "verifyBatch H e root [] [] = Some root"
| "verifyBatch H e root (op # ops) (pr # prs) =
     (if computeRoot H (oldLeaf e op) (bprPath pr) (unat (bprIndex pr)) = root
      then verifyBatch H e (computeRoot H (newLeaf e op) (bprPath pr) (unat (bprIndex pr))) ops prs
      else None)"
| "verifyBatch H e root _ _ = None"

text \<open>The leaves after the operations, at the indexes of their proofs.\<close>

fun simLeaves ::
    "u256 \<Rightarrow> (nat \<Rightarrow> u256) \<Rightarrow> leaf_operation list \<Rightarrow> batch_proof_result list \<Rightarrow> nat \<Rightarrow> u256" where
  "simLeaves e lf (op # ops) (pr # prs) = simLeaves e (lf(unat (bprIndex pr) := newLeaf e op)) ops prs"
| "simLeaves e lf _ _ = lf"

text \<open>
  Which indexes the simulation picks: an addition goes to the first empty leaf among ten draws, a
  revocation to the first leaf with the value.
\<close>

fun pickEmpty ::
    "('g \<Rightarrow> u64 \<times> 'g) \<Rightarrow> u64 \<Rightarrow> u256 \<Rightarrow> (nat \<Rightarrow> u256) \<Rightarrow> nat \<Rightarrow> 'g \<Rightarrow> (leaf_index \<times> 'g) option" where
  "pickEmpty rand n e lf 0 g = None"
| "pickEmpty rand n e lf (Suc k) g =
     (let (r, g') = rand g; i = ucast (r mod n)
      in if lf (unat i) = e then Some (i, g') else pickEmpty rand n e lf k g')"

definition pickLeaf :: "u64 \<Rightarrow> u256 \<Rightarrow> (nat \<Rightarrow> u256) \<Rightarrow> nat \<Rightarrow> leaf_index option" where
  "pickLeaf n v lf k = map_option word_of_nat (find (\<lambda>j. lf j = v) [k..<unat n])"

definition pickOp ::
    "('g \<Rightarrow> u64 \<times> 'g) \<Rightarrow> u64 \<Rightarrow> u256 \<Rightarrow> leaf_operation \<Rightarrow> (nat \<Rightarrow> u256) \<Rightarrow> 'g \<Rightarrow> (leaf_index \<times> 'g) option" where
  "pickOp rand n e op lf g =
     (if opOp op = OperationAddition then pickEmpty rand n e lf maxIterationsEmptyLeafProof g
      else if opOp op = OperationRevocation
      then map_option (\<lambda>i. (i, g)) (pickLeaf n (leafValue (opLeaf op)) lf 0)
      else None)"

fun pickOps ::
    "('g \<Rightarrow> u64 \<times> 'g) \<Rightarrow> u64 \<Rightarrow> u256 \<Rightarrow> leaf_operation list \<Rightarrow> (nat \<Rightarrow> u256) \<Rightarrow> 'g \<Rightarrow> leaf_index list option" where
  "pickOps rand n e [] lf g = Some []"
| "pickOps rand n e (op # ops) lf g =
     (case pickOp rand n e op lf g of
        None \<Rightarrow> None
      | Some (i, g') \<Rightarrow> map_option (Cons i) (pickOps rand n e ops (lf(unat i := newLeaf e op)) g'))"

end
