(* ===== verification/Registry_Correct.thy ===== *)
theory Registry_Correct
  imports Registry
begin

text \<open>
  The registry implements the abstract registry: commits, proofs of stored leaves, proofs of empty
  leaves.
\<close>

section \<open>The loop over the operations\<close>

definition opLeaves :: "u256 \<Rightarrow> leaf_operation list \<Rightarrow> tree_leaf list" where
  "opLeaves e = map (\<lambda>op. if opOp op = OperationAddition then opLeaf op
     else \<lparr>leafIndex = leafIndex (opLeaf op), leafValue = e\<rparr>)"

definition indexWrite :: "u256_ops \<Rightarrow> u8 \<Rightarrow> leaf_operation \<Rightarrow> overlay \<Rightarrow> overlay" where
  "indexWrite U r op ov = ov(makeLeafIndexKey U r (leafValue (opLeaf op)) \<mapsto>
     (if opOp op = OperationAddition then Some (leafIndexBytes (leafIndex (opLeaf op))) else None))"

lemma fst_absOps: "fst (absOps e ops (lf, ix)) = updLeaves lf (opLeaves e ops)"
  by (induction ops arbitrary: lf ix) (simp_all add: absOps_def absOp_def opLeaves_def)

lemma indexWrite_other:
  "\<forall>v. k \<noteq> makeLeafIndexKey U r v \<Longrightarrow> fold (indexWrite U r) ops ov k = ov k"
  by (induction ops arbitrary: ov) (simp_all add: indexWrite_def)

text \<open>The cache of empty branches is not part of what a registry represents.\<close>

lemma kvTree_simps [simp]:
  "depth (kvTree U m r t) = depth t" "emtpyLeaf (kvTree U m r t) = emtpyLeaf t"
  "storageLeafGetter (kvTree U m r t) = kvLeaf U m r" "cacheOk P (kvTree U m r t) = cacheOk P t"
  by (simp_all add: kvTree_def cacheOk_def split: option.split)

lemma represents_cache:
  assumes "represents P p U reg m a" "depth t = depth (regTree reg)"
    "emtpyLeaf t = emtpyLeaf (regTree reg)" "cacheOk P t"
  shows "represents P p U (reg\<lparr>regTree := t\<rparr>) m a"
proof -
  have "storageView P (kvTree U m r t) = storageView P (kvTree U m r (regTree reg))" for r
    using assms(3) by (intro ext) (simp add: storageView_def split: sum.split)
  then show ?thesis
    using assms by (cases a) (auto simp: represents_def wfTree_def)
qed

context leaf_store
begin

lemma commitLoop_ok:
  assumes "isOpen b" "\<forall>op\<in>set ops. opOk p dpth op"
  shows "runs (commitLoop D U reg ops leaves) b
    (\<lambda>ls b'. ls = leaves @ opLeaves (mdEmptyValue (regMetadata reg)) ops \<and> isOpen b' \<and>
       pending b' = fold (indexWrite U (regLeafView reg)) ops (pending b))"
  using assms
proof (induction ops arbitrary: leaves b)
  case Nil
  then show ?case by (simp add: opLeaves_def)
next
  case (Cons op ops)
  let ?k = "makeLeafIndexKey U (regLeafView reg) (leafValue (opLeaf op))"
  show ?case
  proof (cases "opOp op = OperationAddition")
    case True
    obtain b' where b': "SetLeafIndex D U (regLeafView reg) (leafValue (opLeaf op)) (leafIndex (opLeaf op)) b
        = (Inr (), b')" "isOpen b'" "pending b' = indexWrite U (regLeafView reg) op (pending b)"
      using bset_ok [OF Cons.prems(1), of ?k] True
      by (auto simp: SetLeafIndex_def indexWrite_def)
    then show ?thesis
      using Cons.IH [OF b'(2), of "leaves @ [opLeaf op]"] Cons.prems(2) True
      by (auto simp: runs_def bindG_def wrapG_def opLeaves_def)
  next
    case False
    then have rev: "opOp op = OperationRevocation" "OperationRevocation \<noteq> OperationAddition"
      using Cons.prems(2) by (auto simp: opOk_def)
    obtain b' where b': "DeleteLeafIndex D U (regLeafView reg) (leafValue (opLeaf op)) b
        = (Inr (), b')" "isOpen b'" "pending b' = indexWrite U (regLeafView reg) op (pending b)"
      using bdelete_ok [OF Cons.prems(1), of ?k] False
      by (auto simp: DeleteLeafIndex_def indexWrite_def)
    then show ?thesis
      using Cons.IH [OF b'(2), of "leaves @ [\<lparr>leafIndex = leafIndex (opLeaf op),
          leafValue = mdEmptyValue (regMetadata reg)\<rparr>]"] Cons.prems(2) rev
      by (auto simp: runs_def bindG_def wrapG_def opLeaves_def)
  qed
qed

text \<open>The index entries in the batch are those of the abstract operations.\<close>

lemma index_refines:
  assumes "\<forall>v. applyOverlay ov m (makeLeafIndexKey U r v) = map_option leafIndexBytes (ix v)"
  shows "applyOverlay (fold (indexWrite U r) ops ov) m (makeLeafIndexKey U r v) =
    map_option leafIndexBytes (snd (absOps e ops (lf, ix)) v)"
  using assms
proof (induction ops arbitrary: ov lf ix)
  case Nil
  then show ?case by (simp add: absOps_def)
next
  case (Cons op ops)
  obtain lf' ix' where a: "absOp e op (lf, ix) = (lf', ix')" by force
  have "\<forall>v. applyOverlay (indexWrite U r op ov) m (makeLeafIndexKey U r v) = map_option leafIndexBytes (ix' v)"
    using Cons.prems a by (auto simp: applyOverlay_def indexWrite_def absOp_def split: if_splits)
  from Cons.IH [OF this, of lf'] a show ?case by (simp add: absOps_def)
qed

lemma LeafView_kvLeaf: "LeafView_GetLeaf D U d r = kvLeaf U (content d) r"
  by (intro ext) (simp add: LeafView_GetLeaf_def GetLeaf_eq kvLeaf_def)

lemma liveTree_kvTree: "liveTree D U d reg = kvTree U (content d) (regLeafView reg) (regTree reg)"
  by (simp add: liveTree_def kvTree_def LeafView_kvLeaf)

text \<open>
  What the tree sees through the batch is what it sees in the database once the batch is written,
  as long as no buffered node is 0.
\<close>

lemma written_view:
  assumes valid: "bwlValid pending isOpen U r ov0 b"
    and ov0: "\<forall>l i. ov0 (makeLeafKey r l i) = None"
    and zero: "bwlLookup b l i = Some 0 \<Longrightarrow> emptyHash P (emtpyLeaf t) (unat l) = 0"
  shows "storageView P (kvTree U (applyOverlay (pending (bwlBatch b)) m) r t) l i =
    (case bwlLookup b l i of Some v \<Rightarrow> v | None \<Rightarrow> storageView P (kvTree U m r t) l i)"
proof (cases "bwlLookup b l i")
  case None
  then have "pending (bwlBatch b) (makeLeafKey r l i) = None"
    using valid ov0 by (simp add: bwlValid_def bwlLookup_def)
  then show ?thesis
    using None by (simp add: storageView_def kvTree_def kvLeaf_def split: sum.splits)
next
  case (Some v)
  then have "applyOverlay (pending (bwlBatch b)) m (makeLeafKey r l i) = Some (uBytes U v)"
    using valid by (simp add: bwlValid_def bwlLookup_def)
  then show ?thesis
    using Some zero Bytes_zero [of v] SetBytes_Bytes [of v]
    by (auto simp: storageView_def kvTree_def kvLeaf_def split: list.splits)
qed

lemma written_getterOk:
  assumes valid: "bwlValid pending isOpen U r ov0 b"
    and ov0: "\<forall>l i. ov0 (makeLeafKey r l i) = None"
    and inF: "\<forall>l i v. bwlLookup b l i = Some v \<longrightarrow> unat v < p"
    and old: "getterOk p (kvLeaf U m r)"
  shows "getterOk p (kvLeaf U (applyOverlay (pending (bwlBatch b)) m) r)"
  unfolding getterOk_def
proof (intro allI)
  fix l i
  show "case kvLeaf U (applyOverlay (pending (bwlBatch b)) m) r l i of
      Inl e \<Rightarrow> errorsIs e ErrNotFound | Inr v \<Rightarrow> unat v < p"
  proof (cases "bwlLookup b l i")
    case None
    then have "pending (bwlBatch b) (makeLeafKey r l i) = None"
      using valid ov0 by (simp add: bwlValid_def bwlLookup_def)
    then have "kvLeaf U (applyOverlay (pending (bwlBatch b)) m) r l i = kvLeaf U m r l i"
      by (simp add: kvLeaf_def)
    then show ?thesis using old by (simp add: getterOk_def)
  next
    case (Some v)
    then have "applyOverlay (pending (bwlBatch b)) m (makeLeafKey r l i) = Some (uBytes U v)"
      using valid by (simp add: bwlValid_def bwlLookup_def)
    then show ?thesis
      using Some inF SetBytes_Bytes [of v] by (auto simp: kvLeaf_def split: list.splits)
  qed
qed

end

section \<open>Commits\<close>

locale registry_env = poseidon_field P p + leaf_store D content pending isOpen U
  for P p and D :: "('d, 'b) db_ops" and content pending isOpen and U
begin

sublocale tree: tree_env P p "bwlOps D U" bwlLookup "bwlValid pending isOpen U r ov0" for r ov0
  by unfold_locales

lemma opLeaves_ok:
  assumes "\<forall>op\<in>set ops. opOk p dpth op" "unat e < p"
  shows "\<forall>x\<in>set (opLeaves e ops). unat (leafIndex x) < 2 ^ dpth \<and> unat (leafValue x) < p"
  using assms by (auto simp: opLeaves_def opOk_def)

lemma written_tree:
  fixes w :: "('b batch_with_leaves, unit) world"
  assumes v: "bwlValid pending isOpen U r ov0 (w_batch w)" and none: "\<forall>l i. ov0 (makeLeafKey r l i) = None"
    and inF: "\<forall>l i v. bwlLookup (w_batch w) l i = Some v \<longrightarrow> unat v < p" and wf: "wfTree P p (w_tree w)"
    and get: "storageLeafGetter (w_tree w) = kvLeaf U m r"
    and t: "treeOf P (unat (depth (w_tree w))) (nodeView P bwlLookup w) lf"
    and nz: "nonzeroTree P (emtpyLeaf (w_tree w)) (unat (depth (w_tree w))) lf"
  shows "let t = kvTree U (applyOverlay (pending (bwlBatch (w_batch w))) m) r (w_tree w)
    in wfTree P p t \<and> treeOf P (unat (depth t)) (storageView P t) lf"
proof -
  let ?m = "applyOverlay (pending (bwlBatch (w_batch w))) m" and ?d = "unat (depth (w_tree w))"
  let ?t = "kvTree U ?m r (w_tree w)"
  have same: "kvTree U m r (w_tree w) = w_tree w"
    using get by (simp add: kvTree_def)
  have view: "storageView P ?t l i = nodeView P bwlLookup w l i"
    if li: "unat l \<le> ?d" "unat i < 2 ^ (?d - unat l)" for l i
  proof -
    have "nodeView P bwlLookup w l i = node (hashOf P) lf (unat l) (unat i)"
      using li t by (simp add: treeOf_def)
    then have "emptyHash P (emtpyLeaf (w_tree w)) (unat l) = 0" if "bwlLookup (w_batch w) l i = Some 0"
      using that nz li by (simp add: nonzeroTree_def nodeView_def)
    from written_view [OF v none this, of i m] show ?thesis
      by (simp add: nodeView_def same split: option.split)
  qed
  have "getterOk p (kvLeaf U ?m r)"
    using written_getterOk [OF v none inF] wf get by (simp add: wfTree_def)
  then have "wfTree P p ?t"
    using wf by (simp add: wfTree_def)
  moreover have "treeOf P (unat (depth ?t)) (storageView P ?t) lf"
    using t view by (simp add: treeOf_def kvTree_def)
  ultimately show ?thesis by simp
qed

lemma insert_written:
  assumes rep: "represents P p U reg (content d) (lf, ix)"
    and b: "isOpen b" and none: "\<forall>l i. pending b (makeLeafKey (regLeafView reg) l i) = None"
    and leaves: "\<forall>x\<in>set leaves. unat (leafIndex x) < 2 ^ unat (depth (regTree reg)) \<and> unat (leafValue x) < p"
    and nz: "nonzeroTree P (mdEmptyValue (regMetadata reg)) (unat (depth (regTree reg))) (updLeaves lf leaves)"
  shows "runs (InsertLeaves P (bwlOps D U) leaves)
    \<lparr>w_tree = liveTree D U d reg, w_batch = NewBatchWithLeavesBuffer b (mdIndex (regMetadata reg)),
     w_ctx = c, w_rng = ()\<rparr>
    (\<lambda>_ w. bwlValid pending isOpen U (regLeafView reg) (pending b) (w_batch w) \<and>
       depth (w_tree w) = depth (regTree reg) \<and> emtpyLeaf (w_tree w) = emtpyLeaf (regTree reg) \<and>
       (let m = applyOverlay (pending (bwlBatch (w_batch w))) (content d);
            t = kvTree U m (regLeafView reg) (w_tree w)
        in wfTree P p t \<and> treeOf P (unat (depth t)) (storageView P t) (updLeaves lf leaves)))"
proof -
  let ?r = "regLeafView reg" and ?d = "unat (depth (regTree reg))"
  let ?w0 = "\<lparr>w_tree = liveTree D U d reg, w_batch = NewBatchWithLeavesBuffer b (mdIndex (regMetadata reg)),
     w_ctx = c, w_rng = ()\<rparr>"
  let ?valid = "bwlValid pending isOpen U ?r (pending b)"
  have r: "mdIndex (regMetadata reg) = ?r" and e: "mdEmptyValue (regMetadata reg) = emtpyLeaf (regTree reg)"
    and wf: "wfTree P p (liveTree D U d reg)"
    and t: "treeOf P ?d (storageView P (liveTree D U d reg)) lf"
    using rep by (auto simp: represents_def liveTree_kvTree)
  have wf0: "wfWorld P p bwlLookup ?valid ?w0"
    using wf r new_batch_valid(1) [OF b, of ?r] by (simp add: wfWorld_def new_batch_valid(2))
  have "nodeView P bwlLookup ?w0 = storageView P (liveTree D U d reg)"
    by (intro ext) (simp add: nodeView_def new_batch_valid)
  then have t0: "treeOf P ?d (nodeView P bwlLookup ?w0) lf"
    using t by simp
  have d0: "unat (depth (w_tree ?w0)) = ?d"
    by (simp add: liveTree_def)
  show ?thesis
  proof (rule runs_mono [OF tree.InsertLeaves_ok [OF wf0 d0 leaves t0]], elim conjE)
    fix u and w :: "('b batch_with_leaves, unit) world"
    assume w: "wfWorld P p bwlLookup ?valid w" "frame ?w0 w"
      "treeOf P ?d (nodeView P bwlLookup w) (updLeaves lf leaves)"
    have fr: "depth (w_tree w) = depth (regTree reg)" "emtpyLeaf (w_tree w) = emtpyLeaf (regTree reg)"
      "storageLeafGetter (w_tree w) = kvLeaf U (content d) ?r"
      using w(2) by (simp_all add: frame_def liveTree_kvTree kvTree_def)
    have v: "?valid (w_batch w)" and inF: "\<forall>l i v. bwlLookup (w_batch w) l i = Some v \<longrightarrow> unat v < p"
      and wfw: "wfTree P p (w_tree w)"
      using w(1) by (simp_all add: wfWorld_def)
    show "?valid (w_batch w) \<and> depth (w_tree w) = depth (regTree reg) \<and>
       emtpyLeaf (w_tree w) = emtpyLeaf (regTree reg) \<and>
       (let m = applyOverlay (pending (bwlBatch (w_batch w))) (content d); t = kvTree U m ?r (w_tree w)
        in wfTree P p t \<and> treeOf P (unat (depth t)) (storageView P t) (updLeaves lf leaves))"
      using v fr written_tree [OF v none inF wfw fr(3)] w(3) nz e by simp
  qed
qed

text \<open>
  \<open>CommitOperations\<close> succeeds, and the database with its batch written represents the abstract
  registry after the operations; every pending write is under a key of this registry.
\<close>

lemma CommitOperations_ok:
  assumes rep: "represents P p U reg (content d) (lf, ix)"
    and b: "isOpen b" and none: "\<forall>k. registryKey U (regLeafView reg) k \<longrightarrow> pending b k = None"
    and ops: "\<forall>op\<in>set ops. opOk p (unat (depth (regTree reg))) op"
    and nz: "nonzeroTree P (mdEmptyValue (regMetadata reg)) (unat (depth (regTree reg)))
      (fst (absOps (mdEmptyValue (regMetadata reg)) ops (lf, ix)))"
  shows "runs (CommitOperations P D U d c ops) (reg, b)
    (\<lambda>_ (reg', b'). isOpen b' \<and> sameRegistry reg reg' \<and>
       represents P p U reg' (applyOverlay (pending b') (content d))
         (absOps (mdEmptyValue (regMetadata reg)) ops (lf, ix)) \<and>
       (\<forall>k. \<not> registryKey U (regLeafView reg) k \<longrightarrow> pending b' k = pending b k))"
proof -
  let ?e = "mdEmptyValue (regMetadata reg)" and ?r = "regLeafView reg"
  obtain b1 where b1: "commitLoop D U reg ops [] b = (Inr (opLeaves ?e ops), b1)" "isOpen b1"
      "pending b1 = fold (indexWrite U ?r) ops (pending b)"
    using commitLoop_ok [OF b ops, of reg "[]"] by (auto elim: runsE)
  have e: "unat ?e < p"
    using rep by (auto simp: represents_def wfTree_def kvTree_def)
  have leafnone: "\<forall>l i. pending b1 (makeLeafKey ?r l i) = None"
    using none b1(3) by (auto simp: indexWrite_other registryKey_def)
  have nz': "nonzeroTree P ?e (unat (depth (regTree reg))) (updLeaves lf (opLeaves ?e ops))"
    using nz by (simp add: fst_absOps)
  from insert_written [OF rep b1(2) leafnone opLeaves_ok [OF ops e] nz', of c]
  obtain w where w: "InsertLeaves P (bwlOps D U) (opLeaves ?e ops)
      \<lparr>w_tree = liveTree D U d reg, w_batch = NewBatchWithLeavesBuffer b1 (mdIndex (regMetadata reg)),
       w_ctx = c, w_rng = ()\<rparr> = (Inr (), w)"
    and v: "bwlValid pending isOpen U ?r (pending b1) (w_batch w)"
    and fr: "depth (w_tree w) = depth (regTree reg)" "emtpyLeaf (w_tree w) = emtpyLeaf (regTree reg)"
    and t: "wfTree P p (kvTree U (applyOverlay (pending (bwlBatch (w_batch w))) (content d)) ?r (w_tree w))"
      "treeOf P (unat (depth (regTree reg)))
        (storageView P (kvTree U (applyOverlay (pending (bwlBatch (w_batch w))) (content d)) ?r (w_tree w)))
        (updLeaves lf (opLeaves ?e ops))"
    unfolding runs_def Let_def by (auto simp: kvTree_def)
  let ?b' = "bwlBatch (w_batch w)" and ?reg' = "reg\<lparr>regTree := w_tree w\<rparr>"
  have run: "CommitOperations P D U d c ops (reg, b) = (Inr (), (?reg', ?b'))"
    using b1(1) w by (simp add: CommitOperations_def)
  have other: "pending ?b' k = pending b1 k" if "\<forall>l i. k \<noteq> makeLeafKey ?r l i" for k
    using v that by (auto simp: bwlValid_def split: option.splits)
  have "applyOverlay (pending ?b') (content d) (makeLeafIndexKey U ?r x) =
      map_option leafIndexBytes (snd (absOps ?e ops (lf, ix)) x)" for x
  proof -
    have "\<forall>v. applyOverlay (pending b) (content d) (makeLeafIndexKey U ?r v) = map_option leafIndexBytes (ix v)"
      using rep none by (auto simp: represents_def registryKey_def)
    from index_refines [OF this, of ops x ?e lf] other [of "makeLeafIndexKey U ?r x"] b1(3) show ?thesis
      by (simp add: applyOverlay_def)
  qed
  then have "represents P p U ?reg' (applyOverlay (pending ?b') (content d)) (absOps ?e ops (lf, ix))"
    using rep t fr fst_absOps [of ?e ops lf ix]
    by (cases "absOps ?e ops (lf, ix)") (simp add: represents_def)
  moreover have "pending ?b' k = pending b k" if "\<not> registryKey U ?r k" for k
    using other [of k] that b1(3) by (auto simp: registryKey_def indexWrite_other)
  ultimately show ?thesis
    using run v fr by (auto simp: runs_def bwlValid_def sameRegistry_def)
qed

section \<open>Proofs\<close>

text \<open>What the leaf index returns.\<close>

lemma GetLeafIndex_ok:
  assumes "represents P p U reg (content d) (lf, ix)"
  shows "GetLeafIndex D U d (regLeafView reg) v = (case ix v of Some i \<Rightarrow> Inr i | None \<Rightarrow> Inl ErrNotFound)"
  using assms take_leafIndexBytes
  by (auto simp: represents_def GetLeafIndex_def get_ok kvRead_def length_defs split: option.splits)

text \<open>
  A proof for a leaf the index knows: its fields are those of the tree in the database that is read
  under the lock.
\<close>

lemma Registry_CreateProof_ok:
  assumes rep0: "represents P p U reg (content d0) (lf0, ix0)" and ix: "ix0 leaf = Some i"
    and rep: "represents P p U reg (content d) (lf, ix)"
    and i: "unat i < 2 ^ unat (depth (regTree reg))" and c: "ctxAlive (unat (depth (regTree reg))) c"
  shows "runs (Registry_CreateProof P D U d0 d leaf) (reg, c)
    (\<lambda>pr (reg', c'). pr = \<lparr>Leaf = lf (unat i),
        Path = pathFrom (hashOf P) lf (unat (depth (regTree reg))) 0 (unat i),
        Index = i, Root = node (hashOf P) lf (unat (depth (regTree reg))) 0\<rparr> \<and>
       represents P p U reg' (content d) (lf, ix) \<and> sameRegistry reg reg')"
proof -
  let ?w0 = "\<lparr>w_tree = liveTree D U d reg, w_batch = (), w_ctx = c, w_rng = ()\<rparr>"
  let ?n = "unat (depth (regTree reg))"
  have wf: "wfTree P p (w_tree ?w0)" and d: "unat (depth (w_tree ?w0)) = ?n"
    and t: "treeOf P ?n (storageView P (w_tree ?w0)) lf"
    using rep by (auto simp: represents_def liveTree_kvTree kvTree_def)
  obtain w where w: "CreateProof P i ?w0 = (Inr \<lparr>Leaf = lf (unat i),
        Path = pathFrom (hashOf P) lf ?n 0 (unat i), Index = i, Root = node (hashOf P) lf ?n 0\<rparr>, w)"
      "cacheStep P (?w0\<lparr>w_ctx := ctxAfter ?n (w_ctx ?w0)\<rparr>) w"
    using CreateProof_ok [OF wf d i _ t] c unfolding runs_def by auto
  have "cacheOk P (w_tree w)" using w(2) by (simp add: cacheStep_def)
  then have "represents P p U (reg\<lparr>regTree := w_tree w\<rparr>) (content d) (lf, ix)"
    using cacheStep_views(1,2) [OF w(2)] by (intro represents_cache [OF rep]) (simp_all add: liveTree_def)
  moreover have "sameRegistry reg (reg\<lparr>regTree := w_tree w\<rparr>)"
    using cacheStep_views(1,2) [OF w(2)] by (simp add: sameRegistry_def liveTree_def)
  ultimately show ?thesis
    using w(1) GetLeafIndex_ok [OF rep0, of leaf] ix by (simp add: runs_def Registry_CreateProof_def)
qed

text \<open>
  A proof for a random empty leaf: either it is a proof of the empty value that recomputes the root,
  or none of the ten draws was an empty leaf.
\<close>

lemma GetRandomEmptyLeafProof_ok:
  assumes rep: "represents P p U reg (content d) (lf, ix)"
    and c: "ctxAlive (maxIterationsEmptyLeafProof + unat (depth (regTree reg))) c"
  shows "case GetRandomEmptyLeafProof P D U rand d d (reg, c, g) of
      (Inr pr, (reg', _)) \<Rightarrow>
        Leaf pr = mdEmptyValue (regMetadata reg) \<and> lf (unat (Index pr)) = Leaf pr \<and>
        unat (Index pr) < 2 ^ unat (depth (regTree reg)) \<and>
        Path pr = pathFrom (hashOf P) lf (unat (depth (regTree reg))) 0 (unat (Index pr)) \<and>
        Root pr = node (hashOf P) lf (unat (depth (regTree reg))) 0 \<and>
        represents P p U reg' (content d) (lf, ix) \<and> sameRegistry reg reg'
    | (Inl e, _) \<Rightarrow> \<forall>j<maxIterationsEmptyLeafProof.
        \<not> isEmptyLeaf (kvLeaf U (content d) (regLeafView reg)) (draw rand (maxLeaves (regTree reg)) g j)"
proof -
  let ?w0 = "\<lparr>w_tree = liveTree D U d reg, w_batch = (), w_ctx = c, w_rng = g\<rparr>"
  let ?n = "unat (depth (regTree reg))"
  have wf: "wfTree P p (liveTree D U d reg)" and t: "treeOf P ?n (storageView P (liveTree D U d reg)) lf"
    using rep by (auto simp: represents_def liveTree_kvTree kvTree_def)
  have n: "unat (depth (w_tree ?w0)) = ?n" "?n \<le> 32" "maxLeaves (w_tree ?w0) = maxLeaves (regTree reg)"
    and g: "storageLeafGetter (w_tree ?w0) = kvLeaf U (content d) (regLeafView reg)"
    using wf by (simp_all add: liveTree_kvTree wfTree_def kvTree_def maxLeaves_def)
  show ?thesis
  proof (cases "GetRandomEmptyLeafIndex rand ?w0")
    case (Pair res w)
    note L = randomEmptyLoop_ok [of ?w0 maxIterationsEmptyLeafProof ?n rand]
    show ?thesis
    proof (cases res)
      case (Inl e)
      then show ?thesis
        using L n g c Pair by (simp add: GetRandomEmptyLeafProof_def GetRandomEmptyLeafIndex_def)
    next
      case (Inr i)
      then have i: "unat i < 2 ^ ?n" "isEmptyLeaf (kvLeaf U (content d) (regLeafView reg)) i"
          "w_tree w = liveTree D U d reg" "ctxAlive ?n (w_ctx w)"
        using L n g c Pair by (simp_all add: GetRandomEmptyLeafIndex_def)
      have live: "liveTree D U d (reg\<lparr>regTree := w_tree w\<rparr>) = w_tree w"
        using i(3) by (simp add: liveTree_def)
      have "storageView P (liveTree D U d reg) 0 i = mdEmptyValue (regMetadata reg)"
        using i(2) rep by (simp add: storageView_def liveTree_kvTree isEmptyLeaf_def represents_def
            split: sum.splits)
      then have e: "lf (unat i) = mdEmptyValue (regMetadata reg)"
        using t i(1) by (simp add: treeOf_def)
      obtain w' where w': "CreateProof P i w = (Inr \<lparr>Leaf = lf (unat i),
            Path = pathFrom (hashOf P) lf ?n 0 (unat i), Index = i, Root = node (hashOf P) lf ?n 0\<rparr>, w')"
          "cacheStep P (w\<lparr>w_ctx := ctxAfter ?n (w_ctx w)\<rparr>) w'"
        using CreateProof_ok [of w ?n i lf] wf t i n(1) unfolding runs_def by auto
      have "represents P p U (reg\<lparr>regTree := w_tree w'\<rparr>) (content d) (lf, ix)"
        using cacheStep_views(1,2) [OF w'(2)] w'(2) i(3)
        by (intro represents_cache [OF rep]) (simp_all add: liveTree_def cacheStep_def)
      moreover have "sameRegistry reg (reg\<lparr>regTree := w_tree w'\<rparr>)"
        using cacheStep_views(1,2) [OF w'(2)] i(3) by (simp add: sameRegistry_def liveTree_def)
      ultimately show ?thesis
        using Pair Inr live w'(1) e i(1) by (simp add: GetRandomEmptyLeafProof_def)
    qed
  qed
qed

section \<open>Commit and write\<close>

lemma commit_and_write:
  assumes rep: "represents P p U reg (content d) (lf, ix)"
    and b: "isOpen b" and none: "\<forall>k. registryKey U (regLeafView reg) k \<longrightarrow> pending b k = None"
    and ops: "\<forall>op\<in>set ops. opOk p (unat (depth (regTree reg))) op"
    and nz: "nonzeroTree P (mdEmptyValue (regMetadata reg)) (unat (depth (regTree reg)))
      (fst (absOps (mdEmptyValue (regMetadata reg)) ops (lf, ix)))"
  shows "\<exists>reg' b' d' b''. CommitOperations P D U d c ops (reg, b) = (Inr (), (reg', b')) \<and>
    batchWriteSync D (d, b') = (Inr (), (d', b'')) \<and> sameRegistry reg reg' \<and>
    represents P p U reg' (content d') (absOps (mdEmptyValue (regMetadata reg)) ops (lf, ix)) \<and>
    (\<forall>k. \<not> registryKey U (regLeafView reg) k \<longrightarrow> content d' k = applyOverlay (pending b) (content d) k)"
proof -
  obtain reg' b' where c: "CommitOperations P D U d c ops (reg, b) = (Inr (), (reg', b'))" "isOpen b'"
      "sameRegistry reg reg'"
      "represents P p U reg' (applyOverlay (pending b') (content d)) (absOps (mdEmptyValue (regMetadata reg)) ops (lf, ix))"
      "\<forall>k. \<not> registryKey U (regLeafView reg) k \<longrightarrow> pending b' k = pending b k"
    using CommitOperations_ok [OF assms, of c] by (auto elim!: runsE)
  obtain d' b'' where "batchWriteSync D (d, b') = (Inr (), (d', b''))"
      "content d' = applyOverlay (pending b') (content d)"
    using write_ok [OF c(2)] by blast
  then show ?thesis
    using c by (auto simp: applyOverlay_def)
qed

text \<open>An operation of an unknown kind is refused before the tree is touched.\<close>

lemma commitLoop_unknown:
  assumes "isOpen b" "\<exists>op\<in>set ops. opOp op \<noteq> OperationAddition \<and> opOp op \<noteq> OperationRevocation"
  shows "fst (commitLoop D U reg ops leaves b) = Inl (ErrNew ''unknown operation'')"
  using assms
proof (induction ops arbitrary: b leaves)
  case Nil
  then show ?case by simp
next
  case (Cons op ops)
  let ?k = "makeLeafIndexKey U (regLeafView reg) (leafValue (opLeaf op))"
  obtain b1 where b1: "batchSet D ?k (leafIndexBytes (leafIndex (opLeaf op))) b = (Inr (), b1)" "isOpen b1"
    using bset_ok [OF Cons.prems(1), of ?k] makeLeafIndexKey_props(2) by blast
  obtain b2 where b2: "batchDelete D ?k b = (Inr (), b2)" "isOpen b2"
    using bdelete_ok [OF Cons.prems(1), of ?k] makeLeafIndexKey_props(2) by blast
  show ?case
    using Cons.IH [OF b1(2)] Cons.IH [OF b2(2)] Cons.prems(2) b1(1) b2(1)
    by (auto simp: bindG_def wrapG_def SetLeafIndex_def DeleteLeafIndex_def)
qed

lemma CommitOperations_unknown:
  assumes "isOpen b" "\<exists>op\<in>set ops. opOp op \<noteq> OperationAddition \<and> opOp op \<noteq> OperationRevocation"
  shows "\<exists>b'. CommitOperations P D U d c ops (reg, b) = (Inl (ErrNew ''unknown operation''), (reg, b'))"
  using commitLoop_unknown [OF assms, of reg "[]"]
  by (auto simp: CommitOperations_def split: prod.splits sum.splits)

end

section \<open>Consistency of the index\<close>

text \<open>
  The index of a registry is consistent when it points every value to a leaf inside the tree that
  holds this value, and the empty value nowhere.
\<close>

definition indexConsistent :: "u256 \<Rightarrow> nat \<Rightarrow> abs_registry \<Rightarrow> bool" where
  "indexConsistent e d = (\<lambda>(lf, ix).
     ix e = None \<and> (\<forall>v i. ix v = Some i \<longrightarrow> unat i < 2 ^ d \<and> lf (unat i) = v))"

text \<open>
  What the contract emits: an addition goes to an empty leaf, with a value that is not the empty
  value; a revocation names a value and the leaf that holds it.
\<close>

definition opLegal :: "u256 \<Rightarrow> nat \<Rightarrow> abs_registry \<Rightarrow> leaf_operation \<Rightarrow> bool" where
  "opLegal e d = (\<lambda>(lf, ix) op.
     (let i = leafIndex (opLeaf op); v = leafValue (opLeaf op) in
      if opOp op = OperationAddition then unat i < 2 ^ d \<and> lf (unat i) = e \<and> v \<noteq> e
      else opOp op = OperationRevocation \<and> ix v = Some i))"

fun opsLegal :: "u256 \<Rightarrow> nat \<Rightarrow> abs_registry \<Rightarrow> leaf_operation list \<Rightarrow> bool" where
  "opsLegal e d a [] = True"
| "opsLegal e d a (op # ops) = (opLegal e d a op \<and> opsLegal e d (absOp e op a) ops)"

lemma absOp_consistent:
  assumes c: "indexConsistent e d a" and l: "opLegal e d a op"
  shows "indexConsistent e d (absOp e op a)"
proof -
  obtain lf ix where a: "a = (lf, ix)" by (cases a)
  let ?i = "leafIndex (opLeaf op)" and ?v = "leafValue (opLeaf op)"
  have none: "ix e = None" and held: "\<And>v i. ix v = Some i \<Longrightarrow> unat i < 2 ^ d \<and> lf (unat i) = v"
    using c by (simp_all add: a indexConsistent_def)
  show ?thesis
  proof (cases "opOp op = OperationAddition")
    case True
    then have "unat ?i < 2 ^ d" "lf (unat ?i) = e" "?v \<noteq> e"
      using l by (simp_all add: a opLegal_def Let_def)
    then show ?thesis
      using True held none by (force simp: a indexConsistent_def absOp_def)
  next
    case False
    then have "ix ?v = Some ?i"
      using l by (simp add: a opLegal_def Let_def)
    then have "unat i \<noteq> unat ?i" if "ix v = Some i" "v \<noteq> ?v" for v i
      using held that by metis
    then show ?thesis
      using False held none by (simp add: a indexConsistent_def absOp_def)
  qed
qed

lemma absOps_consistent:
  "indexConsistent e d a \<Longrightarrow> opsLegal e d a ops \<Longrightarrow> indexConsistent e d (absOps e ops a)"
  by (induction ops arbitrary: a) (auto simp: absOps_def absOp_consistent)

end
