(* ===== verification/Simulation_Correct.thy ===== *)
theory Simulation_Correct
  imports Simulation Registry_Correct
begin

unbundle bit_operations_syntax

text \<open>
  Batch proofs are sound: the paths a simulation returns take a verifier from the root of the stored
  tree, through every operation, to the root of the tree after all of them.
\<close>

section \<open>The simulation batch is a batch\<close>

definition parseNat :: "string \<Rightarrow> nat" where
  "parseNat s = foldl (\<lambda>a c. a * 10 + (of_char c - 48)) 0 s"

lemma parseNat_decNat: "parseNat (decNat n) = n"
proof (induction n rule: less_induct)
  case (less n)
  show ?case
  proof (cases "n < 10")
    case True
    then show ?thesis by (subst decNat.simps) (simp add: parseNat_def of_char_of)
  next
    case False
    then have "parseNat (decNat (n div 10)) = n div 10" by (intro less.IH) simp
    then show ?thesis
      using False by (subst decNat.simps) (simp add: parseNat_def of_char_of)
  qed
qed

lemma decNat_inject: "decNat m = decNat n \<longleftrightarrow> m = n"
  by (metis parseNat_decNat)

lemma colon_notin_decNat: "CHR '':'' \<notin> set (decNat n)"
proof (induction n rule: less_induct)
  case (less n)
  have d: "char_of (k + 48) \<noteq> CHR '':''" if "k < 10" for k :: nat
  proof
    assume "char_of (k + 48) = CHR '':''"
    then have "of_char (char_of (k + 48) :: char) = (58 :: nat)" by simp
    then show False using that by (simp add: of_char_of)
  qed
  show ?case
    using less.IH [of "n div 10"] d [of n] d [of "n mod 10"] by (subst decNat.simps) auto
qed

lemma makeSimKey_inject [simp]: "makeSimKey l i = makeSimKey l' i' \<longleftrightarrow> l = l' \<and> i = i'"
  by (simp add: makeSimKey_def append_Cons_eq_iff colon_notin_decNat decNat_inject word_unat_eq_iff)

definition simLookup :: "simulation_batch \<Rightarrow> tree_level \<Rightarrow> leaf_index \<Rightarrow> u256 option" where
  "simLookup s l i = (case simBuffer s (makeSimKey l i) of Some v \<Rightarrow> Some v
     | None \<Rightarrow> (case simStorage s l i of Inr v \<Rightarrow> Some v | Inl _ \<Rightarrow> None))"

definition simValid :: "simulation_batch \<Rightarrow> bool" where
  "simValid s \<longleftrightarrow> (\<forall>l i e. simStorage s l i = Inl e \<longrightarrow> errorsIs e ErrNotFound)"

interpretation sim: leaf_batch simOps simLookup simValid
  by unfold_locales
     (auto simp: simOps_def simLookup_def simValid_def SimulationBatch_GetLeaf_def
       SimulationBatch_SetLeaf_def split: option.splits sum.splits)

section \<open>Reading through a batch\<close>

lemma sibling_xor: "(i :: u32) XOR 1 = (if i mod 2 = 0 then i + 1 else i - 1)"
  by (simp add: xor_one_eq even_iff_mod_2_eq_zero)

lemma sibling_in_range:
  assumes "unat (i :: u32) < 2 ^ (d - l)" "l < d"
  shows "sibling (unat i) < 2 ^ (d - l)"
  using children_in_range(1) [OF assms] sibling_div(3) [of "unat i"] by linarith

text \<open>States a search or a proof leaves behind: only the cache, the context and the generator move.\<close>

definition steady :: "('b, 'g) world \<Rightarrow> ('b, 'g) world \<Rightarrow> bool" where
  "steady w w' \<longleftrightarrow> w_batch w' = w_batch w \<and> depth (w_tree w') = depth (w_tree w) \<and>
     emtpyLeaf (w_tree w') = emtpyLeaf (w_tree w) \<and>
     storageLeafGetter (w_tree w') = storageLeafGetter (w_tree w)"

lemma steady_refl [simp]: "steady w w"
  by (simp add: steady_def)

lemma steady_trans: "steady w w' \<Longrightarrow> steady w' w'' \<Longrightarrow> steady w w''"
  by (simp add: steady_def)

lemma steady_view: "steady w w' \<Longrightarrow> nodeView P lookup w' = nodeView P lookup w"
  by (intro ext) (simp add: steady_def nodeView_def storageView_def split: option.split sum.split)

lemma pollCtx_safe:
  "safe pollCtx w (\<lambda>_ w'. steady w w' \<and> w_tree w' = w_tree w \<and> w_rng w' = w_rng w)"
  by (auto simp: safe_def pollCtx_def steady_def split: option.splits nat.splits)

context tree_env
begin

lemma read_safe:
  assumes wf: "wfWorld P p lookup valid w" and l: "l \<le> depth (w_tree w)"
  shows "runs (getLeafFromBatchOrStorage P B l i) w
    (\<lambda>x w'. x = nodeView P lookup w l i \<and> wfWorld P p lookup valid w' \<and> steady w w' \<and>
       w_ctx w' = w_ctx w \<and> w_rng w' = w_rng w)"
  using getLeafFromBatchOrStorage_ok [OF wf l, of i]
  by (rule runs_mono) (auto simp: steady_def cacheStep_views dest: cacheStep_wfWorld [OF _ wf])

lemma wf_steady_ctx:
  "wfWorld P p lookup valid w \<Longrightarrow> wfWorld P p lookup valid (w\<lparr>w_ctx := c\<rparr>)"
  "wfWorld P p lookup valid w \<Longrightarrow> wfWorld P p lookup valid (w\<lparr>w_rng := g\<rparr>)"
  by (simp_all add: wfWorld_def)

lemma poll_safe:
  assumes "wfWorld P p lookup valid w"
  shows "safe pollCtx w (\<lambda>_ w'. wfWorld P p lookup valid w' \<and> steady w w')"
  using assms by (auto simp: safe_def pollCtx_def steady_def wfWorld_def split: option.splits nat.splits)

lemma proofWithBatchLoop_safe:
  fixes w :: "('b, 'g) world"
  assumes "wfWorld P p lookup valid w" "unat (depth (w_tree w)) = d" "unat level \<le> d"
    "unat index < 2 ^ (d - unat level)" "treeOf P d (nodeView P lookup w) lf"
  shows "safe (proofWithBatchLoop P B (depth (w_tree w)) level index) w
    (\<lambda>path w'. path = pathFrom (hashOf P) lf (d - unat level) (unat level) (unat index) \<and>
       wfWorld P p lookup valid w' \<and> steady w w')"
  using assms
proof (induction "d - unat level" arbitrary: level index w)
  case 0
  then have "\<not> level < depth (w_tree w)" "d - unat level = 0"
    by (auto simp: word_less_nat_alt)
  then show ?case
    using 0 by (subst proofWithBatchLoop.simps) simp
next
  case (Suc n)
  then have lt: "level < depth (w_tree w)" and l: "unat level < d"
    by (auto simp: word_less_nat_alt)
  have up: "unat (level + 1) = Suc (unat level)" using lt by (rule unat_plus1)
  have half: "unat (index div 2) < 2 ^ (d - Suc (unat level))" "unat (index div 2) = unat index div 2"
    using children_in_range(2) [OF Suc.prems(4) l] by (simp_all add: unat_div)
  have sib: "unat (index XOR 1) = sibling (unat index)" "sibling (unat index) < 2 ^ (d - unat level)"
    using sibling_word [of index] sibling_in_range [OF Suc.prems(4) l]
    by (simp_all add: sibling_xor unat_of_nat take_bit_nat_eq_self)
  show ?case
    unfolding safe_def
  proof (intro allI impI)
    fix path w'
    assume "proofWithBatchLoop P B (depth (w_tree w)) level index w = (Inr path, w')"
    then obtain w1 el w2 els where steps: "pollCtx w = (Inr (), w1)"
        "getLeafFromBatchOrStorage P B level (index XOR 1) w1 = (Inr el, w2)"
        "proofWithBatchLoop P B (depth (w_tree w)) (level + 1) (index div 2) w2 = (Inr els, w')"
        "path = el # els"
      using lt by (subst (asm) proofWithBatchLoop.simps) (auto simp: bindG_eq_Inr wrapG_eq_Inr)
    have s1: "wfWorld P p lookup valid w1" "steady w w1"
      using safeD [OF poll_safe [OF Suc.prems(1)] steps(1)] by auto
    have dep1: "depth (w_tree w1) = depth (w_tree w)" using s1(2) by (simp add: steady_def)
    have s2: "el = nodeView P lookup w1 level (index XOR 1)" "wfWorld P p lookup valid w2" "steady w1 w2"
      using safeD [OF runs_safe [OF read_safe [OF s1(1)]] steps(2)] lt dep1 by (auto simp: order_less_imp_le)
    have st: "steady w w2" and dep2: "depth (w_tree w2) = depth (w_tree w)"
      using steady_trans [OF s1(2) s2(3)] by (simp_all add: steady_def)
    have el: "el = node (hashOf P) lf (unat level) (sibling (unat index))"
      using s2(1) steady_view [OF s1(2)] Suc.prems(5) sib l by (simp add: treeOf_def)
    have "safe (proofWithBatchLoop P B (depth (w_tree w2)) (level + 1) (index div 2)) w2
      (\<lambda>path w'. path = pathFrom (hashOf P) lf (d - unat (level + 1)) (unat (level + 1)) (unat (index div 2)) \<and>
         wfWorld P p lookup valid w' \<and> steady w2 w')"
      using Suc.hyps(2) Suc.prems(2,5) s2(2) dep2 up l half st
      by (intro Suc.hyps(1)) (auto simp: steady_view)
    from safeD [OF this] steps(3) dep2 up half(2)
    have "els = pathFrom (hashOf P) lf (d - Suc (unat level)) (Suc (unat level)) (unat index div 2)"
      "wfWorld P p lookup valid w'" "steady w2 w'" by auto
    moreover have "d - unat level = Suc (d - Suc (unat level))" using l by simp
    ultimately show "path = pathFrom (hashOf P) lf (d - unat level) (unat level) (unat index) \<and>
       wfWorld P p lookup valid w' \<and> steady w w'"
      using steps(4) el steady_trans [OF st] by simp
  qed
qed

lemma createProofWithBatch_safe:
  fixes w :: "('b, 'g) world"
  assumes wf: "wfWorld P p lookup valid w" and d: "unat (depth (w_tree w)) = d"
    and i: "unat index < 2 ^ d" and t: "treeOf P d (nodeView P lookup w) lf"
  shows "safe (createProofWithBatch P B index) w
    (\<lambda>pr w'. pr = \<lparr>Leaf = lf (unat index), Path = pathFrom (hashOf P) lf d 0 (unat index),
        Index = index, Root = node (hashOf P) lf d 0\<rparr> \<and> wfWorld P p lookup valid w' \<and> steady w w')"
  unfolding safe_def
proof (intro allI impI)
  fix pr w'
  assume "createProofWithBatch P B index w = (Inr pr, w')"
  then obtain leaf w1 path w2 root where steps:
      "getLeafFromBatchOrStorage P B 0 index w = (Inr leaf, w1)"
      "proofWithBatchLoop P B (depth (w_tree w1)) 0 index w1 = (Inr path, w2)"
      "getLeafFromBatchOrStorage P B (depth (w_tree w2)) 0 w2 = (Inr root, w')"
      "pr = \<lparr>Leaf = leaf, Path = path, Index = index, Root = root\<rparr>"
    by (auto simp: createProofWithBatch_def bindG_eq_Inr wrapG_eq_Inr)
  have s1: "leaf = nodeView P lookup w 0 index" "wfWorld P p lookup valid w1" "steady w w1"
    using safeD [OF runs_safe [OF read_safe [OF wf]] steps(1)] by auto
  have "safe (proofWithBatchLoop P B (depth (w_tree w1)) 0 index) w1
    (\<lambda>path w'. path = pathFrom (hashOf P) lf (d - unat (0::u8)) (unat (0::u8)) (unat index) \<and>
       wfWorld P p lookup valid w' \<and> steady w1 w')"
    using s1 d i t by (intro proofWithBatchLoop_safe) (simp_all add: steady_view, simp add: steady_def)
  from safeD [OF this steps(2)] have s2: "path = pathFrom (hashOf P) lf d 0 (unat index)"
      "wfWorld P p lookup valid w2" "steady w1 w2" by auto
  have s3: "root = nodeView P lookup w2 (depth (w_tree w2)) 0" "wfWorld P p lookup valid w'" "steady w2 w'"
    using safeD [OF runs_safe [OF read_safe [OF s2(2)]] steps(3)] by auto
  have st: "steady w w2" using s1(3) s2(3) by (rule steady_trans)
  have "depth (w_tree w2) = depth (w_tree w)" using st by (simp add: steady_def)
  then have "root = node (hashOf P) lf d 0" "leaf = lf (unat index)"
    using s1(1) s3(1) steady_view [OF st] t d i by (auto simp: treeOf_def)
  then show "pr = \<lparr>Leaf = lf (unat index), Path = pathFrom (hashOf P) lf d 0 (unat index),
        Index = index, Root = node (hashOf P) lf d 0\<rparr> \<and> wfWorld P p lookup valid w' \<and> steady w w'"
    using steps(4) s2(1) s3(2) steady_trans [OF st s3(3)] by simp
qed

lemma findEmptyLoop_safe:
  fixes w :: "('b, 'g) world"
  assumes "wfWorld P p lookup valid w"
  shows "safe (findEmptyLoop P B rand n) w
    (\<lambda>i w'. unat i < 2 ^ unat (depth (w_tree w)) \<and> nodeView P lookup w 0 i = emtpyLeaf (w_tree w) \<and>
       wfWorld P p lookup valid w' \<and> steady w w')"
  using assms
proof (induction n arbitrary: w)
  case 0
  then show ?case by simp
next
  case (Suc n)
  show ?case
    unfolding safe_def
  proof (intro allI impI)
    fix i and w' :: "('b, 'g) world"
    assume "findEmptyLoop P B rand (Suc n) w = (Inr i, w')"
    then obtain w1 j w2 leaf w3 where steps: "pollCtx w = (Inr (), w1)" "randomIndex rand w1 = (Inr j, w2)"
        "getLeafFromBatchOrStorage P B 0 j w2 = (Inr leaf, w3)"
        "(if leaf = emtpyLeaf (w_tree w3) then (Inr j, w3) else findEmptyLoop P B rand n w3) = (Inr i, w')"
      by (auto simp: bindG_eq_Inr wrapG_eq_Inr)
    have s1: "wfWorld P p lookup valid w1" "steady w w1"
      using safeD [OF poll_safe [OF Suc.prems] steps(1)] by auto
    have le: "unat (depth (w_tree w1)) \<le> 32" using s1(1) by (simp add: wfWorld_def wfTree_def)
    have s2: "unat j < 2 ^ unat (depth (w_tree w1))" "wfWorld P p lookup valid w2" "steady w1 w2"
      using safeD [OF runs_safe [OF randomIndex_ok [OF le]] steps(2)] s1(1) by (auto simp: steady_def wfWorld_def)
    have s3: "leaf = nodeView P lookup w2 0 j" "wfWorld P p lookup valid w3" "steady w2 w3"
      using safeD [OF runs_safe [OF read_safe [OF s2(2)]] steps(3)] by auto
    have st: "steady w w2" "steady w w3"
      using s1(2) s2(3) s3(3) steady_trans by blast+
    have eq: "depth (w_tree w1) = depth (w_tree w)" "emtpyLeaf (w_tree w3) = emtpyLeaf (w_tree w)"
        "depth (w_tree w3) = depth (w_tree w)"
      using s1(2) st(2) by (simp_all add: steady_def)
    show "unat i < 2 ^ unat (depth (w_tree w)) \<and> nodeView P lookup w 0 i = emtpyLeaf (w_tree w) \<and>
       wfWorld P p lookup valid w' \<and> steady w w'"
    proof (cases "leaf = emtpyLeaf (w_tree w3)")
      case True
      then show ?thesis
        using steps(4) s2(1) s3 st eq steady_view [OF st(1)] by simp
    next
      case False
      then show ?thesis
        using safeD [OF Suc.IH [OF s3(2)]] steps(4) eq steady_view [OF st(2)] steady_trans [OF st(2)] by simp
    qed
  qed
qed

lemma findLeafLoop_safe:
  fixes w :: "('b, 'g) world"
  assumes "wfWorld P p lookup valid w" "unat n \<le> 2 ^ 32"
  shows "safe (findLeafLoop P B v n k) w
    (\<lambda>i w'. unat i < unat n \<and> nodeView P lookup w 0 i = v \<and> wfWorld P p lookup valid w' \<and> steady w w')"
  using assms(1)
proof (induction "unat n - unat k" arbitrary: k w)
  case 0
  then have "\<not> k < n" by (simp add: word_less_nat_alt)
  then show ?case by (subst findLeafLoop.simps) simp
next
  case (Suc m)
  then have lt: "k < n" by (simp add: word_less_nat_alt)
  then have up: "unat (k + 1) = Suc (unat k)" by (rule unat_plus1)
  have k: "unat k < 2 ^ 32" "unat (ucast k :: u32) = unat k"
    using lt assms(2) by (simp_all add: word_less_nat_alt unsigned_ucast_eq take_bit_nat_eq_self)
  show ?case
    unfolding safe_def
  proof (intro allI impI)
    fix i and w' :: "('b, 'g) world"
    assume run: "findLeafLoop P B v n k w = (Inr i, w')"
    then obtain w1 where p: "pollCtx w = (Inr (), w1)"
      using lt by (subst (asm) findLeafLoop.simps) (auto simp: bindG_eq_Inr)
    have s1: "wfWorld P p lookup valid w1" "steady w w1"
      using safeD [OF poll_safe [OF Suc.prems] p] by auto
    obtain w2 where g: "getLeafFromBatchOrStorage P B 0 (ucast k) w1 = (Inr (nodeView P lookup w1 0 (ucast k)), w2)"
      and s2: "wfWorld P p lookup valid w2" "steady w1 w2"
      using read_safe [OF s1(1), of 0 "ucast k"] by (auto elim: runsE)
    have st: "steady w w2" using s1(2) s2(2) by (rule steady_trans)
    show "unat i < unat n \<and> nodeView P lookup w 0 i = v \<and> wfWorld P p lookup valid w' \<and> steady w w'"
    proof (cases "nodeView P lookup w 0 (ucast k) = v")
      case True
      then have "i = ucast k" "w' = w2"
        using run p g lt steady_view [OF s1(2)] by (subst (asm) findLeafLoop.simps, simp)+
      then show ?thesis using True s2(1) st lt k by (simp add: word_less_nat_alt)
    next
      case False
      then have "findLeafLoop P B v n (k + 1) w2 = (Inr i, w')"
        using run p g lt steady_view [OF s1(2)] by (subst (asm) findLeafLoop.simps) simp
      moreover have "m = unat n - unat (k + 1)" using Suc.hyps(2) up by simp
      ultimately show ?thesis
        using safeD [OF Suc.hyps(1) [OF _ s2(1)]] steady_view [OF st] steady_trans [OF st] by metis
    qed
  qed
qed

section \<open>One operation\<close>

text \<open>The common tail of both branches: the proof, the check of its leaf, and the insertion.\<close>

lemma prove_then_insert:
  fixes w :: "('b, 'g) world"
  assumes wf: "wfWorld P p lookup valid w" and d: "unat (depth (w_tree w)) = d"
    and i: "unat index < 2 ^ d" and t: "treeOf P d (nodeView P lookup w) lf" and new: "unat new < p"
    and pr: "createProofWithBatch P B index w = (Inr pf, w1)"
    and ins: "InsertLeaf P B index new w1 = (Inr u, w')"
  shows "Leaf pf = lf (unat index) \<and> Path pf = pathFrom (hashOf P) lf d 0 (unat index) \<and>
    wfWorld P p lookup valid w' \<and> depth (w_tree w') = depth (w_tree w) \<and>
    emtpyLeaf (w_tree w') = emtpyLeaf (w_tree w) \<and>
    treeOf P d (nodeView P lookup w') (lf(unat index := new))"
proof -
  have s: "pf = \<lparr>Leaf = lf (unat index), Path = pathFrom (hashOf P) lf d 0 (unat index),
      Index = index, Root = node (hashOf P) lf d 0\<rparr>" "wfWorld P p lookup valid w1" "steady w w1"
    using safeD [OF createProofWithBatch_safe [OF wf d i t] pr] by auto
  have d1: "unat (depth (w_tree w1)) = d" using s(3) d by (simp add: steady_def)
  have t1: "treeOf P d (nodeView P lookup w1) lf" using t steady_view [OF s(3)] by simp
  from safeD [OF runs_safe [OF InsertLeaf_ok [OF s(2) d1 i new t1]] ins] s(1,3)
  show ?thesis by (auto simp: frame_def steady_def)
qed

text \<open>The same after a search that left the tree as it was.\<close>

lemma replaced_at:
  fixes w :: "('b, 'g) world"
  assumes d: "unat (depth (w_tree w)) = d" and t: "treeOf P d (nodeView P lookup w) lf"
    and w2: "wfWorld P p lookup valid w2" "steady w w2" and i: "unat index < 2 ^ d" and new: "unat new < p"
    and steps: "createProofWithBatch P B index w2 = (Inr pf, w3)" "InsertLeaf P B index new w3 = (Inr u, w')"
  shows "Path pf = pathFrom (hashOf P) lf d 0 (unat index) \<and>
    wfWorld P p lookup valid w' \<and> depth (w_tree w') = depth (w_tree w) \<and>
    emtpyLeaf (w_tree w') = emtpyLeaf (w_tree w) \<and> treeOf P d (nodeView P lookup w') (lf(unat index := new))"
proof -
  have "unat (depth (w_tree w2)) = d" using w2(2) d by (simp add: steady_def)
  moreover have "treeOf P d (nodeView P lookup w2) lf" using t steady_view [OF w2(2)] by simp
  ultimately show ?thesis
    using prove_then_insert [OF w2(1) _ i _ new steps] w2(2) by (simp add: steady_def)
qed

lemma simulateOp_safe:
  fixes w :: "('b, 'g) world"
  assumes wf: "wfWorld P p lookup valid w" and d: "unat (depth (w_tree w)) = d"
    and t: "treeOf P d (nodeView P lookup w) lf" and v: "unat (leafValue (opLeaf op)) < p"
  shows "safe (simulateOp P B rand op) w (\<lambda>pr w'.
    unat (bprIndex pr) < 2 ^ d \<and> lf (unat (bprIndex pr)) = oldLeaf (emtpyLeaf (w_tree w)) op \<and>
    bprPath pr = pathFrom (hashOf P) lf d 0 (unat (bprIndex pr)) \<and>
    wfWorld P p lookup valid w' \<and> depth (w_tree w') = depth (w_tree w) \<and>
    emtpyLeaf (w_tree w') = emtpyLeaf (w_tree w) \<and>
    treeOf P d (nodeView P lookup w') (lf(unat (bprIndex pr) := newLeaf (emtpyLeaf (w_tree w)) op)))"
  unfolding safe_def
proof (intro allI impI, goal_cases)
  case (1 pr w')
  then obtain w1 where p: "pollCtx w = (Inr (), w1)"
    by (auto simp: simulateOp_def bindG_eq_Inr)
  have s1: "wfWorld P p lookup valid w1" "steady w w1"
    using safeD [OF poll_safe [OF wf] p] by auto
  have e: "unat (emtpyLeaf (w_tree w)) < p" and le: "d \<le> 32"
    using wf d by (auto simp: wfWorld_def wfTree_def)
  show ?case
  proof (cases "opOp op = OperationAddition")
    case True
    then obtain i w2 pf w3 u where steps: "findEmptyLoop P B rand maxIterationsEmptyLeafProof w1 = (Inr i, w2)"
        "createProofWithBatch P B i w2 = (Inr pf, w3)" "InsertLeaf P B i (leafValue (opLeaf op)) w3 = (Inr u, w')"
        "pr = \<lparr>bprIndex = i, bprPath = Path pf\<rparr>"
      using 1 p by (auto simp: simulateOp_def findEmptyLeafIndexInSimulation_def bindG_eq_Inr wrapG_eq_Inr
          split: if_splits)
    have s2: "unat i < 2 ^ d" "nodeView P lookup w1 0 i = emtpyLeaf (w_tree w1)"
        "wfWorld P p lookup valid w2" "steady w1 w2"
      using safeD [OF findEmptyLoop_safe [OF s1(1)] steps(1)] s1(2) d by (auto simp: steady_def)
    have "lf (unat i) = emtpyLeaf (w_tree w)"
      using s2(1,2) t steady_view [OF s1(2)] s1(2) by (simp add: treeOf_def steady_def)
    then show ?thesis
      using replaced_at [OF d t s2(3) steady_trans [OF s1(2) s2(4)] s2(1) v steps(2,3)] steps(4) s2(1) True
      by (simp add: oldLeaf_def newLeaf_def)
  next
    case False
    then obtain i w2 pf w3 u where steps:
        "findLeafLoop P B (leafValue (opLeaf op)) (maxLeaves (w_tree w1)) 0 w1 = (Inr i, w2)"
        "createProofWithBatch P B i w2 = (Inr pf, w3)" "InsertLeaf P B i (emtpyLeaf (w_tree w3)) w3 = (Inr u, w')"
        "pr = \<lparr>bprIndex = i, bprPath = Path pf\<rparr>"
      using 1 p by (auto simp: simulateOp_def findLeafByValueInSimulation_def bindG_eq_Inr wrapG_eq_Inr
          split: if_splits)
    have n: "unat (maxLeaves (w_tree w1)) = 2 ^ d"
      using unat_maxLeaves [of "w_tree w1"] s1(2) d le by (simp add: steady_def)
    then have n32: "unat (maxLeaves (w_tree w1)) \<le> 2 ^ 32"
      using power_increasing [of d 32 "2::nat"] le by simp
    have s2: "unat i < 2 ^ d" "nodeView P lookup w1 0 i = leafValue (opLeaf op)"
        "wfWorld P p lookup valid w2" "steady w1 w2"
      using safeD [OF findLeafLoop_safe [OF s1(1) n32] steps(1)] n by auto
    have st: "steady w w2" using s1(2) s2(4) by (rule steady_trans)
    have old: "lf (unat i) = leafValue (opLeaf op)"
      using s2(1,2) t steady_view [OF s1(2)] by (simp add: treeOf_def)
    have e3: "emtpyLeaf (w_tree w3) = emtpyLeaf (w_tree w)"
      using safeD [OF createProofWithBatch_safe [OF s2(3) _ s2(1)] steps(2)] st d t steady_view [OF st]
      by (simp add: steady_def)
    have "unat (emtpyLeaf (w_tree w3)) < p" using e e3 by simp
    from replaced_at [OF d t s2(3) st s2(1) this steps(2,3)] e3 show ?thesis
      using steps(4) s2(1) False old by (simp add: oldLeaf_def newLeaf_def)
  qed
qed

lemma simulateOps_safe:
  fixes w :: "('b, 'g) world"
  assumes "wfWorld P p lookup valid w" "unat (depth (w_tree w)) = d"
    "treeOf P d (nodeView P lookup w) lf" "\<forall>op\<in>set ops. unat (leafValue (opLeaf op)) < p"
    "emtpyLeaf (w_tree w) = e"
  shows "safe (simulateOps P B rand ops) w (\<lambda>prs w'.
    verifyBatch (hashOf P) e (node (hashOf P) lf d 0) ops prs =
      Some (node (hashOf P) (simLeaves e lf ops prs) d 0) \<and>
    length prs = length ops \<and> treeOf P d (nodeView P lookup w') (simLeaves e lf ops prs))"
  using assms
proof (induction ops arbitrary: w lf)
  case Nil
  then show ?case by auto
next
  case (Cons op ops)
  show ?case
    unfolding safe_def
  proof (intro allI impI)
    fix prs and w' :: "('b, 'g) world"
    assume "simulateOps P B rand (op # ops) w = (Inr prs, w')"
    then obtain pr w1 prs' where steps: "simulateOp P B rand op w = (Inr pr, w1)"
        "simulateOps P B rand ops w1 = (Inr prs', w')" "prs = pr # prs'"
      by (auto simp: bindG_eq_Inr)
    let ?i = "unat (bprIndex pr)" and ?lf1 = "lf(unat (bprIndex pr) := newLeaf e op)"
    have v: "unat (leafValue (opLeaf op)) < p" using Cons.prems(4) by simp
    have s: "?i < 2 ^ d" "lf ?i = oldLeaf e op" "bprPath pr = pathFrom (hashOf P) lf d 0 ?i"
        "wfWorld P p lookup valid w1" "unat (depth (w_tree w1)) = d" "emtpyLeaf (w_tree w1) = e"
        "treeOf P d (nodeView P lookup w1) ?lf1"
      using safeD [OF simulateOp_safe [OF Cons.prems(1-3) v] steps(1)] Cons.prems(2,5) by auto
    have root: "computeRoot (hashOf P) (oldLeaf e op) (bprPath pr) ?i = node (hashOf P) lf d 0"
      "computeRoot (hashOf P) (newLeaf e op) (bprPath pr) ?i = node (hashOf P) ?lf1 d 0"
      using computeRoot_pathFrom [of "hashOf P" lf 0 ?i d] computeRoot_pathFrom [of "hashOf P" ?lf1 0 ?i d]
        pathFrom_upd [of ?i 0 ?i "hashOf P" lf "newLeaf e op" d] s(1-3) by simp_all
    show "verifyBatch (hashOf P) e (node (hashOf P) lf d 0) (op # ops) prs =
        Some (node (hashOf P) (simLeaves e lf (op # ops) prs) d 0) \<and> length prs = length (op # ops) \<and>
        treeOf P d (nodeView P lookup w') (simLeaves e lf (op # ops) prs)"
      using safeD [OF Cons.IH [OF s(4,5,7) _ s(6)] steps(2)] Cons.prems(4) root steps(3) by (auto simp del: fun_upd_apply)
  qed
qed

end

section \<open>The whole batch\<close>

context poseidon_field
begin

sublocale simtree: tree_env P p simOps simLookup simValid
  by unfold_locales

lemma new_simulation:
  assumes "wfTree P p (w_tree w)"
  shows "wfWorld P p simLookup simValid (w\<lparr>w_batch := NewSimulationBatch (storageLeafGetter (w_tree w))\<rparr>)"
    "nodeView P simLookup (w\<lparr>w_batch := NewSimulationBatch (storageLeafGetter (w_tree w))\<rparr>) =
     storageView P (w_tree w)"
  using assms getterOkD [of p "storageLeafGetter (w_tree w)"]
  by (auto simp: wfWorld_def simValid_def simLookup_def NewSimulationBatch_def wfTree_def
      nodeView_def storageView_def fun_eq_iff split: sum.splits)

lemma SimulateBatchOperations_safe:
  assumes wf: "wfTree P p (w_tree w)" and d: "unat (depth (w_tree w)) = d"
    and t: "treeOf P d (storageView P (w_tree w)) lf"
    and v: "\<forall>op\<in>set ops. unat (leafValue (opLeaf op)) < p"
  shows "safe (SimulateBatchOperations P rand ops) w (\<lambda>(root, prs) w'.
    root = node (hashOf P) lf d 0 \<and> length prs = length ops \<and>
    verifyBatch (hashOf P) (emtpyLeaf (w_tree w)) root ops prs =
      Some (node (hashOf P) (simLeaves (emtpyLeaf (w_tree w)) lf ops prs) d 0) \<and>
    treeOf P d (nodeView P simLookup w') (simLeaves (emtpyLeaf (w_tree w)) lf ops prs))"
  unfolding safe_def
proof (intro allI impI, goal_cases)
  case (1 r w')
  then obtain root w1 prs where steps: "GetRoot P w = (Inr root, w1)"
      "simulateOps P simOps rand ops
         (w1\<lparr>w_batch := NewSimulationBatch (storageLeafGetter (w_tree w1))\<rparr>) = (Inr prs, w')"
      "r = (root, prs)"
    by (auto simp: SimulateBatchOperations_def bindG_eq_Inr wrapG_eq_Inr)
  have s: "root = storageView P (w_tree w) (depth (w_tree w)) 0" "cacheStep P w w1"
    using safeD [OF runs_safe [OF getLeafFromStorage_ok [OF wf, of "depth (w_tree w)" 0]]] steps(1)
    by (auto simp: GetRoot_def)
  let ?w2 = "w1\<lparr>w_batch := NewSimulationBatch (storageLeafGetter (w_tree w1))\<rparr>"
  have root: "root = node (hashOf P) lf d 0"
    using s(1) t d by (simp add: treeOf_def)
  note vw = cacheStep_views [OF s(2)]
  have "safe (simulateOps P simOps rand ops) ?w2 (\<lambda>prs w'.
    verifyBatch (hashOf P) (emtpyLeaf (w_tree w)) (node (hashOf P) lf d 0) ops prs =
      Some (node (hashOf P) (simLeaves (emtpyLeaf (w_tree w)) lf ops prs) d 0) \<and>
    length prs = length ops \<and>
    treeOf P d (nodeView P simLookup w') (simLeaves (emtpyLeaf (w_tree w)) lf ops prs))"
    using new_simulation [OF cacheStep_wfTree [OF s(2) wf]] d t v vw
    by (intro simtree.simulateOps_safe) simp_all
  from safeD [OF this steps(2)] root steps(3)
  show ?case
    by auto
qed

end

end
