(* ===== verification/Simulation_Total.thy ===== *)
theory Simulation_Total
  imports Simulation_Correct
begin

text \<open>
  When the simulation of a batch succeeds.  With a context that is not cancelled it returns a proof
  for every operation exactly when each addition finds an empty leaf among its ten draws and each
  revocation finds its value, and the indexes it returns are those of \<open>pickOps\<close>.
\<close>

lemma runs_safe_conj:
  "runs m s Q \<Longrightarrow> safe m s R \<Longrightarrow> runs m s (\<lambda>x s'. Q x s' \<and> R x s')"
  by (auto simp: runs_def safe_def)

text \<open>States in which the context is not cancelled and the generator did not move.\<close>

definition still :: "('b, 'g) world \<Rightarrow> ('b, 'g) world \<Rightarrow> bool" where
  "still w w' \<longleftrightarrow> w_ctx w' = None \<and> w_rng w' = w_rng w"

lemma pollCtx_None [simp]: "w_ctx w = None \<Longrightarrow> pollCtx w = (Inr (), w)"
  by (simp add: pollCtx_def)

context tree_env
begin

lemma read_still:
  assumes "wfWorld P p lookup valid w" "l \<le> depth (w_tree w)" "w_ctx w = None"
  shows "runs (getLeafFromBatchOrStorage P B l i) w
    (\<lambda>x w'. x = nodeView P lookup w l i \<and> wfWorld P p lookup valid w' \<and> steady w w' \<and> still w w')"
  using read_safe [OF assms(1,2), of i] by (rule runs_mono) (auto simp: still_def assms(3))

lemma proofWithBatchLoop_runs:
  fixes w :: "('b, 'g) world"
  assumes "wfWorld P p lookup valid w" "w_ctx w = None"
  shows "runs (proofWithBatchLoop P B (depth (w_tree w)) level index) w (\<lambda>_ w'. still w w')"
  using assms
proof (induction "unat (depth (w_tree w)) - unat level" arbitrary: level index w)
  case 0
  then have "\<not> level < depth (w_tree w)"
    by (simp add: word_less_nat_alt)
  then show ?case
    using 0 by (subst proofWithBatchLoop.simps) (simp add: runs_def still_def)
next
  case (Suc n)
  then have lt: "level < depth (w_tree w)" by (simp add: word_less_nat_alt)
  have up: "unat (level + 1) = Suc (unat level)" using lt by (rule unat_plus1)
  obtain x w1 where w1: "getLeafFromBatchOrStorage P B level (index XOR 1) w = (Inr x, w1)"
      "wfWorld P p lookup valid w1" "steady w w1" "still w w1"
    using read_still [OF Suc.prems(1) less_imp_le [OF lt] Suc.prems(2), of "index XOR 1"] by (auto elim: runsE)
  have d: "depth (w_tree w1) = depth (w_tree w)" and c: "w_ctx w1 = None" "w_rng w1 = w_rng w"
    using w1(3,4) by (simp_all add: steady_def still_def)
  have "runs (proofWithBatchLoop P B (depth (w_tree w1)) (level + 1) (index div 2)) w1 (\<lambda>_ w'. still w1 w')"
    using Suc.hyps(2) w1(2) c(1) by (intro Suc.hyps(1)) (simp_all add: d up)
  then obtain xs w2 where "proofWithBatchLoop P B (depth (w_tree w)) (level + 1) (index div 2) w1 = (Inr xs, w2)"
      "still w1 w2"
    by (auto simp: d elim: runsE)
  then show ?case
    using lt w1(1) Suc.prems(2) c(2)
    by (subst proofWithBatchLoop.simps) (simp add: runs_def bindG_def wrapG_def still_def)
qed

lemma createProofWithBatch_runs:
  fixes w :: "('b, 'g) world"
  assumes wf: "wfWorld P p lookup valid w" and d: "unat (depth (w_tree w)) = d" and ctx: "w_ctx w = None"
    and i: "unat index < 2 ^ d" and t: "treeOf P d (nodeView P lookup w) lf"
  shows "runs (createProofWithBatch P B index) w
    (\<lambda>pr w'. still w w' \<and> Leaf pr = lf (unat index) \<and> wfWorld P p lookup valid w' \<and> steady w w')"
proof -
  obtain x w1 where w1: "getLeafFromBatchOrStorage P B 0 index w = (Inr x, w1)"
      "wfWorld P p lookup valid w1" "steady w w1" "still w w1"
    using read_still [OF wf _ ctx, of 0 index] by (auto elim: runsE)
  have "runs (proofWithBatchLoop P B (depth (w_tree w1)) 0 index) w1
    (\<lambda>path w'. still w1 w' \<and> (path = pathFrom (hashOf P) lf (d - unat (0::u8)) (unat (0::u8)) (unat index) \<and>
       wfWorld P p lookup valid w' \<and> steady w1 w'))"
    using w1 d i t
    by (intro runs_safe_conj proofWithBatchLoop_runs proofWithBatchLoop_safe)
       (auto simp: still_def steady_def steady_view [OF w1(3)])
  then obtain path w2 where w2: "proofWithBatchLoop P B (depth (w_tree w1)) 0 index w1 = (Inr path, w2)"
      "still w1 w2" "wfWorld P p lookup valid w2"
    by (auto elim: runsE)
  obtain r w3 where w3: "getLeafFromBatchOrStorage P B (depth (w_tree w2)) 0 w2 = (Inr r, w3)" "still w2 w3"
    using read_still [OF w2(3), of "depth (w_tree w2)" 0] w2(2) by (auto elim: runsE simp: still_def)
  have "runs (createProofWithBatch P B index) w (\<lambda>_ w'. still w w')"
    using w1(1,4) w2(1,2) w3
    by (simp add: runs_def createProofWithBatch_def bindG_def wrapG_def still_def)
  from runs_safe_conj [OF this createProofWithBatch_safe [OF wf d i t]] show ?thesis
    by (rule runs_mono) simp
qed

lemma findEmptyLoop_pick:
  fixes w :: "('b, 'g) world"
  assumes "wfWorld P p lookup valid w" "w_ctx w = None" "unat (depth (w_tree w)) = d"
    "treeOf P d (nodeView P lookup w) lf"
  shows "case pickEmpty rand (maxLeaves (w_tree w)) (emtpyLeaf (w_tree w)) lf k (w_rng w) of
      Some (i, g) \<Rightarrow> runs (findEmptyLoop P B rand k) w (\<lambda>i' w'. i' = i \<and> w_rng w' = g \<and> w_ctx w' = None)
    | None \<Rightarrow> (\<exists>e w'. findEmptyLoop P B rand k w = (Inl e, w'))"
  using assms
proof (induction k arbitrary: w)
  case 0
  then show ?case by simp
next
  case (Suc k)
  let ?g = "snd (rand (w_rng w))" and ?e = "emtpyLeaf (w_tree w)"
  have le: "unat (depth (w_tree w)) \<le> 32" using Suc.prems(1) by (simp add: wfWorld_def wfTree_def)
  obtain i where i: "randomIndex rand w = (Inr i, w\<lparr>w_rng := ?g\<rparr>)" "unat i < 2 ^ d"
      "i = ucast (fst (rand (w_rng w)) mod maxLeaves (w_tree w))"
    using randomIndex_ok [OF le, of rand] Suc.prems(3) by (auto elim: runsE)
  let ?w1 = "w\<lparr>w_rng := ?g\<rparr>"
  have st1: "steady w ?w1" by (simp add: steady_def)
  obtain w2 where w2: "getLeafFromBatchOrStorage P B 0 i ?w1 = (Inr (nodeView P lookup ?w1 0 i), w2)"
      "wfWorld P p lookup valid w2" "steady ?w1 w2" "still ?w1 w2"
    using read_still [OF wf_steady_ctx(2) [OF Suc.prems(1)], of 0 ?g i] Suc.prems(2) by (auto elim: runsE)
  have v: "nodeView P lookup ?w1 0 i = lf (unat i)"
    using steady_view [OF st1] Suc.prems(4) i(2) by (simp add: treeOf_def)
  have st: "steady w w2" using st1 w2(3) by (rule steady_trans)
  have eq: "depth (w_tree w2) = depth (w_tree w)" "emtpyLeaf (w_tree w2) = ?e" "w_rng w2 = ?g" "w_ctx w2 = None"
      "maxLeaves (w_tree w2) = maxLeaves (w_tree w)"
    using st w2(4) by (simp_all add: steady_def still_def maxLeaves_def)
  have run: "findEmptyLoop P B rand (Suc k) w =
      (if lf (unat i) = ?e then (Inr i, w2) else findEmptyLoop P B rand k w2)"
    using Suc.prems(2) i(1) w2(1) v eq by (simp add: bindG_def wrapG_def)
  have IH: "case pickEmpty rand (maxLeaves (w_tree w)) ?e lf k ?g of
      Some (i, g) \<Rightarrow> runs (findEmptyLoop P B rand k) w2 (\<lambda>i' w'. i' = i \<and> w_rng w' = g \<and> w_ctx w' = None)
    | None \<Rightarrow> (\<exists>e w'. findEmptyLoop P B rand k w2 = (Inl e, w'))"
    using Suc.IH [OF w2(2) eq(4)] Suc.prems(3,4) steady_view [OF st] by (simp only: eq)
  have "pickEmpty rand (maxLeaves (w_tree w)) ?e lf (Suc k) (w_rng w) =
      (if lf (unat i) = ?e then Some (i, ?g) else pickEmpty rand (maxLeaves (w_tree w)) ?e lf k ?g)"
    by (simp add: i(3) Let_def split: prod.split)
  then show ?case
    using IH eq by (auto simp: run runs_def simp del: findEmptyLoop.simps pickEmpty.simps split: option.splits)
qed

lemma findLeafLoop_pick:
  fixes w :: "('b, 'g) world"
  assumes "wfWorld P p lookup valid w" "w_ctx w = None" "unat (depth (w_tree w)) = d"
    "treeOf P d (nodeView P lookup w) lf" "unat n = 2 ^ d"
  shows "case pickLeaf n v lf (unat k) of
      Some i \<Rightarrow> runs (findLeafLoop P B v n k) w (\<lambda>i' w'. i' = i \<and> still w w')
    | None \<Rightarrow> (\<exists>e w'. findLeafLoop P B v n k w = (Inl e, w'))"
  using assms(1-4)
proof (induction "unat n - unat k" arbitrary: k w)
  case 0
  then have "\<not> k < n" "unat n \<le> unat k" by (auto simp: word_less_nat_alt)
  then show ?case by (subst findLeafLoop.simps) (simp add: pickLeaf_def)
next
  case (Suc m)
  then have lt: "k < n" by (simp add: word_less_nat_alt)
  then have up: "unat (k + 1) = Suc (unat k)" by (rule unat_plus1)
  have "d \<le> 32" using Suc.prems(1,3) by (auto simp: wfWorld_def wfTree_def)
  then have "unat n \<le> 2 ^ 32" using assms(5) power_increasing [of d 32 "2::nat"] by simp
  then have k: "unat (ucast k :: u32) = unat k" "unat k < 2 ^ d" "word_of_nat (unat k) = (ucast k :: u32)"
    using lt assms(5)
    by (simp_all add: word_less_nat_alt unsigned_ucast_eq take_bit_nat_eq_self unsigned_ucast_eq word_unat_eq_iff
        unat_of_nat)
  obtain w2 where w2: "getLeafFromBatchOrStorage P B 0 (ucast k) w = (Inr (nodeView P lookup w 0 (ucast k)), w2)"
      "wfWorld P p lookup valid w2" "steady w w2" "still w w2"
    using read_still [OF Suc.prems(1) _ Suc.prems(2), of 0 "ucast k"] by (auto elim: runsE)
  have v: "nodeView P lookup w 0 (ucast k) = lf (unat k)"
    using Suc.prems(4) k(1,2) by (simp add: treeOf_def)
  have eq: "depth (w_tree w2) = depth (w_tree w)" "w_ctx w2 = None" "w_rng w2 = w_rng w"
    using w2(3,4) by (simp_all add: steady_def still_def)
  have run: "findLeafLoop P B v n k w = (if lf (unat k) = v then (Inr (ucast k), w2) else findLeafLoop P B v n (k + 1) w2)"
    using Suc.prems(2) w2(1) v lt by (subst findLeafLoop.simps) (simp add: bindG_def)
  have IH: "case pickLeaf n v lf (Suc (unat k)) of
      Some i \<Rightarrow> runs (findLeafLoop P B v n (k + 1)) w2 (\<lambda>i' w'. i' = i \<and> still w2 w')
    | None \<Rightarrow> (\<exists>e w'. findLeafLoop P B v n (k + 1) w2 = (Inl e, w'))"
    using Suc.hyps(1) [of "k + 1" w2] Suc.hyps(2) w2(2) eq Suc.prems(3,4) steady_view [OF w2(3)] up by simp
  have "[unat k..<unat n] = unat k # [Suc (unat k)..<unat n]"
    using lt by (simp add: upt_conv_Cons word_less_nat_alt)
  then have "pickLeaf n v lf (unat k) =
      (if lf (unat k) = v then Some (ucast k) else pickLeaf n v lf (Suc (unat k)))"
    using k(3) by (simp add: pickLeaf_def)
  then show ?case
    using IH eq w2(4) by (auto simp: run runs_def still_def split: option.splits)
qed

text \<open>The tail of both branches succeeds and leaves the context and the generator alone.\<close>

lemma prove_and_insert_runs:
  fixes w :: "('b, 'g) world"
  assumes wf: "wfWorld P p lookup valid w" and d: "unat (depth (w_tree w)) = d" and ctx: "w_ctx w = None"
    and i: "unat index < 2 ^ d" and t: "treeOf P d (nodeView P lookup w) lf"
    and new: "\<And>w'. steady w w' \<Longrightarrow> unat (new w') < p" and old: "\<And>w'. steady w w' \<Longrightarrow> lf (unat index) = old w'"
  shows "runs (bindG (wrapG m1 (createProofWithBatch P B index)) (\<lambda>pf w1.
      if Leaf pf \<noteq> old w1 then (Inl err, w1)
      else bindG (wrapG m2 (InsertLeaf P B index (new w1))) (\<lambda>_.
           retG \<lparr>bprIndex = index, bprPath = Path pf\<rparr>) w1)) w
    (\<lambda>pr w'. bprIndex pr = index \<and> still w w')"
proof -
  obtain pf w1 where w1: "createProofWithBatch P B index w = (Inr pf, w1)" "still w w1"
      "Leaf pf = lf (unat index)" "wfWorld P p lookup valid w1" "steady w w1"
    using createProofWithBatch_runs [OF wf d ctx i t] by (auto elim: runsE)
  have "runs (InsertLeaf P B index (new w1)) w1 (\<lambda>_ w'. wfWorld P p lookup valid w' \<and> frame w1 w' \<and>
       treeOf P d (nodeView P lookup w') (lf(unat index := new w1)))"
    using w1 d i t new by (intro InsertLeaf_ok) (auto simp: steady_def steady_view [OF w1(5)])
  then obtain w2 where "InsertLeaf P B index (new w1) w1 = (Inr (), w2)" "frame w1 w2"
    by (auto elim: runsE)
  then show ?thesis
    using w1 old [OF w1(5)] by (simp add: runs_def bindG_def wrapG_def still_def frame_def)
qed

lemma simulateOp_pick_add:
  fixes w :: "('b, 'g) world"
  assumes wf: "wfWorld P p lookup valid w" and ctx: "w_ctx w = None" and d: "unat (depth (w_tree w)) = d"
    and t: "treeOf P d (nodeView P lookup w) lf" and v: "unat (leafValue (opLeaf op)) < p"
    and add: "opOp op = OperationAddition"
  shows "case pickOp rand (maxLeaves (w_tree w)) (emtpyLeaf (w_tree w)) op lf (w_rng w) of
      Some (i, g) \<Rightarrow> runs (simulateOp P B rand op) w (\<lambda>pr w'. bprIndex pr = i \<and> w_rng w' = g \<and> w_ctx w' = None)
    | None \<Rightarrow> (\<exists>e w'. simulateOp P B rand op w = (Inl e, w'))"
proof -
  let ?n = "maxLeaves (w_tree w)" and ?e = "emtpyLeaf (w_tree w)" and ?v = "leafValue (opLeaf op)"
  let ?K = maxIterationsEmptyLeafProof
  show ?thesis
  proof (cases "pickEmpty rand ?n ?e lf ?K (w_rng w)")
    case None
    then show ?thesis
      using findEmptyLoop_pick [OF wf ctx d t, of rand ?K] add ctx
      by (auto simp: pickOp_def simulateOp_def findEmptyLeafIndexInSimulation_def bindG_def wrapG_def)
  next
    case (Some r)
    obtain i g where r: "r = (i, g)" by (cases r)
    from Some findEmptyLoop_pick [OF wf ctx d t, of rand ?K]
    have "runs (findEmptyLoop P B rand ?K) w (\<lambda>i' w'. i' = i \<and> w_rng w' = g \<and> w_ctx w' = None)"
      by (simp add: r)
    from runs_safe_conj [OF this findEmptyLoop_safe [OF wf]] obtain w1 where
      w1: "findEmptyLoop P B rand ?K w = (Inr i, w1)" "w_rng w1 = g" "w_ctx w1 = None" "unat i < 2 ^ d"
        "nodeView P lookup w 0 i = ?e" "wfWorld P p lookup valid w1" "steady w w1"
      using d by (auto elim!: runsE)
    have "runs (bindG (wrapG ''create proof for addition'' (createProofWithBatch P B i)) (\<lambda>pf w1.
        if Leaf pf \<noteq> emtpyLeaf (w_tree w1) then (Inl (ErrNew ''leaf is not empty''), w1)
        else bindG (wrapG ''insert leaf'' (InsertLeaf P B i ?v)) (\<lambda>_.
             retG \<lparr>bprIndex = i, bprPath = Path pf\<rparr>) w1)) w1
      (\<lambda>pr w'. bprIndex pr = i \<and> still w1 w')"
      using w1 d t v
      by (intro prove_and_insert_runs [where lf = lf and d = d]) (auto simp: steady_def treeOf_def steady_view [OF w1(7)])
    then show ?thesis
      using Some r add ctx w1(1-3)
      by (auto simp: pickOp_def simulateOp_def findEmptyLeafIndexInSimulation_def runs_def bindG_def wrapG_def
          still_def)
  qed
qed

lemma simulateOp_pick_revoke:
  fixes w :: "('b, 'g) world"
  assumes wf: "wfWorld P p lookup valid w" and ctx: "w_ctx w = None" and d: "unat (depth (w_tree w)) = d"
    and t: "treeOf P d (nodeView P lookup w) lf"
    and rev: "opOp op = OperationRevocation" "opOp op \<noteq> OperationAddition"
  shows "case pickOp rand (maxLeaves (w_tree w)) (emtpyLeaf (w_tree w)) op lf (w_rng w) of
      Some (i, g) \<Rightarrow> runs (simulateOp P B rand op) w (\<lambda>pr w'. bprIndex pr = i \<and> w_rng w' = g \<and> w_ctx w' = None)
    | None \<Rightarrow> (\<exists>e w'. simulateOp P B rand op w = (Inl e, w'))"
proof -
  let ?n = "maxLeaves (w_tree w)" and ?e = "emtpyLeaf (w_tree w)" and ?v = "leafValue (opLeaf op)"
  have e: "unat ?e < p" and le: "d \<le> 32"
    using wf d by (auto simp: wfWorld_def wfTree_def)
  have n: "unat ?n = 2 ^ d" using unat_maxLeaves [of "w_tree w"] d le by simp
  show ?thesis
  proof (cases "pickLeaf ?n ?v lf 0")
    case None
    then show ?thesis
      using findLeafLoop_pick [OF wf ctx d t n, of ?v 0] rev ctx
      by (auto simp: pickOp_def simulateOp_def findLeafByValueInSimulation_def bindG_def wrapG_def)
  next
    case (Some i)
    from Some findLeafLoop_pick [OF wf ctx d t n, of ?v 0]
    have "runs (findLeafLoop P B ?v ?n 0) w (\<lambda>i' w'. i' = i \<and> still w w')"
      by simp
    then obtain w1 where w1: "findLeafLoop P B ?v ?n 0 w = (Inr i, w1)" "still w w1"
      by (auto elim!: runsE)
    have n32: "unat ?n \<le> 2 ^ 32" using n le power_increasing [of d 32 "2::nat"] by simp
    have s1: "unat i < 2 ^ d" "nodeView P lookup w 0 i = ?v" "wfWorld P p lookup valid w1" "steady w w1"
      using safeD [OF findLeafLoop_safe [OF wf n32] w1(1)] n by auto
    have "runs (bindG (wrapG ''create proof for revocation'' (createProofWithBatch P B i)) (\<lambda>pf w1.
        if Leaf pf \<noteq> ?v then (Inl (ErrNew ''leaf does not match expected value''), w1)
        else bindG (wrapG ''revoke leaf'' (InsertLeaf P B i (emtpyLeaf (w_tree w1)))) (\<lambda>_.
             retG \<lparr>bprIndex = i, bprPath = Path pf\<rparr>) w1)) w1
      (\<lambda>pr w'. bprIndex pr = i \<and> still w1 w')"
      using w1 s1 d t e
      by (intro prove_and_insert_runs [where lf = lf and d = d])
         (auto simp: steady_def treeOf_def still_def steady_view [OF s1(4)])
    then show ?thesis
      using Some rev ctx w1(1,2)
      by (auto simp: pickOp_def simulateOp_def findLeafByValueInSimulation_def runs_def bindG_def wrapG_def
          still_def)
  qed
qed

lemma simulateOp_pick:
  fixes w :: "('b, 'g) world"
  assumes wf: "wfWorld P p lookup valid w" and ctx: "w_ctx w = None" and d: "unat (depth (w_tree w)) = d"
    and t: "treeOf P d (nodeView P lookup w) lf" and v: "unat (leafValue (opLeaf op)) < p"
  shows "case pickOp rand (maxLeaves (w_tree w)) (emtpyLeaf (w_tree w)) op lf (w_rng w) of
      Some (i, g) \<Rightarrow> runs (simulateOp P B rand op) w (\<lambda>pr w'. bprIndex pr = i \<and> w_rng w' = g \<and> w_ctx w' = None)
    | None \<Rightarrow> (\<exists>e w'. simulateOp P B rand op w = (Inl e, w'))"
proof -
  consider "opOp op = OperationAddition"
    | "opOp op = OperationRevocation" "opOp op \<noteq> OperationAddition"
    | "opOp op \<noteq> OperationAddition" "opOp op \<noteq> OperationRevocation" by blast
  then show ?thesis
  proof cases
    case 3
    then show ?thesis using ctx by (simp add: pickOp_def simulateOp_def bindG_def)
  qed (use simulateOp_pick_add [OF wf ctx d t v] simulateOp_pick_revoke [OF wf ctx d t] in blast)+
qed

lemma simulateOps_pick:
  fixes w :: "('b, 'g) world"
  assumes "wfWorld P p lookup valid w" "w_ctx w = None" "unat (depth (w_tree w)) = d"
    "treeOf P d (nodeView P lookup w) lf" "\<forall>op\<in>set ops. unat (leafValue (opLeaf op)) < p"
  shows "case pickOps rand (maxLeaves (w_tree w)) (emtpyLeaf (w_tree w)) ops lf (w_rng w) of
      Some is \<Rightarrow> runs (simulateOps P B rand ops) w (\<lambda>prs w'. map bprIndex prs = is)
    | None \<Rightarrow> (\<exists>e w'. simulateOps P B rand ops w = (Inl e, w'))"
  using assms
proof (induction ops arbitrary: w lf)
  case Nil
  then show ?case by (simp add: runs_def)
next
  case (Cons op ops)
  let ?e = "emtpyLeaf (w_tree w)" and ?n = "maxLeaves (w_tree w)"
  have v: "unat (leafValue (opLeaf op)) < p" using Cons.prems(5) by simp
  note pick = simulateOp_pick [OF Cons.prems(1-4) v, of rand]
  show ?case
  proof (cases "pickOp rand ?n ?e op lf (w_rng w)")
    case None
    then show ?thesis using pick by (auto simp: bindG_def)
  next
    case (Some r)
    obtain i g where r: "r = (i, g)" by (cases r)
    with Some pick have "runs (simulateOp P B rand op) w (\<lambda>pr w'. bprIndex pr = i \<and> w_rng w' = g \<and> w_ctx w' = None)"
      by simp
    from runs_safe_conj [OF this simulateOp_safe [OF Cons.prems(1,3,4) v]] obtain pr w1 where
      w1: "simulateOp P B rand op w = (Inr pr, w1)" "bprIndex pr = i" "w_rng w1 = g" "w_ctx w1 = None"
        "wfWorld P p lookup valid w1" "depth (w_tree w1) = depth (w_tree w)" "emtpyLeaf (w_tree w1) = ?e"
        "treeOf P d (nodeView P lookup w1) (lf(unat i := newLeaf ?e op))"
      by (auto elim!: runsE)
    have n1: "maxLeaves (w_tree w1) = ?n" using w1(6) by (simp add: maxLeaves_def)
    have d1: "unat (depth (w_tree w1)) = d" using w1(6) Cons.prems(3) by simp
    have v1: "\<forall>op\<in>set ops. unat (leafValue (opLeaf op)) < p" using Cons.prems(5) by simp
    have "case pickOps rand ?n ?e ops (lf(unat i := newLeaf ?e op)) g of
        Some is \<Rightarrow> runs (simulateOps P B rand ops) w1 (\<lambda>prs w'. map bprIndex prs = is)
      | None \<Rightarrow> (\<exists>e w'. simulateOps P B rand ops w1 = (Inl e, w'))"
      using Cons.IH [OF w1(5,4) d1 w1(8) v1] unfolding n1 w1(3,7) .
    then show ?thesis
      using Some r w1(1,2)
      by (cases "pickOps rand ?n ?e ops (lf(unat i := newLeaf ?e op)) g")
         (auto simp: runs_def bindG_def simp del: fun_upd_apply)
  qed
qed

end

section \<open>The whole batch\<close>

context poseidon_field
begin

lemma SimulateBatchOperations_pick:
  assumes wf: "wfTree P p (w_tree w)" and ctx: "w_ctx w = None" and d: "unat (depth (w_tree w)) = d"
    and t: "treeOf P d (storageView P (w_tree w)) lf"
    and v: "\<forall>op\<in>set ops. unat (leafValue (opLeaf op)) < p"
  shows "case pickOps rand (maxLeaves (w_tree w)) (emtpyLeaf (w_tree w)) ops lf (w_rng w) of
      Some is \<Rightarrow> runs (SimulateBatchOperations P rand ops) w (\<lambda>(root, prs) w'. map bprIndex prs = is)
    | None \<Rightarrow> (\<exists>e w'. SimulateBatchOperations P rand ops w = (Inl e, w'))"
proof -
  obtain root w1 where w1: "GetRoot P w = (Inr root, w1)" "cacheStep P w w1"
    using getLeafFromStorage_ok [OF wf, of "depth (w_tree w)" 0] by (auto simp: GetRoot_def elim: runsE)
  note vw = cacheStep_views [OF w1(2)]
  let ?w2 = "w1\<lparr>w_batch := NewSimulationBatch (storageLeafGetter (w_tree w1))\<rparr>"
  note new = new_simulation [OF cacheStep_wfTree [OF w1(2) wf]]
  have eq: "w_ctx ?w2 = None" "unat (depth (w_tree ?w2)) = d" "maxLeaves (w_tree ?w2) = maxLeaves (w_tree w)"
      "emtpyLeaf (w_tree ?w2) = emtpyLeaf (w_tree w)" "w_rng ?w2 = w_rng w"
    using vw(1,2,5,6) ctx d by (simp_all add: maxLeaves_def)
  have t2: "treeOf P d (nodeView P simLookup ?w2) lf"
    using t new(2) vw(7) by simp
  have "case pickOps rand (maxLeaves (w_tree w)) (emtpyLeaf (w_tree w)) ops lf (w_rng w) of
      Some is \<Rightarrow> runs (simulateOps P simOps rand ops) ?w2 (\<lambda>prs w'. map bprIndex prs = is)
    | None \<Rightarrow> (\<exists>e w'. simulateOps P simOps rand ops ?w2 = (Inl e, w'))"
    using simtree.simulateOps_pick [OF new(1) eq(1,2) t2 v] unfolding eq(3-5) .
  then show ?thesis
    using w1(1)
    by (cases "pickOps rand (maxLeaves (w_tree w)) (emtpyLeaf (w_tree w)) ops lf (w_rng w)")
       (auto simp: SimulateBatchOperations_def runs_def bindG_def wrapG_def)
qed

end

end
