(* ===== verification/U256_Bytes.thy ===== *)
theory U256_Bytes
  imports Storage_Keys
begin

text \<open>
  The \<open>uint256\<close> conversions exist: big-endian bytes without leading zeros, 32 bytes, and decimal
  digits satisfy the contract \<open>u256_codec\<close>.  The properties quantify over every instance of the
  contract; this one makes them runnable.
\<close>

section \<open>Numerals to a base\<close>

fun digits :: "nat \<Rightarrow> nat \<Rightarrow> nat \<Rightarrow> nat list" where
  "digits b 0 n = []"
| "digits b (Suc k) n = digits b k (n div b) @ [n mod b]"

definition horner :: "nat \<Rightarrow> nat list \<Rightarrow> nat" where
  "horner b ds = foldl (\<lambda>a d. a * b + d) 0 ds"

lemma horner_simps [simp]: "horner b [] = 0" "horner b (ds @ [d]) = horner b ds * b + d"
  by (simp_all add: horner_def)

lemma length_digits [simp]: "length (digits b k n) = k"
  by (induction k arbitrary: n) auto

lemma horner_digits: "n < b ^ k \<Longrightarrow> horner b (digits b k n) = n"
proof (induction k arbitrary: n)
  case 0
  then show ?case by simp
next
  case (Suc k)
  then have "n div b < b ^ k"
    by (simp add: less_mult_imp_div_less mult.commute)
  then show ?case using Suc.IH by simp
qed

lemma digits_bound: "0 < b \<Longrightarrow> d \<in> set (digits b k n) \<Longrightarrow> d < b"
  by (induction k arbitrary: n) auto

lemma horner_dropWhile: "horner b (dropWhile (\<lambda>d. d = 0) ds) = horner b ds"
  by (induction ds) (simp_all add: horner_def)

section \<open>The conversions\<close>

definition beBytes32 :: "u256 \<Rightarrow> bytes" where
  "beBytes32 x = map word_of_nat (digits 256 32 (unat x))"

definition beSetBytes :: "bytes \<Rightarrow> u256" where
  "beSetBytes bs = word_of_nat (horner 256 (map unat bs))"

definition beBytes :: "u256 \<Rightarrow> bytes" where
  "beBytes x = dropWhile (\<lambda>b. b = 0) (beBytes32 x)"

definition decString :: "u256 \<Rightarrow> string" where
  "decString x = (case map (\<lambda>d. char_of (d + 48)) (dropWhile (\<lambda>d. d = 0) (digits 10 78 (unat x))) of
     [] \<Rightarrow> ''0'' | s \<Rightarrow> s)"

definition decFromString :: "string \<Rightarrow> goerr + u256" where
  "decFromString s =
     (if s = [] then Inl (ErrNew ''EOF'')
      else if \<not> list_all (\<lambda>c. 48 \<le> (of_char c :: nat) \<and> (of_char c :: nat) \<le> 57) s
      then Inl (ErrNew ''invalid syntax'')
      else let n = horner 10 (map (\<lambda>c. of_char c - 48) s)
           in if n < 2 ^ 256 then Inr (word_of_nat n) else Inl (ErrNew ''number overflow''))"

definition uint256 :: u256_ops where
  "uint256 = \<lparr>uBytes = beBytes, uSetBytes = beSetBytes, uBytes32 = beBytes32,
     uFromDecimal = decFromString, uString = decString\<rparr>"

lemma unat_bound256: "unat (x :: u256) < 2 ^ 256"
  using unsigned_less [of x, where ?'a = nat] by simp

lemma length_beBytes32: "length (beBytes32 x) = 32"
  by (simp add: beBytes32_def)

lemma map_unat_beBytes32: "map unat (beBytes32 x) = digits 256 32 (unat x)"
  using digits_bound [of 256 _ 32 "unat x"]
  by (auto simp: beBytes32_def unat_of_nat comp_def intro!: map_idI)

lemma beSetBytes_beBytes32: "beSetBytes (beBytes32 x) = x"
proof -
  have "unat x < 256 ^ 32" using unat_bound256 [of x] by simp
  then show ?thesis by (simp only: beSetBytes_def map_unat_beBytes32 horner_digits) simp
qed

lemma beSetBytes_dropWhile: "beSetBytes (dropWhile (\<lambda>b. b = 0) bs) = beSetBytes bs"
  by (induction bs) (simp_all add: beSetBytes_def horner_def)

lemma beSetBytes_beBytes: "beSetBytes (beBytes x) = x"
  by (simp add: beBytes_def beSetBytes_dropWhile beSetBytes_beBytes32)

lemma beBytes_zero: "beBytes x = [] \<longleftrightarrow> x = 0"
proof
  assume "beBytes x = []"
  then show "x = 0" using beSetBytes_beBytes [of x] by (simp add: beSetBytes_def)
next
  have z: "digits 256 k 0 = replicate k 0" for k
    by (induction k) (simp_all add: replicate_append_same)
  assume "x = 0"
  then show "beBytes x = []" by (simp add: beBytes_def beBytes32_def z)
qed

lemma decFromString_decString: "decFromString (decString x) = Inr x"
proof -
  let ?ds = "dropWhile (\<lambda>d. d = 0) (digits 10 78 (unat x))"
  have b: "unat x < 10 ^ 78" using unat_bound256 [of x] by simp
  then have h: "horner 10 ?ds = unat x" by (simp only: horner_dropWhile horner_digits)
  have d: "d < 10" if "d \<in> set ?ds" for d
    using that digits_bound [of 10 d 78 "unat x"] set_dropWhileD by fastforce
  show ?thesis
  proof (cases "?ds = []")
    case True
    with h have "unat x = 0" by (simp add: horner_def)
    then have "x = 0" by (simp add: unsigned_eq_0_iff)
    moreover have "decString x = ''0''" by (simp only: decString_def True list.map list.case)
    ultimately show ?thesis by (simp add: decFromString_def horner_def)
  next
    case False
    let ?s = "map (\<lambda>d. char_of (d + 48) :: char) ?ds"
    have s: "decString x = ?s"
      using False by (auto simp: decString_def split: list.splits)
    have oc: "(of_char (char_of (d + 48) :: char) :: nat) = d + 48" if "d \<in> set ?ds" for d
      using d [OF that] by (simp add: of_char_of)
    have "map (\<lambda>c. of_char c - 48) ?s = ?ds"
      using oc by (auto simp: comp_def intro!: map_idI)
    moreover have "list_all (\<lambda>c. 48 \<le> (of_char c :: nat) \<and> (of_char c :: nat) \<le> 57) ?s"
      using oc d by (force simp: list_all_iff)
    ultimately show ?thesis
      using False h unat_bound256 [of x] unfolding s decFromString_def by (simp add: Let_def)
  qed
qed

interpretation uint256: u256_codec uint256
  by unfold_locales
     (simp_all add: uint256_def beSetBytes_beBytes beBytes_zero beSetBytes_beBytes32
       decFromString_decString length_beBytes32)

end
