(* ===== verification/Instances.thy ===== *)
theory Instances
  imports Simulation_Total Registry_Correct U256_Bytes
begin

text \<open>
  Concrete parameters.  The database is the in-memory database, 256-bit integers are big-endian byte
  strings and decimal strings, and the hash is a stand-in over the scalar field of BN254 that, like
  Poseidon, maps two field elements to a field element.  With them every contract of the Go side is
  interpreted, and the theorems can be applied to concrete states.
\<close>

section \<open>A stand-in hash\<close>

definition scalarField :: nat where
  "scalarField = 21888242871839275222246405745257275088548364400416034343698204186575808495617"

definition mixHash :: poseidon where
  "mixHash xs = (case xs of
       [x, y] \<Rightarrow> Inr (1 + (x + 2 * y) mod (scalarField - 1))
     | _ \<Rightarrow> Inl (ErrNew ''invalid inputs length''))"

interpretation standIn: poseidon_field mixHash scalarField
proof unfold_locales
  show "scalarField \<le> 2 ^ 256"
    by (simp add: scalarField_def)
  fix x y
  have "(x + 2 * y) mod (scalarField - 1) < scalarField - 1"
    by (intro mod_less_divisor) (simp add: scalarField_def)
  then show "\<exists>h. mixHash [x, y] = Inr h \<and> h < scalarField"
    by (simp add: mixHash_def)
qed

text \<open>The stand-in hash is never 0, so the condition on zero nodes concerns the leaves only.\<close>

lemma hashOf_mixHash_nonzero:
  assumes "unat x < scalarField" "unat y < scalarField"
  shows "hashOf mixHash x y \<noteq> 0"
proof -
  define h where "h = 1 + (unat x + 2 * unat y) mod (scalarField - 1)"
  have h: "h < 2 ^ 256"
    using mod_less_divisor [of "scalarField - 1" "unat x + 2 * unat y"] by (simp add: h_def scalarField_def)
  have "mixHash [unat x, unat y] = Inr h"
    by (simp add: mixHash_def h_def)
  with h have "hashOf mixHash x y = word_of_nat h"
    by (simp add: hashOf_def calculateHash_def)
  then have "unat (hashOf mixHash x y) = h"
    using h by (simp add: unat_of_nat take_bit_nat_eq_self)
  then show ?thesis by (auto simp: h_def)
qed

lemma mixHash_nonzeroTree:
  assumes "\<And>j. unat (lf j) < scalarField" "\<And>j. lf j \<noteq> 0"
  shows "nonzeroTree mixHash e d lf"
proof -
  have f: "unat (node (hashOf mixHash) lf l i) < scalarField" for l i
    by (induction l arbitrary: i) (simp_all add: assms(1) standIn.calculateHash_ok(2))
  have "node (hashOf mixHash) lf l i \<noteq> 0" for l i
    by (cases l) (simp_all add: assms(2) hashOf_mixHash_nonzero f)
  then show ?thesis by (simp add: nonzeroTree_def)
qed

interpretation memStore: leaf_store memdb "\<lambda>d. d" memPending memIsOpen uint256
  by unfold_locales

interpretation memRegistry: registry_env mixHash scalarField memdb "\<lambda>d. d" memPending memIsOpen uint256
  by unfold_locales

interpretation simTree: tree_env mixHash scalarField simOps simLookup simValid
  by unfold_locales

lemma instance_contracts:
  "poseidon_field mixHash scalarField"
  "tree_env mixHash scalarField simOps simLookup simValid"
  "leaf_store memdb (\<lambda>d. d) memPending memIsOpen uint256"
  "registry_env mixHash scalarField memdb (\<lambda>d. d) memPending memIsOpen uint256"
  by unfold_locales

section \<open>A small empty tree\<close>

definition emptyGetter :: leaf_getter where
  "emptyGetter l i = Inl ErrNotFound"

definition smallTree :: sparse_tree where
  "smallTree = \<lparr>emtpyLeaf = 5, depth = 3, emptyBranchLevels = None, storageLeafGetter = emptyGetter\<rparr>"

lemma smallTree_ok:
  "wfTree mixHash scalarField smallTree" "treeOf P d (storageView P smallTree) (\<lambda>_. 5)"
  "unat (depth smallTree) = 3" "emtpyLeaf smallTree = 5" "depth smallTree = 3"
  using empty_treeOf [of smallTree P d]
  by (auto intro!: empty_wfTree simp: smallTree_def emptyGetter_def scalarField_def)

text \<open>A counter as the source of random numbers.\<close>

definition counter :: "nat \<Rightarrow> u64 \<times> nat" where
  "counter g = (of_nat g, Suc g)"

definition smallWorld :: "(simulation_batch, nat) world" where
  "smallWorld = \<lparr>w_tree = smallTree, w_batch = NewSimulationBatch emptyGetter, w_ctx = None, w_rng = 0\<rparr>"

lemma smallWorld_ok:
  "wfWorld mixHash scalarField simLookup simValid smallWorld"
  "treeOf P d (nodeView P simLookup smallWorld) (\<lambda>_. 5)"
  "w_tree smallWorld = smallTree" "w_ctx smallWorld = None"
  using smallTree_ok(1) smallTree_ok(2) [of P d]
  by (auto simp: smallWorld_def wfWorld_def simValid_def simLookup_def NewSimulationBatch_def
      nodeView_def treeOf_def emptyGetter_def)

end
