(* ===== verification/Tree_Theorems.thy ===== *)
theory Tree_Theorems
  imports Instances
begin

text \<open>
  The theorems on the sparse Merkle tree, each with an application to a concrete tree of depth 3 over
  an empty storage.
\<close>

section \<open>Insertion\<close>

text \<open>Inserting the leaves one by one.\<close>

fun insertEach :: "poseidon \<Rightarrow> 'b batch_ops \<Rightarrow> tree_leaf list \<Rightarrow> (('b, 'g) world, unit) go" where
  "insertEach P B [] = retG ()"
| "insertEach P B (x # xs) = bindG (InsertLeaf P B (leafIndex x) (leafValue x)) (\<lambda>_. insertEach P B xs)"

definition someLeaves :: "tree_leaf list" where
  "someLeaves = [\<lparr>leafIndex = 2, leafValue = 7\<rparr>, \<lparr>leafIndex = 3, leafValue = 8\<rparr>, \<lparr>leafIndex = 2, leafValue = 9\<rparr>]"

lemma someLeaves_ok: "\<forall>x\<in>set someLeaves. unat (leafIndex x) < 2 ^ 3 \<and> unat (leafValue x) < scalarField"
  by (simp add: someLeaves_def scalarField_def)

lemma insertEach_ok:
  assumes env: "tree_env P p B lookup valid"
    and "wfWorld P p lookup valid w" "unat (depth (w_tree w)) = d"
    and "\<forall>x\<in>set leaves. unat (leafIndex x) < 2 ^ d \<and> unat (leafValue x) < p"
    and "treeOf P d (nodeView P lookup w) lf"
  shows "runs (insertEach P B leaves) w
    (\<lambda>_ w'. wfWorld P p lookup valid w' \<and> frame w w' \<and>
       treeOf P d (nodeView P lookup w') (updLeaves lf leaves))"
  using assms(2-)
proof (induction leaves arbitrary: w lf)
  case Nil
  then show ?case by (simp add: runs_retG)
next
  case (Cons x xs)
  have "runs (InsertLeaf P B (leafIndex x) (leafValue x)) w
    (\<lambda>_ w'. wfWorld P p lookup valid w' \<and> frame w w' \<and>
       treeOf P d (nodeView P lookup w') (lf(unat (leafIndex x) := leafValue x)))"
    using Cons.prems by (intro tree_env.InsertLeaf_ok [OF env]) auto
  then show ?case
    unfolding insertEach.simps updLeaves_simps
  proof (rule runs_bindG [OF runs_mono], elim conjE)
    fix u w'
    assume "wfWorld P p lookup valid w'" and fr: "frame w w'"
      and "treeOf P d (nodeView P lookup w') (lf(unat (leafIndex x) := leafValue x))"
    then have "runs (insertEach P B xs) w' (\<lambda>_ w''. wfWorld P p lookup valid w'' \<and> frame w' w'' \<and>
        treeOf P d (nodeView P lookup w'') (updLeaves (lf(unat (leafIndex x) := leafValue x)) xs))"
      using Cons.prems by (intro Cons.IH) (auto simp: frame_def simp del: fun_upd_apply)
    then show "runs (insertEach P B xs) w' (\<lambda>_ w''. wfWorld P p lookup valid w'' \<and> frame w w'' \<and>
        treeOf P d (nodeView P lookup w'') (updLeaves (lf(unat (leafIndex x) := leafValue x)) xs))"
      by (rule runs_mono) (auto intro: frame_trans [OF fr])
  qed
qed

text \<open>
  C1.  \<open>InsertLeaves\<close> succeeds for every list of leaves inside the tree and leaves a tree in which
  every node on every level, read through the batch, is the hash of the reference tree over the
  updated leaves.  Later leaves of the list win over earlier ones at the same index, and the tree
  structure, the context and the storage are unchanged.
\<close>

theorem InsertLeaves_computes_tree:
  assumes "tree_env P p B lookup valid"
    and "wfWorld P p lookup valid w" and "unat (depth (w_tree w)) = d"
    and "\<forall>x\<in>set leaves. unat (leafIndex x) < 2 ^ d \<and> unat (leafValue x) < p"
    and "treeOf P d (nodeView P lookup w) lf"
  shows "runs (InsertLeaves P B leaves) w
    (\<lambda>_ w'. wfWorld P p lookup valid w' \<and> frame w w' \<and>
       treeOf P d (nodeView P lookup w') (updLeaves lf leaves))"
  by (rule tree_env.InsertLeaves_ok [OF assms])

theorem InsertLeaves_computes_tree_witness:
  "runs (InsertLeaves mixHash simOps someLeaves) smallWorld
    (\<lambda>_ w'. wfWorld mixHash scalarField simLookup simValid w' \<and> frame smallWorld w' \<and>
       treeOf mixHash 3 (nodeView mixHash simLookup w') (updLeaves (\<lambda>_. 5) someLeaves))"
  using InsertLeaves_computes_tree [OF instance_contracts(2) smallWorld_ok(1), of 3]
    smallWorld_ok smallTree_ok someLeaves_ok by simp

text \<open>
  C20.  Inserting a list of leaves level by level gives the same nodes as inserting the leaves one by
  one with \<open>InsertLeaf\<close>, in the same order.  Both succeed.
\<close>

theorem InsertLeaves_equals_InsertLeaf:
  assumes "tree_env P p B lookup valid"
    and "wfWorld P p lookup valid w" and "unat (depth (w_tree w)) = d"
    and "\<forall>x\<in>set leaves. unat (leafIndex x) < 2 ^ d \<and> unat (leafValue x) < p"
    and "treeOf P d (nodeView P lookup w) lf"
  shows "\<exists>w1 w2. InsertLeaves P B leaves w = (Inr (), w1) \<and> insertEach P B leaves w = (Inr (), w2) \<and>
    (\<forall>l i. unat l \<le> d \<longrightarrow> unat i < 2 ^ (d - unat l) \<longrightarrow> nodeView P lookup w1 l i = nodeView P lookup w2 l i)"
  using tree_env.InsertLeaves_ok [OF assms] insertEach_ok [OF assms]
  by (fastforce simp: runs_def treeOf_def)

theorem InsertLeaves_equals_InsertLeaf_witness:
  "\<exists>w1 w2. InsertLeaves mixHash simOps someLeaves smallWorld = (Inr (), w1) \<and>
    insertEach mixHash simOps someLeaves smallWorld = (Inr (), w2) \<and>
    (\<forall>l i. unat l \<le> 3 \<longrightarrow> unat i < 2 ^ (3 - unat l) \<longrightarrow>
       nodeView mixHash simLookup w1 l i = nodeView mixHash simLookup w2 l i)"
  by (rule InsertLeaves_equals_InsertLeaf [OF instance_contracts(2) smallWorld_ok(1)])
     (use smallWorld_ok smallTree_ok someLeaves_ok in auto)

text \<open>
  C29.  From the second level on the slice that is read and the slice that is appended to share one
  array.  No append overwrites an element that is still to be read: the loop over the shared array
  computes what the loop over separate slices computes.
\<close>

theorem insertLevelShared_aliasing:
  "(insertLevelShared P B level 0 0 leaves {} :: (('b, 'g) world, tree_leaf list) go) =
    insertLevel P B level leaves [] {}"
  by (simp add: insertLevelShared_eq)

section \<open>Proofs\<close>

text \<open>
  C8.  \<open>CreateProof\<close> succeeds for every index of the tree while the context lives for one poll per
  level.  The proof holds the leaf at that index and one sibling per level, and recomputing the root
  from them gives the root of the tree.
\<close>

theorem CreateProof_verifies:
  assumes "poseidon_field P p" and "wfTree P p (w_tree w)" and "unat (depth (w_tree w)) = d"
    and "unat index < 2 ^ d" and "ctxAlive d (w_ctx w)" and "treeOf P d (storageView P (w_tree w)) lf"
  shows "runs (CreateProof P index) w
    (\<lambda>pr w'. Leaf pr = lf (unat index) \<and> Index pr = index \<and> length (Path pr) = d \<and>
       Root pr = node (hashOf P) lf d 0 \<and>
       computeRoot (hashOf P) (Leaf pr) (Path pr) (unat (Index pr)) = Root pr)"
  using poseidon_field.CreateProof_ok [OF assms] assms(4) computeRoot_pathFrom [of "hashOf P" lf 0 "unat index" d]
  by (auto elim: runs_mono)

theorem CreateProof_verifies_witness:
  "runs (CreateProof mixHash 6) smallWorld
    (\<lambda>pr w'. Leaf pr = 5 \<and> Index pr = 6 \<and> length (Path pr) = 3 \<and>
       Root pr = node (hashOf mixHash) (\<lambda>_. 5) 3 0 \<and>
       computeRoot (hashOf mixHash) (Leaf pr) (Path pr) (unat (Index pr)) = Root pr)"
  using CreateProof_verifies [OF instance_contracts(1), of smallWorld 3 6 "\<lambda>_. 5"]
    smallWorld_ok smallTree_ok by (simp add: ctxAlive_def)

text \<open>
  C21.  A proof binds its leaf and its path: any other leaf and path of field elements that recompute
  to the root of a created proof at the same index name a collision of the hash.  On some level the
  pair of nodes hashed for the other opening differs from the pair hashed for the created proof, which
  is the two children of a node of the stored tree, and \<open>calculateHash\<close> returns that node for both.
\<close>

theorem CreateProof_binding:
  assumes env: "poseidon_field P p" and wf: "wfTree P p (w_tree w)" and d: "unat (depth (w_tree w)) = d"
    and i: "unat index < 2 ^ d" and c: "ctxAlive d (w_ctx w)" and t: "treeOf P d (storageView P (w_tree w)) lf"
    and pr: "CreateProof P index w = (Inr pr, w')"
    and other: "computeRoot (hashOf P) leaf path (unat index) = Root pr" "length path = d"
      "(leaf, path) \<noteq> (Leaf pr, Path pr)"
    and field: "unat leaf < p" "list_all (\<lambda>x. unat x < p) path"
  shows "\<exists>k<d. \<exists>a b a' b'. hashInputs (hashOf P) leaf path (unat index) ! k = (a, b) \<and>
    hashInputs (hashOf P) (Leaf pr) (Path pr) (unat index) ! k = (a', b') \<and> (a, b) \<noteq> (a', b') \<and>
    a' = node (hashOf P) lf k (2 * (unat index div 2 ^ Suc k)) \<and>
    b' = node (hashOf P) lf k (2 * (unat index div 2 ^ Suc k) + 1) \<and>
    calculateHash P a' b' = Inr (node (hashOf P) lf (Suc k) (unat index div 2 ^ Suc k)) \<and>
    calculateHash P a b = Inr (node (hashOf P) lf (Suc k) (unat index div 2 ^ Suc k))"
proof -
  let ?H = "hashOf P" and ?i = "unat index"
  have p: "Leaf pr = lf ?i" "Path pr = pathFrom ?H lf d 0 ?i" "Root pr = node ?H lf d 0"
    using poseidon_field.CreateProof_ok [OF env wf d i c t] pr by (auto simp: runs_def)
  have "computeRoot ?H leaf path ?i = computeRoot ?H (Leaf pr) (Path pr) ?i"
    using other(1) p i computeRoot_pathFrom [of ?H lf 0 ?i d] by simp
  then obtain k where k: "k < d" "hashInputs ?H leaf path ?i ! k \<noteq> hashInputs ?H (Leaf pr) (Path pr) ?i ! k"
      "case_prod ?H (hashInputs ?H leaf path ?i ! k) = case_prod ?H (hashInputs ?H (Leaf pr) (Path pr) ?i ! k)"
    using computeRoot_collision [of ?H leaf path ?i "Leaf pr" "Path pr"] other p by auto
  have own: "hashInputs ?H (Leaf pr) (Path pr) ?i ! k =
      (node ?H lf k (2 * (?i div 2 ^ Suc k)), node ?H lf k (2 * (?i div 2 ^ Suc k) + 1))" (is "_ = (?a', ?b')")
    using hashInputs_pathFrom [OF k(1), of ?H lf 0 ?i] p by simp
  obtain a b where ab: "hashInputs ?H leaf path ?i ! k = (a, b)" by fastforce
  note closed = hashInputs_closed [where F = "\<lambda>x. unat x < p" and H = ?H, OF poseidon_field.calculateHash_ok(2) [OF env]]
  have "unat (Leaf pr) < p" "list_all (\<lambda>x. unat x < p) (Path pr)"
    using poseidon_field.node_in_field [OF env wf d t, of 0 ?i] i
      poseidon_field.pathFrom_in_field [OF env wf d t, of 0 d ?i] by (simp_all add: p)
  then have "unat a < p \<and> unat b < p" "unat ?a' < p \<and> unat ?b' < p"
    using closed [OF _ _ field _ ab] closed [OF _ _ _ _ _ own] k(1) other(2) p(2) by simp_all
  then have "calculateHash P a b = Inr (?H a b)" "calculateHash P ?a' ?b' = Inr (?H ?a' ?b')"
    using poseidon_field.calculateHash_ok(1) [OF env] by blast+
  moreover have "?H a b = ?H ?a' ?b'" using k(3) ab own by simp
  ultimately show ?thesis using k(1,2) ab own by (intro exI [of _ k] exI [of _ a] exI [of _ b] exI [of _ ?a'] exI [of _ ?b']) simp
qed

text \<open>The stand-in hash has collisions, so another leaf verifies against the root of the small tree.\<close>

lemma mixHash_collision: "hashOf mixHash 7 4 = hashOf mixHash 5 5"
  by (simp add: hashOf_def calculateHash_def mixHash_def scalarField_def)

lemma small_proof:
  obtains pr w' where "CreateProof mixHash 6 smallWorld = (Inr pr, w')" "Leaf pr = 5"
    "Path pr = pathFrom (hashOf mixHash) (\<lambda>_. 5) 3 0 6" "Root pr = node (hashOf mixHash) (\<lambda>_. 5) 3 0"
  using poseidon_field.CreateProof_ok [OF instance_contracts(1), of smallWorld 3 6 "\<lambda>_. 5"]
    smallWorld_ok smallTree_ok by (auto simp: ctxAlive_def elim!: runsE)

theorem CreateProof_binding_witness:
  "\<exists>pr w'. CreateProof mixHash 6 smallWorld = (Inr pr, w') \<and> (7, 4 # tl (Path pr)) \<noteq> (Leaf pr, Path pr) \<and>
    computeRoot (hashOf mixHash) 7 (4 # tl (Path pr)) (unat (6::u32)) = Root pr \<and>
    (\<exists>k<3. \<exists>a b a' b'. hashInputs (hashOf mixHash) 7 (4 # tl (Path pr)) (unat (6::u32)) ! k = (a, b) \<and>
       hashInputs (hashOf mixHash) (Leaf pr) (Path pr) (unat (6::u32)) ! k = (a', b') \<and> (a, b) \<noteq> (a', b') \<and>
       a' = node (hashOf mixHash) (\<lambda>_. 5) k (2 * (unat (6::u32) div 2 ^ Suc k)) \<and>
       b' = node (hashOf mixHash) (\<lambda>_. 5) k (2 * (unat (6::u32) div 2 ^ Suc k) + 1) \<and>
       calculateHash mixHash a' b' =
         Inr (node (hashOf mixHash) (\<lambda>_. 5) (Suc k) (unat (6::u32) div 2 ^ Suc k)) \<and>
       calculateHash mixHash a b =
         Inr (node (hashOf mixHash) (\<lambda>_. 5) (Suc k) (unat (6::u32) div 2 ^ Suc k)))"
proof -
  obtain pr w' where pr: "CreateProof mixHash 6 smallWorld = (Inr pr, w')" "Leaf pr = 5"
      "Path pr = pathFrom (hashOf mixHash) (\<lambda>_. 5) 3 0 6" "Root pr = node (hashOf mixHash) (\<lambda>_. 5) 3 0"
    by (rule small_proof)
  have root: "computeRoot (hashOf mixHash) 7 (4 # tl (Path pr)) (unat (6::u32)) = Root pr"
    using computeRoot_pathFrom [of "hashOf mixHash" "\<lambda>_. 5" 0 6 3] mixHash_collision pr
    by (simp add: numeral_3_eq_3)
  have "list_all (\<lambda>x. unat x < scalarField) (4 # tl (Path pr))"
    using poseidon_field.pathFrom_in_field [OF instance_contracts(1) smallTree_ok(1,3,2), of 0 3 6] pr(3)
    by (simp add: numeral_3_eq_3 scalarField_def)
  moreover have "(7, 4 # tl (Path pr)) \<noteq> (Leaf pr, Path pr)" "length (4 # tl (Path pr)) = 3"
    using pr by simp_all
  ultimately show ?thesis
    using pr(1) root smallWorld_ok smallTree_ok
    by (intro exI [of _ pr] exI [of _ w'] conjI
        CreateProof_binding [OF instance_contracts(1), of smallWorld 3 6 "\<lambda>_. 5" pr w' 7 "4 # tl (Path pr)"])
       (simp_all add: ctxAlive_def scalarField_def)
qed

text \<open>
  C34.  A context that is cancelled after fewer polls than the tree has levels makes \<open>CreateProof\<close>
  return the error of the context.
\<close>

theorem CreateProof_cancelled_context:
  assumes "poseidon_field P p" and "wfTree P p (w_tree w)" and "unat (depth (w_tree w)) = d"
    and "unat index < 2 ^ d" and "w_ctx w = Some k" and "k < d"
    and "treeOf P d (storageView P (w_tree w)) lf"
  shows "fst (CreateProof P index w) = Inl ErrCanceled"
  by (rule poseidon_field.CreateProof_canceled [OF assms])

theorem CreateProof_cancelled_context_witness:
  "fst (CreateProof mixHash 6 (smallWorld\<lparr>w_ctx := Some 2\<rparr>)) = Inl ErrCanceled"
  by (rule CreateProof_cancelled_context [OF instance_contracts(1), where d = 3 and k = 2 and lf = "\<lambda>_. 5"])
     (use smallWorld_ok smallTree_ok in auto)

section \<open>Empty branches\<close>

text \<open>
  C33.  The hashes of the empty branches for every depth a byte can hold: depth 0 is refused, depth 255
  makes the length \<open>depth + 1\<close> wrap around to 0 and panics, and every other depth gives the hash of the
  empty subtree of each level from the leaf to the root.
\<close>

theorem calculateEmptyBranchHashes_branches:
  assumes "poseidon_field P p" and "unat (emtpyLeaf t) < p"
  shows "calculateEmptyBranchHashes P t =
    (if depth t = 0 then Inl (ErrNew ''invalid tree depth'')
     else if depth t = 255 then Inl (Panic ''index out of range'')
     else Inr (map (\<lambda>l. node (hashOf P) (\<lambda>_. emtpyLeaf t) l 0) [0..<Suc (unat (depth t))]))"
proof -
  have n: "unat (depth t + 1) = (if depth t = 255 then 0 else Suc (unat (depth t)))"
    using unsigned_less [of "depth t", where ?'a = nat]
    by (auto simp: unat_word_ariths word_unat_eq_iff mod_eq_self_iff_div_eq_0)
  have z: "depth t < 1 \<longleftrightarrow> depth t = 0"
    by (simp add: word_less_nat_alt unat_eq_zero)
  show ?thesis
    using poseidon_field.emptyBranchLoop_ok [OF assms, of 1 "unat (depth t)"] n z
    by (auto simp: calculateEmptyBranchHashes_def node_empty Let_def simp del: upt_Suc)
qed

theorem calculateEmptyBranchHashes_branches_witness:
  "calculateEmptyBranchHashes mixHash (smallTree\<lparr>depth := 255\<rparr>) = Inl (Panic ''index out of range'')"
  using calculateEmptyBranchHashes_branches [OF instance_contracts(1), of "smallTree\<lparr>depth := 255\<rparr>"]
  by (simp add: smallTree_def scalarField_def)

section \<open>Empty leaves\<close>

text \<open>
  C32.  \<open>GetRandomEmptyLeafIndex\<close> with a context that lives for ten polls: an index it returns is inside
  the tree and its leaf is absent from the storage; when it returns an error, none of its ten draws
  hit an absent leaf.
\<close>

theorem GetRandomEmptyLeafIndex_spec:
  assumes "unat (depth (w_tree w)) \<le> 32" and "ctxAlive maxIterationsEmptyLeafProof (w_ctx w)"
  shows "case GetRandomEmptyLeafIndex rand w of
      (Inr i, w') \<Rightarrow> unat i < 2 ^ unat (depth (w_tree w)) \<and>
        isEmptyLeaf (storageLeafGetter (w_tree w)) i \<and> w_tree w' = w_tree w
    | (Inl e, w') \<Rightarrow> \<forall>j<maxIterationsEmptyLeafProof.
        \<not> isEmptyLeaf (storageLeafGetter (w_tree w)) (draw rand (maxLeaves (w_tree w)) (w_rng w) j)"
  using randomEmptyLoop_ok [of w maxIterationsEmptyLeafProof 0 rand] assms
  by (auto simp: GetRandomEmptyLeafIndex_def split: prod.splits sum.splits)

theorem GetRandomEmptyLeafIndex_spec_witness:
  "\<exists>i w'. GetRandomEmptyLeafIndex counter smallWorld = (Inr i, w') \<and> unat i < 2 ^ 3"
proof -
  have "isEmptyLeaf (storageLeafGetter smallTree) (draw counter (maxLeaves smallTree) (w_rng smallWorld) 0)"
    by (simp add: isEmptyLeaf_def smallTree_def emptyGetter_def)
  moreover have "0 < maxIterationsEmptyLeafProof"
    by (simp add: maxIterationsEmptyLeafProof_def)
  ultimately show ?thesis
    using GetRandomEmptyLeafIndex_spec [of smallWorld counter] smallTree_ok(3) smallWorld_ok(3,4)
    by (auto simp: ctxAlive_def split: prod.splits sum.splits)
qed

section \<open>Batch proofs\<close>

text \<open>
  C6.  When \<open>SimulateBatchOperations\<close> returns, a verifier that starts from the initial root accepts
  every proof in turn: the old leaf of each operation recomputes to the current root, the new leaf to
  the next one.  The initial root is the root of the stored tree, and the last root is the root of
  the tree in which every operation has been applied at the index of its proof.
\<close>

theorem SimulateBatchOperations_root_chain:
  assumes "poseidon_field P p" and "wfTree P p (w_tree w)" and "unat (depth (w_tree w)) = d"
    and "treeOf P d (storageView P (w_tree w)) lf" and "\<forall>op\<in>set ops. unat (leafValue (opLeaf op)) < p"
    and "SimulateBatchOperations P rand ops w = (Inr (root, prs), w')"
  shows "root = node (hashOf P) lf d 0 \<and> length prs = length ops \<and>
    verifyBatch (hashOf P) (emtpyLeaf (w_tree w)) root ops prs =
      Some (node (hashOf P) (simLeaves (emtpyLeaf (w_tree w)) lf ops prs) d 0)"
  using safeD [OF poseidon_field.SimulateBatchOperations_safe [OF assms(1-5)] assms(6)]
  unfolding prod.case by blast

text \<open>
  C19.  With a context that is not cancelled, \<open>SimulateBatchOperations\<close> succeeds exactly when every
  addition finds an empty leaf among its ten draws and every revocation finds its value, in the state
  left by the operations before it; the indexes it returns are those first hits.
\<close>

theorem SimulateBatchOperations_succeeds:
  assumes "poseidon_field P p" and "wfTree P p (w_tree w)" and "w_ctx w = None"
    and "unat (depth (w_tree w)) = d" and "treeOf P d (storageView P (w_tree w)) lf"
    and "\<forall>op\<in>set ops. unat (leafValue (opLeaf op)) < p"
  shows "case pickOps rand (maxLeaves (w_tree w)) (emtpyLeaf (w_tree w)) ops lf (w_rng w) of
      Some is \<Rightarrow> runs (SimulateBatchOperations P rand ops) w (\<lambda>(root, prs) w'. map bprIndex prs = is)
    | None \<Rightarrow> (\<exists>e w'. SimulateBatchOperations P rand ops w = (Inl e, w'))"
  by (rule poseidon_field.SimulateBatchOperations_pick [OF assms])

definition someOps :: "leaf_operation list" where
  "someOps = [\<lparr>opLeaf = \<lparr>leafIndex = 0, leafValue = 7\<rparr>, opOp = OperationAddition\<rparr>,
              \<lparr>opLeaf = \<lparr>leafIndex = 0, leafValue = 9\<rparr>, opOp = OperationAddition\<rparr>,
              \<lparr>opLeaf = \<lparr>leafIndex = 0, leafValue = 7\<rparr>, opOp = OperationRevocation\<rparr>]"

lemma someOps_field: "\<forall>op\<in>set someOps. unat (leafValue (opLeaf op)) < scalarField"
  by (simp add: someOps_def scalarField_def)

lemma maxLeaves_small: "maxLeaves smallTree = 8"
  by (simp add: maxLeaves_def smallTree_def)

lemma someOps_pick: "pickOps counter 8 5 someOps (\<lambda>_. 5) 0 = Some [0, 1, 0]"
  by code_simp

theorem SimulateBatchOperations_succeeds_witness:
  "runs (SimulateBatchOperations mixHash counter someOps) smallWorld
     (\<lambda>(root, prs) w'. map bprIndex prs = [0, 1, 0])"
  using SimulateBatchOperations_succeeds [OF instance_contracts(1), of smallWorld 3 "\<lambda>_. 5" someOps counter]
    smallWorld_ok smallTree_ok someOps_field someOps_pick maxLeaves_small
  by (simp add: smallWorld_def)

text \<open>The simulation of the three operations, for the application of the chain of roots.\<close>

lemma someOps_run:
  obtains root prs w' where "SimulateBatchOperations mixHash counter someOps smallWorld = (Inr (root, prs), w')"
  using poseidon_field.SimulateBatchOperations_pick
      [OF instance_contracts(1), of smallWorld 3 "\<lambda>_. 5" someOps counter]
    smallWorld_ok smallTree_ok someOps_field someOps_pick maxLeaves_small
  by (auto simp: smallWorld_def elim!: runsE)

theorem SimulateBatchOperations_root_chain_witness:
  "\<exists>root prs w'. SimulateBatchOperations mixHash counter someOps smallWorld = (Inr (root, prs), w') \<and>
     root = node (hashOf mixHash) (\<lambda>_. 5) 3 0 \<and> length prs = 3 \<and>
     verifyBatch (hashOf mixHash) 5 root someOps prs =
       Some (node (hashOf mixHash) (simLeaves 5 (\<lambda>_. 5) someOps prs) 3 0)"
proof -
  obtain root prs w' where r: "SimulateBatchOperations mixHash counter someOps smallWorld = (Inr (root, prs), w')"
    by (rule someOps_run)
  show ?thesis
    using SimulateBatchOperations_root_chain [OF instance_contracts(1) _ _ _ someOps_field r, of 3 "\<lambda>_. 5"] r
      smallWorld_ok smallTree_ok by (auto simp: someOps_def)
qed

end
