(* ===== verification/Registry_Theorems.thy ===== *)
theory Registry_Theorems
  imports Tree_Theorems
begin

text \<open>
  The theorems on database keys, stored nodes and one registry, with applications to a registry of
  depth 3 in the in-memory database.
\<close>

section \<open>Keys\<close>

text \<open>Everything the service stores, and the key it stores it under.\<close>

datatype storage_object =
    ONode u8 tree_level leaf_index
  | OLeafIndex u8 u256
  | OMetadata address
  | ORegistryIndex address
  | OCounter
  | OJob job_descriptor

fun objectKey :: "u256_ops \<Rightarrow> storage_object \<Rightarrow> bytes" where
  "objectKey U (ONode r l i) = makeLeafKey r l i"
| "objectKey U (OLeafIndex r v) = makeLeafIndexKey U r v"
| "objectKey U (OMetadata a) = makeZKCertificateRegistryKey a"
| "objectKey U (ORegistryIndex a) = makeRegistryIndexKey a"
| "objectKey U OCounter = makeRegistryIndexCounterKey"
| "objectKey U (OJob j) = makeJobKey j"

fun objectOk :: "storage_object \<Rightarrow> bool" where
  "objectOk (OMetadata a) = addressOk a"
| "objectOk (ORegistryIndex a) = addressOk a"
| "objectOk (OJob j) = addressOk (jdAddress j)"
| "objectOk _ = True"

text \<open>
  C22.  Keys of different objects never collide: nodes, leaf indexes, registry metadata, registry
  indexes, the index counter and jobs have different first bytes, and within one kind the key
  determines the object.  Addresses are 20 bytes long.
\<close>

theorem objectKey_injective:
  assumes "u256_codec U" and "objectOk x" and "objectOk y" and "objectKey U x = objectKey U y"
  shows "x = y"
  using assms u256_codec.Bytes32_inject [OF assms(1)]
  by (cases x; cases y)
     (auto simp: key_simps prefix_defs makeRegistryIndexCounterKey_def addressOk_def intro!: job_descriptor.equality)

theorem objectKey_injective_witness:
  "objectKey uint256 (OMetadata (replicate 20 7)) \<noteq> objectKey uint256 (ORegistryIndex (replicate 20 7))"
proof
  assume "objectKey uint256 (OMetadata (replicate 20 7)) = objectKey uint256 (ORegistryIndex (replicate 20 7))"
  then have "OMetadata (replicate 20 7) = ORegistryIndex (replicate 20 7)"
    by (intro objectKey_injective [OF uint256.u256_codec_axioms]) (simp_all add: addressOk_def AddressLength_def)
  then show False by simp
qed

section \<open>Stored nodes\<close>

text \<open>
  C36.  A node that is set is read back unless its value is 0, which is stored as the empty byte
  string and read as absent; every other node of every registry reads as before.
\<close>

theorem LeafStorage_get_after_set:
  assumes "leaf_store D content pending isOpen U"
  shows "\<exists>d'. LeafStorage_SetLeaf D U r l i v d = (Inr (), d') \<and>
    (\<forall>r' l' i'. LeafStorage_GetLeaf D U d' r' l' i' =
       (if r' = r \<and> l' = l \<and> i' = i then (if v = 0 then Inl ErrNotFound else Inr v)
        else LeafStorage_GetLeaf D U d r' l' i'))"
  by (rule leaf_store.get_after_set [OF assms])

theorem LeafStorage_get_after_set_witness:
  "\<exists>d'. LeafStorage_SetLeaf memdb uint256 1 0 4 0 Map.empty = (Inr (), d') \<and>
     LeafStorage_GetLeaf memdb uint256 d' 1 0 4 = Inl ErrNotFound"
  using LeafStorage_get_after_set [OF instance_contracts(3), of 1 0 4 0 Map.empty] by auto

section \<open>A registry in the in-memory database\<close>

definition smallMetadata :: metadata where
  "smallMetadata = \<lparr>mdAddress = replicate 20 7, mdDepth = 3, mdEmptyValue = 5, mdInitBlockHeight = 0,
     mdDescription = ''small'', mdIndex = 1\<rparr>"

definition smallRegistry :: registry where
  "smallRegistry = NewZKCertificateRegistry smallMetadata smallTree 1 1 0"

lemma smallRegistry_simps [simp]:
  "regMetadata smallRegistry = smallMetadata" "regTree smallRegistry = smallTree"
  "regLeafView smallRegistry = 1" "mdEmptyValue smallMetadata = 5" "mdIndex smallMetadata = 1"
  by (simp_all add: smallRegistry_def NewZKCertificateRegistry_def smallMetadata_def)

lemma smallRegistry_represents:
  "represents mixHash scalarField uint256 smallRegistry Map.empty (\<lambda>_. 5, Map.empty)"
proof -
  let ?t = "kvTree uint256 Map.empty 1 smallTree"
  have g: "storageLeafGetter ?t l i = Inl ErrNotFound" for l i
    by (simp add: kvTree_def kvLeaf_def)
  have "wfTree mixHash scalarField ?t"
    using g by (rule empty_wfTree) (simp_all add: kvTree_def smallTree_def scalarField_def)
  moreover have "treeOf mixHash 3 (storageView mixHash ?t) (\<lambda>_. 5)"
    using empty_treeOf [of ?t, OF g] by (simp add: kvTree_def smallTree_def)
  ultimately show ?thesis
    by (simp add: represents_def smallTree_ok)
qed

definition addTwo :: "leaf_operation list" where
  "addTwo = [\<lparr>opLeaf = \<lparr>leafIndex = 2, leafValue = 7\<rparr>, opOp = OperationAddition\<rparr>,
             \<lparr>opLeaf = \<lparr>leafIndex = 6, leafValue = 9\<rparr>, opOp = OperationAddition\<rparr>,
             \<lparr>opLeaf = \<lparr>leafIndex = 2, leafValue = 7\<rparr>, opOp = OperationRevocation\<rparr>]"

lemma addTwo_abs: "absOps 5 addTwo (\<lambda>_. 5, Map.empty) = ((\<lambda>_. 5)(6 := 9), [9 \<mapsto> 6])"
  by (auto simp: absOps_def absOp_def addTwo_def OperationAddition_def OperationRevocation_def fun_eq_iff)

lemma addTwo_ok:
  "\<forall>op\<in>set addTwo. opOk scalarField 3 op"
  "nonzeroTree mixHash 5 3 (fst (absOps 5 addTwo (\<lambda>_. 5, Map.empty)))"
  unfolding addTwo_abs
  by (simp add: addTwo_def opOk_def scalarField_def) (auto intro!: mixHash_nonzeroTree simp: scalarField_def split: if_splits)

section \<open>Committing operations\<close>

text \<open>
  C2.  Committing a list of additions and revocations and writing the batch implements the abstract
  registry: the database then represents the leaves and the index after the operations in order, and
  every key that belongs to no node and no leaf index of this registry is as the batch found it.
\<close>

theorem CommitOperations_refines:
  assumes "registry_env P p D content pending isOpen U"
    and "represents P p U reg (content d) (lf, ix)"
    and "isOpen b" and "\<forall>k. registryKey U (regLeafView reg) k \<longrightarrow> pending b k = None"
    and "\<forall>op\<in>set ops. opOk p (unat (depth (regTree reg))) op"
    and "nonzeroTree P (mdEmptyValue (regMetadata reg)) (unat (depth (regTree reg)))
      (fst (absOps (mdEmptyValue (regMetadata reg)) ops (lf, ix)))"
  shows "\<exists>reg' b' d' b''. CommitOperations P D U d c ops (reg, b) = (Inr (), (reg', b')) \<and>
    batchWriteSync D (d, b') = (Inr (), (d', b'')) \<and> sameRegistry reg reg' \<and>
    represents P p U reg' (content d') (absOps (mdEmptyValue (regMetadata reg)) ops (lf, ix)) \<and>
    (\<forall>k. \<not> registryKey U (regLeafView reg) k \<longrightarrow> content d' k = applyOverlay (pending b) (content d) k)"
  by (rule registry_env.commit_and_write [OF assms])

theorem CommitOperations_refines_witness:
  "\<exists>reg' b' d' b''. CommitOperations mixHash memdb uint256 Map.empty None addTwo
      (smallRegistry, MemOpen Map.empty) = (Inr (), (reg', b')) \<and>
    batchWriteSync memdb (Map.empty, b') = (Inr (), (d', b'')) \<and>
    represents mixHash scalarField uint256 reg' d' ((\<lambda>_. 5)(6 := 9), [9 \<mapsto> 6])"
  using CommitOperations_refines [OF instance_contracts(4), of smallRegistry Map.empty "\<lambda>_. 5" Map.empty
      "MemOpen Map.empty" addTwo None]
    smallRegistry_represents addTwo_ok addTwo_abs smallTree_ok(3)
  by (auto simp: memIsOpen_def memPending_def)

text \<open>
  C35.  A list that holds an operation of an unknown kind is refused: \<open>CommitOperations\<close> returns the
  error and the registry, with the cache of its tree, is unchanged.
\<close>

theorem CommitOperations_unknown_operation:
  assumes "registry_env P p D content pending isOpen U" and "isOpen b"
    and "\<exists>op\<in>set ops. opOp op \<noteq> OperationAddition \<and> opOp op \<noteq> OperationRevocation"
  shows "\<exists>b'. CommitOperations P D U d c ops (reg, b) = (Inl (ErrNew ''unknown operation''), (reg, b'))"
  by (rule registry_env.CommitOperations_unknown [OF assms])

theorem CommitOperations_unknown_operation_witness:
  "\<exists>b'. CommitOperations mixHash memdb uint256 Map.empty None
      (addTwo @ [\<lparr>opLeaf = \<lparr>leafIndex = 2, leafValue = 7\<rparr>, opOp = 0\<rparr>]) (smallRegistry, MemOpen Map.empty) =
    (Inl (ErrNew ''unknown operation''), (smallRegistry, b'))"
  by (rule CommitOperations_unknown_operation [OF instance_contracts(4)])
     (auto simp: memIsOpen_def OperationAddition_def OperationRevocation_def)

section \<open>Proofs of one registry\<close>

text \<open>
  C7.  After the operations of the contract have been committed and written, the registry proves
  exactly the values that its index holds: a proof holds the value itself at the indexed leaf and
  verifies against the root of the updated tree, and for any other value the error is \<open>ErrNotFound\<close>.
\<close>

theorem commit_then_CreateProof:
  assumes env: "registry_env P p D content pending isOpen U"
    and rep: "represents P p U reg (content d) (lf, ix)"
    and n: "n = unat (depth (regTree reg))" and e: "e = mdEmptyValue (regMetadata reg)"
    and b: "isOpen b" "\<forall>k. registryKey U (regLeafView reg) k \<longrightarrow> pending b k = None"
    and ops: "\<forall>op\<in>set ops. opOk p n op" "opsLegal e n (lf, ix) ops" and ix: "indexConsistent e n (lf, ix)"
    and after: "absOps e ops (lf, ix) = (lf', ix')" and nz: "nonzeroTree P e n lf'" and c: "ctxAlive n c"
  shows "\<exists>reg' b' d' b''. CommitOperations P D U d c0 ops (reg, b) = (Inr (), (reg', b')) \<and>
    batchWriteSync D (d, b') = (Inr (), (d', b'')) \<and>
    (case ix' v of
       Some i \<Rightarrow> runs (Registry_CreateProof P D U d' d' v) (reg', c)
         (\<lambda>pr _. Leaf pr = v \<and> Index pr = i \<and> Root pr = node (hashOf P) lf' n 0 \<and>
            computeRoot (hashOf P) v (Path pr) (unat i) = Root pr)
     | None \<Rightarrow> (\<exists>err. fst (Registry_CreateProof P D U d' d' v (reg', c)) = Inl err \<and>
                 errorsIs err ErrNotFound))"
proof -
  obtain reg' b' d' b'' where run: "CommitOperations P D U d c0 ops (reg, b) = (Inr (), (reg', b'))"
      "batchWriteSync D (d, b') = (Inr (), (d', b''))" and same: "sameRegistry reg reg'"
      and rep': "represents P p U reg' (content d') (lf', ix')"
    using registry_env.commit_and_write [OF env rep b, of ops c0] ops(1) nz after unfolding n e by auto
  have n': "unat (depth (regTree reg')) = n"
    using same n by (simp add: sameRegistry_def)
  show ?thesis
  proof (cases "ix' v")
    case None
    then show ?thesis
      using run registry_env.GetLeafIndex_ok [OF env rep', of v]
      by (auto simp: Registry_CreateProof_def)
  next
    case (Some i)
    have i: "unat i < 2 ^ n" "lf' (unat i) = v"
      using absOps_consistent [OF ix ops(2)] after Some by (auto simp: indexConsistent_def)
    have root: "computeRoot (hashOf P) v (pathFrom (hashOf P) lf' n 0 (unat i)) (unat i) = node (hashOf P) lf' n 0"
      using computeRoot_pathFrom [of "hashOf P" lf' 0 "unat i" n] i by simp
    have "runs (Registry_CreateProof P D U d' d' v) (reg', c)
        (\<lambda>pr (reg'', _). pr = \<lparr>Leaf = lf' (unat i), Path = pathFrom (hashOf P) lf' n 0 (unat i),
           Index = i, Root = node (hashOf P) lf' n 0\<rparr> \<and> represents P p U reg'' (content d') (lf', ix'))"
      using registry_env.Registry_CreateProof_ok [OF env rep' Some rep', of c] i(1) c unfolding n' by (auto simp: runs_def)
    then have "runs (Registry_CreateProof P D U d' d' v) (reg', c)
        (\<lambda>pr _. Leaf pr = v \<and> Index pr = i \<and> Root pr = node (hashOf P) lf' n 0 \<and>
            computeRoot (hashOf P) v (Path pr) (unat i) = Root pr)"
      by (rule runs_mono) (auto simp: i(2) root)
    then show ?thesis
      using run Some by auto
  qed
qed

lemma addTwo_legal: "opsLegal 5 3 (\<lambda>_. 5, Map.empty) addTwo" "indexConsistent 5 3 (\<lambda>_. 5, Map.empty)"
  by (simp_all add: addTwo_def opLegal_def absOp_def OperationAddition_def OperationRevocation_def
      indexConsistent_def)

theorem commit_then_CreateProof_witness:
  "\<exists>reg' b' d' b''. CommitOperations mixHash memdb uint256 Map.empty None addTwo
      (smallRegistry, MemOpen Map.empty) = (Inr (), (reg', b')) \<and>
    batchWriteSync memdb (Map.empty, b') = (Inr (), (d', b'')) \<and>
    runs (Registry_CreateProof mixHash memdb uint256 d' d' 9) (reg', None)
      (\<lambda>pr _. Leaf pr = 9 \<and> Index pr = 6 \<and> Root pr = node (hashOf mixHash) ((\<lambda>_. 5)(6 := 9)) 3 0 \<and>
         computeRoot (hashOf mixHash) 9 (Path pr) (unat (6::u32)) = Root pr)"
proof -
  note use_it = commit_then_CreateProof [OF instance_contracts(4), of smallRegistry Map.empty "\<lambda>_. 5" Map.empty 3 5
      "MemOpen Map.empty" addTwo "(\<lambda>_. 5)(6 := 9)" "[9 \<mapsto> 6]" None None 9]
  have "nonzeroTree mixHash 5 3 ((\<lambda>_. 5)(6 := 9))"
    using addTwo_ok(2) by (simp only: addTwo_abs fst_conv)
  then have "\<exists>reg' b' d' b''. CommitOperations mixHash memdb uint256 Map.empty None addTwo
      (smallRegistry, MemOpen Map.empty) = (Inr (), (reg', b')) \<and>
    batchWriteSync memdb (Map.empty, b') = (Inr (), (d', b'')) \<and>
    (case [9 \<mapsto> 6 :: leaf_index] (9 :: u256) of
       Some i \<Rightarrow> runs (Registry_CreateProof mixHash memdb uint256 d' d' 9) (reg', None)
         (\<lambda>pr _. Leaf pr = 9 \<and> Index pr = i \<and> Root pr = node (hashOf mixHash) ((\<lambda>_. 5)(6 := 9)) 3 0 \<and>
            computeRoot (hashOf mixHash) 9 (Path pr) (unat i) = Root pr)
     | None \<Rightarrow> (\<exists>err. fst (Registry_CreateProof mixHash memdb uint256 d' d' 9 (reg', None)) = Inl err \<and>
                 errorsIs err ErrNotFound))"
    using addTwo_ok(1) addTwo_abs addTwo_legal smallTree_ok(3) smallRegistry_represents
    by (intro use_it) (simp_all add: memIsOpen_def memPending_def ctxAlive_def del: fun_upd_apply)
  then show ?thesis
    unfolding fun_upd_same option.case .
qed

text \<open>
  C30.  The index lookup of \<open>CreateProof\<close> runs before the read lock.  When a commit runs in between,
  the index comes from the database before it and the proof from the database after it: the proof
  verifies against the new root, for the leaf that is now at the looked-up index, whether or not it is
  the requested value.
\<close>

theorem CreateProof_between_commits:
  assumes env: "registry_env P p D content pending isOpen U"
    and rep0: "represents P p U reg (content d0) (lf0, ix0)" and ix: "ix0 v = Some i"
    and rep: "represents P p U reg (content d) (lf, ix)"
    and n: "n = unat (depth (regTree reg))" and i: "unat i < 2 ^ n" and c: "ctxAlive n c"
  shows "runs (Registry_CreateProof P D U d0 d v) (reg, c)
    (\<lambda>pr _. Leaf pr = lf (unat i) \<and> Index pr = i \<and> Root pr = node (hashOf P) lf n 0 \<and>
       computeRoot (hashOf P) (lf (unat i)) (Path pr) (unat i) = Root pr)"
  using i c computeRoot_pathFrom [of "hashOf P" lf 0 "unat i" n] unfolding n
  by (intro runs_mono [OF registry_env.Registry_CreateProof_ok [OF env rep0 ix rep]]) auto

text \<open>
  A registry whose only value 9 is revoked between the two reads: the database before holds the value
  at leaf 6 in the index, the database after has an empty leaf there.
\<close>

lemma smallRegistry_revoked:
  "represents mixHash scalarField uint256 smallRegistry Map.empty (\<lambda>_. 5, Map.empty)"
  "\<exists>d0. represents mixHash scalarField uint256 smallRegistry d0 ((\<lambda>_. 5)(6 := 9), [9 \<mapsto> 6])"
proof -
  obtain reg' b' d' b'' where run: "sameRegistry smallRegistry reg'"
      "represents mixHash scalarField uint256 reg' d' ((\<lambda>_. 5)(6 := 9), [9 \<mapsto> 6])"
    using registry_env.commit_and_write [OF instance_contracts(4), of smallRegistry Map.empty "\<lambda>_. 5" Map.empty
      "MemOpen Map.empty" addTwo None] smallRegistry_represents addTwo_ok addTwo_abs smallTree_ok(3)
    by (auto simp: memIsOpen_def memPending_def)
  have "cacheOk mixHash (kvTree uint256 d' 1 smallTree)"
    by (simp add: cacheOk_def kvTree_def smallTree_def)
  moreover have "regLeafView reg' = 1" "depth (regTree reg') = 3" "emtpyLeaf (regTree reg') = 5"
    using run(1) by (simp_all add: sameRegistry_def smallTree_ok)
  ultimately have "represents mixHash scalarField uint256 smallRegistry d' ((\<lambda>_. 5)(6 := 9), [9 \<mapsto> 6])"
    using run(2)
    by (auto simp: represents_def wfTree_def kvTree_def storageView_def treeOf_def smallTree_ok
        simp del: fun_upd_apply split: sum.splits)
  then show "\<exists>d0. represents mixHash scalarField uint256 smallRegistry d0 ((\<lambda>_. 5)(6 := 9), [9 \<mapsto> 6])"
    by blast
qed (rule smallRegistry_represents)

theorem CreateProof_between_commits_witness:
  "\<exists>d0. represents mixHash scalarField uint256 smallRegistry d0 ((\<lambda>_. 5)(6 := 9), [9 \<mapsto> 6]) \<and>
    runs (Registry_CreateProof mixHash memdb uint256 d0 Map.empty 9) (smallRegistry, None)
    (\<lambda>pr _. Leaf pr = 5 \<and> Index pr = 6 \<and> Root pr = node (hashOf mixHash) (\<lambda>_. 5) 3 0 \<and>
       computeRoot (hashOf mixHash) 5 (Path pr) (unat (6::u32)) = Root pr)"
proof -
  obtain d0 where d0: "represents mixHash scalarField uint256 smallRegistry d0 ((\<lambda>_. 5)(6 := 9), [9 \<mapsto> 6])"
    using smallRegistry_revoked(2) by blast
  have "runs (Registry_CreateProof mixHash memdb uint256 d0 Map.empty 9) (smallRegistry, None)
    (\<lambda>pr _. Leaf pr = 5 \<and> Index pr = 6 \<and> Root pr = node (hashOf mixHash) (\<lambda>_. 5) 3 0 \<and>
       computeRoot (hashOf mixHash) 5 (Path pr) (unat (6::u32)) = Root pr)"
    by (rule CreateProof_between_commits [OF instance_contracts(4), where ?lf0.0 = "(\<lambda>_. 5)(6 := 9)" and
          ?ix0.0 = "[9 \<mapsto> 6]" and lf = "\<lambda>_. 5" and ix = Map.empty])
       (simp_all only: d0 smallRegistry_represents fun_upd_same smallRegistry_simps smallTree_ok, simp_all add: ctxAlive_def)
  with d0 show ?thesis by blast
qed

text \<open>
  C31.  A proof of \<open>GetRandomEmptyLeafProof\<close> on a database that does not change in between: the leaf is
  the empty value, the index is inside the tree, and the proof verifies against the root.  An error
  means that none of the ten draws hit an absent leaf.
\<close>

theorem GetRandomEmptyLeafProof_verifies:
  assumes env: "registry_env P p D content pending isOpen U"
    and rep: "represents P p U reg (content d) (lf, ix)" and n: "n = unat (depth (regTree reg))"
    and c: "ctxAlive (maxIterationsEmptyLeafProof + n) c"
  shows "case GetRandomEmptyLeafProof P D U rand d d (reg, c, g) of
      (Inr pr, _) \<Rightarrow> Leaf pr = mdEmptyValue (regMetadata reg) \<and> lf (unat (Index pr)) = Leaf pr \<and>
        unat (Index pr) < 2 ^ n \<and> Root pr = node (hashOf P) lf n 0 \<and>
        computeRoot (hashOf P) (Leaf pr) (Path pr) (unat (Index pr)) = Root pr
    | (Inl e, _) \<Rightarrow> \<forall>j<maxIterationsEmptyLeafProof.
        \<not> isEmptyLeaf (kvLeaf U (content d) (regLeafView reg)) (draw rand (maxLeaves (regTree reg)) g j)"
proof -
  have root: "computeRoot (hashOf P) x (pathFrom (hashOf P) lf n 0 i) i = node (hashOf P) lf n 0"
    if "lf i = x" "i < 2 ^ n" for i x
    using computeRoot_pathFrom [of "hashOf P" lf 0 i n] that by simp
  show ?thesis
    using registry_env.GetRandomEmptyLeafProof_ok [OF env rep c [unfolded n], of rand g]
    unfolding n [symmetric]
    by (cases "GetRandomEmptyLeafProof P D U rand d d (reg, c, g)") (auto simp: root split: sum.splits)
qed

theorem GetRandomEmptyLeafProof_verifies_witness:
  "\<exists>pr s. GetRandomEmptyLeafProof mixHash memdb uint256 counter Map.empty Map.empty (smallRegistry, None, 0) = (Inr pr, s) \<and>
     Leaf pr = 5 \<and> computeRoot (hashOf mixHash) (Leaf pr) (Path pr) (unat (Index pr)) = Root pr"
proof -
  obtain res st where run: "GetRandomEmptyLeafProof mixHash memdb uint256 counter Map.empty Map.empty
      (smallRegistry, None, 0) = (res, st)"
    by (rule prod.exhaust)
  have hit: "isEmptyLeaf (kvLeaf uint256 Map.empty 1) i" for i
    by (simp add: isEmptyLeaf_def kvLeaf_def)
  have pos: "0 < maxIterationsEmptyLeafProof"
    by (simp add: maxIterationsEmptyLeafProof_def)
  have "case GetRandomEmptyLeafProof mixHash memdb uint256 counter Map.empty Map.empty (smallRegistry, None, 0) of
      (Inr pr, _) \<Rightarrow> Leaf pr = mdEmptyValue (regMetadata smallRegistry) \<and> (5 :: u256) = Leaf pr \<and>
        unat (Index pr) < 2 ^ 3 \<and> Root pr = node (hashOf mixHash) (\<lambda>_. 5) 3 0 \<and>
        computeRoot (hashOf mixHash) (Leaf pr) (Path pr) (unat (Index pr)) = Root pr
    | (Inl e, _) \<Rightarrow> \<forall>j<maxIterationsEmptyLeafProof.
        \<not> isEmptyLeaf (kvLeaf uint256 Map.empty (regLeafView smallRegistry))
            (draw counter (maxLeaves (regTree smallRegistry)) 0 j)"
    by (rule GetRandomEmptyLeafProof_verifies [OF instance_contracts(4), where ix = Map.empty])
       (simp_all only: smallRegistry_represents smallRegistry_simps smallTree_ok, simp_all add: ctxAlive_def)
  then show ?thesis
    unfolding run smallRegistry_simps using hit pos by (cases res; cases st) auto
qed

end
