(* ===== verification/Js_Value.thy ===== *)
theory Js_Value
  imports Complex_Main Prelude
begin

text \<open>
  The JavaScript values the generated TypeScript code computes with: numbers, the values a JSON
  document has, property access, the conversions \<open>String\<close>, \<open>Number\<close> and \<open>Boolean\<close>, and
  \<open>Math.round\<close>.

  A finite number is the rational it denotes, so \<open>-0\<close> is not distinguished from \<open>0\<close> (the code only
  compares with \<open>!==\<close>, which does not either).  A string is a list of characters with codes below
  256.  The decimal text of a number that is not an integer below \<open>10 ^ 21\<close>, the number a text
  denotes that is not a plain decimal integer, and the bytes of a value that is not base64 text are the
  three functions of the argument \<open>J\<close>; every other conversion is written out.
\<close>

section \<open>Numbers\<close>

datatype number = NaN | PosInf | NegInf | Fin rat

definition numInt :: "int \<Rightarrow> number" where
  "numInt i = Fin (of_int i)"

definition mathRound :: "number \<Rightarrow> number" where
  "mathRound x = (case x of Fin q \<Rightarrow> numInt \<lfloor>q + 1 / 2\<rfloor> | _ \<Rightarrow> x)"

definition isInteger :: "number \<Rightarrow> bool" where
  "isInteger x = (case x of Fin q \<Rightarrow> q = of_int \<lfloor>q\<rfloor> | _ \<Rightarrow> False)"

definition numToInt :: "number \<Rightarrow> int" where
  "numToInt x = (case x of Fin q \<Rightarrow> \<lfloor>q\<rfloor> | _ \<Rightarrow> 0)"

text \<open>The integers below \<open>2 ^ 32\<close>, as \<open>assertUInt32\<close> accepts them.\<close>

definition isUInt32 :: "number \<Rightarrow> bool" where
  "isUInt32 x \<longleftrightarrow> isInteger x \<and> 0 \<le> numToInt x \<and> numToInt x < 2 ^ 32"

definition isInt32 :: "number \<Rightarrow> bool" where
  "isInt32 x \<longleftrightarrow> isInteger x \<and> - (2 ^ 31) \<le> numToInt x \<and> numToInt x < 2 ^ 31"

lemma numInt_inject [simp]: "numInt i = numInt j \<longleftrightarrow> i = j"
  by (simp add: numInt_def)

lemma numInt_props [simp]:
  "isInteger (numInt i)" "numToInt (numInt i) = i" "mathRound (numInt i) = numInt i"
proof -
  have "\<lfloor>rat_of_int i + 1 / 2\<rfloor> = i" by linarith
  then show "isInteger (numInt i)" "numToInt (numInt i) = i" "mathRound (numInt i) = numInt i"
    by (simp_all add: isInteger_def numInt_def numToInt_def mathRound_def)
qed

lemma integer_numInt: "isInteger x \<Longrightarrow> x = numInt (numToInt x)"
  by (auto simp: isInteger_def numInt_def numToInt_def split: number.splits)

lemma mathRound_integer: "isInteger x \<Longrightarrow> mathRound x = x"
  by (metis integer_numInt numInt_props(3))

lemma mathRound_idem [simp]: "mathRound (mathRound x) = mathRound x"
proof (cases x)
  case (Fin q)
  then have "mathRound x = numInt \<lfloor>q + 1 / 2\<rfloor>" by (simp add: mathRound_def)
  then show ?thesis by simp
qed (simp_all add: mathRound_def)

section \<open>Values\<close>

datatype jsval =
    JUndefined
  | JNull
  | JBool bool
  | JNum number
  | JStr string
  | JArr "jsval list"
  | JObj "(string \<times> jsval) list"

type_synonym jserr = string

definition isSet :: "jsval \<Rightarrow> bool" where
  "isSet v \<longleftrightarrow> v \<noteq> JNull \<and> v \<noteq> JUndefined"

text \<open>
  \<open>object.key\<close> and \<open>object?.key\<close>.  The keys are field names of messages, which no primitive and no
  array has.
\<close>

definition getProp :: "jsval \<Rightarrow> string \<Rightarrow> jserr + jsval" where
  "getProp v key = (case v of
       JUndefined \<Rightarrow> Inl ''TypeError: cannot read properties of undefined''
     | JNull \<Rightarrow> Inl ''TypeError: cannot read properties of null''
     | JObj kvs \<Rightarrow> Inr (case map_of kvs key of Some x \<Rightarrow> x | None \<Rightarrow> JUndefined)
     | _ \<Rightarrow> Inr JUndefined)"

definition getPropOpt :: "jsval \<Rightarrow> string \<Rightarrow> jsval" where
  "getPropOpt v key = (case getProp v key of Inl _ \<Rightarrow> JUndefined | Inr x \<Rightarrow> x)"

section \<open>Conversions\<close>

record js_text =
  otherToString :: "rat \<Rightarrow> string"
  otherToNumber :: "string \<Rightarrow> number"
  otherFromBase64 :: "jsval \<Rightarrow> jserr + u8 list"

fun decDigits :: "nat \<Rightarrow> nat \<Rightarrow> string" where
  "decDigits 0 n = []"
| "decDigits (Suc k) n = (if n < 10 then [char_of (n + 48)] else decDigits k (n div 10) @ [char_of (n mod 10 + 48)])"

definition numToString :: "js_text \<Rightarrow> number \<Rightarrow> string" where
  "numToString J x = (case x of
       NaN \<Rightarrow> ''NaN'' | PosInf \<Rightarrow> ''Infinity'' | NegInf \<Rightarrow> ''-Infinity''
     | Fin q \<Rightarrow> if isInteger x \<and> \<bar>numToInt x\<bar> < 10 ^ 21
               then (if numToInt x < 0 then ''-'' else '''') @ decDigits 21 (nat \<bar>numToInt x\<bar>)
               else otherToString J q)"

definition isDecimal :: "string \<Rightarrow> bool" where
  "isDecimal s \<longleftrightarrow> s \<noteq> [] \<and> length s \<le> 15 \<and> 
     list_all (\<lambda>c. 48 \<le> (of_char c :: nat) \<and> (of_char c :: nat) \<le> 57) s"

definition stringToNumber :: "js_text \<Rightarrow> string \<Rightarrow> number" where
  "stringToNumber J s =
     (if s = [] then numInt 0
      else if isDecimal s then numInt (foldl (\<lambda>a c. a * 10 + ((of_char c :: int) - 48)) 0 s)
      else otherToNumber J s)"

definition joinComma :: "string list \<Rightarrow> string" where
  "joinComma ss = (case ss of [] \<Rightarrow> [] | s # rest \<Rightarrow> s @ concat (map (\<lambda>x. '','' @ x) rest))"

fun jsString :: "js_text \<Rightarrow> jsval \<Rightarrow> string" where
  "jsString J JUndefined = ''undefined''"
| "jsString J JNull = ''null''"
| "jsString J (JBool b) = (if b then ''true'' else ''false'')"
| "jsString J (JNum x) = numToString J x"
| "jsString J (JStr s) = s"
| "jsString J (JArr vs) = joinComma (map (\<lambda>v. if isSet v then jsString J v else '''') vs)"
| "jsString J (JObj kvs) = ''[object Object]''"

fun jsNumber :: "js_text \<Rightarrow> jsval \<Rightarrow> number" where
  "jsNumber J JUndefined = NaN"
| "jsNumber J JNull = numInt 0"
| "jsNumber J (JBool b) = numInt (if b then 1 else 0)"
| "jsNumber J (JNum x) = x"
| "jsNumber J (JStr s) = stringToNumber J s"
| "jsNumber J (JArr vs) = stringToNumber J (jsString J (JArr vs))"
| "jsNumber J (JObj kvs) = NaN"

fun jsBoolean :: "jsval \<Rightarrow> bool" where
  "jsBoolean JUndefined = False"
| "jsBoolean JNull = False"
| "jsBoolean (JBool b) = b"
| "jsBoolean (JNum x) = (x \<noteq> NaN \<and> x \<noteq> numInt 0)"
| "jsBoolean (JStr s) = (s \<noteq> [])"
| "jsBoolean (JArr vs) = True"
| "jsBoolean (JObj kvs) = True"

section \<open>Reading a field\<close>

text \<open>
  The shapes of a line of \<open>fromJSON\<close>: a scalar with a default (also with a conversion that can throw),
  an optional value, and an array that is mapped; and the traversal of an array with a conversion that can throw.
\<close>

definition fieldOr :: "jsval \<Rightarrow> string \<Rightarrow> (jsval \<Rightarrow> 'a) \<Rightarrow> 'a \<Rightarrow> jserr + 'a" where
  "fieldOr v key conv dflt = bindE (getProp v key) (\<lambda>x. Inr (if isSet x then conv x else dflt))"

definition fieldOrE :: "jsval \<Rightarrow> string \<Rightarrow> (jsval \<Rightarrow> jserr + 'a) \<Rightarrow> 'a \<Rightarrow> jserr + 'a" where
  "fieldOrE v key conv dflt = bindE (getProp v key) (\<lambda>x. if isSet x then conv x else Inr dflt)"

definition fieldOpt :: "jsval \<Rightarrow> string \<Rightarrow> (jsval \<Rightarrow> jserr + 'a) \<Rightarrow> jserr + 'a option" where
  "fieldOpt v key conv = bindE (getProp v key) (\<lambda>x.
     if isSet x then bindE (conv x) (\<lambda>y. Inr (Some y)) else Inr None)"

fun mapE :: "('a \<Rightarrow> 'e + 'b) \<Rightarrow> 'a list \<Rightarrow> 'e + 'b list" where
  "mapE f [] = Inr []"
| "mapE f (x # xs) = bindE (f x) (\<lambda>y. bindE (mapE f xs) (\<lambda>ys. Inr (y # ys)))"

definition fieldArr :: "jsval \<Rightarrow> string \<Rightarrow> (jsval \<Rightarrow> jserr + 'a) \<Rightarrow> jserr + 'a list" where
  "fieldArr v key conv = (case getPropOpt v key of JArr vs \<Rightarrow> mapE conv vs | _ \<Rightarrow> Inr [])"

lemma mapE_cong [fundef_cong]:
  "xs = ys \<Longrightarrow> (\<And>x. x \<in> set ys \<Longrightarrow> f x = g x) \<Longrightarrow> mapE f xs = mapE g ys"
proof (induction xs arbitrary: ys)
  case (Cons x xs)
  then show ?case by (cases ys) auto
qed simp

lemma mapE_all: "(\<And>x. x \<in> set xs \<Longrightarrow> f (g x) = Inr (h x)) \<Longrightarrow> mapE f (map g xs) = Inr (map h xs)"
  by (induction xs) auto

text \<open>The elements of an array under a key are smaller than the object.\<close>

lemma fieldArr_cong [fundef_cong]:
  assumes "v = v'" "\<And>vs x. getPropOpt v' key = JArr vs \<Longrightarrow> x \<in> set vs \<Longrightarrow> f x = g x"
  shows "fieldArr v key f = fieldArr v' key g"
  using assms by (auto simp: fieldArr_def split: jsval.splits intro: mapE_cong)

lemma size_map_of: "map_of kvs key = Some v \<Longrightarrow> size v < size (JObj kvs)"
  by (induction kvs) (auto split: if_splits)

lemma size_getPropOpt:
  assumes "getPropOpt object key = JArr vs" "x \<in> set vs"
  shows "size x < size object"
proof -
  obtain kvs where o: "object = JObj kvs" "map_of kvs key = Some (JArr vs)"
    using assms(1) by (auto simp: getPropOpt_def getProp_def split: sum.splits jsval.splits option.splits)
  have "size x < size (JArr vs)" using size_list_estimation [OF assms(2), of "size x" size]
    by (simp add: less_Suc_eq_le size_list_estimation' [OF assms(2)])
  also have "\<dots> < size object" using size_map_of [OF o(2)] o(1) by simp
  finally show ?thesis .
qed

lemma getProp_Obj [simp]: "getProp (JObj kvs) key = Inr (case map_of kvs key of Some x \<Rightarrow> x | None \<Rightarrow> JUndefined)"
  by (simp add: getProp_def)

lemma isSet_simps [simp]:
  "\<not> isSet JUndefined" "\<not> isSet JNull" "isSet (JBool b)" "isSet (JNum x)" "isSet (JStr s)"
  "isSet (JArr vs)" "isSet (JObj kvs)"
  by (simp_all add: isSet_def)

text \<open>\<open>obj.key = value\<close> under a condition, in the order of the source.\<close>

definition setProp :: "bool \<Rightarrow> string \<Rightarrow> jsval \<Rightarrow> (string \<times> jsval) list" where
  "setProp c key v = (if c then [(key, v)] else [])"

declare map_of_append [simp del]

lemma map_of_setProp [simp]:
  "map_of (setProp c key v @ kvs) k = (if c \<and> key = k then Some v else map_of kvs k)"
  "map_of (setProp c key v) k = (if c \<and> key = k then Some v else None)"
  by (auto simp: setProp_def)

end
