(* ===== verification/Js_Bytes.thy ===== *)
theory Js_Bytes
  imports Js_Value
begin

text \<open>
  The parts of the language that the descriptor messages use beyond plain values: the numbers a
  64-bit float can hold, integers that a number holds exactly (\<open>longToNumber\<close>), and the base64 text of
  a byte array (\<open>base64FromBytes\<close>, \<open>bytesFromBase64\<close> of \<open>gen/ts/google/protobuf/descriptor.ts\<close>).
\<close>

section \<open>Doubles\<close>

text \<open>
  A finite double is an integer below \<open>2 ^ 53\<close> times a power of two, from \<open>2 ^ -1074\<close> to \<open>2 ^ 971\<close>;
  \<open>scaled\<close> counts it in units of the smallest one.
\<close>

definition scaled :: "rat \<Rightarrow> rat" where
  "scaled q = \<bar>q\<bar> * 2 ^ 1074"

definition isDouble :: "number \<Rightarrow> bool" where
  "isDouble x = (case x of
       Fin q \<Rightarrow> list_ex (\<lambda>k. let y = scaled q / 2 ^ k in y = of_int \<lfloor>y\<rfloor> \<and> y < 2 ^ 53) [0..<2046]
     | _ \<Rightarrow> True)"

section \<open>Safe integers\<close>

definition isSafe :: "number \<Rightarrow> bool" where
  "isSafe x \<longleftrightarrow> isInteger x \<and> \<bar>numToInt x\<bar> < 2 ^ 53"

text \<open>
  \<open>longToNumber\<close>: the conversion of the decimal text rounds to a double, which keeps a safe integer and
  maps an integer beyond the safe ones to a number beyond them.
\<close>

definition longToNumber :: "int \<Rightarrow> jserr + number" where
  "longToNumber int64 =
     (if int64 > 2 ^ 53 - 1 then Inl ''Error: Value is larger than Number.MAX_SAFE_INTEGER''
      else if int64 < - (2 ^ 53 - 1) then Inl ''Error: Value is smaller than Number.MIN_SAFE_INTEGER''
      else Inr (numInt int64))"

lemma longToNumber_safe: "isSafe x \<Longrightarrow> longToNumber (numToInt x) = Inr x"
  using integer_numInt [of x] by (auto simp: isSafe_def longToNumber_def)

lemma longToNumber_result: "longToNumber i = Inr x \<Longrightarrow> isSafe x"
  by (auto simp: isSafe_def longToNumber_def split: if_splits)

section \<open>Base64\<close>

definition b64Alphabet :: string where
  "b64Alphabet = ''ABCDEFGHIJKLMNOPQRSTUVWXYZabcdefghijklmnopqrstuvwxyz0123456789+/''"

definition b64Char :: "nat \<Rightarrow> char" where
  "b64Char n = b64Alphabet ! n"

definition b64Value :: "char \<Rightarrow> nat option" where
  "b64Value c = map_of (zip b64Alphabet [0..<64]) c"

fun base64FromBytes :: "u8 list \<Rightarrow> string" where
  "base64FromBytes [] = []"
| "base64FromBytes [a] = [b64Char (unat a div 4), b64Char (unat a mod 4 * 16), CHR ''='', CHR ''='']"
| "base64FromBytes [a, b] =
     [b64Char (unat a div 4), b64Char (unat a mod 4 * 16 + unat b div 16), b64Char (unat b mod 16 * 4), CHR ''='']"
| "base64FromBytes (a # b # c # arr) =
     b64Char (unat a div 4) # b64Char (unat a mod 4 * 16 + unat b div 16) #
     b64Char (unat b mod 16 * 4 + unat c div 64) # b64Char (unat c mod 64) # base64FromBytes arr"

text \<open>The bytes of a text that is base64 with its padding.\<close>

fun base64Decode :: "string \<Rightarrow> u8 list option" where
  "base64Decode [] = Some []"
| "base64Decode (w # x # y # z # rest) =
     (case (b64Value w, b64Value x, b64Value y, b64Value z) of
        (Some w, Some x, Some y, Some z) \<Rightarrow>
          map_option (\<lambda>bs. word_of_nat (w * 4 + x div 16) # word_of_nat (x mod 16 * 16 + y div 4) #
              word_of_nat (y mod 4 * 64 + z) # bs) (base64Decode rest)
      | (Some w, Some x, Some y, None) \<Rightarrow>
          if z = CHR ''='' \<and> rest = [] \<and> y mod 4 = 0
          then Some [word_of_nat (w * 4 + x div 16), word_of_nat (x mod 16 * 16 + y div 4)] else None
      | (Some w, Some x, None, None) \<Rightarrow>
          if y = CHR ''='' \<and> z = CHR ''='' \<and> rest = [] \<and> x mod 16 = 0
          then Some [word_of_nat (w * 4 + x div 16)] else None
      | _ \<Rightarrow> None)"
| "base64Decode _ = None"

text \<open>
  \<open>Buffer.from(b64, "base64")\<close> and \<open>atob(b64)\<close> agree on such a text.  They differ on other values (the
  first skips what it does not know, the second throws): there the result is that of the host.
\<close>

definition bytesFromBase64 :: "js_text \<Rightarrow> jsval \<Rightarrow> jserr + u8 list" where
  "bytesFromBase64 J b64 = (case b64 of
       JStr s \<Rightarrow> (case base64Decode s of Some bs \<Rightarrow> Inr bs | None \<Rightarrow> otherFromBase64 J b64)
     | _ \<Rightarrow> otherFromBase64 J b64)"

lemma b64Alphabet_facts: "length b64Alphabet = 64" "distinct b64Alphabet" "CHR ''='' \<notin> set b64Alphabet"
  by code_simp+

lemma b64Value_Char [simp]: "n < 64 \<Longrightarrow> b64Value (b64Char n) = Some n"
  using map_of_zip_nth [of b64Alphabet "[0..<64]" n] b64Alphabet_facts
  by (simp add: b64Value_def b64Char_def)

lemma b64Value_pad [simp]: "b64Value (CHR ''='') = None"
  using b64Alphabet_facts by (simp add: b64Value_def map_of_zip_is_None)

lemma unat_u8: "unat (a :: u8) < 256"
  using unsigned_less [of a, where 'a = nat] by simp

lemma base64_bits:
  fixes a :: u8
  shows "unat a div 4 < 64" "unat a mod 4 < 4" "unat a div 16 < 16" "unat a mod 16 < 16"
    "unat a div 64 < 4" "unat a mod 64 < 64"
  using unat_u8 [of a] by (simp_all add: less_mult_imp_div_less)

lemma base64_digits:
  fixes a b :: u8
  shows "unat a div 4 < 64" "unat a mod 4 * 16 < 64" "unat a mod 16 * 4 < 64" "unat a mod 64 < 64"
    "unat a mod 4 * 16 + unat b div 16 < 64" "unat a mod 16 * 4 + unat b div 64 < 64"
  using base64_bits [of a] base64_bits [of b] by linarith+

lemma base64_joins:
  fixes a b :: u8
  shows "unat a div 16 div 16 = 0" "unat a div 16 mod 16 = unat a div 16" "unat a div 64 div 4 = 0"
    "unat a div 64 mod 4 = unat a div 64"
  using base64_bits [of a] by simp_all

lemma base64Decode_FromBytes: "base64Decode (base64FromBytes bs) = Some bs"
  by (induction bs rule: base64FromBytes.induct)
     (simp_all add: base64_digits base64_joins del: of_nat_add of_nat_mult)

lemma bytesFromBase64_FromBytes: "bytesFromBase64 J (JStr (base64FromBytes bs)) = Inr bs"
  by (simp add: bytesFromBase64_def base64Decode_FromBytes)

end
