(* ===== verification/Wire.thy ===== *)
theory Wire
  imports Js_Bytes
begin

unbundle bit_operations_syntax

text \<open>
  The protobuf wire format as the generated code uses it.  \<open>BinaryReader\<close> and \<open>BinaryWriter\<close> are a
  package outside the repository: they are the arguments \<open>R\<close> and \<open>W\<close>, and the locales
  \<open>wire_reader\<close> and \<open>wire_writer\<close> state what they promise, over the encodings of the format
  (varints, UTF-8 text, 64-bit floats).

  The loop that every \<open>decode\<close> function runs is written once, as \<open>decode_loop\<close> over the \<open>switch\<close> of the
  message.  A loop need not end for an arbitrary reader, so the result is an option; a reader that
  makes progress on every tag makes it end.
\<close>

section \<open>Readers and writers\<close>

record 'r reader_ops =
  r_new :: "bytes \<Rightarrow> 'r"
  r_pos :: "'r \<Rightarrow> nat"
  r_len :: "'r \<Rightarrow> nat"
  r_uint32 :: "'r \<Rightarrow> jserr + u32 \<times> 'r"
  r_int32 :: "'r \<Rightarrow> jserr + int \<times> 'r"
  r_string :: "'r \<Rightarrow> jserr + string \<times> 'r"
  r_bool :: "'r \<Rightarrow> jserr + bool \<times> 'r"
  r_uint64 :: "'r \<Rightarrow> jserr + int \<times> 'r"
  r_int64 :: "'r \<Rightarrow> jserr + int \<times> 'r"
  r_double :: "'r \<Rightarrow> jserr + number \<times> 'r"
  r_bytes :: "'r \<Rightarrow> jserr + bytes \<times> 'r"
  r_skip :: "u32 \<Rightarrow> 'r \<Rightarrow> jserr + unit \<times> 'r"

record 'w writer_ops =
  w_new :: 'w
  w_uint32 :: "number \<Rightarrow> 'w \<Rightarrow> jserr + 'w"
  w_int32 :: "number \<Rightarrow> 'w \<Rightarrow> jserr + 'w"
  w_string :: "string \<Rightarrow> 'w \<Rightarrow> jserr + 'w"
  w_bool :: "bool \<Rightarrow> 'w \<Rightarrow> jserr + 'w"
  w_uint64 :: "number \<Rightarrow> 'w \<Rightarrow> jserr + 'w"
  w_int64 :: "number \<Rightarrow> 'w \<Rightarrow> jserr + 'w"
  w_double :: "number \<Rightarrow> 'w \<Rightarrow> jserr + 'w"
  w_bytes :: "bytes \<Rightarrow> 'w \<Rightarrow> jserr + 'w"
  w_fork :: "'w \<Rightarrow> 'w"
  w_join :: "'w \<Rightarrow> jserr + 'w"
  w_finish :: "'w \<Rightarrow> bytes"

definition ofU32 :: "u32 \<Rightarrow> number" where
  "ofU32 x = numInt (uint x)"

text \<open>\<open>decode\<close> takes a reader or the bytes themselves.\<close>

datatype 'r input = InReader 'r | InBytes bytes

definition toReader :: "'r reader_ops \<Rightarrow> 'r input \<Rightarrow> 'r" where
  "toReader R i = (case i of InReader r \<Rightarrow> r | InBytes b \<Rightarrow> r_new R b)"

section \<open>Decoding\<close>

text \<open>
  A step of a decoder: \<open>None\<close> if it never ends, an exception, or a value and the reader after it.
\<close>

type_synonym ('r, 'a) rd = "'r \<Rightarrow> (jserr + 'a \<times> 'r) option"

definition getR :: "('r \<Rightarrow> jserr + 'a \<times> 'r) \<Rightarrow> ('r, 'a) rd" where
  "getR op r = Some (op r)"

definition bindR :: "('r, 'a) rd \<Rightarrow> ('a \<Rightarrow> ('r, 'b) rd) \<Rightarrow> ('r, 'b) rd" where
  "bindR m f r = (case m r of None \<Rightarrow> None | Some (Inl e) \<Rightarrow> Some (Inl e) | Some (Inr (x, r')) \<Rightarrow> f x r')"

text \<open>\<open>longToNumber(reader.uint64())\<close> and \<open>longToNumber(reader.int64())\<close>.\<close>

definition longR :: "('r \<Rightarrow> jserr + int \<times> 'r) \<Rightarrow> 'r \<Rightarrow> jserr + number \<times> 'r" where
  "longR op r = bindE (op r) (\<lambda>(v, r'). bindE (longToNumber v) (\<lambda>num. Inr (num, r')))"

text \<open>\<open>continue\<close> with an updated message, and \<open>break\<close> out of the \<open>switch\<close>.\<close>

definition cont :: "'m \<Rightarrow> ('r, 'm option) rd" where
  "cont m r = Some (Inr (Some m, r))"

definition brk :: "('r, 'm option) rd" where
  "brk r = Some (Inr (None, r))"

partial_function (option) decode_loop ::
    "'r reader_ops \<Rightarrow> (u32 \<Rightarrow> 'm \<Rightarrow> ('r, 'm option) rd) \<Rightarrow> nat \<Rightarrow> 'm \<Rightarrow> ('r, 'm) rd" where
  "decode_loop R field end m r =
     (if r_pos R r < end then
        (case r_uint32 R r of
           Inl e \<Rightarrow> Some (Inl e)
         | Inr (tag, r1) \<Rightarrow>
             Option.bind (field tag m r1) (\<lambda>res. case res of
               Inl e \<Rightarrow> Some (Inl e)
             | Inr (Some m', r2) \<Rightarrow> decode_loop R field end m' r2
             | Inr (None, r2) \<Rightarrow>
                 if tag AND 7 = 4 \<or> tag = 0 then Some (Inr (m, r2))
                 else (case r_skip R (tag AND 7) r2 of
                         Inl e \<Rightarrow> Some (Inl e)
                       | Inr (_, r3) \<Rightarrow> decode_loop R field end m r3)))
      else Some (Inr (m, r)))"

text \<open>\<open>decode(input, length)\<close> with the empty message \<open>base\<close>.\<close>

definition decode_message ::
    "'r reader_ops \<Rightarrow> (u32 \<Rightarrow> 'm \<Rightarrow> ('r, 'm option) rd) \<Rightarrow> 'm \<Rightarrow> 'r input \<Rightarrow> nat option
     \<Rightarrow> (jserr + 'm \<times> 'r) option" where
  "decode_message R field base input len =
     (let reader = toReader R input;
          end = (case len of None \<Rightarrow> r_len R reader | Some n \<Rightarrow> r_pos R reader + n)
      in decode_loop R field end base reader)"

text \<open>\<open>M.decode(reader, reader.uint32())\<close> for a nested message.\<close>

definition nested :: "'r reader_ops \<Rightarrow> ('r input \<Rightarrow> nat option \<Rightarrow> (jserr + 'a \<times> 'r) option) \<Rightarrow> ('r, 'a) rd" where
  "nested R dec = bindR (getR (r_uint32 R)) (\<lambda>n r. dec (InReader r) (Some (unat n)))"

text \<open>
  A packed field of 32-bit integers: \<open>end2 = reader.uint32() + reader.pos\<close>, and one element after the other while
  \<open>reader.pos < end2\<close>.
\<close>

partial_function (option) packed_loop :: "'r reader_ops \<Rightarrow> nat \<Rightarrow> number list \<Rightarrow> ('r, number list) rd" where
  "packed_loop R end2 xs r =
     (if r_pos R r < end2 then
        (case r_int32 R r of
           Inl e \<Rightarrow> Some (Inl e)
         | Inr (v, r') \<Rightarrow> packed_loop R end2 (xs @ [numInt v]) r')
      else Some (Inr (xs, r)))"

definition packed :: "'r reader_ops \<Rightarrow> number list \<Rightarrow> ('r, number list) rd" where
  "packed R xs = bindR (getR (r_uint32 R)) (\<lambda>n r. packed_loop R (unat n + r_pos R r) xs r)"

section \<open>Encoding\<close>

text \<open>\<open>writer.uint32(tag).string(v)\<close> and its like, and \<open>M.encode(v, writer.uint32(tag).fork()).join()\<close>.\<close>

definition w_tag :: "'w writer_ops \<Rightarrow> int \<Rightarrow> 'w \<Rightarrow> jserr + 'w" where
  "w_tag W tag = w_uint32 W (numInt tag)"

definition w_nested :: "'w writer_ops \<Rightarrow> int \<Rightarrow> ('w \<Rightarrow> jserr + 'w) \<Rightarrow> 'w \<Rightarrow> jserr + 'w" where
  "w_nested W tag enc w = bindE (w_tag W tag w) (\<lambda>w. bindE (enc (w_fork W w)) (w_join W))"

text \<open>
  \<open>if (c) { s }\<close>, \<open>if (x !== undefined) { s }\<close>, \<open>s1; s2\<close>, a list of statements and
  \<open>for (const v of vs) { s }\<close> on a writer.
\<close>

definition w_when :: "bool \<Rightarrow> ('w \<Rightarrow> jserr + 'w) \<Rightarrow> 'w \<Rightarrow> jserr + 'w" where
  "w_when c s w = (if c then s w else Inr w)"

definition w_opt :: "('a \<Rightarrow> 'w \<Rightarrow> jserr + 'w) \<Rightarrow> 'a option \<Rightarrow> 'w \<Rightarrow> jserr + 'w" where
  "w_opt s x w = (case x of None \<Rightarrow> Inr w | Some v \<Rightarrow> s v w)"

definition w_seq :: "('w \<Rightarrow> jserr + 'w) \<Rightarrow> ('w \<Rightarrow> jserr + 'w) \<Rightarrow> 'w \<Rightarrow> jserr + 'w" where
  "w_seq s1 s2 w = bindE (s1 w) s2"

fun w_all :: "('w \<Rightarrow> jserr + 'w) list \<Rightarrow> 'w \<Rightarrow> jserr + 'w" where
  "w_all [] w = Inr w"
| "w_all (s # ss) w = bindE (s w) (w_all ss)"

fun w_each :: "('a \<Rightarrow> 'w \<Rightarrow> jserr + 'w) \<Rightarrow> 'a list \<Rightarrow> 'w \<Rightarrow> jserr + 'w" where
  "w_each s [] w = Inr w"
| "w_each s (v # vs) w = bindE (s v w) (w_each s vs)"

lemma w_each_cong [fundef_cong]:
  "vs = vs' \<Longrightarrow> (\<And>v. v \<in> set vs' \<Longrightarrow> s v = s' v) \<Longrightarrow> w_each s vs = w_each s' vs'"
proof (induction vs arbitrary: vs')
  case (Cons v vs)
  then show ?case by (cases vs') (auto intro!: ext)
qed (auto intro!: ext)

section \<open>Optional values\<close>

text \<open>\<open>x !== undefined && x !== d\<close>, and \<open>x ?? d\<close> (with \<open>None\<close> for undefined and null).\<close>

definition differs :: "'a option \<Rightarrow> 'a \<Rightarrow> bool" where
  "differs x d \<longleftrightarrow> x \<noteq> None \<and> x \<noteq> Some d"

definition getOr :: "'a option \<Rightarrow> 'a \<Rightarrow> 'a" where
  "getOr x d = (case x of None \<Rightarrow> d | Some v \<Rightarrow> v)"

lemma getOr_simps [simp]: "getOr None d = d" "getOr (Some v) d = v"
  by (simp_all add: getOr_def)

text \<open>\<open>if (x !== undefined) { obj.key = x; }\<close>\<close>

definition setOpt :: "string \<Rightarrow> jsval option \<Rightarrow> (string \<times> jsval) list" where
  "setOpt key x = (case x of None \<Rightarrow> [] | Some v \<Rightarrow> [(key, v)])"

lemma map_of_setOpt [simp]:
  "map_of (setOpt key x @ kvs) k = (if x \<noteq> None \<and> key = k then x else map_of kvs k)"
  "map_of (setOpt key x) k = (if key = k then x else None)"
  by (auto simp: setOpt_def split: option.splits)

end
