(* ===== verification/Query_Messages.thy ===== *)
theory Query_Messages
  imports Wire
begin

unbundle bit_operations_syntax

text \<open>
  The messages of the query service as the TypeScript client has them
  (\<open>gen/ts/galactica/merkle/query.ts\<close>): for each message its record, the empty message, \<open>encode\<close>, the
  \<open>switch\<close> of \<open>decode\<close> and \<open>decode\<close> itself, \<open>fromJSON\<close>, \<open>toJSON\<close>, \<open>fromPartial\<close> and \<open>create\<close>.  A partial
  message has an option for every field, \<open>None\<close> for undefined or null.
\<close>

section \<open>Messages\<close>

subsection \<open>\<open>Proof\<close>\<close>

record Proof =
  Proof_leaf :: string
  Proof_path :: "string list"
  Proof_index :: number
  Proof_root :: string

definition createBaseProof :: Proof where
  "createBaseProof =
     \<lparr>Proof_leaf = '''', Proof_path = [], Proof_index = numInt 0, Proof_root = ''''\<rparr>"

definition Proof_encode :: "'w writer_ops \<Rightarrow> Proof \<Rightarrow> 'w \<Rightarrow> jserr + 'w" where
  "Proof_encode W message = w_all [
     w_when (Proof_leaf message \<noteq> '''')
       (w_seq (w_tag W 10) (w_string W (Proof_leaf message))),
     w_each (\<lambda>v. w_seq (w_tag W 18) (w_string W v)) (Proof_path message),
     w_when (Proof_index message \<noteq> numInt 0)
       (w_seq (w_tag W 24) (w_uint32 W (Proof_index message))),
     w_when (Proof_root message \<noteq> '''')
       (w_seq (w_tag W 34) (w_string W (Proof_root message)))]"

definition Proof_field :: "'r reader_ops \<Rightarrow> u32 \<Rightarrow> Proof \<Rightarrow> ('r,
  Proof option) rd" where
  "Proof_field R tag message =
     (if drop_bit 3 tag = 1 then
        (if tag \<noteq> 10 then brk
         else bindR (getR (r_string R)) (\<lambda>v. cont (message\<lparr>Proof_leaf := v\<rparr>)))
      else if drop_bit 3 tag = 2 then
        (if tag \<noteq> 18 then brk
         else bindR (getR (r_string R)) (\<lambda>v. cont
           (message\<lparr>Proof_path := Proof_path message @ [v]\<rparr>)))
      else if drop_bit 3 tag = 3 then
        (if tag \<noteq> 24 then brk
         else bindR (getR (r_uint32 R)) (\<lambda>v. cont (message\<lparr>Proof_index := ofU32 v\<rparr>)))
      else if drop_bit 3 tag = 4 then
        (if tag \<noteq> 34 then brk
         else bindR (getR (r_string R)) (\<lambda>v. cont (message\<lparr>Proof_root := v\<rparr>)))
      else brk)"

definition Proof_decode :: "'r reader_ops \<Rightarrow> 'r input \<Rightarrow> nat option \<Rightarrow>
  (jserr + Proof \<times> 'r) option" where
  "Proof_decode R = decode_message R (Proof_field R) createBaseProof"

definition Proof_fromJSON :: "js_text \<Rightarrow> jsval \<Rightarrow> jserr + Proof" where
  "Proof_fromJSON J object =
     bindE (fieldOr object ''leaf'' (jsString J) '''') (\<lambda>v_leaf.
     bindE (fieldArr object ''path'' (\<lambda>e. Inr (jsString J e))) (\<lambda>v_path.
     bindE (fieldOr object ''index'' (jsNumber J) (numInt 0)) (\<lambda>v_index.
     bindE (fieldOr object ''root'' (jsString J) '''') (\<lambda>v_root.
     Inr \<lparr>Proof_leaf = v_leaf, Proof_path = v_path, Proof_index = v_index,
       Proof_root = v_root\<rparr>))))"

definition Proof_toJSON :: "Proof \<Rightarrow> jsval" where
  "Proof_toJSON message = JObj (
     setProp (Proof_leaf message \<noteq> '''') ''leaf'' (JStr (Proof_leaf message)) @
     setProp (Proof_path message \<noteq> []) ''path'' (JArr (map JStr (Proof_path message))) @
     setProp (Proof_index message \<noteq> numInt 0) ''index'' (JNum (mathRound (Proof_index message))) @
     setProp (Proof_root message \<noteq> '''') ''root'' (JStr (Proof_root message)))"

record Proof_partial =
  Proof_p_leaf :: "string option"
  Proof_p_path :: "string list option"
  Proof_p_index :: "number option"
  Proof_p_root :: "string option"

definition Proof_fromPartial :: "Proof_partial \<Rightarrow> Proof" where
  "Proof_fromPartial object = createBaseProof\<lparr>
     Proof_leaf := getOr (Proof_p_leaf object) '''',
     Proof_path := getOr (Proof_p_path object) [],
     Proof_index := getOr (Proof_p_index object) (numInt 0),
     Proof_root := getOr (Proof_p_root object) ''''\<rparr>"

definition Proof_create :: "Proof_partial option \<Rightarrow> Proof" where
  "Proof_create base = Proof_fromPartial (getOr base
     \<lparr>Proof_p_leaf = None, Proof_p_path = None, Proof_p_index = None, Proof_p_root = None\<rparr>)"

subsection \<open>\<open>QueryProofRequest\<close>\<close>

record QueryProofRequest =
  QueryProofRequest_registry :: string
  QueryProofRequest_leaf :: string

definition createBaseQueryProofRequest :: QueryProofRequest where
  "createBaseQueryProofRequest =
     \<lparr>QueryProofRequest_registry = '''', QueryProofRequest_leaf = ''''\<rparr>"

definition QueryProofRequest_encode :: "'w writer_ops \<Rightarrow> QueryProofRequest \<Rightarrow> 'w
  \<Rightarrow> jserr + 'w" where
  "QueryProofRequest_encode W message = w_all [
     w_when (QueryProofRequest_registry message \<noteq> '''')
       (w_seq (w_tag W 10) (w_string W (QueryProofRequest_registry message))),
     w_when (QueryProofRequest_leaf message \<noteq> '''')
       (w_seq (w_tag W 18) (w_string W (QueryProofRequest_leaf message)))]"

definition QueryProofRequest_field :: "'r reader_ops \<Rightarrow> u32 \<Rightarrow> QueryProofRequest
  \<Rightarrow> ('r, QueryProofRequest option) rd" where
  "QueryProofRequest_field R tag message =
     (if drop_bit 3 tag = 1 then
        (if tag \<noteq> 10 then brk
         else bindR (getR (r_string R)) (\<lambda>v. cont
           (message\<lparr>QueryProofRequest_registry := v\<rparr>)))
      else if drop_bit 3 tag = 2 then
        (if tag \<noteq> 18 then brk
         else bindR (getR (r_string R)) (\<lambda>v. cont (message\<lparr>QueryProofRequest_leaf := v\<rparr>)))
      else brk)"

definition QueryProofRequest_decode :: "'r reader_ops \<Rightarrow> 'r input \<Rightarrow> nat option
  \<Rightarrow> (jserr + QueryProofRequest \<times> 'r) option" where
  "QueryProofRequest_decode R = decode_message R (QueryProofRequest_field R) createBaseQueryProofRequest"

definition QueryProofRequest_fromJSON :: "js_text \<Rightarrow> jsval
  \<Rightarrow> jserr + QueryProofRequest" where
  "QueryProofRequest_fromJSON J object =
     bindE (fieldOr object ''registry'' (jsString J) '''') (\<lambda>v_registry.
     bindE (fieldOr object ''leaf'' (jsString J) '''') (\<lambda>v_leaf.
     Inr \<lparr>QueryProofRequest_registry = v_registry, QueryProofRequest_leaf = v_leaf\<rparr>))"

definition QueryProofRequest_toJSON :: "QueryProofRequest \<Rightarrow> jsval" where
  "QueryProofRequest_toJSON message = JObj (
     setProp (QueryProofRequest_registry message \<noteq> '''') ''registry'' (JStr
       (QueryProofRequest_registry message)) @
     setProp (QueryProofRequest_leaf message \<noteq> '''') ''leaf'' (JStr (QueryProofRequest_leaf message)))"

record QueryProofRequest_partial =
  QueryProofRequest_p_registry :: "string option"
  QueryProofRequest_p_leaf :: "string option"

definition QueryProofRequest_fromPartial :: "QueryProofRequest_partial \<Rightarrow> QueryProofRequest" where
  "QueryProofRequest_fromPartial object = createBaseQueryProofRequest\<lparr>
     QueryProofRequest_registry := getOr (QueryProofRequest_p_registry object) '''',
     QueryProofRequest_leaf := getOr (QueryProofRequest_p_leaf object) ''''\<rparr>"

definition QueryProofRequest_create :: "QueryProofRequest_partial option \<Rightarrow> QueryProofRequest" where
  "QueryProofRequest_create base = QueryProofRequest_fromPartial (getOr base
     \<lparr>QueryProofRequest_p_registry = None, QueryProofRequest_p_leaf = None\<rparr>)"

subsection \<open>\<open>QueryProofResponse\<close>\<close>

record QueryProofResponse =
  QueryProofResponse_proof :: "Proof option"

definition createBaseQueryProofResponse :: QueryProofResponse where
  "createBaseQueryProofResponse =
     \<lparr>QueryProofResponse_proof = None\<rparr>"

definition QueryProofResponse_encode :: "'w writer_ops \<Rightarrow> QueryProofResponse \<Rightarrow> 'w
  \<Rightarrow> jserr + 'w" where
  "QueryProofResponse_encode W message = w_all [
     w_opt (\<lambda>v. w_nested W 10 (Proof_encode W v)) (QueryProofResponse_proof message)]"

definition QueryProofResponse_field :: "'r reader_ops \<Rightarrow> u32 \<Rightarrow> QueryProofResponse
  \<Rightarrow> ('r, QueryProofResponse option) rd" where
  "QueryProofResponse_field R tag message =
     (if drop_bit 3 tag = 1 then
        (if tag \<noteq> 10 then brk
         else bindR (nested R (Proof_decode R)) (\<lambda>v. cont
           (message\<lparr>QueryProofResponse_proof := Some v\<rparr>)))
      else brk)"

definition QueryProofResponse_decode :: "'r reader_ops \<Rightarrow> 'r input \<Rightarrow> nat option
  \<Rightarrow> (jserr + QueryProofResponse \<times> 'r) option" where
  "QueryProofResponse_decode R = decode_message R (QueryProofResponse_field R) createBaseQueryProofResponse"

definition QueryProofResponse_fromJSON :: "js_text \<Rightarrow> jsval
  \<Rightarrow> jserr + QueryProofResponse" where
  "QueryProofResponse_fromJSON J object =
     bindE (fieldOpt object ''proof'' (Proof_fromJSON J)) (\<lambda>v_proof.
     Inr \<lparr>QueryProofResponse_proof = v_proof\<rparr>)"

definition QueryProofResponse_toJSON :: "QueryProofResponse \<Rightarrow> jsval" where
  "QueryProofResponse_toJSON message = JObj (
     setOpt ''proof'' (map_option Proof_toJSON (QueryProofResponse_proof message)))"

record QueryProofResponse_partial =
  QueryProofResponse_p_proof :: "Proof_partial option"

definition QueryProofResponse_fromPartial :: "QueryProofResponse_partial \<Rightarrow> QueryProofResponse" where
  "QueryProofResponse_fromPartial object = createBaseQueryProofResponse\<lparr>
     QueryProofResponse_proof := map_option Proof_fromPartial (QueryProofResponse_p_proof object)\<rparr>"

definition QueryProofResponse_create :: "QueryProofResponse_partial option
  \<Rightarrow> QueryProofResponse" where
  "QueryProofResponse_create base = QueryProofResponse_fromPartial (getOr base
     \<lparr>QueryProofResponse_p_proof = None\<rparr>)"

subsection \<open>\<open>GetEmptyLeafProofRequest\<close>\<close>

record GetEmptyLeafProofRequest =
  GetEmptyLeafProofRequest_registry :: string

definition createBaseGetEmptyLeafProofRequest :: GetEmptyLeafProofRequest where
  "createBaseGetEmptyLeafProofRequest =
     \<lparr>GetEmptyLeafProofRequest_registry = ''''\<rparr>"

definition GetEmptyLeafProofRequest_encode :: "'w writer_ops \<Rightarrow> GetEmptyLeafProofRequest
  \<Rightarrow> 'w \<Rightarrow> jserr + 'w" where
  "GetEmptyLeafProofRequest_encode W message = w_all [
     w_when (GetEmptyLeafProofRequest_registry message \<noteq> '''')
       (w_seq (w_tag W 10) (w_string W (GetEmptyLeafProofRequest_registry message)))]"

definition GetEmptyLeafProofRequest_field :: "'r reader_ops \<Rightarrow> u32
  \<Rightarrow> GetEmptyLeafProofRequest \<Rightarrow> ('r, GetEmptyLeafProofRequest option) rd" where
  "GetEmptyLeafProofRequest_field R tag message =
     (if drop_bit 3 tag = 1 then
        (if tag \<noteq> 10 then brk
         else bindR (getR (r_string R)) (\<lambda>v. cont
           (message\<lparr>GetEmptyLeafProofRequest_registry := v\<rparr>)))
      else brk)"

definition GetEmptyLeafProofRequest_decode :: "'r reader_ops \<Rightarrow> 'r input
  \<Rightarrow> nat option \<Rightarrow> (jserr + GetEmptyLeafProofRequest \<times> 'r) option" where
  "GetEmptyLeafProofRequest_decode R = decode_message R
    (GetEmptyLeafProofRequest_field R) createBaseGetEmptyLeafProofRequest"

definition GetEmptyLeafProofRequest_fromJSON :: "js_text \<Rightarrow> jsval
  \<Rightarrow> jserr + GetEmptyLeafProofRequest" where
  "GetEmptyLeafProofRequest_fromJSON J object =
     bindE (fieldOr object ''registry'' (jsString J) '''') (\<lambda>v_registry.
     Inr \<lparr>GetEmptyLeafProofRequest_registry = v_registry\<rparr>)"

definition GetEmptyLeafProofRequest_toJSON :: "GetEmptyLeafProofRequest \<Rightarrow> jsval" where
  "GetEmptyLeafProofRequest_toJSON message = JObj (
     setProp (GetEmptyLeafProofRequest_registry message \<noteq> '''') ''registry'' (JStr
       (GetEmptyLeafProofRequest_registry message)))"

record GetEmptyLeafProofRequest_partial =
  GetEmptyLeafProofRequest_p_registry :: "string option"

definition GetEmptyLeafProofRequest_fromPartial :: "GetEmptyLeafProofRequest_partial
  \<Rightarrow> GetEmptyLeafProofRequest" where
  "GetEmptyLeafProofRequest_fromPartial object = createBaseGetEmptyLeafProofRequest\<lparr>
     GetEmptyLeafProofRequest_registry := getOr (GetEmptyLeafProofRequest_p_registry object) ''''\<rparr>"

definition GetEmptyLeafProofRequest_create :: "GetEmptyLeafProofRequest_partial option
  \<Rightarrow> GetEmptyLeafProofRequest" where
  "GetEmptyLeafProofRequest_create base = GetEmptyLeafProofRequest_fromPartial (getOr base
     \<lparr>GetEmptyLeafProofRequest_p_registry = None\<rparr>)"

subsection \<open>\<open>GetEmptyLeafProofResponse\<close>\<close>

record GetEmptyLeafProofResponse =
  GetEmptyLeafProofResponse_proof :: "Proof option"

definition createBaseGetEmptyLeafProofResponse :: GetEmptyLeafProofResponse where
  "createBaseGetEmptyLeafProofResponse =
     \<lparr>GetEmptyLeafProofResponse_proof = None\<rparr>"

definition GetEmptyLeafProofResponse_encode :: "'w writer_ops \<Rightarrow> GetEmptyLeafProofResponse
  \<Rightarrow> 'w \<Rightarrow> jserr + 'w" where
  "GetEmptyLeafProofResponse_encode W message = w_all [
     w_opt (\<lambda>v. w_nested W 10 (Proof_encode W v)) (GetEmptyLeafProofResponse_proof message)]"

definition GetEmptyLeafProofResponse_field :: "'r reader_ops \<Rightarrow> u32
  \<Rightarrow> GetEmptyLeafProofResponse \<Rightarrow> ('r, GetEmptyLeafProofResponse option) rd" where
  "GetEmptyLeafProofResponse_field R tag message =
     (if drop_bit 3 tag = 1 then
        (if tag \<noteq> 10 then brk
         else bindR (nested R (Proof_decode R)) (\<lambda>v. cont
           (message\<lparr>GetEmptyLeafProofResponse_proof := Some v\<rparr>)))
      else brk)"

definition GetEmptyLeafProofResponse_decode :: "'r reader_ops \<Rightarrow> 'r input
  \<Rightarrow> nat option \<Rightarrow> (jserr + GetEmptyLeafProofResponse \<times> 'r) option" where
  "GetEmptyLeafProofResponse_decode R = decode_message R
    (GetEmptyLeafProofResponse_field R) createBaseGetEmptyLeafProofResponse"

definition GetEmptyLeafProofResponse_fromJSON :: "js_text \<Rightarrow> jsval
  \<Rightarrow> jserr + GetEmptyLeafProofResponse" where
  "GetEmptyLeafProofResponse_fromJSON J object =
     bindE (fieldOpt object ''proof'' (Proof_fromJSON J)) (\<lambda>v_proof.
     Inr \<lparr>GetEmptyLeafProofResponse_proof = v_proof\<rparr>)"

definition GetEmptyLeafProofResponse_toJSON :: "GetEmptyLeafProofResponse \<Rightarrow> jsval" where
  "GetEmptyLeafProofResponse_toJSON message = JObj (
     setOpt ''proof'' (map_option Proof_toJSON (GetEmptyLeafProofResponse_proof message)))"

record GetEmptyLeafProofResponse_partial =
  GetEmptyLeafProofResponse_p_proof :: "Proof_partial option"

definition GetEmptyLeafProofResponse_fromPartial :: "GetEmptyLeafProofResponse_partial
  \<Rightarrow> GetEmptyLeafProofResponse" where
  "GetEmptyLeafProofResponse_fromPartial object = createBaseGetEmptyLeafProofResponse\<lparr>
     GetEmptyLeafProofResponse_proof := map_option Proof_fromPartial
       (GetEmptyLeafProofResponse_p_proof object)\<rparr>"

definition GetEmptyLeafProofResponse_create :: "GetEmptyLeafProofResponse_partial option
  \<Rightarrow> GetEmptyLeafProofResponse" where
  "GetEmptyLeafProofResponse_create base = GetEmptyLeafProofResponse_fromPartial (getOr base
     \<lparr>GetEmptyLeafProofResponse_p_proof = None\<rparr>)"

subsection \<open>\<open>BatchOperation\<close>\<close>

record BatchOperation =
  BatchOperation_leafHash :: string
  BatchOperation_isAddition :: bool

definition createBaseBatchOperation :: BatchOperation where
  "createBaseBatchOperation =
     \<lparr>BatchOperation_leafHash = '''', BatchOperation_isAddition = False\<rparr>"

definition BatchOperation_encode :: "'w writer_ops \<Rightarrow> BatchOperation \<Rightarrow> 'w
  \<Rightarrow> jserr + 'w" where
  "BatchOperation_encode W message = w_all [
     w_when (BatchOperation_leafHash message \<noteq> '''')
       (w_seq (w_tag W 10) (w_string W (BatchOperation_leafHash message))),
     w_when (BatchOperation_isAddition message \<noteq> False)
       (w_seq (w_tag W 16) (w_bool W (BatchOperation_isAddition message)))]"

definition BatchOperation_field :: "'r reader_ops \<Rightarrow> u32 \<Rightarrow> BatchOperation
  \<Rightarrow> ('r, BatchOperation option) rd" where
  "BatchOperation_field R tag message =
     (if drop_bit 3 tag = 1 then
        (if tag \<noteq> 10 then brk
         else bindR (getR (r_string R)) (\<lambda>v. cont
           (message\<lparr>BatchOperation_leafHash := v\<rparr>)))
      else if drop_bit 3 tag = 2 then
        (if tag \<noteq> 16 then brk
         else bindR (getR (r_bool R)) (\<lambda>v. cont
           (message\<lparr>BatchOperation_isAddition := v\<rparr>)))
      else brk)"

definition BatchOperation_decode :: "'r reader_ops \<Rightarrow> 'r input \<Rightarrow> nat option
  \<Rightarrow> (jserr + BatchOperation \<times> 'r) option" where
  "BatchOperation_decode R = decode_message R (BatchOperation_field R) createBaseBatchOperation"

definition BatchOperation_fromJSON :: "js_text \<Rightarrow> jsval \<Rightarrow> jserr + BatchOperation" where
  "BatchOperation_fromJSON J object =
     bindE (fieldOr object ''leafHash'' (jsString J) '''') (\<lambda>v_leafHash.
     bindE (fieldOr object ''isAddition'' jsBoolean False) (\<lambda>v_isAddition.
     Inr \<lparr>BatchOperation_leafHash = v_leafHash, BatchOperation_isAddition = v_isAddition\<rparr>))"

definition BatchOperation_toJSON :: "BatchOperation \<Rightarrow> jsval" where
  "BatchOperation_toJSON message = JObj (
     setProp (BatchOperation_leafHash message \<noteq> '''') ''leafHash'' (JStr
       (BatchOperation_leafHash message)) @
     setProp (BatchOperation_isAddition message \<noteq> False) ''isAddition'' (JBool
       (BatchOperation_isAddition message)))"

record BatchOperation_partial =
  BatchOperation_p_leafHash :: "string option"
  BatchOperation_p_isAddition :: "bool option"

definition BatchOperation_fromPartial :: "BatchOperation_partial \<Rightarrow> BatchOperation" where
  "BatchOperation_fromPartial object = createBaseBatchOperation\<lparr>
     BatchOperation_leafHash := getOr (BatchOperation_p_leafHash object) '''',
     BatchOperation_isAddition := getOr (BatchOperation_p_isAddition object) False\<rparr>"

definition BatchOperation_create :: "BatchOperation_partial option \<Rightarrow> BatchOperation" where
  "BatchOperation_create base = BatchOperation_fromPartial (getOr base
     \<lparr>BatchOperation_p_leafHash = None, BatchOperation_p_isAddition = None\<rparr>)"

subsection \<open>\<open>QueryBatchProofsRequest\<close>\<close>

record QueryBatchProofsRequest =
  QueryBatchProofsRequest_registry :: string
  QueryBatchProofsRequest_operations :: "BatchOperation list"

definition createBaseQueryBatchProofsRequest :: QueryBatchProofsRequest where
  "createBaseQueryBatchProofsRequest =
     \<lparr>QueryBatchProofsRequest_registry = '''', QueryBatchProofsRequest_operations = []\<rparr>"

definition QueryBatchProofsRequest_encode :: "'w writer_ops \<Rightarrow> QueryBatchProofsRequest
  \<Rightarrow> 'w \<Rightarrow> jserr + 'w" where
  "QueryBatchProofsRequest_encode W message = w_all [
     w_when (QueryBatchProofsRequest_registry message \<noteq> '''')
       (w_seq (w_tag W 10) (w_string W (QueryBatchProofsRequest_registry message))),
     w_each (\<lambda>v. w_nested W 18 (BatchOperation_encode W v))
       (QueryBatchProofsRequest_operations message)]"

definition QueryBatchProofsRequest_field :: "'r reader_ops \<Rightarrow> u32
  \<Rightarrow> QueryBatchProofsRequest \<Rightarrow> ('r, QueryBatchProofsRequest option) rd" where
  "QueryBatchProofsRequest_field R tag message =
     (if drop_bit 3 tag = 1 then
        (if tag \<noteq> 10 then brk
         else bindR (getR (r_string R)) (\<lambda>v. cont
           (message\<lparr>QueryBatchProofsRequest_registry := v\<rparr>)))
      else if drop_bit 3 tag = 2 then
        (if tag \<noteq> 18 then brk
         else bindR (nested R (BatchOperation_decode R)) (\<lambda>v. cont
           (message\<lparr>QueryBatchProofsRequest_operations := QueryBatchProofsRequest_operations message @ [v]\<rparr>)))
      else brk)"

definition QueryBatchProofsRequest_decode :: "'r reader_ops \<Rightarrow> 'r input \<Rightarrow> nat option
  \<Rightarrow> (jserr + QueryBatchProofsRequest \<times> 'r) option" where
  "QueryBatchProofsRequest_decode R = decode_message R
    (QueryBatchProofsRequest_field R) createBaseQueryBatchProofsRequest"

definition QueryBatchProofsRequest_fromJSON :: "js_text \<Rightarrow> jsval
  \<Rightarrow> jserr + QueryBatchProofsRequest" where
  "QueryBatchProofsRequest_fromJSON J object =
     bindE (fieldOr object ''registry'' (jsString J) '''') (\<lambda>v_registry.
     bindE (fieldArr object ''operations'' (BatchOperation_fromJSON J)) (\<lambda>v_operations.
     Inr \<lparr>QueryBatchProofsRequest_registry = v_registry,
       QueryBatchProofsRequest_operations = v_operations\<rparr>))"

definition QueryBatchProofsRequest_toJSON :: "QueryBatchProofsRequest \<Rightarrow> jsval" where
  "QueryBatchProofsRequest_toJSON message = JObj (
     setProp (QueryBatchProofsRequest_registry message \<noteq> '''') ''registry'' (JStr
       (QueryBatchProofsRequest_registry message)) @
     setProp (QueryBatchProofsRequest_operations message \<noteq> []) ''operations'' (JArr
       (map BatchOperation_toJSON (QueryBatchProofsRequest_operations message))))"

record QueryBatchProofsRequest_partial =
  QueryBatchProofsRequest_p_registry :: "string option"
  QueryBatchProofsRequest_p_operations :: "BatchOperation_partial list option"

definition QueryBatchProofsRequest_fromPartial :: "QueryBatchProofsRequest_partial
  \<Rightarrow> QueryBatchProofsRequest" where
  "QueryBatchProofsRequest_fromPartial object = createBaseQueryBatchProofsRequest\<lparr>
     QueryBatchProofsRequest_registry := getOr (QueryBatchProofsRequest_p_registry object) '''',
     QueryBatchProofsRequest_operations := getOr (map_option (map BatchOperation_fromPartial)
       (QueryBatchProofsRequest_p_operations object)) []\<rparr>"

definition QueryBatchProofsRequest_create :: "QueryBatchProofsRequest_partial option
  \<Rightarrow> QueryBatchProofsRequest" where
  "QueryBatchProofsRequest_create base = QueryBatchProofsRequest_fromPartial (getOr base
     \<lparr>QueryBatchProofsRequest_p_registry = None, QueryBatchProofsRequest_p_operations = None\<rparr>)"

subsection \<open>\<open>BatchProof\<close>\<close>

record BatchProof =
  BatchProof_index :: number
  BatchProof_path :: "string list"

definition createBaseBatchProof :: BatchProof where
  "createBaseBatchProof =
     \<lparr>BatchProof_index = numInt 0, BatchProof_path = []\<rparr>"

definition BatchProof_encode :: "'w writer_ops \<Rightarrow> BatchProof \<Rightarrow> 'w
  \<Rightarrow> jserr + 'w" where
  "BatchProof_encode W message = w_all [
     w_when (BatchProof_index message \<noteq> numInt 0)
       (w_seq (w_tag W 8) (w_uint32 W (BatchProof_index message))),
     w_each (\<lambda>v. w_seq (w_tag W 18) (w_string W v)) (BatchProof_path message)]"

definition BatchProof_field :: "'r reader_ops \<Rightarrow> u32 \<Rightarrow> BatchProof \<Rightarrow> ('r,
  BatchProof option) rd" where
  "BatchProof_field R tag message =
     (if drop_bit 3 tag = 1 then
        (if tag \<noteq> 8 then brk
         else bindR (getR (r_uint32 R)) (\<lambda>v. cont (message\<lparr>BatchProof_index := ofU32 v\<rparr>)))
      else if drop_bit 3 tag = 2 then
        (if tag \<noteq> 18 then brk
         else bindR (getR (r_string R)) (\<lambda>v. cont
           (message\<lparr>BatchProof_path := BatchProof_path message @ [v]\<rparr>)))
      else brk)"

definition BatchProof_decode :: "'r reader_ops \<Rightarrow> 'r input \<Rightarrow> nat option
  \<Rightarrow> (jserr + BatchProof \<times> 'r) option" where
  "BatchProof_decode R = decode_message R (BatchProof_field R) createBaseBatchProof"

definition BatchProof_fromJSON :: "js_text \<Rightarrow> jsval \<Rightarrow> jserr + BatchProof" where
  "BatchProof_fromJSON J object =
     bindE (fieldOr object ''index'' (jsNumber J) (numInt 0)) (\<lambda>v_index.
     bindE (fieldArr object ''path'' (\<lambda>e. Inr (jsString J e))) (\<lambda>v_path.
     Inr \<lparr>BatchProof_index = v_index, BatchProof_path = v_path\<rparr>))"

definition BatchProof_toJSON :: "BatchProof \<Rightarrow> jsval" where
  "BatchProof_toJSON message = JObj (
     setProp (BatchProof_index message \<noteq> numInt 0) ''index'' (JNum (mathRound
       (BatchProof_index message))) @
     setProp (BatchProof_path message \<noteq> []) ''path'' (JArr (map JStr (BatchProof_path message))))"

record BatchProof_partial =
  BatchProof_p_index :: "number option"
  BatchProof_p_path :: "string list option"

definition BatchProof_fromPartial :: "BatchProof_partial \<Rightarrow> BatchProof" where
  "BatchProof_fromPartial object = createBaseBatchProof\<lparr>
     BatchProof_index := getOr (BatchProof_p_index object) (numInt 0),
     BatchProof_path := getOr (BatchProof_p_path object) []\<rparr>"

definition BatchProof_create :: "BatchProof_partial option \<Rightarrow> BatchProof" where
  "BatchProof_create base = BatchProof_fromPartial (getOr base
     \<lparr>BatchProof_p_index = None, BatchProof_p_path = None\<rparr>)"

subsection \<open>\<open>QueryBatchProofsResponse\<close>\<close>

record QueryBatchProofsResponse =
  QueryBatchProofsResponse_initialRoot :: string
  QueryBatchProofsResponse_proofs :: "BatchProof list"

definition createBaseQueryBatchProofsResponse :: QueryBatchProofsResponse where
  "createBaseQueryBatchProofsResponse =
     \<lparr>QueryBatchProofsResponse_initialRoot = '''', QueryBatchProofsResponse_proofs = []\<rparr>"

definition QueryBatchProofsResponse_encode :: "'w writer_ops \<Rightarrow> QueryBatchProofsResponse
  \<Rightarrow> 'w \<Rightarrow> jserr + 'w" where
  "QueryBatchProofsResponse_encode W message = w_all [
     w_when (QueryBatchProofsResponse_initialRoot message \<noteq> '''')
       (w_seq (w_tag W 10) (w_string W (QueryBatchProofsResponse_initialRoot message))),
     w_each (\<lambda>v. w_nested W 18 (BatchProof_encode W v)) (QueryBatchProofsResponse_proofs message)]"

definition QueryBatchProofsResponse_field :: "'r reader_ops \<Rightarrow> u32
  \<Rightarrow> QueryBatchProofsResponse \<Rightarrow> ('r, QueryBatchProofsResponse option) rd" where
  "QueryBatchProofsResponse_field R tag message =
     (if drop_bit 3 tag = 1 then
        (if tag \<noteq> 10 then brk
         else bindR (getR (r_string R)) (\<lambda>v. cont
           (message\<lparr>QueryBatchProofsResponse_initialRoot := v\<rparr>)))
      else if drop_bit 3 tag = 2 then
        (if tag \<noteq> 18 then brk
         else bindR (nested R (BatchProof_decode R)) (\<lambda>v. cont
           (message\<lparr>QueryBatchProofsResponse_proofs := QueryBatchProofsResponse_proofs message @ [v]\<rparr>)))
      else brk)"

definition QueryBatchProofsResponse_decode :: "'r reader_ops \<Rightarrow> 'r input
  \<Rightarrow> nat option \<Rightarrow> (jserr + QueryBatchProofsResponse \<times> 'r) option" where
  "QueryBatchProofsResponse_decode R = decode_message R
    (QueryBatchProofsResponse_field R) createBaseQueryBatchProofsResponse"

definition QueryBatchProofsResponse_fromJSON :: "js_text \<Rightarrow> jsval
  \<Rightarrow> jserr + QueryBatchProofsResponse" where
  "QueryBatchProofsResponse_fromJSON J object =
     bindE (fieldOr object ''initialRoot'' (jsString J) '''') (\<lambda>v_initialRoot.
     bindE (fieldArr object ''proofs'' (BatchProof_fromJSON J)) (\<lambda>v_proofs.
     Inr \<lparr>QueryBatchProofsResponse_initialRoot = v_initialRoot,
       QueryBatchProofsResponse_proofs = v_proofs\<rparr>))"

definition QueryBatchProofsResponse_toJSON :: "QueryBatchProofsResponse \<Rightarrow> jsval" where
  "QueryBatchProofsResponse_toJSON message = JObj (
     setProp (QueryBatchProofsResponse_initialRoot message \<noteq> '''') ''initialRoot'' (JStr
       (QueryBatchProofsResponse_initialRoot message)) @
     setProp (QueryBatchProofsResponse_proofs message \<noteq> []) ''proofs'' (JArr (map BatchProof_toJSON
       (QueryBatchProofsResponse_proofs message))))"

record QueryBatchProofsResponse_partial =
  QueryBatchProofsResponse_p_initialRoot :: "string option"
  QueryBatchProofsResponse_p_proofs :: "BatchProof_partial list option"

definition QueryBatchProofsResponse_fromPartial :: "QueryBatchProofsResponse_partial
  \<Rightarrow> QueryBatchProofsResponse" where
  "QueryBatchProofsResponse_fromPartial object = createBaseQueryBatchProofsResponse\<lparr>
     QueryBatchProofsResponse_initialRoot := getOr (QueryBatchProofsResponse_p_initialRoot object) '''',
     QueryBatchProofsResponse_proofs := getOr (map_option (map BatchProof_fromPartial)
       (QueryBatchProofsResponse_p_proofs object)) []\<rparr>"

definition QueryBatchProofsResponse_create :: "QueryBatchProofsResponse_partial option
  \<Rightarrow> QueryBatchProofsResponse" where
  "QueryBatchProofsResponse_create base = QueryBatchProofsResponse_fromPartial (getOr base
     \<lparr>QueryBatchProofsResponse_p_initialRoot = None, QueryBatchProofsResponse_p_proofs = None\<rparr>)"

end
