(* ===== verification/Wire_Laws.thy ===== *)
theory Wire_Laws
  imports Wire
begin

unbundle bit_operations_syntax

text \<open>
  What the wire package promises, and the calculus the message codecs are verified with.

  \<open>writes s bs\<close> says that the writer step \<open>s\<close> appends the bytes \<open>bs\<close>; \<open>consumes field m bs m'\<close> says that
  the decoding loop, in front of the bytes \<open>bs\<close>, reads exactly them and turns the message \<open>m\<close> into
  \<open>m'\<close>.  Both compose along the concatenation of byte strings, so the proof for a message is a list of
  its fields.
\<close>

section \<open>What decoding keeps\<close>

text \<open>A property that every field of a message keeps holds of every decoded message.\<close>

definition keeps :: "('m \<Rightarrow> bool) \<Rightarrow> ('r, 'm option) rd \<Rightarrow> bool" where
  "keeps Q s \<longleftrightarrow> (\<forall>r m' r'. s r = Some (Inr (Some m', r')) \<longrightarrow> Q m')"

lemma keeps_cont: "Q m \<Longrightarrow> keeps Q (cont m)"
  by (simp add: keeps_def cont_def)

lemma keeps_brk: "keeps Q brk"
  by (simp add: keeps_def brk_def)

lemma keeps_bindR:
  assumes "\<And>x r r'. s r = Some (Inr (x, r')) \<Longrightarrow> keeps Q (f x)"
  shows "keeps Q (bindR s f)"
  unfolding keeps_def
proof (intro allI impI)
  fix r m' r'
  assume "bindR s f r = Some (Inr (Some m', r'))"
  then obtain x r1 where "s r = Some (Inr (x, r1))" "f x r1 = Some (Inr (Some m', r'))"
    by (auto simp: bindR_def split: option.splits sum.splits prod.splits)
  then show "Q m'" using assms [of r x r1] unfolding keeps_def by blast
qed

lemma keeps_decode_loop:
  assumes "\<And>tag m. Q m \<Longrightarrow> keeps Q (field tag m)" "decode_loop R field stop_at m r = Some res"
  shows "Q m \<Longrightarrow> res = Inr (m', r') \<Longrightarrow> Q m'"
proof -
  have "field' = field \<longrightarrow> Q m \<longrightarrow> (\<forall>m' r'. res = Inr (m', r') \<longrightarrow> Q m')"
    if "decode_loop R field' stop_at m r = Some res" for field'
    using that
  proof (rule decode_loop.raw_induct [rotated], goal_cases)
    case (1 dl R field' stop_at m r res)
    show ?case
    proof (intro impI allI)
      fix m' r'
      assume h: "field' = field" "Q m" "res = Inr (m', r')"
      have ih: "Q m2" if "dl R field stop_at m1 r1 = Some (Inr (m2, r2))" "Q m1" for m1 r1 m2 r2
        using 1(1) that h(1) by blast
      show "Q m'"
      proof (cases "r_pos R r < stop_at")
        case True
        obtain tag r1 where t: "r_uint32 R r = Inr (tag, r1)"
          using 1(2) h True by (cases "r_uint32 R r") auto
        obtain mo r2 where f: "field tag m r1 = Some (Inr (mo, r2))"
          using 1(2) h True t by (cases "field tag m r1") (auto split: sum.splits)
        show ?thesis
        proof (cases mo)
          case None
          then show ?thesis using 1(2) h True t f ih by (auto split: if_splits sum.splits)
        next
          case (Some m1)
          then have "Q m1" using assms(1) [OF h(2)] f unfolding keeps_def by blast
          then show ?thesis using 1(2) h True t f Some ih by auto
        qed
      qed (use 1(2) h in auto)
    qed
  qed
  then show "Q m \<Longrightarrow> res = Inr (m', r') \<Longrightarrow> Q m'" using assms(2) by blast
qed

lemma keeps_decode_message:
  assumes "\<And>tag m. Q m \<Longrightarrow> keeps Q (field tag m)" "Q base"
    and "decode_message R field base input len = Some (Inr (m, r))"
  shows "Q m"
  using keeps_decode_loop [where Q = Q and field = field, OF assms(1) _ assms(2) refl] assms(3)
  by (simp add: decode_message_def Let_def)

section \<open>Encodings of the fields\<close>

text \<open>The bytes of a field, over the encodings of the format.\<close>

record wire_format =
  varint :: "nat \<Rightarrow> bytes"
  svarint :: "int \<Rightarrow> bytes"
  utf8 :: "string \<Rightarrow> bytes"
  dbl :: "number \<Rightarrow> bytes"

definition lenPrefixed :: "wire_format \<Rightarrow> bytes \<Rightarrow> bytes" where
  "lenPrefixed F bs = varint F (length bs) @ bs"

definition strBytes :: "wire_format \<Rightarrow> nat \<Rightarrow> string \<Rightarrow> bytes" where
  "strBytes F tag s = varint F tag @ lenPrefixed F (utf8 F s)"

definition u32Bytes :: "wire_format \<Rightarrow> nat \<Rightarrow> number \<Rightarrow> bytes" where
  "u32Bytes F tag x = varint F tag @ varint F (nat (numToInt x))"

definition i32Bytes :: "wire_format \<Rightarrow> nat \<Rightarrow> number \<Rightarrow> bytes" where
  "i32Bytes F tag x = varint F tag @ svarint F (numToInt x)"

definition boolBytes :: "wire_format \<Rightarrow> nat \<Rightarrow> bool \<Rightarrow> bytes" where
  "boolBytes F tag b = varint F tag @ varint F (if b then 1 else 0)"

definition u64Bytes :: "wire_format \<Rightarrow> nat \<Rightarrow> number \<Rightarrow> bytes" where
  "u64Bytes F tag x = varint F tag @ varint F (nat (numToInt x))"

definition i64Bytes :: "wire_format \<Rightarrow> nat \<Rightarrow> number \<Rightarrow> bytes" where
  "i64Bytes F tag x = varint F tag @ svarint F (numToInt x)"

definition dblBytes :: "wire_format \<Rightarrow> nat \<Rightarrow> number \<Rightarrow> bytes" where
  "dblBytes F tag x = varint F tag @ dbl F x"

definition binBytes :: "wire_format \<Rightarrow> nat \<Rightarrow> bytes \<Rightarrow> bytes" where
  "binBytes F tag bs = varint F tag @ lenPrefixed F bs"

definition packedBytes :: "wire_format \<Rightarrow> number list \<Rightarrow> bytes" where
  "packedBytes F xs = concat (map (\<lambda>x. svarint F (numToInt x)) xs)"

definition msgBytes :: "wire_format \<Rightarrow> nat \<Rightarrow> bytes \<Rightarrow> bytes" where
  "msgBytes F tag bs = varint F tag @ lenPrefixed F bs"

text \<open>A string whose text fits the 32-bit length prefix.\<close>

definition strOk :: "wire_format \<Rightarrow> string \<Rightarrow> bool" where
  "strOk F s \<longleftrightarrow> length (utf8 F s) < 2 ^ 32"

definition msgOk :: "bytes \<Rightarrow> bool" where
  "msgOk bs \<longleftrightarrow> length bs < 2 ^ 32"

text \<open>A 64-bit integer that a number holds exactly.\<close>

definition isUInt64 :: "number \<Rightarrow> bool" where
  "isUInt64 x \<longleftrightarrow> isSafe x \<and> 0 \<le> numToInt x"

section \<open>The contracts\<close>

locale wire_reader =
  fixes R :: "'r reader_ops" and remaining :: "'r \<Rightarrow> bytes" and F :: wire_format
  assumes new_reader: "remaining (r_new R bs) = bs" "r_pos R (r_new R bs) = 0" "r_len R (r_new R bs) = length bs"
    and varint_nonempty: "varint F n \<noteq> []"
    and uint32_reads: "n < 2 ^ 32 \<Longrightarrow> remaining r = varint F n @ ys \<Longrightarrow>
      \<exists>r'. r_uint32 R r = Inr (word_of_nat n, r') \<and> remaining r' = ys \<and>
        r_pos R r' = r_pos R r + length (varint F n) \<and> r_len R r' = r_len R r"
    and int32_reads: "- (2 ^ 31) \<le> i \<Longrightarrow> i < 2 ^ 31 \<Longrightarrow> remaining r = svarint F i @ ys \<Longrightarrow>
      \<exists>r'. r_int32 R r = Inr (i, r') \<and> remaining r' = ys \<and>
        r_pos R r' = r_pos R r + length (svarint F i) \<and> r_len R r' = r_len R r"
    and string_reads: "length (utf8 F s) < 2 ^ 32 \<Longrightarrow> remaining r = varint F (length (utf8 F s)) @ utf8 F s @ ys \<Longrightarrow>
      \<exists>r'. r_string R r = Inr (s, r') \<and> remaining r' = ys \<and>
        r_pos R r' = r_pos R r + length (varint F (length (utf8 F s)) @ utf8 F s) \<and> r_len R r' = r_len R r"
    and bool_reads: "remaining r = varint F (if b then 1 else 0) @ ys \<Longrightarrow>
      \<exists>r'. r_bool R r = Inr (b, r') \<and> remaining r' = ys \<and>
        r_pos R r' = r_pos R r + length (varint F (if b then 1 else 0)) \<and> r_len R r' = r_len R r"
    and uint32_progress: "r_uint32 R r = Inr (x, r') \<Longrightarrow>
      r_pos R r < r_pos R r' \<and> r_pos R r' \<le> r_len R r' \<and> r_len R r' = r_len R r"
    and int32_progress: "r_int32 R r = Inr (y, r') \<Longrightarrow>
      r_pos R r < r_pos R r' \<and> r_pos R r' \<le> r_len R r' \<and> r_len R r' = r_len R r"
    and string_progress: "r_string R r = Inr (s, r') \<Longrightarrow> r_pos R r \<le> r_pos R r' \<and> r_len R r' = r_len R r"
    and bool_progress: "r_bool R r = Inr (b, r') \<Longrightarrow> r_pos R r \<le> r_pos R r' \<and> r_len R r' = r_len R r"
    and skip_progress: "r_skip R t r = Inr (u, r') \<Longrightarrow> r_pos R r \<le> r_pos R r' \<and> r_len R r' = r_len R r"
    and svarint_nonempty: "svarint F i \<noteq> []"
    and uint64_reads: "n < 2 ^ 64 \<Longrightarrow> remaining r = varint F n @ ys \<Longrightarrow>
      \<exists>r'. r_uint64 R r = Inr (int n, r') \<and> remaining r' = ys \<and>
        r_pos R r' = r_pos R r + length (varint F n) \<and> r_len R r' = r_len R r"
    and int64_reads: "- (2 ^ 63) \<le> i \<Longrightarrow> i < 2 ^ 63 \<Longrightarrow> remaining r = svarint F i @ ys \<Longrightarrow>
      \<exists>r'. r_int64 R r = Inr (i, r') \<and> remaining r' = ys \<and>
        r_pos R r' = r_pos R r + length (svarint F i) \<and> r_len R r' = r_len R r"
    and double_reads: "isDouble z \<Longrightarrow> remaining r = dbl F z @ ys \<Longrightarrow>
      \<exists>r'. r_double R r = Inr (z, r') \<and> remaining r' = ys \<and>
        r_pos R r' = r_pos R r + length (dbl F z) \<and> r_len R r' = r_len R r"
    and bytes_reads: "length bs < 2 ^ 32 \<Longrightarrow> remaining r = varint F (length bs) @ bs @ ys \<Longrightarrow>
      \<exists>r'. r_bytes R r = Inr (bs, r') \<and> remaining r' = ys \<and>
        r_pos R r' = r_pos R r + length (varint F (length bs) @ bs) \<and> r_len R r' = r_len R r"
    and uint64_progress: "r_uint64 R r = Inr (y, r') \<Longrightarrow> r_pos R r \<le> r_pos R r' \<and> r_len R r' = r_len R r"
    and int64_progress: "r_int64 R r = Inr (y, r') \<Longrightarrow> r_pos R r \<le> r_pos R r' \<and> r_len R r' = r_len R r"
    and double_progress: "r_double R r = Inr (z, r') \<Longrightarrow> r_pos R r \<le> r_pos R r' \<and> r_len R r' = r_len R r"
    and bytes_progress: "r_bytes R r = Inr (bs, r') \<Longrightarrow> r_pos R r \<le> r_pos R r' \<and> r_len R r' = r_len R r"

text \<open>
  A writer is a stack of chunks: \<open>fork\<close> opens a chunk, \<open>join\<close> closes it and appends it to the one
  below with its length in front.
\<close>

locale wire_writer =
  fixes W :: "'w writer_ops" and out :: "'w \<Rightarrow> bytes list" and F :: wire_format
  assumes new_writer: "out (w_new W) = [[]]"
    and uint32_writes: "isUInt32 x \<Longrightarrow> out w = c # cs \<Longrightarrow>
      \<exists>w'. w_uint32 W x w = Inr w' \<and> out w' = (c @ varint F (nat (numToInt x))) # cs"
    and int32_writes: "isInt32 x \<Longrightarrow> out w = c # cs \<Longrightarrow>
      \<exists>w'. w_int32 W x w = Inr w' \<and> out w' = (c @ svarint F (numToInt x)) # cs"
    and string_writes: "out w = c # cs \<Longrightarrow>
      \<exists>w'. w_string W s w = Inr w' \<and> out w' = (c @ varint F (length (utf8 F s)) @ utf8 F s) # cs"
    and bool_writes: "out w = c # cs \<Longrightarrow>
      \<exists>w'. w_bool W b w = Inr w' \<and> out w' = (c @ varint F (if b then 1 else 0)) # cs"
    and fork_opens: "out (w_fork W w) = [] # out w"
    and join_closes: "out w = c # d # cs \<Longrightarrow>
      \<exists>w'. w_join W w = Inr w' \<and> out w' = (d @ varint F (length c) @ c) # cs"
    and finish_returns: "out w = [c] \<Longrightarrow> w_finish W w = c"
    and uint64_writes: "isUInt64 x \<Longrightarrow> out w = c # cs \<Longrightarrow>
      \<exists>w'. w_uint64 W x w = Inr w' \<and> out w' = (c @ varint F (nat (numToInt x))) # cs"
    and int64_writes: "isSafe x \<Longrightarrow> out w = c # cs \<Longrightarrow>
      \<exists>w'. w_int64 W x w = Inr w' \<and> out w' = (c @ svarint F (numToInt x)) # cs"
    and double_writes: "isDouble x \<Longrightarrow> out w = c # cs \<Longrightarrow>
      \<exists>w'. w_double W x w = Inr w' \<and> out w' = (c @ dbl F x) # cs"
    and bytes_writes: "out w = c # cs \<Longrightarrow>
      \<exists>w'. w_bytes W bs w = Inr w' \<and> out w' = (c @ varint F (length bs) @ bs) # cs"
    and uint32_rejects: "\<not> isUInt32 x \<Longrightarrow> \<exists>e. w_uint32 W x w = Inl e"

section \<open>Writing\<close>

context wire_writer
begin

definition writes :: "('w \<Rightarrow> jserr + 'w) \<Rightarrow> bytes \<Rightarrow> bool" where
  "writes s bs \<longleftrightarrow> (\<forall>w c cs. out w = c # cs \<longrightarrow> (\<exists>w'. s w = Inr w' \<and> out w' = (c @ bs) # cs))"

lemma writesD: "writes s bs \<Longrightarrow> out w = c # cs \<Longrightarrow> \<exists>w'. s w = Inr w' \<and> out w' = (c @ bs) # cs"
  by (simp add: writes_def)

lemma writes_Inr: "writes Inr []"
  by (simp add: writes_def)

lemma writes_bind: "writes s1 bs1 \<Longrightarrow> writes s2 bs2 \<Longrightarrow> writes (\<lambda>w. bindE (s1 w) s2) (bs1 @ bs2)"
  unfolding writes_def by (metis append_assoc bindE_simps(2))

lemma writes_seq: "writes s1 bs1 \<Longrightarrow> writes s2 bs2 \<Longrightarrow> writes (w_seq s1 s2) (bs1 @ bs2)"
  unfolding w_seq_def by (rule writes_bind)

lemma writes_when: "(c \<Longrightarrow> writes s bs) \<Longrightarrow> writes (w_when c s) (if c then bs else [])"
  by (cases c) (simp_all add: writes_def w_when_def)

lemma writes_opt:
  "(\<And>v. x = Some v \<Longrightarrow> writes (s v) (f v)) \<Longrightarrow> writes (w_opt s x) (case x of None \<Rightarrow> [] | Some v \<Rightarrow> f v)"
  by (cases x) (simp_all add: writes_def w_opt_def)

lemma writes_all_Nil: "writes (w_all []) []"
  by (simp add: writes_def)

lemma writes_all_single: "writes s bs \<Longrightarrow> writes (w_all [s]) bs"
  by (fastforce simp: writes_def)

lemma writes_all_Cons: "writes s bs \<Longrightarrow> writes (w_all ss) bs' \<Longrightarrow> writes (w_all (s # ss)) (bs @ bs')"
  using writes_bind [of s bs "w_all ss" bs'] by (simp add: writes_def)

lemma writes_each: "(\<And>v. v \<in> set vs \<Longrightarrow> writes (s v) (f v)) \<Longrightarrow> writes (w_each s vs) (concat (map f vs))"
proof (induction vs)
  case Nil
  then show ?case by (simp add: writes_def)
next
  case (Cons v vs)
  then have "writes (\<lambda>w. bindE (s v w) (w_each s vs)) (f v @ concat (map f vs))"
    by (intro writes_bind) auto
  then show ?case by (simp add: writes_def)
qed

lemma writes_tag: "0 \<le> t \<Longrightarrow> t < 2 ^ 32 \<Longrightarrow> writes (w_tag W t) (varint F (nat t))"
  using uint32_writes [of "numInt t"] by (simp add: writes_def w_tag_def isUInt32_def)

lemma writes_string:
  "0 \<le> t \<Longrightarrow> t < 2 ^ 32 \<Longrightarrow> writes (w_seq (w_tag W t) (w_string W s)) (strBytes F (nat t) s)"
  unfolding strBytes_def lenPrefixed_def
  by (intro writes_seq writes_tag) (simp_all add: writes_def string_writes)

lemma writes_uint32:
  "0 \<le> t \<Longrightarrow> t < 2 ^ 32 \<Longrightarrow> isUInt32 x \<Longrightarrow>
    writes (w_seq (w_tag W t) (w_uint32 W x)) (u32Bytes F (nat t) x)"
  unfolding u32Bytes_def by (intro writes_seq writes_tag) (simp_all add: writes_def uint32_writes)

lemma writes_int32:
  "0 \<le> t \<Longrightarrow> t < 2 ^ 32 \<Longrightarrow> isInt32 x \<Longrightarrow>
    writes (w_seq (w_tag W t) (w_int32 W x)) (i32Bytes F (nat t) x)"
  unfolding i32Bytes_def by (intro writes_seq writes_tag) (simp_all add: writes_def int32_writes)

lemma writes_w_bool: "writes (w_bool W b) (varint F (if b then 1 else 0))"
  unfolding writes_def using bool_writes by blast

lemma writes_bool:
  "0 \<le> t \<Longrightarrow> t < 2 ^ 32 \<Longrightarrow> writes (w_seq (w_tag W t) (w_bool W b)) (boolBytes F (nat t) b)"
  unfolding boolBytes_def by (intro writes_seq writes_tag writes_w_bool) simp_all

lemma writes_uint64:
  "0 \<le> t \<Longrightarrow> t < 2 ^ 32 \<Longrightarrow> isUInt64 x \<Longrightarrow>
    writes (w_seq (w_tag W t) (w_uint64 W x)) (u64Bytes F (nat t) x)"
  unfolding u64Bytes_def by (intro writes_seq writes_tag) (simp_all add: writes_def uint64_writes)

lemma writes_int64:
  "0 \<le> t \<Longrightarrow> t < 2 ^ 32 \<Longrightarrow> isSafe x \<Longrightarrow>
    writes (w_seq (w_tag W t) (w_int64 W x)) (i64Bytes F (nat t) x)"
  unfolding i64Bytes_def by (intro writes_seq writes_tag) (simp_all add: writes_def int64_writes)

lemma writes_double:
  "0 \<le> t \<Longrightarrow> t < 2 ^ 32 \<Longrightarrow> isDouble x \<Longrightarrow>
    writes (w_seq (w_tag W t) (w_double W x)) (dblBytes F (nat t) x)"
  unfolding dblBytes_def by (intro writes_seq writes_tag) (simp_all add: writes_def double_writes)

lemma writes_bytes:
  "0 \<le> t \<Longrightarrow> t < 2 ^ 32 \<Longrightarrow> writes (w_seq (w_tag W t) (w_bytes W bs)) (binBytes F (nat t) bs)"
  unfolding binBytes_def lenPrefixed_def
  by (intro writes_seq writes_tag) (simp_all add: writes_def bytes_writes)

lemma writes_nested:
  assumes "0 \<le> t" "t < 2 ^ 32" "writes enc bs"
  shows "writes (w_nested W t enc) (msgBytes F (nat t) bs)"
proof -
  have "writes (\<lambda>w. bindE (enc (w_fork W w)) (w_join W)) (lenPrefixed F bs)"
    unfolding writes_def
  proof (intro allI impI)
    fix w c cs
    assume "out w = c # cs"
    then have "out (w_fork W w) = [] # c # cs" by (simp add: fork_opens)
    from writesD [OF assms(3) this] obtain w1 where w1: "enc (w_fork W w) = Inr w1" "out w1 = bs # c # cs"
      by auto
    from join_closes [OF w1(2)] w1(1)
    show "\<exists>w'. bindE (enc (w_fork W w)) (w_join W) = Inr w' \<and> out w' = (c @ lenPrefixed F bs) # cs"
      by (simp add: lenPrefixed_def)
  qed
  from writes_bind [OF writes_tag [OF assms(1,2)] this] show ?thesis
    by (simp add: writes_def w_nested_def msgBytes_def)
qed

lemma writes_packed:
  assumes "0 \<le> t" "t < 2 ^ 32" "\<forall>v\<in>set vs. isInt32 v"
  shows "writes (w_nested W t (w_each (w_int32 W) vs)) (msgBytes F (nat t) (packedBytes F vs))"
  unfolding packedBytes_def using assms(3)
  by (intro writes_nested writes_each assms) (simp_all add: writes_def int32_writes)

lemma writes_finish:
  assumes "writes enc bs"
  shows "\<exists>w. enc (w_new W) = Inr w \<and> w_finish W w = bs"
  using writesD [OF assms new_writer] finish_returns by auto

text \<open>A statement that throws on every writer with an open chunk.\<close>

definition rejects :: "('w \<Rightarrow> jserr + 'w) \<Rightarrow> bool" where
  "rejects s \<longleftrightarrow> (\<forall>w. out w \<noteq> [] \<longrightarrow> (\<exists>e. s w = Inl e))"

lemma rejects_all_here: "rejects s \<Longrightarrow> rejects (w_all (s # ss))"
  by (fastforce simp: rejects_def)

lemma rejects_all_later: "writes s bs \<Longrightarrow> rejects (w_all ss) \<Longrightarrow> rejects (w_all (s # ss))"
  by (fastforce simp: rejects_def neq_Nil_conv dest: writesD)

lemma rejects_when: "c \<Longrightarrow> rejects s \<Longrightarrow> rejects (w_when c s)"
  by (simp add: rejects_def w_when_def)

lemma rejects_opt: "rejects (s v) \<Longrightarrow> rejects (w_opt s (Some v))"
  by (simp add: rejects_def w_opt_def)

lemma rejects_seq: "writes s1 bs \<Longrightarrow> rejects s2 \<Longrightarrow> rejects (w_seq s1 s2)"
  by (fastforce simp: rejects_def w_seq_def neq_Nil_conv dest: writesD)

lemma rejects_uint32:
  "0 \<le> t \<Longrightarrow> t < 2 ^ 32 \<Longrightarrow> \<not> isUInt32 x \<Longrightarrow> rejects (w_seq (w_tag W t) (w_uint32 W x))"
  by (rule rejects_seq [OF writes_tag]) (simp_all add: rejects_def uint32_rejects)

lemma rejects_nested:
  assumes "0 \<le> t" "t < 2 ^ 32" "rejects enc"
  shows "rejects (w_nested W t enc)"
  unfolding rejects_def
proof (intro allI impI)
  fix w
  assume "out w \<noteq> []"
  then obtain w1 where "w_tag W t w = Inr w1"
    using writesD [OF writes_tag [OF assms(1,2)]] by (fastforce simp: neq_Nil_conv)
  moreover obtain e where "enc (w_fork W w1) = Inl e"
    using assms(3) fork_opens [of w1] unfolding rejects_def by (metis list.distinct(1))
  ultimately show "\<exists>e. w_nested W t enc w = Inl e"
    by (simp add: w_nested_def)
qed

end

section \<open>Reading\<close>

lemma bindR_simps [simp]:
  "m r = Some (Inr (x, r')) \<Longrightarrow> bindR m f r = f x r'"
  "m r = Some (Inl e) \<Longrightarrow> bindR m f r = Some (Inl e)"
  by (simp_all add: bindR_def)

context wire_reader
begin

text \<open>The reader \<open>r'\<close> is \<open>r\<close> after \<open>n\<close> bytes, with \<open>ys\<close> left.\<close>

definition after :: "'r \<Rightarrow> nat \<Rightarrow> bytes \<Rightarrow> 'r \<Rightarrow> bool" where
  "after r n ys r' \<longleftrightarrow> remaining r' = ys \<and> r_pos R r' = r_pos R r + n \<and> r_len R r' = r_len R r"

text \<open>In front of \<open>bs\<close>, the step \<open>m\<close> reads exactly \<open>bs\<close> and returns \<open>x\<close>.\<close>

definition parses :: "('r, 'a) rd \<Rightarrow> bytes \<Rightarrow> 'a \<Rightarrow> bool" where
  "parses m bs x \<longleftrightarrow> (\<forall>r ys. remaining r = bs @ ys \<longrightarrow>
     (\<exists>r'. m r = Some (Inr (x, r')) \<and> after r (length bs) ys r'))"

lemma parsesD:
  "parses m bs x \<Longrightarrow> remaining r = bs @ ys \<Longrightarrow> \<exists>r'. m r = Some (Inr (x, r')) \<and> after r (length bs) ys r'"
  unfolding parses_def by blast

lemma afterD: "after r n ys r' \<Longrightarrow> remaining r' = ys"
  by (simp add: after_def)

lemma after_trans: "after r n ys r1 \<Longrightarrow> after r1 k zs r2 \<Longrightarrow> after r (n + k) zs r2"
  by (simp add: after_def)

lemma parses_uint32: "n < 2 ^ 32 \<Longrightarrow> parses (getR (r_uint32 R)) (varint F n) (word_of_nat n)"
  unfolding parses_def after_def getR_def option.inject by (intro allI impI uint32_reads) simp_all

lemma parses_string: "strOk F s \<Longrightarrow> parses (getR (r_string R)) (lenPrefixed F (utf8 F s)) s"
  unfolding parses_def after_def getR_def strOk_def lenPrefixed_def option.inject by (intro allI impI string_reads) simp_all

lemma parses_int32: "- (2 ^ 31) \<le> i \<Longrightarrow> i < 2 ^ 31 \<Longrightarrow> parses (getR (r_int32 R)) (svarint F i) i"
  unfolding parses_def after_def getR_def option.inject by (intro allI impI int32_reads) simp_all

lemma parses_bool: "parses (getR (r_bool R)) (varint F (if b then 1 else 0)) b"
  unfolding parses_def after_def getR_def option.inject using bool_reads by blast

lemma longR_reads: "op r = Inr (numToInt x, r') \<Longrightarrow> isSafe x \<Longrightarrow> longR op r = Inr (x, r')"
  by (simp add: longR_def longToNumber_safe)

lemma parses_uint64:
  assumes "isUInt64 x"
  shows "parses (getR (longR (r_uint64 R))) (varint F (nat (numToInt x))) x"
  unfolding parses_def after_def getR_def option.inject
proof (intro allI impI)
  fix r ys
  assume r: "remaining r = varint F (nat (numToInt x)) @ ys"
  have x: "isSafe x" "int (nat (numToInt x)) = numToInt x" "nat (numToInt x) < 2 ^ 64"
    using assms by (auto simp: isUInt64_def isSafe_def nat_less_iff)
  from uint64_reads [OF x(3) r] x(2) longR_reads [of "r_uint64 R" r x] x(1)
  show "\<exists>r'. longR (r_uint64 R) r = Inr (x, r') \<and> remaining r' = ys \<and>
      r_pos R r' = r_pos R r + length (varint F (nat (numToInt x))) \<and> r_len R r' = r_len R r"
    by auto
qed

lemma parses_int64:
  assumes "isSafe x"
  shows "parses (getR (longR (r_int64 R))) (svarint F (numToInt x)) x"
  unfolding parses_def after_def getR_def option.inject
proof (intro allI impI)
  fix r ys
  assume r: "remaining r = svarint F (numToInt x) @ ys"
  have "- (2 ^ 63) \<le> numToInt x" "numToInt x < 2 ^ 63" using assms by (auto simp: isSafe_def)
  from int64_reads [OF this r] longR_reads [of "r_int64 R" r x] assms
  show "\<exists>r'. longR (r_int64 R) r = Inr (x, r') \<and> remaining r' = ys \<and>
      r_pos R r' = r_pos R r + length (svarint F (numToInt x)) \<and> r_len R r' = r_len R r"
    by auto
qed

lemma parses_double: "isDouble x \<Longrightarrow> parses (getR (r_double R)) (dbl F x) x"
  unfolding parses_def after_def getR_def option.inject by (intro allI impI double_reads) simp_all

lemma parses_bytes: "msgOk bs \<Longrightarrow> parses (getR (r_bytes R)) (lenPrefixed F bs) bs"
  unfolding parses_def after_def getR_def msgOk_def lenPrefixed_def option.inject
  by (intro allI impI bytes_reads) simp_all

lemma parses_bind:
  assumes "parses m bs x" "parses (f x) bs' y"
  shows "parses (bindR m f) (bs @ bs') y"
  unfolding parses_def
proof (intro allI impI)
  fix r ys
  assume "remaining r = (bs @ bs') @ ys"
  then obtain r1 where r1: "m r = Some (Inr (x, r1))" "after r (length bs) (bs' @ ys) r1"
    using parsesD [OF assms(1), of r "bs' @ ys"] by auto
  obtain r2 where r2: "f x r1 = Some (Inr (y, r2))" "after r1 (length bs') ys r2"
    using parsesD [OF assms(2) afterD [OF r1(2)]] by blast
  show "\<exists>r'. bindR m f r = Some (Inr (y, r')) \<and> after r (length (bs @ bs')) ys r'"
    using r1(1) r2(1) after_trans [OF r1(2) r2(2)] by auto
qed

lemma parses_cont: "parses (cont m) [] (Some m)"
  by (simp add: parses_def cont_def after_def)

lemma parses_bind_cont: "parses m bs x \<Longrightarrow> parses (bindR m (\<lambda>v. cont (f v))) bs (Some (f x))"
  using parses_bind [of m bs x "\<lambda>v. cont (f v)" "[]", OF _ parses_cont] by simp

text \<open>The loop reads \<open>bs\<close> and goes on with the message \<open>m'\<close>.\<close>

definition consumes :: "(u32 \<Rightarrow> 'm \<Rightarrow> ('r, 'm option) rd) \<Rightarrow> 'm \<Rightarrow> bytes \<Rightarrow> 'm \<Rightarrow> bool" where
  "consumes field m bs m' \<longleftrightarrow> (\<forall>r ys n. remaining r = bs @ ys \<longrightarrow> r_pos R r + length bs \<le> n \<longrightarrow>
     (\<exists>r'. after r (length bs) ys r' \<and> decode_loop R field n m r = decode_loop R field n m' r'))"

lemma consumesD:
  "consumes field m bs m' \<Longrightarrow> remaining r = bs @ ys \<Longrightarrow> r_pos R r + length bs \<le> n \<Longrightarrow>
    \<exists>r'. after r (length bs) ys r' \<and> decode_loop R field n m r = decode_loop R field n m' r'"
  unfolding consumes_def by blast

lemma consumes_Nil: "consumes field m [] m"
  unfolding consumes_def by (auto simp: after_def)

lemma consumes_append:
  assumes "consumes field m bs m1" "consumes field m1 bs' m2"
  shows "consumes field m (bs @ bs') m2"
  unfolding consumes_def
proof (intro allI impI)
  fix r ys n
  assume r: "remaining r = (bs @ bs') @ ys" "r_pos R r + length (bs @ bs') \<le> n"
  then obtain r1 where r1: "after r (length bs) (bs' @ ys) r1"
      "decode_loop R field n m r = decode_loop R field n m1 r1"
    using consumesD [OF assms(1), of r "bs' @ ys" n] by auto
  have "r_pos R r1 + length bs' \<le> n" using r(2) r1(1) by (simp add: after_def)
  from consumesD [OF assms(2) afterD [OF r1(1)] this]
  obtain r2 where r2: "after r1 (length bs') ys r2"
      "decode_loop R field n m1 r1 = decode_loop R field n m2 r2"
    by blast
  show "\<exists>r'. after r (length (bs @ bs')) ys r' \<and> decode_loop R field n m r = decode_loop R field n m2 r'"
    using after_trans [OF r1(1) r2(1)] r1(2) r2(2) by auto
qed

lemma consumes_field:
  assumes t: "t < 2 ^ 32" and f: "parses (field (word_of_nat t) m) bs (Some m')"
  shows "consumes field m (varint F t @ bs) m'"
  unfolding consumes_def
proof (intro allI impI)
  fix r ys n
  assume r: "remaining r = (varint F t @ bs) @ ys" "r_pos R r + length (varint F t @ bs) \<le> n"
  obtain r1 where r1: "r_uint32 R r = Inr (word_of_nat t, r1)" "after r (length (varint F t)) (bs @ ys) r1"
    using parsesD [OF parses_uint32 [OF t], of r "bs @ ys"] r(1) by (auto simp: getR_def)
  obtain r2 where r2: "field (word_of_nat t) m r1 = Some (Inr (Some m', r2))" "after r1 (length bs) ys r2"
    using parsesD [OF f afterD [OF r1(2)]] by blast
  have "r_pos R r < n"
    using r(2) varint_nonempty [of t] by (cases "varint F t") auto
  then have "decode_loop R field n m r = decode_loop R field n m' r2"
    using r1(1) r2(1) by (subst decode_loop.simps) simp
  then show "\<exists>r'. after r (length (varint F t @ bs)) ys r' \<and> decode_loop R field n m r = decode_loop R field n m' r'"
    using after_trans [OF r1(2) r2(2)] by auto
qed

lemma consumes_if:
  "(c \<Longrightarrow> consumes field m bs m') \<Longrightarrow> (\<not> c \<Longrightarrow> m' = m) \<Longrightarrow> consumes field m (if c then bs else []) m'"
  by (cases c) (simp_all add: consumes_Nil)

lemma consumes_each:
  assumes "\<And>v m. v \<in> set vs \<Longrightarrow> consumes field m (f v) (push m v)"
  shows "consumes field m (concat (map f vs)) (foldl push m vs)"
  using assms
proof (induction vs arbitrary: m)
  case Nil
  then show ?case by (simp add: consumes_Nil)
next
  case (Cons v vs)
  then show ?case by (auto intro: consumes_append)
qed

text \<open>The steps for the kinds of fields; \<open>upd\<close> is the assignment of the field.\<close>

lemma consumes_string:
  assumes "field (word_of_nat t) m = bindR (getR (r_string R)) (\<lambda>v. cont (upd v))" "t < 2 ^ 32" "strOk F s"
  shows "consumes field m (strBytes F t s) (upd s)"
  unfolding strBytes_def
  by (rule consumes_field [OF assms(2)]) (unfold assms(1), rule parses_bind_cont, rule parses_string [OF assms(3)])

lemma consumes_bool:
  assumes "field (word_of_nat t) m = bindR (getR (r_bool R)) (\<lambda>v. cont (upd v))" "t < 2 ^ 32"
  shows "consumes field m (boolBytes F t b) (upd b)"
  unfolding boolBytes_def
  by (rule consumes_field [OF assms(2)]) (unfold assms(1), rule parses_bind_cont, rule parses_bool)

lemma consumes_uint32:
  assumes "field (word_of_nat t) m = bindR (getR (r_uint32 R)) (\<lambda>v. cont (upd (ofU32 v)))" "t < 2 ^ 32"
    "isUInt32 x"
  shows "consumes field m (u32Bytes F t x) (upd x)"
proof -
  have x: "x = numInt (numToInt x)" "0 \<le> numToInt x" "numToInt x < 2 ^ 32"
    using assms(3) by (simp_all add: isUInt32_def integer_numInt)
  then have "ofU32 (word_of_nat (nat (numToInt x))) = x"
    by (subst (2) x(1)) (simp add: ofU32_def uint_word_of_int_eq take_bit_int_eq_self)
  moreover have "nat (numToInt x) < 2 ^ 32" using x(2,3) by (simp add: nat_less_iff)
  note parses_bind_cont [OF parses_uint32 [OF this], of "\<lambda>v. upd (ofU32 v)"]
  ultimately show ?thesis
    unfolding u32Bytes_def by (intro consumes_field [OF assms(2)]) (simp add: assms(1))
qed

lemma consumes_int32:
  assumes "field (word_of_nat t) m = bindR (getR (r_int32 R)) (\<lambda>v. cont (upd (numInt v)))" "t < 2 ^ 32"
    "isInt32 x"
  shows "consumes field m (i32Bytes F t x) (upd x)"
proof -
  have x: "x = numInt (numToInt x)" "- (2 ^ 31) \<le> numToInt x" "numToInt x < 2 ^ 31"
    using assms(3) by (simp_all add: isInt32_def integer_numInt)
  have "parses (field (word_of_nat t) m) (svarint F (numToInt x)) (Some (upd (numInt (numToInt x))))"
    unfolding assms(1) by (rule parses_bind_cont) (rule parses_int32 [OF x(2,3)])
  then show ?thesis
    unfolding i32Bytes_def using x(1) by (intro consumes_field [OF assms(2)]) simp
qed

text \<open>The other scalar fields of the descriptor messages.\<close>

lemma consumes_scalar:
  assumes "field (word_of_nat t) m = bindR rd (\<lambda>v. cont (upd v))" "t < 2 ^ 32" "parses rd bs x"
  shows "consumes field m (varint F t @ bs) (upd x)"
  by (rule consumes_field [OF assms(2)]) (unfold assms(1), rule parses_bind_cont, rule assms(3))

lemma parses_packed_loop:
  assumes "\<forall>v\<in>set vs. isInt32 v" "remaining r = packedBytes F vs @ ys"
    "end2 = r_pos R r + length (packedBytes F vs)"
  shows "\<exists>r'. packed_loop R end2 xs r = Some (Inr (xs @ vs, r')) \<and> after r (length (packedBytes F vs)) ys r'"
  using assms
proof (induction vs arbitrary: r xs)
  case Nil
  then show ?case by (subst packed_loop.simps) (simp add: packedBytes_def after_def)
next
  case (Cons v vs)
  have v: "v = numInt (numToInt v)" "- (2 ^ 31) \<le> numToInt v" "numToInt v < 2 ^ 31"
    using Cons.prems(1) by (auto simp: isInt32_def intro: integer_numInt)
  have split: "packedBytes F (v # vs) = svarint F (numToInt v) @ packedBytes F vs"
    by (simp add: packedBytes_def)
  obtain r1 where r1: "r_int32 R r = Inr (numToInt v, r1)"
      "after r (length (svarint F (numToInt v))) (packedBytes F vs @ ys) r1"
    using parsesD [OF parses_int32 [OF v(2,3)], of r "packedBytes F vs @ ys"] Cons.prems(2) split
    by (auto simp: getR_def)
  have pos: "r_pos R r1 = r_pos R r + length (svarint F (numToInt v))" "remaining r1 = packedBytes F vs @ ys"
    using r1(2) by (simp_all add: after_def)
  then have "end2 = r_pos R r1 + length (packedBytes F vs)" using Cons.prems(3) split by simp
  from Cons.IH [OF _ pos(2) this, of "xs @ [v]"] Cons.prems(1)
  obtain r2 where r2: "packed_loop R end2 (xs @ [v]) r1 = Some (Inr (xs @ v # vs, r2))"
      "after r1 (length (packedBytes F vs)) ys r2" by auto
  have "r_pos R r < end2" using Cons.prems(3) split svarint_nonempty [of "numToInt v"] by simp
  then have "packed_loop R end2 xs r = Some (Inr (xs @ v # vs, r2))"
    using r1(1) r2(1) v(1) by (subst packed_loop.simps) simp
  then show ?case using after_trans [OF r1(2) r2(2)] split by auto
qed

lemma parses_packed:
  assumes "\<forall>v\<in>set vs. isInt32 v" "msgOk (packedBytes F vs)"
  shows "parses (packed R xs) (lenPrefixed F (packedBytes F vs)) (xs @ vs)"
  unfolding packed_def lenPrefixed_def
proof (rule parses_bind)
  show "parses (getR (r_uint32 R)) (varint F (length (packedBytes F vs))) (word_of_nat (length (packedBytes F vs)))"
    using assms(2) by (intro parses_uint32) (simp add: msgOk_def)
  have "unat (word_of_nat (length (packedBytes F vs)) :: u32) = length (packedBytes F vs)"
    using assms(2) by (simp add: msgOk_def unat_of_nat take_bit_nat_eq_self)
  then show "parses (\<lambda>r. packed_loop R (unat (word_of_nat (length (packedBytes F vs)) :: u32) + r_pos R r) xs r)
      (packedBytes F vs) (xs @ vs)"
    using parses_packed_loop [OF assms(1)] by (simp add: parses_def add.commute)
qed

lemma consumes_packed:
  assumes "field (word_of_nat t) m = bindR (packed R []) (\<lambda>v. cont (upd v))" "t < 2 ^ 32"
    "\<forall>v\<in>set vs. isInt32 v" "msgOk (packedBytes F vs)"
  shows "consumes field m (msgBytes F t (packedBytes F vs)) (upd vs)"
  using consumes_scalar [where field = field and t = t and upd = upd, OF assms(1,2) parses_packed [OF assms(3,4), of "[]", simplified]]
  by (simp add: msgBytes_def)

text \<open>The same for a field that is left out when it has its default value.\<close>

lemma consumes_string_default:
  assumes "field (word_of_nat t) m = bindR (getR (r_string R)) (\<lambda>v. cont (upd v))" "t < 2 ^ 32"
    "strOk F s" "upd d = m"
  shows "consumes field m (if s \<noteq> d then strBytes F t s else []) (upd s)"
  using consumes_string [where field = field and t = t and upd = upd, OF assms(1,2,3)] assms(4) by (auto simp: consumes_Nil)

lemma consumes_bool_default:
  assumes "field (word_of_nat t) m = bindR (getR (r_bool R)) (\<lambda>v. cont (upd v))" "t < 2 ^ 32" "upd d = m"
  shows "consumes field m (if b \<noteq> d then boolBytes F t b else []) (upd b)"
  using consumes_bool [where field = field and t = t and upd = upd, OF assms(1,2), of b] assms(3) by (auto simp: consumes_Nil)

lemma consumes_uint32_default:
  assumes "field (word_of_nat t) m = bindR (getR (r_uint32 R)) (\<lambda>v. cont (upd (ofU32 v)))" "t < 2 ^ 32"
    "isUInt32 x" "upd d = m"
  shows "consumes field m (if x \<noteq> d then u32Bytes F t x else []) (upd x)"
  using consumes_uint32 [where field = field and t = t and upd = upd, OF assms(1,2,3)] assms(4) by (auto simp: consumes_Nil)

text \<open>A proto2 field, which always has a value once it was decoded.\<close>

lemma consumes_string_optional:
  assumes "field (word_of_nat t) m = bindR (getR (r_string R)) (\<lambda>v. cont (upd (Some v)))" "t < 2 ^ 32"
    "x \<noteq> None" "\<forall>v. x = Some v \<longrightarrow> strOk F v" "upd (Some d) = m"
  shows "consumes field m (if differs x d then strBytes F t (the x) else []) (upd x)"
  using consumes_string [where field = field and t = t and upd = "\<lambda>v. upd (Some v)", OF assms(1,2)] assms(3-)
  by (auto simp: consumes_Nil differs_def)

lemma consumes_int32_optional:
  assumes "field (word_of_nat t) m = bindR (getR (r_int32 R)) (\<lambda>v. cont (upd (Some (numInt v))))" "t < 2 ^ 32"
    "x \<noteq> None" "\<forall>v. x = Some v \<longrightarrow> isInt32 v" "upd (Some d) = m"
  shows "consumes field m (if differs x d then i32Bytes F t (the x) else []) (upd x)"
  using consumes_int32 [where field = field and t = t and upd = "\<lambda>v. upd (Some v)", OF assms(1,2)] assms(3-)
  by (auto simp: consumes_Nil differs_def)

lemma consumes_scalar_optional:
  assumes "field (word_of_nat t) m = bindR rd (\<lambda>v. cont (upd (Some v)))" "t < 2 ^ 32"
    "x \<noteq> None" "\<And>v. x = Some v \<Longrightarrow> parses rd (bs v) v" "upd (Some d) = m"
  shows "consumes field m (if differs x d then varint F t @ bs (the x) else []) (upd x)"
  using consumes_scalar [where field = field and t = t and upd = "\<lambda>v. upd (Some v)", OF assms(1,2)] assms(3-)
  by (auto simp: consumes_Nil differs_def)

lemma consumes_bool_optional:
  assumes "field (word_of_nat t) m = bindR (getR (r_bool R)) (\<lambda>v. cont (upd (Some v)))" "t < 2 ^ 32"
    "x \<noteq> None" "upd (Some d) = m"
  shows "consumes field m (if differs x d then boolBytes F t (the x) else []) (upd x)"
  unfolding boolBytes_def
  by (rule consumes_scalar_optional [where field = field and t = t and upd = upd, OF assms(1-3) _ assms(4)])
     (rule parses_bool)

lemma consumes_uint64_optional:
  assumes "field (word_of_nat t) m = bindR (getR (longR (r_uint64 R))) (\<lambda>v. cont (upd (Some v)))" "t < 2 ^ 32"
    "x \<noteq> None" "\<forall>v. x = Some v \<longrightarrow> isUInt64 v" "upd (Some d) = m"
  shows "consumes field m (if differs x d then u64Bytes F t (the x) else []) (upd x)"
  unfolding u64Bytes_def
  by (rule consumes_scalar_optional [where field = field and t = t and upd = upd, OF assms(1-3) _ assms(5)])
     (use assms(4) in \<open>simp add: parses_uint64\<close>)

lemma consumes_int64_optional:
  assumes "field (word_of_nat t) m = bindR (getR (longR (r_int64 R))) (\<lambda>v. cont (upd (Some v)))" "t < 2 ^ 32"
    "x \<noteq> None" "\<forall>v. x = Some v \<longrightarrow> isSafe v" "upd (Some d) = m"
  shows "consumes field m (if differs x d then i64Bytes F t (the x) else []) (upd x)"
  unfolding i64Bytes_def
  by (rule consumes_scalar_optional [where field = field and t = t and upd = upd, OF assms(1-3) _ assms(5)])
     (use assms(4) in \<open>simp add: parses_int64\<close>)

lemma consumes_double_optional:
  assumes "field (word_of_nat t) m = bindR (getR (r_double R)) (\<lambda>v. cont (upd (Some v)))" "t < 2 ^ 32"
    "x \<noteq> None" "\<forall>v. x = Some v \<longrightarrow> isDouble v" "upd (Some d) = m"
  shows "consumes field m (if differs x d then dblBytes F t (the x) else []) (upd x)"
  unfolding dblBytes_def
  by (rule consumes_scalar_optional [where field = field and t = t and upd = upd, OF assms(1-3) _ assms(5)])
     (use assms(4) in \<open>simp add: parses_double\<close>)

lemma consumes_bytes_optional:
  assumes "field (word_of_nat t) m = bindR (getR (r_bytes R)) (\<lambda>v. cont (upd (Some v)))" "t < 2 ^ 32"
    "x \<noteq> None" "\<forall>v. x = Some v \<longrightarrow> msgOk v" "upd (Some d) = m"
  shows "consumes field m (if differs x d then binBytes F t (the x) else []) (upd x)"
  unfolding binBytes_def
  by (rule consumes_scalar_optional [where field = field and t = t and upd = upd, OF assms(1-3) _ assms(5)])
     (use assms(4) in \<open>simp add: parses_bytes\<close>)

text \<open>A repeated field.\<close>

lemma consumes_list:
  assumes "\<And>v xs. v \<in> set vs \<Longrightarrow> consumes field (upd xs) (f v) (upd (xs @ [v]))"
  shows "consumes field (upd xs) (concat (map f vs)) (upd (xs @ vs))"
  using assms
proof (induction vs arbitrary: xs)
  case Nil
  then show ?case by (simp add: consumes_Nil)
next
  case (Cons v vs)
  then have "consumes field (upd xs) (f v) (upd (xs @ [v]))"
    "consumes field (upd (xs @ [v])) (concat (map f vs)) (upd ((xs @ [v]) @ vs))"
    by (simp, intro Cons.IH, simp add: Cons.prems)
  from consumes_append [OF this] show ?case by simp
qed

lemma consumes_list_new:
  assumes "\<And>v xs. v \<in> set vs \<Longrightarrow> consumes field (upd xs) (f v) (upd (xs @ [v]))" "upd [] = m"
  shows "consumes field m (concat (map f vs)) (upd vs)"
  using consumes_list [of vs field upd f "[]"] assms by simp

lemma consumes_strings:
  assumes "\<And>xs. field (word_of_nat t) (upd xs) = bindR (getR (r_string R)) (\<lambda>v. cont (upd (xs @ [v])))"
    "t < 2 ^ 32" "\<forall>v\<in>set vs. strOk F v" "upd [] = m"
  shows "consumes field m (concat (map (strBytes F t) vs)) (upd vs)"
proof (rule consumes_list_new [where upd = upd, OF _ assms(4)])
  fix v xs
  assume "v \<in> set vs"
  with assms(3) have "strOk F v" by simp
  from consumes_string [where field = field and t = t and upd = "\<lambda>v. upd (xs @ [v])", OF assms(1,2) this]
  show "consumes field (upd xs) (strBytes F t v) (upd (xs @ [v]))" .
qed

text \<open>A message that is read to the end of its bytes.\<close>

lemma decode_consumed:
  assumes "consumes field base bs m"
  shows "parses (\<lambda>r. decode_message R field base (InReader r) (Some (length bs))) bs m"
  unfolding parses_def
proof (intro allI impI)
  fix r ys
  assume r: "remaining r = bs @ ys"
  have "\<exists>r'. after r (length bs) ys r' \<and>
      decode_loop R field (r_pos R r + length bs) base r = decode_loop R field (r_pos R r + length bs) m r'"
    using consumesD [OF assms r] by simp
  then obtain r' where r': "after r (length bs) ys r'"
      "decode_loop R field (r_pos R r + length bs) base r = decode_loop R field (r_pos R r + length bs) m r'"
    by blast
  have "decode_loop R field (r_pos R r + length bs) m r' = Some (Inr (m, r'))"
    using r'(1) by (subst decode_loop.simps) (simp add: after_def)
  with r' show "\<exists>r'. decode_message R field base (InReader r) (Some (length bs)) = Some (Inr (m, r')) \<and>
      after r (length bs) ys r'"
    by (auto simp: decode_message_def toReader_def)
qed

lemma parses_nested:
  assumes "consumes field base bs m" "msgOk bs"
  shows "parses (nested R (decode_message R field base)) (lenPrefixed F bs) m"
  unfolding nested_def lenPrefixed_def
proof (rule parses_bind)
  show "parses (getR (r_uint32 R)) (varint F (length bs)) (word_of_nat (length bs))"
    using assms(2) by (intro parses_uint32) (simp add: msgOk_def)
  have "unat (word_of_nat (length bs) :: u32) = length bs"
    using assms(2) by (simp add: msgOk_def unat_of_nat take_bit_nat_eq_self)
  then show "parses (\<lambda>r. decode_message R field base (InReader r)
      (Some (unat (word_of_nat (length bs) :: u32)))) bs m"
    using decode_consumed [OF assms(1)] by simp
qed

text \<open>A nested message.\<close>

lemma consumes_nested:
  assumes "field (word_of_nat t) m = bindR (nested R (decode_message R sub base)) (\<lambda>v. cont (upd v))"
    "t < 2 ^ 32" "consumes sub base bs v" "msgOk bs"
  shows "consumes field m (msgBytes F t bs) (upd v)"
  unfolding msgBytes_def
  by (rule consumes_field [OF assms(2)])
    (unfold assms(1), rule parses_bind_cont, rule parses_nested [OF assms(3,4)])

lemma consumes_nested_opt:
  assumes "field (word_of_nat t) m = bindR (nested R (decode_message R sub base)) (\<lambda>v. cont (upd (Some v)))"
    "t < 2 ^ 32" "\<And>v. x = Some v \<Longrightarrow> consumes sub base (bs v) v \<and> msgOk (bs v)" "upd None = m"
  shows "consumes field m (case x of None \<Rightarrow> [] | Some v \<Rightarrow> msgBytes F t (bs v)) (upd x)"
proof (cases x)
  case None
  then show ?thesis using assms(4) by (simp add: consumes_Nil)
next
  case (Some v)
  with assms(3) have "consumes sub base (bs v) v" "msgOk (bs v)" by auto
  from consumes_nested [where field = field and t = t and upd = "\<lambda>v. upd (Some v)", OF assms(1,2) this] Some show ?thesis by simp
qed

lemma consumes_nested_list:
  assumes "\<And>xs. field (word_of_nat t) (upd xs) =
      bindR (nested R (decode_message R sub base)) (\<lambda>v. cont (upd (xs @ [v])))"
    "t < 2 ^ 32" "\<And>v. v \<in> set vs \<Longrightarrow> consumes sub base (bs v) v \<and> msgOk (bs v)" "upd [] = m"
  shows "consumes field m (concat (map (\<lambda>v. msgBytes F t (bs v)) vs)) (upd vs)"
proof (rule consumes_list_new [where upd = upd, OF _ assms(4)])
  fix v xs
  assume "v \<in> set vs"
  with assms(3) have "consumes sub base (bs v) v" "msgOk (bs v)" by auto
  from consumes_nested [where field = field and t = t and upd = "\<lambda>v. upd (xs @ [v])", OF assms(1,2) this]
  show "consumes field (upd xs) (msgBytes F t (bs v)) (upd (xs @ [v]))" .
qed

lemma consumes_string_opt:
  assumes "field (word_of_nat t) m = bindR (getR (r_string R)) (\<lambda>v. cont (upd (Some v)))" "t < 2 ^ 32"
    "\<forall>v. x = Some v \<longrightarrow> strOk F v" "upd None = m"
  shows "consumes field m (case x of None \<Rightarrow> [] | Some v \<Rightarrow> strBytes F t v) (upd x)"
  using consumes_string [where field = field and t = t and upd = "\<lambda>v. upd (Some v)", OF assms(1,2)] assms(3,4)
  by (cases x) (auto simp: consumes_Nil)

text \<open>
  The steps with the update function \<open>fu\<close> of a record field, each in front of the remaining fields, so
  that the proof for a record is the list of its fields between \<open>consumes_to\<close> and \<open>consumes_Nil\<close>.
\<close>

lemma consumes_to: "consumes field m bs m' \<Longrightarrow> m' = m'' \<Longrightarrow> consumes field m bs m''"
  by simp

lemma consumes_then:
  "consumes field m1 bs' m2 \<Longrightarrow> consumes field m bs m1 \<Longrightarrow> consumes field m (bs @ bs') m2"
  by (rule consumes_append)

lemma consumes_last: "consumes field m (bs @ []) m' \<Longrightarrow> consumes field m bs m'"
  by simp

lemmas set_string =
  consumes_then [OF _ consumes_string_default [where upd = "\<lambda>x. fu (\<lambda>_. x) m" and m = m for fu m]]
lemmas set_bool =
  consumes_then [OF _ consumes_bool_default [where upd = "\<lambda>x. fu (\<lambda>_. x) m" and m = m for fu m]]
lemmas set_uint32 =
  consumes_then [OF _ consumes_uint32_default [where upd = "\<lambda>x. fu (\<lambda>_. x) m" and m = m for fu m]]
lemmas set_opt_string =
  consumes_then [OF _ consumes_string_optional [where upd = "\<lambda>x. fu (\<lambda>_. x) m" and m = m for fu m]]
lemmas set_opt_bool =
  consumes_then [OF _ consumes_bool_optional [where upd = "\<lambda>x. fu (\<lambda>_. x) m" and m = m for fu m]]
lemmas set_opt_int32 =
  consumes_then [OF _ consumes_int32_optional [where upd = "\<lambda>x. fu (\<lambda>_. x) m" and m = m for fu m]]
lemmas set_opt_uint64 =
  consumes_then [OF _ consumes_uint64_optional [where upd = "\<lambda>x. fu (\<lambda>_. x) m" and m = m for fu m]]
lemmas set_opt_int64 =
  consumes_then [OF _ consumes_int64_optional [where upd = "\<lambda>x. fu (\<lambda>_. x) m" and m = m for fu m]]
lemmas set_opt_double =
  consumes_then [OF _ consumes_double_optional [where upd = "\<lambda>x. fu (\<lambda>_. x) m" and m = m for fu m]]
lemmas set_opt_bytes =
  consumes_then [OF _ consumes_bytes_optional [where upd = "\<lambda>x. fu (\<lambda>_. x) m" and m = m for fu m]]
lemmas set_strings =
  consumes_then [OF _ consumes_strings [where upd = "\<lambda>x. fu (\<lambda>_. x) m" and m = m for fu m]]
lemmas set_packed =
  consumes_then [OF _ consumes_packed [where upd = "\<lambda>x. fu (\<lambda>_. x) m" and m = m for fu m]]
lemmas set_message =
  consumes_then [OF _ consumes_nested_opt [where upd = "\<lambda>x. fu (\<lambda>_. x) m" and m = m for fu m]]
lemmas set_messages =
  consumes_then [OF _ consumes_nested_list [where upd = "\<lambda>x. fu (\<lambda>_. x) m" and m = m for fu m]]

text \<open>The same with a setter \<open>st\<close>, for a message that is not a record.\<close>

lemmas put_string =
  consumes_then [OF _ consumes_string_default [where upd = "\<lambda>x. st x m" and m = m for st m]]
lemmas put_some_string =
  consumes_then [OF _ consumes_string_opt [where upd = "\<lambda>x. st x m" and m = m for st m]]
lemmas put_opt_string =
  consumes_then [OF _ consumes_string_optional [where upd = "\<lambda>x. st x m" and m = m for st m]]
lemmas put_opt_int32 =
  consumes_then [OF _ consumes_int32_optional [where upd = "\<lambda>x. st x m" and m = m for st m]]
lemmas put_strings =
  consumes_then [OF _ consumes_strings [where upd = "\<lambda>x. st x m" and m = m for st m]]
lemmas put_message =
  consumes_then [OF _ consumes_nested_opt [where upd = "\<lambda>x. st x m" and m = m for st m]]
lemmas put_messages =
  consumes_then [OF _ consumes_nested_list [where upd = "\<lambda>x. st x m" and m = m for st m]]

text \<open>A whole message from its bytes.\<close>

lemma decode_bytes:
  assumes "consumes field base bs m"
  shows "\<exists>r. decode_message R field base (InBytes bs) None = Some (Inr (m, r))"
proof -
  have "\<exists>r'. decode_message R field base (InReader (r_new R bs)) (Some (length bs)) = Some (Inr (m, r')) \<and>
      after (r_new R bs) (length bs) [] r'"
    using parsesD [OF decode_consumed [OF assms], of "r_new R bs" "[]"] new_reader(1) [of bs] by simp
  then show ?thesis
    by (auto simp: decode_message_def toReader_def new_reader)
qed

section \<open>Termination\<close>

text \<open>
  A step that ends, with an exception or without, and never moves backwards, on every reader with
  fewer than \<open>k\<close> bytes left.  The bound makes recursive messages go through: a nested message starts
  after the tag and the length of its field.
\<close>

definition ends :: "nat \<Rightarrow> ('r, 'a) rd \<Rightarrow> bool" where
  "ends k m \<longleftrightarrow> (\<forall>r. r_len R r - r_pos R r < k \<longrightarrow> (\<exists>res. m r = Some res \<and>
     (\<forall>x r'. res = Inr (x, r') \<longrightarrow> r_pos R r \<le> r_pos R r' \<and> r_len R r' = r_len R r)))"

lemma endsD: "ends k m \<Longrightarrow> r_len R r - r_pos R r < k \<Longrightarrow> \<exists>res. m r = Some res \<and>
    (\<forall>x r'. res = Inr (x, r') \<longrightarrow> r_pos R r \<le> r_pos R r' \<and> r_len R r' = r_len R r)"
  unfolding ends_def by blast

lemma ends_0 [simp]: "ends 0 m"
  by (simp add: ends_def)

lemma ends_Suc: "ends (Suc k) m \<Longrightarrow> ends k m"
  by (simp add: ends_def)

lemma ends_ops [intro, simp]:
  "ends k (getR (r_uint32 R))" "ends k (getR (r_int32 R))" "ends k (getR (r_string R))"
  "ends k (getR (r_bool R))" "ends k (cont x)" "ends k brk"
  "ends k (getR (longR (r_uint64 R)))" "ends k (getR (longR (r_int64 R)))"
  "ends k (getR (r_double R))" "ends k (getR (r_bytes R))"
  by (auto simp: ends_def getR_def cont_def brk_def longR_def bindE_Inr_iff
      dest: uint32_progress int32_progress string_progress bool_progress uint64_progress int64_progress
        double_progress bytes_progress)

lemma ends_bind [intro]:
  assumes "ends k m" "\<And>x. ends k (f x)"
  shows "ends k (bindR m f)"
  unfolding ends_def
proof (intro allI impI)
  fix r
  assume k: "r_len R r - r_pos R r < k"
  obtain res where res: "m r = Some res"
      "\<forall>x r'. res = Inr (x, r') \<longrightarrow> r_pos R r \<le> r_pos R r' \<and> r_len R r' = r_len R r"
    using endsD [OF assms(1) k] by blast
  show "\<exists>res. bindR m f r = Some res \<and>
      (\<forall>x r'. res = Inr (x, r') \<longrightarrow> r_pos R r \<le> r_pos R r' \<and> r_len R r' = r_len R r)"
  proof (cases res)
    case (Inl e)
    then show ?thesis using res(1) by auto
  next
    case (Inr p)
    then obtain x r1 where p: "res = Inr (x, r1)" by (cases p) auto
    then have le: "r_pos R r \<le> r_pos R r1" "r_len R r1 = r_len R r" using res(2) by auto
    then have k1: "r_len R r1 - r_pos R r1 < k" using k by linarith
    obtain res' where "f x r1 = Some res'"
        "\<forall>y r'. res' = Inr (y, r') \<longrightarrow> r_pos R r1 \<le> r_pos R r' \<and> r_len R r' = r_len R r1"
      using endsD [OF assms(2) k1] by blast
    then show ?thesis using res(1) p le by (auto intro: order_trans)
  qed
qed

lemma ends_packed_loop: "ends k (packed_loop R end2 xs)"
  unfolding ends_def
proof (intro allI impI)
  fix r
  show "\<exists>res. packed_loop R end2 xs r = Some res \<and>
      (\<forall>x r'. res = Inr (x, r') \<longrightarrow> r_pos R r \<le> r_pos R r' \<and> r_len R r' = r_len R r)"
  proof (induction "r_len R r - r_pos R r" arbitrary: xs r rule: less_induct)
    case less
    show ?case
    proof (cases "r_pos R r < end2")
      case False
      then show ?thesis by (subst packed_loop.simps) simp
    next
      case pos: True
      show ?thesis
      proof (cases "r_int32 R r")
        case (Inl e)
        then show ?thesis using pos by (subst packed_loop.simps) simp
      next
        case (Inr p)
        then obtain v r1 where u: "r_int32 R r = Inr (v, r1)" by (cases p) auto
        note pr = int32_progress [OF u]
        then have "r_len R r1 - r_pos R r1 < r_len R r - r_pos R r" by linarith
        from less.hyps [OF this, of "xs @ [numInt v]"] pr u pos show ?thesis
          by (subst packed_loop.simps) fastforce
      qed
    qed
  qed
qed

lemma ends_packed [intro, simp]: "ends k (packed R xs)"
proof -
  have "ends k (\<lambda>r. packed_loop R (n + r_pos R r) xs r)" for n
    using ends_packed_loop unfolding ends_def by blast
  then show ?thesis unfolding packed_def by (intro ends_bind) simp_all
qed

text \<open>One round of the loop, given that every later round ends.\<close>

lemma loop_step_ends:
  assumes u: "r_uint32 R r = Inr (tag, r1)" and n: "r_pos R r < n"
    and res: "field tag m r1 = Some res"
      "\<forall>x r'. res = Inr (x, r') \<longrightarrow> r_pos R r1 \<le> r_pos R r' \<and> r_len R r' = r_len R r1"
    and IH: "\<And>m' r2. r_pos R r1 \<le> r_pos R r2 \<Longrightarrow> r_len R r2 = r_len R r1 \<Longrightarrow>
      \<exists>res. decode_loop R field n m' r2 = Some res \<and>
        (\<forall>x r'. res = Inr (x, r') \<longrightarrow> r_pos R r \<le> r_pos R r' \<and> r_len R r' = r_len R r)"
  shows "\<exists>res. decode_loop R field n m r = Some res \<and>
    (\<forall>x r'. res = Inr (x, r') \<longrightarrow> r_pos R r \<le> r_pos R r' \<and> r_len R r' = r_len R r)"
proof -
  consider e where "res = Inl e" | m' r2 where "res = Inr (Some m', r2)" | r2 where "res = Inr (None, r2)"
    by (metis surj_pair not_None_eq old.sum.exhaust)
  then show ?thesis
  proof cases
    case 1
    then show ?thesis using n u res(1) by (subst decode_loop.simps) simp
  next
    case 2
    then show ?thesis using n u res IH [of r2 m'] by (subst decode_loop.simps) simp
  next
    case 3
    then have le: "r_pos R r1 \<le> r_pos R r2" "r_len R r2 = r_len R r1" using res(2) by auto
    show ?thesis
    proof (cases "tag AND 7 = 4 \<or> tag = 0")
      case True
      then show ?thesis using n u res(1) 3 le uint32_progress [OF u] by (subst decode_loop.simps) simp
    next
      case False
      show ?thesis
      proof (cases "r_skip R (tag AND 7) r2")
        case (Inl e)
        then show ?thesis using False n u res(1) 3 by (subst decode_loop.simps) simp
      next
        case (Inr q)
        then obtain un r3 where sk: "r_skip R (tag AND 7) r2 = Inr (un, r3)" by (cases q) auto
        then have "r_pos R r1 \<le> r_pos R r3" "r_len R r3 = r_len R r1"
          using skip_progress [OF sk] le by auto
        from IH [OF this, of m] show ?thesis
          using False n u res(1) 3 sk by (subst decode_loop.simps) simp
      qed
    qed
  qed
qed

lemma ends_loop:
  assumes "\<And>tag m. ends k (field tag m)"
  shows "ends (Suc k) (decode_loop R field n m)"
  unfolding ends_def
proof (intro allI impI)
  fix r
  assume "r_len R r - r_pos R r < Suc k"
  then show "\<exists>res. decode_loop R field n m r = Some res \<and>
      (\<forall>x r'. res = Inr (x, r') \<longrightarrow> r_pos R r \<le> r_pos R r' \<and> r_len R r' = r_len R r)"
  proof (induction "r_len R r - r_pos R r" arbitrary: m r rule: less_induct)
    case less
    show ?case
    proof (cases "r_pos R r < n")
      case False
      then show ?thesis by (subst decode_loop.simps) simp
    next
      case n: True
      show ?thesis
      proof (cases "r_uint32 R r")
        case (Inl e)
        then show ?thesis using n by (subst decode_loop.simps) simp
      next
        case (Inr p)
        then obtain tag r1 where u: "r_uint32 R r = Inr (tag, r1)" by (cases p) auto
        note pr = uint32_progress [OF u]
        have "r_len R r1 - r_pos R r1 < k" using pr less.prems by linarith
        then obtain res where res: "field tag m r1 = Some res"
            "\<forall>x r'. res = Inr (x, r') \<longrightarrow> r_pos R r1 \<le> r_pos R r' \<and> r_len R r' = r_len R r1"
          using endsD [OF assms] by blast
        show ?thesis
        proof (rule loop_step_ends [where field = field, OF u n res])
          fix m' r2
          assume r2: "r_pos R r1 \<le> r_pos R r2" "r_len R r2 = r_len R r1"
          then have "r_len R r2 - r_pos R r2 < r_len R r - r_pos R r" using pr by linarith
          moreover from this have "r_len R r2 - r_pos R r2 < Suc k" using less.prems by linarith
          ultimately show "\<exists>res. decode_loop R field n m' r2 = Some res \<and>
              (\<forall>x r'. res = Inr (x, r') \<longrightarrow> r_pos R r \<le> r_pos R r' \<and> r_len R r' = r_len R r)"
            using less.hyps [of r2 m'] r2 pr by fastforce
        qed
      qed
    qed
  qed
qed

lemma decode_message_ends:
  assumes "\<And>k tag m. ends k (field tag m)"
  shows "\<exists>res. decode_message R field base input len = Some res"
proof -
  have "ends (Suc k) (decode_loop R field n base)" for k n using assms by (rule ends_loop)
  then show ?thesis unfolding decode_message_def Let_def ends_def by blast
qed

lemma ends_nested:
  assumes "\<And>tag m. ends k (field tag m)"
  shows "ends (Suc k) (nested R (decode_message R field base))"
proof -
  have "ends (Suc k) (\<lambda>r. decode_message R field base (InReader r) (Some n))" for n
    unfolding ends_def
  proof (intro allI impI)
    fix r
    assume k: "r_len R r - r_pos R r < Suc k"
    have "ends (Suc k) (decode_loop R field (r_pos R r + n) base)" using assms by (rule ends_loop)
    from endsD [OF this k]
    show "\<exists>res. decode_message R field base (InReader r) (Some n) = Some res \<and>
      (\<forall>x r'. res = Inr (x, r') \<longrightarrow> r_pos R r \<le> r_pos R r' \<and> r_len R r' = r_len R r)"
      by (simp add: decode_message_def toReader_def)
  qed
  then show ?thesis unfolding nested_def by (intro ends_bind) simp_all
qed

lemma ends_nested_flat:
  "(\<And>k tag m. ends k (field tag m)) \<Longrightarrow> ends k (nested R (decode_message R field base))"
  by (rule ends_Suc, rule ends_nested)

end

section \<open>Recursive messages\<close>

text \<open>
  The loop is monotone in its \<open>switch\<close>, so that a message whose \<open>switch\<close> decodes the message itself
  is a well-defined recursion.
\<close>

lemma decode_loop_le:
  assumes run: "decode_loop R F1 n m r = Some y"
    and le: "\<And>tag m r y. F1 tag m r = Some y \<Longrightarrow> F2 tag m r = Some y"
  shows "decode_loop R F2 n m r = Some y"
proof -
  have "F1 = F1 \<longrightarrow> decode_loop R F2 n m r = Some y"
  proof (rule decode_loop.raw_induct [where P = "\<lambda>R F n m r y. F = F1 \<longrightarrow> decode_loop R F2 n m r = Some y",
        OF _ run], rule impI, goal_cases)
    case (1 dl R F n m r y)
    show ?case
    proof (cases "r_pos R r < n")
      case False
      then show ?thesis using 1(2) by (subst decode_loop.simps) simp
    next
      case pos: True
      show ?thesis
      proof (cases "r_uint32 R r")
        case (Inl e)
        then show ?thesis using 1(2) pos by (subst decode_loop.simps) simp
      next
        case (Inr p)
        then obtain tag r1 where u: "r_uint32 R r = Inr (tag, r1)" by (cases p) auto
        then obtain res where f1: "F1 tag m r1 = Some res"
          using 1(2,3) pos by (auto simp: Option.bind_eq_Some_conv)
        with le have f2: "F2 tag m r1 = Some res" by blast
        show ?thesis
          using 1(1) [of R F1] 1(2,3) pos u f1 f2
          by (subst decode_loop.simps) (auto split: sum.splits option.splits if_splits prod.splits)
      qed
    qed
  qed
  then show ?thesis by simp
qed

lemma decode_message_mono [partial_function_mono]:
  assumes "\<And>tag m r. mono_option (\<lambda>f. field f tag m r)"
  shows "mono_option (\<lambda>f. decode_message R (field f) base input len)"
proof (rule monotoneI, goal_cases)
  case (1 f g)
  have "option_ord (field f tag m r) (field g tag m r)" for tag m r
    by (rule monotoneD [OF assms]) (rule 1)
  then have "field g tag m r = Some y" if "field f tag m r = Some y" for tag m r y
    using that by (metis flat_ord_def option.distinct(1))
  then have "decode_loop R (field g) n m r = Some y" if "decode_loop R (field f) n m r = Some y" for n m r y
    using decode_loop_le [OF that] by blast
  then show ?case
    unfolding decode_message_def Let_def flat_ord_def by (metis not_None_eq)
qed

lemma bindR_mono [partial_function_mono]:
  assumes "\<And>r. mono_option (\<lambda>f. m f r)" "\<And>x r. mono_option (\<lambda>f. k f x r)"
  shows "mono_option (\<lambda>f. bindR (m f) (k f) r)"
proof (rule monotoneI, goal_cases)
  case (1 f g)
  have m: "m f r = None \<or> m f r = m g r"
    using monotoneD [OF assms(1), of f g r] 1 by (simp add: flat_ord_def)
  have k: "k f x r = None \<or> k f x r = k g x r" for x r
    using monotoneD [OF assms(2), of f g x r] 1 by (simp add: flat_ord_def)
  show ?case
  proof (cases "m f r")
    case None
    then show ?thesis by (simp add: bindR_def flat_ord_def)
  next
    case (Some res)
    with m have "m g r = Some res" by simp
    with Some k show ?thesis by (cases res) (auto simp: bindR_def flat_ord_def)
  qed
qed

lemma nested_mono [partial_function_mono]:
  assumes "\<And>i l. mono_option (\<lambda>f. dec f i l)"
  shows "mono_option (\<lambda>f. nested R (dec f) r)"
  unfolding nested_def by (intro bindR_mono assms option.const_mono)

section \<open>Message functions\<close>

text \<open>
  The contract of \<open>MessageFns\<close> for a message type: \<open>encode\<close> writes the bytes of a message that fits
  the format, the \<open>switch\<close> of \<open>decode\<close> consumes them from the empty message on, and ends on every input.
\<close>

locale wire = wire_reader R remaining F + wire_writer W out F
  for R :: "'r reader_ops" and remaining and F and W :: "'w writer_ops" and out

locale message_fns = wire R remaining F W out
  for R :: "'r reader_ops" and remaining and F and W :: "'w writer_ops" and out +
  fixes encode :: "'m \<Rightarrow> 'w \<Rightarrow> jserr + 'w" and field :: "u32 \<Rightarrow> 'm \<Rightarrow> ('r, 'm option) rd"
    and base :: 'm and fits :: "'m \<Rightarrow> bool" and layout :: "'m \<Rightarrow> bytes"
  assumes encode_writes: "fits m \<Longrightarrow> writes (encode m) (layout m)"
    and decode_consumes: "fits m \<Longrightarrow> consumes field base (layout m) m"
    and field_ends: "ends k (field tag m)"
begin

lemma encode_layout: "fits m \<Longrightarrow> \<exists>w. encode m (w_new W) = Inr w \<and> w_finish W w = layout m"
  by (rule writes_finish) (rule encode_writes)

lemma decode_layout: "fits m \<Longrightarrow> \<exists>r. decode_message R field base (InBytes (layout m)) None = Some (Inr (m, r))"
  by (rule decode_bytes) (rule decode_consumes)

lemma roundtrip:
  assumes "fits m"
  shows "\<exists>w r. encode m (w_new W) = Inr w \<and>
    decode_message R field base (InBytes (w_finish W w)) None = Some (Inr (m, r))"
  using encode_layout [OF assms] decode_layout [OF assms] by auto

lemma decode_total: "\<exists>res. decode_message R field base input len = Some res"
  by (rule decode_message_ends) (rule field_ends)

end

end
