(* ===== verification/Query_Codec.thy ===== *)
theory Query_Codec
  imports Query_Messages Wire_Laws
begin

text \<open>
  The codecs of the query messages.  \<open>M_bytes\<close> is the wire format of the message \<open>M\<close>, \<open>M_ok\<close> says which
  messages fit it (32-bit lengths,
    numbers that are unsigned 32-bit integers).  \<open>encode\<close> writes these
  bytes, \<open>decode\<close> reads them back, and \<open>decode\<close> ends on every input.
\<close>

section \<open>Wire formats\<close>

subsection \<open>\<open>Proof\<close>\<close>

definition Proof_bytes :: "wire_format \<Rightarrow> Proof \<Rightarrow> bytes" where
  "Proof_bytes F message =
     (if Proof_leaf message \<noteq> '''' then strBytes F 10 (Proof_leaf message) else []) @
     concat (map (strBytes F 18) (Proof_path message)) @
     (if Proof_index message \<noteq> numInt 0 then u32Bytes F 24 (Proof_index message) else []) @
     (if Proof_root message \<noteq> '''' then strBytes F 34 (Proof_root message) else [])"

definition Proof_ok :: "wire_format \<Rightarrow> Proof \<Rightarrow> bool" where
  "Proof_ok F message \<longleftrightarrow>
     strOk F (Proof_leaf message) \<and>
     (\<forall>v\<in>set (Proof_path message). strOk F v) \<and>
     isUInt32 (Proof_index message) \<and>
     strOk F (Proof_root message)"

lemma Proof_field_tags:
  "Proof_field R 10 m = bindR (getR (r_string R)) (\<lambda>v. cont (m\<lparr>Proof_leaf := v\<rparr>))"
  "Proof_field R 18 m = bindR (getR (r_string R)) (\<lambda>v. cont
    (m\<lparr>Proof_path := Proof_path m @ [v]\<rparr>))"
  "Proof_field R 24 m = bindR (getR (r_uint32 R)) (\<lambda>v. cont (m\<lparr>Proof_index := ofU32 v\<rparr>))"
  "Proof_field R 34 m = bindR (getR (r_string R)) (\<lambda>v. cont (m\<lparr>Proof_root := v\<rparr>))"
  by (simp_all add: Proof_field_def)

subsection \<open>\<open>QueryProofRequest\<close>\<close>

definition QueryProofRequest_bytes :: "wire_format \<Rightarrow> QueryProofRequest \<Rightarrow> bytes" where
  "QueryProofRequest_bytes F message =
     (if QueryProofRequest_registry message \<noteq> '''' then strBytes F 10
       (QueryProofRequest_registry message) else []) @
     (if QueryProofRequest_leaf message \<noteq> '''' then strBytes F 18
       (QueryProofRequest_leaf message) else [])"

definition QueryProofRequest_ok :: "wire_format \<Rightarrow> QueryProofRequest \<Rightarrow> bool" where
  "QueryProofRequest_ok F message \<longleftrightarrow>
     strOk F (QueryProofRequest_registry message) \<and>
     strOk F (QueryProofRequest_leaf message)"

lemma QueryProofRequest_field_tags:
  "QueryProofRequest_field R 10 m = bindR (getR (r_string R)) (\<lambda>v. cont
    (m\<lparr>QueryProofRequest_registry := v\<rparr>))"
  "QueryProofRequest_field R 18 m = bindR (getR (r_string R)) (\<lambda>v. cont
    (m\<lparr>QueryProofRequest_leaf := v\<rparr>))"
  by (simp_all add: QueryProofRequest_field_def)

subsection \<open>\<open>QueryProofResponse\<close>\<close>

definition QueryProofResponse_bytes :: "wire_format \<Rightarrow> QueryProofResponse \<Rightarrow> bytes" where
  "QueryProofResponse_bytes F message =
     (case QueryProofResponse_proof message of None \<Rightarrow> [] | Some v \<Rightarrow> msgBytes F 10
       (Proof_bytes F v))"

definition QueryProofResponse_ok :: "wire_format \<Rightarrow> QueryProofResponse \<Rightarrow> bool" where
  "QueryProofResponse_ok F message \<longleftrightarrow>
     (\<forall>v. QueryProofResponse_proof message = Some v \<longrightarrow> Proof_ok F v \<and> msgOk
       (Proof_bytes F v))"

lemma QueryProofResponse_field_tags:
  "QueryProofResponse_field R 10 m = bindR (nested R (Proof_decode R)) (\<lambda>v. cont
    (m\<lparr>QueryProofResponse_proof := Some v\<rparr>))"
  by (simp_all add: QueryProofResponse_field_def)

subsection \<open>\<open>GetEmptyLeafProofRequest\<close>\<close>

definition GetEmptyLeafProofRequest_bytes :: "wire_format \<Rightarrow> GetEmptyLeafProofRequest
  \<Rightarrow> bytes" where
  "GetEmptyLeafProofRequest_bytes F message =
     (if GetEmptyLeafProofRequest_registry message \<noteq> '''' then strBytes F 10
       (GetEmptyLeafProofRequest_registry message) else [])"

definition GetEmptyLeafProofRequest_ok :: "wire_format \<Rightarrow> GetEmptyLeafProofRequest
  \<Rightarrow> bool" where
  "GetEmptyLeafProofRequest_ok F message \<longleftrightarrow>
     strOk F (GetEmptyLeafProofRequest_registry message)"

lemma GetEmptyLeafProofRequest_field_tags:
  "GetEmptyLeafProofRequest_field R 10 m = bindR (getR (r_string R)) (\<lambda>v. cont
    (m\<lparr>GetEmptyLeafProofRequest_registry := v\<rparr>))"
  by (simp_all add: GetEmptyLeafProofRequest_field_def)

subsection \<open>\<open>GetEmptyLeafProofResponse\<close>\<close>

definition GetEmptyLeafProofResponse_bytes :: "wire_format \<Rightarrow> GetEmptyLeafProofResponse
  \<Rightarrow> bytes" where
  "GetEmptyLeafProofResponse_bytes F message =
     (case GetEmptyLeafProofResponse_proof message of None \<Rightarrow> [] | Some v
       \<Rightarrow> msgBytes F 10 (Proof_bytes F v))"

definition GetEmptyLeafProofResponse_ok :: "wire_format \<Rightarrow> GetEmptyLeafProofResponse
  \<Rightarrow> bool" where
  "GetEmptyLeafProofResponse_ok F message \<longleftrightarrow>
     (\<forall>v. GetEmptyLeafProofResponse_proof message = Some v \<longrightarrow> Proof_ok F v \<and> msgOk (Proof_bytes F v))"

lemma GetEmptyLeafProofResponse_field_tags:
  "GetEmptyLeafProofResponse_field R 10 m = bindR (nested R (Proof_decode R)) (\<lambda>v. cont
    (m\<lparr>GetEmptyLeafProofResponse_proof := Some v\<rparr>))"
  by (simp_all add: GetEmptyLeafProofResponse_field_def)

subsection \<open>\<open>BatchOperation\<close>\<close>

definition BatchOperation_bytes :: "wire_format \<Rightarrow> BatchOperation \<Rightarrow> bytes" where
  "BatchOperation_bytes F message =
     (if BatchOperation_leafHash message \<noteq> '''' then strBytes F 10
       (BatchOperation_leafHash message) else []) @
     (if BatchOperation_isAddition message \<noteq> False then boolBytes F 16
       (BatchOperation_isAddition message) else [])"

definition BatchOperation_ok :: "wire_format \<Rightarrow> BatchOperation \<Rightarrow> bool" where
  "BatchOperation_ok F message \<longleftrightarrow>
     strOk F (BatchOperation_leafHash message)"

lemma BatchOperation_field_tags:
  "BatchOperation_field R 10 m = bindR (getR (r_string R)) (\<lambda>v. cont
    (m\<lparr>BatchOperation_leafHash := v\<rparr>))"
  "BatchOperation_field R 16 m = bindR (getR (r_bool R)) (\<lambda>v. cont
    (m\<lparr>BatchOperation_isAddition := v\<rparr>))"
  by (simp_all add: BatchOperation_field_def)

subsection \<open>\<open>QueryBatchProofsRequest\<close>\<close>

definition QueryBatchProofsRequest_bytes :: "wire_format \<Rightarrow> QueryBatchProofsRequest
  \<Rightarrow> bytes" where
  "QueryBatchProofsRequest_bytes F message =
     (if QueryBatchProofsRequest_registry message \<noteq> '''' then strBytes F 10
       (QueryBatchProofsRequest_registry message) else []) @
     concat (map (\<lambda>v. msgBytes F 18 (BatchOperation_bytes F v))
       (QueryBatchProofsRequest_operations message))"

definition QueryBatchProofsRequest_ok :: "wire_format \<Rightarrow> QueryBatchProofsRequest
  \<Rightarrow> bool" where
  "QueryBatchProofsRequest_ok F message \<longleftrightarrow>
     strOk F (QueryBatchProofsRequest_registry message) \<and>
     (\<forall>v\<in>set (QueryBatchProofsRequest_operations message). BatchOperation_ok F v \<and> msgOk
       (BatchOperation_bytes F v))"

lemma QueryBatchProofsRequest_field_tags:
  "QueryBatchProofsRequest_field R 10 m = bindR (getR (r_string R)) (\<lambda>v. cont
    (m\<lparr>QueryBatchProofsRequest_registry := v\<rparr>))"
  "QueryBatchProofsRequest_field R 18 m = bindR (nested R (BatchOperation_decode R)) (\<lambda>v. cont
    (m\<lparr>QueryBatchProofsRequest_operations := QueryBatchProofsRequest_operations m @ [v]\<rparr>))"
  by (simp_all add: QueryBatchProofsRequest_field_def)

subsection \<open>\<open>BatchProof\<close>\<close>

definition BatchProof_bytes :: "wire_format \<Rightarrow> BatchProof \<Rightarrow> bytes" where
  "BatchProof_bytes F message =
     (if BatchProof_index message \<noteq> numInt 0 then u32Bytes F 8 (BatchProof_index message) else []) @
     concat (map (strBytes F 18) (BatchProof_path message))"

definition BatchProof_ok :: "wire_format \<Rightarrow> BatchProof \<Rightarrow> bool" where
  "BatchProof_ok F message \<longleftrightarrow>
     isUInt32 (BatchProof_index message) \<and>
     (\<forall>v\<in>set (BatchProof_path message). strOk F v)"

lemma BatchProof_field_tags:
  "BatchProof_field R 8 m = bindR (getR (r_uint32 R)) (\<lambda>v. cont
    (m\<lparr>BatchProof_index := ofU32 v\<rparr>))"
  "BatchProof_field R 18 m = bindR (getR (r_string R)) (\<lambda>v. cont
    (m\<lparr>BatchProof_path := BatchProof_path m @ [v]\<rparr>))"
  by (simp_all add: BatchProof_field_def)

subsection \<open>\<open>QueryBatchProofsResponse\<close>\<close>

definition QueryBatchProofsResponse_bytes :: "wire_format \<Rightarrow> QueryBatchProofsResponse
  \<Rightarrow> bytes" where
  "QueryBatchProofsResponse_bytes F message =
     (if QueryBatchProofsResponse_initialRoot message \<noteq> '''' then strBytes F 10
       (QueryBatchProofsResponse_initialRoot message) else []) @
     concat (map (\<lambda>v. msgBytes F 18 (BatchProof_bytes F v)) (QueryBatchProofsResponse_proofs message))"

definition QueryBatchProofsResponse_ok :: "wire_format \<Rightarrow> QueryBatchProofsResponse
  \<Rightarrow> bool" where
  "QueryBatchProofsResponse_ok F message \<longleftrightarrow>
     strOk F (QueryBatchProofsResponse_initialRoot message) \<and>
     (\<forall>v\<in>set (QueryBatchProofsResponse_proofs message). BatchProof_ok F v \<and> msgOk
       (BatchProof_bytes F v))"

lemma QueryBatchProofsResponse_field_tags:
  "QueryBatchProofsResponse_field R 10 m = bindR (getR (r_string R)) (\<lambda>v. cont
    (m\<lparr>QueryBatchProofsResponse_initialRoot := v\<rparr>))"
  "QueryBatchProofsResponse_field R 18 m = bindR (nested R (BatchProof_decode R)) (\<lambda>v. cont
    (m\<lparr>QueryBatchProofsResponse_proofs := QueryBatchProofsResponse_proofs m @ [v]\<rparr>))"
  by (simp_all add: QueryBatchProofsResponse_field_def)

section \<open>Encoding\<close>

context wire_writer
begin

lemma Proof_writes: "Proof_ok F m \<Longrightarrow> writes (Proof_encode W m) (Proof_bytes F m)"
  unfolding Proof_encode_def Proof_bytes_def Proof_ok_def
  by (intro writes_all_Cons writes_all_single writes_when writes_opt writes_each
      writes_string [where t = 10, simplified] writes_string [where t = 18,
        simplified] writes_uint32 [where t = 24, simplified] writes_string [where t = 34, simplified])
    simp_all

lemma Proof_rejects:
  assumes "\<not> isUInt32 (Proof_index m)"
  shows "rejects (Proof_encode W m)"
proof -
  have "Proof_index m \<noteq> numInt 0"
    using assms by (auto simp: isUInt32_def)
  then show ?thesis
    unfolding Proof_encode_def
    by (rule rejects_all_later [OF writes_when [OF writes_string [where t = 10, simplified]]
          rejects_all_later [OF writes_each [OF writes_string [where t = 18, simplified]]
          rejects_all_here [OF rejects_when [OF _ rejects_uint32 [where t = 24, simplified, OF assms]]]]])
qed

lemma QueryProofRequest_writes: "QueryProofRequest_ok F m \<Longrightarrow> writes
  (QueryProofRequest_encode W m) (QueryProofRequest_bytes F m)"
  unfolding QueryProofRequest_encode_def QueryProofRequest_bytes_def QueryProofRequest_ok_def
  by (intro writes_all_Cons writes_all_single writes_when writes_opt writes_each
      writes_string [where t = 10, simplified] writes_string [where t = 18, simplified])

lemma QueryProofResponse_writes: "QueryProofResponse_ok F m \<Longrightarrow> writes
  (QueryProofResponse_encode W m) (QueryProofResponse_bytes F m)"
  unfolding QueryProofResponse_encode_def QueryProofResponse_bytes_def QueryProofResponse_ok_def
  by (intro writes_all_Cons writes_all_single writes_when writes_opt writes_each
      writes_nested [where t = 10, simplified])
    (auto simp: Proof_writes)

lemma QueryProofResponse_rejects:
  assumes "QueryProofResponse_proof m = Some p" "\<not> isUInt32 (Proof_index p)"
  shows "rejects (QueryProofResponse_encode W m)"
  unfolding QueryProofResponse_encode_def assms(1)
  by (intro rejects_all_here rejects_opt rejects_nested [where t = 10, simplified] Proof_rejects assms(2))

lemma GetEmptyLeafProofRequest_writes: "GetEmptyLeafProofRequest_ok F m \<Longrightarrow> writes
  (GetEmptyLeafProofRequest_encode W m) (GetEmptyLeafProofRequest_bytes F m)"
  unfolding GetEmptyLeafProofRequest_encode_def GetEmptyLeafProofRequest_bytes_def GetEmptyLeafProofRequest_ok_def
  by (intro writes_all_Cons writes_all_single writes_when writes_opt writes_each
      writes_string [where t = 10, simplified])

lemma GetEmptyLeafProofResponse_writes: "GetEmptyLeafProofResponse_ok F m \<Longrightarrow> writes
  (GetEmptyLeafProofResponse_encode W m) (GetEmptyLeafProofResponse_bytes F m)"
  unfolding GetEmptyLeafProofResponse_encode_def GetEmptyLeafProofResponse_bytes_def GetEmptyLeafProofResponse_ok_def
  by (intro writes_all_Cons writes_all_single writes_when writes_opt writes_each
      writes_nested [where t = 10, simplified])
    (auto simp: Proof_writes)

lemma BatchOperation_writes: "BatchOperation_ok F m \<Longrightarrow> writes (BatchOperation_encode W m)
  (BatchOperation_bytes F m)"
  unfolding BatchOperation_encode_def BatchOperation_bytes_def BatchOperation_ok_def
  by (intro writes_all_Cons writes_all_single writes_when writes_opt writes_each
      writes_string [where t = 10, simplified] writes_bool [where t = 16, simplified])

lemma QueryBatchProofsRequest_writes: "QueryBatchProofsRequest_ok F m \<Longrightarrow> writes
  (QueryBatchProofsRequest_encode W m) (QueryBatchProofsRequest_bytes F m)"
  unfolding QueryBatchProofsRequest_encode_def QueryBatchProofsRequest_bytes_def QueryBatchProofsRequest_ok_def
  by (intro writes_all_Cons writes_all_single writes_when writes_opt writes_each
      writes_string [where t = 10, simplified] writes_nested [where t = 18, simplified])
    (auto simp: BatchOperation_writes)

lemma BatchProof_writes: "BatchProof_ok F m \<Longrightarrow> writes (BatchProof_encode W m)
  (BatchProof_bytes F m)"
  unfolding BatchProof_encode_def BatchProof_bytes_def BatchProof_ok_def
  by (intro writes_all_Cons writes_all_single writes_when writes_opt writes_each
      writes_uint32 [where t = 8, simplified] writes_string [where t = 18, simplified])
    simp_all

lemma QueryBatchProofsResponse_writes: "QueryBatchProofsResponse_ok F m \<Longrightarrow> writes
  (QueryBatchProofsResponse_encode W m) (QueryBatchProofsResponse_bytes F m)"
  unfolding QueryBatchProofsResponse_encode_def QueryBatchProofsResponse_bytes_def QueryBatchProofsResponse_ok_def
  by (intro writes_all_Cons writes_all_single writes_when writes_opt writes_each
      writes_string [where t = 10, simplified] writes_nested [where t = 18, simplified])
    (auto simp: BatchProof_writes)

end

section \<open>Decoding\<close>

context wire_reader
begin

lemma Proof_consumes:
  "Proof_ok F m \<Longrightarrow> consumes (Proof_field R) createBaseProof (Proof_bytes F m) m"
  unfolding Proof_bytes_def
  by (rule consumes_to,
      rule set_string [where fu = Proof_leaf_update and t = 10],
      rule set_strings [where fu = Proof_path_update and t = 18],
      rule set_uint32 [where fu = Proof_index_update and t = 24],
      rule consumes_last, rule set_string [where fu = Proof_root_update and t = 34], rule consumes_Nil)
    (auto simp: Proof_ok_def Proof_field_tags createBaseProof_def intro!: Proof.equality)
lemma QueryProofRequest_consumes:
  "QueryProofRequest_ok F m \<Longrightarrow> consumes
    (QueryProofRequest_field R) createBaseQueryProofRequest (QueryProofRequest_bytes F m) m"
  unfolding QueryProofRequest_bytes_def
  by (rule consumes_to,
      rule set_string [where fu = QueryProofRequest_registry_update and t = 10],
      rule consumes_last, rule set_string [where fu = QueryProofRequest_leaf_update and t = 18],
        rule consumes_Nil)
    (auto simp: QueryProofRequest_ok_def QueryProofRequest_field_tags createBaseQueryProofRequest_def
      intro!: QueryProofRequest.equality)
lemma QueryProofResponse_consumes:
  "QueryProofResponse_ok F m \<Longrightarrow> consumes
    (QueryProofResponse_field R) createBaseQueryProofResponse (QueryProofResponse_bytes F m) m"
  unfolding QueryProofResponse_bytes_def
  by (rule consumes_to,
      rule consumes_last, rule set_message [where fu = QueryProofResponse_proof_update and t = 10
        and sub = "Proof_field R" and base = createBaseProof], rule consumes_Nil)
    (auto simp: QueryProofResponse_ok_def QueryProofResponse_field_tags createBaseQueryProofResponse_def
      Proof_decode_def Proof_consumes intro!: QueryProofResponse.equality)
lemma GetEmptyLeafProofRequest_consumes:
  "GetEmptyLeafProofRequest_ok F m \<Longrightarrow> consumes
    (GetEmptyLeafProofRequest_field R) createBaseGetEmptyLeafProofRequest
      (GetEmptyLeafProofRequest_bytes F m) m"
  unfolding GetEmptyLeafProofRequest_bytes_def
  by (rule consumes_to,
      rule consumes_last, rule set_string [where fu = GetEmptyLeafProofRequest_registry_update and t = 10],
        rule consumes_Nil)
    (auto simp: GetEmptyLeafProofRequest_ok_def GetEmptyLeafProofRequest_field_tags
      createBaseGetEmptyLeafProofRequest_def intro!: GetEmptyLeafProofRequest.equality)
lemma GetEmptyLeafProofResponse_consumes:
  "GetEmptyLeafProofResponse_ok F m \<Longrightarrow> consumes
    (GetEmptyLeafProofResponse_field R) createBaseGetEmptyLeafProofResponse
      (GetEmptyLeafProofResponse_bytes F m) m"
  unfolding GetEmptyLeafProofResponse_bytes_def
  by (rule consumes_to,
      rule consumes_last, rule set_message [where fu = GetEmptyLeafProofResponse_proof_update and t = 10
        and sub = "Proof_field R" and base = createBaseProof], rule consumes_Nil)
    (auto simp: GetEmptyLeafProofResponse_ok_def GetEmptyLeafProofResponse_field_tags
      createBaseGetEmptyLeafProofResponse_def Proof_decode_def Proof_consumes intro!: GetEmptyLeafProofResponse.equality)
lemma BatchOperation_consumes:
  "BatchOperation_ok F m \<Longrightarrow> consumes (BatchOperation_field R) createBaseBatchOperation
    (BatchOperation_bytes F m) m"
  unfolding BatchOperation_bytes_def
  by (rule consumes_to,
      rule set_string [where fu = BatchOperation_leafHash_update and t = 10],
      rule consumes_last, rule set_bool [where fu = BatchOperation_isAddition_update and t = 16],
        rule consumes_Nil)
    (auto simp: BatchOperation_ok_def BatchOperation_field_tags createBaseBatchOperation_def intro!:
      BatchOperation.equality)
lemma QueryBatchProofsRequest_consumes:
  "QueryBatchProofsRequest_ok F m \<Longrightarrow> consumes
    (QueryBatchProofsRequest_field R) createBaseQueryBatchProofsRequest (QueryBatchProofsRequest_bytes F m) m"
  unfolding QueryBatchProofsRequest_bytes_def
  by (rule consumes_to,
      rule set_string [where fu = QueryBatchProofsRequest_registry_update and t = 10],
      rule consumes_last, rule set_messages [where fu = QueryBatchProofsRequest_operations_update and t = 18
        and sub = "BatchOperation_field R" and base = createBaseBatchOperation], rule consumes_Nil)
    (auto simp: QueryBatchProofsRequest_ok_def QueryBatchProofsRequest_field_tags
      createBaseQueryBatchProofsRequest_def BatchOperation_decode_def BatchOperation_consumes intro!: QueryBatchProofsRequest.equality)
lemma BatchProof_consumes:
  "BatchProof_ok F m \<Longrightarrow> consumes (BatchProof_field R) createBaseBatchProof
    (BatchProof_bytes F m) m"
  unfolding BatchProof_bytes_def
  by (rule consumes_to,
      rule set_uint32 [where fu = BatchProof_index_update and t = 8],
      rule consumes_last, rule set_strings [where fu = BatchProof_path_update and t = 18], rule consumes_Nil)
    (auto simp: BatchProof_ok_def BatchProof_field_tags createBaseBatchProof_def intro!: BatchProof.equality)
lemma QueryBatchProofsResponse_consumes:
  "QueryBatchProofsResponse_ok F m \<Longrightarrow> consumes
    (QueryBatchProofsResponse_field R) createBaseQueryBatchProofsResponse
      (QueryBatchProofsResponse_bytes F m) m"
  unfolding QueryBatchProofsResponse_bytes_def
  by (rule consumes_to,
      rule set_string [where fu = QueryBatchProofsResponse_initialRoot_update and t = 10],
      rule consumes_last, rule set_messages [where fu = QueryBatchProofsResponse_proofs_update and t = 18
        and sub = "BatchProof_field R" and base = createBaseBatchProof], rule consumes_Nil)
    (auto simp: QueryBatchProofsResponse_ok_def QueryBatchProofsResponse_field_tags
      createBaseQueryBatchProofsResponse_def BatchProof_decode_def BatchProof_consumes intro!: QueryBatchProofsResponse.equality)
lemma Proof_ends: "ends k (Proof_field R tag m)"
  by (auto simp: Proof_field_def)

lemma QueryProofRequest_ends: "ends k (QueryProofRequest_field R tag m)"
  by (auto simp: QueryProofRequest_field_def)

lemma QueryProofResponse_ends: "ends k (QueryProofResponse_field R tag m)"
  by (auto simp: QueryProofResponse_field_def Proof_decode_def Proof_ends intro!: ends_nested_flat)

lemma GetEmptyLeafProofRequest_ends: "ends k (GetEmptyLeafProofRequest_field R tag m)"
  by (auto simp: GetEmptyLeafProofRequest_field_def)

lemma GetEmptyLeafProofResponse_ends: "ends k (GetEmptyLeafProofResponse_field R tag m)"
  by (auto simp: GetEmptyLeafProofResponse_field_def Proof_decode_def Proof_ends intro!: ends_nested_flat)

lemma BatchOperation_ends: "ends k (BatchOperation_field R tag m)"
  by (auto simp: BatchOperation_field_def)

lemma QueryBatchProofsRequest_ends: "ends k (QueryBatchProofsRequest_field R tag m)"
  by (auto simp: QueryBatchProofsRequest_field_def BatchOperation_decode_def BatchOperation_ends intro!: ends_nested_flat)

lemma BatchProof_ends: "ends k (BatchProof_field R tag m)"
  by (auto simp: BatchProof_field_def)

lemma QueryBatchProofsResponse_ends: "ends k (QueryBatchProofsResponse_field R tag m)"
  by (auto simp: QueryBatchProofsResponse_field_def BatchProof_decode_def BatchProof_ends intro!: ends_nested_flat)

end

section \<open>Message functions\<close>

text \<open>
  The sublocales below state that every query message satisfies the contract of \<open>MessageFns\<close>.
\<close>

sublocale wire \<subseteq> proof_fns: message_fns R remaining F W out "Proof_encode W" "Proof_field R" createBaseProof
    "Proof_ok F" "Proof_bytes F"
  by unfold_locales (auto simp: Proof_writes Proof_consumes Proof_ends)

sublocale wire \<subseteq> query_proof_request: message_fns R remaining F W out "QueryProofRequest_encode W" "QueryProofRequest_field R" createBaseQueryProofRequest
    "QueryProofRequest_ok F" "QueryProofRequest_bytes F"
  by unfold_locales (auto simp: QueryProofRequest_writes QueryProofRequest_consumes QueryProofRequest_ends)

sublocale wire \<subseteq> query_proof_response: message_fns R remaining F W out "QueryProofResponse_encode W" "QueryProofResponse_field R" createBaseQueryProofResponse
    "QueryProofResponse_ok F" "QueryProofResponse_bytes F"
  by unfold_locales (auto simp: QueryProofResponse_writes QueryProofResponse_consumes QueryProofResponse_ends)

sublocale wire \<subseteq> empty_leaf_request: message_fns R remaining F W out "GetEmptyLeafProofRequest_encode W" "GetEmptyLeafProofRequest_field R" createBaseGetEmptyLeafProofRequest
    "GetEmptyLeafProofRequest_ok F" "GetEmptyLeafProofRequest_bytes F"
  by unfold_locales (auto simp: GetEmptyLeafProofRequest_writes GetEmptyLeafProofRequest_consumes GetEmptyLeafProofRequest_ends)

sublocale wire \<subseteq> empty_leaf_response: message_fns R remaining F W out "GetEmptyLeafProofResponse_encode W" "GetEmptyLeafProofResponse_field R" createBaseGetEmptyLeafProofResponse
    "GetEmptyLeafProofResponse_ok F" "GetEmptyLeafProofResponse_bytes F"
  by unfold_locales (auto simp: GetEmptyLeafProofResponse_writes GetEmptyLeafProofResponse_consumes GetEmptyLeafProofResponse_ends)

sublocale wire \<subseteq> batch_operation: message_fns R remaining F W out "BatchOperation_encode W" "BatchOperation_field R" createBaseBatchOperation
    "BatchOperation_ok F" "BatchOperation_bytes F"
  by unfold_locales (auto simp: BatchOperation_writes BatchOperation_consumes BatchOperation_ends)

sublocale wire \<subseteq> batch_proofs_request: message_fns R remaining F W out "QueryBatchProofsRequest_encode W" "QueryBatchProofsRequest_field R" createBaseQueryBatchProofsRequest
    "QueryBatchProofsRequest_ok F" "QueryBatchProofsRequest_bytes F"
  by unfold_locales (auto simp: QueryBatchProofsRequest_writes QueryBatchProofsRequest_consumes QueryBatchProofsRequest_ends)

sublocale wire \<subseteq> batch_proof: message_fns R remaining F W out "BatchProof_encode W" "BatchProof_field R" createBaseBatchProof
    "BatchProof_ok F" "BatchProof_bytes F"
  by unfold_locales (auto simp: BatchProof_writes BatchProof_consumes BatchProof_ends)

sublocale wire \<subseteq> batch_proofs_response: message_fns R remaining F W out "QueryBatchProofsResponse_encode W" "QueryBatchProofsResponse_field R" createBaseQueryBatchProofsResponse
    "QueryBatchProofsResponse_ok F" "QueryBatchProofsResponse_bytes F"
  by unfold_locales (auto simp: QueryBatchProofsResponse_writes QueryBatchProofsResponse_consumes QueryBatchProofsResponse_ends)

section \<open>Decoded indexes\<close>

lemma isUInt32_ofU32: "isUInt32 (ofU32 v)" "isUInt32 (numInt 0)"
  using uint_lt2p [of v] by (simp_all add: isUInt32_def ofU32_def)

lemma BatchProof_typed:
  assumes "BatchProof_decode R input len = Some (Inr (b, r))"
  shows "isUInt32 (BatchProof_index b)"
  by (rule keeps_decode_message [OF _ _ assms [unfolded BatchProof_decode_def]])
     (auto simp: BatchProof_field_def createBaseBatchProof_def isUInt32_ofU32
       intro!: keeps_bindR keeps_cont keeps_brk)

lemma QueryBatchProofsResponse_typed:
  assumes "QueryBatchProofsResponse_decode R input len = Some (Inr (m, r))"
  shows "\<forall>b\<in>set (QueryBatchProofsResponse_proofs m). isUInt32 (BatchProof_index b)"
proof (rule keeps_decode_message [OF _ _ assms [unfolded QueryBatchProofsResponse_decode_def]])
  fix tag :: u32 and m :: QueryBatchProofsResponse
  assume m: "\<forall>b\<in>set (QueryBatchProofsResponse_proofs m). isUInt32 (BatchProof_index b)"
  have "isUInt32 (BatchProof_index b)" if "nested R (BatchProof_decode R) r = Some (Inr (b, r'))" for b r r'
    using that BatchProof_typed [of R _ _ b r']
    by (auto simp: nested_def bindR_def getR_def split: sum.splits prod.splits)
  then show "keeps (\<lambda>m. \<forall>b\<in>set (QueryBatchProofsResponse_proofs m). isUInt32 (BatchProof_index b))
      (QueryBatchProofsResponse_field R tag m)"
    using m by (auto simp: QueryBatchProofsResponse_field_def intro!: keeps_bindR keeps_cont keeps_brk)
qed (simp add: createBaseQueryBatchProofsResponse_def)

end
