(* ===== verification/Query_Client.thy ===== *)
theory Query_Client
  imports Query_Codec
begin

text \<open>
  The client of the query service (class \<open>QueryClientImpl\<close> of \<open>gen/ts/galactica/merkle/query.ts\<close>).  The
  transport \<open>rpc\<close> is an interface the user implements: it is a function from a service name, a method
  name and the request bytes to an error or the response bytes, over a state \<open>'n\<close> of the network.

  A call that throws before it has a promise is distinguished from a promise that is rejected.
\<close>

section \<open>Calls\<close>

type_synonym 'n rpc = "string \<Rightarrow> string \<Rightarrow> bytes \<Rightarrow> 'n \<Rightarrow> (jserr + bytes) \<times> 'n"

datatype 'a promise = Throws jserr | Rejected jserr | Fulfilled 'a | NeverSettles

definition QueryServiceName :: string where
  "QueryServiceName = ''galactica.merkle.Query''"

record 'n query_client =
  client_rpc :: "'n rpc"
  client_service :: string

text \<open>\<open>opts?.service || QueryServiceName\<close>: the empty name is replaced as well.\<close>

definition QueryClientImpl :: "'n rpc \<Rightarrow> string option option \<Rightarrow> 'n query_client" where
  "QueryClientImpl rpc opts =
     \<lparr>client_rpc = rpc,
      client_service = (case opts of Some (Some s) \<Rightarrow> if s = '''' then QueryServiceName else s
                        | _ \<Rightarrow> QueryServiceName)\<rparr>"

text \<open>\<open>promise.then((data) => M.decode(new BinaryReader(data)))\<close>\<close>

definition thenDecode ::
    "'r reader_ops \<Rightarrow> ('r input \<Rightarrow> nat option \<Rightarrow> (jserr + 'a \<times> 'r) option) \<Rightarrow> jserr + bytes \<Rightarrow> 'a promise" where
  "thenDecode R decode p = (case p of
       Inl e \<Rightarrow> Rejected e
     | Inr data \<Rightarrow>
         (case decode (InReader (r_new R data)) None of
            None \<Rightarrow> NeverSettles
          | Some (Inl e) \<Rightarrow> Rejected e
          | Some (Inr (m, _)) \<Rightarrow> Fulfilled m))"

definition Client_Proof ::
    "'r reader_ops \<Rightarrow> 'w writer_ops \<Rightarrow> 'n query_client \<Rightarrow> QueryProofRequest \<Rightarrow> 'n
     \<Rightarrow> QueryProofResponse promise \<times> 'n" where
  "Client_Proof R W this request n =
     (case QueryProofRequest_encode W request (w_new W) of
        Inl e \<Rightarrow> (Throws e, n)
      | Inr w \<Rightarrow>
          (case client_rpc this (client_service this) ''Proof'' (w_finish W w) n of
             (p, n') \<Rightarrow> (thenDecode R (QueryProofResponse_decode R) p, n')))"

definition Client_GetEmptyLeafProof ::
    "'r reader_ops \<Rightarrow> 'w writer_ops \<Rightarrow> 'n query_client \<Rightarrow> GetEmptyLeafProofRequest \<Rightarrow> 'n
     \<Rightarrow> GetEmptyLeafProofResponse promise \<times> 'n" where
  "Client_GetEmptyLeafProof R W this request n =
     (case GetEmptyLeafProofRequest_encode W request (w_new W) of
        Inl e \<Rightarrow> (Throws e, n)
      | Inr w \<Rightarrow>
          (case client_rpc this (client_service this) ''GetEmptyLeafProof'' (w_finish W w) n of
             (p, n') \<Rightarrow> (thenDecode R (GetEmptyLeafProofResponse_decode R) p, n')))"

definition Client_GetBatchProofs ::
    "'r reader_ops \<Rightarrow> 'w writer_ops \<Rightarrow> 'n query_client \<Rightarrow> QueryBatchProofsRequest \<Rightarrow> 'n
     \<Rightarrow> QueryBatchProofsResponse promise \<times> 'n" where
  "Client_GetBatchProofs R W this request n =
     (case QueryBatchProofsRequest_encode W request (w_new W) of
        Inl e \<Rightarrow> (Throws e, n)
      | Inr w \<Rightarrow>
          (case client_rpc this (client_service this) ''GetBatchProofs'' (w_finish W w) n of
             (p, n') \<Rightarrow> (thenDecode R (QueryBatchProofsResponse_decode R) p, n')))"

section \<open>A call reaches the server and comes back\<close>

text \<open>
  A transport serves a method with the handler \<open>serve\<close> when it hands the bytes of a request to the
  handler and returns the bytes of its response.
\<close>

definition serves ::
    "'n rpc \<Rightarrow> string \<Rightarrow> string \<Rightarrow> ('q \<Rightarrow> bytes) \<Rightarrow> ('q \<Rightarrow> bool) \<Rightarrow> ('p \<Rightarrow> bytes)
     \<Rightarrow> ('q \<Rightarrow> 'n \<Rightarrow> (jserr + 'p) \<times> 'n) \<Rightarrow> bool" where
  "serves rpc service method reqBytes reqOk respBytes serve \<longleftrightarrow>
     (\<forall>q n. reqOk q \<longrightarrow> rpc service method (reqBytes q) n =
        (case serve q n of (Inl e, n') \<Rightarrow> (Inl e, n') | (Inr p, n') \<Rightarrow> (Inr (respBytes p), n')))"

definition settled :: "jserr + 'p \<Rightarrow> 'p promise" where
  "settled r = (case r of Inl e \<Rightarrow> Rejected e | Inr p \<Rightarrow> Fulfilled p)"

context wire
begin

lemma thenDecode_layout:
  assumes "message_fns R remaining F W out encode field base fits layout" "fits m"
  shows "thenDecode R (decode_message R field base) (Inr (layout m)) = Fulfilled m"
proof -
  obtain r where "decode_message R field base (InBytes (layout m)) None = Some (Inr (m, r))"
    using message_fns.decode_layout [OF assms] by blast
  then show ?thesis by (simp add: thenDecode_def decode_message_def toReader_def)
qed

text \<open>The common body of the three methods.\<close>

lemma call_serves:
  assumes req: "message_fns R remaining F W out reqEncode reqField reqBase reqOk reqBytes"
    and resp: "message_fns R remaining F W out respEncode respField respBase respOk respBytes"
    and "serves (client_rpc c) (client_service c) method reqBytes reqOk respBytes serve"
    and q: "reqOk q" and p: "\<And>p n'. serve q n = (Inr p, n') \<Longrightarrow> respOk p"
  shows "(case reqEncode q (w_new W) of
        Inl e \<Rightarrow> (Throws e, n)
      | Inr w \<Rightarrow>
          (case client_rpc c (client_service c) method (w_finish W w) n of
             (p, n') \<Rightarrow> (thenDecode R (decode_message R respField respBase) p, n')))
    = (case serve q n of (r, n') \<Rightarrow> (settled r, n'))"
proof -
  obtain w where w: "reqEncode q (w_new W) = Inr w" "w_finish W w = reqBytes q"
    using message_fns.encode_layout [OF req q] by blast
  show ?thesis
    using assms(3) q w p thenDecode_layout [OF resp]
    by (auto simp: serves_def settled_def thenDecode_def split: prod.splits sum.splits)
qed

lemma Client_Proof_serves:
  assumes "serves (client_rpc c) (client_service c) ''Proof'' (QueryProofRequest_bytes F)
      (QueryProofRequest_ok F) (QueryProofResponse_bytes F) serve"
    and "QueryProofRequest_ok F q" and "\<And>p n'. serve q n = (Inr p, n') \<Longrightarrow> QueryProofResponse_ok F p"
  shows "Client_Proof R W c q n = (case serve q n of (r, n') \<Rightarrow> (settled r, n'))"
  unfolding Client_Proof_def QueryProofResponse_decode_def
  using query_proof_request.message_fns_axioms query_proof_response.message_fns_axioms assms
  by (rule call_serves)

lemma Client_GetEmptyLeafProof_serves:
  assumes "serves (client_rpc c) (client_service c) ''GetEmptyLeafProof'' (GetEmptyLeafProofRequest_bytes F)
      (GetEmptyLeafProofRequest_ok F) (GetEmptyLeafProofResponse_bytes F) serve"
    and "GetEmptyLeafProofRequest_ok F q"
    and "\<And>p n'. serve q n = (Inr p, n') \<Longrightarrow> GetEmptyLeafProofResponse_ok F p"
  shows "Client_GetEmptyLeafProof R W c q n = (case serve q n of (r, n') \<Rightarrow> (settled r, n'))"
  unfolding Client_GetEmptyLeafProof_def GetEmptyLeafProofResponse_decode_def
  using empty_leaf_request.message_fns_axioms empty_leaf_response.message_fns_axioms assms
  by (rule call_serves)

lemma Client_GetBatchProofs_serves:
  assumes "serves (client_rpc c) (client_service c) ''GetBatchProofs'' (QueryBatchProofsRequest_bytes F)
      (QueryBatchProofsRequest_ok F) (QueryBatchProofsResponse_bytes F) serve"
    and "QueryBatchProofsRequest_ok F q"
    and "\<And>p n'. serve q n = (Inr p, n') \<Longrightarrow> QueryBatchProofsResponse_ok F p"
  shows "Client_GetBatchProofs R W c q n = (case serve q n of (r, n') \<Rightarrow> (settled r, n'))"
  unfolding Client_GetBatchProofs_def QueryBatchProofsResponse_decode_def
  using batch_proofs_request.message_fns_axioms batch_proofs_response.message_fns_axioms assms
  by (rule call_serves)

end

end
