(* ===== verification/Query_Json.thy ===== *)
theory Query_Json
  imports Query_Messages
begin

text \<open>
  JSON of the query messages: \<open>fromJSON\<close> after \<open>toJSON\<close> returns the message with its index rounded, so
  a message with an integral index comes back unchanged; and partial messages.
\<close>

section \<open>Arrays of strings and of messages\<close>

lemma mapE_JStr [simp]: "mapE (\<lambda>e. Inr (jsString J e)) (map JStr xs) = Inr xs"
  by (induction xs) simp_all

lemmas json_defs = fieldOr_def fieldOpt_def fieldArr_def getPropOpt_def

lemma fieldOpt_set:
  assumes "map_of kvs key = map_option f x" "\<And>v. isSet (f v)" "\<And>v. conv (f v) = Inr v"
  shows "fieldOpt (JObj kvs) key conv = Inr x"
  using assms by (cases x) (simp_all add: fieldOpt_def)

section \<open>Round trips\<close>

definition Proof_rounded :: "Proof \<Rightarrow> Proof" where
  "Proof_rounded m = m\<lparr>Proof_index := mathRound (Proof_index m)\<rparr>"

definition BatchProof_rounded :: "BatchProof \<Rightarrow> BatchProof" where
  "BatchProof_rounded m = m\<lparr>BatchProof_index := mathRound (BatchProof_index m)\<rparr>"

lemma Proof_json: "Proof_fromJSON J (Proof_toJSON m) = Inr (Proof_rounded m)"
  by (cases m) (auto simp: Proof_fromJSON_def Proof_toJSON_def Proof_rounded_def json_defs)

lemma BatchProof_json: "BatchProof_fromJSON J (BatchProof_toJSON m) = Inr (BatchProof_rounded m)"
  by (cases m) (auto simp: BatchProof_fromJSON_def BatchProof_toJSON_def BatchProof_rounded_def json_defs)

lemma BatchOperation_json: "BatchOperation_fromJSON J (BatchOperation_toJSON m) = Inr m"
  by (cases m) (auto simp: BatchOperation_fromJSON_def BatchOperation_toJSON_def json_defs)

lemma QueryProofRequest_json: "QueryProofRequest_fromJSON J (QueryProofRequest_toJSON m) = Inr m"
  by (cases m) (auto simp: QueryProofRequest_fromJSON_def QueryProofRequest_toJSON_def json_defs)

lemma GetEmptyLeafProofRequest_json:
  "GetEmptyLeafProofRequest_fromJSON J (GetEmptyLeafProofRequest_toJSON m) = Inr m"
  by (cases m) (auto simp: GetEmptyLeafProofRequest_fromJSON_def GetEmptyLeafProofRequest_toJSON_def json_defs)

lemma toJSON_isSet [simp]:
  "isSet (Proof_toJSON p)" "isSet (BatchProof_toJSON b)" "isSet (BatchOperation_toJSON op)"
  by (simp_all add: Proof_toJSON_def BatchProof_toJSON_def BatchOperation_toJSON_def)

lemma QueryProofResponse_json:
  "QueryProofResponse_fromJSON J (QueryProofResponse_toJSON m) =
     Inr (m\<lparr>QueryProofResponse_proof := map_option Proof_rounded (QueryProofResponse_proof m)\<rparr>)"
  by (cases m; cases "QueryProofResponse_proof m")
     (auto simp: QueryProofResponse_fromJSON_def QueryProofResponse_toJSON_def json_defs Proof_json)

lemma GetEmptyLeafProofResponse_json:
  "GetEmptyLeafProofResponse_fromJSON J (GetEmptyLeafProofResponse_toJSON m) =
     Inr (m\<lparr>GetEmptyLeafProofResponse_proof := map_option Proof_rounded (GetEmptyLeafProofResponse_proof m)\<rparr>)"
  by (cases m; cases "GetEmptyLeafProofResponse_proof m")
     (auto simp: GetEmptyLeafProofResponse_fromJSON_def GetEmptyLeafProofResponse_toJSON_def json_defs Proof_json)

lemma mapE_BatchOperation [simp]:
  "mapE (BatchOperation_fromJSON J) (map BatchOperation_toJSON ops) = Inr ops"
  using mapE_all [of ops "BatchOperation_fromJSON J" BatchOperation_toJSON id] by (simp add: BatchOperation_json)

lemma mapE_BatchProof [simp]:
  "mapE (BatchProof_fromJSON J) (map BatchProof_toJSON ps) = Inr (map BatchProof_rounded ps)"
  by (rule mapE_all) (rule BatchProof_json)

lemma QueryBatchProofsRequest_json:
  "QueryBatchProofsRequest_fromJSON J (QueryBatchProofsRequest_toJSON m) = Inr m"
  by (cases m) (auto simp: QueryBatchProofsRequest_fromJSON_def QueryBatchProofsRequest_toJSON_def json_defs)

lemma QueryBatchProofsResponse_json:
  "QueryBatchProofsResponse_fromJSON J (QueryBatchProofsResponse_toJSON m) =
     Inr (m\<lparr>QueryBatchProofsResponse_proofs := map BatchProof_rounded (QueryBatchProofsResponse_proofs m)\<rparr>)"
  by (cases m) (auto simp: QueryBatchProofsResponse_fromJSON_def QueryBatchProofsResponse_toJSON_def json_defs)

section \<open>Partial messages\<close>

text \<open>A message without fields is the empty message.\<close>

lemma create_none:
  "Proof_create None = createBaseProof"
  "QueryProofRequest_create None = createBaseQueryProofRequest"
  "QueryProofResponse_create None = createBaseQueryProofResponse"
  "GetEmptyLeafProofRequest_create None = createBaseGetEmptyLeafProofRequest"
  "GetEmptyLeafProofResponse_create None = createBaseGetEmptyLeafProofResponse"
  "BatchOperation_create None = createBaseBatchOperation"
  "QueryBatchProofsRequest_create None = createBaseQueryBatchProofsRequest"
  "BatchProof_create None = createBaseBatchProof"
  "QueryBatchProofsResponse_create None = createBaseQueryBatchProofsResponse"
  by (simp_all add: Proof_create_def Proof_fromPartial_def createBaseProof_def
      QueryProofRequest_create_def QueryProofRequest_fromPartial_def createBaseQueryProofRequest_def
      QueryProofResponse_create_def QueryProofResponse_fromPartial_def createBaseQueryProofResponse_def
      GetEmptyLeafProofRequest_create_def GetEmptyLeafProofRequest_fromPartial_def
      createBaseGetEmptyLeafProofRequest_def
      GetEmptyLeafProofResponse_create_def GetEmptyLeafProofResponse_fromPartial_def
      createBaseGetEmptyLeafProofResponse_def
      BatchOperation_create_def BatchOperation_fromPartial_def createBaseBatchOperation_def
      QueryBatchProofsRequest_create_def QueryBatchProofsRequest_fromPartial_def
      createBaseQueryBatchProofsRequest_def
      BatchProof_create_def BatchProof_fromPartial_def createBaseBatchProof_def
      QueryBatchProofsResponse_create_def QueryBatchProofsResponse_fromPartial_def
      createBaseQueryBatchProofsResponse_def)

end
