(* ===== verification/Http_Messages.thy ===== *)
theory Http_Messages
  imports Wire_Laws
begin

unbundle bit_operations_syntax

text \<open>
  The HTTP annotations (\<open>gen/ts/google/api/http.ts\<close>): \<open>CustomHttpPattern\<close>, the recursive message
  \<open>HttpRule\<close>, and \<open>Http\<close>.  A record cannot refer to itself, so \<open>HttpRule\<close> is a datatype with the fields as
  selectors and one setter for each assignment of \<open>decode\<close>.
\<close>

section \<open>Messages\<close>

subsection \<open>\<open>CustomHttpPattern\<close>\<close>

record CustomHttpPattern =
  CustomHttpPattern_kind :: string
  CustomHttpPattern_path :: string

definition createBaseCustomHttpPattern :: CustomHttpPattern where
  "createBaseCustomHttpPattern =
     \<lparr>CustomHttpPattern_kind = '''', CustomHttpPattern_path = ''''\<rparr>"

definition CustomHttpPattern_encode :: "'w writer_ops \<Rightarrow> CustomHttpPattern \<Rightarrow> 'w
  \<Rightarrow> jserr + 'w" where
  "CustomHttpPattern_encode W message = w_all [
     w_when (CustomHttpPattern_kind message \<noteq> '''')
       (w_seq (w_tag W 10) (w_string W (CustomHttpPattern_kind message))),
     w_when (CustomHttpPattern_path message \<noteq> '''')
       (w_seq (w_tag W 18) (w_string W (CustomHttpPattern_path message)))]"

definition CustomHttpPattern_field :: "'r reader_ops \<Rightarrow> u32 \<Rightarrow> CustomHttpPattern
  \<Rightarrow> ('r, CustomHttpPattern option) rd" where
  "CustomHttpPattern_field R tag message =
     (if drop_bit 3 tag = 1 then
        (if tag \<noteq> 10 then brk
         else bindR (getR (r_string R)) (\<lambda>v. cont (message\<lparr>CustomHttpPattern_kind := v\<rparr>)))
      else if drop_bit 3 tag = 2 then
        (if tag \<noteq> 18 then brk
         else bindR (getR (r_string R)) (\<lambda>v. cont (message\<lparr>CustomHttpPattern_path := v\<rparr>)))
      else brk)"

definition CustomHttpPattern_decode :: "'r reader_ops \<Rightarrow> 'r input \<Rightarrow> nat option
  \<Rightarrow> (jserr + CustomHttpPattern \<times> 'r) option" where
  "CustomHttpPattern_decode R = decode_message R (CustomHttpPattern_field R) createBaseCustomHttpPattern"

definition CustomHttpPattern_fromJSON :: "js_text \<Rightarrow> jsval
  \<Rightarrow> jserr + CustomHttpPattern" where
  "CustomHttpPattern_fromJSON J object =
     bindE (fieldOr object ''kind'' (jsString J) '''') (\<lambda>v_kind.
     bindE (fieldOr object ''path'' (jsString J) '''') (\<lambda>v_path.
     Inr \<lparr>CustomHttpPattern_kind = v_kind, CustomHttpPattern_path = v_path\<rparr>))"

definition CustomHttpPattern_toJSON :: "CustomHttpPattern \<Rightarrow> jsval" where
  "CustomHttpPattern_toJSON message = JObj (
     setProp (CustomHttpPattern_kind message \<noteq> '''') ''kind'' (JStr (CustomHttpPattern_kind message)) @
     setProp (CustomHttpPattern_path message \<noteq> '''') ''path'' (JStr (CustomHttpPattern_path message)))"

record CustomHttpPattern_partial =
  CustomHttpPattern_p_kind :: "string option"
  CustomHttpPattern_p_path :: "string option"

definition CustomHttpPattern_fromPartial :: "CustomHttpPattern_partial \<Rightarrow> CustomHttpPattern" where
  "CustomHttpPattern_fromPartial object = createBaseCustomHttpPattern\<lparr>
     CustomHttpPattern_kind := getOr (CustomHttpPattern_p_kind object) '''',
     CustomHttpPattern_path := getOr (CustomHttpPattern_p_path object) ''''\<rparr>"

definition CustomHttpPattern_create :: "CustomHttpPattern_partial option \<Rightarrow> CustomHttpPattern" where
  "CustomHttpPattern_create base = CustomHttpPattern_fromPartial (getOr base
     \<lparr>CustomHttpPattern_p_kind = None, CustomHttpPattern_p_path = None\<rparr>)"

subsection \<open>\<open>HttpRule\<close>\<close>

datatype HttpRule = HttpRule
  (HttpRule_selector: string)
  (HttpRule_get: "string option")
  (HttpRule_put: "string option")
  (HttpRule_post: "string option")
  (HttpRule_delete: "string option")
  (HttpRule_patch: "string option")
  (HttpRule_custom: "CustomHttpPattern option")
  (HttpRule_body: string)
  (HttpRule_responseBody: string)
  (HttpRule_additionalBindings: "HttpRule list")

fun HttpRule_set_selector :: "string \<Rightarrow> HttpRule \<Rightarrow> HttpRule" where
  "HttpRule_set_selector x (HttpRule a b c d e f g h i j) = HttpRule x b c d e f g h i j"

fun HttpRule_set_get :: "string option \<Rightarrow> HttpRule \<Rightarrow> HttpRule" where
  "HttpRule_set_get x (HttpRule a b c d e f g h i j) = HttpRule a x c d e f g h i j"

fun HttpRule_set_put :: "string option \<Rightarrow> HttpRule \<Rightarrow> HttpRule" where
  "HttpRule_set_put x (HttpRule a b c d e f g h i j) = HttpRule a b x d e f g h i j"

fun HttpRule_set_post :: "string option \<Rightarrow> HttpRule \<Rightarrow> HttpRule" where
  "HttpRule_set_post x (HttpRule a b c d e f g h i j) = HttpRule a b c x e f g h i j"

fun HttpRule_set_delete :: "string option \<Rightarrow> HttpRule \<Rightarrow> HttpRule" where
  "HttpRule_set_delete x (HttpRule a b c d e f g h i j) = HttpRule a b c d x f g h i j"

fun HttpRule_set_patch :: "string option \<Rightarrow> HttpRule \<Rightarrow> HttpRule" where
  "HttpRule_set_patch x (HttpRule a b c d e f g h i j) = HttpRule a b c d e x g h i j"

fun HttpRule_set_custom :: "CustomHttpPattern option \<Rightarrow> HttpRule \<Rightarrow> HttpRule" where
  "HttpRule_set_custom x (HttpRule a b c d e f g h i j) = HttpRule a b c d e f x h i j"

fun HttpRule_set_body :: "string \<Rightarrow> HttpRule \<Rightarrow> HttpRule" where
  "HttpRule_set_body x (HttpRule a b c d e f g h i j) = HttpRule a b c d e f g x i j"

fun HttpRule_set_responseBody :: "string \<Rightarrow> HttpRule \<Rightarrow> HttpRule" where
  "HttpRule_set_responseBody x (HttpRule a b c d e f g h i j) = HttpRule a b c d e f g h x j"

fun HttpRule_set_additionalBindings :: "HttpRule list \<Rightarrow> HttpRule \<Rightarrow> HttpRule" where
  "HttpRule_set_additionalBindings x (HttpRule a b c d e f g h i j) = HttpRule a b c d e f g h i x"

definition createBaseHttpRule :: HttpRule where
  "createBaseHttpRule = HttpRule '''' None None None None None None '''' '''' []"

fun HttpRule_encode :: "'w writer_ops \<Rightarrow> HttpRule \<Rightarrow> 'w \<Rightarrow> jserr + 'w" where
  "HttpRule_encode W (HttpRule v_selector v_get v_put v_post v_delete v_patch v_custom v_body v_responseBody v_additionalBindings) = w_all [
     w_when (v_selector \<noteq> '''') (w_seq (w_tag W 10) (w_string W v_selector)),
     w_opt (\<lambda>v. w_seq (w_tag W 18) (w_string W v)) v_get,
     w_opt (\<lambda>v. w_seq (w_tag W 26) (w_string W v)) v_put,
     w_opt (\<lambda>v. w_seq (w_tag W 34) (w_string W v)) v_post,
     w_opt (\<lambda>v. w_seq (w_tag W 42) (w_string W v)) v_delete,
     w_opt (\<lambda>v. w_seq (w_tag W 50) (w_string W v)) v_patch,
     w_opt (\<lambda>v. w_nested W 66 (CustomHttpPattern_encode W v)) v_custom,
     w_when (v_body \<noteq> '''') (w_seq (w_tag W 58) (w_string W v_body)),
     w_when (v_responseBody \<noteq> '''') (w_seq (w_tag W 98) (w_string W v_responseBody)),
     w_each (\<lambda>v. w_nested W 90 (HttpRule_encode W v)) v_additionalBindings]"

text \<open>The nested decoder is the argument \<open>dec\<close>,
  the recursion is closed by \<open>HttpRule_decode\<close>.\<close>

definition HttpRule_field ::
    "'r reader_ops \<Rightarrow> ('r input \<Rightarrow> nat option \<Rightarrow>
      (jserr + HttpRule \<times> 'r) option) \<Rightarrow> u32 \<Rightarrow> HttpRule
     \<Rightarrow> ('r, HttpRule option) rd" where
  "HttpRule_field R dec tag message =
     (if drop_bit 3 tag = 1 then
        (if tag \<noteq> 10 then brk
         else bindR (getR (r_string R)) (\<lambda>v. cont (HttpRule_set_selector v message)))
      else if drop_bit 3 tag = 2 then
        (if tag \<noteq> 18 then brk
         else bindR (getR (r_string R)) (\<lambda>v. cont (HttpRule_set_get (Some v) message)))
      else if drop_bit 3 tag = 3 then
        (if tag \<noteq> 26 then brk
         else bindR (getR (r_string R)) (\<lambda>v. cont (HttpRule_set_put (Some v) message)))
      else if drop_bit 3 tag = 4 then
        (if tag \<noteq> 34 then brk
         else bindR (getR (r_string R)) (\<lambda>v. cont (HttpRule_set_post (Some v) message)))
      else if drop_bit 3 tag = 5 then
        (if tag \<noteq> 42 then brk
         else bindR (getR (r_string R)) (\<lambda>v. cont (HttpRule_set_delete (Some v) message)))
      else if drop_bit 3 tag = 6 then
        (if tag \<noteq> 50 then brk
         else bindR (getR (r_string R)) (\<lambda>v. cont (HttpRule_set_patch (Some v) message)))
      else if drop_bit 3 tag = 8 then
        (if tag \<noteq> 66 then brk
         else bindR (nested R (CustomHttpPattern_decode R)) (\<lambda>v. cont (HttpRule_set_custom
           (Some v) message)))
      else if drop_bit 3 tag = 7 then
        (if tag \<noteq> 58 then brk
         else bindR (getR (r_string R)) (\<lambda>v. cont (HttpRule_set_body v message)))
      else if drop_bit 3 tag = 12 then
        (if tag \<noteq> 98 then brk
         else bindR (getR (r_string R)) (\<lambda>v. cont (HttpRule_set_responseBody v message)))
      else if drop_bit 3 tag = 11 then
        (if tag \<noteq> 90 then brk
         else bindR (nested R dec) (\<lambda>v. cont (HttpRule_set_additionalBindings
           (HttpRule_additionalBindings message @ [v]) message)))
      else brk)"

lemma HttpRule_field_mono [partial_function_mono]:
  assumes "\<And>i l. mono_option (\<lambda>f. dec f i l)"
  shows "mono_option (\<lambda>f. HttpRule_field R (dec f) tag message r)"
proof (cases "tag = 90")
  case True
  have "mono_option (\<lambda>f. bindR (nested R (dec f)) (\<lambda>v. cont (g v)) r)" for g :: "HttpRule
    \<Rightarrow> HttpRule"
    by (intro bindR_mono nested_mono assms option.const_mono)
  with True show ?thesis by (simp add: HttpRule_field_def)
next
  case False
  then have "HttpRule_field R (dec f) tag message r = HttpRule_field R (\<lambda>i l. None) tag message r" for f
    by (simp add: HttpRule_field_def)
  then show ?thesis by (simp add: option.const_mono)
qed

partial_function (option) HttpRule_decode ::
    "'r reader_ops \<Rightarrow> 'r input \<Rightarrow> nat option \<Rightarrow>
      (jserr + HttpRule \<times> 'r) option" where
  "HttpRule_decode R input len =
     decode_message R (HttpRule_field R (HttpRule_decode R)) createBaseHttpRule input len"

function HttpRule_fromJSON :: "js_text \<Rightarrow> jsval \<Rightarrow> jserr + HttpRule" where
  "HttpRule_fromJSON J object =
     bindE (fieldOr object ''selector'' (jsString J) '''') (\<lambda>v_selector.
     bindE (fieldOpt object ''get'' (\<lambda>e. Inr (jsString J e))) (\<lambda>v_get.
     bindE (fieldOpt object ''put'' (\<lambda>e. Inr (jsString J e))) (\<lambda>v_put.
     bindE (fieldOpt object ''post'' (\<lambda>e. Inr (jsString J e))) (\<lambda>v_post.
     bindE (fieldOpt object ''delete'' (\<lambda>e. Inr (jsString J e))) (\<lambda>v_delete.
     bindE (fieldOpt object ''patch'' (\<lambda>e. Inr (jsString J e))) (\<lambda>v_patch.
     bindE (fieldOpt object ''custom'' (CustomHttpPattern_fromJSON J)) (\<lambda>v_custom.
     bindE (fieldOr object ''body'' (jsString J) '''') (\<lambda>v_body.
     bindE (fieldOr object ''responseBody'' (jsString J) '''') (\<lambda>v_responseBody.
     bindE (fieldArr object ''additionalBindings'' (HttpRule_fromJSON J)) (\<lambda>v_additionalBindings.
     Inr (HttpRule v_selector v_get v_put v_post v_delete v_patch v_custom v_body v_responseBody v_additionalBindings)))))))))))"
  by pat_completeness auto
termination
  by (relation "measure (\<lambda>(J, object). size object)") (auto dest: size_getPropOpt)

declare HttpRule_fromJSON.simps [simp del]

fun HttpRule_toJSON :: "HttpRule \<Rightarrow> jsval" where
  "HttpRule_toJSON (HttpRule v_selector v_get v_put v_post v_delete v_patch v_custom v_body v_responseBody v_additionalBindings) = JObj (
     setProp (v_selector \<noteq> '''') ''selector'' (JStr v_selector) @
     setOpt ''get'' (map_option JStr v_get) @
     setOpt ''put'' (map_option JStr v_put) @
     setOpt ''post'' (map_option JStr v_post) @
     setOpt ''delete'' (map_option JStr v_delete) @
     setOpt ''patch'' (map_option JStr v_patch) @
     setOpt ''custom'' (map_option CustomHttpPattern_toJSON v_custom) @
     setProp (v_body \<noteq> '''') ''body'' (JStr v_body) @
     setProp (v_responseBody \<noteq> '''') ''responseBody'' (JStr v_responseBody) @
     setProp (v_additionalBindings \<noteq> []) ''additionalBindings'' (JArr
       (map HttpRule_toJSON v_additionalBindings)))"

datatype HttpRule_partial = HttpRule_partial
  (HttpRule_p_selector: "string option")
  (HttpRule_p_get: "string option")
  (HttpRule_p_put: "string option")
  (HttpRule_p_post: "string option")
  (HttpRule_p_delete: "string option")
  (HttpRule_p_patch: "string option")
  (HttpRule_p_custom: "CustomHttpPattern_partial option")
  (HttpRule_p_body: "string option")
  (HttpRule_p_responseBody: "string option")
  (HttpRule_p_additionalBindings: "HttpRule_partial list option")

fun HttpRule_fromPartial :: "HttpRule_partial \<Rightarrow> HttpRule" where
  "HttpRule_fromPartial
    (HttpRule_partial v_selector v_get v_put v_post v_delete v_patch v_custom v_body v_responseBody v_additionalBindings) = HttpRule
     (getOr v_selector '''')
     v_get
     v_put
     v_post
     v_delete
     v_patch
     (map_option CustomHttpPattern_fromPartial v_custom)
     (getOr v_body '''')
     (getOr v_responseBody '''')
     (getOr (map_option (map HttpRule_fromPartial) v_additionalBindings) [])"

definition HttpRule_create :: "HttpRule_partial option \<Rightarrow> HttpRule" where
  "HttpRule_create base = HttpRule_fromPartial (getOr base
     (HttpRule_partial None None None None None None None None None None))"

subsection \<open>\<open>Http\<close>\<close>

record Http =
  Http_rules :: "HttpRule list"
  Http_fullyDecodeReservedExpansion :: bool

definition createBaseHttp :: Http where
  "createBaseHttp =
     \<lparr>Http_rules = [], Http_fullyDecodeReservedExpansion = False\<rparr>"

definition Http_encode :: "'w writer_ops \<Rightarrow> Http \<Rightarrow> 'w \<Rightarrow> jserr + 'w" where
  "Http_encode W message = w_all [
     w_each (\<lambda>v. w_nested W 10 (HttpRule_encode W v)) (Http_rules message),
     w_when (Http_fullyDecodeReservedExpansion message \<noteq> False)
       (w_seq (w_tag W 16) (w_bool W (Http_fullyDecodeReservedExpansion message)))]"

definition Http_field :: "'r reader_ops \<Rightarrow> u32 \<Rightarrow> Http \<Rightarrow> ('r,
  Http option) rd" where
  "Http_field R tag message =
     (if drop_bit 3 tag = 1 then
        (if tag \<noteq> 10 then brk
         else bindR (nested R (HttpRule_decode R)) (\<lambda>v. cont
           (message\<lparr>Http_rules := Http_rules message @ [v]\<rparr>)))
      else if drop_bit 3 tag = 2 then
        (if tag \<noteq> 16 then brk
         else bindR (getR (r_bool R)) (\<lambda>v. cont
           (message\<lparr>Http_fullyDecodeReservedExpansion := v\<rparr>)))
      else brk)"

definition Http_decode :: "'r reader_ops \<Rightarrow> 'r input \<Rightarrow> nat option \<Rightarrow>
  (jserr + Http \<times> 'r) option" where
  "Http_decode R = decode_message R (Http_field R) createBaseHttp"

definition Http_fromJSON :: "js_text \<Rightarrow> jsval \<Rightarrow> jserr + Http" where
  "Http_fromJSON J object =
     bindE (fieldArr object ''rules'' (HttpRule_fromJSON J)) (\<lambda>v_rules.
     bindE (fieldOr object ''fullyDecodeReservedExpansion'' jsBoolean False)
       (\<lambda>v_fullyDecodeReservedExpansion.
     Inr \<lparr>Http_rules = v_rules,
       Http_fullyDecodeReservedExpansion = v_fullyDecodeReservedExpansion\<rparr>))"

definition Http_toJSON :: "Http \<Rightarrow> jsval" where
  "Http_toJSON message = JObj (
     setProp (Http_rules message \<noteq> []) ''rules'' (JArr (map HttpRule_toJSON (Http_rules message))) @
     setProp (Http_fullyDecodeReservedExpansion message \<noteq> False) ''fullyDecodeReservedExpansion''
       (JBool (Http_fullyDecodeReservedExpansion message)))"

record Http_partial =
  Http_p_rules :: "HttpRule_partial list option"
  Http_p_fullyDecodeReservedExpansion :: "bool option"

definition Http_fromPartial :: "Http_partial \<Rightarrow> Http" where
  "Http_fromPartial object = createBaseHttp\<lparr>
     Http_rules := getOr (map_option (map HttpRule_fromPartial) (Http_p_rules object)) [],
     Http_fullyDecodeReservedExpansion := getOr (Http_p_fullyDecodeReservedExpansion object) False\<rparr>"

definition Http_create :: "Http_partial option \<Rightarrow> Http" where
  "Http_create base = Http_fromPartial (getOr base
     \<lparr>Http_p_rules = None, Http_p_fullyDecodeReservedExpansion = None\<rparr>)"

end
