(* ===== verification/Http_Codec.thy ===== *)
theory Http_Codec
  imports Http_Messages Query_Json
begin

text \<open>
  The codec and the JSON form of the HTTP annotations.  \<open>HttpRule\<close> refers to itself,
    so its round trip
  and the end of its \<open>decode\<close> are by induction, on the rule and on the number of bytes left.
\<close>

section \<open>Wire formats\<close>

subsection \<open>\<open>CustomHttpPattern\<close>\<close>

definition CustomHttpPattern_bytes :: "wire_format \<Rightarrow> CustomHttpPattern \<Rightarrow> bytes" where
  "CustomHttpPattern_bytes F message =
     (if CustomHttpPattern_kind message \<noteq> '''' then strBytes F 10
       (CustomHttpPattern_kind message) else []) @
     (if CustomHttpPattern_path message \<noteq> '''' then strBytes F 18
       (CustomHttpPattern_path message) else [])"

definition CustomHttpPattern_ok :: "wire_format \<Rightarrow> CustomHttpPattern \<Rightarrow> bool" where
  "CustomHttpPattern_ok F message \<longleftrightarrow>
     strOk F (CustomHttpPattern_kind message) \<and>
     strOk F (CustomHttpPattern_path message)"

lemma CustomHttpPattern_field_tags:
  "CustomHttpPattern_field R 10 m = bindR (getR (r_string R)) (\<lambda>v. cont
    (m\<lparr>CustomHttpPattern_kind := v\<rparr>))"
  "CustomHttpPattern_field R 18 m = bindR (getR (r_string R)) (\<lambda>v. cont
    (m\<lparr>CustomHttpPattern_path := v\<rparr>))"
  by (simp_all add: CustomHttpPattern_field_def)

subsection \<open>\<open>HttpRule\<close>\<close>

fun HttpRule_bytes :: "wire_format \<Rightarrow> HttpRule \<Rightarrow> bytes" where
  "HttpRule_bytes F (HttpRule v_selector v_get v_put v_post v_delete v_patch v_custom v_body v_responseBody v_additionalBindings) =
     (if v_selector \<noteq> '''' then strBytes F 10 v_selector else []) @
     (case v_get of None \<Rightarrow> [] | Some v \<Rightarrow> strBytes F 18 v) @
     (case v_put of None \<Rightarrow> [] | Some v \<Rightarrow> strBytes F 26 v) @
     (case v_post of None \<Rightarrow> [] | Some v \<Rightarrow> strBytes F 34 v) @
     (case v_delete of None \<Rightarrow> [] | Some v \<Rightarrow> strBytes F 42 v) @
     (case v_patch of None \<Rightarrow> [] | Some v \<Rightarrow> strBytes F 50 v) @
     (case v_custom of None \<Rightarrow> [] | Some v \<Rightarrow> msgBytes F 66
       (CustomHttpPattern_bytes F v)) @
     (if v_body \<noteq> '''' then strBytes F 58 v_body else []) @
     (if v_responseBody \<noteq> '''' then strBytes F 98 v_responseBody else []) @
     concat (map (\<lambda>v. msgBytes F 90 (HttpRule_bytes F v)) v_additionalBindings)"

fun HttpRule_ok :: "wire_format \<Rightarrow> HttpRule \<Rightarrow> bool" where
  "HttpRule_ok F (HttpRule v_selector v_get v_put v_post v_delete v_patch v_custom v_body v_responseBody v_additionalBindings) \<longleftrightarrow>
     strOk F v_selector \<and>
     (\<forall>v. v_get = Some v \<longrightarrow> strOk F v) \<and>
     (\<forall>v. v_put = Some v \<longrightarrow> strOk F v) \<and>
     (\<forall>v. v_post = Some v \<longrightarrow> strOk F v) \<and>
     (\<forall>v. v_delete = Some v \<longrightarrow> strOk F v) \<and>
     (\<forall>v. v_patch = Some v \<longrightarrow> strOk F v) \<and>
     (\<forall>v. v_custom = Some v \<longrightarrow> CustomHttpPattern_ok F v \<and> msgOk
       (CustomHttpPattern_bytes F v)) \<and>
     strOk F v_body \<and>
     strOk F v_responseBody \<and>
     (\<forall>v\<in>set v_additionalBindings. HttpRule_ok F v \<and> msgOk (HttpRule_bytes F v))"

lemma HttpRule_field_tags:
  "HttpRule_field R dec 10 m = bindR (getR (r_string R)) (\<lambda>v. cont (HttpRule_set_selector v m))"
  "HttpRule_field R dec 18 m = bindR (getR (r_string R)) (\<lambda>v. cont (HttpRule_set_get (Some v) m))"
  "HttpRule_field R dec 26 m = bindR (getR (r_string R)) (\<lambda>v. cont (HttpRule_set_put (Some v) m))"
  "HttpRule_field R dec 34 m = bindR (getR (r_string R)) (\<lambda>v. cont (HttpRule_set_post (Some v) m))"
  "HttpRule_field R dec 42 m = bindR (getR (r_string R)) (\<lambda>v. cont (HttpRule_set_delete (Some v) m))"
  "HttpRule_field R dec 50 m = bindR (getR (r_string R)) (\<lambda>v. cont (HttpRule_set_patch (Some v) m))"
  "HttpRule_field R dec 66 m = bindR (nested R (CustomHttpPattern_decode R)) (\<lambda>v. cont
    (HttpRule_set_custom (Some v) m))"
  "HttpRule_field R dec 58 m = bindR (getR (r_string R)) (\<lambda>v. cont (HttpRule_set_body v m))"
  "HttpRule_field R dec 98 m = bindR (getR (r_string R)) (\<lambda>v. cont (HttpRule_set_responseBody v m))"
  "HttpRule_field R dec 90 m = bindR (nested R dec) (\<lambda>v. cont (HttpRule_set_additionalBindings
    (HttpRule_additionalBindings m @ [v]) m))"
  by (simp_all add: HttpRule_field_def)

lemma HttpRule_decode_unfold:
  "HttpRule_decode R = decode_message R (HttpRule_field R (HttpRule_decode R)) createBaseHttpRule"
  by (intro ext) (rule HttpRule_decode.simps)

subsection \<open>\<open>Http\<close>\<close>

definition Http_bytes :: "wire_format \<Rightarrow> Http \<Rightarrow> bytes" where
  "Http_bytes F message =
     concat (map (\<lambda>v. msgBytes F 10 (HttpRule_bytes F v)) (Http_rules message)) @
     (if Http_fullyDecodeReservedExpansion message \<noteq> False then boolBytes F 16
       (Http_fullyDecodeReservedExpansion message) else [])"

definition Http_ok :: "wire_format \<Rightarrow> Http \<Rightarrow> bool" where
  "Http_ok F message \<longleftrightarrow>
     (\<forall>v\<in>set (Http_rules message). HttpRule_ok F v \<and> msgOk (HttpRule_bytes F v))"

lemma Http_field_tags:
  "Http_field R 10 m = bindR (nested R (HttpRule_decode R)) (\<lambda>v. cont
    (m\<lparr>Http_rules := Http_rules m @ [v]\<rparr>))"
  "Http_field R 16 m = bindR (getR (r_bool R)) (\<lambda>v. cont
    (m\<lparr>Http_fullyDecodeReservedExpansion := v\<rparr>))"
  by (simp_all add: Http_field_def)

section \<open>Encoding\<close>

context wire_writer
begin

lemma CustomHttpPattern_writes: "CustomHttpPattern_ok F m \<Longrightarrow> writes
  (CustomHttpPattern_encode W m) (CustomHttpPattern_bytes F m)"
  unfolding CustomHttpPattern_encode_def CustomHttpPattern_bytes_def CustomHttpPattern_ok_def
  by (intro writes_all_Cons writes_all_single writes_when writes_opt writes_each
      writes_string [where t = 10, simplified] writes_string [where t = 18, simplified])

lemma HttpRule_writes: "HttpRule_ok F m \<Longrightarrow> writes (HttpRule_encode W m) (HttpRule_bytes F m)"
proof (induction m)
  case (HttpRule v_selector v_get v_put v_post v_delete v_patch v_custom v_body v_responseBody v_additionalBindings)
  then show ?case
    unfolding HttpRule_encode.simps HttpRule_bytes.simps HttpRule_ok.simps
    by (intro writes_all_Cons writes_all_single writes_when writes_opt writes_each
        writes_string [where t = 10, simplified] writes_string [where t = 18,
          simplified] writes_string [where t = 26, simplified] writes_string [where t = 34,
            simplified] writes_string [where t = 42, simplified] writes_string [where t = 50,
              simplified] writes_nested [where t = 66, simplified] writes_string [where t = 58,
                simplified] writes_string [where t = 98, simplified] writes_nested [where t = 90, simplified])
      (auto simp: CustomHttpPattern_writes)
qed

lemma Http_writes: "Http_ok F m \<Longrightarrow> writes (Http_encode W m) (Http_bytes F m)"
  unfolding Http_encode_def Http_bytes_def Http_ok_def
  by (intro writes_all_Cons writes_all_single writes_when writes_opt writes_each
      writes_nested [where t = 10, simplified] writes_bool [where t = 16, simplified])
    (auto simp: HttpRule_writes)

end

section \<open>Decoding\<close>

context wire_reader
begin

lemma CustomHttpPattern_consumes:
  "CustomHttpPattern_ok F m \<Longrightarrow> consumes
    (CustomHttpPattern_field R) createBaseCustomHttpPattern (CustomHttpPattern_bytes F m) m"
  unfolding CustomHttpPattern_bytes_def
  by (rule consumes_to,
      rule set_string [where fu = CustomHttpPattern_kind_update and t = 10],
      rule consumes_last, rule set_string [where fu = CustomHttpPattern_path_update and t = 18],
        rule consumes_Nil)
    (auto simp: CustomHttpPattern_ok_def CustomHttpPattern_field_tags createBaseCustomHttpPattern_def
      intro!: CustomHttpPattern.equality)
lemma HttpRule_consumes:
  "HttpRule_ok F m \<Longrightarrow>
    consumes (HttpRule_field R (HttpRule_decode R)) createBaseHttpRule (HttpRule_bytes F m) m"
proof (induction m)
  case (HttpRule v_selector v_get v_put v_post v_delete v_patch v_custom v_body v_responseBody v_additionalBindings)
  then show ?case
    unfolding HttpRule_bytes.simps
    by - (rule consumes_to,
      rule put_string [where st = HttpRule_set_selector and t = 10],
      rule put_some_string [where st = HttpRule_set_get and t = 18],
      rule put_some_string [where st = HttpRule_set_put and t = 26],
      rule put_some_string [where st = HttpRule_set_post and t = 34],
      rule put_some_string [where st = HttpRule_set_delete and t = 42],
      rule put_some_string [where st = HttpRule_set_patch and t = 50],
      rule put_message [where st = HttpRule_set_custom and t = 66
        and sub = "CustomHttpPattern_field R" and base = createBaseCustomHttpPattern],
      rule put_string [where st = HttpRule_set_body and t = 58],
      rule put_string [where st = HttpRule_set_responseBody and t = 98],
      rule consumes_last, rule put_messages [where st = HttpRule_set_additionalBindings and t = 90
        and sub = "HttpRule_field R (HttpRule_decode R)" and base = createBaseHttpRule], rule consumes_Nil,
      auto simp: HttpRule_field_tags createBaseHttpRule_def CustomHttpPattern_decode_def CustomHttpPattern_consumes
        simp flip: HttpRule_decode_unfold [unfolded createBaseHttpRule_def])
qed

lemma Http_consumes:
  "Http_ok F m \<Longrightarrow> consumes (Http_field R) createBaseHttp (Http_bytes F m) m"
  unfolding Http_bytes_def
  by (rule consumes_to,
      rule set_messages [where fu = Http_rules_update and t = 10
        and sub = "HttpRule_field R (HttpRule_decode R)" and base = createBaseHttpRule],
      rule consumes_last, rule set_bool [where fu = Http_fullyDecodeReservedExpansion_update and t = 16],
        rule consumes_Nil)
    (auto simp: Http_ok_def Http_field_tags createBaseHttp_def HttpRule_consumes simp flip:
      HttpRule_decode_unfold intro!: Http.equality)
lemma CustomHttpPattern_ends: "ends k (CustomHttpPattern_field R tag m)"
  by (auto simp: CustomHttpPattern_field_def)

lemma HttpRule_ends: "ends k (HttpRule_field R (HttpRule_decode R) tag m)"
proof (induction k arbitrary: tag m)
  case 0
  then show ?case by simp
next
  case (Suc k)
  have "ends (Suc k) (nested R (decode_message R (HttpRule_field R (HttpRule_decode R)) createBaseHttpRule))"
    by (rule ends_nested) (rule Suc.IH)
  then have "ends (Suc k) (nested R (HttpRule_decode R))"
    by (simp flip: HttpRule_decode_unfold)
  moreover have "ends (Suc k) (nested R (CustomHttpPattern_decode R))"
    unfolding CustomHttpPattern_decode_def by (rule ends_nested_flat) (rule CustomHttpPattern_ends)
  ultimately show ?case
    unfolding HttpRule_field_def by auto
qed

lemma Http_ends: "ends k (Http_field R tag m)"
proof -
  have "ends k (nested R (HttpRule_decode R))"
    by (subst HttpRule_decode_unfold) (rule ends_nested_flat, rule HttpRule_ends)
  then show ?thesis unfolding Http_field_def by auto
qed

end

section \<open>Message functions\<close>

sublocale wire \<subseteq> custom_http_pattern: message_fns R remaining F W out "CustomHttpPattern_encode W"
    "CustomHttpPattern_field R" createBaseCustomHttpPattern "CustomHttpPattern_ok F" "CustomHttpPattern_bytes F"
  by unfold_locales (auto simp: CustomHttpPattern_writes CustomHttpPattern_consumes CustomHttpPattern_ends)

sublocale wire \<subseteq> http_rule: message_fns R remaining F W out "HttpRule_encode W"
    "HttpRule_field R (HttpRule_decode R)" createBaseHttpRule "HttpRule_ok F" "HttpRule_bytes F"
  by unfold_locales (auto simp: HttpRule_writes HttpRule_consumes HttpRule_ends)

sublocale wire \<subseteq> http: message_fns R remaining F W out "Http_encode W" "Http_field R" createBaseHttp
    "Http_ok F" "Http_bytes F"
  by unfold_locales (auto simp: Http_writes Http_consumes Http_ends)

section \<open>JSON\<close>

lemma CustomHttpPattern_json: "CustomHttpPattern_fromJSON J (CustomHttpPattern_toJSON m) = Inr m"
  by (cases m) (auto simp: CustomHttpPattern_fromJSON_def CustomHttpPattern_toJSON_def json_defs)

lemma HttpRule_json: "HttpRule_fromJSON J (HttpRule_toJSON m) = Inr m"
proof (induction m)
  case (HttpRule v_selector v_get v_put v_post v_delete v_patch v_custom v_body v_responseBody v_additionalBindings)
  let ?o = "HttpRule_toJSON (HttpRule v_selector v_get v_put v_post v_delete v_patch v_custom v_body v_responseBody v_additionalBindings)"
  have isS: "isSet (CustomHttpPattern_toJSON p)" for p by (simp add: CustomHttpPattern_toJSON_def)
  have "mapE (HttpRule_fromJSON J) (map HttpRule_toJSON v_additionalBindings) = Inr v_additionalBindings"
    using mapE_all [of v_additionalBindings "HttpRule_fromJSON J" HttpRule_toJSON id] HttpRule.IH by simp
  then have arr: "fieldArr ?o ''additionalBindings'' (HttpRule_fromJSON J) = Inr v_additionalBindings"
    by (simp add: fieldArr_def getPropOpt_def)
  have strs: "fieldOr ?o ''selector'' (jsString J) '''' = Inr v_selector"
    "fieldOr ?o ''body'' (jsString J) '''' = Inr v_body"
    "fieldOr ?o ''responseBody'' (jsString J) '''' = Inr v_responseBody"
    by (simp_all add: fieldOr_def)
  have opts: "fieldOpt ?o ''get'' (\<lambda>e. Inr (jsString J e)) = Inr v_get"
    "fieldOpt ?o ''put'' (\<lambda>e. Inr (jsString J e)) = Inr v_put"
    "fieldOpt ?o ''post'' (\<lambda>e. Inr (jsString J e)) = Inr v_post"
    "fieldOpt ?o ''delete'' (\<lambda>e. Inr (jsString J e)) = Inr v_delete"
    "fieldOpt ?o ''patch'' (\<lambda>e. Inr (jsString J e)) = Inr v_patch"
    by (simp only: HttpRule_toJSON.simps, rule fieldOpt_set [where f = JStr]; simp)+
  have "fieldOpt ?o ''custom'' (CustomHttpPattern_fromJSON J) = Inr v_custom"
    by (simp only: HttpRule_toJSON.simps, rule fieldOpt_set [where f = CustomHttpPattern_toJSON])
       (simp_all add: isS CustomHttpPattern_json)
  with arr strs opts show ?case
    by (simp only: HttpRule_fromJSON.simps [of J ?o] bindE_simps)
qed

lemma Http_json: "Http_fromJSON J (Http_toJSON m) = Inr m"
  using mapE_all [of "Http_rules m" "HttpRule_fromJSON J" HttpRule_toJSON id]
  by (cases m) (auto simp: Http_fromJSON_def Http_toJSON_def json_defs HttpRule_json)

end
