(* ===== verification/Descriptor_Enums.thy ===== *)
theory Descriptor_Enums
  imports Js_Value
begin

text \<open>
  The enumerations of \<open>gen/ts/google/protobuf/descriptor.ts\<close>.  A TypeScript enumeration is an object
  from names to numbers, and a field of its type holds any number a decoder has read.  \<open>fromJSON\<close>
  takes a name or a number and maps everything else to \<open>UNRECOGNIZED\<close>, \<open>toJSON\<close> returns the name.
\<close>

type_synonym enum_object = "(string \<times> number) list"

text \<open>\<open>E.NAME\<close>\<close>

definition enumVal :: "enum_object \<Rightarrow> string \<Rightarrow> number" where
  "enumVal E name = (case map_of E name of Some v \<Rightarrow> v | None \<Rightarrow> NaN)"

section \<open>Enumerations\<close>

subsection \<open>\<open>Edition\<close>\<close>

definition Edition :: enum_object where
  "Edition = [
     (''EDITION_UNKNOWN'', numInt 0),
     (''EDITION_LEGACY'', numInt 900),
     (''EDITION_PROTO2'', numInt 998),
     (''EDITION_PROTO3'', numInt 999),
     (''EDITION_2023'', numInt 1000),
     (''EDITION_2024'', numInt 1001),
     (''EDITION_1_TEST_ONLY'', numInt 1),
     (''EDITION_2_TEST_ONLY'', numInt 2),
     (''EDITION_99997_TEST_ONLY'', numInt 99997),
     (''EDITION_99998_TEST_ONLY'', numInt 99998),
     (''EDITION_99999_TEST_ONLY'', numInt 99999),
     (''EDITION_MAX'', numInt 2147483647),
     (''UNRECOGNIZED'', numInt (-1))]"

definition editionFromJSON :: "jsval \<Rightarrow> number" where
  "editionFromJSON object =
     (if object = JNum (numInt 0) \<or> object = JStr ''EDITION_UNKNOWN''
        then enumVal Edition ''EDITION_UNKNOWN''
      else if object = JNum (numInt 900) \<or> object = JStr ''EDITION_LEGACY''
        then enumVal Edition ''EDITION_LEGACY''
      else if object = JNum (numInt 998) \<or> object = JStr ''EDITION_PROTO2''
        then enumVal Edition ''EDITION_PROTO2''
      else if object = JNum (numInt 999) \<or> object = JStr ''EDITION_PROTO3''
        then enumVal Edition ''EDITION_PROTO3''
      else if object = JNum (numInt 1000) \<or> object = JStr ''EDITION_2023''
        then enumVal Edition ''EDITION_2023''
      else if object = JNum (numInt 1001) \<or> object = JStr ''EDITION_2024''
        then enumVal Edition ''EDITION_2024''
      else if object = JNum (numInt 1) \<or> object = JStr ''EDITION_1_TEST_ONLY''
        then enumVal Edition ''EDITION_1_TEST_ONLY''
      else if object = JNum (numInt 2) \<or> object = JStr ''EDITION_2_TEST_ONLY''
        then enumVal Edition ''EDITION_2_TEST_ONLY''
      else if object = JNum (numInt 99997) \<or> object = JStr ''EDITION_99997_TEST_ONLY''
        then enumVal Edition ''EDITION_99997_TEST_ONLY''
      else if object = JNum (numInt 99998) \<or> object = JStr ''EDITION_99998_TEST_ONLY''
        then enumVal Edition ''EDITION_99998_TEST_ONLY''
      else if object = JNum (numInt 99999) \<or> object = JStr ''EDITION_99999_TEST_ONLY''
        then enumVal Edition ''EDITION_99999_TEST_ONLY''
      else if object = JNum (numInt 2147483647) \<or> object = JStr ''EDITION_MAX''
        then enumVal Edition ''EDITION_MAX''
      else enumVal Edition ''UNRECOGNIZED'')"

definition editionToJSON :: "number \<Rightarrow> string" where
  "editionToJSON object =
     (if object = enumVal Edition ''EDITION_UNKNOWN'' then ''EDITION_UNKNOWN''
      else if object = enumVal Edition ''EDITION_LEGACY'' then ''EDITION_LEGACY''
      else if object = enumVal Edition ''EDITION_PROTO2'' then ''EDITION_PROTO2''
      else if object = enumVal Edition ''EDITION_PROTO3'' then ''EDITION_PROTO3''
      else if object = enumVal Edition ''EDITION_2023'' then ''EDITION_2023''
      else if object = enumVal Edition ''EDITION_2024'' then ''EDITION_2024''
      else if object = enumVal Edition ''EDITION_1_TEST_ONLY'' then ''EDITION_1_TEST_ONLY''
      else if object = enumVal Edition ''EDITION_2_TEST_ONLY'' then ''EDITION_2_TEST_ONLY''
      else if object = enumVal Edition ''EDITION_99997_TEST_ONLY'' then ''EDITION_99997_TEST_ONLY''
      else if object = enumVal Edition ''EDITION_99998_TEST_ONLY'' then ''EDITION_99998_TEST_ONLY''
      else if object = enumVal Edition ''EDITION_99999_TEST_ONLY'' then ''EDITION_99999_TEST_ONLY''
      else if object = enumVal Edition ''EDITION_MAX'' then ''EDITION_MAX''
      else ''UNRECOGNIZED'')"

subsection \<open>\<open>SymbolVisibility\<close>\<close>

definition SymbolVisibility :: enum_object where
  "SymbolVisibility = [
     (''VISIBILITY_UNSET'', numInt 0),
     (''VISIBILITY_LOCAL'', numInt 1),
     (''VISIBILITY_EXPORT'', numInt 2),
     (''UNRECOGNIZED'', numInt (-1))]"

definition symbolVisibilityFromJSON :: "jsval \<Rightarrow> number" where
  "symbolVisibilityFromJSON object =
     (if object = JNum (numInt 0) \<or> object = JStr ''VISIBILITY_UNSET''
        then enumVal SymbolVisibility ''VISIBILITY_UNSET''
      else if object = JNum (numInt 1) \<or> object = JStr ''VISIBILITY_LOCAL''
        then enumVal SymbolVisibility ''VISIBILITY_LOCAL''
      else if object = JNum (numInt 2) \<or> object = JStr ''VISIBILITY_EXPORT''
        then enumVal SymbolVisibility ''VISIBILITY_EXPORT''
      else enumVal SymbolVisibility ''UNRECOGNIZED'')"

definition symbolVisibilityToJSON :: "number \<Rightarrow> string" where
  "symbolVisibilityToJSON object =
     (if object = enumVal SymbolVisibility ''VISIBILITY_UNSET'' then ''VISIBILITY_UNSET''
      else if object = enumVal SymbolVisibility ''VISIBILITY_LOCAL'' then ''VISIBILITY_LOCAL''
      else if object = enumVal SymbolVisibility ''VISIBILITY_EXPORT'' then ''VISIBILITY_EXPORT''
      else ''UNRECOGNIZED'')"

subsection \<open>\<open>ExtensionRangeOptions_VerificationState\<close>\<close>

definition ExtensionRangeOptions_VerificationState :: enum_object where
  "ExtensionRangeOptions_VerificationState = [
     (''DECLARATION'', numInt 0),
     (''UNVERIFIED'', numInt 1),
     (''UNRECOGNIZED'', numInt (-1))]"

definition extensionRangeOptions_VerificationStateFromJSON :: "jsval \<Rightarrow> number" where
  "extensionRangeOptions_VerificationStateFromJSON object =
     (if object = JNum (numInt 0) \<or> object = JStr ''DECLARATION''
        then enumVal ExtensionRangeOptions_VerificationState ''DECLARATION''
      else if object = JNum (numInt 1) \<or> object = JStr ''UNVERIFIED''
        then enumVal ExtensionRangeOptions_VerificationState ''UNVERIFIED''
      else enumVal ExtensionRangeOptions_VerificationState ''UNRECOGNIZED'')"

definition extensionRangeOptions_VerificationStateToJSON :: "number \<Rightarrow> string" where
  "extensionRangeOptions_VerificationStateToJSON object =
     (if object = enumVal ExtensionRangeOptions_VerificationState ''DECLARATION'' then ''DECLARATION''
      else if object = enumVal ExtensionRangeOptions_VerificationState ''UNVERIFIED'' then ''UNVERIFIED''
      else ''UNRECOGNIZED'')"

subsection \<open>\<open>FieldDescriptorProto_Type\<close>\<close>

definition FieldDescriptorProto_Type :: enum_object where
  "FieldDescriptorProto_Type = [
     (''TYPE_DOUBLE'', numInt 1),
     (''TYPE_FLOAT'', numInt 2),
     (''TYPE_INT64'', numInt 3),
     (''TYPE_UINT64'', numInt 4),
     (''TYPE_INT32'', numInt 5),
     (''TYPE_FIXED64'', numInt 6),
     (''TYPE_FIXED32'', numInt 7),
     (''TYPE_BOOL'', numInt 8),
     (''TYPE_STRING'', numInt 9),
     (''TYPE_GROUP'', numInt 10),
     (''TYPE_MESSAGE'', numInt 11),
     (''TYPE_BYTES'', numInt 12),
     (''TYPE_UINT32'', numInt 13),
     (''TYPE_ENUM'', numInt 14),
     (''TYPE_SFIXED32'', numInt 15),
     (''TYPE_SFIXED64'', numInt 16),
     (''TYPE_SINT32'', numInt 17),
     (''TYPE_SINT64'', numInt 18),
     (''UNRECOGNIZED'', numInt (-1))]"

definition fieldDescriptorProto_TypeFromJSON :: "jsval \<Rightarrow> number" where
  "fieldDescriptorProto_TypeFromJSON object =
     (if object = JNum (numInt 1) \<or> object = JStr ''TYPE_DOUBLE''
        then enumVal FieldDescriptorProto_Type ''TYPE_DOUBLE''
      else if object = JNum (numInt 2) \<or> object = JStr ''TYPE_FLOAT''
        then enumVal FieldDescriptorProto_Type ''TYPE_FLOAT''
      else if object = JNum (numInt 3) \<or> object = JStr ''TYPE_INT64''
        then enumVal FieldDescriptorProto_Type ''TYPE_INT64''
      else if object = JNum (numInt 4) \<or> object = JStr ''TYPE_UINT64''
        then enumVal FieldDescriptorProto_Type ''TYPE_UINT64''
      else if object = JNum (numInt 5) \<or> object = JStr ''TYPE_INT32''
        then enumVal FieldDescriptorProto_Type ''TYPE_INT32''
      else if object = JNum (numInt 6) \<or> object = JStr ''TYPE_FIXED64''
        then enumVal FieldDescriptorProto_Type ''TYPE_FIXED64''
      else if object = JNum (numInt 7) \<or> object = JStr ''TYPE_FIXED32''
        then enumVal FieldDescriptorProto_Type ''TYPE_FIXED32''
      else if object = JNum (numInt 8) \<or> object = JStr ''TYPE_BOOL''
        then enumVal FieldDescriptorProto_Type ''TYPE_BOOL''
      else if object = JNum (numInt 9) \<or> object = JStr ''TYPE_STRING''
        then enumVal FieldDescriptorProto_Type ''TYPE_STRING''
      else if object = JNum (numInt 10) \<or> object = JStr ''TYPE_GROUP''
        then enumVal FieldDescriptorProto_Type ''TYPE_GROUP''
      else if object = JNum (numInt 11) \<or> object = JStr ''TYPE_MESSAGE''
        then enumVal FieldDescriptorProto_Type ''TYPE_MESSAGE''
      else if object = JNum (numInt 12) \<or> object = JStr ''TYPE_BYTES''
        then enumVal FieldDescriptorProto_Type ''TYPE_BYTES''
      else if object = JNum (numInt 13) \<or> object = JStr ''TYPE_UINT32''
        then enumVal FieldDescriptorProto_Type ''TYPE_UINT32''
      else if object = JNum (numInt 14) \<or> object = JStr ''TYPE_ENUM''
        then enumVal FieldDescriptorProto_Type ''TYPE_ENUM''
      else if object = JNum (numInt 15) \<or> object = JStr ''TYPE_SFIXED32''
        then enumVal FieldDescriptorProto_Type ''TYPE_SFIXED32''
      else if object = JNum (numInt 16) \<or> object = JStr ''TYPE_SFIXED64''
        then enumVal FieldDescriptorProto_Type ''TYPE_SFIXED64''
      else if object = JNum (numInt 17) \<or> object = JStr ''TYPE_SINT32''
        then enumVal FieldDescriptorProto_Type ''TYPE_SINT32''
      else if object = JNum (numInt 18) \<or> object = JStr ''TYPE_SINT64''
        then enumVal FieldDescriptorProto_Type ''TYPE_SINT64''
      else enumVal FieldDescriptorProto_Type ''UNRECOGNIZED'')"

definition fieldDescriptorProto_TypeToJSON :: "number \<Rightarrow> string" where
  "fieldDescriptorProto_TypeToJSON object =
     (if object = enumVal FieldDescriptorProto_Type ''TYPE_DOUBLE'' then ''TYPE_DOUBLE''
      else if object = enumVal FieldDescriptorProto_Type ''TYPE_FLOAT'' then ''TYPE_FLOAT''
      else if object = enumVal FieldDescriptorProto_Type ''TYPE_INT64'' then ''TYPE_INT64''
      else if object = enumVal FieldDescriptorProto_Type ''TYPE_UINT64'' then ''TYPE_UINT64''
      else if object = enumVal FieldDescriptorProto_Type ''TYPE_INT32'' then ''TYPE_INT32''
      else if object = enumVal FieldDescriptorProto_Type ''TYPE_FIXED64'' then ''TYPE_FIXED64''
      else if object = enumVal FieldDescriptorProto_Type ''TYPE_FIXED32'' then ''TYPE_FIXED32''
      else if object = enumVal FieldDescriptorProto_Type ''TYPE_BOOL'' then ''TYPE_BOOL''
      else if object = enumVal FieldDescriptorProto_Type ''TYPE_STRING'' then ''TYPE_STRING''
      else if object = enumVal FieldDescriptorProto_Type ''TYPE_GROUP'' then ''TYPE_GROUP''
      else if object = enumVal FieldDescriptorProto_Type ''TYPE_MESSAGE'' then ''TYPE_MESSAGE''
      else if object = enumVal FieldDescriptorProto_Type ''TYPE_BYTES'' then ''TYPE_BYTES''
      else if object = enumVal FieldDescriptorProto_Type ''TYPE_UINT32'' then ''TYPE_UINT32''
      else if object = enumVal FieldDescriptorProto_Type ''TYPE_ENUM'' then ''TYPE_ENUM''
      else if object = enumVal FieldDescriptorProto_Type ''TYPE_SFIXED32'' then ''TYPE_SFIXED32''
      else if object = enumVal FieldDescriptorProto_Type ''TYPE_SFIXED64'' then ''TYPE_SFIXED64''
      else if object = enumVal FieldDescriptorProto_Type ''TYPE_SINT32'' then ''TYPE_SINT32''
      else if object = enumVal FieldDescriptorProto_Type ''TYPE_SINT64'' then ''TYPE_SINT64''
      else ''UNRECOGNIZED'')"

subsection \<open>\<open>FieldDescriptorProto_Label\<close>\<close>

definition FieldDescriptorProto_Label :: enum_object where
  "FieldDescriptorProto_Label = [
     (''LABEL_OPTIONAL'', numInt 1),
     (''LABEL_REPEATED'', numInt 3),
     (''LABEL_REQUIRED'', numInt 2),
     (''UNRECOGNIZED'', numInt (-1))]"

definition fieldDescriptorProto_LabelFromJSON :: "jsval \<Rightarrow> number" where
  "fieldDescriptorProto_LabelFromJSON object =
     (if object = JNum (numInt 1) \<or> object = JStr ''LABEL_OPTIONAL''
        then enumVal FieldDescriptorProto_Label ''LABEL_OPTIONAL''
      else if object = JNum (numInt 3) \<or> object = JStr ''LABEL_REPEATED''
        then enumVal FieldDescriptorProto_Label ''LABEL_REPEATED''
      else if object = JNum (numInt 2) \<or> object = JStr ''LABEL_REQUIRED''
        then enumVal FieldDescriptorProto_Label ''LABEL_REQUIRED''
      else enumVal FieldDescriptorProto_Label ''UNRECOGNIZED'')"

definition fieldDescriptorProto_LabelToJSON :: "number \<Rightarrow> string" where
  "fieldDescriptorProto_LabelToJSON object =
     (if object = enumVal FieldDescriptorProto_Label ''LABEL_OPTIONAL'' then ''LABEL_OPTIONAL''
      else if object = enumVal FieldDescriptorProto_Label ''LABEL_REPEATED'' then ''LABEL_REPEATED''
      else if object = enumVal FieldDescriptorProto_Label ''LABEL_REQUIRED'' then ''LABEL_REQUIRED''
      else ''UNRECOGNIZED'')"

subsection \<open>\<open>FileOptions_OptimizeMode\<close>\<close>

definition FileOptions_OptimizeMode :: enum_object where
  "FileOptions_OptimizeMode = [
     (''SPEED'', numInt 1),
     (''CODE_SIZE'', numInt 2),
     (''LITE_RUNTIME'', numInt 3),
     (''UNRECOGNIZED'', numInt (-1))]"

definition fileOptions_OptimizeModeFromJSON :: "jsval \<Rightarrow> number" where
  "fileOptions_OptimizeModeFromJSON object =
     (if object = JNum (numInt 1) \<or> object = JStr ''SPEED''
        then enumVal FileOptions_OptimizeMode ''SPEED''
      else if object = JNum (numInt 2) \<or> object = JStr ''CODE_SIZE''
        then enumVal FileOptions_OptimizeMode ''CODE_SIZE''
      else if object = JNum (numInt 3) \<or> object = JStr ''LITE_RUNTIME''
        then enumVal FileOptions_OptimizeMode ''LITE_RUNTIME''
      else enumVal FileOptions_OptimizeMode ''UNRECOGNIZED'')"

definition fileOptions_OptimizeModeToJSON :: "number \<Rightarrow> string" where
  "fileOptions_OptimizeModeToJSON object =
     (if object = enumVal FileOptions_OptimizeMode ''SPEED'' then ''SPEED''
      else if object = enumVal FileOptions_OptimizeMode ''CODE_SIZE'' then ''CODE_SIZE''
      else if object = enumVal FileOptions_OptimizeMode ''LITE_RUNTIME'' then ''LITE_RUNTIME''
      else ''UNRECOGNIZED'')"

subsection \<open>\<open>FieldOptions_CType\<close>\<close>

definition FieldOptions_CType :: enum_object where
  "FieldOptions_CType = [
     (''STRING'', numInt 0),
     (''CORD'', numInt 1),
     (''STRING_PIECE'', numInt 2),
     (''UNRECOGNIZED'', numInt (-1))]"

definition fieldOptions_CTypeFromJSON :: "jsval \<Rightarrow> number" where
  "fieldOptions_CTypeFromJSON object =
     (if object = JNum (numInt 0) \<or> object = JStr ''STRING''
        then enumVal FieldOptions_CType ''STRING''
      else if object = JNum (numInt 1) \<or> object = JStr ''CORD''
        then enumVal FieldOptions_CType ''CORD''
      else if object = JNum (numInt 2) \<or> object = JStr ''STRING_PIECE''
        then enumVal FieldOptions_CType ''STRING_PIECE''
      else enumVal FieldOptions_CType ''UNRECOGNIZED'')"

definition fieldOptions_CTypeToJSON :: "number \<Rightarrow> string" where
  "fieldOptions_CTypeToJSON object =
     (if object = enumVal FieldOptions_CType ''STRING'' then ''STRING''
      else if object = enumVal FieldOptions_CType ''CORD'' then ''CORD''
      else if object = enumVal FieldOptions_CType ''STRING_PIECE'' then ''STRING_PIECE''
      else ''UNRECOGNIZED'')"

subsection \<open>\<open>FieldOptions_JSType\<close>\<close>

definition FieldOptions_JSType :: enum_object where
  "FieldOptions_JSType = [
     (''JS_NORMAL'', numInt 0),
     (''JS_STRING'', numInt 1),
     (''JS_NUMBER'', numInt 2),
     (''UNRECOGNIZED'', numInt (-1))]"

definition fieldOptions_JSTypeFromJSON :: "jsval \<Rightarrow> number" where
  "fieldOptions_JSTypeFromJSON object =
     (if object = JNum (numInt 0) \<or> object = JStr ''JS_NORMAL''
        then enumVal FieldOptions_JSType ''JS_NORMAL''
      else if object = JNum (numInt 1) \<or> object = JStr ''JS_STRING''
        then enumVal FieldOptions_JSType ''JS_STRING''
      else if object = JNum (numInt 2) \<or> object = JStr ''JS_NUMBER''
        then enumVal FieldOptions_JSType ''JS_NUMBER''
      else enumVal FieldOptions_JSType ''UNRECOGNIZED'')"

definition fieldOptions_JSTypeToJSON :: "number \<Rightarrow> string" where
  "fieldOptions_JSTypeToJSON object =
     (if object = enumVal FieldOptions_JSType ''JS_NORMAL'' then ''JS_NORMAL''
      else if object = enumVal FieldOptions_JSType ''JS_STRING'' then ''JS_STRING''
      else if object = enumVal FieldOptions_JSType ''JS_NUMBER'' then ''JS_NUMBER''
      else ''UNRECOGNIZED'')"

subsection \<open>\<open>FieldOptions_OptionRetention\<close>\<close>

definition FieldOptions_OptionRetention :: enum_object where
  "FieldOptions_OptionRetention = [
     (''RETENTION_UNKNOWN'', numInt 0),
     (''RETENTION_RUNTIME'', numInt 1),
     (''RETENTION_SOURCE'', numInt 2),
     (''UNRECOGNIZED'', numInt (-1))]"

definition fieldOptions_OptionRetentionFromJSON :: "jsval \<Rightarrow> number" where
  "fieldOptions_OptionRetentionFromJSON object =
     (if object = JNum (numInt 0) \<or> object = JStr ''RETENTION_UNKNOWN''
        then enumVal FieldOptions_OptionRetention ''RETENTION_UNKNOWN''
      else if object = JNum (numInt 1) \<or> object = JStr ''RETENTION_RUNTIME''
        then enumVal FieldOptions_OptionRetention ''RETENTION_RUNTIME''
      else if object = JNum (numInt 2) \<or> object = JStr ''RETENTION_SOURCE''
        then enumVal FieldOptions_OptionRetention ''RETENTION_SOURCE''
      else enumVal FieldOptions_OptionRetention ''UNRECOGNIZED'')"

definition fieldOptions_OptionRetentionToJSON :: "number \<Rightarrow> string" where
  "fieldOptions_OptionRetentionToJSON object =
     (if object = enumVal FieldOptions_OptionRetention ''RETENTION_UNKNOWN'' then ''RETENTION_UNKNOWN''
      else if object = enumVal FieldOptions_OptionRetention ''RETENTION_RUNTIME'' then ''RETENTION_RUNTIME''
      else if object = enumVal FieldOptions_OptionRetention ''RETENTION_SOURCE'' then ''RETENTION_SOURCE''
      else ''UNRECOGNIZED'')"

subsection \<open>\<open>FieldOptions_OptionTargetType\<close>\<close>

definition FieldOptions_OptionTargetType :: enum_object where
  "FieldOptions_OptionTargetType = [
     (''TARGET_TYPE_UNKNOWN'', numInt 0),
     (''TARGET_TYPE_FILE'', numInt 1),
     (''TARGET_TYPE_EXTENSION_RANGE'', numInt 2),
     (''TARGET_TYPE_MESSAGE'', numInt 3),
     (''TARGET_TYPE_FIELD'', numInt 4),
     (''TARGET_TYPE_ONEOF'', numInt 5),
     (''TARGET_TYPE_ENUM'', numInt 6),
     (''TARGET_TYPE_ENUM_ENTRY'', numInt 7),
     (''TARGET_TYPE_SERVICE'', numInt 8),
     (''TARGET_TYPE_METHOD'', numInt 9),
     (''UNRECOGNIZED'', numInt (-1))]"

definition fieldOptions_OptionTargetTypeFromJSON :: "jsval \<Rightarrow> number" where
  "fieldOptions_OptionTargetTypeFromJSON object =
     (if object = JNum (numInt 0) \<or> object = JStr ''TARGET_TYPE_UNKNOWN''
        then enumVal FieldOptions_OptionTargetType ''TARGET_TYPE_UNKNOWN''
      else if object = JNum (numInt 1) \<or> object = JStr ''TARGET_TYPE_FILE''
        then enumVal FieldOptions_OptionTargetType ''TARGET_TYPE_FILE''
      else if object = JNum (numInt 2) \<or> object = JStr ''TARGET_TYPE_EXTENSION_RANGE''
        then enumVal FieldOptions_OptionTargetType ''TARGET_TYPE_EXTENSION_RANGE''
      else if object = JNum (numInt 3) \<or> object = JStr ''TARGET_TYPE_MESSAGE''
        then enumVal FieldOptions_OptionTargetType ''TARGET_TYPE_MESSAGE''
      else if object = JNum (numInt 4) \<or> object = JStr ''TARGET_TYPE_FIELD''
        then enumVal FieldOptions_OptionTargetType ''TARGET_TYPE_FIELD''
      else if object = JNum (numInt 5) \<or> object = JStr ''TARGET_TYPE_ONEOF''
        then enumVal FieldOptions_OptionTargetType ''TARGET_TYPE_ONEOF''
      else if object = JNum (numInt 6) \<or> object = JStr ''TARGET_TYPE_ENUM''
        then enumVal FieldOptions_OptionTargetType ''TARGET_TYPE_ENUM''
      else if object = JNum (numInt 7) \<or> object = JStr ''TARGET_TYPE_ENUM_ENTRY''
        then enumVal FieldOptions_OptionTargetType ''TARGET_TYPE_ENUM_ENTRY''
      else if object = JNum (numInt 8) \<or> object = JStr ''TARGET_TYPE_SERVICE''
        then enumVal FieldOptions_OptionTargetType ''TARGET_TYPE_SERVICE''
      else if object = JNum (numInt 9) \<or> object = JStr ''TARGET_TYPE_METHOD''
        then enumVal FieldOptions_OptionTargetType ''TARGET_TYPE_METHOD''
      else enumVal FieldOptions_OptionTargetType ''UNRECOGNIZED'')"

definition fieldOptions_OptionTargetTypeToJSON :: "number \<Rightarrow> string" where
  "fieldOptions_OptionTargetTypeToJSON object =
     (if object = enumVal FieldOptions_OptionTargetType ''TARGET_TYPE_UNKNOWN'' then ''TARGET_TYPE_UNKNOWN''
      else if object = enumVal FieldOptions_OptionTargetType ''TARGET_TYPE_FILE'' then ''TARGET_TYPE_FILE''
      else if object = enumVal FieldOptions_OptionTargetType ''TARGET_TYPE_EXTENSION_RANGE'' then ''TARGET_TYPE_EXTENSION_RANGE''
      else if object = enumVal FieldOptions_OptionTargetType ''TARGET_TYPE_MESSAGE'' then ''TARGET_TYPE_MESSAGE''
      else if object = enumVal FieldOptions_OptionTargetType ''TARGET_TYPE_FIELD'' then ''TARGET_TYPE_FIELD''
      else if object = enumVal FieldOptions_OptionTargetType ''TARGET_TYPE_ONEOF'' then ''TARGET_TYPE_ONEOF''
      else if object = enumVal FieldOptions_OptionTargetType ''TARGET_TYPE_ENUM'' then ''TARGET_TYPE_ENUM''
      else if object = enumVal FieldOptions_OptionTargetType ''TARGET_TYPE_ENUM_ENTRY'' then ''TARGET_TYPE_ENUM_ENTRY''
      else if object = enumVal FieldOptions_OptionTargetType ''TARGET_TYPE_SERVICE'' then ''TARGET_TYPE_SERVICE''
      else if object = enumVal FieldOptions_OptionTargetType ''TARGET_TYPE_METHOD'' then ''TARGET_TYPE_METHOD''
      else ''UNRECOGNIZED'')"

subsection \<open>\<open>MethodOptions_IdempotencyLevel\<close>\<close>

definition MethodOptions_IdempotencyLevel :: enum_object where
  "MethodOptions_IdempotencyLevel = [
     (''IDEMPOTENCY_UNKNOWN'', numInt 0),
     (''NO_SIDE_EFFECTS'', numInt 1),
     (''IDEMPOTENT'', numInt 2),
     (''UNRECOGNIZED'', numInt (-1))]"

definition methodOptions_IdempotencyLevelFromJSON :: "jsval \<Rightarrow> number" where
  "methodOptions_IdempotencyLevelFromJSON object =
     (if object = JNum (numInt 0) \<or> object = JStr ''IDEMPOTENCY_UNKNOWN''
        then enumVal MethodOptions_IdempotencyLevel ''IDEMPOTENCY_UNKNOWN''
      else if object = JNum (numInt 1) \<or> object = JStr ''NO_SIDE_EFFECTS''
        then enumVal MethodOptions_IdempotencyLevel ''NO_SIDE_EFFECTS''
      else if object = JNum (numInt 2) \<or> object = JStr ''IDEMPOTENT''
        then enumVal MethodOptions_IdempotencyLevel ''IDEMPOTENT''
      else enumVal MethodOptions_IdempotencyLevel ''UNRECOGNIZED'')"

definition methodOptions_IdempotencyLevelToJSON :: "number \<Rightarrow> string" where
  "methodOptions_IdempotencyLevelToJSON object =
     (if object = enumVal MethodOptions_IdempotencyLevel ''IDEMPOTENCY_UNKNOWN'' then ''IDEMPOTENCY_UNKNOWN''
      else if object = enumVal MethodOptions_IdempotencyLevel ''NO_SIDE_EFFECTS'' then ''NO_SIDE_EFFECTS''
      else if object = enumVal MethodOptions_IdempotencyLevel ''IDEMPOTENT'' then ''IDEMPOTENT''
      else ''UNRECOGNIZED'')"

subsection \<open>\<open>FeatureSet_FieldPresence\<close>\<close>

definition FeatureSet_FieldPresence :: enum_object where
  "FeatureSet_FieldPresence = [
     (''FIELD_PRESENCE_UNKNOWN'', numInt 0),
     (''EXPLICIT'', numInt 1),
     (''IMPLICIT'', numInt 2),
     (''LEGACY_REQUIRED'', numInt 3),
     (''UNRECOGNIZED'', numInt (-1))]"

definition featureSet_FieldPresenceFromJSON :: "jsval \<Rightarrow> number" where
  "featureSet_FieldPresenceFromJSON object =
     (if object = JNum (numInt 0) \<or> object = JStr ''FIELD_PRESENCE_UNKNOWN''
        then enumVal FeatureSet_FieldPresence ''FIELD_PRESENCE_UNKNOWN''
      else if object = JNum (numInt 1) \<or> object = JStr ''EXPLICIT''
        then enumVal FeatureSet_FieldPresence ''EXPLICIT''
      else if object = JNum (numInt 2) \<or> object = JStr ''IMPLICIT''
        then enumVal FeatureSet_FieldPresence ''IMPLICIT''
      else if object = JNum (numInt 3) \<or> object = JStr ''LEGACY_REQUIRED''
        then enumVal FeatureSet_FieldPresence ''LEGACY_REQUIRED''
      else enumVal FeatureSet_FieldPresence ''UNRECOGNIZED'')"

definition featureSet_FieldPresenceToJSON :: "number \<Rightarrow> string" where
  "featureSet_FieldPresenceToJSON object =
     (if object = enumVal FeatureSet_FieldPresence ''FIELD_PRESENCE_UNKNOWN'' then ''FIELD_PRESENCE_UNKNOWN''
      else if object = enumVal FeatureSet_FieldPresence ''EXPLICIT'' then ''EXPLICIT''
      else if object = enumVal FeatureSet_FieldPresence ''IMPLICIT'' then ''IMPLICIT''
      else if object = enumVal FeatureSet_FieldPresence ''LEGACY_REQUIRED'' then ''LEGACY_REQUIRED''
      else ''UNRECOGNIZED'')"

subsection \<open>\<open>FeatureSet_EnumType\<close>\<close>

definition FeatureSet_EnumType :: enum_object where
  "FeatureSet_EnumType = [
     (''ENUM_TYPE_UNKNOWN'', numInt 0),
     (''OPEN'', numInt 1),
     (''CLOSED'', numInt 2),
     (''UNRECOGNIZED'', numInt (-1))]"

definition featureSet_EnumTypeFromJSON :: "jsval \<Rightarrow> number" where
  "featureSet_EnumTypeFromJSON object =
     (if object = JNum (numInt 0) \<or> object = JStr ''ENUM_TYPE_UNKNOWN''
        then enumVal FeatureSet_EnumType ''ENUM_TYPE_UNKNOWN''
      else if object = JNum (numInt 1) \<or> object = JStr ''OPEN''
        then enumVal FeatureSet_EnumType ''OPEN''
      else if object = JNum (numInt 2) \<or> object = JStr ''CLOSED''
        then enumVal FeatureSet_EnumType ''CLOSED''
      else enumVal FeatureSet_EnumType ''UNRECOGNIZED'')"

definition featureSet_EnumTypeToJSON :: "number \<Rightarrow> string" where
  "featureSet_EnumTypeToJSON object =
     (if object = enumVal FeatureSet_EnumType ''ENUM_TYPE_UNKNOWN'' then ''ENUM_TYPE_UNKNOWN''
      else if object = enumVal FeatureSet_EnumType ''OPEN'' then ''OPEN''
      else if object = enumVal FeatureSet_EnumType ''CLOSED'' then ''CLOSED''
      else ''UNRECOGNIZED'')"

subsection \<open>\<open>FeatureSet_RepeatedFieldEncoding\<close>\<close>

definition FeatureSet_RepeatedFieldEncoding :: enum_object where
  "FeatureSet_RepeatedFieldEncoding = [
     (''REPEATED_FIELD_ENCODING_UNKNOWN'', numInt 0),
     (''PACKED'', numInt 1),
     (''EXPANDED'', numInt 2),
     (''UNRECOGNIZED'', numInt (-1))]"

definition featureSet_RepeatedFieldEncodingFromJSON :: "jsval \<Rightarrow> number" where
  "featureSet_RepeatedFieldEncodingFromJSON object =
     (if object = JNum (numInt 0) \<or> object = JStr ''REPEATED_FIELD_ENCODING_UNKNOWN''
        then enumVal FeatureSet_RepeatedFieldEncoding ''REPEATED_FIELD_ENCODING_UNKNOWN''
      else if object = JNum (numInt 1) \<or> object = JStr ''PACKED''
        then enumVal FeatureSet_RepeatedFieldEncoding ''PACKED''
      else if object = JNum (numInt 2) \<or> object = JStr ''EXPANDED''
        then enumVal FeatureSet_RepeatedFieldEncoding ''EXPANDED''
      else enumVal FeatureSet_RepeatedFieldEncoding ''UNRECOGNIZED'')"

definition featureSet_RepeatedFieldEncodingToJSON :: "number \<Rightarrow> string" where
  "featureSet_RepeatedFieldEncodingToJSON object =
     (if object = enumVal FeatureSet_RepeatedFieldEncoding ''REPEATED_FIELD_ENCODING_UNKNOWN'' then ''REPEATED_FIELD_ENCODING_UNKNOWN''
      else if object = enumVal FeatureSet_RepeatedFieldEncoding ''PACKED'' then ''PACKED''
      else if object = enumVal FeatureSet_RepeatedFieldEncoding ''EXPANDED'' then ''EXPANDED''
      else ''UNRECOGNIZED'')"

subsection \<open>\<open>FeatureSet_Utf8Validation\<close>\<close>

definition FeatureSet_Utf8Validation :: enum_object where
  "FeatureSet_Utf8Validation = [
     (''UTF8_VALIDATION_UNKNOWN'', numInt 0),
     (''VERIFY'', numInt 2),
     (''NONE'', numInt 3),
     (''UNRECOGNIZED'', numInt (-1))]"

definition featureSet_Utf8ValidationFromJSON :: "jsval \<Rightarrow> number" where
  "featureSet_Utf8ValidationFromJSON object =
     (if object = JNum (numInt 0) \<or> object = JStr ''UTF8_VALIDATION_UNKNOWN''
        then enumVal FeatureSet_Utf8Validation ''UTF8_VALIDATION_UNKNOWN''
      else if object = JNum (numInt 2) \<or> object = JStr ''VERIFY''
        then enumVal FeatureSet_Utf8Validation ''VERIFY''
      else if object = JNum (numInt 3) \<or> object = JStr ''NONE''
        then enumVal FeatureSet_Utf8Validation ''NONE''
      else enumVal FeatureSet_Utf8Validation ''UNRECOGNIZED'')"

definition featureSet_Utf8ValidationToJSON :: "number \<Rightarrow> string" where
  "featureSet_Utf8ValidationToJSON object =
     (if object = enumVal FeatureSet_Utf8Validation ''UTF8_VALIDATION_UNKNOWN'' then ''UTF8_VALIDATION_UNKNOWN''
      else if object = enumVal FeatureSet_Utf8Validation ''VERIFY'' then ''VERIFY''
      else if object = enumVal FeatureSet_Utf8Validation ''NONE'' then ''NONE''
      else ''UNRECOGNIZED'')"

subsection \<open>\<open>FeatureSet_MessageEncoding\<close>\<close>

definition FeatureSet_MessageEncoding :: enum_object where
  "FeatureSet_MessageEncoding = [
     (''MESSAGE_ENCODING_UNKNOWN'', numInt 0),
     (''LENGTH_PREFIXED'', numInt 1),
     (''DELIMITED'', numInt 2),
     (''UNRECOGNIZED'', numInt (-1))]"

definition featureSet_MessageEncodingFromJSON :: "jsval \<Rightarrow> number" where
  "featureSet_MessageEncodingFromJSON object =
     (if object = JNum (numInt 0) \<or> object = JStr ''MESSAGE_ENCODING_UNKNOWN''
        then enumVal FeatureSet_MessageEncoding ''MESSAGE_ENCODING_UNKNOWN''
      else if object = JNum (numInt 1) \<or> object = JStr ''LENGTH_PREFIXED''
        then enumVal FeatureSet_MessageEncoding ''LENGTH_PREFIXED''
      else if object = JNum (numInt 2) \<or> object = JStr ''DELIMITED''
        then enumVal FeatureSet_MessageEncoding ''DELIMITED''
      else enumVal FeatureSet_MessageEncoding ''UNRECOGNIZED'')"

definition featureSet_MessageEncodingToJSON :: "number \<Rightarrow> string" where
  "featureSet_MessageEncodingToJSON object =
     (if object = enumVal FeatureSet_MessageEncoding ''MESSAGE_ENCODING_UNKNOWN'' then ''MESSAGE_ENCODING_UNKNOWN''
      else if object = enumVal FeatureSet_MessageEncoding ''LENGTH_PREFIXED'' then ''LENGTH_PREFIXED''
      else if object = enumVal FeatureSet_MessageEncoding ''DELIMITED'' then ''DELIMITED''
      else ''UNRECOGNIZED'')"

subsection \<open>\<open>FeatureSet_JsonFormat\<close>\<close>

definition FeatureSet_JsonFormat :: enum_object where
  "FeatureSet_JsonFormat = [
     (''JSON_FORMAT_UNKNOWN'', numInt 0),
     (''ALLOW'', numInt 1),
     (''LEGACY_BEST_EFFORT'', numInt 2),
     (''UNRECOGNIZED'', numInt (-1))]"

definition featureSet_JsonFormatFromJSON :: "jsval \<Rightarrow> number" where
  "featureSet_JsonFormatFromJSON object =
     (if object = JNum (numInt 0) \<or> object = JStr ''JSON_FORMAT_UNKNOWN''
        then enumVal FeatureSet_JsonFormat ''JSON_FORMAT_UNKNOWN''
      else if object = JNum (numInt 1) \<or> object = JStr ''ALLOW''
        then enumVal FeatureSet_JsonFormat ''ALLOW''
      else if object = JNum (numInt 2) \<or> object = JStr ''LEGACY_BEST_EFFORT''
        then enumVal FeatureSet_JsonFormat ''LEGACY_BEST_EFFORT''
      else enumVal FeatureSet_JsonFormat ''UNRECOGNIZED'')"

definition featureSet_JsonFormatToJSON :: "number \<Rightarrow> string" where
  "featureSet_JsonFormatToJSON object =
     (if object = enumVal FeatureSet_JsonFormat ''JSON_FORMAT_UNKNOWN'' then ''JSON_FORMAT_UNKNOWN''
      else if object = enumVal FeatureSet_JsonFormat ''ALLOW'' then ''ALLOW''
      else if object = enumVal FeatureSet_JsonFormat ''LEGACY_BEST_EFFORT'' then ''LEGACY_BEST_EFFORT''
      else ''UNRECOGNIZED'')"

subsection \<open>\<open>FeatureSet_EnforceNamingStyle\<close>\<close>

definition FeatureSet_EnforceNamingStyle :: enum_object where
  "FeatureSet_EnforceNamingStyle = [
     (''ENFORCE_NAMING_STYLE_UNKNOWN'', numInt 0),
     (''STYLE2024'', numInt 1),
     (''STYLE_LEGACY'', numInt 2),
     (''UNRECOGNIZED'', numInt (-1))]"

definition featureSet_EnforceNamingStyleFromJSON :: "jsval \<Rightarrow> number" where
  "featureSet_EnforceNamingStyleFromJSON object =
     (if object = JNum (numInt 0) \<or> object = JStr ''ENFORCE_NAMING_STYLE_UNKNOWN''
        then enumVal FeatureSet_EnforceNamingStyle ''ENFORCE_NAMING_STYLE_UNKNOWN''
      else if object = JNum (numInt 1) \<or> object = JStr ''STYLE2024''
        then enumVal FeatureSet_EnforceNamingStyle ''STYLE2024''
      else if object = JNum (numInt 2) \<or> object = JStr ''STYLE_LEGACY''
        then enumVal FeatureSet_EnforceNamingStyle ''STYLE_LEGACY''
      else enumVal FeatureSet_EnforceNamingStyle ''UNRECOGNIZED'')"

definition featureSet_EnforceNamingStyleToJSON :: "number \<Rightarrow> string" where
  "featureSet_EnforceNamingStyleToJSON object =
     (if object = enumVal FeatureSet_EnforceNamingStyle ''ENFORCE_NAMING_STYLE_UNKNOWN'' then ''ENFORCE_NAMING_STYLE_UNKNOWN''
      else if object = enumVal FeatureSet_EnforceNamingStyle ''STYLE2024'' then ''STYLE2024''
      else if object = enumVal FeatureSet_EnforceNamingStyle ''STYLE_LEGACY'' then ''STYLE_LEGACY''
      else ''UNRECOGNIZED'')"

subsection \<open>\<open>FeatureSet_VisibilityFeature_DefaultSymbolVisibility\<close>\<close>

definition FeatureSet_VisibilityFeature_DefaultSymbolVisibility :: enum_object where
  "FeatureSet_VisibilityFeature_DefaultSymbolVisibility = [
     (''DEFAULT_SYMBOL_VISIBILITY_UNKNOWN'', numInt 0),
     (''EXPORT_ALL'', numInt 1),
     (''EXPORT_TOP_LEVEL'', numInt 2),
     (''LOCAL_ALL'', numInt 3),
     (''STRICT'', numInt 4),
     (''UNRECOGNIZED'', numInt (-1))]"

definition featureSet_VisibilityFeature_DefaultSymbolVisibilityFromJSON :: "jsval \<Rightarrow> number" where
  "featureSet_VisibilityFeature_DefaultSymbolVisibilityFromJSON object =
     (if object = JNum (numInt 0) \<or> object = JStr ''DEFAULT_SYMBOL_VISIBILITY_UNKNOWN''
        then enumVal FeatureSet_VisibilityFeature_DefaultSymbolVisibility ''DEFAULT_SYMBOL_VISIBILITY_UNKNOWN''
      else if object = JNum (numInt 1) \<or> object = JStr ''EXPORT_ALL''
        then enumVal FeatureSet_VisibilityFeature_DefaultSymbolVisibility ''EXPORT_ALL''
      else if object = JNum (numInt 2) \<or> object = JStr ''EXPORT_TOP_LEVEL''
        then enumVal FeatureSet_VisibilityFeature_DefaultSymbolVisibility ''EXPORT_TOP_LEVEL''
      else if object = JNum (numInt 3) \<or> object = JStr ''LOCAL_ALL''
        then enumVal FeatureSet_VisibilityFeature_DefaultSymbolVisibility ''LOCAL_ALL''
      else if object = JNum (numInt 4) \<or> object = JStr ''STRICT''
        then enumVal FeatureSet_VisibilityFeature_DefaultSymbolVisibility ''STRICT''
      else enumVal FeatureSet_VisibilityFeature_DefaultSymbolVisibility ''UNRECOGNIZED'')"

definition featureSet_VisibilityFeature_DefaultSymbolVisibilityToJSON :: "number \<Rightarrow> string" where
  "featureSet_VisibilityFeature_DefaultSymbolVisibilityToJSON object =
     (if object = enumVal FeatureSet_VisibilityFeature_DefaultSymbolVisibility ''DEFAULT_SYMBOL_VISIBILITY_UNKNOWN'' then ''DEFAULT_SYMBOL_VISIBILITY_UNKNOWN''
      else if object = enumVal FeatureSet_VisibilityFeature_DefaultSymbolVisibility ''EXPORT_ALL'' then ''EXPORT_ALL''
      else if object = enumVal FeatureSet_VisibilityFeature_DefaultSymbolVisibility ''EXPORT_TOP_LEVEL'' then ''EXPORT_TOP_LEVEL''
      else if object = enumVal FeatureSet_VisibilityFeature_DefaultSymbolVisibility ''LOCAL_ALL'' then ''LOCAL_ALL''
      else if object = enumVal FeatureSet_VisibilityFeature_DefaultSymbolVisibility ''STRICT'' then ''STRICT''
      else ''UNRECOGNIZED'')"

subsection \<open>\<open>GeneratedCodeInfo_Annotation_Semantic\<close>\<close>

definition GeneratedCodeInfo_Annotation_Semantic :: enum_object where
  "GeneratedCodeInfo_Annotation_Semantic = [
     (''NONE'', numInt 0),
     (''SET'', numInt 1),
     (''ALIAS'', numInt 2),
     (''UNRECOGNIZED'', numInt (-1))]"

definition generatedCodeInfo_Annotation_SemanticFromJSON :: "jsval \<Rightarrow> number" where
  "generatedCodeInfo_Annotation_SemanticFromJSON object =
     (if object = JNum (numInt 0) \<or> object = JStr ''NONE''
        then enumVal GeneratedCodeInfo_Annotation_Semantic ''NONE''
      else if object = JNum (numInt 1) \<or> object = JStr ''SET''
        then enumVal GeneratedCodeInfo_Annotation_Semantic ''SET''
      else if object = JNum (numInt 2) \<or> object = JStr ''ALIAS''
        then enumVal GeneratedCodeInfo_Annotation_Semantic ''ALIAS''
      else enumVal GeneratedCodeInfo_Annotation_Semantic ''UNRECOGNIZED'')"

definition generatedCodeInfo_Annotation_SemanticToJSON :: "number \<Rightarrow> string" where
  "generatedCodeInfo_Annotation_SemanticToJSON object =
     (if object = enumVal GeneratedCodeInfo_Annotation_Semantic ''NONE'' then ''NONE''
      else if object = enumVal GeneratedCodeInfo_Annotation_Semantic ''SET'' then ''SET''
      else if object = enumVal GeneratedCodeInfo_Annotation_Semantic ''ALIAS'' then ''ALIAS''
      else ''UNRECOGNIZED'')"

section \<open>What the conversions promise\<close>

text \<open>The conversions as searches in the enumeration.\<close>

definition enumFromJSON :: "enum_object \<Rightarrow> jsval \<Rightarrow> number" where
  "enumFromJSON E object =
     (case find (\<lambda>(name, v). object = JNum v \<or> object = JStr name) E of
        Some (_, v) \<Rightarrow> v | None \<Rightarrow> numInt (- 1))"

definition enumToJSON :: "enum_object \<Rightarrow> number \<Rightarrow> string" where
  "enumToJSON E x = (case find (\<lambda>(_, v). x = v) E of Some (name, _) \<Rightarrow> name | None \<Rightarrow> ''UNRECOGNIZED'')"

lemmas enum_defs = enumVal_def enumFromJSON_def enumToJSON_def fun_eq_iff

locale json_enum =
  fixes E :: enum_object and fromJSON :: "jsval \<Rightarrow> number" and toJSON :: "number \<Rightarrow> string"
  assumes fromJSON_eq: "fromJSON = enumFromJSON E"
    and toJSON_eq: "toJSON = enumToJSON E"
    and names_distinct: "distinct (map fst E)"
    and values_distinct: "distinct (map snd E)"
    and unrecognized: "(''UNRECOGNIZED'', numInt (- 1)) \<in> set E"
begin

lemma find_value:
  assumes "(name, v) \<in> set E"
  shows "find (\<lambda>(_, v'). v = v') E = Some (name, v)"
  using assms values_distinct by (induction E) force+

lemma toJSON_member: "(name, v) \<in> set E \<Longrightarrow> toJSON v = name"
  by (simp add: toJSON_eq enumToJSON_def find_value)

lemma fromJSON_member:
  assumes "(name, v) \<in> set E"
  shows "fromJSON (JStr name) = v" "fromJSON (JNum v) = v"
proof -
  have "find (\<lambda>(n, v'). JStr name = JNum v' \<or> JStr name = JStr n) E = Some (name, v)"
    using assms names_distinct by (induction E) force+
  then show "fromJSON (JStr name) = v" by (simp add: fromJSON_eq enumFromJSON_def)
  have "find (\<lambda>(n, v'). JNum v = JNum v' \<or> JNum v = JStr n) E = Some (name, v)"
    using find_value [OF assms] by simp
  then show "fromJSON (JNum v) = v" by (simp add: fromJSON_eq enumFromJSON_def)
qed

lemma toJSON_unknown: "v \<notin> snd ` set E \<Longrightarrow> toJSON v = ''UNRECOGNIZED''"
proof -
  assume "v \<notin> snd ` set E"
  then have "find (\<lambda>(_, v'). v = v') E = None" by (force simp: find_None_iff)
  then show ?thesis by (simp add: toJSON_eq enumToJSON_def)
qed

text \<open>The round trip keeps the numbers of the enumeration and sends every other one to \<open>-1\<close>.\<close>

lemma roundtrip: "fromJSON (JStr (toJSON v)) = (if v \<in> snd ` set E then v else numInt (- 1))"
  using toJSON_member fromJSON_member(1) toJSON_unknown fromJSON_member(1) [OF unrecognized] by force

lemma fromJSON_range: "fromJSON object \<in> snd ` set E"
proof (cases "find (\<lambda>(name, v). object = JNum v \<or> object = JStr name) E")
  case None
  then show ?thesis using unrecognized by (force simp: fromJSON_eq enumFromJSON_def)
next
  case (Some p)
  then have "p \<in> set E" by (metis find_Some_iff nth_mem)
  with Some show ?thesis by (cases p) (force simp: fromJSON_eq enumFromJSON_def)
qed

end

section \<open>The enumerations keep the promise\<close>

interpretation edition_enum: json_enum Edition editionFromJSON editionToJSON
  by unfold_locales (simp_all add: Edition_def editionFromJSON_def editionToJSON_def enum_defs)

interpretation symbolVisibility_enum: json_enum SymbolVisibility symbolVisibilityFromJSON symbolVisibilityToJSON
  by unfold_locales (simp_all add: SymbolVisibility_def symbolVisibilityFromJSON_def symbolVisibilityToJSON_def enum_defs)

interpretation extensionRangeOptions_VerificationState_enum: json_enum ExtensionRangeOptions_VerificationState extensionRangeOptions_VerificationStateFromJSON extensionRangeOptions_VerificationStateToJSON
  by unfold_locales (simp_all add: ExtensionRangeOptions_VerificationState_def extensionRangeOptions_VerificationStateFromJSON_def extensionRangeOptions_VerificationStateToJSON_def enum_defs)

interpretation fieldDescriptorProto_Type_enum: json_enum FieldDescriptorProto_Type fieldDescriptorProto_TypeFromJSON fieldDescriptorProto_TypeToJSON
  by unfold_locales (simp_all add: FieldDescriptorProto_Type_def fieldDescriptorProto_TypeFromJSON_def fieldDescriptorProto_TypeToJSON_def enum_defs)

interpretation fieldDescriptorProto_Label_enum: json_enum FieldDescriptorProto_Label fieldDescriptorProto_LabelFromJSON fieldDescriptorProto_LabelToJSON
  by unfold_locales (simp_all add: FieldDescriptorProto_Label_def fieldDescriptorProto_LabelFromJSON_def fieldDescriptorProto_LabelToJSON_def enum_defs)

interpretation fileOptions_OptimizeMode_enum: json_enum FileOptions_OptimizeMode fileOptions_OptimizeModeFromJSON fileOptions_OptimizeModeToJSON
  by unfold_locales (simp_all add: FileOptions_OptimizeMode_def fileOptions_OptimizeModeFromJSON_def fileOptions_OptimizeModeToJSON_def enum_defs)

interpretation fieldOptions_CType_enum: json_enum FieldOptions_CType fieldOptions_CTypeFromJSON fieldOptions_CTypeToJSON
  by unfold_locales (simp_all add: FieldOptions_CType_def fieldOptions_CTypeFromJSON_def fieldOptions_CTypeToJSON_def enum_defs)

interpretation fieldOptions_JSType_enum: json_enum FieldOptions_JSType fieldOptions_JSTypeFromJSON fieldOptions_JSTypeToJSON
  by unfold_locales (simp_all add: FieldOptions_JSType_def fieldOptions_JSTypeFromJSON_def fieldOptions_JSTypeToJSON_def enum_defs)

interpretation fieldOptions_OptionRetention_enum: json_enum FieldOptions_OptionRetention fieldOptions_OptionRetentionFromJSON fieldOptions_OptionRetentionToJSON
  by unfold_locales (simp_all add: FieldOptions_OptionRetention_def fieldOptions_OptionRetentionFromJSON_def fieldOptions_OptionRetentionToJSON_def enum_defs)

interpretation fieldOptions_OptionTargetType_enum: json_enum FieldOptions_OptionTargetType fieldOptions_OptionTargetTypeFromJSON fieldOptions_OptionTargetTypeToJSON
  by unfold_locales (simp_all add: FieldOptions_OptionTargetType_def fieldOptions_OptionTargetTypeFromJSON_def fieldOptions_OptionTargetTypeToJSON_def enum_defs)

interpretation methodOptions_IdempotencyLevel_enum: json_enum MethodOptions_IdempotencyLevel methodOptions_IdempotencyLevelFromJSON methodOptions_IdempotencyLevelToJSON
  by unfold_locales (simp_all add: MethodOptions_IdempotencyLevel_def methodOptions_IdempotencyLevelFromJSON_def methodOptions_IdempotencyLevelToJSON_def enum_defs)

interpretation featureSet_FieldPresence_enum: json_enum FeatureSet_FieldPresence featureSet_FieldPresenceFromJSON featureSet_FieldPresenceToJSON
  by unfold_locales (simp_all add: FeatureSet_FieldPresence_def featureSet_FieldPresenceFromJSON_def featureSet_FieldPresenceToJSON_def enum_defs)

interpretation featureSet_EnumType_enum: json_enum FeatureSet_EnumType featureSet_EnumTypeFromJSON featureSet_EnumTypeToJSON
  by unfold_locales (simp_all add: FeatureSet_EnumType_def featureSet_EnumTypeFromJSON_def featureSet_EnumTypeToJSON_def enum_defs)

interpretation featureSet_RepeatedFieldEncoding_enum: json_enum FeatureSet_RepeatedFieldEncoding featureSet_RepeatedFieldEncodingFromJSON featureSet_RepeatedFieldEncodingToJSON
  by unfold_locales (simp_all add: FeatureSet_RepeatedFieldEncoding_def featureSet_RepeatedFieldEncodingFromJSON_def featureSet_RepeatedFieldEncodingToJSON_def enum_defs)

interpretation featureSet_Utf8Validation_enum: json_enum FeatureSet_Utf8Validation featureSet_Utf8ValidationFromJSON featureSet_Utf8ValidationToJSON
  by unfold_locales (simp_all add: FeatureSet_Utf8Validation_def featureSet_Utf8ValidationFromJSON_def featureSet_Utf8ValidationToJSON_def enum_defs)

interpretation featureSet_MessageEncoding_enum: json_enum FeatureSet_MessageEncoding featureSet_MessageEncodingFromJSON featureSet_MessageEncodingToJSON
  by unfold_locales (simp_all add: FeatureSet_MessageEncoding_def featureSet_MessageEncodingFromJSON_def featureSet_MessageEncodingToJSON_def enum_defs)

interpretation featureSet_JsonFormat_enum: json_enum FeatureSet_JsonFormat featureSet_JsonFormatFromJSON featureSet_JsonFormatToJSON
  by unfold_locales (simp_all add: FeatureSet_JsonFormat_def featureSet_JsonFormatFromJSON_def featureSet_JsonFormatToJSON_def enum_defs)

interpretation featureSet_EnforceNamingStyle_enum: json_enum FeatureSet_EnforceNamingStyle featureSet_EnforceNamingStyleFromJSON featureSet_EnforceNamingStyleToJSON
  by unfold_locales (simp_all add: FeatureSet_EnforceNamingStyle_def featureSet_EnforceNamingStyleFromJSON_def featureSet_EnforceNamingStyleToJSON_def enum_defs)

interpretation featureSet_VisibilityFeature_DefaultSymbolVisibility_enum: json_enum FeatureSet_VisibilityFeature_DefaultSymbolVisibility featureSet_VisibilityFeature_DefaultSymbolVisibilityFromJSON featureSet_VisibilityFeature_DefaultSymbolVisibilityToJSON
  by unfold_locales (simp_all add: FeatureSet_VisibilityFeature_DefaultSymbolVisibility_def featureSet_VisibilityFeature_DefaultSymbolVisibilityFromJSON_def featureSet_VisibilityFeature_DefaultSymbolVisibilityToJSON_def enum_defs)

interpretation generatedCodeInfo_Annotation_Semantic_enum: json_enum GeneratedCodeInfo_Annotation_Semantic generatedCodeInfo_Annotation_SemanticFromJSON generatedCodeInfo_Annotation_SemanticToJSON
  by unfold_locales (simp_all add: GeneratedCodeInfo_Annotation_Semantic_def generatedCodeInfo_Annotation_SemanticFromJSON_def generatedCodeInfo_Annotation_SemanticToJSON_def enum_defs)

end
