(* ===== verification/Descriptor_Messages.thy ===== *)
theory Descriptor_Messages
  imports Wire Descriptor_Enums
begin

unbundle bit_operations_syntax

text \<open>
  Messages of \<open>gen/ts/google/protobuf/descriptor.ts\<close> whose fields are strings, booleans, 32-bit integers,
  enumerations and messages of this kind.  These are proto2 messages: a field may be undefined, the
  empty message has the default value in every scalar field, and \<open>encode\<close> leaves out both.
\<close>

section \<open>Messages\<close>

subsection \<open>\<open>DescriptorProto_ReservedRange\<close>\<close>

record DescriptorProto_ReservedRange =
  DescriptorProto_ReservedRange_start :: "number option"
  DescriptorProto_ReservedRange_end :: "number option"

definition createBaseDescriptorProto_ReservedRange :: DescriptorProto_ReservedRange where
  "createBaseDescriptorProto_ReservedRange =
     \<lparr>DescriptorProto_ReservedRange_start = Some (numInt 0),
       DescriptorProto_ReservedRange_end = Some (numInt 0)\<rparr>"

definition DescriptorProto_ReservedRange_encode :: "'w writer_ops
  \<Rightarrow> DescriptorProto_ReservedRange \<Rightarrow> 'w \<Rightarrow> jserr + 'w" where
  "DescriptorProto_ReservedRange_encode W message = w_all [
     w_when (differs (DescriptorProto_ReservedRange_start message) (numInt 0))
       (w_seq (w_tag W 8) (w_int32 W (the (DescriptorProto_ReservedRange_start message)))),
     w_when (differs (DescriptorProto_ReservedRange_end message) (numInt 0))
       (w_seq (w_tag W 16) (w_int32 W (the (DescriptorProto_ReservedRange_end message))))]"

definition DescriptorProto_ReservedRange_field :: "'r reader_ops \<Rightarrow> u32
  \<Rightarrow> DescriptorProto_ReservedRange \<Rightarrow> ('r, DescriptorProto_ReservedRange option) rd" where
  "DescriptorProto_ReservedRange_field R tag message =
     (if drop_bit 3 tag = 1 then
        (if tag \<noteq> 8 then brk
         else bindR (getR (r_int32 R)) (\<lambda>v. cont
           (message\<lparr>DescriptorProto_ReservedRange_start := Some (numInt v)\<rparr>)))
      else if drop_bit 3 tag = 2 then
        (if tag \<noteq> 16 then brk
         else bindR (getR (r_int32 R)) (\<lambda>v. cont
           (message\<lparr>DescriptorProto_ReservedRange_end := Some (numInt v)\<rparr>)))
      else brk)"

definition DescriptorProto_ReservedRange_decode :: "'r reader_ops \<Rightarrow> 'r input
  \<Rightarrow> nat option \<Rightarrow> (jserr + DescriptorProto_ReservedRange \<times> 'r) option" where
  "DescriptorProto_ReservedRange_decode R = decode_message R
    (DescriptorProto_ReservedRange_field R) createBaseDescriptorProto_ReservedRange"

definition DescriptorProto_ReservedRange_fromJSON :: "js_text \<Rightarrow> jsval
  \<Rightarrow> jserr + DescriptorProto_ReservedRange" where
  "DescriptorProto_ReservedRange_fromJSON J object =
     bindE (fieldOr object ''start'' (jsNumber J) (numInt 0)) (\<lambda>v_start.
     bindE (fieldOr object ''end'' (jsNumber J) (numInt 0)) (\<lambda>v_end.
     Inr \<lparr>DescriptorProto_ReservedRange_start = Some v_start,
       DescriptorProto_ReservedRange_end = Some v_end\<rparr>))"

definition DescriptorProto_ReservedRange_toJSON :: "DescriptorProto_ReservedRange \<Rightarrow> jsval" where
  "DescriptorProto_ReservedRange_toJSON message = JObj (
     setProp (differs (DescriptorProto_ReservedRange_start message) (numInt 0)) ''start'' (JNum (mathRound
       (the (DescriptorProto_ReservedRange_start message)))) @
     setProp (differs (DescriptorProto_ReservedRange_end message) (numInt 0)) ''end'' (JNum (mathRound (the
       (DescriptorProto_ReservedRange_end message)))))"

record DescriptorProto_ReservedRange_partial =
  DescriptorProto_ReservedRange_p_start :: "number option"
  DescriptorProto_ReservedRange_p_end :: "number option"

definition DescriptorProto_ReservedRange_fromPartial :: "DescriptorProto_ReservedRange_partial
  \<Rightarrow> DescriptorProto_ReservedRange" where
  "DescriptorProto_ReservedRange_fromPartial object = createBaseDescriptorProto_ReservedRange\<lparr>
     DescriptorProto_ReservedRange_start := Some (getOr (DescriptorProto_ReservedRange_p_start object)
       (numInt 0)),
     DescriptorProto_ReservedRange_end := Some (getOr (DescriptorProto_ReservedRange_p_end object)
       (numInt 0))\<rparr>"

definition DescriptorProto_ReservedRange_create :: "DescriptorProto_ReservedRange_partial option
  \<Rightarrow> DescriptorProto_ReservedRange" where
  "DescriptorProto_ReservedRange_create base = DescriptorProto_ReservedRange_fromPartial (getOr base
     \<lparr>DescriptorProto_ReservedRange_p_start = None, DescriptorProto_ReservedRange_p_end = None\<rparr>)"

subsection \<open>\<open>EnumDescriptorProto_EnumReservedRange\<close>\<close>

record EnumDescriptorProto_EnumReservedRange =
  EnumDescriptorProto_EnumReservedRange_start :: "number option"
  EnumDescriptorProto_EnumReservedRange_end :: "number option"

definition createBaseEnumDescriptorProto_EnumReservedRange :: EnumDescriptorProto_EnumReservedRange where
  "createBaseEnumDescriptorProto_EnumReservedRange =
     \<lparr>EnumDescriptorProto_EnumReservedRange_start = Some (numInt 0),
       EnumDescriptorProto_EnumReservedRange_end = Some (numInt 0)\<rparr>"

definition EnumDescriptorProto_EnumReservedRange_encode :: "'w writer_ops
  \<Rightarrow> EnumDescriptorProto_EnumReservedRange \<Rightarrow> 'w \<Rightarrow> jserr + 'w" where
  "EnumDescriptorProto_EnumReservedRange_encode W message = w_all [
     w_when (differs (EnumDescriptorProto_EnumReservedRange_start message) (numInt 0))
       (w_seq (w_tag W 8) (w_int32 W (the (EnumDescriptorProto_EnumReservedRange_start message)))),
     w_when (differs (EnumDescriptorProto_EnumReservedRange_end message) (numInt 0))
       (w_seq (w_tag W 16) (w_int32 W (the (EnumDescriptorProto_EnumReservedRange_end message))))]"

definition EnumDescriptorProto_EnumReservedRange_field :: "'r reader_ops \<Rightarrow> u32
  \<Rightarrow> EnumDescriptorProto_EnumReservedRange \<Rightarrow> ('r,
    EnumDescriptorProto_EnumReservedRange option) rd" where
  "EnumDescriptorProto_EnumReservedRange_field R tag message =
     (if drop_bit 3 tag = 1 then
        (if tag \<noteq> 8 then brk
         else bindR (getR (r_int32 R)) (\<lambda>v. cont
           (message\<lparr>EnumDescriptorProto_EnumReservedRange_start := Some (numInt v)\<rparr>)))
      else if drop_bit 3 tag = 2 then
        (if tag \<noteq> 16 then brk
         else bindR (getR (r_int32 R)) (\<lambda>v. cont
           (message\<lparr>EnumDescriptorProto_EnumReservedRange_end := Some (numInt v)\<rparr>)))
      else brk)"

definition EnumDescriptorProto_EnumReservedRange_decode :: "'r reader_ops \<Rightarrow> 'r input
  \<Rightarrow> nat option \<Rightarrow>
    (jserr + EnumDescriptorProto_EnumReservedRange \<times> 'r) option" where
  "EnumDescriptorProto_EnumReservedRange_decode R = decode_message R
    (EnumDescriptorProto_EnumReservedRange_field R) createBaseEnumDescriptorProto_EnumReservedRange"

definition EnumDescriptorProto_EnumReservedRange_fromJSON :: "js_text \<Rightarrow> jsval
  \<Rightarrow> jserr + EnumDescriptorProto_EnumReservedRange" where
  "EnumDescriptorProto_EnumReservedRange_fromJSON J object =
     bindE (fieldOr object ''start'' (jsNumber J) (numInt 0)) (\<lambda>v_start.
     bindE (fieldOr object ''end'' (jsNumber J) (numInt 0)) (\<lambda>v_end.
     Inr \<lparr>EnumDescriptorProto_EnumReservedRange_start = Some v_start,
       EnumDescriptorProto_EnumReservedRange_end = Some v_end\<rparr>))"

definition EnumDescriptorProto_EnumReservedRange_toJSON :: "EnumDescriptorProto_EnumReservedRange
  \<Rightarrow> jsval" where
  "EnumDescriptorProto_EnumReservedRange_toJSON message = JObj (
     setProp (differs (EnumDescriptorProto_EnumReservedRange_start message) (numInt 0)) ''start'' (JNum
       (mathRound (the (EnumDescriptorProto_EnumReservedRange_start message)))) @
     setProp (differs (EnumDescriptorProto_EnumReservedRange_end message) (numInt 0)) ''end'' (JNum
       (mathRound (the (EnumDescriptorProto_EnumReservedRange_end message)))))"

record EnumDescriptorProto_EnumReservedRange_partial =
  EnumDescriptorProto_EnumReservedRange_p_start :: "number option"
  EnumDescriptorProto_EnumReservedRange_p_end :: "number option"

definition EnumDescriptorProto_EnumReservedRange_fromPartial :: "EnumDescriptorProto_EnumReservedRange_partial \<Rightarrow> EnumDescriptorProto_EnumReservedRange" where
  "EnumDescriptorProto_EnumReservedRange_fromPartial object = createBaseEnumDescriptorProto_EnumReservedRange\<lparr>
     EnumDescriptorProto_EnumReservedRange_start := Some (getOr
       (EnumDescriptorProto_EnumReservedRange_p_start object) (numInt 0)),
     EnumDescriptorProto_EnumReservedRange_end := Some (getOr
       (EnumDescriptorProto_EnumReservedRange_p_end object) (numInt 0))\<rparr>"

definition EnumDescriptorProto_EnumReservedRange_create :: "EnumDescriptorProto_EnumReservedRange_partial option \<Rightarrow> EnumDescriptorProto_EnumReservedRange" where
  "EnumDescriptorProto_EnumReservedRange_create base = EnumDescriptorProto_EnumReservedRange_fromPartial
    (getOr base
     \<lparr>EnumDescriptorProto_EnumReservedRange_p_start = None,
       EnumDescriptorProto_EnumReservedRange_p_end = None\<rparr>)"

subsection \<open>\<open>UninterpretedOption_NamePart\<close>\<close>

record UninterpretedOption_NamePart =
  UninterpretedOption_NamePart_namePart :: string
  UninterpretedOption_NamePart_isExtension :: bool

definition createBaseUninterpretedOption_NamePart :: UninterpretedOption_NamePart where
  "createBaseUninterpretedOption_NamePart =
     \<lparr>UninterpretedOption_NamePart_namePart = '''',
       UninterpretedOption_NamePart_isExtension = False\<rparr>"

definition UninterpretedOption_NamePart_encode :: "'w writer_ops \<Rightarrow> UninterpretedOption_NamePart
  \<Rightarrow> 'w \<Rightarrow> jserr + 'w" where
  "UninterpretedOption_NamePart_encode W message = w_all [
     w_when (UninterpretedOption_NamePart_namePart message \<noteq> '''')
       (w_seq (w_tag W 10) (w_string W (UninterpretedOption_NamePart_namePart message))),
     w_when (UninterpretedOption_NamePart_isExtension message \<noteq> False)
       (w_seq (w_tag W 16) (w_bool W (UninterpretedOption_NamePart_isExtension message)))]"

definition UninterpretedOption_NamePart_field :: "'r reader_ops \<Rightarrow> u32
  \<Rightarrow> UninterpretedOption_NamePart \<Rightarrow> ('r, UninterpretedOption_NamePart option) rd" where
  "UninterpretedOption_NamePart_field R tag message =
     (if drop_bit 3 tag = 1 then
        (if tag \<noteq> 10 then brk
         else bindR (getR (r_string R)) (\<lambda>v. cont
           (message\<lparr>UninterpretedOption_NamePart_namePart := v\<rparr>)))
      else if drop_bit 3 tag = 2 then
        (if tag \<noteq> 16 then brk
         else bindR (getR (r_bool R)) (\<lambda>v. cont
           (message\<lparr>UninterpretedOption_NamePart_isExtension := v\<rparr>)))
      else brk)"

definition UninterpretedOption_NamePart_decode :: "'r reader_ops \<Rightarrow> 'r input
  \<Rightarrow> nat option \<Rightarrow> (jserr + UninterpretedOption_NamePart \<times> 'r) option" where
  "UninterpretedOption_NamePart_decode R = decode_message R
    (UninterpretedOption_NamePart_field R) createBaseUninterpretedOption_NamePart"

definition UninterpretedOption_NamePart_fromJSON :: "js_text \<Rightarrow> jsval
  \<Rightarrow> jserr + UninterpretedOption_NamePart" where
  "UninterpretedOption_NamePart_fromJSON J object =
     bindE (fieldOr object ''namePart'' (jsString J) '''') (\<lambda>v_namePart.
     bindE (fieldOr object ''isExtension'' jsBoolean False) (\<lambda>v_isExtension.
     Inr \<lparr>UninterpretedOption_NamePart_namePart = v_namePart,
       UninterpretedOption_NamePart_isExtension = v_isExtension\<rparr>))"

definition UninterpretedOption_NamePart_toJSON :: "UninterpretedOption_NamePart \<Rightarrow> jsval" where
  "UninterpretedOption_NamePart_toJSON message = JObj (
     setProp (UninterpretedOption_NamePart_namePart message \<noteq> '''') ''namePart'' (JStr
       (UninterpretedOption_NamePart_namePart message)) @
     setProp (UninterpretedOption_NamePart_isExtension message \<noteq> False) ''isExtension'' (JBool
       (UninterpretedOption_NamePart_isExtension message)))"

record UninterpretedOption_NamePart_partial =
  UninterpretedOption_NamePart_p_namePart :: "string option"
  UninterpretedOption_NamePart_p_isExtension :: "bool option"

definition UninterpretedOption_NamePart_fromPartial :: "UninterpretedOption_NamePart_partial
  \<Rightarrow> UninterpretedOption_NamePart" where
  "UninterpretedOption_NamePart_fromPartial object = createBaseUninterpretedOption_NamePart\<lparr>
     UninterpretedOption_NamePart_namePart := getOr (UninterpretedOption_NamePart_p_namePart object) '''',
     UninterpretedOption_NamePart_isExtension := getOr
       (UninterpretedOption_NamePart_p_isExtension object) False\<rparr>"

definition UninterpretedOption_NamePart_create :: "UninterpretedOption_NamePart_partial option
  \<Rightarrow> UninterpretedOption_NamePart" where
  "UninterpretedOption_NamePart_create base = UninterpretedOption_NamePart_fromPartial (getOr base
     \<lparr>UninterpretedOption_NamePart_p_namePart = None,
       UninterpretedOption_NamePart_p_isExtension = None\<rparr>)"

subsection \<open>\<open>FieldOptions_EditionDefault\<close>\<close>

record FieldOptions_EditionDefault =
  FieldOptions_EditionDefault_edition :: "number option"
  FieldOptions_EditionDefault_value :: "string option"

definition createBaseFieldOptions_EditionDefault :: FieldOptions_EditionDefault where
  "createBaseFieldOptions_EditionDefault =
     \<lparr>FieldOptions_EditionDefault_edition = Some (numInt 0),
       FieldOptions_EditionDefault_value = Some ''''\<rparr>"

definition FieldOptions_EditionDefault_encode :: "'w writer_ops \<Rightarrow> FieldOptions_EditionDefault
  \<Rightarrow> 'w \<Rightarrow> jserr + 'w" where
  "FieldOptions_EditionDefault_encode W message = w_all [
     w_when (differs (FieldOptions_EditionDefault_edition message) (numInt 0))
       (w_seq (w_tag W 24) (w_int32 W (the (FieldOptions_EditionDefault_edition message)))),
     w_when (differs (FieldOptions_EditionDefault_value message) '''')
       (w_seq (w_tag W 18) (w_string W (the (FieldOptions_EditionDefault_value message))))]"

definition FieldOptions_EditionDefault_field :: "'r reader_ops \<Rightarrow> u32
  \<Rightarrow> FieldOptions_EditionDefault \<Rightarrow> ('r, FieldOptions_EditionDefault option) rd" where
  "FieldOptions_EditionDefault_field R tag message =
     (if drop_bit 3 tag = 3 then
        (if tag \<noteq> 24 then brk
         else bindR (getR (r_int32 R)) (\<lambda>v. cont
           (message\<lparr>FieldOptions_EditionDefault_edition := Some (numInt v)\<rparr>)))
      else if drop_bit 3 tag = 2 then
        (if tag \<noteq> 18 then brk
         else bindR (getR (r_string R)) (\<lambda>v. cont
           (message\<lparr>FieldOptions_EditionDefault_value := Some v\<rparr>)))
      else brk)"

definition FieldOptions_EditionDefault_decode :: "'r reader_ops \<Rightarrow> 'r input
  \<Rightarrow> nat option \<Rightarrow> (jserr + FieldOptions_EditionDefault \<times> 'r) option" where
  "FieldOptions_EditionDefault_decode R = decode_message R
    (FieldOptions_EditionDefault_field R) createBaseFieldOptions_EditionDefault"

definition FieldOptions_EditionDefault_fromJSON :: "js_text \<Rightarrow> jsval
  \<Rightarrow> jserr + FieldOptions_EditionDefault" where
  "FieldOptions_EditionDefault_fromJSON J object =
     bindE (fieldOr object ''edition'' editionFromJSON (numInt 0)) (\<lambda>v_edition.
     bindE (fieldOr object ''value'' (jsString J) '''') (\<lambda>v_value.
     Inr \<lparr>FieldOptions_EditionDefault_edition = Some v_edition,
       FieldOptions_EditionDefault_value = Some v_value\<rparr>))"

definition FieldOptions_EditionDefault_toJSON :: "FieldOptions_EditionDefault \<Rightarrow> jsval" where
  "FieldOptions_EditionDefault_toJSON message = JObj (
     setProp (differs (FieldOptions_EditionDefault_edition message) (numInt 0)) ''edition'' (JStr
       (editionToJSON (the (FieldOptions_EditionDefault_edition message)))) @
     setProp (differs (FieldOptions_EditionDefault_value message) '''') ''value'' (JStr (the
       (FieldOptions_EditionDefault_value message))))"

record FieldOptions_EditionDefault_partial =
  FieldOptions_EditionDefault_p_edition :: "number option"
  FieldOptions_EditionDefault_p_value :: "string option"

definition FieldOptions_EditionDefault_fromPartial :: "FieldOptions_EditionDefault_partial
  \<Rightarrow> FieldOptions_EditionDefault" where
  "FieldOptions_EditionDefault_fromPartial object = createBaseFieldOptions_EditionDefault\<lparr>
     FieldOptions_EditionDefault_edition := Some (getOr (FieldOptions_EditionDefault_p_edition object)
       (numInt 0)),
     FieldOptions_EditionDefault_value := Some (getOr
       (FieldOptions_EditionDefault_p_value object) '''')\<rparr>"

definition FieldOptions_EditionDefault_create :: "FieldOptions_EditionDefault_partial option
  \<Rightarrow> FieldOptions_EditionDefault" where
  "FieldOptions_EditionDefault_create base = FieldOptions_EditionDefault_fromPartial (getOr base
     \<lparr>FieldOptions_EditionDefault_p_edition = None, FieldOptions_EditionDefault_p_value = None\<rparr>)"

subsection \<open>\<open>FieldOptions_FeatureSupport\<close>\<close>

record FieldOptions_FeatureSupport =
  FieldOptions_FeatureSupport_editionIntroduced :: "number option"
  FieldOptions_FeatureSupport_editionDeprecated :: "number option"
  FieldOptions_FeatureSupport_deprecationWarning :: "string option"
  FieldOptions_FeatureSupport_editionRemoved :: "number option"

definition createBaseFieldOptions_FeatureSupport :: FieldOptions_FeatureSupport where
  "createBaseFieldOptions_FeatureSupport =
     \<lparr>FieldOptions_FeatureSupport_editionIntroduced = Some (numInt 0),
       FieldOptions_FeatureSupport_editionDeprecated = Some (numInt 0),
         FieldOptions_FeatureSupport_deprecationWarning = Some '''',
           FieldOptions_FeatureSupport_editionRemoved = Some (numInt 0)\<rparr>"

definition FieldOptions_FeatureSupport_encode :: "'w writer_ops \<Rightarrow> FieldOptions_FeatureSupport
  \<Rightarrow> 'w \<Rightarrow> jserr + 'w" where
  "FieldOptions_FeatureSupport_encode W message = w_all [
     w_when (differs (FieldOptions_FeatureSupport_editionIntroduced message) (numInt 0))
       (w_seq (w_tag W 8) (w_int32 W (the (FieldOptions_FeatureSupport_editionIntroduced message)))),
     w_when (differs (FieldOptions_FeatureSupport_editionDeprecated message) (numInt 0))
       (w_seq (w_tag W 16) (w_int32 W (the (FieldOptions_FeatureSupport_editionDeprecated message)))),
     w_when (differs (FieldOptions_FeatureSupport_deprecationWarning message) '''')
       (w_seq (w_tag W 26) (w_string W (the (FieldOptions_FeatureSupport_deprecationWarning message)))),
     w_when (differs (FieldOptions_FeatureSupport_editionRemoved message) (numInt 0))
       (w_seq (w_tag W 32) (w_int32 W (the (FieldOptions_FeatureSupport_editionRemoved message))))]"

definition FieldOptions_FeatureSupport_field :: "'r reader_ops \<Rightarrow> u32
  \<Rightarrow> FieldOptions_FeatureSupport \<Rightarrow> ('r, FieldOptions_FeatureSupport option) rd" where
  "FieldOptions_FeatureSupport_field R tag message =
     (if drop_bit 3 tag = 1 then
        (if tag \<noteq> 8 then brk
         else bindR (getR (r_int32 R)) (\<lambda>v. cont
           (message\<lparr>FieldOptions_FeatureSupport_editionIntroduced := Some (numInt v)\<rparr>)))
      else if drop_bit 3 tag = 2 then
        (if tag \<noteq> 16 then brk
         else bindR (getR (r_int32 R)) (\<lambda>v. cont
           (message\<lparr>FieldOptions_FeatureSupport_editionDeprecated := Some (numInt v)\<rparr>)))
      else if drop_bit 3 tag = 3 then
        (if tag \<noteq> 26 then brk
         else bindR (getR (r_string R)) (\<lambda>v. cont
           (message\<lparr>FieldOptions_FeatureSupport_deprecationWarning := Some v\<rparr>)))
      else if drop_bit 3 tag = 4 then
        (if tag \<noteq> 32 then brk
         else bindR (getR (r_int32 R)) (\<lambda>v. cont
           (message\<lparr>FieldOptions_FeatureSupport_editionRemoved := Some (numInt v)\<rparr>)))
      else brk)"

definition FieldOptions_FeatureSupport_decode :: "'r reader_ops \<Rightarrow> 'r input
  \<Rightarrow> nat option \<Rightarrow> (jserr + FieldOptions_FeatureSupport \<times> 'r) option" where
  "FieldOptions_FeatureSupport_decode R = decode_message R
    (FieldOptions_FeatureSupport_field R) createBaseFieldOptions_FeatureSupport"

definition FieldOptions_FeatureSupport_fromJSON :: "js_text \<Rightarrow> jsval
  \<Rightarrow> jserr + FieldOptions_FeatureSupport" where
  "FieldOptions_FeatureSupport_fromJSON J object =
     bindE (fieldOr object ''editionIntroduced'' editionFromJSON (numInt 0)) (\<lambda>v_editionIntroduced.
     bindE (fieldOr object ''editionDeprecated'' editionFromJSON (numInt 0)) (\<lambda>v_editionDeprecated.
     bindE (fieldOr object ''deprecationWarning'' (jsString J) '''') (\<lambda>v_deprecationWarning.
     bindE (fieldOr object ''editionRemoved'' editionFromJSON (numInt 0)) (\<lambda>v_editionRemoved.
     Inr \<lparr>FieldOptions_FeatureSupport_editionIntroduced = Some v_editionIntroduced,
       FieldOptions_FeatureSupport_editionDeprecated = Some v_editionDeprecated,
         FieldOptions_FeatureSupport_deprecationWarning = Some v_deprecationWarning,
           FieldOptions_FeatureSupport_editionRemoved = Some v_editionRemoved\<rparr>))))"

definition FieldOptions_FeatureSupport_toJSON :: "FieldOptions_FeatureSupport \<Rightarrow> jsval" where
  "FieldOptions_FeatureSupport_toJSON message = JObj (
     setProp (differs (FieldOptions_FeatureSupport_editionIntroduced message)
       (numInt 0)) ''editionIntroduced'' (JStr (editionToJSON (the
         (FieldOptions_FeatureSupport_editionIntroduced message)))) @
     setProp (differs (FieldOptions_FeatureSupport_editionDeprecated message)
       (numInt 0)) ''editionDeprecated'' (JStr (editionToJSON (the
         (FieldOptions_FeatureSupport_editionDeprecated message)))) @
     setProp (differs (FieldOptions_FeatureSupport_deprecationWarning message) '''') ''deprecationWarning''
       (JStr (the (FieldOptions_FeatureSupport_deprecationWarning message))) @
     setProp (differs (FieldOptions_FeatureSupport_editionRemoved message) (numInt 0)) ''editionRemoved''
       (JStr (editionToJSON (the (FieldOptions_FeatureSupport_editionRemoved message)))))"

record FieldOptions_FeatureSupport_partial =
  FieldOptions_FeatureSupport_p_editionIntroduced :: "number option"
  FieldOptions_FeatureSupport_p_editionDeprecated :: "number option"
  FieldOptions_FeatureSupport_p_deprecationWarning :: "string option"
  FieldOptions_FeatureSupport_p_editionRemoved :: "number option"

definition FieldOptions_FeatureSupport_fromPartial :: "FieldOptions_FeatureSupport_partial
  \<Rightarrow> FieldOptions_FeatureSupport" where
  "FieldOptions_FeatureSupport_fromPartial object = createBaseFieldOptions_FeatureSupport\<lparr>
     FieldOptions_FeatureSupport_editionIntroduced := Some (getOr
       (FieldOptions_FeatureSupport_p_editionIntroduced object) (numInt 0)),
     FieldOptions_FeatureSupport_editionDeprecated := Some (getOr
       (FieldOptions_FeatureSupport_p_editionDeprecated object) (numInt 0)),
     FieldOptions_FeatureSupport_deprecationWarning := Some (getOr
       (FieldOptions_FeatureSupport_p_deprecationWarning object) ''''),
     FieldOptions_FeatureSupport_editionRemoved := Some (getOr
       (FieldOptions_FeatureSupport_p_editionRemoved object) (numInt 0))\<rparr>"

definition FieldOptions_FeatureSupport_create :: "FieldOptions_FeatureSupport_partial option
  \<Rightarrow> FieldOptions_FeatureSupport" where
  "FieldOptions_FeatureSupport_create base = FieldOptions_FeatureSupport_fromPartial (getOr base
     \<lparr>FieldOptions_FeatureSupport_p_editionIntroduced = None,
       FieldOptions_FeatureSupport_p_editionDeprecated = None,
         FieldOptions_FeatureSupport_p_deprecationWarning = None,
           FieldOptions_FeatureSupport_p_editionRemoved = None\<rparr>)"

subsection \<open>\<open>FeatureSet\<close>\<close>

record FeatureSet =
  FeatureSet_fieldPresence :: "number option"
  FeatureSet_enumType :: "number option"
  FeatureSet_repeatedFieldEncoding :: "number option"
  FeatureSet_utf8Validation :: "number option"
  FeatureSet_messageEncoding :: "number option"
  FeatureSet_jsonFormat :: "number option"
  FeatureSet_enforceNamingStyle :: "number option"
  FeatureSet_defaultSymbolVisibility :: "number option"

definition createBaseFeatureSet :: FeatureSet where
  "createBaseFeatureSet =
     \<lparr>FeatureSet_fieldPresence = Some (numInt 0), FeatureSet_enumType = Some (numInt 0),
       FeatureSet_repeatedFieldEncoding = Some (numInt 0), FeatureSet_utf8Validation = Some (numInt 0),
         FeatureSet_messageEncoding = Some (numInt 0), FeatureSet_jsonFormat = Some (numInt 0),
           FeatureSet_enforceNamingStyle = Some (numInt 0), FeatureSet_defaultSymbolVisibility = Some
             (numInt 0)\<rparr>"

definition FeatureSet_encode :: "'w writer_ops \<Rightarrow> FeatureSet \<Rightarrow> 'w
  \<Rightarrow> jserr + 'w" where
  "FeatureSet_encode W message = w_all [
     w_when (differs (FeatureSet_fieldPresence message) (numInt 0))
       (w_seq (w_tag W 8) (w_int32 W (the (FeatureSet_fieldPresence message)))),
     w_when (differs (FeatureSet_enumType message) (numInt 0))
       (w_seq (w_tag W 16) (w_int32 W (the (FeatureSet_enumType message)))),
     w_when (differs (FeatureSet_repeatedFieldEncoding message) (numInt 0))
       (w_seq (w_tag W 24) (w_int32 W (the (FeatureSet_repeatedFieldEncoding message)))),
     w_when (differs (FeatureSet_utf8Validation message) (numInt 0))
       (w_seq (w_tag W 32) (w_int32 W (the (FeatureSet_utf8Validation message)))),
     w_when (differs (FeatureSet_messageEncoding message) (numInt 0))
       (w_seq (w_tag W 40) (w_int32 W (the (FeatureSet_messageEncoding message)))),
     w_when (differs (FeatureSet_jsonFormat message) (numInt 0))
       (w_seq (w_tag W 48) (w_int32 W (the (FeatureSet_jsonFormat message)))),
     w_when (differs (FeatureSet_enforceNamingStyle message) (numInt 0))
       (w_seq (w_tag W 56) (w_int32 W (the (FeatureSet_enforceNamingStyle message)))),
     w_when (differs (FeatureSet_defaultSymbolVisibility message) (numInt 0))
       (w_seq (w_tag W 64) (w_int32 W (the (FeatureSet_defaultSymbolVisibility message))))]"

definition FeatureSet_field :: "'r reader_ops \<Rightarrow> u32 \<Rightarrow> FeatureSet \<Rightarrow> ('r,
  FeatureSet option) rd" where
  "FeatureSet_field R tag message =
     (if drop_bit 3 tag = 1 then
        (if tag \<noteq> 8 then brk
         else bindR (getR (r_int32 R)) (\<lambda>v. cont (message\<lparr>FeatureSet_fieldPresence := Some
           (numInt v)\<rparr>)))
      else if drop_bit 3 tag = 2 then
        (if tag \<noteq> 16 then brk
         else bindR (getR (r_int32 R)) (\<lambda>v. cont (message\<lparr>FeatureSet_enumType := Some
           (numInt v)\<rparr>)))
      else if drop_bit 3 tag = 3 then
        (if tag \<noteq> 24 then brk
         else bindR (getR (r_int32 R)) (\<lambda>v. cont
           (message\<lparr>FeatureSet_repeatedFieldEncoding := Some (numInt v)\<rparr>)))
      else if drop_bit 3 tag = 4 then
        (if tag \<noteq> 32 then brk
         else bindR (getR (r_int32 R)) (\<lambda>v. cont (message\<lparr>FeatureSet_utf8Validation := Some
           (numInt v)\<rparr>)))
      else if drop_bit 3 tag = 5 then
        (if tag \<noteq> 40 then brk
         else bindR (getR (r_int32 R)) (\<lambda>v. cont (message\<lparr>FeatureSet_messageEncoding := Some
           (numInt v)\<rparr>)))
      else if drop_bit 3 tag = 6 then
        (if tag \<noteq> 48 then brk
         else bindR (getR (r_int32 R)) (\<lambda>v. cont (message\<lparr>FeatureSet_jsonFormat := Some
           (numInt v)\<rparr>)))
      else if drop_bit 3 tag = 7 then
        (if tag \<noteq> 56 then brk
         else bindR (getR (r_int32 R)) (\<lambda>v. cont
           (message\<lparr>FeatureSet_enforceNamingStyle := Some (numInt v)\<rparr>)))
      else if drop_bit 3 tag = 8 then
        (if tag \<noteq> 64 then brk
         else bindR (getR (r_int32 R)) (\<lambda>v. cont
           (message\<lparr>FeatureSet_defaultSymbolVisibility := Some (numInt v)\<rparr>)))
      else brk)"

definition FeatureSet_decode :: "'r reader_ops \<Rightarrow> 'r input \<Rightarrow> nat option
  \<Rightarrow> (jserr + FeatureSet \<times> 'r) option" where
  "FeatureSet_decode R = decode_message R (FeatureSet_field R) createBaseFeatureSet"

definition FeatureSet_fromJSON :: "js_text \<Rightarrow> jsval \<Rightarrow> jserr + FeatureSet" where
  "FeatureSet_fromJSON J object =
     bindE (fieldOr object ''fieldPresence'' featureSet_FieldPresenceFromJSON (numInt 0))
       (\<lambda>v_fieldPresence.
     bindE (fieldOr object ''enumType'' featureSet_EnumTypeFromJSON (numInt 0)) (\<lambda>v_enumType.
     bindE (fieldOr object ''repeatedFieldEncoding'' featureSet_RepeatedFieldEncodingFromJSON (numInt 0))
       (\<lambda>v_repeatedFieldEncoding.
     bindE (fieldOr object ''utf8Validation'' featureSet_Utf8ValidationFromJSON (numInt 0))
       (\<lambda>v_utf8Validation.
     bindE (fieldOr object ''messageEncoding'' featureSet_MessageEncodingFromJSON (numInt 0))
       (\<lambda>v_messageEncoding.
     bindE (fieldOr object ''jsonFormat'' featureSet_JsonFormatFromJSON (numInt 0)) (\<lambda>v_jsonFormat.
     bindE (fieldOr object ''enforceNamingStyle'' featureSet_EnforceNamingStyleFromJSON (numInt 0))
       (\<lambda>v_enforceNamingStyle.
     bindE (fieldOr object ''defaultSymbolVisibility'' featureSet_VisibilityFeature_DefaultSymbolVisibilityFromJSON (numInt 0)) (\<lambda>v_defaultSymbolVisibility.
     Inr \<lparr>FeatureSet_fieldPresence = Some v_fieldPresence, FeatureSet_enumType = Some v_enumType,
       FeatureSet_repeatedFieldEncoding = Some v_repeatedFieldEncoding,
         FeatureSet_utf8Validation = Some v_utf8Validation,
           FeatureSet_messageEncoding = Some v_messageEncoding, FeatureSet_jsonFormat = Some v_jsonFormat,
             FeatureSet_enforceNamingStyle = Some v_enforceNamingStyle,
               FeatureSet_defaultSymbolVisibility = Some v_defaultSymbolVisibility\<rparr>))))))))"

definition FeatureSet_toJSON :: "FeatureSet \<Rightarrow> jsval" where
  "FeatureSet_toJSON message = JObj (
     setProp (differs (FeatureSet_fieldPresence message) (numInt 0)) ''fieldPresence'' (JStr
       (featureSet_FieldPresenceToJSON (the (FeatureSet_fieldPresence message)))) @
     setProp (differs (FeatureSet_enumType message) (numInt 0)) ''enumType'' (JStr
       (featureSet_EnumTypeToJSON (the (FeatureSet_enumType message)))) @
     setProp (differs (FeatureSet_repeatedFieldEncoding message) (numInt 0)) ''repeatedFieldEncoding''
       (JStr (featureSet_RepeatedFieldEncodingToJSON (the (FeatureSet_repeatedFieldEncoding message)))) @
     setProp (differs (FeatureSet_utf8Validation message) (numInt 0)) ''utf8Validation'' (JStr
       (featureSet_Utf8ValidationToJSON (the (FeatureSet_utf8Validation message)))) @
     setProp (differs (FeatureSet_messageEncoding message) (numInt 0)) ''messageEncoding'' (JStr
       (featureSet_MessageEncodingToJSON (the (FeatureSet_messageEncoding message)))) @
     setProp (differs (FeatureSet_jsonFormat message) (numInt 0)) ''jsonFormat'' (JStr
       (featureSet_JsonFormatToJSON (the (FeatureSet_jsonFormat message)))) @
     setProp (differs (FeatureSet_enforceNamingStyle message) (numInt 0)) ''enforceNamingStyle'' (JStr
       (featureSet_EnforceNamingStyleToJSON (the (FeatureSet_enforceNamingStyle message)))) @
     setProp (differs (FeatureSet_defaultSymbolVisibility message) (numInt 0)) ''defaultSymbolVisibility''
       (JStr (featureSet_VisibilityFeature_DefaultSymbolVisibilityToJSON (the
         (FeatureSet_defaultSymbolVisibility message)))))"

record FeatureSet_partial =
  FeatureSet_p_fieldPresence :: "number option"
  FeatureSet_p_enumType :: "number option"
  FeatureSet_p_repeatedFieldEncoding :: "number option"
  FeatureSet_p_utf8Validation :: "number option"
  FeatureSet_p_messageEncoding :: "number option"
  FeatureSet_p_jsonFormat :: "number option"
  FeatureSet_p_enforceNamingStyle :: "number option"
  FeatureSet_p_defaultSymbolVisibility :: "number option"

definition FeatureSet_fromPartial :: "FeatureSet_partial \<Rightarrow> FeatureSet" where
  "FeatureSet_fromPartial object = createBaseFeatureSet\<lparr>
     FeatureSet_fieldPresence := Some (getOr (FeatureSet_p_fieldPresence object) (numInt 0)),
     FeatureSet_enumType := Some (getOr (FeatureSet_p_enumType object) (numInt 0)),
     FeatureSet_repeatedFieldEncoding := Some (getOr (FeatureSet_p_repeatedFieldEncoding object) (numInt 0)),
     FeatureSet_utf8Validation := Some (getOr (FeatureSet_p_utf8Validation object) (numInt 0)),
     FeatureSet_messageEncoding := Some (getOr (FeatureSet_p_messageEncoding object) (numInt 0)),
     FeatureSet_jsonFormat := Some (getOr (FeatureSet_p_jsonFormat object) (numInt 0)),
     FeatureSet_enforceNamingStyle := Some (getOr (FeatureSet_p_enforceNamingStyle object) (numInt 0)),
     FeatureSet_defaultSymbolVisibility := Some (getOr (FeatureSet_p_defaultSymbolVisibility object)
       (numInt 0))\<rparr>"

definition FeatureSet_create :: "FeatureSet_partial option \<Rightarrow> FeatureSet" where
  "FeatureSet_create base = FeatureSet_fromPartial (getOr base
     \<lparr>FeatureSet_p_fieldPresence = None, FeatureSet_p_enumType = None,
       FeatureSet_p_repeatedFieldEncoding = None, FeatureSet_p_utf8Validation = None,
         FeatureSet_p_messageEncoding = None, FeatureSet_p_jsonFormat = None,
           FeatureSet_p_enforceNamingStyle = None, FeatureSet_p_defaultSymbolVisibility = None\<rparr>)"

subsection \<open>\<open>FeatureSetDefaults_FeatureSetEditionDefault\<close>\<close>

record FeatureSetDefaults_FeatureSetEditionDefault =
  FeatureSetDefaults_FeatureSetEditionDefault_edition :: "number option"
  FeatureSetDefaults_FeatureSetEditionDefault_overridableFeatures :: "FeatureSet option"
  FeatureSetDefaults_FeatureSetEditionDefault_fixedFeatures :: "FeatureSet option"

definition createBaseFeatureSetDefaults_FeatureSetEditionDefault :: FeatureSetDefaults_FeatureSetEditionDefault where
  "createBaseFeatureSetDefaults_FeatureSetEditionDefault =
     \<lparr>FeatureSetDefaults_FeatureSetEditionDefault_edition = Some (numInt 0),
       FeatureSetDefaults_FeatureSetEditionDefault_overridableFeatures = None,
         FeatureSetDefaults_FeatureSetEditionDefault_fixedFeatures = None\<rparr>"

definition FeatureSetDefaults_FeatureSetEditionDefault_encode :: "'w writer_ops
  \<Rightarrow> FeatureSetDefaults_FeatureSetEditionDefault \<Rightarrow> 'w \<Rightarrow> jserr + 'w" where
  "FeatureSetDefaults_FeatureSetEditionDefault_encode W message = w_all [
     w_when (differs (FeatureSetDefaults_FeatureSetEditionDefault_edition message) (numInt 0))
       (w_seq (w_tag W 24) (w_int32 W (the (FeatureSetDefaults_FeatureSetEditionDefault_edition message)))),
     w_opt (\<lambda>v. w_nested W 34 (FeatureSet_encode W v))
       (FeatureSetDefaults_FeatureSetEditionDefault_overridableFeatures message),
     w_opt (\<lambda>v. w_nested W 42 (FeatureSet_encode W v))
       (FeatureSetDefaults_FeatureSetEditionDefault_fixedFeatures message)]"

definition FeatureSetDefaults_FeatureSetEditionDefault_field :: "'r reader_ops \<Rightarrow> u32
  \<Rightarrow> FeatureSetDefaults_FeatureSetEditionDefault \<Rightarrow> ('r,
    FeatureSetDefaults_FeatureSetEditionDefault option) rd" where
  "FeatureSetDefaults_FeatureSetEditionDefault_field R tag message =
     (if drop_bit 3 tag = 3 then
        (if tag \<noteq> 24 then brk
         else bindR (getR (r_int32 R)) (\<lambda>v. cont
           (message\<lparr>FeatureSetDefaults_FeatureSetEditionDefault_edition := Some (numInt v)\<rparr>)))
      else if drop_bit 3 tag = 4 then
        (if tag \<noteq> 34 then brk
         else bindR (nested R (FeatureSet_decode R)) (\<lambda>v. cont
           (message\<lparr>FeatureSetDefaults_FeatureSetEditionDefault_overridableFeatures := Some v\<rparr>)))
      else if drop_bit 3 tag = 5 then
        (if tag \<noteq> 42 then brk
         else bindR (nested R (FeatureSet_decode R)) (\<lambda>v. cont
           (message\<lparr>FeatureSetDefaults_FeatureSetEditionDefault_fixedFeatures := Some v\<rparr>)))
      else brk)"

definition FeatureSetDefaults_FeatureSetEditionDefault_decode :: "'r reader_ops \<Rightarrow> 'r input
  \<Rightarrow> nat option \<Rightarrow>
    (jserr + FeatureSetDefaults_FeatureSetEditionDefault \<times> 'r) option" where
  "FeatureSetDefaults_FeatureSetEditionDefault_decode R = decode_message R
    (FeatureSetDefaults_FeatureSetEditionDefault_field R) createBaseFeatureSetDefaults_FeatureSetEditionDefault"

definition FeatureSetDefaults_FeatureSetEditionDefault_fromJSON :: "js_text \<Rightarrow> jsval
  \<Rightarrow> jserr + FeatureSetDefaults_FeatureSetEditionDefault" where
  "FeatureSetDefaults_FeatureSetEditionDefault_fromJSON J object =
     bindE (fieldOr object ''edition'' editionFromJSON (numInt 0)) (\<lambda>v_edition.
     bindE (fieldOpt object ''overridableFeatures'' (FeatureSet_fromJSON J)) (\<lambda>v_overridableFeatures.
     bindE (fieldOpt object ''fixedFeatures'' (FeatureSet_fromJSON J)) (\<lambda>v_fixedFeatures.
     Inr \<lparr>FeatureSetDefaults_FeatureSetEditionDefault_edition = Some v_edition,
       FeatureSetDefaults_FeatureSetEditionDefault_overridableFeatures = v_overridableFeatures,
         FeatureSetDefaults_FeatureSetEditionDefault_fixedFeatures = v_fixedFeatures\<rparr>)))"

definition FeatureSetDefaults_FeatureSetEditionDefault_toJSON :: "FeatureSetDefaults_FeatureSetEditionDefault \<Rightarrow> jsval" where
  "FeatureSetDefaults_FeatureSetEditionDefault_toJSON message = JObj (
     setProp (differs (FeatureSetDefaults_FeatureSetEditionDefault_edition message) (numInt 0)) ''edition''
       (JStr (editionToJSON (the (FeatureSetDefaults_FeatureSetEditionDefault_edition message)))) @
     setOpt ''overridableFeatures'' (map_option FeatureSet_toJSON
       (FeatureSetDefaults_FeatureSetEditionDefault_overridableFeatures message)) @
     setOpt ''fixedFeatures'' (map_option FeatureSet_toJSON
       (FeatureSetDefaults_FeatureSetEditionDefault_fixedFeatures message)))"

record FeatureSetDefaults_FeatureSetEditionDefault_partial =
  FeatureSetDefaults_FeatureSetEditionDefault_p_edition :: "number option"
  FeatureSetDefaults_FeatureSetEditionDefault_p_overridableFeatures :: "FeatureSet_partial option"
  FeatureSetDefaults_FeatureSetEditionDefault_p_fixedFeatures :: "FeatureSet_partial option"

definition FeatureSetDefaults_FeatureSetEditionDefault_fromPartial :: "FeatureSetDefaults_FeatureSetEditionDefault_partial \<Rightarrow> FeatureSetDefaults_FeatureSetEditionDefault" where
  "FeatureSetDefaults_FeatureSetEditionDefault_fromPartial object = createBaseFeatureSetDefaults_FeatureSetEditionDefault\<lparr>
     FeatureSetDefaults_FeatureSetEditionDefault_edition := Some (getOr
       (FeatureSetDefaults_FeatureSetEditionDefault_p_edition object) (numInt 0)),
     FeatureSetDefaults_FeatureSetEditionDefault_overridableFeatures := map_option FeatureSet_fromPartial
       (FeatureSetDefaults_FeatureSetEditionDefault_p_overridableFeatures object),
     FeatureSetDefaults_FeatureSetEditionDefault_fixedFeatures := map_option FeatureSet_fromPartial
       (FeatureSetDefaults_FeatureSetEditionDefault_p_fixedFeatures object)\<rparr>"

definition FeatureSetDefaults_FeatureSetEditionDefault_create :: "FeatureSetDefaults_FeatureSetEditionDefault_partial option \<Rightarrow> FeatureSetDefaults_FeatureSetEditionDefault" where
  "FeatureSetDefaults_FeatureSetEditionDefault_create base = FeatureSetDefaults_FeatureSetEditionDefault_fromPartial (getOr base
     \<lparr>FeatureSetDefaults_FeatureSetEditionDefault_p_edition = None,
       FeatureSetDefaults_FeatureSetEditionDefault_p_overridableFeatures = None,
         FeatureSetDefaults_FeatureSetEditionDefault_p_fixedFeatures = None\<rparr>)"

subsection \<open>\<open>FeatureSetDefaults\<close>\<close>

record FeatureSetDefaults =
  FeatureSetDefaults_defaults :: "FeatureSetDefaults_FeatureSetEditionDefault list"
  FeatureSetDefaults_minimumEdition :: "number option"
  FeatureSetDefaults_maximumEdition :: "number option"

definition createBaseFeatureSetDefaults :: FeatureSetDefaults where
  "createBaseFeatureSetDefaults =
     \<lparr>FeatureSetDefaults_defaults = [], FeatureSetDefaults_minimumEdition = Some (numInt 0),
       FeatureSetDefaults_maximumEdition = Some (numInt 0)\<rparr>"

definition FeatureSetDefaults_encode :: "'w writer_ops \<Rightarrow> FeatureSetDefaults \<Rightarrow> 'w
  \<Rightarrow> jserr + 'w" where
  "FeatureSetDefaults_encode W message = w_all [
     w_each (\<lambda>v. w_nested W 10 (FeatureSetDefaults_FeatureSetEditionDefault_encode W v))
       (FeatureSetDefaults_defaults message),
     w_when (differs (FeatureSetDefaults_minimumEdition message) (numInt 0))
       (w_seq (w_tag W 32) (w_int32 W (the (FeatureSetDefaults_minimumEdition message)))),
     w_when (differs (FeatureSetDefaults_maximumEdition message) (numInt 0))
       (w_seq (w_tag W 40) (w_int32 W (the (FeatureSetDefaults_maximumEdition message))))]"

definition FeatureSetDefaults_field :: "'r reader_ops \<Rightarrow> u32 \<Rightarrow> FeatureSetDefaults
  \<Rightarrow> ('r, FeatureSetDefaults option) rd" where
  "FeatureSetDefaults_field R tag message =
     (if drop_bit 3 tag = 1 then
        (if tag \<noteq> 10 then brk
         else bindR (nested R (FeatureSetDefaults_FeatureSetEditionDefault_decode R)) (\<lambda>v. cont
           (message\<lparr>FeatureSetDefaults_defaults := FeatureSetDefaults_defaults message @ [v]\<rparr>)))
      else if drop_bit 3 tag = 4 then
        (if tag \<noteq> 32 then brk
         else bindR (getR (r_int32 R)) (\<lambda>v. cont
           (message\<lparr>FeatureSetDefaults_minimumEdition := Some (numInt v)\<rparr>)))
      else if drop_bit 3 tag = 5 then
        (if tag \<noteq> 40 then brk
         else bindR (getR (r_int32 R)) (\<lambda>v. cont
           (message\<lparr>FeatureSetDefaults_maximumEdition := Some (numInt v)\<rparr>)))
      else brk)"

definition FeatureSetDefaults_decode :: "'r reader_ops \<Rightarrow> 'r input \<Rightarrow> nat option
  \<Rightarrow> (jserr + FeatureSetDefaults \<times> 'r) option" where
  "FeatureSetDefaults_decode R = decode_message R (FeatureSetDefaults_field R) createBaseFeatureSetDefaults"

definition FeatureSetDefaults_fromJSON :: "js_text \<Rightarrow> jsval
  \<Rightarrow> jserr + FeatureSetDefaults" where
  "FeatureSetDefaults_fromJSON J object =
     bindE (fieldArr object ''defaults'' (FeatureSetDefaults_FeatureSetEditionDefault_fromJSON J))
       (\<lambda>v_defaults.
     bindE (fieldOr object ''minimumEdition'' editionFromJSON (numInt 0)) (\<lambda>v_minimumEdition.
     bindE (fieldOr object ''maximumEdition'' editionFromJSON (numInt 0)) (\<lambda>v_maximumEdition.
     Inr \<lparr>FeatureSetDefaults_defaults = v_defaults,
       FeatureSetDefaults_minimumEdition = Some v_minimumEdition,
         FeatureSetDefaults_maximumEdition = Some v_maximumEdition\<rparr>)))"

definition FeatureSetDefaults_toJSON :: "FeatureSetDefaults \<Rightarrow> jsval" where
  "FeatureSetDefaults_toJSON message = JObj (
     setProp (FeatureSetDefaults_defaults message \<noteq> []) ''defaults'' (JArr
       (map FeatureSetDefaults_FeatureSetEditionDefault_toJSON (FeatureSetDefaults_defaults message))) @
     setProp (differs (FeatureSetDefaults_minimumEdition message) (numInt 0)) ''minimumEdition'' (JStr
       (editionToJSON (the (FeatureSetDefaults_minimumEdition message)))) @
     setProp (differs (FeatureSetDefaults_maximumEdition message) (numInt 0)) ''maximumEdition'' (JStr
       (editionToJSON (the (FeatureSetDefaults_maximumEdition message)))))"

record FeatureSetDefaults_partial =
  FeatureSetDefaults_p_defaults :: "FeatureSetDefaults_FeatureSetEditionDefault_partial list option"
  FeatureSetDefaults_p_minimumEdition :: "number option"
  FeatureSetDefaults_p_maximumEdition :: "number option"

definition FeatureSetDefaults_fromPartial :: "FeatureSetDefaults_partial \<Rightarrow> FeatureSetDefaults" where
  "FeatureSetDefaults_fromPartial object = createBaseFeatureSetDefaults\<lparr>
     FeatureSetDefaults_defaults := getOr (map_option
       (map FeatureSetDefaults_FeatureSetEditionDefault_fromPartial) (FeatureSetDefaults_p_defaults object)) [],
     FeatureSetDefaults_minimumEdition := Some (getOr (FeatureSetDefaults_p_minimumEdition object) (numInt 0)),
     FeatureSetDefaults_maximumEdition := Some (getOr (FeatureSetDefaults_p_maximumEdition object)
       (numInt 0))\<rparr>"

definition FeatureSetDefaults_create :: "FeatureSetDefaults_partial option
  \<Rightarrow> FeatureSetDefaults" where
  "FeatureSetDefaults_create base = FeatureSetDefaults_fromPartial (getOr base
     \<lparr>FeatureSetDefaults_p_defaults = None, FeatureSetDefaults_p_minimumEdition = None,
       FeatureSetDefaults_p_maximumEdition = None\<rparr>)"

end
