(* ===== verification/Options_Messages.thy ===== *)
theory Options_Messages
  imports Descriptor_Messages
begin

unbundle bit_operations_syntax

text \<open>
  The options of \<open>gen/ts/google/protobuf/descriptor.ts\<close>.  They all carry \<open>UninterpretedOption\<close>, whose fields
  are 64-bit integers, a double and bytes; \<open>FieldOptions\<close> has a packed list of enumeration values.
\<close>

section \<open>Messages\<close>

subsection \<open>\<open>UninterpretedOption\<close>\<close>

record UninterpretedOption =
  UninterpretedOption_name :: "UninterpretedOption_NamePart list"
  UninterpretedOption_identifierValue :: "string option"
  UninterpretedOption_positiveIntValue :: "number option"
  UninterpretedOption_negativeIntValue :: "number option"
  UninterpretedOption_doubleValue :: "number option"
  UninterpretedOption_stringValue :: "bytes option"
  UninterpretedOption_aggregateValue :: "string option"

definition createBaseUninterpretedOption :: UninterpretedOption where
  "createBaseUninterpretedOption =
     \<lparr>UninterpretedOption_name = [], UninterpretedOption_identifierValue = Some '''',
       UninterpretedOption_positiveIntValue = Some (numInt 0), UninterpretedOption_negativeIntValue = Some
         (numInt 0), UninterpretedOption_doubleValue = Some (numInt 0),
           UninterpretedOption_stringValue = Some [], UninterpretedOption_aggregateValue = Some ''''\<rparr>"

definition UninterpretedOption_encode :: "'w writer_ops \<Rightarrow> UninterpretedOption \<Rightarrow> 'w
  \<Rightarrow> jserr + 'w" where
  "UninterpretedOption_encode W message = w_all [
     w_each (\<lambda>v. w_nested W 18 (UninterpretedOption_NamePart_encode W v))
       (UninterpretedOption_name message),
     w_when (differs (UninterpretedOption_identifierValue message) '''')
       (w_seq (w_tag W 26) (w_string W (the (UninterpretedOption_identifierValue message)))),
     w_when (differs (UninterpretedOption_positiveIntValue message) (numInt 0))
       (w_seq (w_tag W 32) (w_uint64 W (the (UninterpretedOption_positiveIntValue message)))),
     w_when (differs (UninterpretedOption_negativeIntValue message) (numInt 0))
       (w_seq (w_tag W 40) (w_int64 W (the (UninterpretedOption_negativeIntValue message)))),
     w_when (differs (UninterpretedOption_doubleValue message) (numInt 0))
       (w_seq (w_tag W 49) (w_double W (the (UninterpretedOption_doubleValue message)))),
     w_when (differs (UninterpretedOption_stringValue message) [])
       (w_seq (w_tag W 58) (w_bytes W (the (UninterpretedOption_stringValue message)))),
     w_when (differs (UninterpretedOption_aggregateValue message) '''')
       (w_seq (w_tag W 66) (w_string W (the (UninterpretedOption_aggregateValue message))))]"

definition UninterpretedOption_field :: "'r reader_ops \<Rightarrow> u32 \<Rightarrow> UninterpretedOption
  \<Rightarrow> ('r, UninterpretedOption option) rd" where
  "UninterpretedOption_field R tag message =
     (if drop_bit 3 tag = 2 then
        (if tag \<noteq> 18 then brk
         else bindR (nested R (UninterpretedOption_NamePart_decode R)) (\<lambda>v. cont
           (message\<lparr>UninterpretedOption_name := UninterpretedOption_name message @ [v]\<rparr>)))
      else if drop_bit 3 tag = 3 then
        (if tag \<noteq> 26 then brk
         else bindR (getR (r_string R)) (\<lambda>v. cont
           (message\<lparr>UninterpretedOption_identifierValue := Some v\<rparr>)))
      else if drop_bit 3 tag = 4 then
        (if tag \<noteq> 32 then brk
         else bindR (getR (longR (r_uint64 R))) (\<lambda>v. cont
           (message\<lparr>UninterpretedOption_positiveIntValue := Some v\<rparr>)))
      else if drop_bit 3 tag = 5 then
        (if tag \<noteq> 40 then brk
         else bindR (getR (longR (r_int64 R))) (\<lambda>v. cont
           (message\<lparr>UninterpretedOption_negativeIntValue := Some v\<rparr>)))
      else if drop_bit 3 tag = 6 then
        (if tag \<noteq> 49 then brk
         else bindR (getR (r_double R)) (\<lambda>v. cont
           (message\<lparr>UninterpretedOption_doubleValue := Some v\<rparr>)))
      else if drop_bit 3 tag = 7 then
        (if tag \<noteq> 58 then brk
         else bindR (getR (r_bytes R)) (\<lambda>v. cont
           (message\<lparr>UninterpretedOption_stringValue := Some v\<rparr>)))
      else if drop_bit 3 tag = 8 then
        (if tag \<noteq> 66 then brk
         else bindR (getR (r_string R)) (\<lambda>v. cont
           (message\<lparr>UninterpretedOption_aggregateValue := Some v\<rparr>)))
      else brk)"

definition UninterpretedOption_decode :: "'r reader_ops \<Rightarrow> 'r input \<Rightarrow> nat option
  \<Rightarrow> (jserr + UninterpretedOption \<times> 'r) option" where
  "UninterpretedOption_decode R = decode_message R (UninterpretedOption_field R) createBaseUninterpretedOption"

definition UninterpretedOption_fromJSON :: "js_text \<Rightarrow> jsval
  \<Rightarrow> jserr + UninterpretedOption" where
  "UninterpretedOption_fromJSON J object =
     bindE (fieldArr object ''name'' (UninterpretedOption_NamePart_fromJSON J)) (\<lambda>v_name.
     bindE (fieldOr object ''identifierValue'' (jsString J) '''') (\<lambda>v_identifierValue.
     bindE (fieldOr object ''positiveIntValue'' (jsNumber J) (numInt 0)) (\<lambda>v_positiveIntValue.
     bindE (fieldOr object ''negativeIntValue'' (jsNumber J) (numInt 0)) (\<lambda>v_negativeIntValue.
     bindE (fieldOr object ''doubleValue'' (jsNumber J) (numInt 0)) (\<lambda>v_doubleValue.
     bindE (fieldOrE object ''stringValue'' (bytesFromBase64 J) []) (\<lambda>v_stringValue.
     bindE (fieldOr object ''aggregateValue'' (jsString J) '''') (\<lambda>v_aggregateValue.
     Inr \<lparr>UninterpretedOption_name = v_name,
       UninterpretedOption_identifierValue = Some v_identifierValue,
         UninterpretedOption_positiveIntValue = Some v_positiveIntValue,
           UninterpretedOption_negativeIntValue = Some v_negativeIntValue,
             UninterpretedOption_doubleValue = Some v_doubleValue,
               UninterpretedOption_stringValue = Some v_stringValue,
                 UninterpretedOption_aggregateValue = Some v_aggregateValue\<rparr>)))))))"

definition UninterpretedOption_toJSON :: "UninterpretedOption \<Rightarrow> jsval" where
  "UninterpretedOption_toJSON message = JObj (
     setProp (UninterpretedOption_name message \<noteq> []) ''name'' (JArr
       (map UninterpretedOption_NamePart_toJSON (UninterpretedOption_name message))) @
     setProp (differs (UninterpretedOption_identifierValue message) '''') ''identifierValue'' (JStr (the
       (UninterpretedOption_identifierValue message))) @
     setProp (differs (UninterpretedOption_positiveIntValue message) (numInt 0)) ''positiveIntValue'' (JNum
       (mathRound (the (UninterpretedOption_positiveIntValue message)))) @
     setProp (differs (UninterpretedOption_negativeIntValue message) (numInt 0)) ''negativeIntValue'' (JNum
       (mathRound (the (UninterpretedOption_negativeIntValue message)))) @
     setProp (differs (UninterpretedOption_doubleValue message) (numInt 0)) ''doubleValue'' (JNum (the
       (UninterpretedOption_doubleValue message))) @
     setProp (differs (UninterpretedOption_stringValue message) []) ''stringValue'' (JStr (base64FromBytes
       (the (UninterpretedOption_stringValue message)))) @
     setProp (differs (UninterpretedOption_aggregateValue message) '''') ''aggregateValue'' (JStr (the
       (UninterpretedOption_aggregateValue message))))"

record UninterpretedOption_partial =
  UninterpretedOption_p_name :: "UninterpretedOption_NamePart_partial list option"
  UninterpretedOption_p_identifierValue :: "string option"
  UninterpretedOption_p_positiveIntValue :: "number option"
  UninterpretedOption_p_negativeIntValue :: "number option"
  UninterpretedOption_p_doubleValue :: "number option"
  UninterpretedOption_p_stringValue :: "bytes option"
  UninterpretedOption_p_aggregateValue :: "string option"

definition UninterpretedOption_fromPartial :: "UninterpretedOption_partial
  \<Rightarrow> UninterpretedOption" where
  "UninterpretedOption_fromPartial object = createBaseUninterpretedOption\<lparr>
     UninterpretedOption_name := getOr (map_option (map UninterpretedOption_NamePart_fromPartial)
       (UninterpretedOption_p_name object)) [],
     UninterpretedOption_identifierValue := Some (getOr (UninterpretedOption_p_identifierValue object) ''''),
     UninterpretedOption_positiveIntValue := Some (getOr (UninterpretedOption_p_positiveIntValue object)
       (numInt 0)),
     UninterpretedOption_negativeIntValue := Some (getOr (UninterpretedOption_p_negativeIntValue object)
       (numInt 0)),
     UninterpretedOption_doubleValue := Some (getOr (UninterpretedOption_p_doubleValue object) (numInt 0)),
     UninterpretedOption_stringValue := Some (getOr (UninterpretedOption_p_stringValue object) []),
     UninterpretedOption_aggregateValue := Some (getOr
       (UninterpretedOption_p_aggregateValue object) '''')\<rparr>"

definition UninterpretedOption_create :: "UninterpretedOption_partial option
  \<Rightarrow> UninterpretedOption" where
  "UninterpretedOption_create base = UninterpretedOption_fromPartial (getOr base
     \<lparr>UninterpretedOption_p_name = None, UninterpretedOption_p_identifierValue = None,
       UninterpretedOption_p_positiveIntValue = None, UninterpretedOption_p_negativeIntValue = None,
         UninterpretedOption_p_doubleValue = None, UninterpretedOption_p_stringValue = None,
           UninterpretedOption_p_aggregateValue = None\<rparr>)"

subsection \<open>\<open>ExtensionRangeOptions_Declaration\<close>\<close>

record ExtensionRangeOptions_Declaration =
  ExtensionRangeOptions_Declaration_number :: "number option"
  ExtensionRangeOptions_Declaration_fullName :: "string option"
  ExtensionRangeOptions_Declaration_type :: "string option"
  ExtensionRangeOptions_Declaration_reserved :: "bool option"
  ExtensionRangeOptions_Declaration_repeated :: "bool option"

definition createBaseExtensionRangeOptions_Declaration :: ExtensionRangeOptions_Declaration where
  "createBaseExtensionRangeOptions_Declaration =
     \<lparr>ExtensionRangeOptions_Declaration_number = Some (numInt 0),
       ExtensionRangeOptions_Declaration_fullName = Some '''',
         ExtensionRangeOptions_Declaration_type = Some '''',
           ExtensionRangeOptions_Declaration_reserved = Some False,
             ExtensionRangeOptions_Declaration_repeated = Some False\<rparr>"

definition ExtensionRangeOptions_Declaration_encode :: "'w writer_ops
  \<Rightarrow> ExtensionRangeOptions_Declaration \<Rightarrow> 'w \<Rightarrow> jserr + 'w" where
  "ExtensionRangeOptions_Declaration_encode W message = w_all [
     w_when (differs (ExtensionRangeOptions_Declaration_number message) (numInt 0))
       (w_seq (w_tag W 8) (w_int32 W (the (ExtensionRangeOptions_Declaration_number message)))),
     w_when (differs (ExtensionRangeOptions_Declaration_fullName message) '''')
       (w_seq (w_tag W 18) (w_string W (the (ExtensionRangeOptions_Declaration_fullName message)))),
     w_when (differs (ExtensionRangeOptions_Declaration_type message) '''')
       (w_seq (w_tag W 26) (w_string W (the (ExtensionRangeOptions_Declaration_type message)))),
     w_when (differs (ExtensionRangeOptions_Declaration_reserved message) False)
       (w_seq (w_tag W 40) (w_bool W (the (ExtensionRangeOptions_Declaration_reserved message)))),
     w_when (differs (ExtensionRangeOptions_Declaration_repeated message) False)
       (w_seq (w_tag W 48) (w_bool W (the (ExtensionRangeOptions_Declaration_repeated message))))]"

definition ExtensionRangeOptions_Declaration_field :: "'r reader_ops \<Rightarrow> u32
  \<Rightarrow> ExtensionRangeOptions_Declaration \<Rightarrow> ('r,
    ExtensionRangeOptions_Declaration option) rd" where
  "ExtensionRangeOptions_Declaration_field R tag message =
     (if drop_bit 3 tag = 1 then
        (if tag \<noteq> 8 then brk
         else bindR (getR (r_int32 R)) (\<lambda>v. cont
           (message\<lparr>ExtensionRangeOptions_Declaration_number := Some (numInt v)\<rparr>)))
      else if drop_bit 3 tag = 2 then
        (if tag \<noteq> 18 then brk
         else bindR (getR (r_string R)) (\<lambda>v. cont
           (message\<lparr>ExtensionRangeOptions_Declaration_fullName := Some v\<rparr>)))
      else if drop_bit 3 tag = 3 then
        (if tag \<noteq> 26 then brk
         else bindR (getR (r_string R)) (\<lambda>v. cont
           (message\<lparr>ExtensionRangeOptions_Declaration_type := Some v\<rparr>)))
      else if drop_bit 3 tag = 5 then
        (if tag \<noteq> 40 then brk
         else bindR (getR (r_bool R)) (\<lambda>v. cont
           (message\<lparr>ExtensionRangeOptions_Declaration_reserved := Some v\<rparr>)))
      else if drop_bit 3 tag = 6 then
        (if tag \<noteq> 48 then brk
         else bindR (getR (r_bool R)) (\<lambda>v. cont
           (message\<lparr>ExtensionRangeOptions_Declaration_repeated := Some v\<rparr>)))
      else brk)"

definition ExtensionRangeOptions_Declaration_decode :: "'r reader_ops \<Rightarrow> 'r input
  \<Rightarrow> nat option \<Rightarrow> (jserr + ExtensionRangeOptions_Declaration \<times> 'r) option" where
  "ExtensionRangeOptions_Declaration_decode R = decode_message R
    (ExtensionRangeOptions_Declaration_field R) createBaseExtensionRangeOptions_Declaration"

definition ExtensionRangeOptions_Declaration_fromJSON :: "js_text \<Rightarrow> jsval
  \<Rightarrow> jserr + ExtensionRangeOptions_Declaration" where
  "ExtensionRangeOptions_Declaration_fromJSON J object =
     bindE (fieldOr object ''number'' (jsNumber J) (numInt 0)) (\<lambda>v_number.
     bindE (fieldOr object ''fullName'' (jsString J) '''') (\<lambda>v_fullName.
     bindE (fieldOr object ''type'' (jsString J) '''') (\<lambda>v_type.
     bindE (fieldOr object ''reserved'' jsBoolean False) (\<lambda>v_reserved.
     bindE (fieldOr object ''repeated'' jsBoolean False) (\<lambda>v_repeated.
     Inr \<lparr>ExtensionRangeOptions_Declaration_number = Some v_number,
       ExtensionRangeOptions_Declaration_fullName = Some v_fullName,
         ExtensionRangeOptions_Declaration_type = Some v_type,
           ExtensionRangeOptions_Declaration_reserved = Some v_reserved,
             ExtensionRangeOptions_Declaration_repeated = Some v_repeated\<rparr>)))))"

definition ExtensionRangeOptions_Declaration_toJSON :: "ExtensionRangeOptions_Declaration
  \<Rightarrow> jsval" where
  "ExtensionRangeOptions_Declaration_toJSON message = JObj (
     setProp (differs (ExtensionRangeOptions_Declaration_number message) (numInt 0)) ''number'' (JNum
       (mathRound (the (ExtensionRangeOptions_Declaration_number message)))) @
     setProp (differs (ExtensionRangeOptions_Declaration_fullName message) '''') ''fullName'' (JStr (the
       (ExtensionRangeOptions_Declaration_fullName message))) @
     setProp (differs (ExtensionRangeOptions_Declaration_type message) '''') ''type'' (JStr (the
       (ExtensionRangeOptions_Declaration_type message))) @
     setProp (differs (ExtensionRangeOptions_Declaration_reserved message) False) ''reserved'' (JBool (the
       (ExtensionRangeOptions_Declaration_reserved message))) @
     setProp (differs (ExtensionRangeOptions_Declaration_repeated message) False) ''repeated'' (JBool (the
       (ExtensionRangeOptions_Declaration_repeated message))))"

record ExtensionRangeOptions_Declaration_partial =
  ExtensionRangeOptions_Declaration_p_number :: "number option"
  ExtensionRangeOptions_Declaration_p_fullName :: "string option"
  ExtensionRangeOptions_Declaration_p_type :: "string option"
  ExtensionRangeOptions_Declaration_p_reserved :: "bool option"
  ExtensionRangeOptions_Declaration_p_repeated :: "bool option"

definition ExtensionRangeOptions_Declaration_fromPartial :: "ExtensionRangeOptions_Declaration_partial
  \<Rightarrow> ExtensionRangeOptions_Declaration" where
  "ExtensionRangeOptions_Declaration_fromPartial object = createBaseExtensionRangeOptions_Declaration\<lparr>
     ExtensionRangeOptions_Declaration_number := Some (getOr
       (ExtensionRangeOptions_Declaration_p_number object) (numInt 0)),
     ExtensionRangeOptions_Declaration_fullName := Some (getOr
       (ExtensionRangeOptions_Declaration_p_fullName object) ''''),
     ExtensionRangeOptions_Declaration_type := Some (getOr
       (ExtensionRangeOptions_Declaration_p_type object) ''''),
     ExtensionRangeOptions_Declaration_reserved := Some (getOr
       (ExtensionRangeOptions_Declaration_p_reserved object) False),
     ExtensionRangeOptions_Declaration_repeated := Some (getOr
       (ExtensionRangeOptions_Declaration_p_repeated object) False)\<rparr>"

definition ExtensionRangeOptions_Declaration_create :: "ExtensionRangeOptions_Declaration_partial option
  \<Rightarrow> ExtensionRangeOptions_Declaration" where
  "ExtensionRangeOptions_Declaration_create base = ExtensionRangeOptions_Declaration_fromPartial (getOr base
     \<lparr>ExtensionRangeOptions_Declaration_p_number = None,
       ExtensionRangeOptions_Declaration_p_fullName = None, ExtensionRangeOptions_Declaration_p_type = None,
         ExtensionRangeOptions_Declaration_p_reserved = None,
           ExtensionRangeOptions_Declaration_p_repeated = None\<rparr>)"

subsection \<open>\<open>ExtensionRangeOptions\<close>\<close>

record ExtensionRangeOptions =
  ExtensionRangeOptions_uninterpretedOption :: "UninterpretedOption list"
  ExtensionRangeOptions_declaration :: "ExtensionRangeOptions_Declaration list"
  ExtensionRangeOptions_features :: "FeatureSet option"
  ExtensionRangeOptions_verification :: "number option"

definition createBaseExtensionRangeOptions :: ExtensionRangeOptions where
  "createBaseExtensionRangeOptions =
     \<lparr>ExtensionRangeOptions_uninterpretedOption = [], ExtensionRangeOptions_declaration = [],
       ExtensionRangeOptions_features = None, ExtensionRangeOptions_verification = Some (numInt 1)\<rparr>"

definition ExtensionRangeOptions_encode :: "'w writer_ops \<Rightarrow> ExtensionRangeOptions
  \<Rightarrow> 'w \<Rightarrow> jserr + 'w" where
  "ExtensionRangeOptions_encode W message = w_all [
     w_each (\<lambda>v. w_nested W 7994 (UninterpretedOption_encode W v))
       (ExtensionRangeOptions_uninterpretedOption message),
     w_each (\<lambda>v. w_nested W 18 (ExtensionRangeOptions_Declaration_encode W v))
       (ExtensionRangeOptions_declaration message),
     w_opt (\<lambda>v. w_nested W 402 (FeatureSet_encode W v)) (ExtensionRangeOptions_features message),
     w_when (differs (ExtensionRangeOptions_verification message) (numInt 1))
       (w_seq (w_tag W 24) (w_int32 W (the (ExtensionRangeOptions_verification message))))]"

definition ExtensionRangeOptions_field :: "'r reader_ops \<Rightarrow> u32
  \<Rightarrow> ExtensionRangeOptions \<Rightarrow> ('r, ExtensionRangeOptions option) rd" where
  "ExtensionRangeOptions_field R tag message =
     (if drop_bit 3 tag = 999 then
        (if tag \<noteq> 7994 then brk
         else bindR (nested R (UninterpretedOption_decode R)) (\<lambda>v. cont
           (message\<lparr>ExtensionRangeOptions_uninterpretedOption := ExtensionRangeOptions_uninterpretedOption message @ [v]\<rparr>)))
      else if drop_bit 3 tag = 2 then
        (if tag \<noteq> 18 then brk
         else bindR (nested R (ExtensionRangeOptions_Declaration_decode R)) (\<lambda>v. cont
           (message\<lparr>ExtensionRangeOptions_declaration := ExtensionRangeOptions_declaration message @ [v]\<rparr>)))
      else if drop_bit 3 tag = 50 then
        (if tag \<noteq> 402 then brk
         else bindR (nested R (FeatureSet_decode R)) (\<lambda>v. cont
           (message\<lparr>ExtensionRangeOptions_features := Some v\<rparr>)))
      else if drop_bit 3 tag = 3 then
        (if tag \<noteq> 24 then brk
         else bindR (getR (r_int32 R)) (\<lambda>v. cont
           (message\<lparr>ExtensionRangeOptions_verification := Some (numInt v)\<rparr>)))
      else brk)"

definition ExtensionRangeOptions_decode :: "'r reader_ops \<Rightarrow> 'r input \<Rightarrow> nat option
  \<Rightarrow> (jserr + ExtensionRangeOptions \<times> 'r) option" where
  "ExtensionRangeOptions_decode R = decode_message R
    (ExtensionRangeOptions_field R) createBaseExtensionRangeOptions"

definition ExtensionRangeOptions_fromJSON :: "js_text \<Rightarrow> jsval
  \<Rightarrow> jserr + ExtensionRangeOptions" where
  "ExtensionRangeOptions_fromJSON J object =
     bindE (fieldArr object ''uninterpretedOption'' (UninterpretedOption_fromJSON J))
       (\<lambda>v_uninterpretedOption.
     bindE (fieldArr object ''declaration'' (ExtensionRangeOptions_Declaration_fromJSON J))
       (\<lambda>v_declaration.
     bindE (fieldOpt object ''features'' (FeatureSet_fromJSON J)) (\<lambda>v_features.
     bindE (fieldOr object ''verification'' extensionRangeOptions_VerificationStateFromJSON (numInt 1))
       (\<lambda>v_verification.
     Inr \<lparr>ExtensionRangeOptions_uninterpretedOption = v_uninterpretedOption,
       ExtensionRangeOptions_declaration = v_declaration, ExtensionRangeOptions_features = v_features,
         ExtensionRangeOptions_verification = Some v_verification\<rparr>))))"

definition ExtensionRangeOptions_toJSON :: "ExtensionRangeOptions \<Rightarrow> jsval" where
  "ExtensionRangeOptions_toJSON message = JObj (
     setProp (ExtensionRangeOptions_uninterpretedOption message \<noteq> []) ''uninterpretedOption'' (JArr
       (map UninterpretedOption_toJSON (ExtensionRangeOptions_uninterpretedOption message))) @
     setProp (ExtensionRangeOptions_declaration message \<noteq> []) ''declaration'' (JArr
       (map ExtensionRangeOptions_Declaration_toJSON (ExtensionRangeOptions_declaration message))) @
     setOpt ''features'' (map_option FeatureSet_toJSON (ExtensionRangeOptions_features message)) @
     setProp (differs (ExtensionRangeOptions_verification message) (numInt 1)) ''verification'' (JStr
       (extensionRangeOptions_VerificationStateToJSON (the (ExtensionRangeOptions_verification message)))))"

record ExtensionRangeOptions_partial =
  ExtensionRangeOptions_p_uninterpretedOption :: "UninterpretedOption_partial list option"
  ExtensionRangeOptions_p_declaration :: "ExtensionRangeOptions_Declaration_partial list option"
  ExtensionRangeOptions_p_features :: "FeatureSet_partial option"
  ExtensionRangeOptions_p_verification :: "number option"

definition ExtensionRangeOptions_fromPartial :: "ExtensionRangeOptions_partial
  \<Rightarrow> ExtensionRangeOptions" where
  "ExtensionRangeOptions_fromPartial object = createBaseExtensionRangeOptions\<lparr>
     ExtensionRangeOptions_uninterpretedOption := getOr (map_option (map UninterpretedOption_fromPartial)
       (ExtensionRangeOptions_p_uninterpretedOption object)) [],
     ExtensionRangeOptions_declaration := getOr (map_option
       (map ExtensionRangeOptions_Declaration_fromPartial) (ExtensionRangeOptions_p_declaration object)) [],
     ExtensionRangeOptions_features := map_option FeatureSet_fromPartial
       (ExtensionRangeOptions_p_features object),
     ExtensionRangeOptions_verification := Some (getOr (ExtensionRangeOptions_p_verification object)
       (numInt 1))\<rparr>"

definition ExtensionRangeOptions_create :: "ExtensionRangeOptions_partial option
  \<Rightarrow> ExtensionRangeOptions" where
  "ExtensionRangeOptions_create base = ExtensionRangeOptions_fromPartial (getOr base
     \<lparr>ExtensionRangeOptions_p_uninterpretedOption = None, ExtensionRangeOptions_p_declaration = None,
       ExtensionRangeOptions_p_features = None, ExtensionRangeOptions_p_verification = None\<rparr>)"

subsection \<open>\<open>MessageOptions\<close>\<close>

record MessageOptions =
  MessageOptions_messageSetWireFormat :: "bool option"
  MessageOptions_noStandardDescriptorAccessor :: "bool option"
  MessageOptions_deprecated :: "bool option"
  MessageOptions_mapEntry :: "bool option"
  MessageOptions_deprecatedLegacyJsonFieldConflicts :: "bool option"
  MessageOptions_features :: "FeatureSet option"
  MessageOptions_uninterpretedOption :: "UninterpretedOption list"

definition createBaseMessageOptions :: MessageOptions where
  "createBaseMessageOptions =
     \<lparr>MessageOptions_messageSetWireFormat = Some False,
       MessageOptions_noStandardDescriptorAccessor = Some False, MessageOptions_deprecated = Some False,
         MessageOptions_mapEntry = Some False,
           MessageOptions_deprecatedLegacyJsonFieldConflicts = Some False, MessageOptions_features = None,
             MessageOptions_uninterpretedOption = []\<rparr>"

definition MessageOptions_encode :: "'w writer_ops \<Rightarrow> MessageOptions \<Rightarrow> 'w
  \<Rightarrow> jserr + 'w" where
  "MessageOptions_encode W message = w_all [
     w_when (differs (MessageOptions_messageSetWireFormat message) False)
       (w_seq (w_tag W 8) (w_bool W (the (MessageOptions_messageSetWireFormat message)))),
     w_when (differs (MessageOptions_noStandardDescriptorAccessor message) False)
       (w_seq (w_tag W 16) (w_bool W (the (MessageOptions_noStandardDescriptorAccessor message)))),
     w_when (differs (MessageOptions_deprecated message) False)
       (w_seq (w_tag W 24) (w_bool W (the (MessageOptions_deprecated message)))),
     w_when (differs (MessageOptions_mapEntry message) False)
       (w_seq (w_tag W 56) (w_bool W (the (MessageOptions_mapEntry message)))),
     w_when (differs (MessageOptions_deprecatedLegacyJsonFieldConflicts message) False)
       (w_seq (w_tag W 88) (w_bool W (the (MessageOptions_deprecatedLegacyJsonFieldConflicts message)))),
     w_opt (\<lambda>v. w_nested W 98 (FeatureSet_encode W v)) (MessageOptions_features message),
     w_each (\<lambda>v. w_nested W 7994 (UninterpretedOption_encode W v))
       (MessageOptions_uninterpretedOption message)]"

definition MessageOptions_field :: "'r reader_ops \<Rightarrow> u32 \<Rightarrow> MessageOptions
  \<Rightarrow> ('r, MessageOptions option) rd" where
  "MessageOptions_field R tag message =
     (if drop_bit 3 tag = 1 then
        (if tag \<noteq> 8 then brk
         else bindR (getR (r_bool R)) (\<lambda>v. cont
           (message\<lparr>MessageOptions_messageSetWireFormat := Some v\<rparr>)))
      else if drop_bit 3 tag = 2 then
        (if tag \<noteq> 16 then brk
         else bindR (getR (r_bool R)) (\<lambda>v. cont
           (message\<lparr>MessageOptions_noStandardDescriptorAccessor := Some v\<rparr>)))
      else if drop_bit 3 tag = 3 then
        (if tag \<noteq> 24 then brk
         else bindR (getR (r_bool R)) (\<lambda>v. cont
           (message\<lparr>MessageOptions_deprecated := Some v\<rparr>)))
      else if drop_bit 3 tag = 7 then
        (if tag \<noteq> 56 then brk
         else bindR (getR (r_bool R)) (\<lambda>v. cont
           (message\<lparr>MessageOptions_mapEntry := Some v\<rparr>)))
      else if drop_bit 3 tag = 11 then
        (if tag \<noteq> 88 then brk
         else bindR (getR (r_bool R)) (\<lambda>v. cont
           (message\<lparr>MessageOptions_deprecatedLegacyJsonFieldConflicts := Some v\<rparr>)))
      else if drop_bit 3 tag = 12 then
        (if tag \<noteq> 98 then brk
         else bindR (nested R (FeatureSet_decode R)) (\<lambda>v. cont
           (message\<lparr>MessageOptions_features := Some v\<rparr>)))
      else if drop_bit 3 tag = 999 then
        (if tag \<noteq> 7994 then brk
         else bindR (nested R (UninterpretedOption_decode R)) (\<lambda>v. cont
           (message\<lparr>MessageOptions_uninterpretedOption := MessageOptions_uninterpretedOption message @ [v]\<rparr>)))
      else brk)"

definition MessageOptions_decode :: "'r reader_ops \<Rightarrow> 'r input \<Rightarrow> nat option
  \<Rightarrow> (jserr + MessageOptions \<times> 'r) option" where
  "MessageOptions_decode R = decode_message R (MessageOptions_field R) createBaseMessageOptions"

definition MessageOptions_fromJSON :: "js_text \<Rightarrow> jsval \<Rightarrow> jserr + MessageOptions" where
  "MessageOptions_fromJSON J object =
     bindE (fieldOr object ''messageSetWireFormat'' jsBoolean False) (\<lambda>v_messageSetWireFormat.
     bindE (fieldOr object ''noStandardDescriptorAccessor'' jsBoolean False)
       (\<lambda>v_noStandardDescriptorAccessor.
     bindE (fieldOr object ''deprecated'' jsBoolean False) (\<lambda>v_deprecated.
     bindE (fieldOr object ''mapEntry'' jsBoolean False) (\<lambda>v_mapEntry.
     bindE (fieldOr object ''deprecatedLegacyJsonFieldConflicts'' jsBoolean False)
       (\<lambda>v_deprecatedLegacyJsonFieldConflicts.
     bindE (fieldOpt object ''features'' (FeatureSet_fromJSON J)) (\<lambda>v_features.
     bindE (fieldArr object ''uninterpretedOption'' (UninterpretedOption_fromJSON J))
       (\<lambda>v_uninterpretedOption.
     Inr \<lparr>MessageOptions_messageSetWireFormat = Some v_messageSetWireFormat,
       MessageOptions_noStandardDescriptorAccessor = Some v_noStandardDescriptorAccessor,
         MessageOptions_deprecated = Some v_deprecated, MessageOptions_mapEntry = Some v_mapEntry,
           MessageOptions_deprecatedLegacyJsonFieldConflicts = Some v_deprecatedLegacyJsonFieldConflicts,
             MessageOptions_features = v_features,
               MessageOptions_uninterpretedOption = v_uninterpretedOption\<rparr>)))))))"

definition MessageOptions_toJSON :: "MessageOptions \<Rightarrow> jsval" where
  "MessageOptions_toJSON message = JObj (
     setProp (differs (MessageOptions_messageSetWireFormat message) False) ''messageSetWireFormat'' (JBool
       (the (MessageOptions_messageSetWireFormat message))) @
     setProp (differs (MessageOptions_noStandardDescriptorAccessor message) False) ''noStandardDescriptorAccessor'' (JBool (the (MessageOptions_noStandardDescriptorAccessor message))) @
     setProp (differs (MessageOptions_deprecated message) False) ''deprecated'' (JBool (the
       (MessageOptions_deprecated message))) @
     setProp (differs (MessageOptions_mapEntry message) False) ''mapEntry'' (JBool (the
       (MessageOptions_mapEntry message))) @
     setProp (differs (MessageOptions_deprecatedLegacyJsonFieldConflicts message) False) ''deprecatedLegacyJsonFieldConflicts'' (JBool (the (MessageOptions_deprecatedLegacyJsonFieldConflicts message))) @
     setOpt ''features'' (map_option FeatureSet_toJSON (MessageOptions_features message)) @
     setProp (MessageOptions_uninterpretedOption message \<noteq> []) ''uninterpretedOption'' (JArr
       (map UninterpretedOption_toJSON (MessageOptions_uninterpretedOption message))))"

record MessageOptions_partial =
  MessageOptions_p_messageSetWireFormat :: "bool option"
  MessageOptions_p_noStandardDescriptorAccessor :: "bool option"
  MessageOptions_p_deprecated :: "bool option"
  MessageOptions_p_mapEntry :: "bool option"
  MessageOptions_p_deprecatedLegacyJsonFieldConflicts :: "bool option"
  MessageOptions_p_features :: "FeatureSet_partial option"
  MessageOptions_p_uninterpretedOption :: "UninterpretedOption_partial list option"

definition MessageOptions_fromPartial :: "MessageOptions_partial \<Rightarrow> MessageOptions" where
  "MessageOptions_fromPartial object = createBaseMessageOptions\<lparr>
     MessageOptions_messageSetWireFormat := Some (getOr (MessageOptions_p_messageSetWireFormat object) False),
     MessageOptions_noStandardDescriptorAccessor := Some (getOr
       (MessageOptions_p_noStandardDescriptorAccessor object) False),
     MessageOptions_deprecated := Some (getOr (MessageOptions_p_deprecated object) False),
     MessageOptions_mapEntry := Some (getOr (MessageOptions_p_mapEntry object) False),
     MessageOptions_deprecatedLegacyJsonFieldConflicts := Some (getOr
       (MessageOptions_p_deprecatedLegacyJsonFieldConflicts object) False),
     MessageOptions_features := map_option FeatureSet_fromPartial (MessageOptions_p_features object),
     MessageOptions_uninterpretedOption := getOr (map_option (map UninterpretedOption_fromPartial)
       (MessageOptions_p_uninterpretedOption object)) []\<rparr>"

definition MessageOptions_create :: "MessageOptions_partial option \<Rightarrow> MessageOptions" where
  "MessageOptions_create base = MessageOptions_fromPartial (getOr base
     \<lparr>MessageOptions_p_messageSetWireFormat = None,
       MessageOptions_p_noStandardDescriptorAccessor = None, MessageOptions_p_deprecated = None,
         MessageOptions_p_mapEntry = None, MessageOptions_p_deprecatedLegacyJsonFieldConflicts = None,
           MessageOptions_p_features = None, MessageOptions_p_uninterpretedOption = None\<rparr>)"

subsection \<open>\<open>FieldOptions\<close>\<close>

record FieldOptions =
  FieldOptions_ctype :: "number option"
  FieldOptions_packed :: "bool option"
  FieldOptions_jstype :: "number option"
  FieldOptions_lazy :: "bool option"
  FieldOptions_unverifiedLazy :: "bool option"
  FieldOptions_deprecated :: "bool option"
  FieldOptions_weak :: "bool option"
  FieldOptions_debugRedact :: "bool option"
  FieldOptions_retention :: "number option"
  FieldOptions_targets :: "number list"
  FieldOptions_editionDefaults :: "FieldOptions_EditionDefault list"
  FieldOptions_features :: "FeatureSet option"
  FieldOptions_featureSupport :: "FieldOptions_FeatureSupport option"
  FieldOptions_uninterpretedOption :: "UninterpretedOption list"

definition createBaseFieldOptions :: FieldOptions where
  "createBaseFieldOptions =
     \<lparr>FieldOptions_ctype = Some (numInt 0), FieldOptions_packed = Some False,
       FieldOptions_jstype = Some (numInt 0), FieldOptions_lazy = Some False,
         FieldOptions_unverifiedLazy = Some False, FieldOptions_deprecated = Some False,
           FieldOptions_weak = Some False, FieldOptions_debugRedact = Some False,
             FieldOptions_retention = Some (numInt 0), FieldOptions_targets = [],
               FieldOptions_editionDefaults = [], FieldOptions_features = None,
                 FieldOptions_featureSupport = None, FieldOptions_uninterpretedOption = []\<rparr>"

definition FieldOptions_encode :: "'w writer_ops \<Rightarrow> FieldOptions \<Rightarrow> 'w
  \<Rightarrow> jserr + 'w" where
  "FieldOptions_encode W message = w_all [
     w_when (differs (FieldOptions_ctype message) (numInt 0))
       (w_seq (w_tag W 8) (w_int32 W (the (FieldOptions_ctype message)))),
     w_when (differs (FieldOptions_packed message) False)
       (w_seq (w_tag W 16) (w_bool W (the (FieldOptions_packed message)))),
     w_when (differs (FieldOptions_jstype message) (numInt 0))
       (w_seq (w_tag W 48) (w_int32 W (the (FieldOptions_jstype message)))),
     w_when (differs (FieldOptions_lazy message) False)
       (w_seq (w_tag W 40) (w_bool W (the (FieldOptions_lazy message)))),
     w_when (differs (FieldOptions_unverifiedLazy message) False)
       (w_seq (w_tag W 120) (w_bool W (the (FieldOptions_unverifiedLazy message)))),
     w_when (differs (FieldOptions_deprecated message) False)
       (w_seq (w_tag W 24) (w_bool W (the (FieldOptions_deprecated message)))),
     w_when (differs (FieldOptions_weak message) False)
       (w_seq (w_tag W 80) (w_bool W (the (FieldOptions_weak message)))),
     w_when (differs (FieldOptions_debugRedact message) False)
       (w_seq (w_tag W 128) (w_bool W (the (FieldOptions_debugRedact message)))),
     w_when (differs (FieldOptions_retention message) (numInt 0))
       (w_seq (w_tag W 136) (w_int32 W (the (FieldOptions_retention message)))),
     w_nested W 154 (w_each (w_int32 W) (FieldOptions_targets message)),
     w_each (\<lambda>v. w_nested W 162 (FieldOptions_EditionDefault_encode W v))
       (FieldOptions_editionDefaults message),
     w_opt (\<lambda>v. w_nested W 170 (FeatureSet_encode W v)) (FieldOptions_features message),
     w_opt (\<lambda>v. w_nested W 178 (FieldOptions_FeatureSupport_encode W v))
       (FieldOptions_featureSupport message),
     w_each (\<lambda>v. w_nested W 7994 (UninterpretedOption_encode W v))
       (FieldOptions_uninterpretedOption message)]"

definition FieldOptions_field :: "'r reader_ops \<Rightarrow> u32 \<Rightarrow> FieldOptions \<Rightarrow>
  ('r, FieldOptions option) rd" where
  "FieldOptions_field R tag message =
     (if drop_bit 3 tag = 1 then
        (if tag \<noteq> 8 then brk
         else bindR (getR (r_int32 R)) (\<lambda>v. cont (message\<lparr>FieldOptions_ctype := Some
           (numInt v)\<rparr>)))
      else if drop_bit 3 tag = 2 then
        (if tag \<noteq> 16 then brk
         else bindR (getR (r_bool R)) (\<lambda>v. cont (message\<lparr>FieldOptions_packed := Some v\<rparr>)))
      else if drop_bit 3 tag = 6 then
        (if tag \<noteq> 48 then brk
         else bindR (getR (r_int32 R)) (\<lambda>v. cont (message\<lparr>FieldOptions_jstype := Some
           (numInt v)\<rparr>)))
      else if drop_bit 3 tag = 5 then
        (if tag \<noteq> 40 then brk
         else bindR (getR (r_bool R)) (\<lambda>v. cont (message\<lparr>FieldOptions_lazy := Some v\<rparr>)))
      else if drop_bit 3 tag = 15 then
        (if tag \<noteq> 120 then brk
         else bindR (getR (r_bool R)) (\<lambda>v. cont
           (message\<lparr>FieldOptions_unverifiedLazy := Some v\<rparr>)))
      else if drop_bit 3 tag = 3 then
        (if tag \<noteq> 24 then brk
         else bindR (getR (r_bool R)) (\<lambda>v. cont
           (message\<lparr>FieldOptions_deprecated := Some v\<rparr>)))
      else if drop_bit 3 tag = 10 then
        (if tag \<noteq> 80 then brk
         else bindR (getR (r_bool R)) (\<lambda>v. cont (message\<lparr>FieldOptions_weak := Some v\<rparr>)))
      else if drop_bit 3 tag = 16 then
        (if tag \<noteq> 128 then brk
         else bindR (getR (r_bool R)) (\<lambda>v. cont
           (message\<lparr>FieldOptions_debugRedact := Some v\<rparr>)))
      else if drop_bit 3 tag = 17 then
        (if tag \<noteq> 136 then brk
         else bindR (getR (r_int32 R)) (\<lambda>v. cont (message\<lparr>FieldOptions_retention := Some
           (numInt v)\<rparr>)))
      else if drop_bit 3 tag = 19 then
        (if tag = 152 then bindR (getR (r_int32 R)) (\<lambda>v. cont
          (message\<lparr>FieldOptions_targets := FieldOptions_targets message @ [numInt v]\<rparr>))
         else if tag = 154 then bindR (packed R (FieldOptions_targets message)) (\<lambda>vs. cont
           (message\<lparr>FieldOptions_targets := vs\<rparr>))
         else brk)
      else if drop_bit 3 tag = 20 then
        (if tag \<noteq> 162 then brk
         else bindR (nested R (FieldOptions_EditionDefault_decode R)) (\<lambda>v. cont
           (message\<lparr>FieldOptions_editionDefaults := FieldOptions_editionDefaults message @ [v]\<rparr>)))
      else if drop_bit 3 tag = 21 then
        (if tag \<noteq> 170 then brk
         else bindR (nested R (FeatureSet_decode R)) (\<lambda>v. cont
           (message\<lparr>FieldOptions_features := Some v\<rparr>)))
      else if drop_bit 3 tag = 22 then
        (if tag \<noteq> 178 then brk
         else bindR (nested R (FieldOptions_FeatureSupport_decode R)) (\<lambda>v. cont
           (message\<lparr>FieldOptions_featureSupport := Some v\<rparr>)))
      else if drop_bit 3 tag = 999 then
        (if tag \<noteq> 7994 then brk
         else bindR (nested R (UninterpretedOption_decode R)) (\<lambda>v. cont
           (message\<lparr>FieldOptions_uninterpretedOption := FieldOptions_uninterpretedOption message @ [v]\<rparr>)))
      else brk)"

definition FieldOptions_decode :: "'r reader_ops \<Rightarrow> 'r input \<Rightarrow> nat option
  \<Rightarrow> (jserr + FieldOptions \<times> 'r) option" where
  "FieldOptions_decode R = decode_message R (FieldOptions_field R) createBaseFieldOptions"

definition FieldOptions_fromJSON :: "js_text \<Rightarrow> jsval \<Rightarrow> jserr + FieldOptions" where
  "FieldOptions_fromJSON J object =
     bindE (fieldOr object ''ctype'' fieldOptions_CTypeFromJSON (numInt 0)) (\<lambda>v_ctype.
     bindE (fieldOr object ''packed'' jsBoolean False) (\<lambda>v_packed.
     bindE (fieldOr object ''jstype'' fieldOptions_JSTypeFromJSON (numInt 0)) (\<lambda>v_jstype.
     bindE (fieldOr object ''lazy'' jsBoolean False) (\<lambda>v_lazy.
     bindE (fieldOr object ''unverifiedLazy'' jsBoolean False) (\<lambda>v_unverifiedLazy.
     bindE (fieldOr object ''deprecated'' jsBoolean False) (\<lambda>v_deprecated.
     bindE (fieldOr object ''weak'' jsBoolean False) (\<lambda>v_weak.
     bindE (fieldOr object ''debugRedact'' jsBoolean False) (\<lambda>v_debugRedact.
     bindE (fieldOr object ''retention'' fieldOptions_OptionRetentionFromJSON (numInt 0)) (\<lambda>v_retention.
     bindE (fieldArr object ''targets'' (\<lambda>e. Inr (fieldOptions_OptionTargetTypeFromJSON e)))
       (\<lambda>v_targets.
     bindE (fieldArr object ''editionDefaults'' (FieldOptions_EditionDefault_fromJSON J))
       (\<lambda>v_editionDefaults.
     bindE (fieldOpt object ''features'' (FeatureSet_fromJSON J)) (\<lambda>v_features.
     bindE (fieldOpt object ''featureSupport'' (FieldOptions_FeatureSupport_fromJSON J))
       (\<lambda>v_featureSupport.
     bindE (fieldArr object ''uninterpretedOption'' (UninterpretedOption_fromJSON J))
       (\<lambda>v_uninterpretedOption.
     Inr \<lparr>FieldOptions_ctype = Some v_ctype, FieldOptions_packed = Some v_packed,
       FieldOptions_jstype = Some v_jstype, FieldOptions_lazy = Some v_lazy,
         FieldOptions_unverifiedLazy = Some v_unverifiedLazy, FieldOptions_deprecated = Some v_deprecated,
           FieldOptions_weak = Some v_weak, FieldOptions_debugRedact = Some v_debugRedact,
             FieldOptions_retention = Some v_retention, FieldOptions_targets = v_targets,
               FieldOptions_editionDefaults = v_editionDefaults, FieldOptions_features = v_features,
                 FieldOptions_featureSupport = v_featureSupport,
                   FieldOptions_uninterpretedOption = v_uninterpretedOption\<rparr>))))))))))))))"

definition FieldOptions_toJSON :: "FieldOptions \<Rightarrow> jsval" where
  "FieldOptions_toJSON message = JObj (
     setProp (differs (FieldOptions_ctype message) (numInt 0)) ''ctype'' (JStr (fieldOptions_CTypeToJSON
       (the (FieldOptions_ctype message)))) @
     setProp (differs (FieldOptions_packed message) False) ''packed'' (JBool (the
       (FieldOptions_packed message))) @
     setProp (differs (FieldOptions_jstype message) (numInt 0)) ''jstype'' (JStr (fieldOptions_JSTypeToJSON
       (the (FieldOptions_jstype message)))) @
     setProp (differs (FieldOptions_lazy message) False) ''lazy'' (JBool (the (FieldOptions_lazy message))) @
     setProp (differs (FieldOptions_unverifiedLazy message) False) ''unverifiedLazy'' (JBool (the
       (FieldOptions_unverifiedLazy message))) @
     setProp (differs (FieldOptions_deprecated message) False) ''deprecated'' (JBool (the
       (FieldOptions_deprecated message))) @
     setProp (differs (FieldOptions_weak message) False) ''weak'' (JBool (the (FieldOptions_weak message))) @
     setProp (differs (FieldOptions_debugRedact message) False) ''debugRedact'' (JBool (the
       (FieldOptions_debugRedact message))) @
     setProp (differs (FieldOptions_retention message) (numInt 0)) ''retention'' (JStr
       (fieldOptions_OptionRetentionToJSON (the (FieldOptions_retention message)))) @
     setProp (FieldOptions_targets message \<noteq> []) ''targets'' (JArr (map (\<lambda>e. JStr
       (fieldOptions_OptionTargetTypeToJSON e)) (FieldOptions_targets message))) @
     setProp (FieldOptions_editionDefaults message \<noteq> []) ''editionDefaults'' (JArr
       (map FieldOptions_EditionDefault_toJSON (FieldOptions_editionDefaults message))) @
     setOpt ''features'' (map_option FeatureSet_toJSON (FieldOptions_features message)) @
     setOpt ''featureSupport'' (map_option FieldOptions_FeatureSupport_toJSON
       (FieldOptions_featureSupport message)) @
     setProp (FieldOptions_uninterpretedOption message \<noteq> []) ''uninterpretedOption'' (JArr
       (map UninterpretedOption_toJSON (FieldOptions_uninterpretedOption message))))"

record FieldOptions_partial =
  FieldOptions_p_ctype :: "number option"
  FieldOptions_p_packed :: "bool option"
  FieldOptions_p_jstype :: "number option"
  FieldOptions_p_lazy :: "bool option"
  FieldOptions_p_unverifiedLazy :: "bool option"
  FieldOptions_p_deprecated :: "bool option"
  FieldOptions_p_weak :: "bool option"
  FieldOptions_p_debugRedact :: "bool option"
  FieldOptions_p_retention :: "number option"
  FieldOptions_p_targets :: "number list option"
  FieldOptions_p_editionDefaults :: "FieldOptions_EditionDefault_partial list option"
  FieldOptions_p_features :: "FeatureSet_partial option"
  FieldOptions_p_featureSupport :: "FieldOptions_FeatureSupport_partial option"
  FieldOptions_p_uninterpretedOption :: "UninterpretedOption_partial list option"

definition FieldOptions_fromPartial :: "FieldOptions_partial \<Rightarrow> FieldOptions" where
  "FieldOptions_fromPartial object = createBaseFieldOptions\<lparr>
     FieldOptions_ctype := Some (getOr (FieldOptions_p_ctype object) (numInt 0)),
     FieldOptions_packed := Some (getOr (FieldOptions_p_packed object) False),
     FieldOptions_jstype := Some (getOr (FieldOptions_p_jstype object) (numInt 0)),
     FieldOptions_lazy := Some (getOr (FieldOptions_p_lazy object) False),
     FieldOptions_unverifiedLazy := Some (getOr (FieldOptions_p_unverifiedLazy object) False),
     FieldOptions_deprecated := Some (getOr (FieldOptions_p_deprecated object) False),
     FieldOptions_weak := Some (getOr (FieldOptions_p_weak object) False),
     FieldOptions_debugRedact := Some (getOr (FieldOptions_p_debugRedact object) False),
     FieldOptions_retention := Some (getOr (FieldOptions_p_retention object) (numInt 0)),
     FieldOptions_targets := getOr (FieldOptions_p_targets object) [],
     FieldOptions_editionDefaults := getOr (map_option (map FieldOptions_EditionDefault_fromPartial)
       (FieldOptions_p_editionDefaults object)) [],
     FieldOptions_features := map_option FeatureSet_fromPartial (FieldOptions_p_features object),
     FieldOptions_featureSupport := map_option FieldOptions_FeatureSupport_fromPartial
       (FieldOptions_p_featureSupport object),
     FieldOptions_uninterpretedOption := getOr (map_option (map UninterpretedOption_fromPartial)
       (FieldOptions_p_uninterpretedOption object)) []\<rparr>"

definition FieldOptions_create :: "FieldOptions_partial option \<Rightarrow> FieldOptions" where
  "FieldOptions_create base = FieldOptions_fromPartial (getOr base
     \<lparr>FieldOptions_p_ctype = None, FieldOptions_p_packed = None, FieldOptions_p_jstype = None,
       FieldOptions_p_lazy = None, FieldOptions_p_unverifiedLazy = None, FieldOptions_p_deprecated = None,
         FieldOptions_p_weak = None, FieldOptions_p_debugRedact = None, FieldOptions_p_retention = None,
           FieldOptions_p_targets = None, FieldOptions_p_editionDefaults = None,
             FieldOptions_p_features = None, FieldOptions_p_featureSupport = None,
               FieldOptions_p_uninterpretedOption = None\<rparr>)"

subsection \<open>\<open>OneofOptions\<close>\<close>

record OneofOptions =
  OneofOptions_features :: "FeatureSet option"
  OneofOptions_uninterpretedOption :: "UninterpretedOption list"

definition createBaseOneofOptions :: OneofOptions where
  "createBaseOneofOptions =
     \<lparr>OneofOptions_features = None, OneofOptions_uninterpretedOption = []\<rparr>"

definition OneofOptions_encode :: "'w writer_ops \<Rightarrow> OneofOptions \<Rightarrow> 'w
  \<Rightarrow> jserr + 'w" where
  "OneofOptions_encode W message = w_all [
     w_opt (\<lambda>v. w_nested W 10 (FeatureSet_encode W v)) (OneofOptions_features message),
     w_each (\<lambda>v. w_nested W 7994 (UninterpretedOption_encode W v))
       (OneofOptions_uninterpretedOption message)]"

definition OneofOptions_field :: "'r reader_ops \<Rightarrow> u32 \<Rightarrow> OneofOptions \<Rightarrow>
  ('r, OneofOptions option) rd" where
  "OneofOptions_field R tag message =
     (if drop_bit 3 tag = 1 then
        (if tag \<noteq> 10 then brk
         else bindR (nested R (FeatureSet_decode R)) (\<lambda>v. cont
           (message\<lparr>OneofOptions_features := Some v\<rparr>)))
      else if drop_bit 3 tag = 999 then
        (if tag \<noteq> 7994 then brk
         else bindR (nested R (UninterpretedOption_decode R)) (\<lambda>v. cont
           (message\<lparr>OneofOptions_uninterpretedOption := OneofOptions_uninterpretedOption message @ [v]\<rparr>)))
      else brk)"

definition OneofOptions_decode :: "'r reader_ops \<Rightarrow> 'r input \<Rightarrow> nat option
  \<Rightarrow> (jserr + OneofOptions \<times> 'r) option" where
  "OneofOptions_decode R = decode_message R (OneofOptions_field R) createBaseOneofOptions"

definition OneofOptions_fromJSON :: "js_text \<Rightarrow> jsval \<Rightarrow> jserr + OneofOptions" where
  "OneofOptions_fromJSON J object =
     bindE (fieldOpt object ''features'' (FeatureSet_fromJSON J)) (\<lambda>v_features.
     bindE (fieldArr object ''uninterpretedOption'' (UninterpretedOption_fromJSON J))
       (\<lambda>v_uninterpretedOption.
     Inr \<lparr>OneofOptions_features = v_features,
       OneofOptions_uninterpretedOption = v_uninterpretedOption\<rparr>))"

definition OneofOptions_toJSON :: "OneofOptions \<Rightarrow> jsval" where
  "OneofOptions_toJSON message = JObj (
     setOpt ''features'' (map_option FeatureSet_toJSON (OneofOptions_features message)) @
     setProp (OneofOptions_uninterpretedOption message \<noteq> []) ''uninterpretedOption'' (JArr
       (map UninterpretedOption_toJSON (OneofOptions_uninterpretedOption message))))"

record OneofOptions_partial =
  OneofOptions_p_features :: "FeatureSet_partial option"
  OneofOptions_p_uninterpretedOption :: "UninterpretedOption_partial list option"

definition OneofOptions_fromPartial :: "OneofOptions_partial \<Rightarrow> OneofOptions" where
  "OneofOptions_fromPartial object = createBaseOneofOptions\<lparr>
     OneofOptions_features := map_option FeatureSet_fromPartial (OneofOptions_p_features object),
     OneofOptions_uninterpretedOption := getOr (map_option (map UninterpretedOption_fromPartial)
       (OneofOptions_p_uninterpretedOption object)) []\<rparr>"

definition OneofOptions_create :: "OneofOptions_partial option \<Rightarrow> OneofOptions" where
  "OneofOptions_create base = OneofOptions_fromPartial (getOr base
     \<lparr>OneofOptions_p_features = None, OneofOptions_p_uninterpretedOption = None\<rparr>)"

subsection \<open>\<open>EnumOptions\<close>\<close>

record EnumOptions =
  EnumOptions_allowAlias :: "bool option"
  EnumOptions_deprecated :: "bool option"
  EnumOptions_deprecatedLegacyJsonFieldConflicts :: "bool option"
  EnumOptions_features :: "FeatureSet option"
  EnumOptions_uninterpretedOption :: "UninterpretedOption list"

definition createBaseEnumOptions :: EnumOptions where
  "createBaseEnumOptions =
     \<lparr>EnumOptions_allowAlias = Some False, EnumOptions_deprecated = Some False,
       EnumOptions_deprecatedLegacyJsonFieldConflicts = Some False, EnumOptions_features = None,
         EnumOptions_uninterpretedOption = []\<rparr>"

definition EnumOptions_encode :: "'w writer_ops \<Rightarrow> EnumOptions \<Rightarrow> 'w
  \<Rightarrow> jserr + 'w" where
  "EnumOptions_encode W message = w_all [
     w_when (differs (EnumOptions_allowAlias message) False)
       (w_seq (w_tag W 16) (w_bool W (the (EnumOptions_allowAlias message)))),
     w_when (differs (EnumOptions_deprecated message) False)
       (w_seq (w_tag W 24) (w_bool W (the (EnumOptions_deprecated message)))),
     w_when (differs (EnumOptions_deprecatedLegacyJsonFieldConflicts message) False)
       (w_seq (w_tag W 48) (w_bool W (the (EnumOptions_deprecatedLegacyJsonFieldConflicts message)))),
     w_opt (\<lambda>v. w_nested W 58 (FeatureSet_encode W v)) (EnumOptions_features message),
     w_each (\<lambda>v. w_nested W 7994 (UninterpretedOption_encode W v))
       (EnumOptions_uninterpretedOption message)]"

definition EnumOptions_field :: "'r reader_ops \<Rightarrow> u32 \<Rightarrow> EnumOptions \<Rightarrow>
  ('r, EnumOptions option) rd" where
  "EnumOptions_field R tag message =
     (if drop_bit 3 tag = 2 then
        (if tag \<noteq> 16 then brk
         else bindR (getR (r_bool R)) (\<lambda>v. cont
           (message\<lparr>EnumOptions_allowAlias := Some v\<rparr>)))
      else if drop_bit 3 tag = 3 then
        (if tag \<noteq> 24 then brk
         else bindR (getR (r_bool R)) (\<lambda>v. cont
           (message\<lparr>EnumOptions_deprecated := Some v\<rparr>)))
      else if drop_bit 3 tag = 6 then
        (if tag \<noteq> 48 then brk
         else bindR (getR (r_bool R)) (\<lambda>v. cont
           (message\<lparr>EnumOptions_deprecatedLegacyJsonFieldConflicts := Some v\<rparr>)))
      else if drop_bit 3 tag = 7 then
        (if tag \<noteq> 58 then brk
         else bindR (nested R (FeatureSet_decode R)) (\<lambda>v. cont
           (message\<lparr>EnumOptions_features := Some v\<rparr>)))
      else if drop_bit 3 tag = 999 then
        (if tag \<noteq> 7994 then brk
         else bindR (nested R (UninterpretedOption_decode R)) (\<lambda>v. cont
           (message\<lparr>EnumOptions_uninterpretedOption := EnumOptions_uninterpretedOption message @ [v]\<rparr>)))
      else brk)"

definition EnumOptions_decode :: "'r reader_ops \<Rightarrow> 'r input \<Rightarrow> nat option
  \<Rightarrow> (jserr + EnumOptions \<times> 'r) option" where
  "EnumOptions_decode R = decode_message R (EnumOptions_field R) createBaseEnumOptions"

definition EnumOptions_fromJSON :: "js_text \<Rightarrow> jsval \<Rightarrow> jserr + EnumOptions" where
  "EnumOptions_fromJSON J object =
     bindE (fieldOr object ''allowAlias'' jsBoolean False) (\<lambda>v_allowAlias.
     bindE (fieldOr object ''deprecated'' jsBoolean False) (\<lambda>v_deprecated.
     bindE (fieldOr object ''deprecatedLegacyJsonFieldConflicts'' jsBoolean False)
       (\<lambda>v_deprecatedLegacyJsonFieldConflicts.
     bindE (fieldOpt object ''features'' (FeatureSet_fromJSON J)) (\<lambda>v_features.
     bindE (fieldArr object ''uninterpretedOption'' (UninterpretedOption_fromJSON J))
       (\<lambda>v_uninterpretedOption.
     Inr \<lparr>EnumOptions_allowAlias = Some v_allowAlias, EnumOptions_deprecated = Some v_deprecated,
       EnumOptions_deprecatedLegacyJsonFieldConflicts = Some v_deprecatedLegacyJsonFieldConflicts,
         EnumOptions_features = v_features,
           EnumOptions_uninterpretedOption = v_uninterpretedOption\<rparr>)))))"

definition EnumOptions_toJSON :: "EnumOptions \<Rightarrow> jsval" where
  "EnumOptions_toJSON message = JObj (
     setProp (differs (EnumOptions_allowAlias message) False) ''allowAlias'' (JBool (the
       (EnumOptions_allowAlias message))) @
     setProp (differs (EnumOptions_deprecated message) False) ''deprecated'' (JBool (the
       (EnumOptions_deprecated message))) @
     setProp (differs (EnumOptions_deprecatedLegacyJsonFieldConflicts message) False) ''deprecatedLegacyJsonFieldConflicts'' (JBool (the (EnumOptions_deprecatedLegacyJsonFieldConflicts message))) @
     setOpt ''features'' (map_option FeatureSet_toJSON (EnumOptions_features message)) @
     setProp (EnumOptions_uninterpretedOption message \<noteq> []) ''uninterpretedOption'' (JArr
       (map UninterpretedOption_toJSON (EnumOptions_uninterpretedOption message))))"

record EnumOptions_partial =
  EnumOptions_p_allowAlias :: "bool option"
  EnumOptions_p_deprecated :: "bool option"
  EnumOptions_p_deprecatedLegacyJsonFieldConflicts :: "bool option"
  EnumOptions_p_features :: "FeatureSet_partial option"
  EnumOptions_p_uninterpretedOption :: "UninterpretedOption_partial list option"

definition EnumOptions_fromPartial :: "EnumOptions_partial \<Rightarrow> EnumOptions" where
  "EnumOptions_fromPartial object = createBaseEnumOptions\<lparr>
     EnumOptions_allowAlias := Some (getOr (EnumOptions_p_allowAlias object) False),
     EnumOptions_deprecated := Some (getOr (EnumOptions_p_deprecated object) False),
     EnumOptions_deprecatedLegacyJsonFieldConflicts := Some (getOr
       (EnumOptions_p_deprecatedLegacyJsonFieldConflicts object) False),
     EnumOptions_features := map_option FeatureSet_fromPartial (EnumOptions_p_features object),
     EnumOptions_uninterpretedOption := getOr (map_option (map UninterpretedOption_fromPartial)
       (EnumOptions_p_uninterpretedOption object)) []\<rparr>"

definition EnumOptions_create :: "EnumOptions_partial option \<Rightarrow> EnumOptions" where
  "EnumOptions_create base = EnumOptions_fromPartial (getOr base
     \<lparr>EnumOptions_p_allowAlias = None, EnumOptions_p_deprecated = None,
       EnumOptions_p_deprecatedLegacyJsonFieldConflicts = None, EnumOptions_p_features = None,
         EnumOptions_p_uninterpretedOption = None\<rparr>)"

subsection \<open>\<open>EnumValueOptions\<close>\<close>

record EnumValueOptions =
  EnumValueOptions_deprecated :: "bool option"
  EnumValueOptions_features :: "FeatureSet option"
  EnumValueOptions_debugRedact :: "bool option"
  EnumValueOptions_featureSupport :: "FieldOptions_FeatureSupport option"
  EnumValueOptions_uninterpretedOption :: "UninterpretedOption list"

definition createBaseEnumValueOptions :: EnumValueOptions where
  "createBaseEnumValueOptions =
     \<lparr>EnumValueOptions_deprecated = Some False, EnumValueOptions_features = None,
       EnumValueOptions_debugRedact = Some False, EnumValueOptions_featureSupport = None,
         EnumValueOptions_uninterpretedOption = []\<rparr>"

definition EnumValueOptions_encode :: "'w writer_ops \<Rightarrow> EnumValueOptions \<Rightarrow> 'w
  \<Rightarrow> jserr + 'w" where
  "EnumValueOptions_encode W message = w_all [
     w_when (differs (EnumValueOptions_deprecated message) False)
       (w_seq (w_tag W 8) (w_bool W (the (EnumValueOptions_deprecated message)))),
     w_opt (\<lambda>v. w_nested W 18 (FeatureSet_encode W v)) (EnumValueOptions_features message),
     w_when (differs (EnumValueOptions_debugRedact message) False)
       (w_seq (w_tag W 24) (w_bool W (the (EnumValueOptions_debugRedact message)))),
     w_opt (\<lambda>v. w_nested W 34 (FieldOptions_FeatureSupport_encode W v))
       (EnumValueOptions_featureSupport message),
     w_each (\<lambda>v. w_nested W 7994 (UninterpretedOption_encode W v))
       (EnumValueOptions_uninterpretedOption message)]"

definition EnumValueOptions_field :: "'r reader_ops \<Rightarrow> u32 \<Rightarrow> EnumValueOptions
  \<Rightarrow> ('r, EnumValueOptions option) rd" where
  "EnumValueOptions_field R tag message =
     (if drop_bit 3 tag = 1 then
        (if tag \<noteq> 8 then brk
         else bindR (getR (r_bool R)) (\<lambda>v. cont
           (message\<lparr>EnumValueOptions_deprecated := Some v\<rparr>)))
      else if drop_bit 3 tag = 2 then
        (if tag \<noteq> 18 then brk
         else bindR (nested R (FeatureSet_decode R)) (\<lambda>v. cont
           (message\<lparr>EnumValueOptions_features := Some v\<rparr>)))
      else if drop_bit 3 tag = 3 then
        (if tag \<noteq> 24 then brk
         else bindR (getR (r_bool R)) (\<lambda>v. cont
           (message\<lparr>EnumValueOptions_debugRedact := Some v\<rparr>)))
      else if drop_bit 3 tag = 4 then
        (if tag \<noteq> 34 then brk
         else bindR (nested R (FieldOptions_FeatureSupport_decode R)) (\<lambda>v. cont
           (message\<lparr>EnumValueOptions_featureSupport := Some v\<rparr>)))
      else if drop_bit 3 tag = 999 then
        (if tag \<noteq> 7994 then brk
         else bindR (nested R (UninterpretedOption_decode R)) (\<lambda>v. cont
           (message\<lparr>EnumValueOptions_uninterpretedOption := EnumValueOptions_uninterpretedOption message @ [v]\<rparr>)))
      else brk)"

definition EnumValueOptions_decode :: "'r reader_ops \<Rightarrow> 'r input \<Rightarrow> nat option
  \<Rightarrow> (jserr + EnumValueOptions \<times> 'r) option" where
  "EnumValueOptions_decode R = decode_message R (EnumValueOptions_field R) createBaseEnumValueOptions"

definition EnumValueOptions_fromJSON :: "js_text \<Rightarrow> jsval
  \<Rightarrow> jserr + EnumValueOptions" where
  "EnumValueOptions_fromJSON J object =
     bindE (fieldOr object ''deprecated'' jsBoolean False) (\<lambda>v_deprecated.
     bindE (fieldOpt object ''features'' (FeatureSet_fromJSON J)) (\<lambda>v_features.
     bindE (fieldOr object ''debugRedact'' jsBoolean False) (\<lambda>v_debugRedact.
     bindE (fieldOpt object ''featureSupport'' (FieldOptions_FeatureSupport_fromJSON J))
       (\<lambda>v_featureSupport.
     bindE (fieldArr object ''uninterpretedOption'' (UninterpretedOption_fromJSON J))
       (\<lambda>v_uninterpretedOption.
     Inr \<lparr>EnumValueOptions_deprecated = Some v_deprecated, EnumValueOptions_features = v_features,
       EnumValueOptions_debugRedact = Some v_debugRedact,
         EnumValueOptions_featureSupport = v_featureSupport,
           EnumValueOptions_uninterpretedOption = v_uninterpretedOption\<rparr>)))))"

definition EnumValueOptions_toJSON :: "EnumValueOptions \<Rightarrow> jsval" where
  "EnumValueOptions_toJSON message = JObj (
     setProp (differs (EnumValueOptions_deprecated message) False) ''deprecated'' (JBool (the
       (EnumValueOptions_deprecated message))) @
     setOpt ''features'' (map_option FeatureSet_toJSON (EnumValueOptions_features message)) @
     setProp (differs (EnumValueOptions_debugRedact message) False) ''debugRedact'' (JBool (the
       (EnumValueOptions_debugRedact message))) @
     setOpt ''featureSupport'' (map_option FieldOptions_FeatureSupport_toJSON
       (EnumValueOptions_featureSupport message)) @
     setProp (EnumValueOptions_uninterpretedOption message \<noteq> []) ''uninterpretedOption'' (JArr
       (map UninterpretedOption_toJSON (EnumValueOptions_uninterpretedOption message))))"

record EnumValueOptions_partial =
  EnumValueOptions_p_deprecated :: "bool option"
  EnumValueOptions_p_features :: "FeatureSet_partial option"
  EnumValueOptions_p_debugRedact :: "bool option"
  EnumValueOptions_p_featureSupport :: "FieldOptions_FeatureSupport_partial option"
  EnumValueOptions_p_uninterpretedOption :: "UninterpretedOption_partial list option"

definition EnumValueOptions_fromPartial :: "EnumValueOptions_partial \<Rightarrow> EnumValueOptions" where
  "EnumValueOptions_fromPartial object = createBaseEnumValueOptions\<lparr>
     EnumValueOptions_deprecated := Some (getOr (EnumValueOptions_p_deprecated object) False),
     EnumValueOptions_features := map_option FeatureSet_fromPartial (EnumValueOptions_p_features object),
     EnumValueOptions_debugRedact := Some (getOr (EnumValueOptions_p_debugRedact object) False),
     EnumValueOptions_featureSupport := map_option FieldOptions_FeatureSupport_fromPartial
       (EnumValueOptions_p_featureSupport object),
     EnumValueOptions_uninterpretedOption := getOr (map_option (map UninterpretedOption_fromPartial)
       (EnumValueOptions_p_uninterpretedOption object)) []\<rparr>"

definition EnumValueOptions_create :: "EnumValueOptions_partial option \<Rightarrow> EnumValueOptions" where
  "EnumValueOptions_create base = EnumValueOptions_fromPartial (getOr base
     \<lparr>EnumValueOptions_p_deprecated = None, EnumValueOptions_p_features = None,
       EnumValueOptions_p_debugRedact = None, EnumValueOptions_p_featureSupport = None,
         EnumValueOptions_p_uninterpretedOption = None\<rparr>)"

subsection \<open>\<open>ServiceOptions\<close>\<close>

record ServiceOptions =
  ServiceOptions_features :: "FeatureSet option"
  ServiceOptions_deprecated :: "bool option"
  ServiceOptions_uninterpretedOption :: "UninterpretedOption list"

definition createBaseServiceOptions :: ServiceOptions where
  "createBaseServiceOptions =
     \<lparr>ServiceOptions_features = None, ServiceOptions_deprecated = Some False,
       ServiceOptions_uninterpretedOption = []\<rparr>"

definition ServiceOptions_encode :: "'w writer_ops \<Rightarrow> ServiceOptions \<Rightarrow> 'w
  \<Rightarrow> jserr + 'w" where
  "ServiceOptions_encode W message = w_all [
     w_opt (\<lambda>v. w_nested W 274 (FeatureSet_encode W v)) (ServiceOptions_features message),
     w_when (differs (ServiceOptions_deprecated message) False)
       (w_seq (w_tag W 264) (w_bool W (the (ServiceOptions_deprecated message)))),
     w_each (\<lambda>v. w_nested W 7994 (UninterpretedOption_encode W v))
       (ServiceOptions_uninterpretedOption message)]"

definition ServiceOptions_field :: "'r reader_ops \<Rightarrow> u32 \<Rightarrow> ServiceOptions
  \<Rightarrow> ('r, ServiceOptions option) rd" where
  "ServiceOptions_field R tag message =
     (if drop_bit 3 tag = 34 then
        (if tag \<noteq> 274 then brk
         else bindR (nested R (FeatureSet_decode R)) (\<lambda>v. cont
           (message\<lparr>ServiceOptions_features := Some v\<rparr>)))
      else if drop_bit 3 tag = 33 then
        (if tag \<noteq> 264 then brk
         else bindR (getR (r_bool R)) (\<lambda>v. cont
           (message\<lparr>ServiceOptions_deprecated := Some v\<rparr>)))
      else if drop_bit 3 tag = 999 then
        (if tag \<noteq> 7994 then brk
         else bindR (nested R (UninterpretedOption_decode R)) (\<lambda>v. cont
           (message\<lparr>ServiceOptions_uninterpretedOption := ServiceOptions_uninterpretedOption message @ [v]\<rparr>)))
      else brk)"

definition ServiceOptions_decode :: "'r reader_ops \<Rightarrow> 'r input \<Rightarrow> nat option
  \<Rightarrow> (jserr + ServiceOptions \<times> 'r) option" where
  "ServiceOptions_decode R = decode_message R (ServiceOptions_field R) createBaseServiceOptions"

definition ServiceOptions_fromJSON :: "js_text \<Rightarrow> jsval \<Rightarrow> jserr + ServiceOptions" where
  "ServiceOptions_fromJSON J object =
     bindE (fieldOpt object ''features'' (FeatureSet_fromJSON J)) (\<lambda>v_features.
     bindE (fieldOr object ''deprecated'' jsBoolean False) (\<lambda>v_deprecated.
     bindE (fieldArr object ''uninterpretedOption'' (UninterpretedOption_fromJSON J))
       (\<lambda>v_uninterpretedOption.
     Inr \<lparr>ServiceOptions_features = v_features, ServiceOptions_deprecated = Some v_deprecated,
       ServiceOptions_uninterpretedOption = v_uninterpretedOption\<rparr>)))"

definition ServiceOptions_toJSON :: "ServiceOptions \<Rightarrow> jsval" where
  "ServiceOptions_toJSON message = JObj (
     setOpt ''features'' (map_option FeatureSet_toJSON (ServiceOptions_features message)) @
     setProp (differs (ServiceOptions_deprecated message) False) ''deprecated'' (JBool (the
       (ServiceOptions_deprecated message))) @
     setProp (ServiceOptions_uninterpretedOption message \<noteq> []) ''uninterpretedOption'' (JArr
       (map UninterpretedOption_toJSON (ServiceOptions_uninterpretedOption message))))"

record ServiceOptions_partial =
  ServiceOptions_p_features :: "FeatureSet_partial option"
  ServiceOptions_p_deprecated :: "bool option"
  ServiceOptions_p_uninterpretedOption :: "UninterpretedOption_partial list option"

definition ServiceOptions_fromPartial :: "ServiceOptions_partial \<Rightarrow> ServiceOptions" where
  "ServiceOptions_fromPartial object = createBaseServiceOptions\<lparr>
     ServiceOptions_features := map_option FeatureSet_fromPartial (ServiceOptions_p_features object),
     ServiceOptions_deprecated := Some (getOr (ServiceOptions_p_deprecated object) False),
     ServiceOptions_uninterpretedOption := getOr (map_option (map UninterpretedOption_fromPartial)
       (ServiceOptions_p_uninterpretedOption object)) []\<rparr>"

definition ServiceOptions_create :: "ServiceOptions_partial option \<Rightarrow> ServiceOptions" where
  "ServiceOptions_create base = ServiceOptions_fromPartial (getOr base
     \<lparr>ServiceOptions_p_features = None, ServiceOptions_p_deprecated = None,
       ServiceOptions_p_uninterpretedOption = None\<rparr>)"

subsection \<open>\<open>MethodOptions\<close>\<close>

record MethodOptions =
  MethodOptions_deprecated :: "bool option"
  MethodOptions_idempotencyLevel :: "number option"
  MethodOptions_features :: "FeatureSet option"
  MethodOptions_uninterpretedOption :: "UninterpretedOption list"

definition createBaseMethodOptions :: MethodOptions where
  "createBaseMethodOptions =
     \<lparr>MethodOptions_deprecated = Some False, MethodOptions_idempotencyLevel = Some (numInt 0),
       MethodOptions_features = None, MethodOptions_uninterpretedOption = []\<rparr>"

definition MethodOptions_encode :: "'w writer_ops \<Rightarrow> MethodOptions \<Rightarrow> 'w
  \<Rightarrow> jserr + 'w" where
  "MethodOptions_encode W message = w_all [
     w_when (differs (MethodOptions_deprecated message) False)
       (w_seq (w_tag W 264) (w_bool W (the (MethodOptions_deprecated message)))),
     w_when (differs (MethodOptions_idempotencyLevel message) (numInt 0))
       (w_seq (w_tag W 272) (w_int32 W (the (MethodOptions_idempotencyLevel message)))),
     w_opt (\<lambda>v. w_nested W 282 (FeatureSet_encode W v)) (MethodOptions_features message),
     w_each (\<lambda>v. w_nested W 7994 (UninterpretedOption_encode W v))
       (MethodOptions_uninterpretedOption message)]"

definition MethodOptions_field :: "'r reader_ops \<Rightarrow> u32 \<Rightarrow> MethodOptions
  \<Rightarrow> ('r, MethodOptions option) rd" where
  "MethodOptions_field R tag message =
     (if drop_bit 3 tag = 33 then
        (if tag \<noteq> 264 then brk
         else bindR (getR (r_bool R)) (\<lambda>v. cont
           (message\<lparr>MethodOptions_deprecated := Some v\<rparr>)))
      else if drop_bit 3 tag = 34 then
        (if tag \<noteq> 272 then brk
         else bindR (getR (r_int32 R)) (\<lambda>v. cont
           (message\<lparr>MethodOptions_idempotencyLevel := Some (numInt v)\<rparr>)))
      else if drop_bit 3 tag = 35 then
        (if tag \<noteq> 282 then brk
         else bindR (nested R (FeatureSet_decode R)) (\<lambda>v. cont
           (message\<lparr>MethodOptions_features := Some v\<rparr>)))
      else if drop_bit 3 tag = 999 then
        (if tag \<noteq> 7994 then brk
         else bindR (nested R (UninterpretedOption_decode R)) (\<lambda>v. cont
           (message\<lparr>MethodOptions_uninterpretedOption := MethodOptions_uninterpretedOption message @ [v]\<rparr>)))
      else brk)"

definition MethodOptions_decode :: "'r reader_ops \<Rightarrow> 'r input \<Rightarrow> nat option
  \<Rightarrow> (jserr + MethodOptions \<times> 'r) option" where
  "MethodOptions_decode R = decode_message R (MethodOptions_field R) createBaseMethodOptions"

definition MethodOptions_fromJSON :: "js_text \<Rightarrow> jsval \<Rightarrow> jserr + MethodOptions" where
  "MethodOptions_fromJSON J object =
     bindE (fieldOr object ''deprecated'' jsBoolean False) (\<lambda>v_deprecated.
     bindE (fieldOr object ''idempotencyLevel'' methodOptions_IdempotencyLevelFromJSON (numInt 0))
       (\<lambda>v_idempotencyLevel.
     bindE (fieldOpt object ''features'' (FeatureSet_fromJSON J)) (\<lambda>v_features.
     bindE (fieldArr object ''uninterpretedOption'' (UninterpretedOption_fromJSON J))
       (\<lambda>v_uninterpretedOption.
     Inr \<lparr>MethodOptions_deprecated = Some v_deprecated,
       MethodOptions_idempotencyLevel = Some v_idempotencyLevel, MethodOptions_features = v_features,
         MethodOptions_uninterpretedOption = v_uninterpretedOption\<rparr>))))"

definition MethodOptions_toJSON :: "MethodOptions \<Rightarrow> jsval" where
  "MethodOptions_toJSON message = JObj (
     setProp (differs (MethodOptions_deprecated message) False) ''deprecated'' (JBool (the
       (MethodOptions_deprecated message))) @
     setProp (differs (MethodOptions_idempotencyLevel message) (numInt 0)) ''idempotencyLevel'' (JStr
       (methodOptions_IdempotencyLevelToJSON (the (MethodOptions_idempotencyLevel message)))) @
     setOpt ''features'' (map_option FeatureSet_toJSON (MethodOptions_features message)) @
     setProp (MethodOptions_uninterpretedOption message \<noteq> []) ''uninterpretedOption'' (JArr
       (map UninterpretedOption_toJSON (MethodOptions_uninterpretedOption message))))"

record MethodOptions_partial =
  MethodOptions_p_deprecated :: "bool option"
  MethodOptions_p_idempotencyLevel :: "number option"
  MethodOptions_p_features :: "FeatureSet_partial option"
  MethodOptions_p_uninterpretedOption :: "UninterpretedOption_partial list option"

definition MethodOptions_fromPartial :: "MethodOptions_partial \<Rightarrow> MethodOptions" where
  "MethodOptions_fromPartial object = createBaseMethodOptions\<lparr>
     MethodOptions_deprecated := Some (getOr (MethodOptions_p_deprecated object) False),
     MethodOptions_idempotencyLevel := Some (getOr (MethodOptions_p_idempotencyLevel object) (numInt 0)),
     MethodOptions_features := map_option FeatureSet_fromPartial (MethodOptions_p_features object),
     MethodOptions_uninterpretedOption := getOr (map_option (map UninterpretedOption_fromPartial)
       (MethodOptions_p_uninterpretedOption object)) []\<rparr>"

definition MethodOptions_create :: "MethodOptions_partial option \<Rightarrow> MethodOptions" where
  "MethodOptions_create base = MethodOptions_fromPartial (getOr base
     \<lparr>MethodOptions_p_deprecated = None, MethodOptions_p_idempotencyLevel = None,
       MethodOptions_p_features = None, MethodOptions_p_uninterpretedOption = None\<rparr>)"

end
