(* ===== verification/File_Options_Messages.thy ===== *)
theory File_Options_Messages
  imports Options_Messages
begin

unbundle bit_operations_syntax

text \<open>
  The options of a file and the information on source and generated code of
  \<open>gen/ts/google/protobuf/descriptor.ts\<close>.  Paths and spans are packed lists of integers.
\<close>

section \<open>Messages\<close>

subsection \<open>\<open>FileOptions\<close>\<close>

record FileOptions =
  FileOptions_javaPackage :: "string option"
  FileOptions_javaOuterClassname :: "string option"
  FileOptions_javaMultipleFiles :: "bool option"
  FileOptions_javaGenerateEqualsAndHash :: "bool option"
  FileOptions_javaStringCheckUtf8 :: "bool option"
  FileOptions_optimizeFor :: "number option"
  FileOptions_goPackage :: "string option"
  FileOptions_ccGenericServices :: "bool option"
  FileOptions_javaGenericServices :: "bool option"
  FileOptions_pyGenericServices :: "bool option"
  FileOptions_deprecated :: "bool option"
  FileOptions_ccEnableArenas :: "bool option"
  FileOptions_objcClassPrefix :: "string option"
  FileOptions_csharpNamespace :: "string option"
  FileOptions_swiftPrefix :: "string option"
  FileOptions_phpClassPrefix :: "string option"
  FileOptions_phpNamespace :: "string option"
  FileOptions_phpMetadataNamespace :: "string option"
  FileOptions_rubyPackage :: "string option"
  FileOptions_features :: "FeatureSet option"
  FileOptions_uninterpretedOption :: "UninterpretedOption list"

definition createBaseFileOptions :: FileOptions where
  "createBaseFileOptions =
     \<lparr>FileOptions_javaPackage = Some '''', FileOptions_javaOuterClassname = Some '''',
       FileOptions_javaMultipleFiles = Some False, FileOptions_javaGenerateEqualsAndHash = Some False,
         FileOptions_javaStringCheckUtf8 = Some False, FileOptions_optimizeFor = Some (numInt 1),
           FileOptions_goPackage = Some '''', FileOptions_ccGenericServices = Some False,
             FileOptions_javaGenericServices = Some False, FileOptions_pyGenericServices = Some False,
               FileOptions_deprecated = Some False, FileOptions_ccEnableArenas = Some True,
                 FileOptions_objcClassPrefix = Some '''', FileOptions_csharpNamespace = Some '''',
                   FileOptions_swiftPrefix = Some '''', FileOptions_phpClassPrefix = Some '''',
                     FileOptions_phpNamespace = Some '''', FileOptions_phpMetadataNamespace = Some '''',
                       FileOptions_rubyPackage = Some '''', FileOptions_features = None,
                         FileOptions_uninterpretedOption = []\<rparr>"

definition FileOptions_encode :: "'w writer_ops \<Rightarrow> FileOptions \<Rightarrow> 'w
  \<Rightarrow> jserr + 'w" where
  "FileOptions_encode W message = w_all [
     w_when (differs (FileOptions_javaPackage message) '''')
       (w_seq (w_tag W 10) (w_string W (the (FileOptions_javaPackage message)))),
     w_when (differs (FileOptions_javaOuterClassname message) '''')
       (w_seq (w_tag W 66) (w_string W (the (FileOptions_javaOuterClassname message)))),
     w_when (differs (FileOptions_javaMultipleFiles message) False)
       (w_seq (w_tag W 80) (w_bool W (the (FileOptions_javaMultipleFiles message)))),
     w_when (differs (FileOptions_javaGenerateEqualsAndHash message) False)
       (w_seq (w_tag W 160) (w_bool W (the (FileOptions_javaGenerateEqualsAndHash message)))),
     w_when (differs (FileOptions_javaStringCheckUtf8 message) False)
       (w_seq (w_tag W 216) (w_bool W (the (FileOptions_javaStringCheckUtf8 message)))),
     w_when (differs (FileOptions_optimizeFor message) (numInt 1))
       (w_seq (w_tag W 72) (w_int32 W (the (FileOptions_optimizeFor message)))),
     w_when (differs (FileOptions_goPackage message) '''')
       (w_seq (w_tag W 90) (w_string W (the (FileOptions_goPackage message)))),
     w_when (differs (FileOptions_ccGenericServices message) False)
       (w_seq (w_tag W 128) (w_bool W (the (FileOptions_ccGenericServices message)))),
     w_when (differs (FileOptions_javaGenericServices message) False)
       (w_seq (w_tag W 136) (w_bool W (the (FileOptions_javaGenericServices message)))),
     w_when (differs (FileOptions_pyGenericServices message) False)
       (w_seq (w_tag W 144) (w_bool W (the (FileOptions_pyGenericServices message)))),
     w_when (differs (FileOptions_deprecated message) False)
       (w_seq (w_tag W 184) (w_bool W (the (FileOptions_deprecated message)))),
     w_when (differs (FileOptions_ccEnableArenas message) True)
       (w_seq (w_tag W 248) (w_bool W (the (FileOptions_ccEnableArenas message)))),
     w_when (differs (FileOptions_objcClassPrefix message) '''')
       (w_seq (w_tag W 290) (w_string W (the (FileOptions_objcClassPrefix message)))),
     w_when (differs (FileOptions_csharpNamespace message) '''')
       (w_seq (w_tag W 298) (w_string W (the (FileOptions_csharpNamespace message)))),
     w_when (differs (FileOptions_swiftPrefix message) '''')
       (w_seq (w_tag W 314) (w_string W (the (FileOptions_swiftPrefix message)))),
     w_when (differs (FileOptions_phpClassPrefix message) '''')
       (w_seq (w_tag W 322) (w_string W (the (FileOptions_phpClassPrefix message)))),
     w_when (differs (FileOptions_phpNamespace message) '''')
       (w_seq (w_tag W 330) (w_string W (the (FileOptions_phpNamespace message)))),
     w_when (differs (FileOptions_phpMetadataNamespace message) '''')
       (w_seq (w_tag W 354) (w_string W (the (FileOptions_phpMetadataNamespace message)))),
     w_when (differs (FileOptions_rubyPackage message) '''')
       (w_seq (w_tag W 362) (w_string W (the (FileOptions_rubyPackage message)))),
     w_opt (\<lambda>v. w_nested W 402 (FeatureSet_encode W v)) (FileOptions_features message),
     w_each (\<lambda>v. w_nested W 7994 (UninterpretedOption_encode W v))
       (FileOptions_uninterpretedOption message)]"

definition FileOptions_field :: "'r reader_ops \<Rightarrow> u32 \<Rightarrow> FileOptions \<Rightarrow>
  ('r, FileOptions option) rd" where
  "FileOptions_field R tag message =
     (if drop_bit 3 tag = 1 then
        (if tag \<noteq> 10 then brk
         else bindR (getR (r_string R)) (\<lambda>v. cont
           (message\<lparr>FileOptions_javaPackage := Some v\<rparr>)))
      else if drop_bit 3 tag = 8 then
        (if tag \<noteq> 66 then brk
         else bindR (getR (r_string R)) (\<lambda>v. cont
           (message\<lparr>FileOptions_javaOuterClassname := Some v\<rparr>)))
      else if drop_bit 3 tag = 10 then
        (if tag \<noteq> 80 then brk
         else bindR (getR (r_bool R)) (\<lambda>v. cont
           (message\<lparr>FileOptions_javaMultipleFiles := Some v\<rparr>)))
      else if drop_bit 3 tag = 20 then
        (if tag \<noteq> 160 then brk
         else bindR (getR (r_bool R)) (\<lambda>v. cont
           (message\<lparr>FileOptions_javaGenerateEqualsAndHash := Some v\<rparr>)))
      else if drop_bit 3 tag = 27 then
        (if tag \<noteq> 216 then brk
         else bindR (getR (r_bool R)) (\<lambda>v. cont
           (message\<lparr>FileOptions_javaStringCheckUtf8 := Some v\<rparr>)))
      else if drop_bit 3 tag = 9 then
        (if tag \<noteq> 72 then brk
         else bindR (getR (r_int32 R)) (\<lambda>v. cont (message\<lparr>FileOptions_optimizeFor := Some
           (numInt v)\<rparr>)))
      else if drop_bit 3 tag = 11 then
        (if tag \<noteq> 90 then brk
         else bindR (getR (r_string R)) (\<lambda>v. cont
           (message\<lparr>FileOptions_goPackage := Some v\<rparr>)))
      else if drop_bit 3 tag = 16 then
        (if tag \<noteq> 128 then brk
         else bindR (getR (r_bool R)) (\<lambda>v. cont
           (message\<lparr>FileOptions_ccGenericServices := Some v\<rparr>)))
      else if drop_bit 3 tag = 17 then
        (if tag \<noteq> 136 then brk
         else bindR (getR (r_bool R)) (\<lambda>v. cont
           (message\<lparr>FileOptions_javaGenericServices := Some v\<rparr>)))
      else if drop_bit 3 tag = 18 then
        (if tag \<noteq> 144 then brk
         else bindR (getR (r_bool R)) (\<lambda>v. cont
           (message\<lparr>FileOptions_pyGenericServices := Some v\<rparr>)))
      else if drop_bit 3 tag = 23 then
        (if tag \<noteq> 184 then brk
         else bindR (getR (r_bool R)) (\<lambda>v. cont
           (message\<lparr>FileOptions_deprecated := Some v\<rparr>)))
      else if drop_bit 3 tag = 31 then
        (if tag \<noteq> 248 then brk
         else bindR (getR (r_bool R)) (\<lambda>v. cont
           (message\<lparr>FileOptions_ccEnableArenas := Some v\<rparr>)))
      else if drop_bit 3 tag = 36 then
        (if tag \<noteq> 290 then brk
         else bindR (getR (r_string R)) (\<lambda>v. cont
           (message\<lparr>FileOptions_objcClassPrefix := Some v\<rparr>)))
      else if drop_bit 3 tag = 37 then
        (if tag \<noteq> 298 then brk
         else bindR (getR (r_string R)) (\<lambda>v. cont
           (message\<lparr>FileOptions_csharpNamespace := Some v\<rparr>)))
      else if drop_bit 3 tag = 39 then
        (if tag \<noteq> 314 then brk
         else bindR (getR (r_string R)) (\<lambda>v. cont
           (message\<lparr>FileOptions_swiftPrefix := Some v\<rparr>)))
      else if drop_bit 3 tag = 40 then
        (if tag \<noteq> 322 then brk
         else bindR (getR (r_string R)) (\<lambda>v. cont
           (message\<lparr>FileOptions_phpClassPrefix := Some v\<rparr>)))
      else if drop_bit 3 tag = 41 then
        (if tag \<noteq> 330 then brk
         else bindR (getR (r_string R)) (\<lambda>v. cont
           (message\<lparr>FileOptions_phpNamespace := Some v\<rparr>)))
      else if drop_bit 3 tag = 44 then
        (if tag \<noteq> 354 then brk
         else bindR (getR (r_string R)) (\<lambda>v. cont
           (message\<lparr>FileOptions_phpMetadataNamespace := Some v\<rparr>)))
      else if drop_bit 3 tag = 45 then
        (if tag \<noteq> 362 then brk
         else bindR (getR (r_string R)) (\<lambda>v. cont
           (message\<lparr>FileOptions_rubyPackage := Some v\<rparr>)))
      else if drop_bit 3 tag = 50 then
        (if tag \<noteq> 402 then brk
         else bindR (nested R (FeatureSet_decode R)) (\<lambda>v. cont
           (message\<lparr>FileOptions_features := Some v\<rparr>)))
      else if drop_bit 3 tag = 999 then
        (if tag \<noteq> 7994 then brk
         else bindR (nested R (UninterpretedOption_decode R)) (\<lambda>v. cont
           (message\<lparr>FileOptions_uninterpretedOption := FileOptions_uninterpretedOption message @ [v]\<rparr>)))
      else brk)"

definition FileOptions_decode :: "'r reader_ops \<Rightarrow> 'r input \<Rightarrow> nat option
  \<Rightarrow> (jserr + FileOptions \<times> 'r) option" where
  "FileOptions_decode R = decode_message R (FileOptions_field R) createBaseFileOptions"

definition FileOptions_fromJSON :: "js_text \<Rightarrow> jsval \<Rightarrow> jserr + FileOptions" where
  "FileOptions_fromJSON J object =
     bindE (fieldOr object ''javaPackage'' (jsString J) '''') (\<lambda>v_javaPackage.
     bindE (fieldOr object ''javaOuterClassname'' (jsString J) '''') (\<lambda>v_javaOuterClassname.
     bindE (fieldOr object ''javaMultipleFiles'' jsBoolean False) (\<lambda>v_javaMultipleFiles.
     bindE (fieldOr object ''javaGenerateEqualsAndHash'' jsBoolean False) (\<lambda>v_javaGenerateEqualsAndHash.
     bindE (fieldOr object ''javaStringCheckUtf8'' jsBoolean False) (\<lambda>v_javaStringCheckUtf8.
     bindE (fieldOr object ''optimizeFor'' fileOptions_OptimizeModeFromJSON (numInt 1)) (\<lambda>v_optimizeFor.
     bindE (fieldOr object ''goPackage'' (jsString J) '''') (\<lambda>v_goPackage.
     bindE (fieldOr object ''ccGenericServices'' jsBoolean False) (\<lambda>v_ccGenericServices.
     bindE (fieldOr object ''javaGenericServices'' jsBoolean False) (\<lambda>v_javaGenericServices.
     bindE (fieldOr object ''pyGenericServices'' jsBoolean False) (\<lambda>v_pyGenericServices.
     bindE (fieldOr object ''deprecated'' jsBoolean False) (\<lambda>v_deprecated.
     bindE (fieldOr object ''ccEnableArenas'' jsBoolean True) (\<lambda>v_ccEnableArenas.
     bindE (fieldOr object ''objcClassPrefix'' (jsString J) '''') (\<lambda>v_objcClassPrefix.
     bindE (fieldOr object ''csharpNamespace'' (jsString J) '''') (\<lambda>v_csharpNamespace.
     bindE (fieldOr object ''swiftPrefix'' (jsString J) '''') (\<lambda>v_swiftPrefix.
     bindE (fieldOr object ''phpClassPrefix'' (jsString J) '''') (\<lambda>v_phpClassPrefix.
     bindE (fieldOr object ''phpNamespace'' (jsString J) '''') (\<lambda>v_phpNamespace.
     bindE (fieldOr object ''phpMetadataNamespace'' (jsString J) '''') (\<lambda>v_phpMetadataNamespace.
     bindE (fieldOr object ''rubyPackage'' (jsString J) '''') (\<lambda>v_rubyPackage.
     bindE (fieldOpt object ''features'' (FeatureSet_fromJSON J)) (\<lambda>v_features.
     bindE (fieldArr object ''uninterpretedOption'' (UninterpretedOption_fromJSON J))
       (\<lambda>v_uninterpretedOption.
     Inr \<lparr>FileOptions_javaPackage = Some v_javaPackage,
       FileOptions_javaOuterClassname = Some v_javaOuterClassname,
         FileOptions_javaMultipleFiles = Some v_javaMultipleFiles,
           FileOptions_javaGenerateEqualsAndHash = Some v_javaGenerateEqualsAndHash,
             FileOptions_javaStringCheckUtf8 = Some v_javaStringCheckUtf8,
               FileOptions_optimizeFor = Some v_optimizeFor, FileOptions_goPackage = Some v_goPackage,
                 FileOptions_ccGenericServices = Some v_ccGenericServices,
                   FileOptions_javaGenericServices = Some v_javaGenericServices,
                     FileOptions_pyGenericServices = Some v_pyGenericServices,
                       FileOptions_deprecated = Some v_deprecated,
                         FileOptions_ccEnableArenas = Some v_ccEnableArenas,
                           FileOptions_objcClassPrefix = Some v_objcClassPrefix,
                             FileOptions_csharpNamespace = Some v_csharpNamespace,
                               FileOptions_swiftPrefix = Some v_swiftPrefix,
                                 FileOptions_phpClassPrefix = Some v_phpClassPrefix,
                                   FileOptions_phpNamespace = Some v_phpNamespace,
                                     FileOptions_phpMetadataNamespace = Some v_phpMetadataNamespace,
                                       FileOptions_rubyPackage = Some v_rubyPackage,
                                         FileOptions_features = v_features,
                                           FileOptions_uninterpretedOption = v_uninterpretedOption\<rparr>)))))))))))))))))))))"

definition FileOptions_toJSON :: "FileOptions \<Rightarrow> jsval" where
  "FileOptions_toJSON message = JObj (
     setProp (differs (FileOptions_javaPackage message) '''') ''javaPackage'' (JStr (the
       (FileOptions_javaPackage message))) @
     setProp (differs (FileOptions_javaOuterClassname message) '''') ''javaOuterClassname'' (JStr (the
       (FileOptions_javaOuterClassname message))) @
     setProp (differs (FileOptions_javaMultipleFiles message) False) ''javaMultipleFiles'' (JBool (the
       (FileOptions_javaMultipleFiles message))) @
     setProp (differs (FileOptions_javaGenerateEqualsAndHash message) False) ''javaGenerateEqualsAndHash''
       (JBool (the (FileOptions_javaGenerateEqualsAndHash message))) @
     setProp (differs (FileOptions_javaStringCheckUtf8 message) False) ''javaStringCheckUtf8'' (JBool (the
       (FileOptions_javaStringCheckUtf8 message))) @
     setProp (differs (FileOptions_optimizeFor message) (numInt 1)) ''optimizeFor'' (JStr
       (fileOptions_OptimizeModeToJSON (the (FileOptions_optimizeFor message)))) @
     setProp (differs (FileOptions_goPackage message) '''') ''goPackage'' (JStr (the
       (FileOptions_goPackage message))) @
     setProp (differs (FileOptions_ccGenericServices message) False) ''ccGenericServices'' (JBool (the
       (FileOptions_ccGenericServices message))) @
     setProp (differs (FileOptions_javaGenericServices message) False) ''javaGenericServices'' (JBool (the
       (FileOptions_javaGenericServices message))) @
     setProp (differs (FileOptions_pyGenericServices message) False) ''pyGenericServices'' (JBool (the
       (FileOptions_pyGenericServices message))) @
     setProp (differs (FileOptions_deprecated message) False) ''deprecated'' (JBool (the
       (FileOptions_deprecated message))) @
     setProp (differs (FileOptions_ccEnableArenas message) True) ''ccEnableArenas'' (JBool (the
       (FileOptions_ccEnableArenas message))) @
     setProp (differs (FileOptions_objcClassPrefix message) '''') ''objcClassPrefix'' (JStr (the
       (FileOptions_objcClassPrefix message))) @
     setProp (differs (FileOptions_csharpNamespace message) '''') ''csharpNamespace'' (JStr (the
       (FileOptions_csharpNamespace message))) @
     setProp (differs (FileOptions_swiftPrefix message) '''') ''swiftPrefix'' (JStr (the
       (FileOptions_swiftPrefix message))) @
     setProp (differs (FileOptions_phpClassPrefix message) '''') ''phpClassPrefix'' (JStr (the
       (FileOptions_phpClassPrefix message))) @
     setProp (differs (FileOptions_phpNamespace message) '''') ''phpNamespace'' (JStr (the
       (FileOptions_phpNamespace message))) @
     setProp (differs (FileOptions_phpMetadataNamespace message) '''') ''phpMetadataNamespace'' (JStr (the
       (FileOptions_phpMetadataNamespace message))) @
     setProp (differs (FileOptions_rubyPackage message) '''') ''rubyPackage'' (JStr (the
       (FileOptions_rubyPackage message))) @
     setOpt ''features'' (map_option FeatureSet_toJSON (FileOptions_features message)) @
     setProp (FileOptions_uninterpretedOption message \<noteq> []) ''uninterpretedOption'' (JArr
       (map UninterpretedOption_toJSON (FileOptions_uninterpretedOption message))))"

record FileOptions_partial =
  FileOptions_p_javaPackage :: "string option"
  FileOptions_p_javaOuterClassname :: "string option"
  FileOptions_p_javaMultipleFiles :: "bool option"
  FileOptions_p_javaGenerateEqualsAndHash :: "bool option"
  FileOptions_p_javaStringCheckUtf8 :: "bool option"
  FileOptions_p_optimizeFor :: "number option"
  FileOptions_p_goPackage :: "string option"
  FileOptions_p_ccGenericServices :: "bool option"
  FileOptions_p_javaGenericServices :: "bool option"
  FileOptions_p_pyGenericServices :: "bool option"
  FileOptions_p_deprecated :: "bool option"
  FileOptions_p_ccEnableArenas :: "bool option"
  FileOptions_p_objcClassPrefix :: "string option"
  FileOptions_p_csharpNamespace :: "string option"
  FileOptions_p_swiftPrefix :: "string option"
  FileOptions_p_phpClassPrefix :: "string option"
  FileOptions_p_phpNamespace :: "string option"
  FileOptions_p_phpMetadataNamespace :: "string option"
  FileOptions_p_rubyPackage :: "string option"
  FileOptions_p_features :: "FeatureSet_partial option"
  FileOptions_p_uninterpretedOption :: "UninterpretedOption_partial list option"

definition FileOptions_fromPartial :: "FileOptions_partial \<Rightarrow> FileOptions" where
  "FileOptions_fromPartial object = createBaseFileOptions\<lparr>
     FileOptions_javaPackage := Some (getOr (FileOptions_p_javaPackage object) ''''),
     FileOptions_javaOuterClassname := Some (getOr (FileOptions_p_javaOuterClassname object) ''''),
     FileOptions_javaMultipleFiles := Some (getOr (FileOptions_p_javaMultipleFiles object) False),
     FileOptions_javaGenerateEqualsAndHash := Some (getOr
       (FileOptions_p_javaGenerateEqualsAndHash object) False),
     FileOptions_javaStringCheckUtf8 := Some (getOr (FileOptions_p_javaStringCheckUtf8 object) False),
     FileOptions_optimizeFor := Some (getOr (FileOptions_p_optimizeFor object) (numInt 1)),
     FileOptions_goPackage := Some (getOr (FileOptions_p_goPackage object) ''''),
     FileOptions_ccGenericServices := Some (getOr (FileOptions_p_ccGenericServices object) False),
     FileOptions_javaGenericServices := Some (getOr (FileOptions_p_javaGenericServices object) False),
     FileOptions_pyGenericServices := Some (getOr (FileOptions_p_pyGenericServices object) False),
     FileOptions_deprecated := Some (getOr (FileOptions_p_deprecated object) False),
     FileOptions_ccEnableArenas := Some (getOr (FileOptions_p_ccEnableArenas object) True),
     FileOptions_objcClassPrefix := Some (getOr (FileOptions_p_objcClassPrefix object) ''''),
     FileOptions_csharpNamespace := Some (getOr (FileOptions_p_csharpNamespace object) ''''),
     FileOptions_swiftPrefix := Some (getOr (FileOptions_p_swiftPrefix object) ''''),
     FileOptions_phpClassPrefix := Some (getOr (FileOptions_p_phpClassPrefix object) ''''),
     FileOptions_phpNamespace := Some (getOr (FileOptions_p_phpNamespace object) ''''),
     FileOptions_phpMetadataNamespace := Some (getOr (FileOptions_p_phpMetadataNamespace object) ''''),
     FileOptions_rubyPackage := Some (getOr (FileOptions_p_rubyPackage object) ''''),
     FileOptions_features := map_option FeatureSet_fromPartial (FileOptions_p_features object),
     FileOptions_uninterpretedOption := getOr (map_option (map UninterpretedOption_fromPartial)
       (FileOptions_p_uninterpretedOption object)) []\<rparr>"

definition FileOptions_create :: "FileOptions_partial option \<Rightarrow> FileOptions" where
  "FileOptions_create base = FileOptions_fromPartial (getOr base
     \<lparr>FileOptions_p_javaPackage = None, FileOptions_p_javaOuterClassname = None,
       FileOptions_p_javaMultipleFiles = None, FileOptions_p_javaGenerateEqualsAndHash = None,
         FileOptions_p_javaStringCheckUtf8 = None, FileOptions_p_optimizeFor = None,
           FileOptions_p_goPackage = None, FileOptions_p_ccGenericServices = None,
             FileOptions_p_javaGenericServices = None, FileOptions_p_pyGenericServices = None,
               FileOptions_p_deprecated = None, FileOptions_p_ccEnableArenas = None,
                 FileOptions_p_objcClassPrefix = None, FileOptions_p_csharpNamespace = None,
                   FileOptions_p_swiftPrefix = None, FileOptions_p_phpClassPrefix = None,
                     FileOptions_p_phpNamespace = None, FileOptions_p_phpMetadataNamespace = None,
                       FileOptions_p_rubyPackage = None, FileOptions_p_features = None,
                         FileOptions_p_uninterpretedOption = None\<rparr>)"

subsection \<open>\<open>SourceCodeInfo_Location\<close>\<close>

record SourceCodeInfo_Location =
  SourceCodeInfo_Location_path :: "number list"
  SourceCodeInfo_Location_span :: "number list"
  SourceCodeInfo_Location_leadingComments :: "string option"
  SourceCodeInfo_Location_trailingComments :: "string option"
  SourceCodeInfo_Location_leadingDetachedComments :: "string list"

definition createBaseSourceCodeInfo_Location :: SourceCodeInfo_Location where
  "createBaseSourceCodeInfo_Location =
     \<lparr>SourceCodeInfo_Location_path = [], SourceCodeInfo_Location_span = [],
       SourceCodeInfo_Location_leadingComments = Some '''',
         SourceCodeInfo_Location_trailingComments = Some '''',
           SourceCodeInfo_Location_leadingDetachedComments = []\<rparr>"

definition SourceCodeInfo_Location_encode :: "'w writer_ops \<Rightarrow> SourceCodeInfo_Location
  \<Rightarrow> 'w \<Rightarrow> jserr + 'w" where
  "SourceCodeInfo_Location_encode W message = w_all [
     w_nested W 10 (w_each (w_int32 W) (SourceCodeInfo_Location_path message)),
     w_nested W 18 (w_each (w_int32 W) (SourceCodeInfo_Location_span message)),
     w_when (differs (SourceCodeInfo_Location_leadingComments message) '''')
       (w_seq (w_tag W 26) (w_string W (the (SourceCodeInfo_Location_leadingComments message)))),
     w_when (differs (SourceCodeInfo_Location_trailingComments message) '''')
       (w_seq (w_tag W 34) (w_string W (the (SourceCodeInfo_Location_trailingComments message)))),
     w_each (\<lambda>v. w_seq (w_tag W 50) (w_string W v))
       (SourceCodeInfo_Location_leadingDetachedComments message)]"

definition SourceCodeInfo_Location_field :: "'r reader_ops \<Rightarrow> u32
  \<Rightarrow> SourceCodeInfo_Location \<Rightarrow> ('r, SourceCodeInfo_Location option) rd" where
  "SourceCodeInfo_Location_field R tag message =
     (if drop_bit 3 tag = 1 then
        (if tag = 8 then bindR (getR (r_int32 R)) (\<lambda>v. cont
          (message\<lparr>SourceCodeInfo_Location_path := SourceCodeInfo_Location_path message @ [numInt v]\<rparr>))
         else if tag = 10 then bindR (packed R (SourceCodeInfo_Location_path message)) (\<lambda>vs. cont
           (message\<lparr>SourceCodeInfo_Location_path := vs\<rparr>))
         else brk)
      else if drop_bit 3 tag = 2 then
        (if tag = 16 then bindR (getR (r_int32 R)) (\<lambda>v. cont
          (message\<lparr>SourceCodeInfo_Location_span := SourceCodeInfo_Location_span message @ [numInt v]\<rparr>))
         else if tag = 18 then bindR (packed R (SourceCodeInfo_Location_span message)) (\<lambda>vs. cont
           (message\<lparr>SourceCodeInfo_Location_span := vs\<rparr>))
         else brk)
      else if drop_bit 3 tag = 3 then
        (if tag \<noteq> 26 then brk
         else bindR (getR (r_string R)) (\<lambda>v. cont
           (message\<lparr>SourceCodeInfo_Location_leadingComments := Some v\<rparr>)))
      else if drop_bit 3 tag = 4 then
        (if tag \<noteq> 34 then brk
         else bindR (getR (r_string R)) (\<lambda>v. cont
           (message\<lparr>SourceCodeInfo_Location_trailingComments := Some v\<rparr>)))
      else if drop_bit 3 tag = 6 then
        (if tag \<noteq> 50 then brk
         else bindR (getR (r_string R)) (\<lambda>v. cont
           (message\<lparr>SourceCodeInfo_Location_leadingDetachedComments := SourceCodeInfo_Location_leadingDetachedComments message @ [v]\<rparr>)))
      else brk)"

definition SourceCodeInfo_Location_decode :: "'r reader_ops \<Rightarrow> 'r input \<Rightarrow> nat option
  \<Rightarrow> (jserr + SourceCodeInfo_Location \<times> 'r) option" where
  "SourceCodeInfo_Location_decode R = decode_message R
    (SourceCodeInfo_Location_field R) createBaseSourceCodeInfo_Location"

definition SourceCodeInfo_Location_fromJSON :: "js_text \<Rightarrow> jsval
  \<Rightarrow> jserr + SourceCodeInfo_Location" where
  "SourceCodeInfo_Location_fromJSON J object =
     bindE (fieldArr object ''path'' (\<lambda>e. Inr (jsNumber J e))) (\<lambda>v_path.
     bindE (fieldArr object ''span'' (\<lambda>e. Inr (jsNumber J e))) (\<lambda>v_span.
     bindE (fieldOr object ''leadingComments'' (jsString J) '''') (\<lambda>v_leadingComments.
     bindE (fieldOr object ''trailingComments'' (jsString J) '''') (\<lambda>v_trailingComments.
     bindE (fieldArr object ''leadingDetachedComments'' (\<lambda>e. Inr (jsString J e)))
       (\<lambda>v_leadingDetachedComments.
     Inr \<lparr>SourceCodeInfo_Location_path = v_path, SourceCodeInfo_Location_span = v_span,
       SourceCodeInfo_Location_leadingComments = Some v_leadingComments,
         SourceCodeInfo_Location_trailingComments = Some v_trailingComments,
           SourceCodeInfo_Location_leadingDetachedComments = v_leadingDetachedComments\<rparr>)))))"

definition SourceCodeInfo_Location_toJSON :: "SourceCodeInfo_Location \<Rightarrow> jsval" where
  "SourceCodeInfo_Location_toJSON message = JObj (
     setProp (SourceCodeInfo_Location_path message \<noteq> []) ''path'' (JArr (map (\<lambda>e. JNum
       (mathRound e)) (SourceCodeInfo_Location_path message))) @
     setProp (SourceCodeInfo_Location_span message \<noteq> []) ''span'' (JArr (map (\<lambda>e. JNum
       (mathRound e)) (SourceCodeInfo_Location_span message))) @
     setProp (differs (SourceCodeInfo_Location_leadingComments message) '''') ''leadingComments'' (JStr
       (the (SourceCodeInfo_Location_leadingComments message))) @
     setProp (differs (SourceCodeInfo_Location_trailingComments message) '''') ''trailingComments'' (JStr
       (the (SourceCodeInfo_Location_trailingComments message))) @
     setProp (SourceCodeInfo_Location_leadingDetachedComments message \<noteq> []) ''leadingDetachedComments'' (JArr (map JStr (SourceCodeInfo_Location_leadingDetachedComments message))))"

record SourceCodeInfo_Location_partial =
  SourceCodeInfo_Location_p_path :: "number list option"
  SourceCodeInfo_Location_p_span :: "number list option"
  SourceCodeInfo_Location_p_leadingComments :: "string option"
  SourceCodeInfo_Location_p_trailingComments :: "string option"
  SourceCodeInfo_Location_p_leadingDetachedComments :: "string list option"

definition SourceCodeInfo_Location_fromPartial :: "SourceCodeInfo_Location_partial
  \<Rightarrow> SourceCodeInfo_Location" where
  "SourceCodeInfo_Location_fromPartial object = createBaseSourceCodeInfo_Location\<lparr>
     SourceCodeInfo_Location_path := getOr (SourceCodeInfo_Location_p_path object) [],
     SourceCodeInfo_Location_span := getOr (SourceCodeInfo_Location_p_span object) [],
     SourceCodeInfo_Location_leadingComments := Some (getOr
       (SourceCodeInfo_Location_p_leadingComments object) ''''),
     SourceCodeInfo_Location_trailingComments := Some (getOr
       (SourceCodeInfo_Location_p_trailingComments object) ''''),
     SourceCodeInfo_Location_leadingDetachedComments := getOr
       (SourceCodeInfo_Location_p_leadingDetachedComments object) []\<rparr>"

definition SourceCodeInfo_Location_create :: "SourceCodeInfo_Location_partial option
  \<Rightarrow> SourceCodeInfo_Location" where
  "SourceCodeInfo_Location_create base = SourceCodeInfo_Location_fromPartial (getOr base
     \<lparr>SourceCodeInfo_Location_p_path = None, SourceCodeInfo_Location_p_span = None,
       SourceCodeInfo_Location_p_leadingComments = None, SourceCodeInfo_Location_p_trailingComments = None,
         SourceCodeInfo_Location_p_leadingDetachedComments = None\<rparr>)"

subsection \<open>\<open>SourceCodeInfo\<close>\<close>

record SourceCodeInfo =
  SourceCodeInfo_location :: "SourceCodeInfo_Location list"

definition createBaseSourceCodeInfo :: SourceCodeInfo where
  "createBaseSourceCodeInfo =
     \<lparr>SourceCodeInfo_location = []\<rparr>"

definition SourceCodeInfo_encode :: "'w writer_ops \<Rightarrow> SourceCodeInfo \<Rightarrow> 'w
  \<Rightarrow> jserr + 'w" where
  "SourceCodeInfo_encode W message = w_all [
     w_each (\<lambda>v. w_nested W 10 (SourceCodeInfo_Location_encode W v)) (SourceCodeInfo_location message)]"

definition SourceCodeInfo_field :: "'r reader_ops \<Rightarrow> u32 \<Rightarrow> SourceCodeInfo
  \<Rightarrow> ('r, SourceCodeInfo option) rd" where
  "SourceCodeInfo_field R tag message =
     (if drop_bit 3 tag = 1 then
        (if tag \<noteq> 10 then brk
         else bindR (nested R (SourceCodeInfo_Location_decode R)) (\<lambda>v. cont
           (message\<lparr>SourceCodeInfo_location := SourceCodeInfo_location message @ [v]\<rparr>)))
      else brk)"

definition SourceCodeInfo_decode :: "'r reader_ops \<Rightarrow> 'r input \<Rightarrow> nat option
  \<Rightarrow> (jserr + SourceCodeInfo \<times> 'r) option" where
  "SourceCodeInfo_decode R = decode_message R (SourceCodeInfo_field R) createBaseSourceCodeInfo"

definition SourceCodeInfo_fromJSON :: "js_text \<Rightarrow> jsval \<Rightarrow> jserr + SourceCodeInfo" where
  "SourceCodeInfo_fromJSON J object =
     bindE (fieldArr object ''location'' (SourceCodeInfo_Location_fromJSON J)) (\<lambda>v_location.
     Inr \<lparr>SourceCodeInfo_location = v_location\<rparr>)"

definition SourceCodeInfo_toJSON :: "SourceCodeInfo \<Rightarrow> jsval" where
  "SourceCodeInfo_toJSON message = JObj (
     setProp (SourceCodeInfo_location message \<noteq> []) ''location'' (JArr
       (map SourceCodeInfo_Location_toJSON (SourceCodeInfo_location message))))"

record SourceCodeInfo_partial =
  SourceCodeInfo_p_location :: "SourceCodeInfo_Location_partial list option"

definition SourceCodeInfo_fromPartial :: "SourceCodeInfo_partial \<Rightarrow> SourceCodeInfo" where
  "SourceCodeInfo_fromPartial object = createBaseSourceCodeInfo\<lparr>
     SourceCodeInfo_location := getOr (map_option (map SourceCodeInfo_Location_fromPartial)
       (SourceCodeInfo_p_location object)) []\<rparr>"

definition SourceCodeInfo_create :: "SourceCodeInfo_partial option \<Rightarrow> SourceCodeInfo" where
  "SourceCodeInfo_create base = SourceCodeInfo_fromPartial (getOr base
     \<lparr>SourceCodeInfo_p_location = None\<rparr>)"

subsection \<open>\<open>GeneratedCodeInfo_Annotation\<close>\<close>

record GeneratedCodeInfo_Annotation =
  GeneratedCodeInfo_Annotation_path :: "number list"
  GeneratedCodeInfo_Annotation_sourceFile :: "string option"
  GeneratedCodeInfo_Annotation_begin :: "number option"
  GeneratedCodeInfo_Annotation_end :: "number option"
  GeneratedCodeInfo_Annotation_semantic :: "number option"

definition createBaseGeneratedCodeInfo_Annotation :: GeneratedCodeInfo_Annotation where
  "createBaseGeneratedCodeInfo_Annotation =
     \<lparr>GeneratedCodeInfo_Annotation_path = [], GeneratedCodeInfo_Annotation_sourceFile = Some '''',
       GeneratedCodeInfo_Annotation_begin = Some (numInt 0), GeneratedCodeInfo_Annotation_end = Some
         (numInt 0), GeneratedCodeInfo_Annotation_semantic = Some (numInt 0)\<rparr>"

definition GeneratedCodeInfo_Annotation_encode :: "'w writer_ops \<Rightarrow> GeneratedCodeInfo_Annotation
  \<Rightarrow> 'w \<Rightarrow> jserr + 'w" where
  "GeneratedCodeInfo_Annotation_encode W message = w_all [
     w_nested W 10 (w_each (w_int32 W) (GeneratedCodeInfo_Annotation_path message)),
     w_when (differs (GeneratedCodeInfo_Annotation_sourceFile message) '''')
       (w_seq (w_tag W 18) (w_string W (the (GeneratedCodeInfo_Annotation_sourceFile message)))),
     w_when (differs (GeneratedCodeInfo_Annotation_begin message) (numInt 0))
       (w_seq (w_tag W 24) (w_int32 W (the (GeneratedCodeInfo_Annotation_begin message)))),
     w_when (differs (GeneratedCodeInfo_Annotation_end message) (numInt 0))
       (w_seq (w_tag W 32) (w_int32 W (the (GeneratedCodeInfo_Annotation_end message)))),
     w_when (differs (GeneratedCodeInfo_Annotation_semantic message) (numInt 0))
       (w_seq (w_tag W 40) (w_int32 W (the (GeneratedCodeInfo_Annotation_semantic message))))]"

definition GeneratedCodeInfo_Annotation_field :: "'r reader_ops \<Rightarrow> u32
  \<Rightarrow> GeneratedCodeInfo_Annotation \<Rightarrow> ('r, GeneratedCodeInfo_Annotation option) rd" where
  "GeneratedCodeInfo_Annotation_field R tag message =
     (if drop_bit 3 tag = 1 then
        (if tag = 8 then bindR (getR (r_int32 R)) (\<lambda>v. cont
          (message\<lparr>GeneratedCodeInfo_Annotation_path := GeneratedCodeInfo_Annotation_path message @ [numInt v]\<rparr>))
         else if tag = 10 then bindR (packed R (GeneratedCodeInfo_Annotation_path message))
           (\<lambda>vs. cont (message\<lparr>GeneratedCodeInfo_Annotation_path := vs\<rparr>))
         else brk)
      else if drop_bit 3 tag = 2 then
        (if tag \<noteq> 18 then brk
         else bindR (getR (r_string R)) (\<lambda>v. cont
           (message\<lparr>GeneratedCodeInfo_Annotation_sourceFile := Some v\<rparr>)))
      else if drop_bit 3 tag = 3 then
        (if tag \<noteq> 24 then brk
         else bindR (getR (r_int32 R)) (\<lambda>v. cont
           (message\<lparr>GeneratedCodeInfo_Annotation_begin := Some (numInt v)\<rparr>)))
      else if drop_bit 3 tag = 4 then
        (if tag \<noteq> 32 then brk
         else bindR (getR (r_int32 R)) (\<lambda>v. cont
           (message\<lparr>GeneratedCodeInfo_Annotation_end := Some (numInt v)\<rparr>)))
      else if drop_bit 3 tag = 5 then
        (if tag \<noteq> 40 then brk
         else bindR (getR (r_int32 R)) (\<lambda>v. cont
           (message\<lparr>GeneratedCodeInfo_Annotation_semantic := Some (numInt v)\<rparr>)))
      else brk)"

definition GeneratedCodeInfo_Annotation_decode :: "'r reader_ops \<Rightarrow> 'r input
  \<Rightarrow> nat option \<Rightarrow> (jserr + GeneratedCodeInfo_Annotation \<times> 'r) option" where
  "GeneratedCodeInfo_Annotation_decode R = decode_message R
    (GeneratedCodeInfo_Annotation_field R) createBaseGeneratedCodeInfo_Annotation"

definition GeneratedCodeInfo_Annotation_fromJSON :: "js_text \<Rightarrow> jsval
  \<Rightarrow> jserr + GeneratedCodeInfo_Annotation" where
  "GeneratedCodeInfo_Annotation_fromJSON J object =
     bindE (fieldArr object ''path'' (\<lambda>e. Inr (jsNumber J e))) (\<lambda>v_path.
     bindE (fieldOr object ''sourceFile'' (jsString J) '''') (\<lambda>v_sourceFile.
     bindE (fieldOr object ''begin'' (jsNumber J) (numInt 0)) (\<lambda>v_begin.
     bindE (fieldOr object ''end'' (jsNumber J) (numInt 0)) (\<lambda>v_end.
     bindE (fieldOr object ''semantic'' generatedCodeInfo_Annotation_SemanticFromJSON (numInt 0))
       (\<lambda>v_semantic.
     Inr \<lparr>GeneratedCodeInfo_Annotation_path = v_path,
       GeneratedCodeInfo_Annotation_sourceFile = Some v_sourceFile,
         GeneratedCodeInfo_Annotation_begin = Some v_begin, GeneratedCodeInfo_Annotation_end = Some v_end,
           GeneratedCodeInfo_Annotation_semantic = Some v_semantic\<rparr>)))))"

definition GeneratedCodeInfo_Annotation_toJSON :: "GeneratedCodeInfo_Annotation \<Rightarrow> jsval" where
  "GeneratedCodeInfo_Annotation_toJSON message = JObj (
     setProp (GeneratedCodeInfo_Annotation_path message \<noteq> []) ''path'' (JArr (map (\<lambda>e. JNum
       (mathRound e)) (GeneratedCodeInfo_Annotation_path message))) @
     setProp (differs (GeneratedCodeInfo_Annotation_sourceFile message) '''') ''sourceFile'' (JStr (the
       (GeneratedCodeInfo_Annotation_sourceFile message))) @
     setProp (differs (GeneratedCodeInfo_Annotation_begin message) (numInt 0)) ''begin'' (JNum (mathRound
       (the (GeneratedCodeInfo_Annotation_begin message)))) @
     setProp (differs (GeneratedCodeInfo_Annotation_end message) (numInt 0)) ''end'' (JNum (mathRound (the
       (GeneratedCodeInfo_Annotation_end message)))) @
     setProp (differs (GeneratedCodeInfo_Annotation_semantic message) (numInt 0)) ''semantic'' (JStr
       (generatedCodeInfo_Annotation_SemanticToJSON (the (GeneratedCodeInfo_Annotation_semantic message)))))"

record GeneratedCodeInfo_Annotation_partial =
  GeneratedCodeInfo_Annotation_p_path :: "number list option"
  GeneratedCodeInfo_Annotation_p_sourceFile :: "string option"
  GeneratedCodeInfo_Annotation_p_begin :: "number option"
  GeneratedCodeInfo_Annotation_p_end :: "number option"
  GeneratedCodeInfo_Annotation_p_semantic :: "number option"

definition GeneratedCodeInfo_Annotation_fromPartial :: "GeneratedCodeInfo_Annotation_partial
  \<Rightarrow> GeneratedCodeInfo_Annotation" where
  "GeneratedCodeInfo_Annotation_fromPartial object = createBaseGeneratedCodeInfo_Annotation\<lparr>
     GeneratedCodeInfo_Annotation_path := getOr (GeneratedCodeInfo_Annotation_p_path object) [],
     GeneratedCodeInfo_Annotation_sourceFile := Some (getOr
       (GeneratedCodeInfo_Annotation_p_sourceFile object) ''''),
     GeneratedCodeInfo_Annotation_begin := Some (getOr (GeneratedCodeInfo_Annotation_p_begin object)
       (numInt 0)),
     GeneratedCodeInfo_Annotation_end := Some (getOr (GeneratedCodeInfo_Annotation_p_end object) (numInt 0)),
     GeneratedCodeInfo_Annotation_semantic := Some (getOr (GeneratedCodeInfo_Annotation_p_semantic object)
       (numInt 0))\<rparr>"

definition GeneratedCodeInfo_Annotation_create :: "GeneratedCodeInfo_Annotation_partial option
  \<Rightarrow> GeneratedCodeInfo_Annotation" where
  "GeneratedCodeInfo_Annotation_create base = GeneratedCodeInfo_Annotation_fromPartial (getOr base
     \<lparr>GeneratedCodeInfo_Annotation_p_path = None, GeneratedCodeInfo_Annotation_p_sourceFile = None,
       GeneratedCodeInfo_Annotation_p_begin = None, GeneratedCodeInfo_Annotation_p_end = None,
         GeneratedCodeInfo_Annotation_p_semantic = None\<rparr>)"

subsection \<open>\<open>GeneratedCodeInfo\<close>\<close>

record GeneratedCodeInfo =
  GeneratedCodeInfo_annotation :: "GeneratedCodeInfo_Annotation list"

definition createBaseGeneratedCodeInfo :: GeneratedCodeInfo where
  "createBaseGeneratedCodeInfo =
     \<lparr>GeneratedCodeInfo_annotation = []\<rparr>"

definition GeneratedCodeInfo_encode :: "'w writer_ops \<Rightarrow> GeneratedCodeInfo \<Rightarrow> 'w
  \<Rightarrow> jserr + 'w" where
  "GeneratedCodeInfo_encode W message = w_all [
     w_each (\<lambda>v. w_nested W 10 (GeneratedCodeInfo_Annotation_encode W v))
       (GeneratedCodeInfo_annotation message)]"

definition GeneratedCodeInfo_field :: "'r reader_ops \<Rightarrow> u32 \<Rightarrow> GeneratedCodeInfo
  \<Rightarrow> ('r, GeneratedCodeInfo option) rd" where
  "GeneratedCodeInfo_field R tag message =
     (if drop_bit 3 tag = 1 then
        (if tag \<noteq> 10 then brk
         else bindR (nested R (GeneratedCodeInfo_Annotation_decode R)) (\<lambda>v. cont
           (message\<lparr>GeneratedCodeInfo_annotation := GeneratedCodeInfo_annotation message @ [v]\<rparr>)))
      else brk)"

definition GeneratedCodeInfo_decode :: "'r reader_ops \<Rightarrow> 'r input \<Rightarrow> nat option
  \<Rightarrow> (jserr + GeneratedCodeInfo \<times> 'r) option" where
  "GeneratedCodeInfo_decode R = decode_message R (GeneratedCodeInfo_field R) createBaseGeneratedCodeInfo"

definition GeneratedCodeInfo_fromJSON :: "js_text \<Rightarrow> jsval
  \<Rightarrow> jserr + GeneratedCodeInfo" where
  "GeneratedCodeInfo_fromJSON J object =
     bindE (fieldArr object ''annotation'' (GeneratedCodeInfo_Annotation_fromJSON J)) (\<lambda>v_annotation.
     Inr \<lparr>GeneratedCodeInfo_annotation = v_annotation\<rparr>)"

definition GeneratedCodeInfo_toJSON :: "GeneratedCodeInfo \<Rightarrow> jsval" where
  "GeneratedCodeInfo_toJSON message = JObj (
     setProp (GeneratedCodeInfo_annotation message \<noteq> []) ''annotation'' (JArr
       (map GeneratedCodeInfo_Annotation_toJSON (GeneratedCodeInfo_annotation message))))"

record GeneratedCodeInfo_partial =
  GeneratedCodeInfo_p_annotation :: "GeneratedCodeInfo_Annotation_partial list option"

definition GeneratedCodeInfo_fromPartial :: "GeneratedCodeInfo_partial \<Rightarrow> GeneratedCodeInfo" where
  "GeneratedCodeInfo_fromPartial object = createBaseGeneratedCodeInfo\<lparr>
     GeneratedCodeInfo_annotation := getOr (map_option (map GeneratedCodeInfo_Annotation_fromPartial)
       (GeneratedCodeInfo_p_annotation object)) []\<rparr>"

definition GeneratedCodeInfo_create :: "GeneratedCodeInfo_partial option \<Rightarrow> GeneratedCodeInfo" where
  "GeneratedCodeInfo_create base = GeneratedCodeInfo_fromPartial (getOr base
     \<lparr>GeneratedCodeInfo_p_annotation = None\<rparr>)"

subsection \<open>\<open>FeatureSet_VisibilityFeature\<close>\<close>

datatype FeatureSet_VisibilityFeature = FeatureSet_VisibilityFeature

definition createBaseFeatureSet_VisibilityFeature :: FeatureSet_VisibilityFeature where
  "createBaseFeatureSet_VisibilityFeature = FeatureSet_VisibilityFeature"

definition FeatureSet_VisibilityFeature_encode :: "'w writer_ops \<Rightarrow> FeatureSet_VisibilityFeature
  \<Rightarrow> 'w \<Rightarrow> jserr + 'w" where
  "FeatureSet_VisibilityFeature_encode W _ writer = Inr writer"

definition FeatureSet_VisibilityFeature_field :: "'r reader_ops \<Rightarrow> u32
  \<Rightarrow> FeatureSet_VisibilityFeature \<Rightarrow> ('r, FeatureSet_VisibilityFeature option) rd" where
  "FeatureSet_VisibilityFeature_field R tag message = brk"

definition FeatureSet_VisibilityFeature_decode :: "'r reader_ops \<Rightarrow> 'r input
  \<Rightarrow> nat option \<Rightarrow> (jserr + FeatureSet_VisibilityFeature \<times> 'r) option" where
  "FeatureSet_VisibilityFeature_decode R = decode_message R
    (FeatureSet_VisibilityFeature_field R) createBaseFeatureSet_VisibilityFeature"

definition FeatureSet_VisibilityFeature_fromJSON :: "js_text \<Rightarrow> jsval
  \<Rightarrow> jserr + FeatureSet_VisibilityFeature" where
  "FeatureSet_VisibilityFeature_fromJSON J _ = Inr FeatureSet_VisibilityFeature"

definition FeatureSet_VisibilityFeature_toJSON :: "FeatureSet_VisibilityFeature \<Rightarrow> jsval" where
  "FeatureSet_VisibilityFeature_toJSON _ = JObj []"

datatype FeatureSet_VisibilityFeature_partial = FeatureSet_VisibilityFeature_partial

definition FeatureSet_VisibilityFeature_fromPartial :: "FeatureSet_VisibilityFeature_partial
  \<Rightarrow> FeatureSet_VisibilityFeature" where
  "FeatureSet_VisibilityFeature_fromPartial _ = createBaseFeatureSet_VisibilityFeature"

definition FeatureSet_VisibilityFeature_create :: "FeatureSet_VisibilityFeature_partial option
  \<Rightarrow> FeatureSet_VisibilityFeature" where
  "FeatureSet_VisibilityFeature_create base = FeatureSet_VisibilityFeature_fromPartial
    (getOr base FeatureSet_VisibilityFeature_partial)"

end
