(* ===== verification/Proto_Messages.thy ===== *)
theory Proto_Messages
  imports Options_Messages
begin

unbundle bit_operations_syntax

text \<open>
  The descriptors of fields, enumerations and services of \<open>gen/ts/google/protobuf/descriptor.ts\<close>.
\<close>

section \<open>Messages\<close>

subsection \<open>\<open>FieldDescriptorProto\<close>\<close>

record FieldDescriptorProto =
  FieldDescriptorProto_name :: "string option"
  FieldDescriptorProto_number :: "number option"
  FieldDescriptorProto_label :: "number option"
  FieldDescriptorProto_type :: "number option"
  FieldDescriptorProto_typeName :: "string option"
  FieldDescriptorProto_extendee :: "string option"
  FieldDescriptorProto_defaultValue :: "string option"
  FieldDescriptorProto_oneofIndex :: "number option"
  FieldDescriptorProto_jsonName :: "string option"
  FieldDescriptorProto_options :: "FieldOptions option"
  FieldDescriptorProto_proto3Optional :: "bool option"

definition createBaseFieldDescriptorProto :: FieldDescriptorProto where
  "createBaseFieldDescriptorProto =
     \<lparr>FieldDescriptorProto_name = Some '''', FieldDescriptorProto_number = Some (numInt 0),
       FieldDescriptorProto_label = Some (numInt 1), FieldDescriptorProto_type = Some (numInt 1),
         FieldDescriptorProto_typeName = Some '''', FieldDescriptorProto_extendee = Some '''',
           FieldDescriptorProto_defaultValue = Some '''', FieldDescriptorProto_oneofIndex = Some (numInt 0),
             FieldDescriptorProto_jsonName = Some '''', FieldDescriptorProto_options = None,
               FieldDescriptorProto_proto3Optional = Some False\<rparr>"

definition FieldDescriptorProto_encode :: "'w writer_ops \<Rightarrow> FieldDescriptorProto
  \<Rightarrow> 'w \<Rightarrow> jserr + 'w" where
  "FieldDescriptorProto_encode W message = w_all [
     w_when (differs (FieldDescriptorProto_name message) '''')
       (w_seq (w_tag W 10) (w_string W (the (FieldDescriptorProto_name message)))),
     w_when (differs (FieldDescriptorProto_number message) (numInt 0))
       (w_seq (w_tag W 24) (w_int32 W (the (FieldDescriptorProto_number message)))),
     w_when (differs (FieldDescriptorProto_label message) (numInt 1))
       (w_seq (w_tag W 32) (w_int32 W (the (FieldDescriptorProto_label message)))),
     w_when (differs (FieldDescriptorProto_type message) (numInt 1))
       (w_seq (w_tag W 40) (w_int32 W (the (FieldDescriptorProto_type message)))),
     w_when (differs (FieldDescriptorProto_typeName message) '''')
       (w_seq (w_tag W 50) (w_string W (the (FieldDescriptorProto_typeName message)))),
     w_when (differs (FieldDescriptorProto_extendee message) '''')
       (w_seq (w_tag W 18) (w_string W (the (FieldDescriptorProto_extendee message)))),
     w_when (differs (FieldDescriptorProto_defaultValue message) '''')
       (w_seq (w_tag W 58) (w_string W (the (FieldDescriptorProto_defaultValue message)))),
     w_when (differs (FieldDescriptorProto_oneofIndex message) (numInt 0))
       (w_seq (w_tag W 72) (w_int32 W (the (FieldDescriptorProto_oneofIndex message)))),
     w_when (differs (FieldDescriptorProto_jsonName message) '''')
       (w_seq (w_tag W 82) (w_string W (the (FieldDescriptorProto_jsonName message)))),
     w_opt (\<lambda>v. w_nested W 66 (FieldOptions_encode W v)) (FieldDescriptorProto_options message),
     w_when (differs (FieldDescriptorProto_proto3Optional message) False)
       (w_seq (w_tag W 136) (w_bool W (the (FieldDescriptorProto_proto3Optional message))))]"

definition FieldDescriptorProto_field :: "'r reader_ops \<Rightarrow> u32
  \<Rightarrow> FieldDescriptorProto \<Rightarrow> ('r, FieldDescriptorProto option) rd" where
  "FieldDescriptorProto_field R tag message =
     (if drop_bit 3 tag = 1 then
        (if tag \<noteq> 10 then brk
         else bindR (getR (r_string R)) (\<lambda>v. cont
           (message\<lparr>FieldDescriptorProto_name := Some v\<rparr>)))
      else if drop_bit 3 tag = 3 then
        (if tag \<noteq> 24 then brk
         else bindR (getR (r_int32 R)) (\<lambda>v. cont
           (message\<lparr>FieldDescriptorProto_number := Some (numInt v)\<rparr>)))
      else if drop_bit 3 tag = 4 then
        (if tag \<noteq> 32 then brk
         else bindR (getR (r_int32 R)) (\<lambda>v. cont (message\<lparr>FieldDescriptorProto_label := Some
           (numInt v)\<rparr>)))
      else if drop_bit 3 tag = 5 then
        (if tag \<noteq> 40 then brk
         else bindR (getR (r_int32 R)) (\<lambda>v. cont (message\<lparr>FieldDescriptorProto_type := Some
           (numInt v)\<rparr>)))
      else if drop_bit 3 tag = 6 then
        (if tag \<noteq> 50 then brk
         else bindR (getR (r_string R)) (\<lambda>v. cont
           (message\<lparr>FieldDescriptorProto_typeName := Some v\<rparr>)))
      else if drop_bit 3 tag = 2 then
        (if tag \<noteq> 18 then brk
         else bindR (getR (r_string R)) (\<lambda>v. cont
           (message\<lparr>FieldDescriptorProto_extendee := Some v\<rparr>)))
      else if drop_bit 3 tag = 7 then
        (if tag \<noteq> 58 then brk
         else bindR (getR (r_string R)) (\<lambda>v. cont
           (message\<lparr>FieldDescriptorProto_defaultValue := Some v\<rparr>)))
      else if drop_bit 3 tag = 9 then
        (if tag \<noteq> 72 then brk
         else bindR (getR (r_int32 R)) (\<lambda>v. cont
           (message\<lparr>FieldDescriptorProto_oneofIndex := Some (numInt v)\<rparr>)))
      else if drop_bit 3 tag = 10 then
        (if tag \<noteq> 82 then brk
         else bindR (getR (r_string R)) (\<lambda>v. cont
           (message\<lparr>FieldDescriptorProto_jsonName := Some v\<rparr>)))
      else if drop_bit 3 tag = 8 then
        (if tag \<noteq> 66 then brk
         else bindR (nested R (FieldOptions_decode R)) (\<lambda>v. cont
           (message\<lparr>FieldDescriptorProto_options := Some v\<rparr>)))
      else if drop_bit 3 tag = 17 then
        (if tag \<noteq> 136 then brk
         else bindR (getR (r_bool R)) (\<lambda>v. cont
           (message\<lparr>FieldDescriptorProto_proto3Optional := Some v\<rparr>)))
      else brk)"

definition FieldDescriptorProto_decode :: "'r reader_ops \<Rightarrow> 'r input \<Rightarrow> nat option
  \<Rightarrow> (jserr + FieldDescriptorProto \<times> 'r) option" where
  "FieldDescriptorProto_decode R = decode_message R
    (FieldDescriptorProto_field R) createBaseFieldDescriptorProto"

definition FieldDescriptorProto_fromJSON :: "js_text \<Rightarrow> jsval
  \<Rightarrow> jserr + FieldDescriptorProto" where
  "FieldDescriptorProto_fromJSON J object =
     bindE (fieldOr object ''name'' (jsString J) '''') (\<lambda>v_name.
     bindE (fieldOr object ''number'' (jsNumber J) (numInt 0)) (\<lambda>v_number.
     bindE (fieldOr object ''label'' fieldDescriptorProto_LabelFromJSON (numInt 1)) (\<lambda>v_label.
     bindE (fieldOr object ''type'' fieldDescriptorProto_TypeFromJSON (numInt 1)) (\<lambda>v_type.
     bindE (fieldOr object ''typeName'' (jsString J) '''') (\<lambda>v_typeName.
     bindE (fieldOr object ''extendee'' (jsString J) '''') (\<lambda>v_extendee.
     bindE (fieldOr object ''defaultValue'' (jsString J) '''') (\<lambda>v_defaultValue.
     bindE (fieldOr object ''oneofIndex'' (jsNumber J) (numInt 0)) (\<lambda>v_oneofIndex.
     bindE (fieldOr object ''jsonName'' (jsString J) '''') (\<lambda>v_jsonName.
     bindE (fieldOpt object ''options'' (FieldOptions_fromJSON J)) (\<lambda>v_options.
     bindE (fieldOr object ''proto3Optional'' jsBoolean False) (\<lambda>v_proto3Optional.
     Inr \<lparr>FieldDescriptorProto_name = Some v_name, FieldDescriptorProto_number = Some v_number,
       FieldDescriptorProto_label = Some v_label, FieldDescriptorProto_type = Some v_type,
         FieldDescriptorProto_typeName = Some v_typeName, FieldDescriptorProto_extendee = Some v_extendee,
           FieldDescriptorProto_defaultValue = Some v_defaultValue,
             FieldDescriptorProto_oneofIndex = Some v_oneofIndex,
               FieldDescriptorProto_jsonName = Some v_jsonName, FieldDescriptorProto_options = v_options,
                 FieldDescriptorProto_proto3Optional = Some v_proto3Optional\<rparr>)))))))))))"

definition FieldDescriptorProto_toJSON :: "FieldDescriptorProto \<Rightarrow> jsval" where
  "FieldDescriptorProto_toJSON message = JObj (
     setProp (differs (FieldDescriptorProto_name message) '''') ''name'' (JStr (the
       (FieldDescriptorProto_name message))) @
     setProp (differs (FieldDescriptorProto_number message) (numInt 0)) ''number'' (JNum (mathRound (the
       (FieldDescriptorProto_number message)))) @
     setProp (differs (FieldDescriptorProto_label message) (numInt 1)) ''label'' (JStr
       (fieldDescriptorProto_LabelToJSON (the (FieldDescriptorProto_label message)))) @
     setProp (differs (FieldDescriptorProto_type message) (numInt 1)) ''type'' (JStr
       (fieldDescriptorProto_TypeToJSON (the (FieldDescriptorProto_type message)))) @
     setProp (differs (FieldDescriptorProto_typeName message) '''') ''typeName'' (JStr (the
       (FieldDescriptorProto_typeName message))) @
     setProp (differs (FieldDescriptorProto_extendee message) '''') ''extendee'' (JStr (the
       (FieldDescriptorProto_extendee message))) @
     setProp (differs (FieldDescriptorProto_defaultValue message) '''') ''defaultValue'' (JStr (the
       (FieldDescriptorProto_defaultValue message))) @
     setProp (differs (FieldDescriptorProto_oneofIndex message) (numInt 0)) ''oneofIndex'' (JNum (mathRound
       (the (FieldDescriptorProto_oneofIndex message)))) @
     setProp (differs (FieldDescriptorProto_jsonName message) '''') ''jsonName'' (JStr (the
       (FieldDescriptorProto_jsonName message))) @
     setOpt ''options'' (map_option FieldOptions_toJSON (FieldDescriptorProto_options message)) @
     setProp (differs (FieldDescriptorProto_proto3Optional message) False) ''proto3Optional'' (JBool (the
       (FieldDescriptorProto_proto3Optional message))))"

record FieldDescriptorProto_partial =
  FieldDescriptorProto_p_name :: "string option"
  FieldDescriptorProto_p_number :: "number option"
  FieldDescriptorProto_p_label :: "number option"
  FieldDescriptorProto_p_type :: "number option"
  FieldDescriptorProto_p_typeName :: "string option"
  FieldDescriptorProto_p_extendee :: "string option"
  FieldDescriptorProto_p_defaultValue :: "string option"
  FieldDescriptorProto_p_oneofIndex :: "number option"
  FieldDescriptorProto_p_jsonName :: "string option"
  FieldDescriptorProto_p_options :: "FieldOptions_partial option"
  FieldDescriptorProto_p_proto3Optional :: "bool option"

definition FieldDescriptorProto_fromPartial :: "FieldDescriptorProto_partial
  \<Rightarrow> FieldDescriptorProto" where
  "FieldDescriptorProto_fromPartial object = createBaseFieldDescriptorProto\<lparr>
     FieldDescriptorProto_name := Some (getOr (FieldDescriptorProto_p_name object) ''''),
     FieldDescriptorProto_number := Some (getOr (FieldDescriptorProto_p_number object) (numInt 0)),
     FieldDescriptorProto_label := Some (getOr (FieldDescriptorProto_p_label object) (numInt 1)),
     FieldDescriptorProto_type := Some (getOr (FieldDescriptorProto_p_type object) (numInt 1)),
     FieldDescriptorProto_typeName := Some (getOr (FieldDescriptorProto_p_typeName object) ''''),
     FieldDescriptorProto_extendee := Some (getOr (FieldDescriptorProto_p_extendee object) ''''),
     FieldDescriptorProto_defaultValue := Some (getOr (FieldDescriptorProto_p_defaultValue object) ''''),
     FieldDescriptorProto_oneofIndex := Some (getOr (FieldDescriptorProto_p_oneofIndex object) (numInt 0)),
     FieldDescriptorProto_jsonName := Some (getOr (FieldDescriptorProto_p_jsonName object) ''''),
     FieldDescriptorProto_options := map_option FieldOptions_fromPartial
       (FieldDescriptorProto_p_options object),
     FieldDescriptorProto_proto3Optional := Some (getOr
       (FieldDescriptorProto_p_proto3Optional object) False)\<rparr>"

definition FieldDescriptorProto_create :: "FieldDescriptorProto_partial option
  \<Rightarrow> FieldDescriptorProto" where
  "FieldDescriptorProto_create base = FieldDescriptorProto_fromPartial (getOr base
     \<lparr>FieldDescriptorProto_p_name = None, FieldDescriptorProto_p_number = None,
       FieldDescriptorProto_p_label = None, FieldDescriptorProto_p_type = None,
         FieldDescriptorProto_p_typeName = None, FieldDescriptorProto_p_extendee = None,
           FieldDescriptorProto_p_defaultValue = None, FieldDescriptorProto_p_oneofIndex = None,
             FieldDescriptorProto_p_jsonName = None, FieldDescriptorProto_p_options = None,
               FieldDescriptorProto_p_proto3Optional = None\<rparr>)"

subsection \<open>\<open>OneofDescriptorProto\<close>\<close>

record OneofDescriptorProto =
  OneofDescriptorProto_name :: "string option"
  OneofDescriptorProto_options :: "OneofOptions option"

definition createBaseOneofDescriptorProto :: OneofDescriptorProto where
  "createBaseOneofDescriptorProto =
     \<lparr>OneofDescriptorProto_name = Some '''', OneofDescriptorProto_options = None\<rparr>"

definition OneofDescriptorProto_encode :: "'w writer_ops \<Rightarrow> OneofDescriptorProto
  \<Rightarrow> 'w \<Rightarrow> jserr + 'w" where
  "OneofDescriptorProto_encode W message = w_all [
     w_when (differs (OneofDescriptorProto_name message) '''')
       (w_seq (w_tag W 10) (w_string W (the (OneofDescriptorProto_name message)))),
     w_opt (\<lambda>v. w_nested W 18 (OneofOptions_encode W v)) (OneofDescriptorProto_options message)]"

definition OneofDescriptorProto_field :: "'r reader_ops \<Rightarrow> u32
  \<Rightarrow> OneofDescriptorProto \<Rightarrow> ('r, OneofDescriptorProto option) rd" where
  "OneofDescriptorProto_field R tag message =
     (if drop_bit 3 tag = 1 then
        (if tag \<noteq> 10 then brk
         else bindR (getR (r_string R)) (\<lambda>v. cont
           (message\<lparr>OneofDescriptorProto_name := Some v\<rparr>)))
      else if drop_bit 3 tag = 2 then
        (if tag \<noteq> 18 then brk
         else bindR (nested R (OneofOptions_decode R)) (\<lambda>v. cont
           (message\<lparr>OneofDescriptorProto_options := Some v\<rparr>)))
      else brk)"

definition OneofDescriptorProto_decode :: "'r reader_ops \<Rightarrow> 'r input \<Rightarrow> nat option
  \<Rightarrow> (jserr + OneofDescriptorProto \<times> 'r) option" where
  "OneofDescriptorProto_decode R = decode_message R
    (OneofDescriptorProto_field R) createBaseOneofDescriptorProto"

definition OneofDescriptorProto_fromJSON :: "js_text \<Rightarrow> jsval
  \<Rightarrow> jserr + OneofDescriptorProto" where
  "OneofDescriptorProto_fromJSON J object =
     bindE (fieldOr object ''name'' (jsString J) '''') (\<lambda>v_name.
     bindE (fieldOpt object ''options'' (OneofOptions_fromJSON J)) (\<lambda>v_options.
     Inr \<lparr>OneofDescriptorProto_name = Some v_name, OneofDescriptorProto_options = v_options\<rparr>))"

definition OneofDescriptorProto_toJSON :: "OneofDescriptorProto \<Rightarrow> jsval" where
  "OneofDescriptorProto_toJSON message = JObj (
     setProp (differs (OneofDescriptorProto_name message) '''') ''name'' (JStr (the
       (OneofDescriptorProto_name message))) @
     setOpt ''options'' (map_option OneofOptions_toJSON (OneofDescriptorProto_options message)))"

record OneofDescriptorProto_partial =
  OneofDescriptorProto_p_name :: "string option"
  OneofDescriptorProto_p_options :: "OneofOptions_partial option"

definition OneofDescriptorProto_fromPartial :: "OneofDescriptorProto_partial
  \<Rightarrow> OneofDescriptorProto" where
  "OneofDescriptorProto_fromPartial object = createBaseOneofDescriptorProto\<lparr>
     OneofDescriptorProto_name := Some (getOr (OneofDescriptorProto_p_name object) ''''),
     OneofDescriptorProto_options := map_option OneofOptions_fromPartial
       (OneofDescriptorProto_p_options object)\<rparr>"

definition OneofDescriptorProto_create :: "OneofDescriptorProto_partial option
  \<Rightarrow> OneofDescriptorProto" where
  "OneofDescriptorProto_create base = OneofDescriptorProto_fromPartial (getOr base
     \<lparr>OneofDescriptorProto_p_name = None, OneofDescriptorProto_p_options = None\<rparr>)"

subsection \<open>\<open>EnumValueDescriptorProto\<close>\<close>

record EnumValueDescriptorProto =
  EnumValueDescriptorProto_name :: "string option"
  EnumValueDescriptorProto_number :: "number option"
  EnumValueDescriptorProto_options :: "EnumValueOptions option"

definition createBaseEnumValueDescriptorProto :: EnumValueDescriptorProto where
  "createBaseEnumValueDescriptorProto =
     \<lparr>EnumValueDescriptorProto_name = Some '''', EnumValueDescriptorProto_number = Some (numInt 0),
       EnumValueDescriptorProto_options = None\<rparr>"

definition EnumValueDescriptorProto_encode :: "'w writer_ops \<Rightarrow> EnumValueDescriptorProto
  \<Rightarrow> 'w \<Rightarrow> jserr + 'w" where
  "EnumValueDescriptorProto_encode W message = w_all [
     w_when (differs (EnumValueDescriptorProto_name message) '''')
       (w_seq (w_tag W 10) (w_string W (the (EnumValueDescriptorProto_name message)))),
     w_when (differs (EnumValueDescriptorProto_number message) (numInt 0))
       (w_seq (w_tag W 16) (w_int32 W (the (EnumValueDescriptorProto_number message)))),
     w_opt (\<lambda>v. w_nested W 26 (EnumValueOptions_encode W v))
       (EnumValueDescriptorProto_options message)]"

definition EnumValueDescriptorProto_field :: "'r reader_ops \<Rightarrow> u32
  \<Rightarrow> EnumValueDescriptorProto \<Rightarrow> ('r, EnumValueDescriptorProto option) rd" where
  "EnumValueDescriptorProto_field R tag message =
     (if drop_bit 3 tag = 1 then
        (if tag \<noteq> 10 then brk
         else bindR (getR (r_string R)) (\<lambda>v. cont
           (message\<lparr>EnumValueDescriptorProto_name := Some v\<rparr>)))
      else if drop_bit 3 tag = 2 then
        (if tag \<noteq> 16 then brk
         else bindR (getR (r_int32 R)) (\<lambda>v. cont
           (message\<lparr>EnumValueDescriptorProto_number := Some (numInt v)\<rparr>)))
      else if drop_bit 3 tag = 3 then
        (if tag \<noteq> 26 then brk
         else bindR (nested R (EnumValueOptions_decode R)) (\<lambda>v. cont
           (message\<lparr>EnumValueDescriptorProto_options := Some v\<rparr>)))
      else brk)"

definition EnumValueDescriptorProto_decode :: "'r reader_ops \<Rightarrow> 'r input
  \<Rightarrow> nat option \<Rightarrow> (jserr + EnumValueDescriptorProto \<times> 'r) option" where
  "EnumValueDescriptorProto_decode R = decode_message R
    (EnumValueDescriptorProto_field R) createBaseEnumValueDescriptorProto"

definition EnumValueDescriptorProto_fromJSON :: "js_text \<Rightarrow> jsval
  \<Rightarrow> jserr + EnumValueDescriptorProto" where
  "EnumValueDescriptorProto_fromJSON J object =
     bindE (fieldOr object ''name'' (jsString J) '''') (\<lambda>v_name.
     bindE (fieldOr object ''number'' (jsNumber J) (numInt 0)) (\<lambda>v_number.
     bindE (fieldOpt object ''options'' (EnumValueOptions_fromJSON J)) (\<lambda>v_options.
     Inr \<lparr>EnumValueDescriptorProto_name = Some v_name,
       EnumValueDescriptorProto_number = Some v_number, EnumValueDescriptorProto_options = v_options\<rparr>)))"

definition EnumValueDescriptorProto_toJSON :: "EnumValueDescriptorProto \<Rightarrow> jsval" where
  "EnumValueDescriptorProto_toJSON message = JObj (
     setProp (differs (EnumValueDescriptorProto_name message) '''') ''name'' (JStr (the
       (EnumValueDescriptorProto_name message))) @
     setProp (differs (EnumValueDescriptorProto_number message) (numInt 0)) ''number'' (JNum (mathRound
       (the (EnumValueDescriptorProto_number message)))) @
     setOpt ''options'' (map_option EnumValueOptions_toJSON (EnumValueDescriptorProto_options message)))"

record EnumValueDescriptorProto_partial =
  EnumValueDescriptorProto_p_name :: "string option"
  EnumValueDescriptorProto_p_number :: "number option"
  EnumValueDescriptorProto_p_options :: "EnumValueOptions_partial option"

definition EnumValueDescriptorProto_fromPartial :: "EnumValueDescriptorProto_partial
  \<Rightarrow> EnumValueDescriptorProto" where
  "EnumValueDescriptorProto_fromPartial object = createBaseEnumValueDescriptorProto\<lparr>
     EnumValueDescriptorProto_name := Some (getOr (EnumValueDescriptorProto_p_name object) ''''),
     EnumValueDescriptorProto_number := Some (getOr (EnumValueDescriptorProto_p_number object) (numInt 0)),
     EnumValueDescriptorProto_options := map_option EnumValueOptions_fromPartial
       (EnumValueDescriptorProto_p_options object)\<rparr>"

definition EnumValueDescriptorProto_create :: "EnumValueDescriptorProto_partial option
  \<Rightarrow> EnumValueDescriptorProto" where
  "EnumValueDescriptorProto_create base = EnumValueDescriptorProto_fromPartial (getOr base
     \<lparr>EnumValueDescriptorProto_p_name = None, EnumValueDescriptorProto_p_number = None,
       EnumValueDescriptorProto_p_options = None\<rparr>)"

subsection \<open>\<open>EnumDescriptorProto\<close>\<close>

record EnumDescriptorProto =
  EnumDescriptorProto_name :: "string option"
  EnumDescriptorProto_value :: "EnumValueDescriptorProto list"
  EnumDescriptorProto_options :: "EnumOptions option"
  EnumDescriptorProto_reservedRange :: "EnumDescriptorProto_EnumReservedRange list"
  EnumDescriptorProto_reservedName :: "string list"
  EnumDescriptorProto_visibility :: "number option"

definition createBaseEnumDescriptorProto :: EnumDescriptorProto where
  "createBaseEnumDescriptorProto =
     \<lparr>EnumDescriptorProto_name = Some '''', EnumDescriptorProto_value = [],
       EnumDescriptorProto_options = None, EnumDescriptorProto_reservedRange = [],
         EnumDescriptorProto_reservedName = [], EnumDescriptorProto_visibility = Some (numInt 0)\<rparr>"

definition EnumDescriptorProto_encode :: "'w writer_ops \<Rightarrow> EnumDescriptorProto \<Rightarrow> 'w
  \<Rightarrow> jserr + 'w" where
  "EnumDescriptorProto_encode W message = w_all [
     w_when (differs (EnumDescriptorProto_name message) '''')
       (w_seq (w_tag W 10) (w_string W (the (EnumDescriptorProto_name message)))),
     w_each (\<lambda>v. w_nested W 18 (EnumValueDescriptorProto_encode W v))
       (EnumDescriptorProto_value message),
     w_opt (\<lambda>v. w_nested W 26 (EnumOptions_encode W v)) (EnumDescriptorProto_options message),
     w_each (\<lambda>v. w_nested W 34 (EnumDescriptorProto_EnumReservedRange_encode W v))
       (EnumDescriptorProto_reservedRange message),
     w_each (\<lambda>v. w_seq (w_tag W 42) (w_string W v)) (EnumDescriptorProto_reservedName message),
     w_when (differs (EnumDescriptorProto_visibility message) (numInt 0))
       (w_seq (w_tag W 48) (w_int32 W (the (EnumDescriptorProto_visibility message))))]"

definition EnumDescriptorProto_field :: "'r reader_ops \<Rightarrow> u32 \<Rightarrow> EnumDescriptorProto
  \<Rightarrow> ('r, EnumDescriptorProto option) rd" where
  "EnumDescriptorProto_field R tag message =
     (if drop_bit 3 tag = 1 then
        (if tag \<noteq> 10 then brk
         else bindR (getR (r_string R)) (\<lambda>v. cont
           (message\<lparr>EnumDescriptorProto_name := Some v\<rparr>)))
      else if drop_bit 3 tag = 2 then
        (if tag \<noteq> 18 then brk
         else bindR (nested R (EnumValueDescriptorProto_decode R)) (\<lambda>v. cont
           (message\<lparr>EnumDescriptorProto_value := EnumDescriptorProto_value message @ [v]\<rparr>)))
      else if drop_bit 3 tag = 3 then
        (if tag \<noteq> 26 then brk
         else bindR (nested R (EnumOptions_decode R)) (\<lambda>v. cont
           (message\<lparr>EnumDescriptorProto_options := Some v\<rparr>)))
      else if drop_bit 3 tag = 4 then
        (if tag \<noteq> 34 then brk
         else bindR (nested R (EnumDescriptorProto_EnumReservedRange_decode R)) (\<lambda>v. cont
           (message\<lparr>EnumDescriptorProto_reservedRange := EnumDescriptorProto_reservedRange message @ [v]\<rparr>)))
      else if drop_bit 3 tag = 5 then
        (if tag \<noteq> 42 then brk
         else bindR (getR (r_string R)) (\<lambda>v. cont
           (message\<lparr>EnumDescriptorProto_reservedName := EnumDescriptorProto_reservedName message @ [v]\<rparr>)))
      else if drop_bit 3 tag = 6 then
        (if tag \<noteq> 48 then brk
         else bindR (getR (r_int32 R)) (\<lambda>v. cont
           (message\<lparr>EnumDescriptorProto_visibility := Some (numInt v)\<rparr>)))
      else brk)"

definition EnumDescriptorProto_decode :: "'r reader_ops \<Rightarrow> 'r input \<Rightarrow> nat option
  \<Rightarrow> (jserr + EnumDescriptorProto \<times> 'r) option" where
  "EnumDescriptorProto_decode R = decode_message R (EnumDescriptorProto_field R) createBaseEnumDescriptorProto"

definition EnumDescriptorProto_fromJSON :: "js_text \<Rightarrow> jsval
  \<Rightarrow> jserr + EnumDescriptorProto" where
  "EnumDescriptorProto_fromJSON J object =
     bindE (fieldOr object ''name'' (jsString J) '''') (\<lambda>v_name.
     bindE (fieldArr object ''value'' (EnumValueDescriptorProto_fromJSON J)) (\<lambda>v_value.
     bindE (fieldOpt object ''options'' (EnumOptions_fromJSON J)) (\<lambda>v_options.
     bindE (fieldArr object ''reservedRange'' (EnumDescriptorProto_EnumReservedRange_fromJSON J))
       (\<lambda>v_reservedRange.
     bindE (fieldArr object ''reservedName'' (\<lambda>e. Inr (jsString J e))) (\<lambda>v_reservedName.
     bindE (fieldOr object ''visibility'' symbolVisibilityFromJSON (numInt 0)) (\<lambda>v_visibility.
     Inr \<lparr>EnumDescriptorProto_name = Some v_name, EnumDescriptorProto_value = v_value,
       EnumDescriptorProto_options = v_options, EnumDescriptorProto_reservedRange = v_reservedRange,
         EnumDescriptorProto_reservedName = v_reservedName,
           EnumDescriptorProto_visibility = Some v_visibility\<rparr>))))))"

definition EnumDescriptorProto_toJSON :: "EnumDescriptorProto \<Rightarrow> jsval" where
  "EnumDescriptorProto_toJSON message = JObj (
     setProp (differs (EnumDescriptorProto_name message) '''') ''name'' (JStr (the
       (EnumDescriptorProto_name message))) @
     setProp (EnumDescriptorProto_value message \<noteq> []) ''value'' (JArr
       (map EnumValueDescriptorProto_toJSON (EnumDescriptorProto_value message))) @
     setOpt ''options'' (map_option EnumOptions_toJSON (EnumDescriptorProto_options message)) @
     setProp (EnumDescriptorProto_reservedRange message \<noteq> []) ''reservedRange'' (JArr
       (map EnumDescriptorProto_EnumReservedRange_toJSON (EnumDescriptorProto_reservedRange message))) @
     setProp (EnumDescriptorProto_reservedName message \<noteq> []) ''reservedName'' (JArr (map JStr
       (EnumDescriptorProto_reservedName message))) @
     setProp (differs (EnumDescriptorProto_visibility message) (numInt 0)) ''visibility'' (JStr
       (symbolVisibilityToJSON (the (EnumDescriptorProto_visibility message)))))"

record EnumDescriptorProto_partial =
  EnumDescriptorProto_p_name :: "string option"
  EnumDescriptorProto_p_value :: "EnumValueDescriptorProto_partial list option"
  EnumDescriptorProto_p_options :: "EnumOptions_partial option"
  EnumDescriptorProto_p_reservedRange :: "EnumDescriptorProto_EnumReservedRange_partial list option"
  EnumDescriptorProto_p_reservedName :: "string list option"
  EnumDescriptorProto_p_visibility :: "number option"

definition EnumDescriptorProto_fromPartial :: "EnumDescriptorProto_partial
  \<Rightarrow> EnumDescriptorProto" where
  "EnumDescriptorProto_fromPartial object = createBaseEnumDescriptorProto\<lparr>
     EnumDescriptorProto_name := Some (getOr (EnumDescriptorProto_p_name object) ''''),
     EnumDescriptorProto_value := getOr (map_option (map EnumValueDescriptorProto_fromPartial)
       (EnumDescriptorProto_p_value object)) [],
     EnumDescriptorProto_options := map_option EnumOptions_fromPartial (EnumDescriptorProto_p_options object),
     EnumDescriptorProto_reservedRange := getOr (map_option
       (map EnumDescriptorProto_EnumReservedRange_fromPartial) (EnumDescriptorProto_p_reservedRange object)) [],
     EnumDescriptorProto_reservedName := getOr (EnumDescriptorProto_p_reservedName object) [],
     EnumDescriptorProto_visibility := Some (getOr (EnumDescriptorProto_p_visibility object)
       (numInt 0))\<rparr>"

definition EnumDescriptorProto_create :: "EnumDescriptorProto_partial option
  \<Rightarrow> EnumDescriptorProto" where
  "EnumDescriptorProto_create base = EnumDescriptorProto_fromPartial (getOr base
     \<lparr>EnumDescriptorProto_p_name = None, EnumDescriptorProto_p_value = None,
       EnumDescriptorProto_p_options = None, EnumDescriptorProto_p_reservedRange = None,
         EnumDescriptorProto_p_reservedName = None, EnumDescriptorProto_p_visibility = None\<rparr>)"

subsection \<open>\<open>MethodDescriptorProto\<close>\<close>

record MethodDescriptorProto =
  MethodDescriptorProto_name :: "string option"
  MethodDescriptorProto_inputType :: "string option"
  MethodDescriptorProto_outputType :: "string option"
  MethodDescriptorProto_options :: "MethodOptions option"
  MethodDescriptorProto_clientStreaming :: "bool option"
  MethodDescriptorProto_serverStreaming :: "bool option"

definition createBaseMethodDescriptorProto :: MethodDescriptorProto where
  "createBaseMethodDescriptorProto =
     \<lparr>MethodDescriptorProto_name = Some '''', MethodDescriptorProto_inputType = Some '''',
       MethodDescriptorProto_outputType = Some '''', MethodDescriptorProto_options = None,
         MethodDescriptorProto_clientStreaming = Some False,
           MethodDescriptorProto_serverStreaming = Some False\<rparr>"

definition MethodDescriptorProto_encode :: "'w writer_ops \<Rightarrow> MethodDescriptorProto
  \<Rightarrow> 'w \<Rightarrow> jserr + 'w" where
  "MethodDescriptorProto_encode W message = w_all [
     w_when (differs (MethodDescriptorProto_name message) '''')
       (w_seq (w_tag W 10) (w_string W (the (MethodDescriptorProto_name message)))),
     w_when (differs (MethodDescriptorProto_inputType message) '''')
       (w_seq (w_tag W 18) (w_string W (the (MethodDescriptorProto_inputType message)))),
     w_when (differs (MethodDescriptorProto_outputType message) '''')
       (w_seq (w_tag W 26) (w_string W (the (MethodDescriptorProto_outputType message)))),
     w_opt (\<lambda>v. w_nested W 34 (MethodOptions_encode W v)) (MethodDescriptorProto_options message),
     w_when (differs (MethodDescriptorProto_clientStreaming message) False)
       (w_seq (w_tag W 40) (w_bool W (the (MethodDescriptorProto_clientStreaming message)))),
     w_when (differs (MethodDescriptorProto_serverStreaming message) False)
       (w_seq (w_tag W 48) (w_bool W (the (MethodDescriptorProto_serverStreaming message))))]"

definition MethodDescriptorProto_field :: "'r reader_ops \<Rightarrow> u32
  \<Rightarrow> MethodDescriptorProto \<Rightarrow> ('r, MethodDescriptorProto option) rd" where
  "MethodDescriptorProto_field R tag message =
     (if drop_bit 3 tag = 1 then
        (if tag \<noteq> 10 then brk
         else bindR (getR (r_string R)) (\<lambda>v. cont
           (message\<lparr>MethodDescriptorProto_name := Some v\<rparr>)))
      else if drop_bit 3 tag = 2 then
        (if tag \<noteq> 18 then brk
         else bindR (getR (r_string R)) (\<lambda>v. cont
           (message\<lparr>MethodDescriptorProto_inputType := Some v\<rparr>)))
      else if drop_bit 3 tag = 3 then
        (if tag \<noteq> 26 then brk
         else bindR (getR (r_string R)) (\<lambda>v. cont
           (message\<lparr>MethodDescriptorProto_outputType := Some v\<rparr>)))
      else if drop_bit 3 tag = 4 then
        (if tag \<noteq> 34 then brk
         else bindR (nested R (MethodOptions_decode R)) (\<lambda>v. cont
           (message\<lparr>MethodDescriptorProto_options := Some v\<rparr>)))
      else if drop_bit 3 tag = 5 then
        (if tag \<noteq> 40 then brk
         else bindR (getR (r_bool R)) (\<lambda>v. cont
           (message\<lparr>MethodDescriptorProto_clientStreaming := Some v\<rparr>)))
      else if drop_bit 3 tag = 6 then
        (if tag \<noteq> 48 then brk
         else bindR (getR (r_bool R)) (\<lambda>v. cont
           (message\<lparr>MethodDescriptorProto_serverStreaming := Some v\<rparr>)))
      else brk)"

definition MethodDescriptorProto_decode :: "'r reader_ops \<Rightarrow> 'r input \<Rightarrow> nat option
  \<Rightarrow> (jserr + MethodDescriptorProto \<times> 'r) option" where
  "MethodDescriptorProto_decode R = decode_message R
    (MethodDescriptorProto_field R) createBaseMethodDescriptorProto"

definition MethodDescriptorProto_fromJSON :: "js_text \<Rightarrow> jsval
  \<Rightarrow> jserr + MethodDescriptorProto" where
  "MethodDescriptorProto_fromJSON J object =
     bindE (fieldOr object ''name'' (jsString J) '''') (\<lambda>v_name.
     bindE (fieldOr object ''inputType'' (jsString J) '''') (\<lambda>v_inputType.
     bindE (fieldOr object ''outputType'' (jsString J) '''') (\<lambda>v_outputType.
     bindE (fieldOpt object ''options'' (MethodOptions_fromJSON J)) (\<lambda>v_options.
     bindE (fieldOr object ''clientStreaming'' jsBoolean False) (\<lambda>v_clientStreaming.
     bindE (fieldOr object ''serverStreaming'' jsBoolean False) (\<lambda>v_serverStreaming.
     Inr \<lparr>MethodDescriptorProto_name = Some v_name,
       MethodDescriptorProto_inputType = Some v_inputType,
         MethodDescriptorProto_outputType = Some v_outputType, MethodDescriptorProto_options = v_options,
           MethodDescriptorProto_clientStreaming = Some v_clientStreaming,
             MethodDescriptorProto_serverStreaming = Some v_serverStreaming\<rparr>))))))"

definition MethodDescriptorProto_toJSON :: "MethodDescriptorProto \<Rightarrow> jsval" where
  "MethodDescriptorProto_toJSON message = JObj (
     setProp (differs (MethodDescriptorProto_name message) '''') ''name'' (JStr (the
       (MethodDescriptorProto_name message))) @
     setProp (differs (MethodDescriptorProto_inputType message) '''') ''inputType'' (JStr (the
       (MethodDescriptorProto_inputType message))) @
     setProp (differs (MethodDescriptorProto_outputType message) '''') ''outputType'' (JStr (the
       (MethodDescriptorProto_outputType message))) @
     setOpt ''options'' (map_option MethodOptions_toJSON (MethodDescriptorProto_options message)) @
     setProp (differs (MethodDescriptorProto_clientStreaming message) False) ''clientStreaming'' (JBool
       (the (MethodDescriptorProto_clientStreaming message))) @
     setProp (differs (MethodDescriptorProto_serverStreaming message) False) ''serverStreaming'' (JBool
       (the (MethodDescriptorProto_serverStreaming message))))"

record MethodDescriptorProto_partial =
  MethodDescriptorProto_p_name :: "string option"
  MethodDescriptorProto_p_inputType :: "string option"
  MethodDescriptorProto_p_outputType :: "string option"
  MethodDescriptorProto_p_options :: "MethodOptions_partial option"
  MethodDescriptorProto_p_clientStreaming :: "bool option"
  MethodDescriptorProto_p_serverStreaming :: "bool option"

definition MethodDescriptorProto_fromPartial :: "MethodDescriptorProto_partial
  \<Rightarrow> MethodDescriptorProto" where
  "MethodDescriptorProto_fromPartial object = createBaseMethodDescriptorProto\<lparr>
     MethodDescriptorProto_name := Some (getOr (MethodDescriptorProto_p_name object) ''''),
     MethodDescriptorProto_inputType := Some (getOr (MethodDescriptorProto_p_inputType object) ''''),
     MethodDescriptorProto_outputType := Some (getOr (MethodDescriptorProto_p_outputType object) ''''),
     MethodDescriptorProto_options := map_option MethodOptions_fromPartial
       (MethodDescriptorProto_p_options object),
     MethodDescriptorProto_clientStreaming := Some (getOr
       (MethodDescriptorProto_p_clientStreaming object) False),
     MethodDescriptorProto_serverStreaming := Some (getOr
       (MethodDescriptorProto_p_serverStreaming object) False)\<rparr>"

definition MethodDescriptorProto_create :: "MethodDescriptorProto_partial option
  \<Rightarrow> MethodDescriptorProto" where
  "MethodDescriptorProto_create base = MethodDescriptorProto_fromPartial (getOr base
     \<lparr>MethodDescriptorProto_p_name = None, MethodDescriptorProto_p_inputType = None,
       MethodDescriptorProto_p_outputType = None, MethodDescriptorProto_p_options = None,
         MethodDescriptorProto_p_clientStreaming = None,
           MethodDescriptorProto_p_serverStreaming = None\<rparr>)"

subsection \<open>\<open>ServiceDescriptorProto\<close>\<close>

record ServiceDescriptorProto =
  ServiceDescriptorProto_name :: "string option"
  ServiceDescriptorProto_method :: "MethodDescriptorProto list"
  ServiceDescriptorProto_options :: "ServiceOptions option"

definition createBaseServiceDescriptorProto :: ServiceDescriptorProto where
  "createBaseServiceDescriptorProto =
     \<lparr>ServiceDescriptorProto_name = Some '''', ServiceDescriptorProto_method = [],
       ServiceDescriptorProto_options = None\<rparr>"

definition ServiceDescriptorProto_encode :: "'w writer_ops \<Rightarrow> ServiceDescriptorProto
  \<Rightarrow> 'w \<Rightarrow> jserr + 'w" where
  "ServiceDescriptorProto_encode W message = w_all [
     w_when (differs (ServiceDescriptorProto_name message) '''')
       (w_seq (w_tag W 10) (w_string W (the (ServiceDescriptorProto_name message)))),
     w_each (\<lambda>v. w_nested W 18 (MethodDescriptorProto_encode W v))
       (ServiceDescriptorProto_method message),
     w_opt (\<lambda>v. w_nested W 26 (ServiceOptions_encode W v)) (ServiceDescriptorProto_options message)]"

definition ServiceDescriptorProto_field :: "'r reader_ops \<Rightarrow> u32
  \<Rightarrow> ServiceDescriptorProto \<Rightarrow> ('r, ServiceDescriptorProto option) rd" where
  "ServiceDescriptorProto_field R tag message =
     (if drop_bit 3 tag = 1 then
        (if tag \<noteq> 10 then brk
         else bindR (getR (r_string R)) (\<lambda>v. cont
           (message\<lparr>ServiceDescriptorProto_name := Some v\<rparr>)))
      else if drop_bit 3 tag = 2 then
        (if tag \<noteq> 18 then brk
         else bindR (nested R (MethodDescriptorProto_decode R)) (\<lambda>v. cont
           (message\<lparr>ServiceDescriptorProto_method := ServiceDescriptorProto_method message @ [v]\<rparr>)))
      else if drop_bit 3 tag = 3 then
        (if tag \<noteq> 26 then brk
         else bindR (nested R (ServiceOptions_decode R)) (\<lambda>v. cont
           (message\<lparr>ServiceDescriptorProto_options := Some v\<rparr>)))
      else brk)"

definition ServiceDescriptorProto_decode :: "'r reader_ops \<Rightarrow> 'r input \<Rightarrow> nat option
  \<Rightarrow> (jserr + ServiceDescriptorProto \<times> 'r) option" where
  "ServiceDescriptorProto_decode R = decode_message R
    (ServiceDescriptorProto_field R) createBaseServiceDescriptorProto"

definition ServiceDescriptorProto_fromJSON :: "js_text \<Rightarrow> jsval
  \<Rightarrow> jserr + ServiceDescriptorProto" where
  "ServiceDescriptorProto_fromJSON J object =
     bindE (fieldOr object ''name'' (jsString J) '''') (\<lambda>v_name.
     bindE (fieldArr object ''method'' (MethodDescriptorProto_fromJSON J)) (\<lambda>v_method.
     bindE (fieldOpt object ''options'' (ServiceOptions_fromJSON J)) (\<lambda>v_options.
     Inr \<lparr>ServiceDescriptorProto_name = Some v_name, ServiceDescriptorProto_method = v_method,
       ServiceDescriptorProto_options = v_options\<rparr>)))"

definition ServiceDescriptorProto_toJSON :: "ServiceDescriptorProto \<Rightarrow> jsval" where
  "ServiceDescriptorProto_toJSON message = JObj (
     setProp (differs (ServiceDescriptorProto_name message) '''') ''name'' (JStr (the
       (ServiceDescriptorProto_name message))) @
     setProp (ServiceDescriptorProto_method message \<noteq> []) ''method'' (JArr
       (map MethodDescriptorProto_toJSON (ServiceDescriptorProto_method message))) @
     setOpt ''options'' (map_option ServiceOptions_toJSON (ServiceDescriptorProto_options message)))"

record ServiceDescriptorProto_partial =
  ServiceDescriptorProto_p_name :: "string option"
  ServiceDescriptorProto_p_method :: "MethodDescriptorProto_partial list option"
  ServiceDescriptorProto_p_options :: "ServiceOptions_partial option"

definition ServiceDescriptorProto_fromPartial :: "ServiceDescriptorProto_partial
  \<Rightarrow> ServiceDescriptorProto" where
  "ServiceDescriptorProto_fromPartial object = createBaseServiceDescriptorProto\<lparr>
     ServiceDescriptorProto_name := Some (getOr (ServiceDescriptorProto_p_name object) ''''),
     ServiceDescriptorProto_method := getOr (map_option (map MethodDescriptorProto_fromPartial)
       (ServiceDescriptorProto_p_method object)) [],
     ServiceDescriptorProto_options := map_option ServiceOptions_fromPartial
       (ServiceDescriptorProto_p_options object)\<rparr>"

definition ServiceDescriptorProto_create :: "ServiceDescriptorProto_partial option
  \<Rightarrow> ServiceDescriptorProto" where
  "ServiceDescriptorProto_create base = ServiceDescriptorProto_fromPartial (getOr base
     \<lparr>ServiceDescriptorProto_p_name = None, ServiceDescriptorProto_p_method = None,
       ServiceDescriptorProto_p_options = None\<rparr>)"

subsection \<open>\<open>DescriptorProto_ExtensionRange\<close>\<close>

record DescriptorProto_ExtensionRange =
  DescriptorProto_ExtensionRange_start :: "number option"
  DescriptorProto_ExtensionRange_end :: "number option"
  DescriptorProto_ExtensionRange_options :: "ExtensionRangeOptions option"

definition createBaseDescriptorProto_ExtensionRange :: DescriptorProto_ExtensionRange where
  "createBaseDescriptorProto_ExtensionRange =
     \<lparr>DescriptorProto_ExtensionRange_start = Some (numInt 0),
       DescriptorProto_ExtensionRange_end = Some (numInt 0),
         DescriptorProto_ExtensionRange_options = None\<rparr>"

definition DescriptorProto_ExtensionRange_encode :: "'w writer_ops
  \<Rightarrow> DescriptorProto_ExtensionRange \<Rightarrow> 'w \<Rightarrow> jserr + 'w" where
  "DescriptorProto_ExtensionRange_encode W message = w_all [
     w_when (differs (DescriptorProto_ExtensionRange_start message) (numInt 0))
       (w_seq (w_tag W 8) (w_int32 W (the (DescriptorProto_ExtensionRange_start message)))),
     w_when (differs (DescriptorProto_ExtensionRange_end message) (numInt 0))
       (w_seq (w_tag W 16) (w_int32 W (the (DescriptorProto_ExtensionRange_end message)))),
     w_opt (\<lambda>v. w_nested W 26 (ExtensionRangeOptions_encode W v))
       (DescriptorProto_ExtensionRange_options message)]"

definition DescriptorProto_ExtensionRange_field :: "'r reader_ops \<Rightarrow> u32
  \<Rightarrow> DescriptorProto_ExtensionRange \<Rightarrow> ('r,
    DescriptorProto_ExtensionRange option) rd" where
  "DescriptorProto_ExtensionRange_field R tag message =
     (if drop_bit 3 tag = 1 then
        (if tag \<noteq> 8 then brk
         else bindR (getR (r_int32 R)) (\<lambda>v. cont
           (message\<lparr>DescriptorProto_ExtensionRange_start := Some (numInt v)\<rparr>)))
      else if drop_bit 3 tag = 2 then
        (if tag \<noteq> 16 then brk
         else bindR (getR (r_int32 R)) (\<lambda>v. cont
           (message\<lparr>DescriptorProto_ExtensionRange_end := Some (numInt v)\<rparr>)))
      else if drop_bit 3 tag = 3 then
        (if tag \<noteq> 26 then brk
         else bindR (nested R (ExtensionRangeOptions_decode R)) (\<lambda>v. cont
           (message\<lparr>DescriptorProto_ExtensionRange_options := Some v\<rparr>)))
      else brk)"

definition DescriptorProto_ExtensionRange_decode :: "'r reader_ops \<Rightarrow> 'r input
  \<Rightarrow> nat option \<Rightarrow> (jserr + DescriptorProto_ExtensionRange \<times> 'r) option" where
  "DescriptorProto_ExtensionRange_decode R = decode_message R
    (DescriptorProto_ExtensionRange_field R) createBaseDescriptorProto_ExtensionRange"

definition DescriptorProto_ExtensionRange_fromJSON :: "js_text \<Rightarrow> jsval
  \<Rightarrow> jserr + DescriptorProto_ExtensionRange" where
  "DescriptorProto_ExtensionRange_fromJSON J object =
     bindE (fieldOr object ''start'' (jsNumber J) (numInt 0)) (\<lambda>v_start.
     bindE (fieldOr object ''end'' (jsNumber J) (numInt 0)) (\<lambda>v_end.
     bindE (fieldOpt object ''options'' (ExtensionRangeOptions_fromJSON J)) (\<lambda>v_options.
     Inr \<lparr>DescriptorProto_ExtensionRange_start = Some v_start,
       DescriptorProto_ExtensionRange_end = Some v_end,
         DescriptorProto_ExtensionRange_options = v_options\<rparr>)))"

definition DescriptorProto_ExtensionRange_toJSON :: "DescriptorProto_ExtensionRange \<Rightarrow> jsval" where
  "DescriptorProto_ExtensionRange_toJSON message = JObj (
     setProp (differs (DescriptorProto_ExtensionRange_start message) (numInt 0)) ''start'' (JNum (mathRound
       (the (DescriptorProto_ExtensionRange_start message)))) @
     setProp (differs (DescriptorProto_ExtensionRange_end message) (numInt 0)) ''end'' (JNum (mathRound
       (the (DescriptorProto_ExtensionRange_end message)))) @
     setOpt ''options'' (map_option ExtensionRangeOptions_toJSON
       (DescriptorProto_ExtensionRange_options message)))"

record DescriptorProto_ExtensionRange_partial =
  DescriptorProto_ExtensionRange_p_start :: "number option"
  DescriptorProto_ExtensionRange_p_end :: "number option"
  DescriptorProto_ExtensionRange_p_options :: "ExtensionRangeOptions_partial option"

definition DescriptorProto_ExtensionRange_fromPartial :: "DescriptorProto_ExtensionRange_partial
  \<Rightarrow> DescriptorProto_ExtensionRange" where
  "DescriptorProto_ExtensionRange_fromPartial object = createBaseDescriptorProto_ExtensionRange\<lparr>
     DescriptorProto_ExtensionRange_start := Some (getOr (DescriptorProto_ExtensionRange_p_start object)
       (numInt 0)),
     DescriptorProto_ExtensionRange_end := Some (getOr (DescriptorProto_ExtensionRange_p_end object)
       (numInt 0)),
     DescriptorProto_ExtensionRange_options := map_option ExtensionRangeOptions_fromPartial
       (DescriptorProto_ExtensionRange_p_options object)\<rparr>"

definition DescriptorProto_ExtensionRange_create :: "DescriptorProto_ExtensionRange_partial option
  \<Rightarrow> DescriptorProto_ExtensionRange" where
  "DescriptorProto_ExtensionRange_create base = DescriptorProto_ExtensionRange_fromPartial (getOr base
     \<lparr>DescriptorProto_ExtensionRange_p_start = None, DescriptorProto_ExtensionRange_p_end = None,
       DescriptorProto_ExtensionRange_p_options = None\<rparr>)"

end
