(* ===== verification/File_Messages.thy ===== *)
theory File_Messages
  imports File_Options_Messages Proto_Messages Wire_Laws
begin

unbundle bit_operations_syntax

text \<open>
  The descriptors of messages and files of \<open>gen/ts/google/protobuf/descriptor.ts\<close>: the recursive message
  \<open>DescriptorProto\<close>, a datatype with one setter for each assignment of \<open>decode\<close>, and on top of it
  \<open>FileDescriptorProto\<close> and \<open>FileDescriptorSet\<close>.
\<close>

section \<open>Messages\<close>

subsection \<open>\<open>DescriptorProto\<close>\<close>

datatype DescriptorProto = DescriptorProto
  (DescriptorProto_name: "string option")
  (DescriptorProto_field: "FieldDescriptorProto list")
  (DescriptorProto_extension: "FieldDescriptorProto list")
  (DescriptorProto_nestedType: "DescriptorProto list")
  (DescriptorProto_enumType: "EnumDescriptorProto list")
  (DescriptorProto_extensionRange: "DescriptorProto_ExtensionRange list")
  (DescriptorProto_oneofDecl: "OneofDescriptorProto list")
  (DescriptorProto_options: "MessageOptions option")
  (DescriptorProto_reservedRange: "DescriptorProto_ReservedRange list")
  (DescriptorProto_reservedName: "string list")
  (DescriptorProto_visibility: "number option")

fun DescriptorProto_set_name :: "string option \<Rightarrow> DescriptorProto
  \<Rightarrow> DescriptorProto" where
  "DescriptorProto_set_name x (DescriptorProto a b c d e f g h i j k) = DescriptorProto x b c d e f g h i j k"

fun DescriptorProto_set_field :: "FieldDescriptorProto list \<Rightarrow> DescriptorProto
  \<Rightarrow> DescriptorProto" where
  "DescriptorProto_set_field x (DescriptorProto a b c d e f g h i j k) = DescriptorProto a x c d e f g h i j k"

fun DescriptorProto_set_extension :: "FieldDescriptorProto list \<Rightarrow> DescriptorProto
  \<Rightarrow> DescriptorProto" where
  "DescriptorProto_set_extension x
    (DescriptorProto a b c d e f g h i j k) = DescriptorProto a b x d e f g h i j k"

fun DescriptorProto_set_nestedType :: "DescriptorProto list \<Rightarrow> DescriptorProto
  \<Rightarrow> DescriptorProto" where
  "DescriptorProto_set_nestedType x
    (DescriptorProto a b c d e f g h i j k) = DescriptorProto a b c x e f g h i j k"

fun DescriptorProto_set_enumType :: "EnumDescriptorProto list \<Rightarrow> DescriptorProto
  \<Rightarrow> DescriptorProto" where
  "DescriptorProto_set_enumType x
    (DescriptorProto a b c d e f g h i j k) = DescriptorProto a b c d x f g h i j k"

fun DescriptorProto_set_extensionRange :: "DescriptorProto_ExtensionRange list
  \<Rightarrow> DescriptorProto \<Rightarrow> DescriptorProto" where
  "DescriptorProto_set_extensionRange x
    (DescriptorProto a b c d e f g h i j k) = DescriptorProto a b c d e x g h i j k"

fun DescriptorProto_set_oneofDecl :: "OneofDescriptorProto list \<Rightarrow> DescriptorProto
  \<Rightarrow> DescriptorProto" where
  "DescriptorProto_set_oneofDecl x
    (DescriptorProto a b c d e f g h i j k) = DescriptorProto a b c d e f x h i j k"

fun DescriptorProto_set_options :: "MessageOptions option \<Rightarrow> DescriptorProto
  \<Rightarrow> DescriptorProto" where
  "DescriptorProto_set_options x
    (DescriptorProto a b c d e f g h i j k) = DescriptorProto a b c d e f g x i j k"

fun DescriptorProto_set_reservedRange :: "DescriptorProto_ReservedRange list \<Rightarrow> DescriptorProto
  \<Rightarrow> DescriptorProto" where
  "DescriptorProto_set_reservedRange x
    (DescriptorProto a b c d e f g h i j k) = DescriptorProto a b c d e f g h x j k"

fun DescriptorProto_set_reservedName :: "string list \<Rightarrow> DescriptorProto
  \<Rightarrow> DescriptorProto" where
  "DescriptorProto_set_reservedName x
    (DescriptorProto a b c d e f g h i j k) = DescriptorProto a b c d e f g h i x k"

fun DescriptorProto_set_visibility :: "number option \<Rightarrow> DescriptorProto
  \<Rightarrow> DescriptorProto" where
  "DescriptorProto_set_visibility x
    (DescriptorProto a b c d e f g h i j k) = DescriptorProto a b c d e f g h i j x"

definition createBaseDescriptorProto :: DescriptorProto where
  "createBaseDescriptorProto = DescriptorProto (Some '''') [] [] [] [] [] [] None [] [] (Some (numInt 0))"

fun DescriptorProto_encode :: "'w writer_ops \<Rightarrow> DescriptorProto \<Rightarrow> 'w
  \<Rightarrow> jserr + 'w" where
  "DescriptorProto_encode W
    (DescriptorProto v_name v_field v_extension v_nestedType v_enumType v_extensionRange v_oneofDecl v_options v_reservedRange v_reservedName v_visibility) = w_all [
     w_when (differs v_name '''') (w_seq (w_tag W 10) (w_string W (the v_name))),
     w_each (\<lambda>v. w_nested W 18 (FieldDescriptorProto_encode W v)) v_field,
     w_each (\<lambda>v. w_nested W 50 (FieldDescriptorProto_encode W v)) v_extension,
     w_each (\<lambda>v. w_nested W 26 (DescriptorProto_encode W v)) v_nestedType,
     w_each (\<lambda>v. w_nested W 34 (EnumDescriptorProto_encode W v)) v_enumType,
     w_each (\<lambda>v. w_nested W 42 (DescriptorProto_ExtensionRange_encode W v)) v_extensionRange,
     w_each (\<lambda>v. w_nested W 66 (OneofDescriptorProto_encode W v)) v_oneofDecl,
     w_opt (\<lambda>v. w_nested W 58 (MessageOptions_encode W v)) v_options,
     w_each (\<lambda>v. w_nested W 74 (DescriptorProto_ReservedRange_encode W v)) v_reservedRange,
     w_each (\<lambda>v. w_seq (w_tag W 82) (w_string W v)) v_reservedName,
     w_when (differs v_visibility (numInt 0)) (w_seq (w_tag W 88) (w_int32 W (the v_visibility)))]"

text \<open>The nested decoder is the argument \<open>dec\<close>,
  the recursion is closed by \<open>DescriptorProto_decode\<close>.\<close>

definition DescriptorProto_switch ::
    "'r reader_ops \<Rightarrow> ('r input \<Rightarrow> nat option \<Rightarrow>
      (jserr + DescriptorProto \<times> 'r) option) \<Rightarrow> u32 \<Rightarrow> DescriptorProto
     \<Rightarrow> ('r, DescriptorProto option) rd" where
  "DescriptorProto_switch R dec tag message =
     (if drop_bit 3 tag = 1 then
        (if tag \<noteq> 10 then brk
         else bindR (getR (r_string R)) (\<lambda>v. cont (DescriptorProto_set_name (Some v) message)))
      else if drop_bit 3 tag = 2 then
        (if tag \<noteq> 18 then brk
         else bindR (nested R (FieldDescriptorProto_decode R)) (\<lambda>v. cont (DescriptorProto_set_field
           (DescriptorProto_field message @ [v]) message)))
      else if drop_bit 3 tag = 6 then
        (if tag \<noteq> 50 then brk
         else bindR (nested R (FieldDescriptorProto_decode R)) (\<lambda>v. cont
           (DescriptorProto_set_extension (DescriptorProto_extension message @ [v]) message)))
      else if drop_bit 3 tag = 3 then
        (if tag \<noteq> 26 then brk
         else bindR (nested R dec) (\<lambda>v. cont (DescriptorProto_set_nestedType
           (DescriptorProto_nestedType message @ [v]) message)))
      else if drop_bit 3 tag = 4 then
        (if tag \<noteq> 34 then brk
         else bindR (nested R (EnumDescriptorProto_decode R)) (\<lambda>v. cont
           (DescriptorProto_set_enumType (DescriptorProto_enumType message @ [v]) message)))
      else if drop_bit 3 tag = 5 then
        (if tag \<noteq> 42 then brk
         else bindR (nested R (DescriptorProto_ExtensionRange_decode R)) (\<lambda>v. cont
           (DescriptorProto_set_extensionRange (DescriptorProto_extensionRange message @ [v]) message)))
      else if drop_bit 3 tag = 8 then
        (if tag \<noteq> 66 then brk
         else bindR (nested R (OneofDescriptorProto_decode R)) (\<lambda>v. cont
           (DescriptorProto_set_oneofDecl (DescriptorProto_oneofDecl message @ [v]) message)))
      else if drop_bit 3 tag = 7 then
        (if tag \<noteq> 58 then brk
         else bindR (nested R (MessageOptions_decode R)) (\<lambda>v. cont (DescriptorProto_set_options
           (Some v) message)))
      else if drop_bit 3 tag = 9 then
        (if tag \<noteq> 74 then brk
         else bindR (nested R (DescriptorProto_ReservedRange_decode R)) (\<lambda>v. cont
           (DescriptorProto_set_reservedRange (DescriptorProto_reservedRange message @ [v]) message)))
      else if drop_bit 3 tag = 10 then
        (if tag \<noteq> 82 then brk
         else bindR (getR (r_string R)) (\<lambda>v. cont (DescriptorProto_set_reservedName
           (DescriptorProto_reservedName message @ [v]) message)))
      else if drop_bit 3 tag = 11 then
        (if tag \<noteq> 88 then brk
         else bindR (getR (r_int32 R)) (\<lambda>v. cont (DescriptorProto_set_visibility (Some
           (numInt v)) message)))
      else brk)"

lemma DescriptorProto_switch_mono [partial_function_mono]:
  assumes "\<And>i l. mono_option (\<lambda>f. dec f i l)"
  shows "mono_option (\<lambda>f. DescriptorProto_switch R (dec f) tag message r)"
proof (cases "tag = 26")
  case True
  have "mono_option (\<lambda>f. bindR (nested R (dec f)) (\<lambda>v. cont
    (g v)) r)" for g :: "DescriptorProto \<Rightarrow> DescriptorProto"
    by (intro bindR_mono nested_mono assms option.const_mono)
  with True show ?thesis by (simp add: DescriptorProto_switch_def)
next
  case False
  then have "DescriptorProto_switch R (dec f) tag message r = DescriptorProto_switch R
    (\<lambda>i l. None) tag message r" for f
    by (simp add: DescriptorProto_switch_def)
  then show ?thesis by (simp add: option.const_mono)
qed

partial_function (option) DescriptorProto_decode ::
    "'r reader_ops \<Rightarrow> 'r input \<Rightarrow> nat option \<Rightarrow>
      (jserr + DescriptorProto \<times> 'r) option" where
  "DescriptorProto_decode R input len =
     decode_message R (DescriptorProto_switch R (DescriptorProto_decode R)) createBaseDescriptorProto input len"

function DescriptorProto_fromJSON :: "js_text \<Rightarrow> jsval \<Rightarrow> jserr + DescriptorProto" where
  "DescriptorProto_fromJSON J object =
     bindE (fieldOr object ''name'' (jsString J) '''') (\<lambda>v_name.
     bindE (fieldArr object ''field'' (FieldDescriptorProto_fromJSON J)) (\<lambda>v_field.
     bindE (fieldArr object ''extension'' (FieldDescriptorProto_fromJSON J)) (\<lambda>v_extension.
     bindE (fieldArr object ''nestedType'' (DescriptorProto_fromJSON J)) (\<lambda>v_nestedType.
     bindE (fieldArr object ''enumType'' (EnumDescriptorProto_fromJSON J)) (\<lambda>v_enumType.
     bindE (fieldArr object ''extensionRange'' (DescriptorProto_ExtensionRange_fromJSON J))
       (\<lambda>v_extensionRange.
     bindE (fieldArr object ''oneofDecl'' (OneofDescriptorProto_fromJSON J)) (\<lambda>v_oneofDecl.
     bindE (fieldOpt object ''options'' (MessageOptions_fromJSON J)) (\<lambda>v_options.
     bindE (fieldArr object ''reservedRange'' (DescriptorProto_ReservedRange_fromJSON J))
       (\<lambda>v_reservedRange.
     bindE (fieldArr object ''reservedName'' (\<lambda>e. Inr (jsString J e))) (\<lambda>v_reservedName.
     bindE (fieldOr object ''visibility'' symbolVisibilityFromJSON (numInt 0)) (\<lambda>v_visibility.
     Inr (DescriptorProto (Some v_name) v_field v_extension v_nestedType v_enumType v_extensionRange v_oneofDecl v_options v_reservedRange v_reservedName (Some v_visibility)))))))))))))"
  by pat_completeness auto
termination
  by (relation "measure (\<lambda>(J, object). size object)") (auto dest: size_getPropOpt)

declare DescriptorProto_fromJSON.simps [simp del]

fun DescriptorProto_toJSON :: "DescriptorProto \<Rightarrow> jsval" where
  "DescriptorProto_toJSON
    (DescriptorProto v_name v_field v_extension v_nestedType v_enumType v_extensionRange v_oneofDecl v_options v_reservedRange v_reservedName v_visibility) = JObj (
     setProp (differs v_name '''') ''name'' (JStr (the v_name)) @
     setProp (v_field \<noteq> []) ''field'' (JArr (map FieldDescriptorProto_toJSON v_field)) @
     setProp (v_extension \<noteq> []) ''extension'' (JArr (map FieldDescriptorProto_toJSON v_extension)) @
     setProp (v_nestedType \<noteq> []) ''nestedType'' (JArr (map DescriptorProto_toJSON v_nestedType)) @
     setProp (v_enumType \<noteq> []) ''enumType'' (JArr (map EnumDescriptorProto_toJSON v_enumType)) @
     setProp (v_extensionRange \<noteq> []) ''extensionRange'' (JArr
       (map DescriptorProto_ExtensionRange_toJSON v_extensionRange)) @
     setProp (v_oneofDecl \<noteq> []) ''oneofDecl'' (JArr (map OneofDescriptorProto_toJSON v_oneofDecl)) @
     setOpt ''options'' (map_option MessageOptions_toJSON v_options) @
     setProp (v_reservedRange \<noteq> []) ''reservedRange'' (JArr
       (map DescriptorProto_ReservedRange_toJSON v_reservedRange)) @
     setProp (v_reservedName \<noteq> []) ''reservedName'' (JArr (map JStr v_reservedName)) @
     setProp (differs v_visibility (numInt 0)) ''visibility'' (JStr (symbolVisibilityToJSON
       (the v_visibility))))"

datatype DescriptorProto_partial = DescriptorProto_partial
  (DescriptorProto_p_name: "string option")
  (DescriptorProto_p_field: "FieldDescriptorProto_partial list option")
  (DescriptorProto_p_extension: "FieldDescriptorProto_partial list option")
  (DescriptorProto_p_nestedType: "DescriptorProto_partial list option")
  (DescriptorProto_p_enumType: "EnumDescriptorProto_partial list option")
  (DescriptorProto_p_extensionRange: "DescriptorProto_ExtensionRange_partial list option")
  (DescriptorProto_p_oneofDecl: "OneofDescriptorProto_partial list option")
  (DescriptorProto_p_options: "MessageOptions_partial option")
  (DescriptorProto_p_reservedRange: "DescriptorProto_ReservedRange_partial list option")
  (DescriptorProto_p_reservedName: "string list option")
  (DescriptorProto_p_visibility: "number option")

fun DescriptorProto_fromPartial :: "DescriptorProto_partial \<Rightarrow> DescriptorProto" where
  "DescriptorProto_fromPartial
    (DescriptorProto_partial v_name v_field v_extension v_nestedType v_enumType v_extensionRange v_oneofDecl v_options v_reservedRange v_reservedName v_visibility) = DescriptorProto
     (Some (getOr v_name ''''))
     (getOr (map_option (map FieldDescriptorProto_fromPartial) v_field) [])
     (getOr (map_option (map FieldDescriptorProto_fromPartial) v_extension) [])
     (getOr (map_option (map DescriptorProto_fromPartial) v_nestedType) [])
     (getOr (map_option (map EnumDescriptorProto_fromPartial) v_enumType) [])
     (getOr (map_option (map DescriptorProto_ExtensionRange_fromPartial) v_extensionRange) [])
     (getOr (map_option (map OneofDescriptorProto_fromPartial) v_oneofDecl) [])
     (map_option MessageOptions_fromPartial v_options)
     (getOr (map_option (map DescriptorProto_ReservedRange_fromPartial) v_reservedRange) [])
     (getOr v_reservedName [])
     (Some (getOr v_visibility (numInt 0)))"

definition DescriptorProto_create :: "DescriptorProto_partial option \<Rightarrow> DescriptorProto" where
  "DescriptorProto_create base = DescriptorProto_fromPartial (getOr base
     (DescriptorProto_partial None None None None None None None None None None None))"

subsection \<open>\<open>FileDescriptorProto\<close>\<close>

record FileDescriptorProto =
  FileDescriptorProto_name :: "string option"
  FileDescriptorProto_package :: "string option"
  FileDescriptorProto_dependency :: "string list"
  FileDescriptorProto_publicDependency :: "number list"
  FileDescriptorProto_weakDependency :: "number list"
  FileDescriptorProto_optionDependency :: "string list"
  FileDescriptorProto_messageType :: "DescriptorProto list"
  FileDescriptorProto_enumType :: "EnumDescriptorProto list"
  FileDescriptorProto_service :: "ServiceDescriptorProto list"
  FileDescriptorProto_extension :: "FieldDescriptorProto list"
  FileDescriptorProto_options :: "FileOptions option"
  FileDescriptorProto_sourceCodeInfo :: "SourceCodeInfo option"
  FileDescriptorProto_syntax :: "string option"
  FileDescriptorProto_edition :: "number option"

definition createBaseFileDescriptorProto :: FileDescriptorProto where
  "createBaseFileDescriptorProto =
     \<lparr>FileDescriptorProto_name = Some '''', FileDescriptorProto_package = Some '''',
       FileDescriptorProto_dependency = [], FileDescriptorProto_publicDependency = [],
         FileDescriptorProto_weakDependency = [], FileDescriptorProto_optionDependency = [],
           FileDescriptorProto_messageType = [], FileDescriptorProto_enumType = [],
             FileDescriptorProto_service = [], FileDescriptorProto_extension = [],
               FileDescriptorProto_options = None, FileDescriptorProto_sourceCodeInfo = None,
                 FileDescriptorProto_syntax = Some '''', FileDescriptorProto_edition = Some (numInt 0)\<rparr>"

definition FileDescriptorProto_encode :: "'w writer_ops \<Rightarrow> FileDescriptorProto \<Rightarrow> 'w
  \<Rightarrow> jserr + 'w" where
  "FileDescriptorProto_encode W message = w_all [
     w_when (differs (FileDescriptorProto_name message) '''')
       (w_seq (w_tag W 10) (w_string W (the (FileDescriptorProto_name message)))),
     w_when (differs (FileDescriptorProto_package message) '''')
       (w_seq (w_tag W 18) (w_string W (the (FileDescriptorProto_package message)))),
     w_each (\<lambda>v. w_seq (w_tag W 26) (w_string W v)) (FileDescriptorProto_dependency message),
     w_nested W 82 (w_each (w_int32 W) (FileDescriptorProto_publicDependency message)),
     w_nested W 90 (w_each (w_int32 W) (FileDescriptorProto_weakDependency message)),
     w_each (\<lambda>v. w_seq (w_tag W 122) (w_string W v)) (FileDescriptorProto_optionDependency message),
     w_each (\<lambda>v. w_nested W 34 (DescriptorProto_encode W v)) (FileDescriptorProto_messageType message),
     w_each (\<lambda>v. w_nested W 42 (EnumDescriptorProto_encode W v)) (FileDescriptorProto_enumType message),
     w_each (\<lambda>v. w_nested W 50 (ServiceDescriptorProto_encode W v))
       (FileDescriptorProto_service message),
     w_each (\<lambda>v. w_nested W 58 (FieldDescriptorProto_encode W v))
       (FileDescriptorProto_extension message),
     w_opt (\<lambda>v. w_nested W 66 (FileOptions_encode W v)) (FileDescriptorProto_options message),
     w_opt (\<lambda>v. w_nested W 74 (SourceCodeInfo_encode W v)) (FileDescriptorProto_sourceCodeInfo message),
     w_when (differs (FileDescriptorProto_syntax message) '''')
       (w_seq (w_tag W 98) (w_string W (the (FileDescriptorProto_syntax message)))),
     w_when (differs (FileDescriptorProto_edition message) (numInt 0))
       (w_seq (w_tag W 112) (w_int32 W (the (FileDescriptorProto_edition message))))]"

definition FileDescriptorProto_field :: "'r reader_ops \<Rightarrow> u32 \<Rightarrow> FileDescriptorProto
  \<Rightarrow> ('r, FileDescriptorProto option) rd" where
  "FileDescriptorProto_field R tag message =
     (if drop_bit 3 tag = 1 then
        (if tag \<noteq> 10 then brk
         else bindR (getR (r_string R)) (\<lambda>v. cont
           (message\<lparr>FileDescriptorProto_name := Some v\<rparr>)))
      else if drop_bit 3 tag = 2 then
        (if tag \<noteq> 18 then brk
         else bindR (getR (r_string R)) (\<lambda>v. cont
           (message\<lparr>FileDescriptorProto_package := Some v\<rparr>)))
      else if drop_bit 3 tag = 3 then
        (if tag \<noteq> 26 then brk
         else bindR (getR (r_string R)) (\<lambda>v. cont
           (message\<lparr>FileDescriptorProto_dependency := FileDescriptorProto_dependency message @ [v]\<rparr>)))
      else if drop_bit 3 tag = 10 then
        (if tag = 80 then bindR (getR (r_int32 R)) (\<lambda>v. cont
          (message\<lparr>FileDescriptorProto_publicDependency := FileDescriptorProto_publicDependency message @ [numInt v]\<rparr>))
         else if tag = 82 then bindR (packed R (FileDescriptorProto_publicDependency message))
           (\<lambda>vs. cont (message\<lparr>FileDescriptorProto_publicDependency := vs\<rparr>))
         else brk)
      else if drop_bit 3 tag = 11 then
        (if tag = 88 then bindR (getR (r_int32 R)) (\<lambda>v. cont
          (message\<lparr>FileDescriptorProto_weakDependency := FileDescriptorProto_weakDependency message @ [numInt v]\<rparr>))
         else if tag = 90 then bindR (packed R (FileDescriptorProto_weakDependency message))
           (\<lambda>vs. cont (message\<lparr>FileDescriptorProto_weakDependency := vs\<rparr>))
         else brk)
      else if drop_bit 3 tag = 15 then
        (if tag \<noteq> 122 then brk
         else bindR (getR (r_string R)) (\<lambda>v. cont
           (message\<lparr>FileDescriptorProto_optionDependency := FileDescriptorProto_optionDependency message @ [v]\<rparr>)))
      else if drop_bit 3 tag = 4 then
        (if tag \<noteq> 34 then brk
         else bindR (nested R (DescriptorProto_decode R)) (\<lambda>v. cont
           (message\<lparr>FileDescriptorProto_messageType := FileDescriptorProto_messageType message @ [v]\<rparr>)))
      else if drop_bit 3 tag = 5 then
        (if tag \<noteq> 42 then brk
         else bindR (nested R (EnumDescriptorProto_decode R)) (\<lambda>v. cont
           (message\<lparr>FileDescriptorProto_enumType := FileDescriptorProto_enumType message @ [v]\<rparr>)))
      else if drop_bit 3 tag = 6 then
        (if tag \<noteq> 50 then brk
         else bindR (nested R (ServiceDescriptorProto_decode R)) (\<lambda>v. cont
           (message\<lparr>FileDescriptorProto_service := FileDescriptorProto_service message @ [v]\<rparr>)))
      else if drop_bit 3 tag = 7 then
        (if tag \<noteq> 58 then brk
         else bindR (nested R (FieldDescriptorProto_decode R)) (\<lambda>v. cont
           (message\<lparr>FileDescriptorProto_extension := FileDescriptorProto_extension message @ [v]\<rparr>)))
      else if drop_bit 3 tag = 8 then
        (if tag \<noteq> 66 then brk
         else bindR (nested R (FileOptions_decode R)) (\<lambda>v. cont
           (message\<lparr>FileDescriptorProto_options := Some v\<rparr>)))
      else if drop_bit 3 tag = 9 then
        (if tag \<noteq> 74 then brk
         else bindR (nested R (SourceCodeInfo_decode R)) (\<lambda>v. cont
           (message\<lparr>FileDescriptorProto_sourceCodeInfo := Some v\<rparr>)))
      else if drop_bit 3 tag = 12 then
        (if tag \<noteq> 98 then brk
         else bindR (getR (r_string R)) (\<lambda>v. cont
           (message\<lparr>FileDescriptorProto_syntax := Some v\<rparr>)))
      else if drop_bit 3 tag = 14 then
        (if tag \<noteq> 112 then brk
         else bindR (getR (r_int32 R)) (\<lambda>v. cont
           (message\<lparr>FileDescriptorProto_edition := Some (numInt v)\<rparr>)))
      else brk)"

definition FileDescriptorProto_decode :: "'r reader_ops \<Rightarrow> 'r input \<Rightarrow> nat option
  \<Rightarrow> (jserr + FileDescriptorProto \<times> 'r) option" where
  "FileDescriptorProto_decode R = decode_message R (FileDescriptorProto_field R) createBaseFileDescriptorProto"

definition FileDescriptorProto_fromJSON :: "js_text \<Rightarrow> jsval
  \<Rightarrow> jserr + FileDescriptorProto" where
  "FileDescriptorProto_fromJSON J object =
     bindE (fieldOr object ''name'' (jsString J) '''') (\<lambda>v_name.
     bindE (fieldOr object ''package'' (jsString J) '''') (\<lambda>v_package.
     bindE (fieldArr object ''dependency'' (\<lambda>e. Inr (jsString J e))) (\<lambda>v_dependency.
     bindE (fieldArr object ''publicDependency'' (\<lambda>e. Inr (jsNumber J e))) (\<lambda>v_publicDependency.
     bindE (fieldArr object ''weakDependency'' (\<lambda>e. Inr (jsNumber J e))) (\<lambda>v_weakDependency.
     bindE (fieldArr object ''optionDependency'' (\<lambda>e. Inr (jsString J e))) (\<lambda>v_optionDependency.
     bindE (fieldArr object ''messageType'' (DescriptorProto_fromJSON J)) (\<lambda>v_messageType.
     bindE (fieldArr object ''enumType'' (EnumDescriptorProto_fromJSON J)) (\<lambda>v_enumType.
     bindE (fieldArr object ''service'' (ServiceDescriptorProto_fromJSON J)) (\<lambda>v_service.
     bindE (fieldArr object ''extension'' (FieldDescriptorProto_fromJSON J)) (\<lambda>v_extension.
     bindE (fieldOpt object ''options'' (FileOptions_fromJSON J)) (\<lambda>v_options.
     bindE (fieldOpt object ''sourceCodeInfo'' (SourceCodeInfo_fromJSON J)) (\<lambda>v_sourceCodeInfo.
     bindE (fieldOr object ''syntax'' (jsString J) '''') (\<lambda>v_syntax.
     bindE (fieldOr object ''edition'' editionFromJSON (numInt 0)) (\<lambda>v_edition.
     Inr \<lparr>FileDescriptorProto_name = Some v_name, FileDescriptorProto_package = Some v_package,
       FileDescriptorProto_dependency = v_dependency,
         FileDescriptorProto_publicDependency = v_publicDependency,
           FileDescriptorProto_weakDependency = v_weakDependency,
             FileDescriptorProto_optionDependency = v_optionDependency,
               FileDescriptorProto_messageType = v_messageType, FileDescriptorProto_enumType = v_enumType,
                 FileDescriptorProto_service = v_service, FileDescriptorProto_extension = v_extension,
                   FileDescriptorProto_options = v_options,
                     FileDescriptorProto_sourceCodeInfo = v_sourceCodeInfo,
                       FileDescriptorProto_syntax = Some v_syntax,
                         FileDescriptorProto_edition = Some v_edition\<rparr>))))))))))))))"

definition FileDescriptorProto_toJSON :: "FileDescriptorProto \<Rightarrow> jsval" where
  "FileDescriptorProto_toJSON message = JObj (
     setProp (differs (FileDescriptorProto_name message) '''') ''name'' (JStr (the
       (FileDescriptorProto_name message))) @
     setProp (differs (FileDescriptorProto_package message) '''') ''package'' (JStr (the
       (FileDescriptorProto_package message))) @
     setProp (FileDescriptorProto_dependency message \<noteq> []) ''dependency'' (JArr (map JStr
       (FileDescriptorProto_dependency message))) @
     setProp (FileDescriptorProto_publicDependency message \<noteq> []) ''publicDependency'' (JArr (map
       (\<lambda>e. JNum (mathRound e)) (FileDescriptorProto_publicDependency message))) @
     setProp (FileDescriptorProto_weakDependency message \<noteq> []) ''weakDependency'' (JArr (map
       (\<lambda>e. JNum (mathRound e)) (FileDescriptorProto_weakDependency message))) @
     setProp (FileDescriptorProto_optionDependency message \<noteq> []) ''optionDependency'' (JArr
       (map JStr (FileDescriptorProto_optionDependency message))) @
     setProp (FileDescriptorProto_messageType message \<noteq> []) ''messageType'' (JArr
       (map DescriptorProto_toJSON (FileDescriptorProto_messageType message))) @
     setProp (FileDescriptorProto_enumType message \<noteq> []) ''enumType'' (JArr
       (map EnumDescriptorProto_toJSON (FileDescriptorProto_enumType message))) @
     setProp (FileDescriptorProto_service message \<noteq> []) ''service'' (JArr
       (map ServiceDescriptorProto_toJSON (FileDescriptorProto_service message))) @
     setProp (FileDescriptorProto_extension message \<noteq> []) ''extension'' (JArr
       (map FieldDescriptorProto_toJSON (FileDescriptorProto_extension message))) @
     setOpt ''options'' (map_option FileOptions_toJSON (FileDescriptorProto_options message)) @
     setOpt ''sourceCodeInfo'' (map_option SourceCodeInfo_toJSON (FileDescriptorProto_sourceCodeInfo message)) @
     setProp (differs (FileDescriptorProto_syntax message) '''') ''syntax'' (JStr (the
       (FileDescriptorProto_syntax message))) @
     setProp (differs (FileDescriptorProto_edition message) (numInt 0)) ''edition'' (JStr (editionToJSON
       (the (FileDescriptorProto_edition message)))))"

record FileDescriptorProto_partial =
  FileDescriptorProto_p_name :: "string option"
  FileDescriptorProto_p_package :: "string option"
  FileDescriptorProto_p_dependency :: "string list option"
  FileDescriptorProto_p_publicDependency :: "number list option"
  FileDescriptorProto_p_weakDependency :: "number list option"
  FileDescriptorProto_p_optionDependency :: "string list option"
  FileDescriptorProto_p_messageType :: "DescriptorProto_partial list option"
  FileDescriptorProto_p_enumType :: "EnumDescriptorProto_partial list option"
  FileDescriptorProto_p_service :: "ServiceDescriptorProto_partial list option"
  FileDescriptorProto_p_extension :: "FieldDescriptorProto_partial list option"
  FileDescriptorProto_p_options :: "FileOptions_partial option"
  FileDescriptorProto_p_sourceCodeInfo :: "SourceCodeInfo_partial option"
  FileDescriptorProto_p_syntax :: "string option"
  FileDescriptorProto_p_edition :: "number option"

definition FileDescriptorProto_fromPartial :: "FileDescriptorProto_partial
  \<Rightarrow> FileDescriptorProto" where
  "FileDescriptorProto_fromPartial object = createBaseFileDescriptorProto\<lparr>
     FileDescriptorProto_name := Some (getOr (FileDescriptorProto_p_name object) ''''),
     FileDescriptorProto_package := Some (getOr (FileDescriptorProto_p_package object) ''''),
     FileDescriptorProto_dependency := getOr (FileDescriptorProto_p_dependency object) [],
     FileDescriptorProto_publicDependency := getOr (FileDescriptorProto_p_publicDependency object) [],
     FileDescriptorProto_weakDependency := getOr (FileDescriptorProto_p_weakDependency object) [],
     FileDescriptorProto_optionDependency := getOr (FileDescriptorProto_p_optionDependency object) [],
     FileDescriptorProto_messageType := getOr (map_option (map DescriptorProto_fromPartial)
       (FileDescriptorProto_p_messageType object)) [],
     FileDescriptorProto_enumType := getOr (map_option (map EnumDescriptorProto_fromPartial)
       (FileDescriptorProto_p_enumType object)) [],
     FileDescriptorProto_service := getOr (map_option (map ServiceDescriptorProto_fromPartial)
       (FileDescriptorProto_p_service object)) [],
     FileDescriptorProto_extension := getOr (map_option (map FieldDescriptorProto_fromPartial)
       (FileDescriptorProto_p_extension object)) [],
     FileDescriptorProto_options := map_option FileOptions_fromPartial (FileDescriptorProto_p_options object),
     FileDescriptorProto_sourceCodeInfo := map_option SourceCodeInfo_fromPartial
       (FileDescriptorProto_p_sourceCodeInfo object),
     FileDescriptorProto_syntax := Some (getOr (FileDescriptorProto_p_syntax object) ''''),
     FileDescriptorProto_edition := Some (getOr (FileDescriptorProto_p_edition object) (numInt 0))\<rparr>"

definition FileDescriptorProto_create :: "FileDescriptorProto_partial option
  \<Rightarrow> FileDescriptorProto" where
  "FileDescriptorProto_create base = FileDescriptorProto_fromPartial (getOr base
     \<lparr>FileDescriptorProto_p_name = None, FileDescriptorProto_p_package = None,
       FileDescriptorProto_p_dependency = None, FileDescriptorProto_p_publicDependency = None,
         FileDescriptorProto_p_weakDependency = None, FileDescriptorProto_p_optionDependency = None,
           FileDescriptorProto_p_messageType = None, FileDescriptorProto_p_enumType = None,
             FileDescriptorProto_p_service = None, FileDescriptorProto_p_extension = None,
               FileDescriptorProto_p_options = None, FileDescriptorProto_p_sourceCodeInfo = None,
                 FileDescriptorProto_p_syntax = None, FileDescriptorProto_p_edition = None\<rparr>)"

subsection \<open>\<open>FileDescriptorSet\<close>\<close>

record FileDescriptorSet =
  FileDescriptorSet_file :: "FileDescriptorProto list"

definition createBaseFileDescriptorSet :: FileDescriptorSet where
  "createBaseFileDescriptorSet =
     \<lparr>FileDescriptorSet_file = []\<rparr>"

definition FileDescriptorSet_encode :: "'w writer_ops \<Rightarrow> FileDescriptorSet \<Rightarrow> 'w
  \<Rightarrow> jserr + 'w" where
  "FileDescriptorSet_encode W message = w_all [
     w_each (\<lambda>v. w_nested W 10 (FileDescriptorProto_encode W v)) (FileDescriptorSet_file message)]"

definition FileDescriptorSet_field :: "'r reader_ops \<Rightarrow> u32 \<Rightarrow> FileDescriptorSet
  \<Rightarrow> ('r, FileDescriptorSet option) rd" where
  "FileDescriptorSet_field R tag message =
     (if drop_bit 3 tag = 1 then
        (if tag \<noteq> 10 then brk
         else bindR (nested R (FileDescriptorProto_decode R)) (\<lambda>v. cont
           (message\<lparr>FileDescriptorSet_file := FileDescriptorSet_file message @ [v]\<rparr>)))
      else brk)"

definition FileDescriptorSet_decode :: "'r reader_ops \<Rightarrow> 'r input \<Rightarrow> nat option
  \<Rightarrow> (jserr + FileDescriptorSet \<times> 'r) option" where
  "FileDescriptorSet_decode R = decode_message R (FileDescriptorSet_field R) createBaseFileDescriptorSet"

definition FileDescriptorSet_fromJSON :: "js_text \<Rightarrow> jsval
  \<Rightarrow> jserr + FileDescriptorSet" where
  "FileDescriptorSet_fromJSON J object =
     bindE (fieldArr object ''file'' (FileDescriptorProto_fromJSON J)) (\<lambda>v_file.
     Inr \<lparr>FileDescriptorSet_file = v_file\<rparr>)"

definition FileDescriptorSet_toJSON :: "FileDescriptorSet \<Rightarrow> jsval" where
  "FileDescriptorSet_toJSON message = JObj (
     setProp (FileDescriptorSet_file message \<noteq> []) ''file'' (JArr (map FileDescriptorProto_toJSON
       (FileDescriptorSet_file message))))"

record FileDescriptorSet_partial =
  FileDescriptorSet_p_file :: "FileDescriptorProto_partial list option"

definition FileDescriptorSet_fromPartial :: "FileDescriptorSet_partial \<Rightarrow> FileDescriptorSet" where
  "FileDescriptorSet_fromPartial object = createBaseFileDescriptorSet\<lparr>
     FileDescriptorSet_file := getOr (map_option (map FileDescriptorProto_fromPartial)
       (FileDescriptorSet_p_file object)) []\<rparr>"

definition FileDescriptorSet_create :: "FileDescriptorSet_partial option \<Rightarrow> FileDescriptorSet" where
  "FileDescriptorSet_create base = FileDescriptorSet_fromPartial (getOr base
     \<lparr>FileDescriptorSet_p_file = None\<rparr>)"

end
