(* ===== verification/Descriptor_Codec.thy ===== *)
theory Descriptor_Codec
  imports Descriptor_Messages Wire_Laws
begin

text \<open>
  The codecs of the descriptor messages.  A message fits its wire format when every scalar field is
  defined; \<open>decode\<close> returns it unchanged then.
\<close>

section \<open>Wire formats\<close>

subsection \<open>\<open>DescriptorProto_ReservedRange\<close>\<close>

definition DescriptorProto_ReservedRange_bytes :: "wire_format \<Rightarrow> DescriptorProto_ReservedRange
  \<Rightarrow> bytes" where
  "DescriptorProto_ReservedRange_bytes F message =
     (if differs (DescriptorProto_ReservedRange_start message) (numInt 0) then i32Bytes F 8 (the
       (DescriptorProto_ReservedRange_start message)) else []) @
     (if differs (DescriptorProto_ReservedRange_end message) (numInt 0) then i32Bytes F 16 (the
       (DescriptorProto_ReservedRange_end message)) else [])"

definition DescriptorProto_ReservedRange_ok :: "wire_format \<Rightarrow> DescriptorProto_ReservedRange
  \<Rightarrow> bool" where
  "DescriptorProto_ReservedRange_ok F message \<longleftrightarrow>
     (\<forall>v. DescriptorProto_ReservedRange_start message = Some v \<longrightarrow> isInt32 v) \<and>
     DescriptorProto_ReservedRange_start message \<noteq> None \<and>
     (\<forall>v. DescriptorProto_ReservedRange_end message = Some v \<longrightarrow> isInt32 v) \<and>
     DescriptorProto_ReservedRange_end message \<noteq> None"

lemma DescriptorProto_ReservedRange_field_tags:
  "DescriptorProto_ReservedRange_field R 8 m = bindR (getR (r_int32 R)) (\<lambda>v. cont
    (m\<lparr>DescriptorProto_ReservedRange_start := Some (numInt v)\<rparr>))"
  "DescriptorProto_ReservedRange_field R 16 m = bindR (getR (r_int32 R)) (\<lambda>v. cont
    (m\<lparr>DescriptorProto_ReservedRange_end := Some (numInt v)\<rparr>))"
  by (simp_all add: DescriptorProto_ReservedRange_field_def)

subsection \<open>\<open>EnumDescriptorProto_EnumReservedRange\<close>\<close>

definition EnumDescriptorProto_EnumReservedRange_bytes :: "wire_format
  \<Rightarrow> EnumDescriptorProto_EnumReservedRange \<Rightarrow> bytes" where
  "EnumDescriptorProto_EnumReservedRange_bytes F message =
     (if differs (EnumDescriptorProto_EnumReservedRange_start message) (numInt 0) then i32Bytes F 8 (the
       (EnumDescriptorProto_EnumReservedRange_start message)) else []) @
     (if differs (EnumDescriptorProto_EnumReservedRange_end message) (numInt 0) then i32Bytes F 16 (the
       (EnumDescriptorProto_EnumReservedRange_end message)) else [])"

definition EnumDescriptorProto_EnumReservedRange_ok :: "wire_format
  \<Rightarrow> EnumDescriptorProto_EnumReservedRange \<Rightarrow> bool" where
  "EnumDescriptorProto_EnumReservedRange_ok F message \<longleftrightarrow>
     (\<forall>v. EnumDescriptorProto_EnumReservedRange_start message = Some v \<longrightarrow> isInt32 v) \<and>
     EnumDescriptorProto_EnumReservedRange_start message \<noteq> None \<and>
     (\<forall>v. EnumDescriptorProto_EnumReservedRange_end message = Some v \<longrightarrow> isInt32 v) \<and>
     EnumDescriptorProto_EnumReservedRange_end message \<noteq> None"

lemma EnumDescriptorProto_EnumReservedRange_field_tags:
  "EnumDescriptorProto_EnumReservedRange_field R 8 m = bindR (getR (r_int32 R)) (\<lambda>v. cont
    (m\<lparr>EnumDescriptorProto_EnumReservedRange_start := Some (numInt v)\<rparr>))"
  "EnumDescriptorProto_EnumReservedRange_field R 16 m = bindR (getR (r_int32 R)) (\<lambda>v. cont
    (m\<lparr>EnumDescriptorProto_EnumReservedRange_end := Some (numInt v)\<rparr>))"
  by (simp_all add: EnumDescriptorProto_EnumReservedRange_field_def)

subsection \<open>\<open>UninterpretedOption_NamePart\<close>\<close>

definition UninterpretedOption_NamePart_bytes :: "wire_format \<Rightarrow> UninterpretedOption_NamePart
  \<Rightarrow> bytes" where
  "UninterpretedOption_NamePart_bytes F message =
     (if UninterpretedOption_NamePart_namePart message \<noteq> '''' then strBytes F 10
       (UninterpretedOption_NamePart_namePart message) else []) @
     (if UninterpretedOption_NamePart_isExtension message \<noteq> False then boolBytes F 16
       (UninterpretedOption_NamePart_isExtension message) else [])"

definition UninterpretedOption_NamePart_ok :: "wire_format \<Rightarrow> UninterpretedOption_NamePart
  \<Rightarrow> bool" where
  "UninterpretedOption_NamePart_ok F message \<longleftrightarrow>
     strOk F (UninterpretedOption_NamePart_namePart message)"

lemma UninterpretedOption_NamePart_field_tags:
  "UninterpretedOption_NamePart_field R 10 m = bindR (getR (r_string R)) (\<lambda>v. cont
    (m\<lparr>UninterpretedOption_NamePart_namePart := v\<rparr>))"
  "UninterpretedOption_NamePart_field R 16 m = bindR (getR (r_bool R)) (\<lambda>v. cont
    (m\<lparr>UninterpretedOption_NamePart_isExtension := v\<rparr>))"
  by (simp_all add: UninterpretedOption_NamePart_field_def)

subsection \<open>\<open>FieldOptions_EditionDefault\<close>\<close>

definition FieldOptions_EditionDefault_bytes :: "wire_format \<Rightarrow> FieldOptions_EditionDefault
  \<Rightarrow> bytes" where
  "FieldOptions_EditionDefault_bytes F message =
     (if differs (FieldOptions_EditionDefault_edition message) (numInt 0) then i32Bytes F 24 (the
       (FieldOptions_EditionDefault_edition message)) else []) @
     (if differs (FieldOptions_EditionDefault_value message) '''' then strBytes F 18 (the
       (FieldOptions_EditionDefault_value message)) else [])"

definition FieldOptions_EditionDefault_ok :: "wire_format \<Rightarrow> FieldOptions_EditionDefault
  \<Rightarrow> bool" where
  "FieldOptions_EditionDefault_ok F message \<longleftrightarrow>
     (\<forall>v. FieldOptions_EditionDefault_edition message = Some v \<longrightarrow> isInt32 v) \<and>
     FieldOptions_EditionDefault_edition message \<noteq> None \<and>
     (\<forall>v. FieldOptions_EditionDefault_value message = Some v \<longrightarrow> strOk F v) \<and>
     FieldOptions_EditionDefault_value message \<noteq> None"

lemma FieldOptions_EditionDefault_field_tags:
  "FieldOptions_EditionDefault_field R 24 m = bindR (getR (r_int32 R)) (\<lambda>v. cont
    (m\<lparr>FieldOptions_EditionDefault_edition := Some (numInt v)\<rparr>))"
  "FieldOptions_EditionDefault_field R 18 m = bindR (getR (r_string R)) (\<lambda>v. cont
    (m\<lparr>FieldOptions_EditionDefault_value := Some v\<rparr>))"
  by (simp_all add: FieldOptions_EditionDefault_field_def)

subsection \<open>\<open>FieldOptions_FeatureSupport\<close>\<close>

definition FieldOptions_FeatureSupport_bytes :: "wire_format \<Rightarrow> FieldOptions_FeatureSupport
  \<Rightarrow> bytes" where
  "FieldOptions_FeatureSupport_bytes F message =
     (if differs (FieldOptions_FeatureSupport_editionIntroduced message) (numInt 0) then i32Bytes F 8 (the
       (FieldOptions_FeatureSupport_editionIntroduced message)) else []) @
     (if differs (FieldOptions_FeatureSupport_editionDeprecated message) (numInt 0) then i32Bytes F 16 (the
       (FieldOptions_FeatureSupport_editionDeprecated message)) else []) @
     (if differs (FieldOptions_FeatureSupport_deprecationWarning message) '''' then strBytes F 26 (the
       (FieldOptions_FeatureSupport_deprecationWarning message)) else []) @
     (if differs (FieldOptions_FeatureSupport_editionRemoved message) (numInt 0) then i32Bytes F 32 (the
       (FieldOptions_FeatureSupport_editionRemoved message)) else [])"

definition FieldOptions_FeatureSupport_ok :: "wire_format \<Rightarrow> FieldOptions_FeatureSupport
  \<Rightarrow> bool" where
  "FieldOptions_FeatureSupport_ok F message \<longleftrightarrow>
     (\<forall>v. FieldOptions_FeatureSupport_editionIntroduced message = Some v \<longrightarrow> isInt32 v) \<and>
     FieldOptions_FeatureSupport_editionIntroduced message \<noteq> None \<and>
     (\<forall>v. FieldOptions_FeatureSupport_editionDeprecated message = Some v \<longrightarrow> isInt32 v) \<and>
     FieldOptions_FeatureSupport_editionDeprecated message \<noteq> None \<and>
     (\<forall>v. FieldOptions_FeatureSupport_deprecationWarning message = Some v \<longrightarrow> strOk F v) \<and>
     FieldOptions_FeatureSupport_deprecationWarning message \<noteq> None \<and>
     (\<forall>v. FieldOptions_FeatureSupport_editionRemoved message = Some v \<longrightarrow> isInt32 v) \<and>
     FieldOptions_FeatureSupport_editionRemoved message \<noteq> None"

lemma FieldOptions_FeatureSupport_field_tags:
  "FieldOptions_FeatureSupport_field R 8 m = bindR (getR (r_int32 R)) (\<lambda>v. cont
    (m\<lparr>FieldOptions_FeatureSupport_editionIntroduced := Some (numInt v)\<rparr>))"
  "FieldOptions_FeatureSupport_field R 16 m = bindR (getR (r_int32 R)) (\<lambda>v. cont
    (m\<lparr>FieldOptions_FeatureSupport_editionDeprecated := Some (numInt v)\<rparr>))"
  "FieldOptions_FeatureSupport_field R 26 m = bindR (getR (r_string R)) (\<lambda>v. cont
    (m\<lparr>FieldOptions_FeatureSupport_deprecationWarning := Some v\<rparr>))"
  "FieldOptions_FeatureSupport_field R 32 m = bindR (getR (r_int32 R)) (\<lambda>v. cont
    (m\<lparr>FieldOptions_FeatureSupport_editionRemoved := Some (numInt v)\<rparr>))"
  by (simp_all add: FieldOptions_FeatureSupport_field_def)

subsection \<open>\<open>FeatureSet\<close>\<close>

definition FeatureSet_bytes :: "wire_format \<Rightarrow> FeatureSet \<Rightarrow> bytes" where
  "FeatureSet_bytes F message =
     (if differs (FeatureSet_fieldPresence message) (numInt 0) then i32Bytes F 8 (the
       (FeatureSet_fieldPresence message)) else []) @
     (if differs (FeatureSet_enumType message) (numInt 0) then i32Bytes F 16 (the
       (FeatureSet_enumType message)) else []) @
     (if differs (FeatureSet_repeatedFieldEncoding message) (numInt 0) then i32Bytes F 24 (the
       (FeatureSet_repeatedFieldEncoding message)) else []) @
     (if differs (FeatureSet_utf8Validation message) (numInt 0) then i32Bytes F 32 (the
       (FeatureSet_utf8Validation message)) else []) @
     (if differs (FeatureSet_messageEncoding message) (numInt 0) then i32Bytes F 40 (the
       (FeatureSet_messageEncoding message)) else []) @
     (if differs (FeatureSet_jsonFormat message) (numInt 0) then i32Bytes F 48 (the
       (FeatureSet_jsonFormat message)) else []) @
     (if differs (FeatureSet_enforceNamingStyle message) (numInt 0) then i32Bytes F 56 (the
       (FeatureSet_enforceNamingStyle message)) else []) @
     (if differs (FeatureSet_defaultSymbolVisibility message) (numInt 0) then i32Bytes F 64 (the
       (FeatureSet_defaultSymbolVisibility message)) else [])"

definition FeatureSet_ok :: "wire_format \<Rightarrow> FeatureSet \<Rightarrow> bool" where
  "FeatureSet_ok F message \<longleftrightarrow>
     (\<forall>v. FeatureSet_fieldPresence message = Some v \<longrightarrow> isInt32 v) \<and>
     FeatureSet_fieldPresence message \<noteq> None \<and>
     (\<forall>v. FeatureSet_enumType message = Some v \<longrightarrow> isInt32 v) \<and>
     FeatureSet_enumType message \<noteq> None \<and>
     (\<forall>v. FeatureSet_repeatedFieldEncoding message = Some v \<longrightarrow> isInt32 v) \<and>
     FeatureSet_repeatedFieldEncoding message \<noteq> None \<and>
     (\<forall>v. FeatureSet_utf8Validation message = Some v \<longrightarrow> isInt32 v) \<and>
     FeatureSet_utf8Validation message \<noteq> None \<and>
     (\<forall>v. FeatureSet_messageEncoding message = Some v \<longrightarrow> isInt32 v) \<and>
     FeatureSet_messageEncoding message \<noteq> None \<and>
     (\<forall>v. FeatureSet_jsonFormat message = Some v \<longrightarrow> isInt32 v) \<and>
     FeatureSet_jsonFormat message \<noteq> None \<and>
     (\<forall>v. FeatureSet_enforceNamingStyle message = Some v \<longrightarrow> isInt32 v) \<and>
     FeatureSet_enforceNamingStyle message \<noteq> None \<and>
     (\<forall>v. FeatureSet_defaultSymbolVisibility message = Some v \<longrightarrow> isInt32 v) \<and>
     FeatureSet_defaultSymbolVisibility message \<noteq> None"

lemma FeatureSet_field_tags:
  "FeatureSet_field R 8 m = bindR (getR (r_int32 R)) (\<lambda>v. cont
    (m\<lparr>FeatureSet_fieldPresence := Some (numInt v)\<rparr>))"
  "FeatureSet_field R 16 m = bindR (getR (r_int32 R)) (\<lambda>v. cont
    (m\<lparr>FeatureSet_enumType := Some (numInt v)\<rparr>))"
  "FeatureSet_field R 24 m = bindR (getR (r_int32 R)) (\<lambda>v. cont
    (m\<lparr>FeatureSet_repeatedFieldEncoding := Some (numInt v)\<rparr>))"
  "FeatureSet_field R 32 m = bindR (getR (r_int32 R)) (\<lambda>v. cont
    (m\<lparr>FeatureSet_utf8Validation := Some (numInt v)\<rparr>))"
  "FeatureSet_field R 40 m = bindR (getR (r_int32 R)) (\<lambda>v. cont
    (m\<lparr>FeatureSet_messageEncoding := Some (numInt v)\<rparr>))"
  "FeatureSet_field R 48 m = bindR (getR (r_int32 R)) (\<lambda>v. cont
    (m\<lparr>FeatureSet_jsonFormat := Some (numInt v)\<rparr>))"
  "FeatureSet_field R 56 m = bindR (getR (r_int32 R)) (\<lambda>v. cont
    (m\<lparr>FeatureSet_enforceNamingStyle := Some (numInt v)\<rparr>))"
  "FeatureSet_field R 64 m = bindR (getR (r_int32 R)) (\<lambda>v. cont
    (m\<lparr>FeatureSet_defaultSymbolVisibility := Some (numInt v)\<rparr>))"
  by (simp_all add: FeatureSet_field_def)

subsection \<open>\<open>FeatureSetDefaults_FeatureSetEditionDefault\<close>\<close>

definition FeatureSetDefaults_FeatureSetEditionDefault_bytes :: "wire_format
  \<Rightarrow> FeatureSetDefaults_FeatureSetEditionDefault \<Rightarrow> bytes" where
  "FeatureSetDefaults_FeatureSetEditionDefault_bytes F message =
     (if differs (FeatureSetDefaults_FeatureSetEditionDefault_edition message)
       (numInt 0) then i32Bytes F 24 (the
         (FeatureSetDefaults_FeatureSetEditionDefault_edition message)) else []) @
     (case FeatureSetDefaults_FeatureSetEditionDefault_overridableFeatures message of None
       \<Rightarrow> [] | Some v \<Rightarrow> msgBytes F 34 (FeatureSet_bytes F v)) @
     (case FeatureSetDefaults_FeatureSetEditionDefault_fixedFeatures message of None
       \<Rightarrow> [] | Some v \<Rightarrow> msgBytes F 42 (FeatureSet_bytes F v))"

definition FeatureSetDefaults_FeatureSetEditionDefault_ok :: "wire_format
  \<Rightarrow> FeatureSetDefaults_FeatureSetEditionDefault \<Rightarrow> bool" where
  "FeatureSetDefaults_FeatureSetEditionDefault_ok F message \<longleftrightarrow>
     (\<forall>v. FeatureSetDefaults_FeatureSetEditionDefault_edition message = Some v \<longrightarrow> isInt32 v) \<and>
     FeatureSetDefaults_FeatureSetEditionDefault_edition message \<noteq> None \<and>
     (\<forall>v. FeatureSetDefaults_FeatureSetEditionDefault_overridableFeatures message = Some v \<longrightarrow> FeatureSet_ok F v \<and> msgOk (FeatureSet_bytes F v)) \<and>
     (\<forall>v. FeatureSetDefaults_FeatureSetEditionDefault_fixedFeatures message = Some v \<longrightarrow> FeatureSet_ok F v \<and> msgOk (FeatureSet_bytes F v))"

lemma FeatureSetDefaults_FeatureSetEditionDefault_field_tags:
  "FeatureSetDefaults_FeatureSetEditionDefault_field R 24 m = bindR (getR (r_int32 R)) (\<lambda>v. cont
    (m\<lparr>FeatureSetDefaults_FeatureSetEditionDefault_edition := Some (numInt v)\<rparr>))"
  "FeatureSetDefaults_FeatureSetEditionDefault_field R 34 m = bindR (nested R (FeatureSet_decode R))
    (\<lambda>v. cont (m\<lparr>FeatureSetDefaults_FeatureSetEditionDefault_overridableFeatures := Some v\<rparr>))"
  "FeatureSetDefaults_FeatureSetEditionDefault_field R 42 m = bindR (nested R (FeatureSet_decode R))
    (\<lambda>v. cont (m\<lparr>FeatureSetDefaults_FeatureSetEditionDefault_fixedFeatures := Some v\<rparr>))"
  by (simp_all add: FeatureSetDefaults_FeatureSetEditionDefault_field_def)

subsection \<open>\<open>FeatureSetDefaults\<close>\<close>

definition FeatureSetDefaults_bytes :: "wire_format \<Rightarrow> FeatureSetDefaults \<Rightarrow> bytes" where
  "FeatureSetDefaults_bytes F message =
     concat (map (\<lambda>v. msgBytes F 10 (FeatureSetDefaults_FeatureSetEditionDefault_bytes F v))
       (FeatureSetDefaults_defaults message)) @
     (if differs (FeatureSetDefaults_minimumEdition message) (numInt 0) then i32Bytes F 32 (the
       (FeatureSetDefaults_minimumEdition message)) else []) @
     (if differs (FeatureSetDefaults_maximumEdition message) (numInt 0) then i32Bytes F 40 (the
       (FeatureSetDefaults_maximumEdition message)) else [])"

definition FeatureSetDefaults_ok :: "wire_format \<Rightarrow> FeatureSetDefaults \<Rightarrow> bool" where
  "FeatureSetDefaults_ok F message \<longleftrightarrow>
     (\<forall>v\<in>set (FeatureSetDefaults_defaults message). FeatureSetDefaults_FeatureSetEditionDefault_ok F v \<and> msgOk (FeatureSetDefaults_FeatureSetEditionDefault_bytes F v)) \<and>
     (\<forall>v. FeatureSetDefaults_minimumEdition message = Some v \<longrightarrow> isInt32 v) \<and>
     FeatureSetDefaults_minimumEdition message \<noteq> None \<and>
     (\<forall>v. FeatureSetDefaults_maximumEdition message = Some v \<longrightarrow> isInt32 v) \<and>
     FeatureSetDefaults_maximumEdition message \<noteq> None"

lemma FeatureSetDefaults_field_tags:
  "FeatureSetDefaults_field R 10 m = bindR (nested R
    (FeatureSetDefaults_FeatureSetEditionDefault_decode R)) (\<lambda>v. cont
      (m\<lparr>FeatureSetDefaults_defaults := FeatureSetDefaults_defaults m @ [v]\<rparr>))"
  "FeatureSetDefaults_field R 32 m = bindR (getR (r_int32 R)) (\<lambda>v. cont
    (m\<lparr>FeatureSetDefaults_minimumEdition := Some (numInt v)\<rparr>))"
  "FeatureSetDefaults_field R 40 m = bindR (getR (r_int32 R)) (\<lambda>v. cont
    (m\<lparr>FeatureSetDefaults_maximumEdition := Some (numInt v)\<rparr>))"
  by (simp_all add: FeatureSetDefaults_field_def)

section \<open>Encoding\<close>

context wire_writer
begin

lemma DescriptorProto_ReservedRange_writes: "DescriptorProto_ReservedRange_ok F m \<Longrightarrow> writes
  (DescriptorProto_ReservedRange_encode W m) (DescriptorProto_ReservedRange_bytes F m)"
  unfolding DescriptorProto_ReservedRange_encode_def DescriptorProto_ReservedRange_bytes_def DescriptorProto_ReservedRange_ok_def
  by (intro writes_all_Cons writes_all_single writes_when writes_opt writes_each
      writes_int32 [where t = 8, simplified] writes_int32 [where t = 16, simplified])
    (auto simp: differs_def)

lemma EnumDescriptorProto_EnumReservedRange_writes: "EnumDescriptorProto_EnumReservedRange_ok F m \<Longrightarrow> writes (EnumDescriptorProto_EnumReservedRange_encode W m) (EnumDescriptorProto_EnumReservedRange_bytes F m)"
  unfolding EnumDescriptorProto_EnumReservedRange_encode_def EnumDescriptorProto_EnumReservedRange_bytes_def EnumDescriptorProto_EnumReservedRange_ok_def
  by (intro writes_all_Cons writes_all_single writes_when writes_opt writes_each
      writes_int32 [where t = 8, simplified] writes_int32 [where t = 16, simplified])
    (auto simp: differs_def)

lemma UninterpretedOption_NamePart_writes: "UninterpretedOption_NamePart_ok F m \<Longrightarrow> writes
  (UninterpretedOption_NamePart_encode W m) (UninterpretedOption_NamePart_bytes F m)"
  unfolding UninterpretedOption_NamePart_encode_def UninterpretedOption_NamePart_bytes_def UninterpretedOption_NamePart_ok_def
  by (intro writes_all_Cons writes_all_single writes_when writes_opt writes_each
      writes_string [where t = 10, simplified] writes_bool [where t = 16, simplified])

lemma FieldOptions_EditionDefault_writes: "FieldOptions_EditionDefault_ok F m \<Longrightarrow> writes
  (FieldOptions_EditionDefault_encode W m) (FieldOptions_EditionDefault_bytes F m)"
  unfolding FieldOptions_EditionDefault_encode_def FieldOptions_EditionDefault_bytes_def FieldOptions_EditionDefault_ok_def
  by (intro writes_all_Cons writes_all_single writes_when writes_opt writes_each
      writes_int32 [where t = 24, simplified] writes_string [where t = 18, simplified])
    (auto simp: differs_def)

lemma FieldOptions_FeatureSupport_writes: "FieldOptions_FeatureSupport_ok F m \<Longrightarrow> writes
  (FieldOptions_FeatureSupport_encode W m) (FieldOptions_FeatureSupport_bytes F m)"
  unfolding FieldOptions_FeatureSupport_encode_def FieldOptions_FeatureSupport_bytes_def FieldOptions_FeatureSupport_ok_def
  by (intro writes_all_Cons writes_all_single writes_when writes_opt writes_each
      writes_int32 [where t = 8, simplified] writes_int32 [where t = 16,
        simplified] writes_string [where t = 26, simplified] writes_int32 [where t = 32, simplified])
    (auto simp: differs_def)

lemma FeatureSet_writes: "FeatureSet_ok F m \<Longrightarrow> writes (FeatureSet_encode W m)
  (FeatureSet_bytes F m)"
  unfolding FeatureSet_encode_def FeatureSet_bytes_def FeatureSet_ok_def
  by (intro writes_all_Cons writes_all_single writes_when writes_opt writes_each
      writes_int32 [where t = 8, simplified] writes_int32 [where t = 16,
        simplified] writes_int32 [where t = 24, simplified] writes_int32 [where t = 32,
          simplified] writes_int32 [where t = 40, simplified] writes_int32 [where t = 48,
            simplified] writes_int32 [where t = 56, simplified] writes_int32 [where t = 64, simplified])
    (auto simp: differs_def)

lemma FeatureSetDefaults_FeatureSetEditionDefault_writes: "FeatureSetDefaults_FeatureSetEditionDefault_ok F m \<Longrightarrow> writes (FeatureSetDefaults_FeatureSetEditionDefault_encode W m) (FeatureSetDefaults_FeatureSetEditionDefault_bytes F m)"
  unfolding FeatureSetDefaults_FeatureSetEditionDefault_encode_def FeatureSetDefaults_FeatureSetEditionDefault_bytes_def FeatureSetDefaults_FeatureSetEditionDefault_ok_def
  by (intro writes_all_Cons writes_all_single writes_when writes_opt writes_each
      writes_int32 [where t = 24, simplified] writes_nested [where t = 34,
        simplified] writes_nested [where t = 42, simplified])
    (auto simp: FeatureSet_writes differs_def)

lemma FeatureSetDefaults_writes: "FeatureSetDefaults_ok F m \<Longrightarrow> writes
  (FeatureSetDefaults_encode W m) (FeatureSetDefaults_bytes F m)"
  unfolding FeatureSetDefaults_encode_def FeatureSetDefaults_bytes_def FeatureSetDefaults_ok_def
  by (intro writes_all_Cons writes_all_single writes_when writes_opt writes_each
      writes_nested [where t = 10, simplified] writes_int32 [where t = 32,
        simplified] writes_int32 [where t = 40, simplified])
    (auto simp: FeatureSetDefaults_FeatureSetEditionDefault_writes differs_def)

end

section \<open>Decoding\<close>

context wire_reader
begin

lemma DescriptorProto_ReservedRange_consumes:
  "DescriptorProto_ReservedRange_ok F m \<Longrightarrow> consumes
    (DescriptorProto_ReservedRange_field R) createBaseDescriptorProto_ReservedRange
      (DescriptorProto_ReservedRange_bytes F m) m"
  unfolding DescriptorProto_ReservedRange_bytes_def
  by (rule consumes_to,
      rule set_opt_int32 [where fu = DescriptorProto_ReservedRange_start_update and t = 8],
      rule consumes_last, rule set_opt_int32 [where fu = DescriptorProto_ReservedRange_end_update and t = 16], rule consumes_Nil)
    (auto simp: DescriptorProto_ReservedRange_ok_def DescriptorProto_ReservedRange_field_tags
      createBaseDescriptorProto_ReservedRange_def intro!: DescriptorProto_ReservedRange.equality)

lemma EnumDescriptorProto_EnumReservedRange_consumes:
  "EnumDescriptorProto_EnumReservedRange_ok F m \<Longrightarrow> consumes
    (EnumDescriptorProto_EnumReservedRange_field R) createBaseEnumDescriptorProto_EnumReservedRange
      (EnumDescriptorProto_EnumReservedRange_bytes F m) m"
  unfolding EnumDescriptorProto_EnumReservedRange_bytes_def
  by (rule consumes_to,
      rule set_opt_int32 [where fu = EnumDescriptorProto_EnumReservedRange_start_update and t = 8],
      rule consumes_last, rule set_opt_int32 [where fu = EnumDescriptorProto_EnumReservedRange_end_update and t = 16], rule consumes_Nil)
    (auto simp: EnumDescriptorProto_EnumReservedRange_ok_def
      EnumDescriptorProto_EnumReservedRange_field_tags createBaseEnumDescriptorProto_EnumReservedRange_def intro!: EnumDescriptorProto_EnumReservedRange.equality)

lemma UninterpretedOption_NamePart_consumes:
  "UninterpretedOption_NamePart_ok F m \<Longrightarrow> consumes
    (UninterpretedOption_NamePart_field R) createBaseUninterpretedOption_NamePart
      (UninterpretedOption_NamePart_bytes F m) m"
  unfolding UninterpretedOption_NamePart_bytes_def
  by (rule consumes_to,
      rule set_string [where fu = UninterpretedOption_NamePart_namePart_update and t = 10],
      rule consumes_last, rule set_bool [where fu = UninterpretedOption_NamePart_isExtension_update and t = 16], rule consumes_Nil)
    (auto simp: UninterpretedOption_NamePart_ok_def UninterpretedOption_NamePart_field_tags
      createBaseUninterpretedOption_NamePart_def intro!: UninterpretedOption_NamePart.equality)

lemma FieldOptions_EditionDefault_consumes:
  "FieldOptions_EditionDefault_ok F m \<Longrightarrow> consumes
    (FieldOptions_EditionDefault_field R) createBaseFieldOptions_EditionDefault
      (FieldOptions_EditionDefault_bytes F m) m"
  unfolding FieldOptions_EditionDefault_bytes_def
  by (rule consumes_to,
      rule set_opt_int32 [where fu = FieldOptions_EditionDefault_edition_update and t = 24],
      rule consumes_last, rule set_opt_string [where fu = FieldOptions_EditionDefault_value_update and t = 18], rule consumes_Nil)
    (auto simp: FieldOptions_EditionDefault_ok_def FieldOptions_EditionDefault_field_tags
      createBaseFieldOptions_EditionDefault_def intro!: FieldOptions_EditionDefault.equality)

lemma FieldOptions_FeatureSupport_consumes:
  "FieldOptions_FeatureSupport_ok F m \<Longrightarrow> consumes
    (FieldOptions_FeatureSupport_field R) createBaseFieldOptions_FeatureSupport
      (FieldOptions_FeatureSupport_bytes F m) m"
  unfolding FieldOptions_FeatureSupport_bytes_def
  by (rule consumes_to,
      rule set_opt_int32 [where fu = FieldOptions_FeatureSupport_editionIntroduced_update and t = 8],
      rule set_opt_int32 [where fu = FieldOptions_FeatureSupport_editionDeprecated_update and t = 16],
      rule set_opt_string [where fu = FieldOptions_FeatureSupport_deprecationWarning_update and t = 26],
      rule consumes_last, rule set_opt_int32 [where fu = FieldOptions_FeatureSupport_editionRemoved_update and t = 32], rule consumes_Nil)
    (auto simp: FieldOptions_FeatureSupport_ok_def FieldOptions_FeatureSupport_field_tags
      createBaseFieldOptions_FeatureSupport_def intro!: FieldOptions_FeatureSupport.equality)

lemma FeatureSet_consumes:
  "FeatureSet_ok F m \<Longrightarrow> consumes (FeatureSet_field R) createBaseFeatureSet
    (FeatureSet_bytes F m) m"
  unfolding FeatureSet_bytes_def
  by (rule consumes_to,
      rule set_opt_int32 [where fu = FeatureSet_fieldPresence_update and t = 8],
      rule set_opt_int32 [where fu = FeatureSet_enumType_update and t = 16],
      rule set_opt_int32 [where fu = FeatureSet_repeatedFieldEncoding_update and t = 24],
      rule set_opt_int32 [where fu = FeatureSet_utf8Validation_update and t = 32],
      rule set_opt_int32 [where fu = FeatureSet_messageEncoding_update and t = 40],
      rule set_opt_int32 [where fu = FeatureSet_jsonFormat_update and t = 48],
      rule set_opt_int32 [where fu = FeatureSet_enforceNamingStyle_update and t = 56],
      rule consumes_last, rule set_opt_int32 [where fu = FeatureSet_defaultSymbolVisibility_update and t = 64], rule consumes_Nil)
    (auto simp: FeatureSet_ok_def FeatureSet_field_tags createBaseFeatureSet_def intro!: FeatureSet.equality)

lemma FeatureSetDefaults_FeatureSetEditionDefault_consumes:
  "FeatureSetDefaults_FeatureSetEditionDefault_ok F m \<Longrightarrow> consumes
    (FeatureSetDefaults_FeatureSetEditionDefault_field R) createBaseFeatureSetDefaults_FeatureSetEditionDefault (FeatureSetDefaults_FeatureSetEditionDefault_bytes F m) m"
  unfolding FeatureSetDefaults_FeatureSetEditionDefault_bytes_def
  by (rule consumes_to,
      rule set_opt_int32 [where fu = FeatureSetDefaults_FeatureSetEditionDefault_edition_update and t = 24],
      rule set_message [where fu = FeatureSetDefaults_FeatureSetEditionDefault_overridableFeatures_update and t = 34
        and sub = "FeatureSet_field R" and base = createBaseFeatureSet],
      rule consumes_last, rule set_message [where fu = FeatureSetDefaults_FeatureSetEditionDefault_fixedFeatures_update and t = 42
        and sub = "FeatureSet_field R" and base = createBaseFeatureSet], rule consumes_Nil)
    (auto simp: FeatureSetDefaults_FeatureSetEditionDefault_ok_def
      FeatureSetDefaults_FeatureSetEditionDefault_field_tags createBaseFeatureSetDefaults_FeatureSetEditionDefault_def FeatureSet_decode_def FeatureSet_consumes intro!: FeatureSetDefaults_FeatureSetEditionDefault.equality)

lemma FeatureSetDefaults_consumes:
  "FeatureSetDefaults_ok F m \<Longrightarrow> consumes
    (FeatureSetDefaults_field R) createBaseFeatureSetDefaults (FeatureSetDefaults_bytes F m) m"
  unfolding FeatureSetDefaults_bytes_def
  by (rule consumes_to,
      rule set_messages [where fu = FeatureSetDefaults_defaults_update and t = 10
        and sub = "FeatureSetDefaults_FeatureSetEditionDefault_field R" and base = createBaseFeatureSetDefaults_FeatureSetEditionDefault],
      rule set_opt_int32 [where fu = FeatureSetDefaults_minimumEdition_update and t = 32],
      rule consumes_last, rule set_opt_int32 [where fu = FeatureSetDefaults_maximumEdition_update and t = 40], rule consumes_Nil)
    (auto simp: FeatureSetDefaults_ok_def FeatureSetDefaults_field_tags createBaseFeatureSetDefaults_def
      FeatureSetDefaults_FeatureSetEditionDefault_decode_def FeatureSetDefaults_FeatureSetEditionDefault_consumes intro!: FeatureSetDefaults.equality)

lemma DescriptorProto_ReservedRange_ends: "ends k (DescriptorProto_ReservedRange_field R tag m)"
  by (auto simp: DescriptorProto_ReservedRange_field_def)

lemma EnumDescriptorProto_EnumReservedRange_ends: "ends k (EnumDescriptorProto_EnumReservedRange_field R tag m)"
  by (auto simp: EnumDescriptorProto_EnumReservedRange_field_def)

lemma UninterpretedOption_NamePart_ends: "ends k (UninterpretedOption_NamePart_field R tag m)"
  by (auto simp: UninterpretedOption_NamePart_field_def)

lemma FieldOptions_EditionDefault_ends: "ends k (FieldOptions_EditionDefault_field R tag m)"
  by (auto simp: FieldOptions_EditionDefault_field_def)

lemma FieldOptions_FeatureSupport_ends: "ends k (FieldOptions_FeatureSupport_field R tag m)"
  by (auto simp: FieldOptions_FeatureSupport_field_def)

lemma FeatureSet_ends: "ends k (FeatureSet_field R tag m)"
  by (auto simp: FeatureSet_field_def)

lemma FeatureSetDefaults_FeatureSetEditionDefault_ends: "ends k
  (FeatureSetDefaults_FeatureSetEditionDefault_field R tag m)"
  by (auto simp: FeatureSetDefaults_FeatureSetEditionDefault_field_def FeatureSet_decode_def
    FeatureSet_ends intro!: ends_nested_flat)

lemma FeatureSetDefaults_ends: "ends k (FeatureSetDefaults_field R tag m)"
  by (auto simp: FeatureSetDefaults_field_def FeatureSetDefaults_FeatureSetEditionDefault_decode_def
    FeatureSetDefaults_FeatureSetEditionDefault_ends intro!: ends_nested_flat)

end

section \<open>Message functions\<close>

sublocale wire \<subseteq> reserved_range: message_fns R remaining F W out "DescriptorProto_ReservedRange_encode W"
    "DescriptorProto_ReservedRange_field R" createBaseDescriptorProto_ReservedRange "DescriptorProto_ReservedRange_ok F" "DescriptorProto_ReservedRange_bytes F"
  by unfold_locales (auto simp: DescriptorProto_ReservedRange_writes DescriptorProto_ReservedRange_consumes
    DescriptorProto_ReservedRange_ends)

sublocale wire \<subseteq> enum_reserved_range: message_fns R remaining F W out "EnumDescriptorProto_EnumReservedRange_encode W"
    "EnumDescriptorProto_EnumReservedRange_field R" createBaseEnumDescriptorProto_EnumReservedRange "EnumDescriptorProto_EnumReservedRange_ok F" "EnumDescriptorProto_EnumReservedRange_bytes F"
  by unfold_locales (auto simp: EnumDescriptorProto_EnumReservedRange_writes
    EnumDescriptorProto_EnumReservedRange_consumes EnumDescriptorProto_EnumReservedRange_ends)

sublocale wire \<subseteq> name_part: message_fns R remaining F W out "UninterpretedOption_NamePart_encode W"
    "UninterpretedOption_NamePart_field R" createBaseUninterpretedOption_NamePart "UninterpretedOption_NamePart_ok F" "UninterpretedOption_NamePart_bytes F"
  by unfold_locales (auto simp: UninterpretedOption_NamePart_writes UninterpretedOption_NamePart_consumes
    UninterpretedOption_NamePart_ends)

sublocale wire \<subseteq> edition_default: message_fns R remaining F W out "FieldOptions_EditionDefault_encode W"
    "FieldOptions_EditionDefault_field R" createBaseFieldOptions_EditionDefault "FieldOptions_EditionDefault_ok F" "FieldOptions_EditionDefault_bytes F"
  by unfold_locales (auto simp: FieldOptions_EditionDefault_writes FieldOptions_EditionDefault_consumes
    FieldOptions_EditionDefault_ends)

sublocale wire \<subseteq> feature_support: message_fns R remaining F W out "FieldOptions_FeatureSupport_encode W"
    "FieldOptions_FeatureSupport_field R" createBaseFieldOptions_FeatureSupport "FieldOptions_FeatureSupport_ok F" "FieldOptions_FeatureSupport_bytes F"
  by unfold_locales (auto simp: FieldOptions_FeatureSupport_writes FieldOptions_FeatureSupport_consumes
    FieldOptions_FeatureSupport_ends)

sublocale wire \<subseteq> feature_set: message_fns R remaining F W out "FeatureSet_encode W"
    "FeatureSet_field R" createBaseFeatureSet "FeatureSet_ok F" "FeatureSet_bytes F"
  by unfold_locales (auto simp: FeatureSet_writes FeatureSet_consumes FeatureSet_ends)

sublocale wire \<subseteq> feature_set_edition_default: message_fns R remaining F W out "FeatureSetDefaults_FeatureSetEditionDefault_encode W"
    "FeatureSetDefaults_FeatureSetEditionDefault_field R" createBaseFeatureSetDefaults_FeatureSetEditionDefault "FeatureSetDefaults_FeatureSetEditionDefault_ok F" "FeatureSetDefaults_FeatureSetEditionDefault_bytes F"
  by unfold_locales (auto simp: FeatureSetDefaults_FeatureSetEditionDefault_writes
    FeatureSetDefaults_FeatureSetEditionDefault_consumes FeatureSetDefaults_FeatureSetEditionDefault_ends)

sublocale wire \<subseteq> feature_set_defaults: message_fns R remaining F W out "FeatureSetDefaults_encode W"
    "FeatureSetDefaults_field R" createBaseFeatureSetDefaults "FeatureSetDefaults_ok F" "FeatureSetDefaults_bytes F"
  by unfold_locales (auto simp: FeatureSetDefaults_writes FeatureSetDefaults_consumes FeatureSetDefaults_ends)

end
