(* ===== verification/Options_Codec.thy ===== *)
theory Options_Codec
  imports Options_Messages Descriptor_Codec
begin

text \<open>
  The codecs of the messages of \<open>Options_Messages\<close>: what they look like on the wire,
    that \<open>encode\<close> writes it,
  that \<open>decode\<close> reads it back and ends on every input.
\<close>

section \<open>Wire formats\<close>

subsection \<open>\<open>UninterpretedOption\<close>\<close>

definition UninterpretedOption_bytes :: "wire_format \<Rightarrow> UninterpretedOption
  \<Rightarrow> bytes" where
  "UninterpretedOption_bytes F message =
     concat (map (\<lambda>v. msgBytes F 18 (UninterpretedOption_NamePart_bytes F v))
       (UninterpretedOption_name message)) @
     (if differs (UninterpretedOption_identifierValue message) '''' then strBytes F 26 (the
       (UninterpretedOption_identifierValue message)) else []) @
     (if differs (UninterpretedOption_positiveIntValue message) (numInt 0) then u64Bytes F 32 (the
       (UninterpretedOption_positiveIntValue message)) else []) @
     (if differs (UninterpretedOption_negativeIntValue message) (numInt 0) then i64Bytes F 40 (the
       (UninterpretedOption_negativeIntValue message)) else []) @
     (if differs (UninterpretedOption_doubleValue message) (numInt 0) then dblBytes F 49 (the
       (UninterpretedOption_doubleValue message)) else []) @
     (if differs (UninterpretedOption_stringValue message) [] then binBytes F 58 (the
       (UninterpretedOption_stringValue message)) else []) @
     (if differs (UninterpretedOption_aggregateValue message) '''' then strBytes F 66 (the
       (UninterpretedOption_aggregateValue message)) else [])"

definition UninterpretedOption_ok :: "wire_format \<Rightarrow> UninterpretedOption \<Rightarrow> bool" where
  "UninterpretedOption_ok F message \<longleftrightarrow>
     (\<forall>v\<in>set (UninterpretedOption_name message). UninterpretedOption_NamePart_ok F v \<and> msgOk (UninterpretedOption_NamePart_bytes F v)) \<and>
     (\<forall>v. UninterpretedOption_identifierValue message = Some v \<longrightarrow> strOk F v) \<and>
     UninterpretedOption_identifierValue message \<noteq> None \<and>
     (\<forall>v. UninterpretedOption_positiveIntValue message = Some v \<longrightarrow> isUInt64 v) \<and>
     UninterpretedOption_positiveIntValue message \<noteq> None \<and>
     (\<forall>v. UninterpretedOption_negativeIntValue message = Some v \<longrightarrow> isSafe v) \<and>
     UninterpretedOption_negativeIntValue message \<noteq> None \<and>
     (\<forall>v. UninterpretedOption_doubleValue message = Some v \<longrightarrow> isDouble v) \<and>
     UninterpretedOption_doubleValue message \<noteq> None \<and>
     (\<forall>v. UninterpretedOption_stringValue message = Some v \<longrightarrow> msgOk v) \<and>
     UninterpretedOption_stringValue message \<noteq> None \<and>
     (\<forall>v. UninterpretedOption_aggregateValue message = Some v \<longrightarrow> strOk F v) \<and>
     UninterpretedOption_aggregateValue message \<noteq> None"

lemma UninterpretedOption_field_tags:
  "UninterpretedOption_field R 18 m = bindR (nested R (UninterpretedOption_NamePart_decode R))
    (\<lambda>v. cont (m\<lparr>UninterpretedOption_name := UninterpretedOption_name m @ [v]\<rparr>))"
  "UninterpretedOption_field R 26 m = bindR (getR (r_string R)) (\<lambda>v. cont
    (m\<lparr>UninterpretedOption_identifierValue := Some v\<rparr>))"
  "UninterpretedOption_field R 32 m = bindR (getR (longR (r_uint64 R))) (\<lambda>v. cont
    (m\<lparr>UninterpretedOption_positiveIntValue := Some v\<rparr>))"
  "UninterpretedOption_field R 40 m = bindR (getR (longR (r_int64 R))) (\<lambda>v. cont
    (m\<lparr>UninterpretedOption_negativeIntValue := Some v\<rparr>))"
  "UninterpretedOption_field R 49 m = bindR (getR (r_double R)) (\<lambda>v. cont
    (m\<lparr>UninterpretedOption_doubleValue := Some v\<rparr>))"
  "UninterpretedOption_field R 58 m = bindR (getR (r_bytes R)) (\<lambda>v. cont
    (m\<lparr>UninterpretedOption_stringValue := Some v\<rparr>))"
  "UninterpretedOption_field R 66 m = bindR (getR (r_string R)) (\<lambda>v. cont
    (m\<lparr>UninterpretedOption_aggregateValue := Some v\<rparr>))"
  by (simp_all add: UninterpretedOption_field_def)

subsection \<open>\<open>ExtensionRangeOptions_Declaration\<close>\<close>

definition ExtensionRangeOptions_Declaration_bytes :: "wire_format
  \<Rightarrow> ExtensionRangeOptions_Declaration \<Rightarrow> bytes" where
  "ExtensionRangeOptions_Declaration_bytes F message =
     (if differs (ExtensionRangeOptions_Declaration_number message) (numInt 0) then i32Bytes F 8 (the
       (ExtensionRangeOptions_Declaration_number message)) else []) @
     (if differs (ExtensionRangeOptions_Declaration_fullName message) '''' then strBytes F 18 (the
       (ExtensionRangeOptions_Declaration_fullName message)) else []) @
     (if differs (ExtensionRangeOptions_Declaration_type message) '''' then strBytes F 26 (the
       (ExtensionRangeOptions_Declaration_type message)) else []) @
     (if differs (ExtensionRangeOptions_Declaration_reserved message) False then boolBytes F 40 (the
       (ExtensionRangeOptions_Declaration_reserved message)) else []) @
     (if differs (ExtensionRangeOptions_Declaration_repeated message) False then boolBytes F 48 (the
       (ExtensionRangeOptions_Declaration_repeated message)) else [])"

definition ExtensionRangeOptions_Declaration_ok :: "wire_format
  \<Rightarrow> ExtensionRangeOptions_Declaration \<Rightarrow> bool" where
  "ExtensionRangeOptions_Declaration_ok F message \<longleftrightarrow>
     (\<forall>v. ExtensionRangeOptions_Declaration_number message = Some v \<longrightarrow> isInt32 v) \<and>
     ExtensionRangeOptions_Declaration_number message \<noteq> None \<and>
     (\<forall>v. ExtensionRangeOptions_Declaration_fullName message = Some v \<longrightarrow> strOk F v) \<and>
     ExtensionRangeOptions_Declaration_fullName message \<noteq> None \<and>
     (\<forall>v. ExtensionRangeOptions_Declaration_type message = Some v \<longrightarrow> strOk F v) \<and>
     ExtensionRangeOptions_Declaration_type message \<noteq> None \<and>
     ExtensionRangeOptions_Declaration_reserved message \<noteq> None \<and>
     ExtensionRangeOptions_Declaration_repeated message \<noteq> None"

lemma ExtensionRangeOptions_Declaration_field_tags:
  "ExtensionRangeOptions_Declaration_field R 8 m = bindR (getR (r_int32 R)) (\<lambda>v. cont
    (m\<lparr>ExtensionRangeOptions_Declaration_number := Some (numInt v)\<rparr>))"
  "ExtensionRangeOptions_Declaration_field R 18 m = bindR (getR (r_string R)) (\<lambda>v. cont
    (m\<lparr>ExtensionRangeOptions_Declaration_fullName := Some v\<rparr>))"
  "ExtensionRangeOptions_Declaration_field R 26 m = bindR (getR (r_string R)) (\<lambda>v. cont
    (m\<lparr>ExtensionRangeOptions_Declaration_type := Some v\<rparr>))"
  "ExtensionRangeOptions_Declaration_field R 40 m = bindR (getR (r_bool R)) (\<lambda>v. cont
    (m\<lparr>ExtensionRangeOptions_Declaration_reserved := Some v\<rparr>))"
  "ExtensionRangeOptions_Declaration_field R 48 m = bindR (getR (r_bool R)) (\<lambda>v. cont
    (m\<lparr>ExtensionRangeOptions_Declaration_repeated := Some v\<rparr>))"
  by (simp_all add: ExtensionRangeOptions_Declaration_field_def)

subsection \<open>\<open>ExtensionRangeOptions\<close>\<close>

definition ExtensionRangeOptions_bytes :: "wire_format \<Rightarrow> ExtensionRangeOptions
  \<Rightarrow> bytes" where
  "ExtensionRangeOptions_bytes F message =
     concat (map (\<lambda>v. msgBytes F 7994 (UninterpretedOption_bytes F v))
       (ExtensionRangeOptions_uninterpretedOption message)) @
     concat (map (\<lambda>v. msgBytes F 18 (ExtensionRangeOptions_Declaration_bytes F v))
       (ExtensionRangeOptions_declaration message)) @
     (case ExtensionRangeOptions_features message of None \<Rightarrow> [] | Some v
       \<Rightarrow> msgBytes F 402 (FeatureSet_bytes F v)) @
     (if differs (ExtensionRangeOptions_verification message) (numInt 1) then i32Bytes F 24 (the
       (ExtensionRangeOptions_verification message)) else [])"

definition ExtensionRangeOptions_ok :: "wire_format \<Rightarrow> ExtensionRangeOptions
  \<Rightarrow> bool" where
  "ExtensionRangeOptions_ok F message \<longleftrightarrow>
     (\<forall>v\<in>set (ExtensionRangeOptions_uninterpretedOption message). UninterpretedOption_ok F v \<and> msgOk (UninterpretedOption_bytes F v)) \<and>
     (\<forall>v\<in>set (ExtensionRangeOptions_declaration message). ExtensionRangeOptions_Declaration_ok F v \<and> msgOk (ExtensionRangeOptions_Declaration_bytes F v)) \<and>
     (\<forall>v. ExtensionRangeOptions_features message = Some v \<longrightarrow> FeatureSet_ok F v \<and> msgOk (FeatureSet_bytes F v)) \<and>
     (\<forall>v. ExtensionRangeOptions_verification message = Some v \<longrightarrow> isInt32 v) \<and>
     ExtensionRangeOptions_verification message \<noteq> None"

lemma ExtensionRangeOptions_field_tags:
  "ExtensionRangeOptions_field R 7994 m = bindR (nested R (UninterpretedOption_decode R)) (\<lambda>v. cont
    (m\<lparr>ExtensionRangeOptions_uninterpretedOption := ExtensionRangeOptions_uninterpretedOption m @ [v]\<rparr>))"
  "ExtensionRangeOptions_field R 18 m = bindR (nested R (ExtensionRangeOptions_Declaration_decode R))
    (\<lambda>v. cont (m\<lparr>ExtensionRangeOptions_declaration := ExtensionRangeOptions_declaration m @ [v]\<rparr>))"
  "ExtensionRangeOptions_field R 402 m = bindR (nested R (FeatureSet_decode R)) (\<lambda>v. cont
    (m\<lparr>ExtensionRangeOptions_features := Some v\<rparr>))"
  "ExtensionRangeOptions_field R 24 m = bindR (getR (r_int32 R)) (\<lambda>v. cont
    (m\<lparr>ExtensionRangeOptions_verification := Some (numInt v)\<rparr>))"
  by (simp_all add: ExtensionRangeOptions_field_def)

subsection \<open>\<open>MessageOptions\<close>\<close>

definition MessageOptions_bytes :: "wire_format \<Rightarrow> MessageOptions \<Rightarrow> bytes" where
  "MessageOptions_bytes F message =
     (if differs (MessageOptions_messageSetWireFormat message) False then boolBytes F 8 (the
       (MessageOptions_messageSetWireFormat message)) else []) @
     (if differs (MessageOptions_noStandardDescriptorAccessor message) False then boolBytes F 16 (the
       (MessageOptions_noStandardDescriptorAccessor message)) else []) @
     (if differs (MessageOptions_deprecated message) False then boolBytes F 24 (the
       (MessageOptions_deprecated message)) else []) @
     (if differs (MessageOptions_mapEntry message) False then boolBytes F 56 (the
       (MessageOptions_mapEntry message)) else []) @
     (if differs (MessageOptions_deprecatedLegacyJsonFieldConflicts message) False then boolBytes F 88 (the
       (MessageOptions_deprecatedLegacyJsonFieldConflicts message)) else []) @
     (case MessageOptions_features message of None \<Rightarrow> [] | Some v \<Rightarrow> msgBytes F 98
       (FeatureSet_bytes F v)) @
     concat (map (\<lambda>v. msgBytes F 7994 (UninterpretedOption_bytes F v))
       (MessageOptions_uninterpretedOption message))"

definition MessageOptions_ok :: "wire_format \<Rightarrow> MessageOptions \<Rightarrow> bool" where
  "MessageOptions_ok F message \<longleftrightarrow>
     MessageOptions_messageSetWireFormat message \<noteq> None \<and>
     MessageOptions_noStandardDescriptorAccessor message \<noteq> None \<and>
     MessageOptions_deprecated message \<noteq> None \<and>
     MessageOptions_mapEntry message \<noteq> None \<and>
     MessageOptions_deprecatedLegacyJsonFieldConflicts message \<noteq> None \<and>
     (\<forall>v. MessageOptions_features message = Some v \<longrightarrow> FeatureSet_ok F v \<and> msgOk
       (FeatureSet_bytes F v)) \<and>
     (\<forall>v\<in>set (MessageOptions_uninterpretedOption message). UninterpretedOption_ok F v \<and> msgOk (UninterpretedOption_bytes F v))"

lemma MessageOptions_field_tags:
  "MessageOptions_field R 8 m = bindR (getR (r_bool R)) (\<lambda>v. cont
    (m\<lparr>MessageOptions_messageSetWireFormat := Some v\<rparr>))"
  "MessageOptions_field R 16 m = bindR (getR (r_bool R)) (\<lambda>v. cont
    (m\<lparr>MessageOptions_noStandardDescriptorAccessor := Some v\<rparr>))"
  "MessageOptions_field R 24 m = bindR (getR (r_bool R)) (\<lambda>v. cont
    (m\<lparr>MessageOptions_deprecated := Some v\<rparr>))"
  "MessageOptions_field R 56 m = bindR (getR (r_bool R)) (\<lambda>v. cont
    (m\<lparr>MessageOptions_mapEntry := Some v\<rparr>))"
  "MessageOptions_field R 88 m = bindR (getR (r_bool R)) (\<lambda>v. cont
    (m\<lparr>MessageOptions_deprecatedLegacyJsonFieldConflicts := Some v\<rparr>))"
  "MessageOptions_field R 98 m = bindR (nested R (FeatureSet_decode R)) (\<lambda>v. cont
    (m\<lparr>MessageOptions_features := Some v\<rparr>))"
  "MessageOptions_field R 7994 m = bindR (nested R (UninterpretedOption_decode R)) (\<lambda>v. cont
    (m\<lparr>MessageOptions_uninterpretedOption := MessageOptions_uninterpretedOption m @ [v]\<rparr>))"
  by (simp_all add: MessageOptions_field_def)

subsection \<open>\<open>FieldOptions\<close>\<close>

definition FieldOptions_bytes :: "wire_format \<Rightarrow> FieldOptions \<Rightarrow> bytes" where
  "FieldOptions_bytes F message =
     (if differs (FieldOptions_ctype message) (numInt 0) then i32Bytes F 8 (the
       (FieldOptions_ctype message)) else []) @
     (if differs (FieldOptions_packed message) False then boolBytes F 16 (the
       (FieldOptions_packed message)) else []) @
     (if differs (FieldOptions_jstype message) (numInt 0) then i32Bytes F 48 (the
       (FieldOptions_jstype message)) else []) @
     (if differs (FieldOptions_lazy message) False then boolBytes F 40 (the
       (FieldOptions_lazy message)) else []) @
     (if differs (FieldOptions_unverifiedLazy message) False then boolBytes F 120 (the
       (FieldOptions_unverifiedLazy message)) else []) @
     (if differs (FieldOptions_deprecated message) False then boolBytes F 24 (the
       (FieldOptions_deprecated message)) else []) @
     (if differs (FieldOptions_weak message) False then boolBytes F 80 (the
       (FieldOptions_weak message)) else []) @
     (if differs (FieldOptions_debugRedact message) False then boolBytes F 128 (the
       (FieldOptions_debugRedact message)) else []) @
     (if differs (FieldOptions_retention message) (numInt 0) then i32Bytes F 136 (the
       (FieldOptions_retention message)) else []) @
     msgBytes F 154 (packedBytes F (FieldOptions_targets message)) @
     concat (map (\<lambda>v. msgBytes F 162 (FieldOptions_EditionDefault_bytes F v))
       (FieldOptions_editionDefaults message)) @
     (case FieldOptions_features message of None \<Rightarrow> [] | Some v \<Rightarrow> msgBytes F 170
       (FeatureSet_bytes F v)) @
     (case FieldOptions_featureSupport message of None \<Rightarrow> [] | Some v
       \<Rightarrow> msgBytes F 178 (FieldOptions_FeatureSupport_bytes F v)) @
     concat (map (\<lambda>v. msgBytes F 7994 (UninterpretedOption_bytes F v))
       (FieldOptions_uninterpretedOption message))"

definition FieldOptions_ok :: "wire_format \<Rightarrow> FieldOptions \<Rightarrow> bool" where
  "FieldOptions_ok F message \<longleftrightarrow>
     (\<forall>v. FieldOptions_ctype message = Some v \<longrightarrow> isInt32 v) \<and>
     FieldOptions_ctype message \<noteq> None \<and>
     FieldOptions_packed message \<noteq> None \<and>
     (\<forall>v. FieldOptions_jstype message = Some v \<longrightarrow> isInt32 v) \<and>
     FieldOptions_jstype message \<noteq> None \<and>
     FieldOptions_lazy message \<noteq> None \<and>
     FieldOptions_unverifiedLazy message \<noteq> None \<and>
     FieldOptions_deprecated message \<noteq> None \<and>
     FieldOptions_weak message \<noteq> None \<and>
     FieldOptions_debugRedact message \<noteq> None \<and>
     (\<forall>v. FieldOptions_retention message = Some v \<longrightarrow> isInt32 v) \<and>
     FieldOptions_retention message \<noteq> None \<and>
     (\<forall>v\<in>set (FieldOptions_targets message). isInt32 v) \<and> msgOk (packedBytes F
       (FieldOptions_targets message)) \<and>
     (\<forall>v\<in>set (FieldOptions_editionDefaults message). FieldOptions_EditionDefault_ok F v \<and> msgOk (FieldOptions_EditionDefault_bytes F v)) \<and>
     (\<forall>v. FieldOptions_features message = Some v \<longrightarrow> FeatureSet_ok F v \<and> msgOk
       (FeatureSet_bytes F v)) \<and>
     (\<forall>v. FieldOptions_featureSupport message = Some v \<longrightarrow> FieldOptions_FeatureSupport_ok F v \<and> msgOk (FieldOptions_FeatureSupport_bytes F v)) \<and>
     (\<forall>v\<in>set (FieldOptions_uninterpretedOption message). UninterpretedOption_ok F v \<and> msgOk (UninterpretedOption_bytes F v))"

lemma FieldOptions_field_tags:
  "FieldOptions_field R 8 m = bindR (getR (r_int32 R)) (\<lambda>v. cont
    (m\<lparr>FieldOptions_ctype := Some (numInt v)\<rparr>))"
  "FieldOptions_field R 16 m = bindR (getR (r_bool R)) (\<lambda>v. cont
    (m\<lparr>FieldOptions_packed := Some v\<rparr>))"
  "FieldOptions_field R 48 m = bindR (getR (r_int32 R)) (\<lambda>v. cont
    (m\<lparr>FieldOptions_jstype := Some (numInt v)\<rparr>))"
  "FieldOptions_field R 40 m = bindR (getR (r_bool R)) (\<lambda>v. cont
    (m\<lparr>FieldOptions_lazy := Some v\<rparr>))"
  "FieldOptions_field R 120 m = bindR (getR (r_bool R)) (\<lambda>v. cont
    (m\<lparr>FieldOptions_unverifiedLazy := Some v\<rparr>))"
  "FieldOptions_field R 24 m = bindR (getR (r_bool R)) (\<lambda>v. cont
    (m\<lparr>FieldOptions_deprecated := Some v\<rparr>))"
  "FieldOptions_field R 80 m = bindR (getR (r_bool R)) (\<lambda>v. cont
    (m\<lparr>FieldOptions_weak := Some v\<rparr>))"
  "FieldOptions_field R 128 m = bindR (getR (r_bool R)) (\<lambda>v. cont
    (m\<lparr>FieldOptions_debugRedact := Some v\<rparr>))"
  "FieldOptions_field R 136 m = bindR (getR (r_int32 R)) (\<lambda>v. cont
    (m\<lparr>FieldOptions_retention := Some (numInt v)\<rparr>))"
  "FieldOptions_field R 154 m = bindR (packed R (FieldOptions_targets m)) (\<lambda>vs. cont
    (m\<lparr>FieldOptions_targets := vs\<rparr>))"
  "FieldOptions_field R 162 m = bindR (nested R (FieldOptions_EditionDefault_decode R)) (\<lambda>v. cont
    (m\<lparr>FieldOptions_editionDefaults := FieldOptions_editionDefaults m @ [v]\<rparr>))"
  "FieldOptions_field R 170 m = bindR (nested R (FeatureSet_decode R)) (\<lambda>v. cont
    (m\<lparr>FieldOptions_features := Some v\<rparr>))"
  "FieldOptions_field R 178 m = bindR (nested R (FieldOptions_FeatureSupport_decode R)) (\<lambda>v. cont
    (m\<lparr>FieldOptions_featureSupport := Some v\<rparr>))"
  "FieldOptions_field R 7994 m = bindR (nested R (UninterpretedOption_decode R)) (\<lambda>v. cont
    (m\<lparr>FieldOptions_uninterpretedOption := FieldOptions_uninterpretedOption m @ [v]\<rparr>))"
  by (simp_all add: FieldOptions_field_def)

subsection \<open>\<open>OneofOptions\<close>\<close>

definition OneofOptions_bytes :: "wire_format \<Rightarrow> OneofOptions \<Rightarrow> bytes" where
  "OneofOptions_bytes F message =
     (case OneofOptions_features message of None \<Rightarrow> [] | Some v \<Rightarrow> msgBytes F 10
       (FeatureSet_bytes F v)) @
     concat (map (\<lambda>v. msgBytes F 7994 (UninterpretedOption_bytes F v))
       (OneofOptions_uninterpretedOption message))"

definition OneofOptions_ok :: "wire_format \<Rightarrow> OneofOptions \<Rightarrow> bool" where
  "OneofOptions_ok F message \<longleftrightarrow>
     (\<forall>v. OneofOptions_features message = Some v \<longrightarrow> FeatureSet_ok F v \<and> msgOk
       (FeatureSet_bytes F v)) \<and>
     (\<forall>v\<in>set (OneofOptions_uninterpretedOption message). UninterpretedOption_ok F v \<and> msgOk (UninterpretedOption_bytes F v))"

lemma OneofOptions_field_tags:
  "OneofOptions_field R 10 m = bindR (nested R (FeatureSet_decode R)) (\<lambda>v. cont
    (m\<lparr>OneofOptions_features := Some v\<rparr>))"
  "OneofOptions_field R 7994 m = bindR (nested R (UninterpretedOption_decode R)) (\<lambda>v. cont
    (m\<lparr>OneofOptions_uninterpretedOption := OneofOptions_uninterpretedOption m @ [v]\<rparr>))"
  by (simp_all add: OneofOptions_field_def)

subsection \<open>\<open>EnumOptions\<close>\<close>

definition EnumOptions_bytes :: "wire_format \<Rightarrow> EnumOptions \<Rightarrow> bytes" where
  "EnumOptions_bytes F message =
     (if differs (EnumOptions_allowAlias message) False then boolBytes F 16 (the
       (EnumOptions_allowAlias message)) else []) @
     (if differs (EnumOptions_deprecated message) False then boolBytes F 24 (the
       (EnumOptions_deprecated message)) else []) @
     (if differs (EnumOptions_deprecatedLegacyJsonFieldConflicts message) False then boolBytes F 48 (the
       (EnumOptions_deprecatedLegacyJsonFieldConflicts message)) else []) @
     (case EnumOptions_features message of None \<Rightarrow> [] | Some v \<Rightarrow> msgBytes F 58
       (FeatureSet_bytes F v)) @
     concat (map (\<lambda>v. msgBytes F 7994 (UninterpretedOption_bytes F v))
       (EnumOptions_uninterpretedOption message))"

definition EnumOptions_ok :: "wire_format \<Rightarrow> EnumOptions \<Rightarrow> bool" where
  "EnumOptions_ok F message \<longleftrightarrow>
     EnumOptions_allowAlias message \<noteq> None \<and>
     EnumOptions_deprecated message \<noteq> None \<and>
     EnumOptions_deprecatedLegacyJsonFieldConflicts message \<noteq> None \<and>
     (\<forall>v. EnumOptions_features message = Some v \<longrightarrow> FeatureSet_ok F v \<and> msgOk
       (FeatureSet_bytes F v)) \<and>
     (\<forall>v\<in>set (EnumOptions_uninterpretedOption message). UninterpretedOption_ok F v \<and> msgOk
       (UninterpretedOption_bytes F v))"

lemma EnumOptions_field_tags:
  "EnumOptions_field R 16 m = bindR (getR (r_bool R)) (\<lambda>v. cont
    (m\<lparr>EnumOptions_allowAlias := Some v\<rparr>))"
  "EnumOptions_field R 24 m = bindR (getR (r_bool R)) (\<lambda>v. cont
    (m\<lparr>EnumOptions_deprecated := Some v\<rparr>))"
  "EnumOptions_field R 48 m = bindR (getR (r_bool R)) (\<lambda>v. cont
    (m\<lparr>EnumOptions_deprecatedLegacyJsonFieldConflicts := Some v\<rparr>))"
  "EnumOptions_field R 58 m = bindR (nested R (FeatureSet_decode R)) (\<lambda>v. cont
    (m\<lparr>EnumOptions_features := Some v\<rparr>))"
  "EnumOptions_field R 7994 m = bindR (nested R (UninterpretedOption_decode R)) (\<lambda>v. cont
    (m\<lparr>EnumOptions_uninterpretedOption := EnumOptions_uninterpretedOption m @ [v]\<rparr>))"
  by (simp_all add: EnumOptions_field_def)

subsection \<open>\<open>EnumValueOptions\<close>\<close>

definition EnumValueOptions_bytes :: "wire_format \<Rightarrow> EnumValueOptions \<Rightarrow> bytes" where
  "EnumValueOptions_bytes F message =
     (if differs (EnumValueOptions_deprecated message) False then boolBytes F 8 (the
       (EnumValueOptions_deprecated message)) else []) @
     (case EnumValueOptions_features message of None \<Rightarrow> [] | Some v \<Rightarrow> msgBytes F 18
       (FeatureSet_bytes F v)) @
     (if differs (EnumValueOptions_debugRedact message) False then boolBytes F 24 (the
       (EnumValueOptions_debugRedact message)) else []) @
     (case EnumValueOptions_featureSupport message of None \<Rightarrow> [] | Some v
       \<Rightarrow> msgBytes F 34 (FieldOptions_FeatureSupport_bytes F v)) @
     concat (map (\<lambda>v. msgBytes F 7994 (UninterpretedOption_bytes F v))
       (EnumValueOptions_uninterpretedOption message))"

definition EnumValueOptions_ok :: "wire_format \<Rightarrow> EnumValueOptions \<Rightarrow> bool" where
  "EnumValueOptions_ok F message \<longleftrightarrow>
     EnumValueOptions_deprecated message \<noteq> None \<and>
     (\<forall>v. EnumValueOptions_features message = Some v \<longrightarrow> FeatureSet_ok F v \<and> msgOk (FeatureSet_bytes F v)) \<and>
     EnumValueOptions_debugRedact message \<noteq> None \<and>
     (\<forall>v. EnumValueOptions_featureSupport message = Some v \<longrightarrow> FieldOptions_FeatureSupport_ok F v \<and> msgOk (FieldOptions_FeatureSupport_bytes F v)) \<and>
     (\<forall>v\<in>set (EnumValueOptions_uninterpretedOption message). UninterpretedOption_ok F v \<and> msgOk (UninterpretedOption_bytes F v))"

lemma EnumValueOptions_field_tags:
  "EnumValueOptions_field R 8 m = bindR (getR (r_bool R)) (\<lambda>v. cont
    (m\<lparr>EnumValueOptions_deprecated := Some v\<rparr>))"
  "EnumValueOptions_field R 18 m = bindR (nested R (FeatureSet_decode R)) (\<lambda>v. cont
    (m\<lparr>EnumValueOptions_features := Some v\<rparr>))"
  "EnumValueOptions_field R 24 m = bindR (getR (r_bool R)) (\<lambda>v. cont
    (m\<lparr>EnumValueOptions_debugRedact := Some v\<rparr>))"
  "EnumValueOptions_field R 34 m = bindR (nested R (FieldOptions_FeatureSupport_decode R))
    (\<lambda>v. cont (m\<lparr>EnumValueOptions_featureSupport := Some v\<rparr>))"
  "EnumValueOptions_field R 7994 m = bindR (nested R (UninterpretedOption_decode R)) (\<lambda>v. cont
    (m\<lparr>EnumValueOptions_uninterpretedOption := EnumValueOptions_uninterpretedOption m @ [v]\<rparr>))"
  by (simp_all add: EnumValueOptions_field_def)

subsection \<open>\<open>ServiceOptions\<close>\<close>

definition ServiceOptions_bytes :: "wire_format \<Rightarrow> ServiceOptions \<Rightarrow> bytes" where
  "ServiceOptions_bytes F message =
     (case ServiceOptions_features message of None \<Rightarrow> [] | Some v \<Rightarrow> msgBytes F 274
       (FeatureSet_bytes F v)) @
     (if differs (ServiceOptions_deprecated message) False then boolBytes F 264 (the
       (ServiceOptions_deprecated message)) else []) @
     concat (map (\<lambda>v. msgBytes F 7994 (UninterpretedOption_bytes F v))
       (ServiceOptions_uninterpretedOption message))"

definition ServiceOptions_ok :: "wire_format \<Rightarrow> ServiceOptions \<Rightarrow> bool" where
  "ServiceOptions_ok F message \<longleftrightarrow>
     (\<forall>v. ServiceOptions_features message = Some v \<longrightarrow> FeatureSet_ok F v \<and> msgOk
       (FeatureSet_bytes F v)) \<and>
     ServiceOptions_deprecated message \<noteq> None \<and>
     (\<forall>v\<in>set (ServiceOptions_uninterpretedOption message). UninterpretedOption_ok F v \<and> msgOk (UninterpretedOption_bytes F v))"

lemma ServiceOptions_field_tags:
  "ServiceOptions_field R 274 m = bindR (nested R (FeatureSet_decode R)) (\<lambda>v. cont
    (m\<lparr>ServiceOptions_features := Some v\<rparr>))"
  "ServiceOptions_field R 264 m = bindR (getR (r_bool R)) (\<lambda>v. cont
    (m\<lparr>ServiceOptions_deprecated := Some v\<rparr>))"
  "ServiceOptions_field R 7994 m = bindR (nested R (UninterpretedOption_decode R)) (\<lambda>v. cont
    (m\<lparr>ServiceOptions_uninterpretedOption := ServiceOptions_uninterpretedOption m @ [v]\<rparr>))"
  by (simp_all add: ServiceOptions_field_def)

subsection \<open>\<open>MethodOptions\<close>\<close>

definition MethodOptions_bytes :: "wire_format \<Rightarrow> MethodOptions \<Rightarrow> bytes" where
  "MethodOptions_bytes F message =
     (if differs (MethodOptions_deprecated message) False then boolBytes F 264 (the
       (MethodOptions_deprecated message)) else []) @
     (if differs (MethodOptions_idempotencyLevel message) (numInt 0) then i32Bytes F 272 (the
       (MethodOptions_idempotencyLevel message)) else []) @
     (case MethodOptions_features message of None \<Rightarrow> [] | Some v \<Rightarrow> msgBytes F 282
       (FeatureSet_bytes F v)) @
     concat (map (\<lambda>v. msgBytes F 7994 (UninterpretedOption_bytes F v))
       (MethodOptions_uninterpretedOption message))"

definition MethodOptions_ok :: "wire_format \<Rightarrow> MethodOptions \<Rightarrow> bool" where
  "MethodOptions_ok F message \<longleftrightarrow>
     MethodOptions_deprecated message \<noteq> None \<and>
     (\<forall>v. MethodOptions_idempotencyLevel message = Some v \<longrightarrow> isInt32 v) \<and>
     MethodOptions_idempotencyLevel message \<noteq> None \<and>
     (\<forall>v. MethodOptions_features message = Some v \<longrightarrow> FeatureSet_ok F v \<and> msgOk
       (FeatureSet_bytes F v)) \<and>
     (\<forall>v\<in>set (MethodOptions_uninterpretedOption message). UninterpretedOption_ok F v \<and> msgOk (UninterpretedOption_bytes F v))"

lemma MethodOptions_field_tags:
  "MethodOptions_field R 264 m = bindR (getR (r_bool R)) (\<lambda>v. cont
    (m\<lparr>MethodOptions_deprecated := Some v\<rparr>))"
  "MethodOptions_field R 272 m = bindR (getR (r_int32 R)) (\<lambda>v. cont
    (m\<lparr>MethodOptions_idempotencyLevel := Some (numInt v)\<rparr>))"
  "MethodOptions_field R 282 m = bindR (nested R (FeatureSet_decode R)) (\<lambda>v. cont
    (m\<lparr>MethodOptions_features := Some v\<rparr>))"
  "MethodOptions_field R 7994 m = bindR (nested R (UninterpretedOption_decode R)) (\<lambda>v. cont
    (m\<lparr>MethodOptions_uninterpretedOption := MethodOptions_uninterpretedOption m @ [v]\<rparr>))"
  by (simp_all add: MethodOptions_field_def)

section \<open>Encoding\<close>

context wire_writer
begin

lemma UninterpretedOption_writes: "UninterpretedOption_ok F m \<Longrightarrow> writes
  (UninterpretedOption_encode W m) (UninterpretedOption_bytes F m)"
  unfolding UninterpretedOption_encode_def UninterpretedOption_bytes_def UninterpretedOption_ok_def
  by (intro writes_all_Cons writes_all_single writes_when writes_opt writes_each
      writes_nested [where t = 18, simplified] writes_string [where t = 26,
        simplified] writes_uint64 [where t = 32, simplified] writes_int64 [where t = 40,
          simplified] writes_double [where t = 49, simplified] writes_bytes [where t = 58,
            simplified] writes_string [where t = 66, simplified])
    (auto simp: UninterpretedOption_NamePart_writes differs_def)

lemma ExtensionRangeOptions_Declaration_writes: "ExtensionRangeOptions_Declaration_ok F m \<Longrightarrow> writes (ExtensionRangeOptions_Declaration_encode W m) (ExtensionRangeOptions_Declaration_bytes F m)"
  unfolding ExtensionRangeOptions_Declaration_encode_def ExtensionRangeOptions_Declaration_bytes_def ExtensionRangeOptions_Declaration_ok_def
  by (intro writes_all_Cons writes_all_single writes_when writes_opt writes_each
      writes_int32 [where t = 8, simplified] writes_string [where t = 18,
        simplified] writes_string [where t = 26, simplified] writes_bool [where t = 40,
          simplified] writes_bool [where t = 48, simplified])
    (auto simp: differs_def)

lemma ExtensionRangeOptions_writes: "ExtensionRangeOptions_ok F m \<Longrightarrow> writes
  (ExtensionRangeOptions_encode W m) (ExtensionRangeOptions_bytes F m)"
  unfolding ExtensionRangeOptions_encode_def ExtensionRangeOptions_bytes_def ExtensionRangeOptions_ok_def
  by (intro writes_all_Cons writes_all_single writes_when writes_opt writes_each
      writes_nested [where t = 7994, simplified] writes_nested [where t = 18,
        simplified] writes_nested [where t = 402, simplified] writes_int32 [where t = 24, simplified])
    (auto simp: ExtensionRangeOptions_Declaration_writes FeatureSet_writes UninterpretedOption_writes
      differs_def)

lemma MessageOptions_writes: "MessageOptions_ok F m \<Longrightarrow> writes (MessageOptions_encode W m)
  (MessageOptions_bytes F m)"
  unfolding MessageOptions_encode_def MessageOptions_bytes_def MessageOptions_ok_def
  by (intro writes_all_Cons writes_all_single writes_when writes_opt writes_each
      writes_bool [where t = 8, simplified] writes_bool [where t = 16,
        simplified] writes_bool [where t = 24, simplified] writes_bool [where t = 56,
          simplified] writes_bool [where t = 88, simplified] writes_nested [where t = 98,
            simplified] writes_nested [where t = 7994, simplified])
    (auto simp: FeatureSet_writes UninterpretedOption_writes differs_def)

lemma FieldOptions_writes: "FieldOptions_ok F m \<Longrightarrow> writes (FieldOptions_encode W m)
  (FieldOptions_bytes F m)"
  unfolding FieldOptions_encode_def FieldOptions_bytes_def FieldOptions_ok_def
  by (intro writes_all_Cons writes_all_single writes_when writes_opt writes_each
      writes_int32 [where t = 8, simplified] writes_bool [where t = 16,
        simplified] writes_int32 [where t = 48, simplified] writes_bool [where t = 40,
          simplified] writes_bool [where t = 120, simplified] writes_bool [where t = 24,
            simplified] writes_bool [where t = 80, simplified] writes_bool [where t = 128,
              simplified] writes_int32 [where t = 136, simplified] writes_packed [where t = 154,
                simplified] writes_nested [where t = 162, simplified] writes_nested [where t = 170,
                  simplified] writes_nested [where t = 178, simplified] writes_nested [where t = 7994,
                    simplified])
    (auto simp: FeatureSet_writes FieldOptions_EditionDefault_writes FieldOptions_FeatureSupport_writes
      UninterpretedOption_writes differs_def)

lemma OneofOptions_writes: "OneofOptions_ok F m \<Longrightarrow> writes (OneofOptions_encode W m)
  (OneofOptions_bytes F m)"
  unfolding OneofOptions_encode_def OneofOptions_bytes_def OneofOptions_ok_def
  by (intro writes_all_Cons writes_all_single writes_when writes_opt writes_each
      writes_nested [where t = 10, simplified] writes_nested [where t = 7994, simplified])
    (auto simp: FeatureSet_writes UninterpretedOption_writes)

lemma EnumOptions_writes: "EnumOptions_ok F m \<Longrightarrow> writes (EnumOptions_encode W m)
  (EnumOptions_bytes F m)"
  unfolding EnumOptions_encode_def EnumOptions_bytes_def EnumOptions_ok_def
  by (intro writes_all_Cons writes_all_single writes_when writes_opt writes_each
      writes_bool [where t = 16, simplified] writes_bool [where t = 24,
        simplified] writes_bool [where t = 48, simplified] writes_nested [where t = 58,
          simplified] writes_nested [where t = 7994, simplified])
    (auto simp: FeatureSet_writes UninterpretedOption_writes differs_def)

lemma EnumValueOptions_writes: "EnumValueOptions_ok F m \<Longrightarrow> writes
  (EnumValueOptions_encode W m) (EnumValueOptions_bytes F m)"
  unfolding EnumValueOptions_encode_def EnumValueOptions_bytes_def EnumValueOptions_ok_def
  by (intro writes_all_Cons writes_all_single writes_when writes_opt writes_each
      writes_bool [where t = 8, simplified] writes_nested [where t = 18,
        simplified] writes_bool [where t = 24, simplified] writes_nested [where t = 34,
          simplified] writes_nested [where t = 7994, simplified])
    (auto simp: FeatureSet_writes FieldOptions_FeatureSupport_writes UninterpretedOption_writes differs_def)

lemma ServiceOptions_writes: "ServiceOptions_ok F m \<Longrightarrow> writes (ServiceOptions_encode W m)
  (ServiceOptions_bytes F m)"
  unfolding ServiceOptions_encode_def ServiceOptions_bytes_def ServiceOptions_ok_def
  by (intro writes_all_Cons writes_all_single writes_when writes_opt writes_each
      writes_nested [where t = 274, simplified] writes_bool [where t = 264,
        simplified] writes_nested [where t = 7994, simplified])
    (auto simp: FeatureSet_writes UninterpretedOption_writes differs_def)

lemma MethodOptions_writes: "MethodOptions_ok F m \<Longrightarrow> writes (MethodOptions_encode W m)
  (MethodOptions_bytes F m)"
  unfolding MethodOptions_encode_def MethodOptions_bytes_def MethodOptions_ok_def
  by (intro writes_all_Cons writes_all_single writes_when writes_opt writes_each
      writes_bool [where t = 264, simplified] writes_int32 [where t = 272,
        simplified] writes_nested [where t = 282, simplified] writes_nested [where t = 7994, simplified])
    (auto simp: FeatureSet_writes UninterpretedOption_writes differs_def)

end

section \<open>Decoding\<close>

context wire_reader
begin

lemma UninterpretedOption_consumes:
  "UninterpretedOption_ok F m \<Longrightarrow> consumes
    (UninterpretedOption_field R) createBaseUninterpretedOption (UninterpretedOption_bytes F m) m"
  unfolding UninterpretedOption_bytes_def
  by (rule consumes_to,
      rule set_messages [where fu = UninterpretedOption_name_update and t = 18
        and sub = "UninterpretedOption_NamePart_field R" and base = createBaseUninterpretedOption_NamePart],
      rule set_opt_string [where fu = UninterpretedOption_identifierValue_update and t = 26],
      rule set_opt_uint64 [where fu = UninterpretedOption_positiveIntValue_update and t = 32],
      rule set_opt_int64 [where fu = UninterpretedOption_negativeIntValue_update and t = 40],
      rule set_opt_double [where fu = UninterpretedOption_doubleValue_update and t = 49],
      rule set_opt_bytes [where fu = UninterpretedOption_stringValue_update and t = 58],
      rule consumes_last, rule set_opt_string [where fu = UninterpretedOption_aggregateValue_update and t = 66], rule consumes_Nil)
    (auto simp: UninterpretedOption_ok_def UninterpretedOption_field_tags createBaseUninterpretedOption_def
      UninterpretedOption_NamePart_decode_def UninterpretedOption_NamePart_consumes intro!: UninterpretedOption.equality)

lemma ExtensionRangeOptions_Declaration_consumes:
  "ExtensionRangeOptions_Declaration_ok F m \<Longrightarrow> consumes
    (ExtensionRangeOptions_Declaration_field R) createBaseExtensionRangeOptions_Declaration
      (ExtensionRangeOptions_Declaration_bytes F m) m"
  unfolding ExtensionRangeOptions_Declaration_bytes_def
  by (rule consumes_to,
      rule set_opt_int32 [where fu = ExtensionRangeOptions_Declaration_number_update and t = 8],
      rule set_opt_string [where fu = ExtensionRangeOptions_Declaration_fullName_update and t = 18],
      rule set_opt_string [where fu = ExtensionRangeOptions_Declaration_type_update and t = 26],
      rule set_opt_bool [where fu = ExtensionRangeOptions_Declaration_reserved_update and t = 40],
      rule consumes_last, rule set_opt_bool [where fu = ExtensionRangeOptions_Declaration_repeated_update and t = 48], rule consumes_Nil)
    (auto simp: ExtensionRangeOptions_Declaration_ok_def ExtensionRangeOptions_Declaration_field_tags
      createBaseExtensionRangeOptions_Declaration_def intro!: ExtensionRangeOptions_Declaration.equality)

lemma ExtensionRangeOptions_consumes:
  "ExtensionRangeOptions_ok F m \<Longrightarrow> consumes
    (ExtensionRangeOptions_field R) createBaseExtensionRangeOptions (ExtensionRangeOptions_bytes F m) m"
  unfolding ExtensionRangeOptions_bytes_def
  by (rule consumes_to,
      rule set_messages [where fu = ExtensionRangeOptions_uninterpretedOption_update and t = 7994
        and sub = "UninterpretedOption_field R" and base = createBaseUninterpretedOption],
      rule set_messages [where fu = ExtensionRangeOptions_declaration_update and t = 18
        and sub = "ExtensionRangeOptions_Declaration_field R" and base = createBaseExtensionRangeOptions_Declaration],
      rule set_message [where fu = ExtensionRangeOptions_features_update and t = 402
        and sub = "FeatureSet_field R" and base = createBaseFeatureSet],
      rule consumes_last, rule set_opt_int32 [where fu = ExtensionRangeOptions_verification_update and t = 24], rule consumes_Nil)
    (auto simp: ExtensionRangeOptions_ok_def ExtensionRangeOptions_field_tags
      createBaseExtensionRangeOptions_def ExtensionRangeOptions_Declaration_decode_def ExtensionRangeOptions_Declaration_consumes FeatureSet_decode_def FeatureSet_consumes UninterpretedOption_decode_def UninterpretedOption_consumes intro!: ExtensionRangeOptions.equality)

lemma MessageOptions_consumes:
  "MessageOptions_ok F m \<Longrightarrow> consumes (MessageOptions_field R) createBaseMessageOptions
    (MessageOptions_bytes F m) m"
  unfolding MessageOptions_bytes_def
  by (rule consumes_to,
      rule set_opt_bool [where fu = MessageOptions_messageSetWireFormat_update and t = 8],
      rule set_opt_bool [where fu = MessageOptions_noStandardDescriptorAccessor_update and t = 16],
      rule set_opt_bool [where fu = MessageOptions_deprecated_update and t = 24],
      rule set_opt_bool [where fu = MessageOptions_mapEntry_update and t = 56],
      rule set_opt_bool [where fu = MessageOptions_deprecatedLegacyJsonFieldConflicts_update and t = 88],
      rule set_message [where fu = MessageOptions_features_update and t = 98
        and sub = "FeatureSet_field R" and base = createBaseFeatureSet],
      rule consumes_last, rule set_messages [where fu = MessageOptions_uninterpretedOption_update and t = 7994
        and sub = "UninterpretedOption_field R" and base = createBaseUninterpretedOption], rule consumes_Nil)
    (auto simp: MessageOptions_ok_def MessageOptions_field_tags createBaseMessageOptions_def
      FeatureSet_decode_def FeatureSet_consumes UninterpretedOption_decode_def UninterpretedOption_consumes intro!: MessageOptions.equality)

lemma FieldOptions_consumes:
  "FieldOptions_ok F m \<Longrightarrow> consumes (FieldOptions_field R) createBaseFieldOptions
    (FieldOptions_bytes F m) m"
  unfolding FieldOptions_bytes_def
  by (rule consumes_to,
      rule set_opt_int32 [where fu = FieldOptions_ctype_update and t = 8],
      rule set_opt_bool [where fu = FieldOptions_packed_update and t = 16],
      rule set_opt_int32 [where fu = FieldOptions_jstype_update and t = 48],
      rule set_opt_bool [where fu = FieldOptions_lazy_update and t = 40],
      rule set_opt_bool [where fu = FieldOptions_unverifiedLazy_update and t = 120],
      rule set_opt_bool [where fu = FieldOptions_deprecated_update and t = 24],
      rule set_opt_bool [where fu = FieldOptions_weak_update and t = 80],
      rule set_opt_bool [where fu = FieldOptions_debugRedact_update and t = 128],
      rule set_opt_int32 [where fu = FieldOptions_retention_update and t = 136],
      rule set_packed [where fu = FieldOptions_targets_update and t = 154],
      rule set_messages [where fu = FieldOptions_editionDefaults_update and t = 162
        and sub = "FieldOptions_EditionDefault_field R" and base = createBaseFieldOptions_EditionDefault],
      rule set_message [where fu = FieldOptions_features_update and t = 170
        and sub = "FeatureSet_field R" and base = createBaseFeatureSet],
      rule set_message [where fu = FieldOptions_featureSupport_update and t = 178
        and sub = "FieldOptions_FeatureSupport_field R" and base = createBaseFieldOptions_FeatureSupport],
      rule consumes_last, rule set_messages [where fu = FieldOptions_uninterpretedOption_update and t = 7994
        and sub = "UninterpretedOption_field R" and base = createBaseUninterpretedOption], rule consumes_Nil)
    (auto simp: FieldOptions_ok_def FieldOptions_field_tags createBaseFieldOptions_def
      FeatureSet_decode_def FeatureSet_consumes FieldOptions_EditionDefault_decode_def FieldOptions_EditionDefault_consumes FieldOptions_FeatureSupport_decode_def FieldOptions_FeatureSupport_consumes UninterpretedOption_decode_def UninterpretedOption_consumes intro!: FieldOptions.equality)

lemma OneofOptions_consumes:
  "OneofOptions_ok F m \<Longrightarrow> consumes (OneofOptions_field R) createBaseOneofOptions
    (OneofOptions_bytes F m) m"
  unfolding OneofOptions_bytes_def
  by (rule consumes_to,
      rule set_message [where fu = OneofOptions_features_update and t = 10
        and sub = "FeatureSet_field R" and base = createBaseFeatureSet],
      rule consumes_last, rule set_messages [where fu = OneofOptions_uninterpretedOption_update and t = 7994
        and sub = "UninterpretedOption_field R" and base = createBaseUninterpretedOption], rule consumes_Nil)
    (auto simp: OneofOptions_ok_def OneofOptions_field_tags createBaseOneofOptions_def
      FeatureSet_decode_def FeatureSet_consumes UninterpretedOption_decode_def UninterpretedOption_consumes intro!: OneofOptions.equality)

lemma EnumOptions_consumes:
  "EnumOptions_ok F m \<Longrightarrow> consumes (EnumOptions_field R) createBaseEnumOptions
    (EnumOptions_bytes F m) m"
  unfolding EnumOptions_bytes_def
  by (rule consumes_to,
      rule set_opt_bool [where fu = EnumOptions_allowAlias_update and t = 16],
      rule set_opt_bool [where fu = EnumOptions_deprecated_update and t = 24],
      rule set_opt_bool [where fu = EnumOptions_deprecatedLegacyJsonFieldConflicts_update and t = 48],
      rule set_message [where fu = EnumOptions_features_update and t = 58
        and sub = "FeatureSet_field R" and base = createBaseFeatureSet],
      rule consumes_last, rule set_messages [where fu = EnumOptions_uninterpretedOption_update and t = 7994
        and sub = "UninterpretedOption_field R" and base = createBaseUninterpretedOption], rule consumes_Nil)
    (auto simp: EnumOptions_ok_def EnumOptions_field_tags createBaseEnumOptions_def FeatureSet_decode_def
      FeatureSet_consumes UninterpretedOption_decode_def UninterpretedOption_consumes intro!: EnumOptions.equality)

lemma EnumValueOptions_consumes:
  "EnumValueOptions_ok F m \<Longrightarrow> consumes (EnumValueOptions_field R) createBaseEnumValueOptions
    (EnumValueOptions_bytes F m) m"
  unfolding EnumValueOptions_bytes_def
  by (rule consumes_to,
      rule set_opt_bool [where fu = EnumValueOptions_deprecated_update and t = 8],
      rule set_message [where fu = EnumValueOptions_features_update and t = 18
        and sub = "FeatureSet_field R" and base = createBaseFeatureSet],
      rule set_opt_bool [where fu = EnumValueOptions_debugRedact_update and t = 24],
      rule set_message [where fu = EnumValueOptions_featureSupport_update and t = 34
        and sub = "FieldOptions_FeatureSupport_field R" and base = createBaseFieldOptions_FeatureSupport],
      rule consumes_last, rule set_messages [where fu = EnumValueOptions_uninterpretedOption_update and t = 7994
        and sub = "UninterpretedOption_field R" and base = createBaseUninterpretedOption], rule consumes_Nil)
    (auto simp: EnumValueOptions_ok_def EnumValueOptions_field_tags createBaseEnumValueOptions_def
      FeatureSet_decode_def FeatureSet_consumes FieldOptions_FeatureSupport_decode_def FieldOptions_FeatureSupport_consumes UninterpretedOption_decode_def UninterpretedOption_consumes intro!: EnumValueOptions.equality)

lemma ServiceOptions_consumes:
  "ServiceOptions_ok F m \<Longrightarrow> consumes (ServiceOptions_field R) createBaseServiceOptions
    (ServiceOptions_bytes F m) m"
  unfolding ServiceOptions_bytes_def
  by (rule consumes_to,
      rule set_message [where fu = ServiceOptions_features_update and t = 274
        and sub = "FeatureSet_field R" and base = createBaseFeatureSet],
      rule set_opt_bool [where fu = ServiceOptions_deprecated_update and t = 264],
      rule consumes_last, rule set_messages [where fu = ServiceOptions_uninterpretedOption_update and t = 7994
        and sub = "UninterpretedOption_field R" and base = createBaseUninterpretedOption], rule consumes_Nil)
    (auto simp: ServiceOptions_ok_def ServiceOptions_field_tags createBaseServiceOptions_def
      FeatureSet_decode_def FeatureSet_consumes UninterpretedOption_decode_def UninterpretedOption_consumes intro!: ServiceOptions.equality)

lemma MethodOptions_consumes:
  "MethodOptions_ok F m \<Longrightarrow> consumes (MethodOptions_field R) createBaseMethodOptions
    (MethodOptions_bytes F m) m"
  unfolding MethodOptions_bytes_def
  by (rule consumes_to,
      rule set_opt_bool [where fu = MethodOptions_deprecated_update and t = 264],
      rule set_opt_int32 [where fu = MethodOptions_idempotencyLevel_update and t = 272],
      rule set_message [where fu = MethodOptions_features_update and t = 282
        and sub = "FeatureSet_field R" and base = createBaseFeatureSet],
      rule consumes_last, rule set_messages [where fu = MethodOptions_uninterpretedOption_update and t = 7994
        and sub = "UninterpretedOption_field R" and base = createBaseUninterpretedOption], rule consumes_Nil)
    (auto simp: MethodOptions_ok_def MethodOptions_field_tags createBaseMethodOptions_def
      FeatureSet_decode_def FeatureSet_consumes UninterpretedOption_decode_def UninterpretedOption_consumes intro!: MethodOptions.equality)

lemma UninterpretedOption_ends: "ends k (UninterpretedOption_field R tag m)"
  by (auto simp: UninterpretedOption_field_def UninterpretedOption_NamePart_decode_def
    UninterpretedOption_NamePart_ends intro!: ends_nested_flat)

lemma ExtensionRangeOptions_Declaration_ends: "ends k (ExtensionRangeOptions_Declaration_field R tag m)"
  by (auto simp: ExtensionRangeOptions_Declaration_field_def)

lemma ExtensionRangeOptions_ends: "ends k (ExtensionRangeOptions_field R tag m)"
  by (auto simp: ExtensionRangeOptions_field_def ExtensionRangeOptions_Declaration_decode_def
    ExtensionRangeOptions_Declaration_ends FeatureSet_decode_def FeatureSet_ends UninterpretedOption_decode_def UninterpretedOption_ends intro!: ends_nested_flat)

lemma MessageOptions_ends: "ends k (MessageOptions_field R tag m)"
  by (auto simp: MessageOptions_field_def FeatureSet_decode_def FeatureSet_ends
    UninterpretedOption_decode_def UninterpretedOption_ends intro!: ends_nested_flat)

lemma FieldOptions_ends: "ends k (FieldOptions_field R tag m)"
  by (auto simp: FieldOptions_field_def FeatureSet_decode_def FeatureSet_ends
    FieldOptions_EditionDefault_decode_def FieldOptions_EditionDefault_ends FieldOptions_FeatureSupport_decode_def FieldOptions_FeatureSupport_ends UninterpretedOption_decode_def UninterpretedOption_ends intro!: ends_nested_flat)

lemma OneofOptions_ends: "ends k (OneofOptions_field R tag m)"
  by (auto simp: OneofOptions_field_def FeatureSet_decode_def FeatureSet_ends
    UninterpretedOption_decode_def UninterpretedOption_ends intro!: ends_nested_flat)

lemma EnumOptions_ends: "ends k (EnumOptions_field R tag m)"
  by (auto simp: EnumOptions_field_def FeatureSet_decode_def FeatureSet_ends UninterpretedOption_decode_def
    UninterpretedOption_ends intro!: ends_nested_flat)

lemma EnumValueOptions_ends: "ends k (EnumValueOptions_field R tag m)"
  by (auto simp: EnumValueOptions_field_def FeatureSet_decode_def FeatureSet_ends
    FieldOptions_FeatureSupport_decode_def FieldOptions_FeatureSupport_ends UninterpretedOption_decode_def UninterpretedOption_ends intro!: ends_nested_flat)

lemma ServiceOptions_ends: "ends k (ServiceOptions_field R tag m)"
  by (auto simp: ServiceOptions_field_def FeatureSet_decode_def FeatureSet_ends
    UninterpretedOption_decode_def UninterpretedOption_ends intro!: ends_nested_flat)

lemma MethodOptions_ends: "ends k (MethodOptions_field R tag m)"
  by (auto simp: MethodOptions_field_def FeatureSet_decode_def FeatureSet_ends
    UninterpretedOption_decode_def UninterpretedOption_ends intro!: ends_nested_flat)

end

section \<open>Message functions\<close>

sublocale wire \<subseteq> uninterpreted_option: message_fns R remaining F W out "UninterpretedOption_encode W"
    "UninterpretedOption_field R" createBaseUninterpretedOption "UninterpretedOption_ok F" "UninterpretedOption_bytes F"
  by unfold_locales (auto simp: UninterpretedOption_writes UninterpretedOption_consumes
    UninterpretedOption_ends)

sublocale wire \<subseteq> extension_range_options_declaration: message_fns R remaining F W out "ExtensionRangeOptions_Declaration_encode W"
    "ExtensionRangeOptions_Declaration_field R" createBaseExtensionRangeOptions_Declaration "ExtensionRangeOptions_Declaration_ok F" "ExtensionRangeOptions_Declaration_bytes F"
  by unfold_locales (auto simp: ExtensionRangeOptions_Declaration_writes
    ExtensionRangeOptions_Declaration_consumes ExtensionRangeOptions_Declaration_ends)

sublocale wire \<subseteq> extension_range_options: message_fns R remaining F W out "ExtensionRangeOptions_encode W"
    "ExtensionRangeOptions_field R" createBaseExtensionRangeOptions "ExtensionRangeOptions_ok F" "ExtensionRangeOptions_bytes F"
  by unfold_locales (auto simp: ExtensionRangeOptions_writes ExtensionRangeOptions_consumes
    ExtensionRangeOptions_ends)

sublocale wire \<subseteq> message_options: message_fns R remaining F W out "MessageOptions_encode W"
    "MessageOptions_field R" createBaseMessageOptions "MessageOptions_ok F" "MessageOptions_bytes F"
  by unfold_locales (auto simp: MessageOptions_writes MessageOptions_consumes MessageOptions_ends)

sublocale wire \<subseteq> field_options: message_fns R remaining F W out "FieldOptions_encode W"
    "FieldOptions_field R" createBaseFieldOptions "FieldOptions_ok F" "FieldOptions_bytes F"
  by unfold_locales (auto simp: FieldOptions_writes FieldOptions_consumes FieldOptions_ends)

sublocale wire \<subseteq> oneof_options: message_fns R remaining F W out "OneofOptions_encode W"
    "OneofOptions_field R" createBaseOneofOptions "OneofOptions_ok F" "OneofOptions_bytes F"
  by unfold_locales (auto simp: OneofOptions_writes OneofOptions_consumes OneofOptions_ends)

sublocale wire \<subseteq> enum_options: message_fns R remaining F W out "EnumOptions_encode W"
    "EnumOptions_field R" createBaseEnumOptions "EnumOptions_ok F" "EnumOptions_bytes F"
  by unfold_locales (auto simp: EnumOptions_writes EnumOptions_consumes EnumOptions_ends)

sublocale wire \<subseteq> enum_value_options: message_fns R remaining F W out "EnumValueOptions_encode W"
    "EnumValueOptions_field R" createBaseEnumValueOptions "EnumValueOptions_ok F" "EnumValueOptions_bytes F"
  by unfold_locales (auto simp: EnumValueOptions_writes EnumValueOptions_consumes EnumValueOptions_ends)

sublocale wire \<subseteq> service_options: message_fns R remaining F W out "ServiceOptions_encode W"
    "ServiceOptions_field R" createBaseServiceOptions "ServiceOptions_ok F" "ServiceOptions_bytes F"
  by unfold_locales (auto simp: ServiceOptions_writes ServiceOptions_consumes ServiceOptions_ends)

sublocale wire \<subseteq> method_options: message_fns R remaining F W out "MethodOptions_encode W"
    "MethodOptions_field R" createBaseMethodOptions "MethodOptions_ok F" "MethodOptions_bytes F"
  by unfold_locales (auto simp: MethodOptions_writes MethodOptions_consumes MethodOptions_ends)

end
