(* ===== verification/File_Options_Codec.thy ===== *)
theory File_Options_Codec
  imports File_Options_Messages Options_Codec
begin

text \<open>
  The codecs of the messages of \<open>File_Options_Messages\<close>: what they look like on the wire,
    that \<open>encode\<close> writes it,
  that \<open>decode\<close> reads it back and ends on every input.
\<close>

section \<open>Wire formats\<close>

subsection \<open>\<open>FileOptions\<close>\<close>

definition FileOptions_bytes :: "wire_format \<Rightarrow> FileOptions \<Rightarrow> bytes" where
  "FileOptions_bytes F message =
     (if differs (FileOptions_javaPackage message) '''' then strBytes F 10 (the
       (FileOptions_javaPackage message)) else []) @
     (if differs (FileOptions_javaOuterClassname message) '''' then strBytes F 66 (the
       (FileOptions_javaOuterClassname message)) else []) @
     (if differs (FileOptions_javaMultipleFiles message) False then boolBytes F 80 (the
       (FileOptions_javaMultipleFiles message)) else []) @
     (if differs (FileOptions_javaGenerateEqualsAndHash message) False then boolBytes F 160 (the
       (FileOptions_javaGenerateEqualsAndHash message)) else []) @
     (if differs (FileOptions_javaStringCheckUtf8 message) False then boolBytes F 216 (the
       (FileOptions_javaStringCheckUtf8 message)) else []) @
     (if differs (FileOptions_optimizeFor message) (numInt 1) then i32Bytes F 72 (the
       (FileOptions_optimizeFor message)) else []) @
     (if differs (FileOptions_goPackage message) '''' then strBytes F 90 (the
       (FileOptions_goPackage message)) else []) @
     (if differs (FileOptions_ccGenericServices message) False then boolBytes F 128 (the
       (FileOptions_ccGenericServices message)) else []) @
     (if differs (FileOptions_javaGenericServices message) False then boolBytes F 136 (the
       (FileOptions_javaGenericServices message)) else []) @
     (if differs (FileOptions_pyGenericServices message) False then boolBytes F 144 (the
       (FileOptions_pyGenericServices message)) else []) @
     (if differs (FileOptions_deprecated message) False then boolBytes F 184 (the
       (FileOptions_deprecated message)) else []) @
     (if differs (FileOptions_ccEnableArenas message) True then boolBytes F 248 (the
       (FileOptions_ccEnableArenas message)) else []) @
     (if differs (FileOptions_objcClassPrefix message) '''' then strBytes F 290 (the
       (FileOptions_objcClassPrefix message)) else []) @
     (if differs (FileOptions_csharpNamespace message) '''' then strBytes F 298 (the
       (FileOptions_csharpNamespace message)) else []) @
     (if differs (FileOptions_swiftPrefix message) '''' then strBytes F 314 (the
       (FileOptions_swiftPrefix message)) else []) @
     (if differs (FileOptions_phpClassPrefix message) '''' then strBytes F 322 (the
       (FileOptions_phpClassPrefix message)) else []) @
     (if differs (FileOptions_phpNamespace message) '''' then strBytes F 330 (the
       (FileOptions_phpNamespace message)) else []) @
     (if differs (FileOptions_phpMetadataNamespace message) '''' then strBytes F 354 (the
       (FileOptions_phpMetadataNamespace message)) else []) @
     (if differs (FileOptions_rubyPackage message) '''' then strBytes F 362 (the
       (FileOptions_rubyPackage message)) else []) @
     (case FileOptions_features message of None \<Rightarrow> [] | Some v \<Rightarrow> msgBytes F 402
       (FeatureSet_bytes F v)) @
     concat (map (\<lambda>v. msgBytes F 7994 (UninterpretedOption_bytes F v))
       (FileOptions_uninterpretedOption message))"

definition FileOptions_ok :: "wire_format \<Rightarrow> FileOptions \<Rightarrow> bool" where
  "FileOptions_ok F message \<longleftrightarrow>
     (\<forall>v. FileOptions_javaPackage message = Some v \<longrightarrow> strOk F v) \<and>
     FileOptions_javaPackage message \<noteq> None \<and>
     (\<forall>v. FileOptions_javaOuterClassname message = Some v \<longrightarrow> strOk F v) \<and>
     FileOptions_javaOuterClassname message \<noteq> None \<and>
     FileOptions_javaMultipleFiles message \<noteq> None \<and>
     FileOptions_javaGenerateEqualsAndHash message \<noteq> None \<and>
     FileOptions_javaStringCheckUtf8 message \<noteq> None \<and>
     (\<forall>v. FileOptions_optimizeFor message = Some v \<longrightarrow> isInt32 v) \<and>
     FileOptions_optimizeFor message \<noteq> None \<and>
     (\<forall>v. FileOptions_goPackage message = Some v \<longrightarrow> strOk F v) \<and>
     FileOptions_goPackage message \<noteq> None \<and>
     FileOptions_ccGenericServices message \<noteq> None \<and>
     FileOptions_javaGenericServices message \<noteq> None \<and>
     FileOptions_pyGenericServices message \<noteq> None \<and>
     FileOptions_deprecated message \<noteq> None \<and>
     FileOptions_ccEnableArenas message \<noteq> None \<and>
     (\<forall>v. FileOptions_objcClassPrefix message = Some v \<longrightarrow> strOk F v) \<and>
     FileOptions_objcClassPrefix message \<noteq> None \<and>
     (\<forall>v. FileOptions_csharpNamespace message = Some v \<longrightarrow> strOk F v) \<and>
     FileOptions_csharpNamespace message \<noteq> None \<and>
     (\<forall>v. FileOptions_swiftPrefix message = Some v \<longrightarrow> strOk F v) \<and>
     FileOptions_swiftPrefix message \<noteq> None \<and>
     (\<forall>v. FileOptions_phpClassPrefix message = Some v \<longrightarrow> strOk F v) \<and>
     FileOptions_phpClassPrefix message \<noteq> None \<and>
     (\<forall>v. FileOptions_phpNamespace message = Some v \<longrightarrow> strOk F v) \<and>
     FileOptions_phpNamespace message \<noteq> None \<and>
     (\<forall>v. FileOptions_phpMetadataNamespace message = Some v \<longrightarrow> strOk F v) \<and>
     FileOptions_phpMetadataNamespace message \<noteq> None \<and>
     (\<forall>v. FileOptions_rubyPackage message = Some v \<longrightarrow> strOk F v) \<and>
     FileOptions_rubyPackage message \<noteq> None \<and>
     (\<forall>v. FileOptions_features message = Some v \<longrightarrow> FeatureSet_ok F v \<and> msgOk
       (FeatureSet_bytes F v)) \<and>
     (\<forall>v\<in>set (FileOptions_uninterpretedOption message). UninterpretedOption_ok F v \<and> msgOk
       (UninterpretedOption_bytes F v))"

lemma FileOptions_field_tags:
  "FileOptions_field R 10 m = bindR (getR (r_string R)) (\<lambda>v. cont
    (m\<lparr>FileOptions_javaPackage := Some v\<rparr>))"
  "FileOptions_field R 66 m = bindR (getR (r_string R)) (\<lambda>v. cont
    (m\<lparr>FileOptions_javaOuterClassname := Some v\<rparr>))"
  "FileOptions_field R 80 m = bindR (getR (r_bool R)) (\<lambda>v. cont
    (m\<lparr>FileOptions_javaMultipleFiles := Some v\<rparr>))"
  "FileOptions_field R 160 m = bindR (getR (r_bool R)) (\<lambda>v. cont
    (m\<lparr>FileOptions_javaGenerateEqualsAndHash := Some v\<rparr>))"
  "FileOptions_field R 216 m = bindR (getR (r_bool R)) (\<lambda>v. cont
    (m\<lparr>FileOptions_javaStringCheckUtf8 := Some v\<rparr>))"
  "FileOptions_field R 72 m = bindR (getR (r_int32 R)) (\<lambda>v. cont
    (m\<lparr>FileOptions_optimizeFor := Some (numInt v)\<rparr>))"
  "FileOptions_field R 90 m = bindR (getR (r_string R)) (\<lambda>v. cont
    (m\<lparr>FileOptions_goPackage := Some v\<rparr>))"
  "FileOptions_field R 128 m = bindR (getR (r_bool R)) (\<lambda>v. cont
    (m\<lparr>FileOptions_ccGenericServices := Some v\<rparr>))"
  "FileOptions_field R 136 m = bindR (getR (r_bool R)) (\<lambda>v. cont
    (m\<lparr>FileOptions_javaGenericServices := Some v\<rparr>))"
  "FileOptions_field R 144 m = bindR (getR (r_bool R)) (\<lambda>v. cont
    (m\<lparr>FileOptions_pyGenericServices := Some v\<rparr>))"
  "FileOptions_field R 184 m = bindR (getR (r_bool R)) (\<lambda>v. cont
    (m\<lparr>FileOptions_deprecated := Some v\<rparr>))"
  "FileOptions_field R 248 m = bindR (getR (r_bool R)) (\<lambda>v. cont
    (m\<lparr>FileOptions_ccEnableArenas := Some v\<rparr>))"
  "FileOptions_field R 290 m = bindR (getR (r_string R)) (\<lambda>v. cont
    (m\<lparr>FileOptions_objcClassPrefix := Some v\<rparr>))"
  "FileOptions_field R 298 m = bindR (getR (r_string R)) (\<lambda>v. cont
    (m\<lparr>FileOptions_csharpNamespace := Some v\<rparr>))"
  "FileOptions_field R 314 m = bindR (getR (r_string R)) (\<lambda>v. cont
    (m\<lparr>FileOptions_swiftPrefix := Some v\<rparr>))"
  "FileOptions_field R 322 m = bindR (getR (r_string R)) (\<lambda>v. cont
    (m\<lparr>FileOptions_phpClassPrefix := Some v\<rparr>))"
  "FileOptions_field R 330 m = bindR (getR (r_string R)) (\<lambda>v. cont
    (m\<lparr>FileOptions_phpNamespace := Some v\<rparr>))"
  "FileOptions_field R 354 m = bindR (getR (r_string R)) (\<lambda>v. cont
    (m\<lparr>FileOptions_phpMetadataNamespace := Some v\<rparr>))"
  "FileOptions_field R 362 m = bindR (getR (r_string R)) (\<lambda>v. cont
    (m\<lparr>FileOptions_rubyPackage := Some v\<rparr>))"
  "FileOptions_field R 402 m = bindR (nested R (FeatureSet_decode R)) (\<lambda>v. cont
    (m\<lparr>FileOptions_features := Some v\<rparr>))"
  "FileOptions_field R 7994 m = bindR (nested R (UninterpretedOption_decode R)) (\<lambda>v. cont
    (m\<lparr>FileOptions_uninterpretedOption := FileOptions_uninterpretedOption m @ [v]\<rparr>))"
  by (simp_all add: FileOptions_field_def)

subsection \<open>\<open>SourceCodeInfo_Location\<close>\<close>

definition SourceCodeInfo_Location_bytes :: "wire_format \<Rightarrow> SourceCodeInfo_Location
  \<Rightarrow> bytes" where
  "SourceCodeInfo_Location_bytes F message =
     msgBytes F 10 (packedBytes F (SourceCodeInfo_Location_path message)) @
     msgBytes F 18 (packedBytes F (SourceCodeInfo_Location_span message)) @
     (if differs (SourceCodeInfo_Location_leadingComments message) '''' then strBytes F 26 (the
       (SourceCodeInfo_Location_leadingComments message)) else []) @
     (if differs (SourceCodeInfo_Location_trailingComments message) '''' then strBytes F 34 (the
       (SourceCodeInfo_Location_trailingComments message)) else []) @
     concat (map (strBytes F 50) (SourceCodeInfo_Location_leadingDetachedComments message))"

definition SourceCodeInfo_Location_ok :: "wire_format \<Rightarrow> SourceCodeInfo_Location
  \<Rightarrow> bool" where
  "SourceCodeInfo_Location_ok F message \<longleftrightarrow>
     (\<forall>v\<in>set (SourceCodeInfo_Location_path message). isInt32 v) \<and> msgOk (packedBytes F
       (SourceCodeInfo_Location_path message)) \<and>
     (\<forall>v\<in>set (SourceCodeInfo_Location_span message). isInt32 v) \<and> msgOk (packedBytes F
       (SourceCodeInfo_Location_span message)) \<and>
     (\<forall>v. SourceCodeInfo_Location_leadingComments message = Some v \<longrightarrow> strOk F v) \<and>
     SourceCodeInfo_Location_leadingComments message \<noteq> None \<and>
     (\<forall>v. SourceCodeInfo_Location_trailingComments message = Some v \<longrightarrow> strOk F v) \<and>
     SourceCodeInfo_Location_trailingComments message \<noteq> None \<and>
     (\<forall>v\<in>set (SourceCodeInfo_Location_leadingDetachedComments message). strOk F v)"

lemma SourceCodeInfo_Location_field_tags:
  "SourceCodeInfo_Location_field R 10 m = bindR (packed R (SourceCodeInfo_Location_path m))
    (\<lambda>vs. cont (m\<lparr>SourceCodeInfo_Location_path := vs\<rparr>))"
  "SourceCodeInfo_Location_field R 18 m = bindR (packed R (SourceCodeInfo_Location_span m))
    (\<lambda>vs. cont (m\<lparr>SourceCodeInfo_Location_span := vs\<rparr>))"
  "SourceCodeInfo_Location_field R 26 m = bindR (getR (r_string R)) (\<lambda>v. cont
    (m\<lparr>SourceCodeInfo_Location_leadingComments := Some v\<rparr>))"
  "SourceCodeInfo_Location_field R 34 m = bindR (getR (r_string R)) (\<lambda>v. cont
    (m\<lparr>SourceCodeInfo_Location_trailingComments := Some v\<rparr>))"
  "SourceCodeInfo_Location_field R 50 m = bindR (getR (r_string R)) (\<lambda>v. cont
    (m\<lparr>SourceCodeInfo_Location_leadingDetachedComments := SourceCodeInfo_Location_leadingDetachedComments m @ [v]\<rparr>))"
  by (simp_all add: SourceCodeInfo_Location_field_def)

subsection \<open>\<open>SourceCodeInfo\<close>\<close>

definition SourceCodeInfo_bytes :: "wire_format \<Rightarrow> SourceCodeInfo \<Rightarrow> bytes" where
  "SourceCodeInfo_bytes F message =
     concat (map (\<lambda>v. msgBytes F 10 (SourceCodeInfo_Location_bytes F v))
       (SourceCodeInfo_location message))"

definition SourceCodeInfo_ok :: "wire_format \<Rightarrow> SourceCodeInfo \<Rightarrow> bool" where
  "SourceCodeInfo_ok F message \<longleftrightarrow>
     (\<forall>v\<in>set (SourceCodeInfo_location message). SourceCodeInfo_Location_ok F v \<and> msgOk
       (SourceCodeInfo_Location_bytes F v))"

lemma SourceCodeInfo_field_tags:
  "SourceCodeInfo_field R 10 m = bindR (nested R (SourceCodeInfo_Location_decode R)) (\<lambda>v. cont
    (m\<lparr>SourceCodeInfo_location := SourceCodeInfo_location m @ [v]\<rparr>))"
  by (simp_all add: SourceCodeInfo_field_def)

subsection \<open>\<open>GeneratedCodeInfo_Annotation\<close>\<close>

definition GeneratedCodeInfo_Annotation_bytes :: "wire_format \<Rightarrow> GeneratedCodeInfo_Annotation
  \<Rightarrow> bytes" where
  "GeneratedCodeInfo_Annotation_bytes F message =
     msgBytes F 10 (packedBytes F (GeneratedCodeInfo_Annotation_path message)) @
     (if differs (GeneratedCodeInfo_Annotation_sourceFile message) '''' then strBytes F 18 (the
       (GeneratedCodeInfo_Annotation_sourceFile message)) else []) @
     (if differs (GeneratedCodeInfo_Annotation_begin message) (numInt 0) then i32Bytes F 24 (the
       (GeneratedCodeInfo_Annotation_begin message)) else []) @
     (if differs (GeneratedCodeInfo_Annotation_end message) (numInt 0) then i32Bytes F 32 (the
       (GeneratedCodeInfo_Annotation_end message)) else []) @
     (if differs (GeneratedCodeInfo_Annotation_semantic message) (numInt 0) then i32Bytes F 40 (the
       (GeneratedCodeInfo_Annotation_semantic message)) else [])"

definition GeneratedCodeInfo_Annotation_ok :: "wire_format \<Rightarrow> GeneratedCodeInfo_Annotation
  \<Rightarrow> bool" where
  "GeneratedCodeInfo_Annotation_ok F message \<longleftrightarrow>
     (\<forall>v\<in>set (GeneratedCodeInfo_Annotation_path message). isInt32 v) \<and> msgOk
       (packedBytes F (GeneratedCodeInfo_Annotation_path message)) \<and>
     (\<forall>v. GeneratedCodeInfo_Annotation_sourceFile message = Some v \<longrightarrow> strOk F v) \<and>
     GeneratedCodeInfo_Annotation_sourceFile message \<noteq> None \<and>
     (\<forall>v. GeneratedCodeInfo_Annotation_begin message = Some v \<longrightarrow> isInt32 v) \<and>
     GeneratedCodeInfo_Annotation_begin message \<noteq> None \<and>
     (\<forall>v. GeneratedCodeInfo_Annotation_end message = Some v \<longrightarrow> isInt32 v) \<and>
     GeneratedCodeInfo_Annotation_end message \<noteq> None \<and>
     (\<forall>v. GeneratedCodeInfo_Annotation_semantic message = Some v \<longrightarrow> isInt32 v) \<and>
     GeneratedCodeInfo_Annotation_semantic message \<noteq> None"

lemma GeneratedCodeInfo_Annotation_field_tags:
  "GeneratedCodeInfo_Annotation_field R 10 m = bindR (packed R (GeneratedCodeInfo_Annotation_path m))
    (\<lambda>vs. cont (m\<lparr>GeneratedCodeInfo_Annotation_path := vs\<rparr>))"
  "GeneratedCodeInfo_Annotation_field R 18 m = bindR (getR (r_string R)) (\<lambda>v. cont
    (m\<lparr>GeneratedCodeInfo_Annotation_sourceFile := Some v\<rparr>))"
  "GeneratedCodeInfo_Annotation_field R 24 m = bindR (getR (r_int32 R)) (\<lambda>v. cont
    (m\<lparr>GeneratedCodeInfo_Annotation_begin := Some (numInt v)\<rparr>))"
  "GeneratedCodeInfo_Annotation_field R 32 m = bindR (getR (r_int32 R)) (\<lambda>v. cont
    (m\<lparr>GeneratedCodeInfo_Annotation_end := Some (numInt v)\<rparr>))"
  "GeneratedCodeInfo_Annotation_field R 40 m = bindR (getR (r_int32 R)) (\<lambda>v. cont
    (m\<lparr>GeneratedCodeInfo_Annotation_semantic := Some (numInt v)\<rparr>))"
  by (simp_all add: GeneratedCodeInfo_Annotation_field_def)

subsection \<open>\<open>GeneratedCodeInfo\<close>\<close>

definition GeneratedCodeInfo_bytes :: "wire_format \<Rightarrow> GeneratedCodeInfo \<Rightarrow> bytes" where
  "GeneratedCodeInfo_bytes F message =
     concat (map (\<lambda>v. msgBytes F 10 (GeneratedCodeInfo_Annotation_bytes F v))
       (GeneratedCodeInfo_annotation message))"

definition GeneratedCodeInfo_ok :: "wire_format \<Rightarrow> GeneratedCodeInfo \<Rightarrow> bool" where
  "GeneratedCodeInfo_ok F message \<longleftrightarrow>
     (\<forall>v\<in>set (GeneratedCodeInfo_annotation message). GeneratedCodeInfo_Annotation_ok F v \<and> msgOk (GeneratedCodeInfo_Annotation_bytes F v))"

lemma GeneratedCodeInfo_field_tags:
  "GeneratedCodeInfo_field R 10 m = bindR (nested R (GeneratedCodeInfo_Annotation_decode R))
    (\<lambda>v. cont (m\<lparr>GeneratedCodeInfo_annotation := GeneratedCodeInfo_annotation m @ [v]\<rparr>))"
  by (simp_all add: GeneratedCodeInfo_field_def)

section \<open>Encoding\<close>

context wire_writer
begin

lemma FileOptions_writes: "FileOptions_ok F m \<Longrightarrow> writes (FileOptions_encode W m)
  (FileOptions_bytes F m)"
  unfolding FileOptions_encode_def FileOptions_bytes_def FileOptions_ok_def
  by (intro writes_all_Cons writes_all_single writes_when writes_opt writes_each
      writes_string [where t = 10, simplified] writes_string [where t = 66,
        simplified] writes_bool [where t = 80, simplified] writes_bool [where t = 160,
          simplified] writes_bool [where t = 216, simplified] writes_int32 [where t = 72,
            simplified] writes_string [where t = 90, simplified] writes_bool [where t = 128,
              simplified] writes_bool [where t = 136, simplified] writes_bool [where t = 144,
                simplified] writes_bool [where t = 184, simplified] writes_bool [where t = 248,
                  simplified] writes_string [where t = 290, simplified] writes_string [where t = 298,
                    simplified] writes_string [where t = 314, simplified] writes_string [where t = 322,
                      simplified] writes_string [where t = 330, simplified] writes_string [where t = 354,
                        simplified] writes_string [where t = 362, simplified] writes_nested [where t = 402,
                          simplified] writes_nested [where t = 7994, simplified])
    (auto simp: FeatureSet_writes UninterpretedOption_writes differs_def)

lemma SourceCodeInfo_Location_writes: "SourceCodeInfo_Location_ok F m \<Longrightarrow> writes
  (SourceCodeInfo_Location_encode W m) (SourceCodeInfo_Location_bytes F m)"
  unfolding SourceCodeInfo_Location_encode_def SourceCodeInfo_Location_bytes_def SourceCodeInfo_Location_ok_def
  by (intro writes_all_Cons writes_all_single writes_when writes_opt writes_each
      writes_packed [where t = 10, simplified] writes_packed [where t = 18,
        simplified] writes_string [where t = 26, simplified] writes_string [where t = 34,
          simplified] writes_string [where t = 50, simplified])
    (auto simp: differs_def)

lemma SourceCodeInfo_writes: "SourceCodeInfo_ok F m \<Longrightarrow> writes (SourceCodeInfo_encode W m)
  (SourceCodeInfo_bytes F m)"
  unfolding SourceCodeInfo_encode_def SourceCodeInfo_bytes_def SourceCodeInfo_ok_def
  by (intro writes_all_Cons writes_all_single writes_when writes_opt writes_each
      writes_nested [where t = 10, simplified])
    (auto simp: SourceCodeInfo_Location_writes)

lemma GeneratedCodeInfo_Annotation_writes: "GeneratedCodeInfo_Annotation_ok F m \<Longrightarrow> writes
  (GeneratedCodeInfo_Annotation_encode W m) (GeneratedCodeInfo_Annotation_bytes F m)"
  unfolding GeneratedCodeInfo_Annotation_encode_def GeneratedCodeInfo_Annotation_bytes_def GeneratedCodeInfo_Annotation_ok_def
  by (intro writes_all_Cons writes_all_single writes_when writes_opt writes_each
      writes_packed [where t = 10, simplified] writes_string [where t = 18,
        simplified] writes_int32 [where t = 24, simplified] writes_int32 [where t = 32,
          simplified] writes_int32 [where t = 40, simplified])
    (auto simp: differs_def)

lemma GeneratedCodeInfo_writes: "GeneratedCodeInfo_ok F m \<Longrightarrow> writes
  (GeneratedCodeInfo_encode W m) (GeneratedCodeInfo_bytes F m)"
  unfolding GeneratedCodeInfo_encode_def GeneratedCodeInfo_bytes_def GeneratedCodeInfo_ok_def
  by (intro writes_all_Cons writes_all_single writes_when writes_opt writes_each
      writes_nested [where t = 10, simplified])
    (auto simp: GeneratedCodeInfo_Annotation_writes)

end

section \<open>Decoding\<close>

context wire_reader
begin

lemma FileOptions_consumes:
  "FileOptions_ok F m \<Longrightarrow> consumes (FileOptions_field R) createBaseFileOptions
    (FileOptions_bytes F m) m"
  unfolding FileOptions_bytes_def
  by (rule consumes_to,
      rule set_opt_string [where fu = FileOptions_javaPackage_update and t = 10],
      rule set_opt_string [where fu = FileOptions_javaOuterClassname_update and t = 66],
      rule set_opt_bool [where fu = FileOptions_javaMultipleFiles_update and t = 80],
      rule set_opt_bool [where fu = FileOptions_javaGenerateEqualsAndHash_update and t = 160],
      rule set_opt_bool [where fu = FileOptions_javaStringCheckUtf8_update and t = 216],
      rule set_opt_int32 [where fu = FileOptions_optimizeFor_update and t = 72],
      rule set_opt_string [where fu = FileOptions_goPackage_update and t = 90],
      rule set_opt_bool [where fu = FileOptions_ccGenericServices_update and t = 128],
      rule set_opt_bool [where fu = FileOptions_javaGenericServices_update and t = 136],
      rule set_opt_bool [where fu = FileOptions_pyGenericServices_update and t = 144],
      rule set_opt_bool [where fu = FileOptions_deprecated_update and t = 184],
      rule set_opt_bool [where fu = FileOptions_ccEnableArenas_update and t = 248],
      rule set_opt_string [where fu = FileOptions_objcClassPrefix_update and t = 290],
      rule set_opt_string [where fu = FileOptions_csharpNamespace_update and t = 298],
      rule set_opt_string [where fu = FileOptions_swiftPrefix_update and t = 314],
      rule set_opt_string [where fu = FileOptions_phpClassPrefix_update and t = 322],
      rule set_opt_string [where fu = FileOptions_phpNamespace_update and t = 330],
      rule set_opt_string [where fu = FileOptions_phpMetadataNamespace_update and t = 354],
      rule set_opt_string [where fu = FileOptions_rubyPackage_update and t = 362],
      rule set_message [where fu = FileOptions_features_update and t = 402
        and sub = "FeatureSet_field R" and base = createBaseFeatureSet],
      rule consumes_last, rule set_messages [where fu = FileOptions_uninterpretedOption_update and t = 7994
        and sub = "UninterpretedOption_field R" and base = createBaseUninterpretedOption], rule consumes_Nil)
    (auto simp: FileOptions_ok_def FileOptions_field_tags createBaseFileOptions_def FeatureSet_decode_def
      FeatureSet_consumes UninterpretedOption_decode_def UninterpretedOption_consumes intro!: FileOptions.equality)

lemma SourceCodeInfo_Location_consumes:
  "SourceCodeInfo_Location_ok F m \<Longrightarrow> consumes
    (SourceCodeInfo_Location_field R) createBaseSourceCodeInfo_Location (SourceCodeInfo_Location_bytes F m) m"
  unfolding SourceCodeInfo_Location_bytes_def
  by (rule consumes_to,
      rule set_packed [where fu = SourceCodeInfo_Location_path_update and t = 10],
      rule set_packed [where fu = SourceCodeInfo_Location_span_update and t = 18],
      rule set_opt_string [where fu = SourceCodeInfo_Location_leadingComments_update and t = 26],
      rule set_opt_string [where fu = SourceCodeInfo_Location_trailingComments_update and t = 34],
      rule consumes_last, rule set_strings [where fu = SourceCodeInfo_Location_leadingDetachedComments_update and t = 50], rule consumes_Nil)
    (auto simp: SourceCodeInfo_Location_ok_def SourceCodeInfo_Location_field_tags
      createBaseSourceCodeInfo_Location_def intro!: SourceCodeInfo_Location.equality)

lemma SourceCodeInfo_consumes:
  "SourceCodeInfo_ok F m \<Longrightarrow> consumes (SourceCodeInfo_field R) createBaseSourceCodeInfo
    (SourceCodeInfo_bytes F m) m"
  unfolding SourceCodeInfo_bytes_def
  by (rule consumes_to,
      rule consumes_last, rule set_messages [where fu = SourceCodeInfo_location_update and t = 10
        and sub = "SourceCodeInfo_Location_field R" and base = createBaseSourceCodeInfo_Location],
          rule consumes_Nil)
    (auto simp: SourceCodeInfo_ok_def SourceCodeInfo_field_tags createBaseSourceCodeInfo_def
      SourceCodeInfo_Location_decode_def SourceCodeInfo_Location_consumes intro!: SourceCodeInfo.equality)

lemma GeneratedCodeInfo_Annotation_consumes:
  "GeneratedCodeInfo_Annotation_ok F m \<Longrightarrow> consumes
    (GeneratedCodeInfo_Annotation_field R) createBaseGeneratedCodeInfo_Annotation
      (GeneratedCodeInfo_Annotation_bytes F m) m"
  unfolding GeneratedCodeInfo_Annotation_bytes_def
  by (rule consumes_to,
      rule set_packed [where fu = GeneratedCodeInfo_Annotation_path_update and t = 10],
      rule set_opt_string [where fu = GeneratedCodeInfo_Annotation_sourceFile_update and t = 18],
      rule set_opt_int32 [where fu = GeneratedCodeInfo_Annotation_begin_update and t = 24],
      rule set_opt_int32 [where fu = GeneratedCodeInfo_Annotation_end_update and t = 32],
      rule consumes_last, rule set_opt_int32 [where fu = GeneratedCodeInfo_Annotation_semantic_update and t = 40], rule consumes_Nil)
    (auto simp: GeneratedCodeInfo_Annotation_ok_def GeneratedCodeInfo_Annotation_field_tags
      createBaseGeneratedCodeInfo_Annotation_def intro!: GeneratedCodeInfo_Annotation.equality)

lemma GeneratedCodeInfo_consumes:
  "GeneratedCodeInfo_ok F m \<Longrightarrow> consumes
    (GeneratedCodeInfo_field R) createBaseGeneratedCodeInfo (GeneratedCodeInfo_bytes F m) m"
  unfolding GeneratedCodeInfo_bytes_def
  by (rule consumes_to,
      rule consumes_last, rule set_messages [where fu = GeneratedCodeInfo_annotation_update and t = 10
        and sub = "GeneratedCodeInfo_Annotation_field R" and base = createBaseGeneratedCodeInfo_Annotation],
          rule consumes_Nil)
    (auto simp: GeneratedCodeInfo_ok_def GeneratedCodeInfo_field_tags createBaseGeneratedCodeInfo_def
      GeneratedCodeInfo_Annotation_decode_def GeneratedCodeInfo_Annotation_consumes intro!: GeneratedCodeInfo.equality)

lemma FileOptions_ends: "ends k (FileOptions_field R tag m)"
  by (auto simp: FileOptions_field_def FeatureSet_decode_def FeatureSet_ends UninterpretedOption_decode_def
    UninterpretedOption_ends intro!: ends_nested_flat)

lemma SourceCodeInfo_Location_ends: "ends k (SourceCodeInfo_Location_field R tag m)"
  by (auto simp: SourceCodeInfo_Location_field_def)

lemma SourceCodeInfo_ends: "ends k (SourceCodeInfo_field R tag m)"
  by (auto simp: SourceCodeInfo_field_def SourceCodeInfo_Location_decode_def SourceCodeInfo_Location_ends
    intro!: ends_nested_flat)

lemma GeneratedCodeInfo_Annotation_ends: "ends k (GeneratedCodeInfo_Annotation_field R tag m)"
  by (auto simp: GeneratedCodeInfo_Annotation_field_def)

lemma GeneratedCodeInfo_ends: "ends k (GeneratedCodeInfo_field R tag m)"
  by (auto simp: GeneratedCodeInfo_field_def GeneratedCodeInfo_Annotation_decode_def
    GeneratedCodeInfo_Annotation_ends intro!: ends_nested_flat)

end

section \<open>Message functions\<close>

sublocale wire \<subseteq> file_options: message_fns R remaining F W out "FileOptions_encode W"
    "FileOptions_field R" createBaseFileOptions "FileOptions_ok F" "FileOptions_bytes F"
  by unfold_locales (auto simp: FileOptions_writes FileOptions_consumes FileOptions_ends)

sublocale wire \<subseteq> source_code_info_location: message_fns R remaining F W out "SourceCodeInfo_Location_encode W"
    "SourceCodeInfo_Location_field R" createBaseSourceCodeInfo_Location "SourceCodeInfo_Location_ok F" "SourceCodeInfo_Location_bytes F"
  by unfold_locales (auto simp: SourceCodeInfo_Location_writes SourceCodeInfo_Location_consumes
    SourceCodeInfo_Location_ends)

sublocale wire \<subseteq> source_code_info: message_fns R remaining F W out "SourceCodeInfo_encode W"
    "SourceCodeInfo_field R" createBaseSourceCodeInfo "SourceCodeInfo_ok F" "SourceCodeInfo_bytes F"
  by unfold_locales (auto simp: SourceCodeInfo_writes SourceCodeInfo_consumes SourceCodeInfo_ends)

sublocale wire \<subseteq> generated_code_info_annotation: message_fns R remaining F W out "GeneratedCodeInfo_Annotation_encode W"
    "GeneratedCodeInfo_Annotation_field R" createBaseGeneratedCodeInfo_Annotation "GeneratedCodeInfo_Annotation_ok F" "GeneratedCodeInfo_Annotation_bytes F"
  by unfold_locales (auto simp: GeneratedCodeInfo_Annotation_writes GeneratedCodeInfo_Annotation_consumes
    GeneratedCodeInfo_Annotation_ends)

sublocale wire \<subseteq> generated_code_info: message_fns R remaining F W out "GeneratedCodeInfo_encode W"
    "GeneratedCodeInfo_field R" createBaseGeneratedCodeInfo "GeneratedCodeInfo_ok F" "GeneratedCodeInfo_bytes F"
  by unfold_locales (auto simp: GeneratedCodeInfo_writes GeneratedCodeInfo_consumes GeneratedCodeInfo_ends)

end
