(* ===== verification/Proto_Codec.thy ===== *)
theory Proto_Codec
  imports Proto_Messages Options_Codec
begin

text \<open>
  The codecs of the messages of \<open>Proto_Messages\<close>: what they look like on the wire,
    that \<open>encode\<close> writes it,
  that \<open>decode\<close> reads it back and ends on every input.
\<close>

section \<open>Wire formats\<close>

subsection \<open>\<open>FieldDescriptorProto\<close>\<close>

definition FieldDescriptorProto_bytes :: "wire_format \<Rightarrow> FieldDescriptorProto
  \<Rightarrow> bytes" where
  "FieldDescriptorProto_bytes F message =
     (if differs (FieldDescriptorProto_name message) '''' then strBytes F 10 (the
       (FieldDescriptorProto_name message)) else []) @
     (if differs (FieldDescriptorProto_number message) (numInt 0) then i32Bytes F 24 (the
       (FieldDescriptorProto_number message)) else []) @
     (if differs (FieldDescriptorProto_label message) (numInt 1) then i32Bytes F 32 (the
       (FieldDescriptorProto_label message)) else []) @
     (if differs (FieldDescriptorProto_type message) (numInt 1) then i32Bytes F 40 (the
       (FieldDescriptorProto_type message)) else []) @
     (if differs (FieldDescriptorProto_typeName message) '''' then strBytes F 50 (the
       (FieldDescriptorProto_typeName message)) else []) @
     (if differs (FieldDescriptorProto_extendee message) '''' then strBytes F 18 (the
       (FieldDescriptorProto_extendee message)) else []) @
     (if differs (FieldDescriptorProto_defaultValue message) '''' then strBytes F 58 (the
       (FieldDescriptorProto_defaultValue message)) else []) @
     (if differs (FieldDescriptorProto_oneofIndex message) (numInt 0) then i32Bytes F 72 (the
       (FieldDescriptorProto_oneofIndex message)) else []) @
     (if differs (FieldDescriptorProto_jsonName message) '''' then strBytes F 82 (the
       (FieldDescriptorProto_jsonName message)) else []) @
     (case FieldDescriptorProto_options message of None \<Rightarrow> [] | Some v
       \<Rightarrow> msgBytes F 66 (FieldOptions_bytes F v)) @
     (if differs (FieldDescriptorProto_proto3Optional message) False then boolBytes F 136 (the
       (FieldDescriptorProto_proto3Optional message)) else [])"

definition FieldDescriptorProto_ok :: "wire_format \<Rightarrow> FieldDescriptorProto \<Rightarrow> bool" where
  "FieldDescriptorProto_ok F message \<longleftrightarrow>
     (\<forall>v. FieldDescriptorProto_name message = Some v \<longrightarrow> strOk F v) \<and>
     FieldDescriptorProto_name message \<noteq> None \<and>
     (\<forall>v. FieldDescriptorProto_number message = Some v \<longrightarrow> isInt32 v) \<and>
     FieldDescriptorProto_number message \<noteq> None \<and>
     (\<forall>v. FieldDescriptorProto_label message = Some v \<longrightarrow> isInt32 v) \<and>
     FieldDescriptorProto_label message \<noteq> None \<and>
     (\<forall>v. FieldDescriptorProto_type message = Some v \<longrightarrow> isInt32 v) \<and>
     FieldDescriptorProto_type message \<noteq> None \<and>
     (\<forall>v. FieldDescriptorProto_typeName message = Some v \<longrightarrow> strOk F v) \<and>
     FieldDescriptorProto_typeName message \<noteq> None \<and>
     (\<forall>v. FieldDescriptorProto_extendee message = Some v \<longrightarrow> strOk F v) \<and>
     FieldDescriptorProto_extendee message \<noteq> None \<and>
     (\<forall>v. FieldDescriptorProto_defaultValue message = Some v \<longrightarrow> strOk F v) \<and>
     FieldDescriptorProto_defaultValue message \<noteq> None \<and>
     (\<forall>v. FieldDescriptorProto_oneofIndex message = Some v \<longrightarrow> isInt32 v) \<and>
     FieldDescriptorProto_oneofIndex message \<noteq> None \<and>
     (\<forall>v. FieldDescriptorProto_jsonName message = Some v \<longrightarrow> strOk F v) \<and>
     FieldDescriptorProto_jsonName message \<noteq> None \<and>
     (\<forall>v. FieldDescriptorProto_options message = Some v \<longrightarrow> FieldOptions_ok F v \<and> msgOk (FieldOptions_bytes F v)) \<and>
     FieldDescriptorProto_proto3Optional message \<noteq> None"

lemma FieldDescriptorProto_field_tags:
  "FieldDescriptorProto_field R 10 m = bindR (getR (r_string R)) (\<lambda>v. cont
    (m\<lparr>FieldDescriptorProto_name := Some v\<rparr>))"
  "FieldDescriptorProto_field R 24 m = bindR (getR (r_int32 R)) (\<lambda>v. cont
    (m\<lparr>FieldDescriptorProto_number := Some (numInt v)\<rparr>))"
  "FieldDescriptorProto_field R 32 m = bindR (getR (r_int32 R)) (\<lambda>v. cont
    (m\<lparr>FieldDescriptorProto_label := Some (numInt v)\<rparr>))"
  "FieldDescriptorProto_field R 40 m = bindR (getR (r_int32 R)) (\<lambda>v. cont
    (m\<lparr>FieldDescriptorProto_type := Some (numInt v)\<rparr>))"
  "FieldDescriptorProto_field R 50 m = bindR (getR (r_string R)) (\<lambda>v. cont
    (m\<lparr>FieldDescriptorProto_typeName := Some v\<rparr>))"
  "FieldDescriptorProto_field R 18 m = bindR (getR (r_string R)) (\<lambda>v. cont
    (m\<lparr>FieldDescriptorProto_extendee := Some v\<rparr>))"
  "FieldDescriptorProto_field R 58 m = bindR (getR (r_string R)) (\<lambda>v. cont
    (m\<lparr>FieldDescriptorProto_defaultValue := Some v\<rparr>))"
  "FieldDescriptorProto_field R 72 m = bindR (getR (r_int32 R)) (\<lambda>v. cont
    (m\<lparr>FieldDescriptorProto_oneofIndex := Some (numInt v)\<rparr>))"
  "FieldDescriptorProto_field R 82 m = bindR (getR (r_string R)) (\<lambda>v. cont
    (m\<lparr>FieldDescriptorProto_jsonName := Some v\<rparr>))"
  "FieldDescriptorProto_field R 66 m = bindR (nested R (FieldOptions_decode R)) (\<lambda>v. cont
    (m\<lparr>FieldDescriptorProto_options := Some v\<rparr>))"
  "FieldDescriptorProto_field R 136 m = bindR (getR (r_bool R)) (\<lambda>v. cont
    (m\<lparr>FieldDescriptorProto_proto3Optional := Some v\<rparr>))"
  by (simp_all add: FieldDescriptorProto_field_def)

subsection \<open>\<open>OneofDescriptorProto\<close>\<close>

definition OneofDescriptorProto_bytes :: "wire_format \<Rightarrow> OneofDescriptorProto
  \<Rightarrow> bytes" where
  "OneofDescriptorProto_bytes F message =
     (if differs (OneofDescriptorProto_name message) '''' then strBytes F 10 (the
       (OneofDescriptorProto_name message)) else []) @
     (case OneofDescriptorProto_options message of None \<Rightarrow> [] | Some v
       \<Rightarrow> msgBytes F 18 (OneofOptions_bytes F v))"

definition OneofDescriptorProto_ok :: "wire_format \<Rightarrow> OneofDescriptorProto \<Rightarrow> bool" where
  "OneofDescriptorProto_ok F message \<longleftrightarrow>
     (\<forall>v. OneofDescriptorProto_name message = Some v \<longrightarrow> strOk F v) \<and>
     OneofDescriptorProto_name message \<noteq> None \<and>
     (\<forall>v. OneofDescriptorProto_options message = Some v \<longrightarrow> OneofOptions_ok F v \<and> msgOk (OneofOptions_bytes F v))"

lemma OneofDescriptorProto_field_tags:
  "OneofDescriptorProto_field R 10 m = bindR (getR (r_string R)) (\<lambda>v. cont
    (m\<lparr>OneofDescriptorProto_name := Some v\<rparr>))"
  "OneofDescriptorProto_field R 18 m = bindR (nested R (OneofOptions_decode R)) (\<lambda>v. cont
    (m\<lparr>OneofDescriptorProto_options := Some v\<rparr>))"
  by (simp_all add: OneofDescriptorProto_field_def)

subsection \<open>\<open>EnumValueDescriptorProto\<close>\<close>

definition EnumValueDescriptorProto_bytes :: "wire_format \<Rightarrow> EnumValueDescriptorProto
  \<Rightarrow> bytes" where
  "EnumValueDescriptorProto_bytes F message =
     (if differs (EnumValueDescriptorProto_name message) '''' then strBytes F 10 (the
       (EnumValueDescriptorProto_name message)) else []) @
     (if differs (EnumValueDescriptorProto_number message) (numInt 0) then i32Bytes F 16 (the
       (EnumValueDescriptorProto_number message)) else []) @
     (case EnumValueDescriptorProto_options message of None \<Rightarrow> [] | Some v
       \<Rightarrow> msgBytes F 26 (EnumValueOptions_bytes F v))"

definition EnumValueDescriptorProto_ok :: "wire_format \<Rightarrow> EnumValueDescriptorProto
  \<Rightarrow> bool" where
  "EnumValueDescriptorProto_ok F message \<longleftrightarrow>
     (\<forall>v. EnumValueDescriptorProto_name message = Some v \<longrightarrow> strOk F v) \<and>
     EnumValueDescriptorProto_name message \<noteq> None \<and>
     (\<forall>v. EnumValueDescriptorProto_number message = Some v \<longrightarrow> isInt32 v) \<and>
     EnumValueDescriptorProto_number message \<noteq> None \<and>
     (\<forall>v. EnumValueDescriptorProto_options message = Some v \<longrightarrow> EnumValueOptions_ok F v \<and> msgOk (EnumValueOptions_bytes F v))"

lemma EnumValueDescriptorProto_field_tags:
  "EnumValueDescriptorProto_field R 10 m = bindR (getR (r_string R)) (\<lambda>v. cont
    (m\<lparr>EnumValueDescriptorProto_name := Some v\<rparr>))"
  "EnumValueDescriptorProto_field R 16 m = bindR (getR (r_int32 R)) (\<lambda>v. cont
    (m\<lparr>EnumValueDescriptorProto_number := Some (numInt v)\<rparr>))"
  "EnumValueDescriptorProto_field R 26 m = bindR (nested R (EnumValueOptions_decode R)) (\<lambda>v. cont
    (m\<lparr>EnumValueDescriptorProto_options := Some v\<rparr>))"
  by (simp_all add: EnumValueDescriptorProto_field_def)

subsection \<open>\<open>EnumDescriptorProto\<close>\<close>

definition EnumDescriptorProto_bytes :: "wire_format \<Rightarrow> EnumDescriptorProto
  \<Rightarrow> bytes" where
  "EnumDescriptorProto_bytes F message =
     (if differs (EnumDescriptorProto_name message) '''' then strBytes F 10 (the
       (EnumDescriptorProto_name message)) else []) @
     concat (map (\<lambda>v. msgBytes F 18 (EnumValueDescriptorProto_bytes F v))
       (EnumDescriptorProto_value message)) @
     (case EnumDescriptorProto_options message of None \<Rightarrow> [] | Some v
       \<Rightarrow> msgBytes F 26 (EnumOptions_bytes F v)) @
     concat (map (\<lambda>v. msgBytes F 34 (EnumDescriptorProto_EnumReservedRange_bytes F v))
       (EnumDescriptorProto_reservedRange message)) @
     concat (map (strBytes F 42) (EnumDescriptorProto_reservedName message)) @
     (if differs (EnumDescriptorProto_visibility message) (numInt 0) then i32Bytes F 48 (the
       (EnumDescriptorProto_visibility message)) else [])"

definition EnumDescriptorProto_ok :: "wire_format \<Rightarrow> EnumDescriptorProto \<Rightarrow> bool" where
  "EnumDescriptorProto_ok F message \<longleftrightarrow>
     (\<forall>v. EnumDescriptorProto_name message = Some v \<longrightarrow> strOk F v) \<and>
     EnumDescriptorProto_name message \<noteq> None \<and>
     (\<forall>v\<in>set (EnumDescriptorProto_value message). EnumValueDescriptorProto_ok F v \<and> msgOk
       (EnumValueDescriptorProto_bytes F v)) \<and>
     (\<forall>v. EnumDescriptorProto_options message = Some v \<longrightarrow> EnumOptions_ok F v \<and> msgOk (EnumOptions_bytes F v)) \<and>
     (\<forall>v\<in>set (EnumDescriptorProto_reservedRange message). EnumDescriptorProto_EnumReservedRange_ok F v \<and> msgOk (EnumDescriptorProto_EnumReservedRange_bytes F v)) \<and>
     (\<forall>v\<in>set (EnumDescriptorProto_reservedName message). strOk F v) \<and>
     (\<forall>v. EnumDescriptorProto_visibility message = Some v \<longrightarrow> isInt32 v) \<and>
     EnumDescriptorProto_visibility message \<noteq> None"

lemma EnumDescriptorProto_field_tags:
  "EnumDescriptorProto_field R 10 m = bindR (getR (r_string R)) (\<lambda>v. cont
    (m\<lparr>EnumDescriptorProto_name := Some v\<rparr>))"
  "EnumDescriptorProto_field R 18 m = bindR (nested R (EnumValueDescriptorProto_decode R))
    (\<lambda>v. cont (m\<lparr>EnumDescriptorProto_value := EnumDescriptorProto_value m @ [v]\<rparr>))"
  "EnumDescriptorProto_field R 26 m = bindR (nested R (EnumOptions_decode R)) (\<lambda>v. cont
    (m\<lparr>EnumDescriptorProto_options := Some v\<rparr>))"
  "EnumDescriptorProto_field R 34 m = bindR (nested R (EnumDescriptorProto_EnumReservedRange_decode R))
    (\<lambda>v. cont (m\<lparr>EnumDescriptorProto_reservedRange := EnumDescriptorProto_reservedRange m @ [v]\<rparr>))"
  "EnumDescriptorProto_field R 42 m = bindR (getR (r_string R)) (\<lambda>v. cont
    (m\<lparr>EnumDescriptorProto_reservedName := EnumDescriptorProto_reservedName m @ [v]\<rparr>))"
  "EnumDescriptorProto_field R 48 m = bindR (getR (r_int32 R)) (\<lambda>v. cont
    (m\<lparr>EnumDescriptorProto_visibility := Some (numInt v)\<rparr>))"
  by (simp_all add: EnumDescriptorProto_field_def)

subsection \<open>\<open>MethodDescriptorProto\<close>\<close>

definition MethodDescriptorProto_bytes :: "wire_format \<Rightarrow> MethodDescriptorProto
  \<Rightarrow> bytes" where
  "MethodDescriptorProto_bytes F message =
     (if differs (MethodDescriptorProto_name message) '''' then strBytes F 10 (the
       (MethodDescriptorProto_name message)) else []) @
     (if differs (MethodDescriptorProto_inputType message) '''' then strBytes F 18 (the
       (MethodDescriptorProto_inputType message)) else []) @
     (if differs (MethodDescriptorProto_outputType message) '''' then strBytes F 26 (the
       (MethodDescriptorProto_outputType message)) else []) @
     (case MethodDescriptorProto_options message of None \<Rightarrow> [] | Some v
       \<Rightarrow> msgBytes F 34 (MethodOptions_bytes F v)) @
     (if differs (MethodDescriptorProto_clientStreaming message) False then boolBytes F 40 (the
       (MethodDescriptorProto_clientStreaming message)) else []) @
     (if differs (MethodDescriptorProto_serverStreaming message) False then boolBytes F 48 (the
       (MethodDescriptorProto_serverStreaming message)) else [])"

definition MethodDescriptorProto_ok :: "wire_format \<Rightarrow> MethodDescriptorProto
  \<Rightarrow> bool" where
  "MethodDescriptorProto_ok F message \<longleftrightarrow>
     (\<forall>v. MethodDescriptorProto_name message = Some v \<longrightarrow> strOk F v) \<and>
     MethodDescriptorProto_name message \<noteq> None \<and>
     (\<forall>v. MethodDescriptorProto_inputType message = Some v \<longrightarrow> strOk F v) \<and>
     MethodDescriptorProto_inputType message \<noteq> None \<and>
     (\<forall>v. MethodDescriptorProto_outputType message = Some v \<longrightarrow> strOk F v) \<and>
     MethodDescriptorProto_outputType message \<noteq> None \<and>
     (\<forall>v. MethodDescriptorProto_options message = Some v \<longrightarrow> MethodOptions_ok F v \<and> msgOk (MethodOptions_bytes F v)) \<and>
     MethodDescriptorProto_clientStreaming message \<noteq> None \<and>
     MethodDescriptorProto_serverStreaming message \<noteq> None"

lemma MethodDescriptorProto_field_tags:
  "MethodDescriptorProto_field R 10 m = bindR (getR (r_string R)) (\<lambda>v. cont
    (m\<lparr>MethodDescriptorProto_name := Some v\<rparr>))"
  "MethodDescriptorProto_field R 18 m = bindR (getR (r_string R)) (\<lambda>v. cont
    (m\<lparr>MethodDescriptorProto_inputType := Some v\<rparr>))"
  "MethodDescriptorProto_field R 26 m = bindR (getR (r_string R)) (\<lambda>v. cont
    (m\<lparr>MethodDescriptorProto_outputType := Some v\<rparr>))"
  "MethodDescriptorProto_field R 34 m = bindR (nested R (MethodOptions_decode R)) (\<lambda>v. cont
    (m\<lparr>MethodDescriptorProto_options := Some v\<rparr>))"
  "MethodDescriptorProto_field R 40 m = bindR (getR (r_bool R)) (\<lambda>v. cont
    (m\<lparr>MethodDescriptorProto_clientStreaming := Some v\<rparr>))"
  "MethodDescriptorProto_field R 48 m = bindR (getR (r_bool R)) (\<lambda>v. cont
    (m\<lparr>MethodDescriptorProto_serverStreaming := Some v\<rparr>))"
  by (simp_all add: MethodDescriptorProto_field_def)

subsection \<open>\<open>ServiceDescriptorProto\<close>\<close>

definition ServiceDescriptorProto_bytes :: "wire_format \<Rightarrow> ServiceDescriptorProto
  \<Rightarrow> bytes" where
  "ServiceDescriptorProto_bytes F message =
     (if differs (ServiceDescriptorProto_name message) '''' then strBytes F 10 (the
       (ServiceDescriptorProto_name message)) else []) @
     concat (map (\<lambda>v. msgBytes F 18 (MethodDescriptorProto_bytes F v))
       (ServiceDescriptorProto_method message)) @
     (case ServiceDescriptorProto_options message of None \<Rightarrow> [] | Some v
       \<Rightarrow> msgBytes F 26 (ServiceOptions_bytes F v))"

definition ServiceDescriptorProto_ok :: "wire_format \<Rightarrow> ServiceDescriptorProto
  \<Rightarrow> bool" where
  "ServiceDescriptorProto_ok F message \<longleftrightarrow>
     (\<forall>v. ServiceDescriptorProto_name message = Some v \<longrightarrow> strOk F v) \<and>
     ServiceDescriptorProto_name message \<noteq> None \<and>
     (\<forall>v\<in>set (ServiceDescriptorProto_method message). MethodDescriptorProto_ok F v \<and> msgOk
       (MethodDescriptorProto_bytes F v)) \<and>
     (\<forall>v. ServiceDescriptorProto_options message = Some v \<longrightarrow> ServiceOptions_ok F v \<and> msgOk (ServiceOptions_bytes F v))"

lemma ServiceDescriptorProto_field_tags:
  "ServiceDescriptorProto_field R 10 m = bindR (getR (r_string R)) (\<lambda>v. cont
    (m\<lparr>ServiceDescriptorProto_name := Some v\<rparr>))"
  "ServiceDescriptorProto_field R 18 m = bindR (nested R (MethodDescriptorProto_decode R))
    (\<lambda>v. cont (m\<lparr>ServiceDescriptorProto_method := ServiceDescriptorProto_method m @ [v]\<rparr>))"
  "ServiceDescriptorProto_field R 26 m = bindR (nested R (ServiceOptions_decode R)) (\<lambda>v. cont
    (m\<lparr>ServiceDescriptorProto_options := Some v\<rparr>))"
  by (simp_all add: ServiceDescriptorProto_field_def)

subsection \<open>\<open>DescriptorProto_ExtensionRange\<close>\<close>

definition DescriptorProto_ExtensionRange_bytes :: "wire_format
  \<Rightarrow> DescriptorProto_ExtensionRange \<Rightarrow> bytes" where
  "DescriptorProto_ExtensionRange_bytes F message =
     (if differs (DescriptorProto_ExtensionRange_start message) (numInt 0) then i32Bytes F 8 (the
       (DescriptorProto_ExtensionRange_start message)) else []) @
     (if differs (DescriptorProto_ExtensionRange_end message) (numInt 0) then i32Bytes F 16 (the
       (DescriptorProto_ExtensionRange_end message)) else []) @
     (case DescriptorProto_ExtensionRange_options message of None \<Rightarrow> [] | Some v
       \<Rightarrow> msgBytes F 26 (ExtensionRangeOptions_bytes F v))"

definition DescriptorProto_ExtensionRange_ok :: "wire_format \<Rightarrow> DescriptorProto_ExtensionRange
  \<Rightarrow> bool" where
  "DescriptorProto_ExtensionRange_ok F message \<longleftrightarrow>
     (\<forall>v. DescriptorProto_ExtensionRange_start message = Some v \<longrightarrow> isInt32 v) \<and>
     DescriptorProto_ExtensionRange_start message \<noteq> None \<and>
     (\<forall>v. DescriptorProto_ExtensionRange_end message = Some v \<longrightarrow> isInt32 v) \<and>
     DescriptorProto_ExtensionRange_end message \<noteq> None \<and>
     (\<forall>v. DescriptorProto_ExtensionRange_options message = Some v \<longrightarrow> ExtensionRangeOptions_ok F v \<and> msgOk (ExtensionRangeOptions_bytes F v))"

lemma DescriptorProto_ExtensionRange_field_tags:
  "DescriptorProto_ExtensionRange_field R 8 m = bindR (getR (r_int32 R)) (\<lambda>v. cont
    (m\<lparr>DescriptorProto_ExtensionRange_start := Some (numInt v)\<rparr>))"
  "DescriptorProto_ExtensionRange_field R 16 m = bindR (getR (r_int32 R)) (\<lambda>v. cont
    (m\<lparr>DescriptorProto_ExtensionRange_end := Some (numInt v)\<rparr>))"
  "DescriptorProto_ExtensionRange_field R 26 m = bindR (nested R (ExtensionRangeOptions_decode R))
    (\<lambda>v. cont (m\<lparr>DescriptorProto_ExtensionRange_options := Some v\<rparr>))"
  by (simp_all add: DescriptorProto_ExtensionRange_field_def)

section \<open>Encoding\<close>

context wire_writer
begin

lemma FieldDescriptorProto_writes: "FieldDescriptorProto_ok F m \<Longrightarrow> writes
  (FieldDescriptorProto_encode W m) (FieldDescriptorProto_bytes F m)"
  unfolding FieldDescriptorProto_encode_def FieldDescriptorProto_bytes_def FieldDescriptorProto_ok_def
  by (intro writes_all_Cons writes_all_single writes_when writes_opt writes_each
      writes_string [where t = 10, simplified] writes_int32 [where t = 24,
        simplified] writes_int32 [where t = 32, simplified] writes_int32 [where t = 40,
          simplified] writes_string [where t = 50, simplified] writes_string [where t = 18,
            simplified] writes_string [where t = 58, simplified] writes_int32 [where t = 72,
              simplified] writes_string [where t = 82, simplified] writes_nested [where t = 66,
                simplified] writes_bool [where t = 136, simplified])
    (auto simp: FieldOptions_writes differs_def)

lemma OneofDescriptorProto_writes: "OneofDescriptorProto_ok F m \<Longrightarrow> writes
  (OneofDescriptorProto_encode W m) (OneofDescriptorProto_bytes F m)"
  unfolding OneofDescriptorProto_encode_def OneofDescriptorProto_bytes_def OneofDescriptorProto_ok_def
  by (intro writes_all_Cons writes_all_single writes_when writes_opt writes_each
      writes_string [where t = 10, simplified] writes_nested [where t = 18, simplified])
    (auto simp: OneofOptions_writes differs_def)

lemma EnumValueDescriptorProto_writes: "EnumValueDescriptorProto_ok F m \<Longrightarrow> writes
  (EnumValueDescriptorProto_encode W m) (EnumValueDescriptorProto_bytes F m)"
  unfolding EnumValueDescriptorProto_encode_def EnumValueDescriptorProto_bytes_def EnumValueDescriptorProto_ok_def
  by (intro writes_all_Cons writes_all_single writes_when writes_opt writes_each
      writes_string [where t = 10, simplified] writes_int32 [where t = 16,
        simplified] writes_nested [where t = 26, simplified])
    (auto simp: EnumValueOptions_writes differs_def)

lemma EnumDescriptorProto_writes: "EnumDescriptorProto_ok F m \<Longrightarrow> writes
  (EnumDescriptorProto_encode W m) (EnumDescriptorProto_bytes F m)"
  unfolding EnumDescriptorProto_encode_def EnumDescriptorProto_bytes_def EnumDescriptorProto_ok_def
  by (intro writes_all_Cons writes_all_single writes_when writes_opt writes_each
      writes_string [where t = 10, simplified] writes_nested [where t = 18,
        simplified] writes_nested [where t = 26, simplified] writes_nested [where t = 34,
          simplified] writes_string [where t = 42, simplified] writes_int32 [where t = 48, simplified])
    (auto simp: EnumDescriptorProto_EnumReservedRange_writes EnumOptions_writes
      EnumValueDescriptorProto_writes differs_def)

lemma MethodDescriptorProto_writes: "MethodDescriptorProto_ok F m \<Longrightarrow> writes
  (MethodDescriptorProto_encode W m) (MethodDescriptorProto_bytes F m)"
  unfolding MethodDescriptorProto_encode_def MethodDescriptorProto_bytes_def MethodDescriptorProto_ok_def
  by (intro writes_all_Cons writes_all_single writes_when writes_opt writes_each
      writes_string [where t = 10, simplified] writes_string [where t = 18,
        simplified] writes_string [where t = 26, simplified] writes_nested [where t = 34,
          simplified] writes_bool [where t = 40, simplified] writes_bool [where t = 48, simplified])
    (auto simp: MethodOptions_writes differs_def)

lemma ServiceDescriptorProto_writes: "ServiceDescriptorProto_ok F m \<Longrightarrow> writes
  (ServiceDescriptorProto_encode W m) (ServiceDescriptorProto_bytes F m)"
  unfolding ServiceDescriptorProto_encode_def ServiceDescriptorProto_bytes_def ServiceDescriptorProto_ok_def
  by (intro writes_all_Cons writes_all_single writes_when writes_opt writes_each
      writes_string [where t = 10, simplified] writes_nested [where t = 18,
        simplified] writes_nested [where t = 26, simplified])
    (auto simp: MethodDescriptorProto_writes ServiceOptions_writes differs_def)

lemma DescriptorProto_ExtensionRange_writes: "DescriptorProto_ExtensionRange_ok F m \<Longrightarrow> writes (DescriptorProto_ExtensionRange_encode W m) (DescriptorProto_ExtensionRange_bytes F m)"
  unfolding DescriptorProto_ExtensionRange_encode_def DescriptorProto_ExtensionRange_bytes_def DescriptorProto_ExtensionRange_ok_def
  by (intro writes_all_Cons writes_all_single writes_when writes_opt writes_each
      writes_int32 [where t = 8, simplified] writes_int32 [where t = 16,
        simplified] writes_nested [where t = 26, simplified])
    (auto simp: ExtensionRangeOptions_writes differs_def)

end

section \<open>Decoding\<close>

context wire_reader
begin

lemma FieldDescriptorProto_consumes:
  "FieldDescriptorProto_ok F m \<Longrightarrow> consumes
    (FieldDescriptorProto_field R) createBaseFieldDescriptorProto (FieldDescriptorProto_bytes F m) m"
  unfolding FieldDescriptorProto_bytes_def
  by (rule consumes_to,
      rule set_opt_string [where fu = FieldDescriptorProto_name_update and t = 10],
      rule set_opt_int32 [where fu = FieldDescriptorProto_number_update and t = 24],
      rule set_opt_int32 [where fu = FieldDescriptorProto_label_update and t = 32],
      rule set_opt_int32 [where fu = FieldDescriptorProto_type_update and t = 40],
      rule set_opt_string [where fu = FieldDescriptorProto_typeName_update and t = 50],
      rule set_opt_string [where fu = FieldDescriptorProto_extendee_update and t = 18],
      rule set_opt_string [where fu = FieldDescriptorProto_defaultValue_update and t = 58],
      rule set_opt_int32 [where fu = FieldDescriptorProto_oneofIndex_update and t = 72],
      rule set_opt_string [where fu = FieldDescriptorProto_jsonName_update and t = 82],
      rule set_message [where fu = FieldDescriptorProto_options_update and t = 66
        and sub = "FieldOptions_field R" and base = createBaseFieldOptions],
      rule consumes_last, rule set_opt_bool [where fu = FieldDescriptorProto_proto3Optional_update and t = 136], rule consumes_Nil)
    (auto simp: FieldDescriptorProto_ok_def FieldDescriptorProto_field_tags
      createBaseFieldDescriptorProto_def FieldOptions_decode_def FieldOptions_consumes intro!: FieldDescriptorProto.equality)

lemma OneofDescriptorProto_consumes:
  "OneofDescriptorProto_ok F m \<Longrightarrow> consumes
    (OneofDescriptorProto_field R) createBaseOneofDescriptorProto (OneofDescriptorProto_bytes F m) m"
  unfolding OneofDescriptorProto_bytes_def
  by (rule consumes_to,
      rule set_opt_string [where fu = OneofDescriptorProto_name_update and t = 10],
      rule consumes_last, rule set_message [where fu = OneofDescriptorProto_options_update and t = 18
        and sub = "OneofOptions_field R" and base = createBaseOneofOptions], rule consumes_Nil)
    (auto simp: OneofDescriptorProto_ok_def OneofDescriptorProto_field_tags
      createBaseOneofDescriptorProto_def OneofOptions_decode_def OneofOptions_consumes intro!: OneofDescriptorProto.equality)

lemma EnumValueDescriptorProto_consumes:
  "EnumValueDescriptorProto_ok F m \<Longrightarrow> consumes
    (EnumValueDescriptorProto_field R) createBaseEnumValueDescriptorProto
      (EnumValueDescriptorProto_bytes F m) m"
  unfolding EnumValueDescriptorProto_bytes_def
  by (rule consumes_to,
      rule set_opt_string [where fu = EnumValueDescriptorProto_name_update and t = 10],
      rule set_opt_int32 [where fu = EnumValueDescriptorProto_number_update and t = 16],
      rule consumes_last, rule set_message [where fu = EnumValueDescriptorProto_options_update and t = 26
        and sub = "EnumValueOptions_field R" and base = createBaseEnumValueOptions], rule consumes_Nil)
    (auto simp: EnumValueDescriptorProto_ok_def EnumValueDescriptorProto_field_tags
      createBaseEnumValueDescriptorProto_def EnumValueOptions_decode_def EnumValueOptions_consumes intro!: EnumValueDescriptorProto.equality)

lemma EnumDescriptorProto_consumes:
  "EnumDescriptorProto_ok F m \<Longrightarrow> consumes
    (EnumDescriptorProto_field R) createBaseEnumDescriptorProto (EnumDescriptorProto_bytes F m) m"
  unfolding EnumDescriptorProto_bytes_def
  by (rule consumes_to,
      rule set_opt_string [where fu = EnumDescriptorProto_name_update and t = 10],
      rule set_messages [where fu = EnumDescriptorProto_value_update and t = 18
        and sub = "EnumValueDescriptorProto_field R" and base = createBaseEnumValueDescriptorProto],
      rule set_message [where fu = EnumDescriptorProto_options_update and t = 26
        and sub = "EnumOptions_field R" and base = createBaseEnumOptions],
      rule set_messages [where fu = EnumDescriptorProto_reservedRange_update and t = 34
        and sub = "EnumDescriptorProto_EnumReservedRange_field R" and base = createBaseEnumDescriptorProto_EnumReservedRange],
      rule set_strings [where fu = EnumDescriptorProto_reservedName_update and t = 42],
      rule consumes_last, rule set_opt_int32 [where fu = EnumDescriptorProto_visibility_update and t = 48],
        rule consumes_Nil)
    (auto simp: EnumDescriptorProto_ok_def EnumDescriptorProto_field_tags createBaseEnumDescriptorProto_def
      EnumDescriptorProto_EnumReservedRange_decode_def EnumDescriptorProto_EnumReservedRange_consumes EnumOptions_decode_def EnumOptions_consumes EnumValueDescriptorProto_decode_def EnumValueDescriptorProto_consumes intro!: EnumDescriptorProto.equality)

lemma MethodDescriptorProto_consumes:
  "MethodDescriptorProto_ok F m \<Longrightarrow> consumes
    (MethodDescriptorProto_field R) createBaseMethodDescriptorProto (MethodDescriptorProto_bytes F m) m"
  unfolding MethodDescriptorProto_bytes_def
  by (rule consumes_to,
      rule set_opt_string [where fu = MethodDescriptorProto_name_update and t = 10],
      rule set_opt_string [where fu = MethodDescriptorProto_inputType_update and t = 18],
      rule set_opt_string [where fu = MethodDescriptorProto_outputType_update and t = 26],
      rule set_message [where fu = MethodDescriptorProto_options_update and t = 34
        and sub = "MethodOptions_field R" and base = createBaseMethodOptions],
      rule set_opt_bool [where fu = MethodDescriptorProto_clientStreaming_update and t = 40],
      rule consumes_last, rule set_opt_bool [where fu = MethodDescriptorProto_serverStreaming_update and t = 48], rule consumes_Nil)
    (auto simp: MethodDescriptorProto_ok_def MethodDescriptorProto_field_tags
      createBaseMethodDescriptorProto_def MethodOptions_decode_def MethodOptions_consumes intro!: MethodDescriptorProto.equality)

lemma ServiceDescriptorProto_consumes:
  "ServiceDescriptorProto_ok F m \<Longrightarrow> consumes
    (ServiceDescriptorProto_field R) createBaseServiceDescriptorProto (ServiceDescriptorProto_bytes F m) m"
  unfolding ServiceDescriptorProto_bytes_def
  by (rule consumes_to,
      rule set_opt_string [where fu = ServiceDescriptorProto_name_update and t = 10],
      rule set_messages [where fu = ServiceDescriptorProto_method_update and t = 18
        and sub = "MethodDescriptorProto_field R" and base = createBaseMethodDescriptorProto],
      rule consumes_last, rule set_message [where fu = ServiceDescriptorProto_options_update and t = 26
        and sub = "ServiceOptions_field R" and base = createBaseServiceOptions], rule consumes_Nil)
    (auto simp: ServiceDescriptorProto_ok_def ServiceDescriptorProto_field_tags
      createBaseServiceDescriptorProto_def MethodDescriptorProto_decode_def MethodDescriptorProto_consumes ServiceOptions_decode_def ServiceOptions_consumes intro!: ServiceDescriptorProto.equality)

lemma DescriptorProto_ExtensionRange_consumes:
  "DescriptorProto_ExtensionRange_ok F m \<Longrightarrow> consumes
    (DescriptorProto_ExtensionRange_field R) createBaseDescriptorProto_ExtensionRange
      (DescriptorProto_ExtensionRange_bytes F m) m"
  unfolding DescriptorProto_ExtensionRange_bytes_def
  by (rule consumes_to,
      rule set_opt_int32 [where fu = DescriptorProto_ExtensionRange_start_update and t = 8],
      rule set_opt_int32 [where fu = DescriptorProto_ExtensionRange_end_update and t = 16],
      rule consumes_last, rule set_message [where fu = DescriptorProto_ExtensionRange_options_update and t = 26
        and sub = "ExtensionRangeOptions_field R" and base = createBaseExtensionRangeOptions],
          rule consumes_Nil)
    (auto simp: DescriptorProto_ExtensionRange_ok_def DescriptorProto_ExtensionRange_field_tags
      createBaseDescriptorProto_ExtensionRange_def ExtensionRangeOptions_decode_def ExtensionRangeOptions_consumes intro!: DescriptorProto_ExtensionRange.equality)

lemma FieldDescriptorProto_ends: "ends k (FieldDescriptorProto_field R tag m)"
  by (auto simp: FieldDescriptorProto_field_def FieldOptions_decode_def FieldOptions_ends intro!:
    ends_nested_flat)

lemma OneofDescriptorProto_ends: "ends k (OneofDescriptorProto_field R tag m)"
  by (auto simp: OneofDescriptorProto_field_def OneofOptions_decode_def OneofOptions_ends intro!:
    ends_nested_flat)

lemma EnumValueDescriptorProto_ends: "ends k (EnumValueDescriptorProto_field R tag m)"
  by (auto simp: EnumValueDescriptorProto_field_def EnumValueOptions_decode_def EnumValueOptions_ends
    intro!: ends_nested_flat)

lemma EnumDescriptorProto_ends: "ends k (EnumDescriptorProto_field R tag m)"
  by (auto simp: EnumDescriptorProto_field_def EnumDescriptorProto_EnumReservedRange_decode_def
    EnumDescriptorProto_EnumReservedRange_ends EnumOptions_decode_def EnumOptions_ends EnumValueDescriptorProto_decode_def EnumValueDescriptorProto_ends intro!: ends_nested_flat)

lemma MethodDescriptorProto_ends: "ends k (MethodDescriptorProto_field R tag m)"
  by (auto simp: MethodDescriptorProto_field_def MethodOptions_decode_def MethodOptions_ends intro!:
    ends_nested_flat)

lemma ServiceDescriptorProto_ends: "ends k (ServiceDescriptorProto_field R tag m)"
  by (auto simp: ServiceDescriptorProto_field_def MethodDescriptorProto_decode_def
    MethodDescriptorProto_ends ServiceOptions_decode_def ServiceOptions_ends intro!: ends_nested_flat)

lemma DescriptorProto_ExtensionRange_ends: "ends k (DescriptorProto_ExtensionRange_field R tag m)"
  by (auto simp: DescriptorProto_ExtensionRange_field_def ExtensionRangeOptions_decode_def
    ExtensionRangeOptions_ends intro!: ends_nested_flat)

end

section \<open>Message functions\<close>

sublocale wire \<subseteq> field_descriptor_proto: message_fns R remaining F W out "FieldDescriptorProto_encode W"
    "FieldDescriptorProto_field R" createBaseFieldDescriptorProto "FieldDescriptorProto_ok F" "FieldDescriptorProto_bytes F"
  by unfold_locales (auto simp: FieldDescriptorProto_writes FieldDescriptorProto_consumes
    FieldDescriptorProto_ends)

sublocale wire \<subseteq> oneof_descriptor_proto: message_fns R remaining F W out "OneofDescriptorProto_encode W"
    "OneofDescriptorProto_field R" createBaseOneofDescriptorProto "OneofDescriptorProto_ok F" "OneofDescriptorProto_bytes F"
  by unfold_locales (auto simp: OneofDescriptorProto_writes OneofDescriptorProto_consumes
    OneofDescriptorProto_ends)

sublocale wire \<subseteq> enum_value_descriptor_proto: message_fns R remaining F W out "EnumValueDescriptorProto_encode W"
    "EnumValueDescriptorProto_field R" createBaseEnumValueDescriptorProto "EnumValueDescriptorProto_ok F" "EnumValueDescriptorProto_bytes F"
  by unfold_locales (auto simp: EnumValueDescriptorProto_writes EnumValueDescriptorProto_consumes
    EnumValueDescriptorProto_ends)

sublocale wire \<subseteq> enum_descriptor_proto: message_fns R remaining F W out "EnumDescriptorProto_encode W"
    "EnumDescriptorProto_field R" createBaseEnumDescriptorProto "EnumDescriptorProto_ok F" "EnumDescriptorProto_bytes F"
  by unfold_locales (auto simp: EnumDescriptorProto_writes EnumDescriptorProto_consumes
    EnumDescriptorProto_ends)

sublocale wire \<subseteq> method_descriptor_proto: message_fns R remaining F W out "MethodDescriptorProto_encode W"
    "MethodDescriptorProto_field R" createBaseMethodDescriptorProto "MethodDescriptorProto_ok F" "MethodDescriptorProto_bytes F"
  by unfold_locales (auto simp: MethodDescriptorProto_writes MethodDescriptorProto_consumes
    MethodDescriptorProto_ends)

sublocale wire \<subseteq> service_descriptor_proto: message_fns R remaining F W out "ServiceDescriptorProto_encode W"
    "ServiceDescriptorProto_field R" createBaseServiceDescriptorProto "ServiceDescriptorProto_ok F" "ServiceDescriptorProto_bytes F"
  by unfold_locales (auto simp: ServiceDescriptorProto_writes ServiceDescriptorProto_consumes
    ServiceDescriptorProto_ends)

sublocale wire \<subseteq> descriptor_proto_extension_range: message_fns R remaining F W out "DescriptorProto_ExtensionRange_encode W"
    "DescriptorProto_ExtensionRange_field R" createBaseDescriptorProto_ExtensionRange "DescriptorProto_ExtensionRange_ok F" "DescriptorProto_ExtensionRange_bytes F"
  by unfold_locales (auto simp: DescriptorProto_ExtensionRange_writes
    DescriptorProto_ExtensionRange_consumes DescriptorProto_ExtensionRange_ends)

end
