(* ===== verification/File_Codec.thy ===== *)
theory File_Codec
  imports File_Messages File_Options_Codec Proto_Codec
begin

text \<open>
  The codecs of \<open>DescriptorProto\<close>,
    \<open>FileDescriptorProto\<close> and \<open>FileDescriptorSet\<close>.  \<open>DescriptorProto\<close> refers
  to itself, so its round trip and the end of its \<open>decode\<close> are by induction,
    on the message and on the
  number of bytes left.
\<close>

section \<open>Wire formats\<close>

subsection \<open>\<open>DescriptorProto\<close>\<close>

fun DescriptorProto_bytes :: "wire_format \<Rightarrow> DescriptorProto \<Rightarrow> bytes" where
  "DescriptorProto_bytes F
    (DescriptorProto v_name v_field v_extension v_nestedType v_enumType v_extensionRange v_oneofDecl v_options v_reservedRange v_reservedName v_visibility) =
     (if differs v_name '''' then strBytes F 10 (the v_name) else []) @
     concat (map (\<lambda>v. msgBytes F 18 (FieldDescriptorProto_bytes F v)) v_field) @
     concat (map (\<lambda>v. msgBytes F 50 (FieldDescriptorProto_bytes F v)) v_extension) @
     concat (map (\<lambda>v. msgBytes F 26 (DescriptorProto_bytes F v)) v_nestedType) @
     concat (map (\<lambda>v. msgBytes F 34 (EnumDescriptorProto_bytes F v)) v_enumType) @
     concat (map (\<lambda>v. msgBytes F 42 (DescriptorProto_ExtensionRange_bytes F v)) v_extensionRange) @
     concat (map (\<lambda>v. msgBytes F 66 (OneofDescriptorProto_bytes F v)) v_oneofDecl) @
     (case v_options of None \<Rightarrow> [] | Some v \<Rightarrow> msgBytes F 58 (MessageOptions_bytes F v)) @
     concat (map (\<lambda>v. msgBytes F 74 (DescriptorProto_ReservedRange_bytes F v)) v_reservedRange) @
     concat (map (strBytes F 82) v_reservedName) @
     (if differs v_visibility (numInt 0) then i32Bytes F 88 (the v_visibility) else [])"

fun DescriptorProto_ok :: "wire_format \<Rightarrow> DescriptorProto \<Rightarrow> bool" where
  "DescriptorProto_ok F
    (DescriptorProto v_name v_field v_extension v_nestedType v_enumType v_extensionRange v_oneofDecl v_options v_reservedRange v_reservedName v_visibility) \<longleftrightarrow>
     (\<forall>v. v_name = Some v \<longrightarrow> strOk F v) \<and>
     v_name \<noteq> None \<and>
     (\<forall>v\<in>set v_field. FieldDescriptorProto_ok F v \<and> msgOk
       (FieldDescriptorProto_bytes F v)) \<and>
     (\<forall>v\<in>set v_extension. FieldDescriptorProto_ok F v \<and> msgOk
       (FieldDescriptorProto_bytes F v)) \<and>
     (\<forall>v\<in>set v_nestedType. DescriptorProto_ok F v \<and> msgOk (DescriptorProto_bytes F v)) \<and>
     (\<forall>v\<in>set v_enumType. EnumDescriptorProto_ok F v \<and> msgOk
       (EnumDescriptorProto_bytes F v)) \<and>
     (\<forall>v\<in>set v_extensionRange. DescriptorProto_ExtensionRange_ok F v \<and> msgOk
       (DescriptorProto_ExtensionRange_bytes F v)) \<and>
     (\<forall>v\<in>set v_oneofDecl. OneofDescriptorProto_ok F v \<and> msgOk
       (OneofDescriptorProto_bytes F v)) \<and>
     (\<forall>v. v_options = Some v \<longrightarrow> MessageOptions_ok F v \<and> msgOk
       (MessageOptions_bytes F v)) \<and>
     (\<forall>v\<in>set v_reservedRange. DescriptorProto_ReservedRange_ok F v \<and> msgOk
       (DescriptorProto_ReservedRange_bytes F v)) \<and>
     (\<forall>v\<in>set v_reservedName. strOk F v) \<and>
     (\<forall>v. v_visibility = Some v \<longrightarrow> isInt32 v) \<and>
     v_visibility \<noteq> None"

lemma DescriptorProto_switch_tags:
  "DescriptorProto_switch R dec 10 m = bindR (getR (r_string R)) (\<lambda>v. cont
    (DescriptorProto_set_name (Some v) m))"
  "DescriptorProto_switch R dec 18 m = bindR (nested R (FieldDescriptorProto_decode R)) (\<lambda>v. cont
    (DescriptorProto_set_field (DescriptorProto_field m @ [v]) m))"
  "DescriptorProto_switch R dec 50 m = bindR (nested R (FieldDescriptorProto_decode R)) (\<lambda>v. cont
    (DescriptorProto_set_extension (DescriptorProto_extension m @ [v]) m))"
  "DescriptorProto_switch R dec 26 m = bindR (nested R dec) (\<lambda>v. cont
    (DescriptorProto_set_nestedType (DescriptorProto_nestedType m @ [v]) m))"
  "DescriptorProto_switch R dec 34 m = bindR (nested R (EnumDescriptorProto_decode R)) (\<lambda>v. cont
    (DescriptorProto_set_enumType (DescriptorProto_enumType m @ [v]) m))"
  "DescriptorProto_switch R dec 42 m = bindR (nested R (DescriptorProto_ExtensionRange_decode R))
    (\<lambda>v. cont (DescriptorProto_set_extensionRange (DescriptorProto_extensionRange m @ [v]) m))"
  "DescriptorProto_switch R dec 66 m = bindR (nested R (OneofDescriptorProto_decode R)) (\<lambda>v. cont
    (DescriptorProto_set_oneofDecl (DescriptorProto_oneofDecl m @ [v]) m))"
  "DescriptorProto_switch R dec 58 m = bindR (nested R (MessageOptions_decode R)) (\<lambda>v. cont
    (DescriptorProto_set_options (Some v) m))"
  "DescriptorProto_switch R dec 74 m = bindR (nested R (DescriptorProto_ReservedRange_decode R))
    (\<lambda>v. cont (DescriptorProto_set_reservedRange (DescriptorProto_reservedRange m @ [v]) m))"
  "DescriptorProto_switch R dec 82 m = bindR (getR (r_string R)) (\<lambda>v. cont
    (DescriptorProto_set_reservedName (DescriptorProto_reservedName m @ [v]) m))"
  "DescriptorProto_switch R dec 88 m = bindR (getR (r_int32 R)) (\<lambda>v. cont
    (DescriptorProto_set_visibility (Some (numInt v)) m))"
  by (simp_all add: DescriptorProto_switch_def)

lemma DescriptorProto_decode_unfold:
  "DescriptorProto_decode R = decode_message R (DescriptorProto_switch R
    (DescriptorProto_decode R)) createBaseDescriptorProto"
  by (intro ext) (rule DescriptorProto_decode.simps)

subsection \<open>\<open>FileDescriptorProto\<close>\<close>

definition FileDescriptorProto_bytes :: "wire_format \<Rightarrow> FileDescriptorProto
  \<Rightarrow> bytes" where
  "FileDescriptorProto_bytes F message =
     (if differs (FileDescriptorProto_name message) '''' then strBytes F 10 (the
       (FileDescriptorProto_name message)) else []) @
     (if differs (FileDescriptorProto_package message) '''' then strBytes F 18 (the
       (FileDescriptorProto_package message)) else []) @
     concat (map (strBytes F 26) (FileDescriptorProto_dependency message)) @
     msgBytes F 82 (packedBytes F (FileDescriptorProto_publicDependency message)) @
     msgBytes F 90 (packedBytes F (FileDescriptorProto_weakDependency message)) @
     concat (map (strBytes F 122) (FileDescriptorProto_optionDependency message)) @
     concat (map (\<lambda>v. msgBytes F 34 (DescriptorProto_bytes F v))
       (FileDescriptorProto_messageType message)) @
     concat (map (\<lambda>v. msgBytes F 42 (EnumDescriptorProto_bytes F v))
       (FileDescriptorProto_enumType message)) @
     concat (map (\<lambda>v. msgBytes F 50 (ServiceDescriptorProto_bytes F v))
       (FileDescriptorProto_service message)) @
     concat (map (\<lambda>v. msgBytes F 58 (FieldDescriptorProto_bytes F v))
       (FileDescriptorProto_extension message)) @
     (case FileDescriptorProto_options message of None \<Rightarrow> [] | Some v
       \<Rightarrow> msgBytes F 66 (FileOptions_bytes F v)) @
     (case FileDescriptorProto_sourceCodeInfo message of None \<Rightarrow> [] | Some v
       \<Rightarrow> msgBytes F 74 (SourceCodeInfo_bytes F v)) @
     (if differs (FileDescriptorProto_syntax message) '''' then strBytes F 98 (the
       (FileDescriptorProto_syntax message)) else []) @
     (if differs (FileDescriptorProto_edition message) (numInt 0) then i32Bytes F 112 (the
       (FileDescriptorProto_edition message)) else [])"

definition FileDescriptorProto_ok :: "wire_format \<Rightarrow> FileDescriptorProto \<Rightarrow> bool" where
  "FileDescriptorProto_ok F message \<longleftrightarrow>
     (\<forall>v. FileDescriptorProto_name message = Some v \<longrightarrow> strOk F v) \<and>
     FileDescriptorProto_name message \<noteq> None \<and>
     (\<forall>v. FileDescriptorProto_package message = Some v \<longrightarrow> strOk F v) \<and>
     FileDescriptorProto_package message \<noteq> None \<and>
     (\<forall>v\<in>set (FileDescriptorProto_dependency message). strOk F v) \<and>
     (\<forall>v\<in>set (FileDescriptorProto_publicDependency message). isInt32 v) \<and> msgOk
       (packedBytes F (FileDescriptorProto_publicDependency message)) \<and>
     (\<forall>v\<in>set (FileDescriptorProto_weakDependency message). isInt32 v) \<and> msgOk
       (packedBytes F (FileDescriptorProto_weakDependency message)) \<and>
     (\<forall>v\<in>set (FileDescriptorProto_optionDependency message). strOk F v) \<and>
     (\<forall>v\<in>set (FileDescriptorProto_messageType message). DescriptorProto_ok F v \<and> msgOk
       (DescriptorProto_bytes F v)) \<and>
     (\<forall>v\<in>set (FileDescriptorProto_enumType message). EnumDescriptorProto_ok F v \<and> msgOk
       (EnumDescriptorProto_bytes F v)) \<and>
     (\<forall>v\<in>set (FileDescriptorProto_service message). ServiceDescriptorProto_ok F v \<and> msgOk
       (ServiceDescriptorProto_bytes F v)) \<and>
     (\<forall>v\<in>set (FileDescriptorProto_extension message). FieldDescriptorProto_ok F v \<and> msgOk
       (FieldDescriptorProto_bytes F v)) \<and>
     (\<forall>v. FileDescriptorProto_options message = Some v \<longrightarrow> FileOptions_ok F v \<and> msgOk (FileOptions_bytes F v)) \<and>
     (\<forall>v. FileDescriptorProto_sourceCodeInfo message = Some v \<longrightarrow> SourceCodeInfo_ok F v \<and> msgOk (SourceCodeInfo_bytes F v)) \<and>
     (\<forall>v. FileDescriptorProto_syntax message = Some v \<longrightarrow> strOk F v) \<and>
     FileDescriptorProto_syntax message \<noteq> None \<and>
     (\<forall>v. FileDescriptorProto_edition message = Some v \<longrightarrow> isInt32 v) \<and>
     FileDescriptorProto_edition message \<noteq> None"

lemma FileDescriptorProto_field_tags:
  "FileDescriptorProto_field R 10 m = bindR (getR (r_string R)) (\<lambda>v. cont
    (m\<lparr>FileDescriptorProto_name := Some v\<rparr>))"
  "FileDescriptorProto_field R 18 m = bindR (getR (r_string R)) (\<lambda>v. cont
    (m\<lparr>FileDescriptorProto_package := Some v\<rparr>))"
  "FileDescriptorProto_field R 26 m = bindR (getR (r_string R)) (\<lambda>v. cont
    (m\<lparr>FileDescriptorProto_dependency := FileDescriptorProto_dependency m @ [v]\<rparr>))"
  "FileDescriptorProto_field R 82 m = bindR (packed R (FileDescriptorProto_publicDependency m))
    (\<lambda>vs. cont (m\<lparr>FileDescriptorProto_publicDependency := vs\<rparr>))"
  "FileDescriptorProto_field R 90 m = bindR (packed R (FileDescriptorProto_weakDependency m))
    (\<lambda>vs. cont (m\<lparr>FileDescriptorProto_weakDependency := vs\<rparr>))"
  "FileDescriptorProto_field R 122 m = bindR (getR (r_string R)) (\<lambda>v. cont
    (m\<lparr>FileDescriptorProto_optionDependency := FileDescriptorProto_optionDependency m @ [v]\<rparr>))"
  "FileDescriptorProto_field R 34 m = bindR (nested R (DescriptorProto_decode R)) (\<lambda>v. cont
    (m\<lparr>FileDescriptorProto_messageType := FileDescriptorProto_messageType m @ [v]\<rparr>))"
  "FileDescriptorProto_field R 42 m = bindR (nested R (EnumDescriptorProto_decode R)) (\<lambda>v. cont
    (m\<lparr>FileDescriptorProto_enumType := FileDescriptorProto_enumType m @ [v]\<rparr>))"
  "FileDescriptorProto_field R 50 m = bindR (nested R (ServiceDescriptorProto_decode R)) (\<lambda>v. cont
    (m\<lparr>FileDescriptorProto_service := FileDescriptorProto_service m @ [v]\<rparr>))"
  "FileDescriptorProto_field R 58 m = bindR (nested R (FieldDescriptorProto_decode R)) (\<lambda>v. cont
    (m\<lparr>FileDescriptorProto_extension := FileDescriptorProto_extension m @ [v]\<rparr>))"
  "FileDescriptorProto_field R 66 m = bindR (nested R (FileOptions_decode R)) (\<lambda>v. cont
    (m\<lparr>FileDescriptorProto_options := Some v\<rparr>))"
  "FileDescriptorProto_field R 74 m = bindR (nested R (SourceCodeInfo_decode R)) (\<lambda>v. cont
    (m\<lparr>FileDescriptorProto_sourceCodeInfo := Some v\<rparr>))"
  "FileDescriptorProto_field R 98 m = bindR (getR (r_string R)) (\<lambda>v. cont
    (m\<lparr>FileDescriptorProto_syntax := Some v\<rparr>))"
  "FileDescriptorProto_field R 112 m = bindR (getR (r_int32 R)) (\<lambda>v. cont
    (m\<lparr>FileDescriptorProto_edition := Some (numInt v)\<rparr>))"
  by (simp_all add: FileDescriptorProto_field_def)

subsection \<open>\<open>FileDescriptorSet\<close>\<close>

definition FileDescriptorSet_bytes :: "wire_format \<Rightarrow> FileDescriptorSet \<Rightarrow> bytes" where
  "FileDescriptorSet_bytes F message =
     concat (map (\<lambda>v. msgBytes F 10 (FileDescriptorProto_bytes F v)) (FileDescriptorSet_file message))"

definition FileDescriptorSet_ok :: "wire_format \<Rightarrow> FileDescriptorSet \<Rightarrow> bool" where
  "FileDescriptorSet_ok F message \<longleftrightarrow>
     (\<forall>v\<in>set (FileDescriptorSet_file message). FileDescriptorProto_ok F v \<and> msgOk
       (FileDescriptorProto_bytes F v))"

lemma FileDescriptorSet_field_tags:
  "FileDescriptorSet_field R 10 m = bindR (nested R (FileDescriptorProto_decode R)) (\<lambda>v. cont
    (m\<lparr>FileDescriptorSet_file := FileDescriptorSet_file m @ [v]\<rparr>))"
  by (simp_all add: FileDescriptorSet_field_def)

section \<open>Encoding\<close>

context wire_writer
begin

lemma DescriptorProto_writes: "DescriptorProto_ok F m \<Longrightarrow> writes (DescriptorProto_encode W m)
  (DescriptorProto_bytes F m)"
proof (induction m)
  case (DescriptorProto v_name v_field v_extension v_nestedType v_enumType v_extensionRange v_oneofDecl v_options v_reservedRange v_reservedName v_visibility)
  then show ?case
    unfolding DescriptorProto_encode.simps DescriptorProto_bytes.simps DescriptorProto_ok.simps
    by (intro writes_all_Cons writes_all_single writes_when writes_opt writes_each
        writes_string [where t = 10, simplified]
        writes_nested [where t = 18, simplified]
        writes_nested [where t = 50, simplified]
        writes_nested [where t = 26, simplified]
        writes_nested [where t = 34, simplified]
        writes_nested [where t = 42, simplified]
        writes_nested [where t = 66, simplified]
        writes_nested [where t = 58, simplified]
        writes_nested [where t = 74, simplified]
        writes_string [where t = 82, simplified]
        writes_int32 [where t = 88, simplified])
      (auto simp: DescriptorProto_ExtensionRange_writes DescriptorProto_ReservedRange_writes
        EnumDescriptorProto_writes FieldDescriptorProto_writes MessageOptions_writes OneofDescriptorProto_writes differs_def)
qed

lemma FileDescriptorProto_writes: "FileDescriptorProto_ok F m \<Longrightarrow> writes
  (FileDescriptorProto_encode W m) (FileDescriptorProto_bytes F m)"
  unfolding FileDescriptorProto_encode_def FileDescriptorProto_bytes_def FileDescriptorProto_ok_def
  by (intro writes_all_Cons writes_all_single writes_when writes_opt writes_each
      writes_string [where t = 10, simplified] writes_string [where t = 18,
        simplified] writes_string [where t = 26, simplified] writes_packed [where t = 82,
          simplified] writes_packed [where t = 90, simplified] writes_string [where t = 122,
            simplified] writes_nested [where t = 34, simplified] writes_nested [where t = 42,
              simplified] writes_nested [where t = 50, simplified] writes_nested [where t = 58,
                simplified] writes_nested [where t = 66, simplified] writes_nested [where t = 74,
                  simplified] writes_string [where t = 98, simplified] writes_int32 [where t = 112, simplified])
    (auto simp: DescriptorProto_writes EnumDescriptorProto_writes FieldDescriptorProto_writes
      FileOptions_writes ServiceDescriptorProto_writes SourceCodeInfo_writes differs_def)

lemma FileDescriptorSet_writes: "FileDescriptorSet_ok F m \<Longrightarrow> writes
  (FileDescriptorSet_encode W m) (FileDescriptorSet_bytes F m)"
  unfolding FileDescriptorSet_encode_def FileDescriptorSet_bytes_def FileDescriptorSet_ok_def
  by (intro writes_all_Cons writes_all_single writes_when writes_opt writes_each
      writes_nested [where t = 10, simplified])
    (auto simp: FileDescriptorProto_writes)

end

section \<open>Decoding\<close>

context wire_reader
begin

lemma DescriptorProto_consumes:
  "DescriptorProto_ok F m \<Longrightarrow> consumes (DescriptorProto_switch R
    (DescriptorProto_decode R)) createBaseDescriptorProto (DescriptorProto_bytes F m) m"
proof (induction m)
  case (DescriptorProto v_name v_field v_extension v_nestedType v_enumType v_extensionRange v_oneofDecl v_options v_reservedRange v_reservedName v_visibility)
  then show ?case
    unfolding DescriptorProto_bytes.simps
    by - (rule consumes_to,
      rule put_opt_string [where st = DescriptorProto_set_name and t = 10],
      rule put_messages [where st = DescriptorProto_set_field and t = 18
        and sub = "FieldDescriptorProto_field R" and base = createBaseFieldDescriptorProto],
      rule put_messages [where st = DescriptorProto_set_extension and t = 50
        and sub = "FieldDescriptorProto_field R" and base = createBaseFieldDescriptorProto],
      rule put_messages [where st = DescriptorProto_set_nestedType and t = 26
        and sub = "DescriptorProto_switch R (DescriptorProto_decode R)" and base = createBaseDescriptorProto],
      rule put_messages [where st = DescriptorProto_set_enumType and t = 34
        and sub = "EnumDescriptorProto_field R" and base = createBaseEnumDescriptorProto],
      rule put_messages [where st = DescriptorProto_set_extensionRange and t = 42
        and sub = "DescriptorProto_ExtensionRange_field R" and base = createBaseDescriptorProto_ExtensionRange],
      rule put_messages [where st = DescriptorProto_set_oneofDecl and t = 66
        and sub = "OneofDescriptorProto_field R" and base = createBaseOneofDescriptorProto],
      rule put_message [where st = DescriptorProto_set_options and t = 58
        and sub = "MessageOptions_field R" and base = createBaseMessageOptions],
      rule put_messages [where st = DescriptorProto_set_reservedRange and t = 74
        and sub = "DescriptorProto_ReservedRange_field R" and base = createBaseDescriptorProto_ReservedRange],
      rule put_strings [where st = DescriptorProto_set_reservedName and t = 82],
      rule consumes_last, rule put_opt_int32 [where st = DescriptorProto_set_visibility and t = 88],
        rule consumes_Nil,
      auto simp: DescriptorProto_switch_tags createBaseDescriptorProto_def
        DescriptorProto_ExtensionRange_decode_def DescriptorProto_ExtensionRange_consumes DescriptorProto_ReservedRange_decode_def DescriptorProto_ReservedRange_consumes EnumDescriptorProto_decode_def EnumDescriptorProto_consumes FieldDescriptorProto_decode_def FieldDescriptorProto_consumes MessageOptions_decode_def MessageOptions_consumes OneofDescriptorProto_decode_def OneofDescriptorProto_consumes
        simp flip: DescriptorProto_decode_unfold [unfolded createBaseDescriptorProto_def])
qed

lemma FileDescriptorProto_consumes:
  "FileDescriptorProto_ok F m \<Longrightarrow> consumes
    (FileDescriptorProto_field R) createBaseFileDescriptorProto (FileDescriptorProto_bytes F m) m"
  unfolding FileDescriptorProto_bytes_def
  by (rule consumes_to,
      rule set_opt_string [where fu = FileDescriptorProto_name_update and t = 10],
      rule set_opt_string [where fu = FileDescriptorProto_package_update and t = 18],
      rule set_strings [where fu = FileDescriptorProto_dependency_update and t = 26],
      rule set_packed [where fu = FileDescriptorProto_publicDependency_update and t = 82],
      rule set_packed [where fu = FileDescriptorProto_weakDependency_update and t = 90],
      rule set_strings [where fu = FileDescriptorProto_optionDependency_update and t = 122],
      rule set_messages [where fu = FileDescriptorProto_messageType_update and t = 34
        and sub = "DescriptorProto_switch R (DescriptorProto_decode R)" and base = createBaseDescriptorProto],
      rule set_messages [where fu = FileDescriptorProto_enumType_update and t = 42
        and sub = "EnumDescriptorProto_field R" and base = createBaseEnumDescriptorProto],
      rule set_messages [where fu = FileDescriptorProto_service_update and t = 50
        and sub = "ServiceDescriptorProto_field R" and base = createBaseServiceDescriptorProto],
      rule set_messages [where fu = FileDescriptorProto_extension_update and t = 58
        and sub = "FieldDescriptorProto_field R" and base = createBaseFieldDescriptorProto],
      rule set_message [where fu = FileDescriptorProto_options_update and t = 66
        and sub = "FileOptions_field R" and base = createBaseFileOptions],
      rule set_message [where fu = FileDescriptorProto_sourceCodeInfo_update and t = 74
        and sub = "SourceCodeInfo_field R" and base = createBaseSourceCodeInfo],
      rule set_opt_string [where fu = FileDescriptorProto_syntax_update and t = 98],
      rule consumes_last, rule set_opt_int32 [where fu = FileDescriptorProto_edition_update and t = 112],
        rule consumes_Nil)
    (auto simp: FileDescriptorProto_ok_def FileDescriptorProto_field_tags createBaseFileDescriptorProto_def
      DescriptorProto_consumes EnumDescriptorProto_decode_def EnumDescriptorProto_consumes FieldDescriptorProto_decode_def FieldDescriptorProto_consumes FileOptions_decode_def FileOptions_consumes ServiceDescriptorProto_decode_def ServiceDescriptorProto_consumes SourceCodeInfo_decode_def SourceCodeInfo_consumes simp flip: DescriptorProto_decode_unfold intro!: FileDescriptorProto.equality)

lemma FileDescriptorSet_consumes:
  "FileDescriptorSet_ok F m \<Longrightarrow> consumes
    (FileDescriptorSet_field R) createBaseFileDescriptorSet (FileDescriptorSet_bytes F m) m"
  unfolding FileDescriptorSet_bytes_def
  by (rule consumes_to,
      rule consumes_last, rule set_messages [where fu = FileDescriptorSet_file_update and t = 10
        and sub = "FileDescriptorProto_field R" and base = createBaseFileDescriptorProto], rule consumes_Nil)
    (auto simp: FileDescriptorSet_ok_def FileDescriptorSet_field_tags createBaseFileDescriptorSet_def
      FileDescriptorProto_decode_def FileDescriptorProto_consumes intro!: FileDescriptorSet.equality)

lemma DescriptorProto_ends: "ends k (DescriptorProto_switch R (DescriptorProto_decode R) tag m)"
proof (induction k arbitrary: tag m)
  case 0
  then show ?case by simp
next
  case (Suc k)
  have "ends (Suc k) (nested R (decode_message R (DescriptorProto_switch R
    (DescriptorProto_decode R)) createBaseDescriptorProto))"
    by (rule ends_nested) (rule Suc.IH)
  then have "ends (Suc k) (nested R (DescriptorProto_decode R))"
    by (simp flip: DescriptorProto_decode_unfold)
  then show ?case
    by (auto simp: DescriptorProto_switch_def DescriptorProto_ExtensionRange_decode_def
      DescriptorProto_ExtensionRange_ends DescriptorProto_ReservedRange_decode_def DescriptorProto_ReservedRange_ends EnumDescriptorProto_decode_def EnumDescriptorProto_ends FieldDescriptorProto_decode_def FieldDescriptorProto_ends MessageOptions_decode_def MessageOptions_ends OneofDescriptorProto_decode_def OneofDescriptorProto_ends intro!: ends_nested_flat)
qed

lemma DescriptorProto_decode_ends: "ends k (nested R (DescriptorProto_decode R))"
  by (subst DescriptorProto_decode_unfold) (rule ends_nested_flat, rule DescriptorProto_ends)

lemma FileDescriptorProto_ends: "ends k (FileDescriptorProto_field R tag m)"
  by (auto simp: FileDescriptorProto_field_def DescriptorProto_decode_ends EnumDescriptorProto_decode_def
    EnumDescriptorProto_ends FieldDescriptorProto_decode_def FieldDescriptorProto_ends FileOptions_decode_def FileOptions_ends ServiceDescriptorProto_decode_def ServiceDescriptorProto_ends SourceCodeInfo_decode_def SourceCodeInfo_ends intro!: ends_nested_flat)

lemma FileDescriptorSet_ends: "ends k (FileDescriptorSet_field R tag m)"
  by (auto simp: FileDescriptorSet_field_def FileDescriptorProto_decode_def FileDescriptorProto_ends
    intro!: ends_nested_flat)

end

section \<open>Message functions\<close>

sublocale wire \<subseteq> descriptor_proto: message_fns R remaining F W out "DescriptorProto_encode W"
    "DescriptorProto_switch R
      (DescriptorProto_decode R)" createBaseDescriptorProto "DescriptorProto_ok F" "DescriptorProto_bytes F"
  by unfold_locales (auto simp: DescriptorProto_writes DescriptorProto_consumes DescriptorProto_ends)

sublocale wire \<subseteq> file_descriptor_proto: message_fns R remaining F W out "FileDescriptorProto_encode W"
    "FileDescriptorProto_field R" createBaseFileDescriptorProto "FileDescriptorProto_ok F" "FileDescriptorProto_bytes F"
  by unfold_locales (auto simp: FileDescriptorProto_writes FileDescriptorProto_consumes
    FileDescriptorProto_ends)

sublocale wire \<subseteq> file_descriptor_set: message_fns R remaining F W out "FileDescriptorSet_encode W"
    "FileDescriptorSet_field R" createBaseFileDescriptorSet "FileDescriptorSet_ok F" "FileDescriptorSet_bytes F"
  by unfold_locales (auto simp: FileDescriptorSet_writes FileDescriptorSet_consumes FileDescriptorSet_ends)

end
