(* ===== verification/Ieee_Double.thy ===== *)
theory Ieee_Double
  imports Js_Bytes "HOL-Library.Log_Nat"
begin

text \<open>
  The 64-bit format of a double, as the wire package writes it: sign, 11 bits of exponent, 52 bits of
  fraction, least significant byte first.  Every number of \<open>isDouble\<close> comes back from its bytes.
\<close>

section \<open>Bits\<close>

text \<open>The magnitude of an exponent and a fraction, in units of \<open>2 ^ -1074\<close>.\<close>

definition magnitude :: "nat \<Rightarrow> nat \<Rightarrow> nat" where
  "magnitude e f = (if e = 0 then f else (2 ^ 52 + f) * 2 ^ (e - 1))"

definition ofBits :: "nat \<Rightarrow> nat \<Rightarrow> nat \<Rightarrow> number" where
  "ofBits s e f =
     (if e = 2047 then (if f \<noteq> 0 then NaN else if s = 0 then PosInf else NegInf)
      else Fin ((if s = 0 then 1 else - 1) * of_nat (magnitude e f) / 2 ^ 1074))"

text \<open>The exponent and the fraction of a magnitude.\<close>

definition exponent :: "nat \<Rightarrow> nat" where
  "exponent n = floorlog 2 n - 52"

definition fraction :: "nat \<Rightarrow> nat" where
  "fraction n = (if exponent n = 0 then n else n div 2 ^ (exponent n - 1) - 2 ^ 52)"

definition toBits :: "number \<Rightarrow> nat \<times> nat \<times> nat" where
  "toBits x = (case x of
       NaN \<Rightarrow> (0, 2047, 2 ^ 51)
     | PosInf \<Rightarrow> (0, 2047, 0)
     | NegInf \<Rightarrow> (1, 2047, 0)
     | Fin q \<Rightarrow> let n = nat \<lfloor>scaled q\<rfloor> in (if q < 0 then 1 else 0, exponent n, fraction n))"

lemma exponent_bounds:
  "exponent n = 0 \<Longrightarrow> n < 2 ^ 52"
  "exponent n = Suc e \<Longrightarrow> 2 ^ 52 * 2 ^ e \<le> n \<and> n < 2 ^ 53 * 2 ^ e"
proof -
  assume "exponent n = 0"
  then have "floorlog 2 n \<le> 52" by (simp add: exponent_def)
  then have "(2::nat) ^ floorlog 2 n \<le> 2 ^ 52" by (intro power_increasing) simp_all
  moreover have "n < 2 ^ floorlog 2 n"
    by (cases "n = 0") (simp, use floorlog_bounds [of n 2] in simp)
  ultimately show "n < 2 ^ 52" by linarith
next
  assume e: "exponent n = Suc e"
  then have l: "floorlog 2 n = 53 + e" by (simp add: exponent_def)
  then have "n \<noteq> 0" by (auto simp: floorlog_def split: if_splits)
  with floorlog_bounds [of n 2] l have "2 ^ (52 + e) \<le> n" "n < 2 ^ (53 + e)" by simp_all
  then show "2 ^ 52 * 2 ^ e \<le> n \<and> n < 2 ^ 53 * 2 ^ e" by (simp add: power_add)
qed

lemma fraction_bound: "fraction n < 2 ^ 52"
proof (cases "exponent n")
  case 0
  then show ?thesis using exponent_bounds(1) by (simp add: fraction_def)
next
  case (Suc e)
  then have "n < 2 ^ 53 * 2 ^ e" using exponent_bounds(2) by blast
  then have "n div 2 ^ e < 2 ^ 53" by (rule less_mult_imp_div_less)
  then show ?thesis using Suc by (simp add: fraction_def)
qed

lemma magnitude_parts:
  assumes "n = y * 2 ^ k" "y < 2 ^ 53"
  shows "exponent n \<le> Suc k" "magnitude (exponent n) (fraction n) = n"
proof -
  show le: "exponent n \<le> Suc k"
  proof (cases "exponent n")
    case (Suc e)
    then have "2 ^ 52 * 2 ^ e \<le> n" using exponent_bounds(2) by blast
    also have "\<dots> < 2 ^ 53 * 2 ^ k" using assms by simp
    finally have "(2::nat) ^ (52 + e) < 2 ^ (53 + k)" by (simp add: power_add)
    then have "52 + e < 53 + k" by (rule power_less_imp_less_exp [rotated]) simp
    then show ?thesis using Suc by simp
  qed simp
  show "magnitude (exponent n) (fraction n) = n"
  proof (cases "exponent n")
    case 0
    then show ?thesis by (simp add: magnitude_def fraction_def)
  next
    case (Suc e)
    then have "2 ^ 52 * 2 ^ e \<le> n" using exponent_bounds(2) by blast
    then have "2 ^ 52 \<le> n div 2 ^ e" by (simp add: less_eq_div_iff_mult_less_eq)
    moreover have "2 ^ e dvd n"
      using le Suc assms(1) by (simp add: le_imp_power_dvd)
    ultimately show ?thesis using Suc by (simp add: magnitude_def fraction_def)
  qed
qed

lemma scaled_double:
  assumes "isDouble (Fin q)"
  obtains y k where "scaled q = of_nat (y * 2 ^ k)" "y < 2 ^ 53" "k < 2046"
proof -
  obtain k where k: "k < 2046" "scaled q / 2 ^ k = of_int \<lfloor>scaled q / 2 ^ k\<rfloor>" "scaled q / 2 ^ k < 2 ^ 53"
    using assms by (auto simp: isDouble_def list_ex_iff Let_def)
  let ?y = "\<lfloor>scaled q / 2 ^ k\<rfloor>"
  have "0 \<le> scaled q" by (simp add: scaled_def)
  then have pos: "0 \<le> ?y" by simp
  have "?y < 2 ^ 53" using k(3) by (simp add: floor_less_iff)
  then have "nat ?y < 2 ^ 53" using pos by (simp add: nat_less_iff)
  moreover have "scaled q = of_nat (nat ?y * 2 ^ k)"
    using k(2) pos by (simp add: field_simps)
  ultimately show ?thesis using k(1) that by blast
qed

lemma ofBits_toBits:
  assumes "isDouble x"
  shows "(case toBits x of (s, e, f) \<Rightarrow> ofBits s e f) = x"
proof (cases x)
  case (Fin q)
  from assms Fin obtain y k where y: "scaled q = of_nat (y * 2 ^ k)" "y < 2 ^ 53" "k < 2046"
    by (auto elim: scaled_double)
  define n where "n = y * 2 ^ k"
  have n: "nat \<lfloor>scaled q\<rfloor> = n" "\<bar>q\<bar> * 2 ^ 1074 = of_nat n"
    using y(1) by (simp_all only: n_def scaled_def floor_of_nat nat_int)
  have p: "magnitude (exponent n) (fraction n) = n" "exponent n \<noteq> 2047"
    using magnitude_parts [OF n_def y(2)] y(3) by auto
  have "(if q < 0 then - 1 else 1) * of_nat n / 2 ^ 1074 = q"
    unfolding n(2) [symmetric] by (simp add: abs_if)
  with Fin n(1) p show ?thesis by (auto simp: toBits_def ofBits_def Let_def)
qed (simp_all add: toBits_def ofBits_def)

lemma toBits_bounds:
  assumes "isDouble x" "toBits x = (s, e, f)"
  shows "s < 2" "e < 2048" "f < 2 ^ 52"
proof -
  have "s < 2 \<and> e < 2048 \<and> f < 2 ^ 52"
  proof (cases x)
    case (Fin q)
    from assms(1) Fin obtain y k where y: "scaled q = of_nat (y * 2 ^ k)" "y < 2 ^ 53" "k < 2046"
      by (auto elim: scaled_double)
    have "nat \<lfloor>scaled q\<rfloor> = y * 2 ^ k" using y(1) by (simp only: floor_of_nat nat_int)
    with Fin assms(2) have "e = exponent (y * 2 ^ k)" "f = fraction (y * 2 ^ k)" "s < 2"
      by (auto simp: toBits_def Let_def split: if_splits)
    then show ?thesis
      using magnitude_parts(1) [OF refl y(2), of k] y(3) fraction_bound by auto
  qed (use assms(2) in \<open>auto simp: toBits_def\<close>)
  then show "s < 2" "e < 2048" "f < 2 ^ 52" by auto
qed

section \<open>Bytes\<close>

fun littleEndian :: "nat \<Rightarrow> nat \<Rightarrow> bytes" where
  "littleEndian 0 v = []"
| "littleEndian (Suc k) v = word_of_nat (v mod 256) # littleEndian k (v div 256)"

fun fromLittleEndian :: "bytes \<Rightarrow> nat" where
  "fromLittleEndian [] = 0"
| "fromLittleEndian (b # bs) = unat b + 256 * fromLittleEndian bs"

lemma length_littleEndian [simp]: "length (littleEndian k v) = k"
  by (induction k arbitrary: v) simp_all

lemma fromLittleEndian_littleEndian: "v < 256 ^ k \<Longrightarrow> fromLittleEndian (littleEndian k v) = v"
proof (induction k arbitrary: v)
  case (Suc k)
  have "v div 256 < 256 ^ k" using Suc.prems by (simp add: less_mult_imp_div_less mult.commute)
  moreover have "unat (word_of_nat (v mod 256) :: u8) = v mod 256"
    by (simp add: unat_of_nat take_bit_nat_eq_self)
  ultimately show ?case using Suc.IH by (simp del: of_nat_mod)
qed simp

definition doubleBytes :: "number \<Rightarrow> bytes" where
  "doubleBytes x = (case toBits x of (s, e, f) \<Rightarrow> littleEndian 8 (f + 2 ^ 52 * (e + 2048 * s)))"

definition doubleOf :: "bytes \<Rightarrow> number" where
  "doubleOf bs = (let v = fromLittleEndian bs in
     ofBits (v div 2 ^ 52 div 2048) (v div 2 ^ 52 mod 2048) (v mod 2 ^ 52))"

lemma length_doubleBytes [simp]: "length (doubleBytes x) = 8"
  by (simp add: doubleBytes_def split: prod.splits)

lemma doubleOf_doubleBytes:
  assumes "isDouble x"
  shows "doubleOf (doubleBytes x) = x"
proof -
  obtain s e f where t: "toBits x = (s, e, f)" by (cases "toBits x") auto
  let ?v = "f + 2 ^ 52 * (e + 2048 * s)"
  note b = toBits_bounds [OF assms t]
  have "?v < 256 ^ 8" using b by simp
  then have v: "fromLittleEndian (littleEndian 8 ?v) = ?v" by (rule fromLittleEndian_littleEndian)
  have d: "?v div 2 ^ 52 = e + 2048 * s" "?v mod 2 ^ 52 = f"
    using b(3) by (simp_all only: div_mult_self2 mod_mult_self2 div_less mod_less power_not_zero
        zero_neq_numeral not_False_eq_True add_0 refl)
  have "(e + 2048 * s) div 2048 = s" "(e + 2048 * s) mod 2048 = e" using b(2) by simp_all
  then have "doubleOf (doubleBytes x) = ofBits s e f"
    unfolding doubleOf_def doubleBytes_def t prod.case v Let_def d by simp
  with ofBits_toBits [OF assms] t show ?thesis by simp
qed

end
