(* ===== verification/Wire_Instance.thy ===== *)
theory Wire_Instance
  imports Wire_Laws Ieee_Double
begin

text \<open>
  The contract of the wire package can be met: LEB128 varints, UTF-8 for characters below 256, a
  reader over a buffer and a position, a writer over a stack of chunks.  Groups are not skipped, a
  group tag is an error.  The properties quantify over every implementation of the contract; this one
  makes them runnable.
\<close>

section \<open>Varints\<close>

function leb :: "nat \<Rightarrow> bytes" where
  "leb n = (if n < 128 then [word_of_nat n] else word_of_nat (n mod 128 + 128) # leb (n div 128))"
  by pat_completeness auto
termination
  by (relation "measure id") auto

declare leb.simps [simp del]

fun unleb :: "nat \<Rightarrow> bytes \<Rightarrow> (nat \<times> bytes) option" where
  "unleb 0 bs = None"
| "unleb (Suc k) [] = None"
| "unleb (Suc k) (b # bs) =
     (if unat b < 128 then Some (unat b, bs)
      else case unleb k bs of None \<Rightarrow> None | Some (v, rest) \<Rightarrow> Some (unat b - 128 + 128 * v, rest))"

lemma unat_byte: "n < 256 \<Longrightarrow> unat (word_of_nat n :: u8) = n"
  by (simp add: unat_of_nat take_bit_nat_eq_self)

lemma unleb_leb: "n < 128 ^ Suc k \<Longrightarrow> unleb (Suc k) (leb n @ ys) = Some (n, ys)"
proof (induction k arbitrary: n)
  case 0
  then show ?case by (subst leb.simps) (simp add: unat_byte)
next
  case (Suc k)
  show ?case
  proof (cases "n < 128")
    case True
    then show ?thesis by (subst leb.simps) (simp add: unat_byte)
  next
    case False
    have "n div 128 < 128 ^ Suc k"
      using Suc.prems by (simp add: less_mult_imp_div_less mult.commute)
    moreover have "unat (word_of_nat (n mod 128 + 128) :: u8) = n mod 128 + 128"
      using mod_less_divisor [of 128 n] by (intro unat_byte) linarith
    moreover have "n mod 128 + 128 * (n div 128) = n" by simp
    ultimately show ?thesis
      using Suc.IH False by (subst leb.simps) (simp del: of_nat_add)
  qed
qed

lemma leb_nonempty [simp]: "leb n \<noteq> []"
  by (subst leb.simps) simp

lemma unleb_rest: "unleb k bs = Some (v, rest) \<Longrightarrow> length rest < length bs"
  by (induction k bs arbitrary: v rest rule: unleb.induct)
     (auto split: if_splits option.splits simp: less_SucI)

section \<open>Text\<close>

definition utf8Char :: "char \<Rightarrow> bytes" where
  "utf8Char c = (let n = of_char c :: nat in
     if n < 128 then [word_of_nat n] else [word_of_nat (192 + n div 64), word_of_nat (128 + n mod 64)])"

fun utf8Decode :: "bytes \<Rightarrow> string option" where
  "utf8Decode [] = Some []"
| "utf8Decode [b] = (if unat b < 128 then Some [char_of (unat b)] else None)"
| "utf8Decode (b # c # bs) =
     (if unat b < 128 then map_option ((#) (char_of (unat b))) (utf8Decode (c # bs))
      else if unat b \<in> {194, 195} \<and> 128 \<le> unat c \<and> unat c < 192
      then map_option ((#) (char_of ((unat b - 192) * 64 + (unat c - 128)))) (utf8Decode bs)
      else None)"

lemma of_char_256: "(of_char c :: nat) < 256"
  by (simp add: nat_of_char_less_256)

lemma utf8Decode_Cons: "utf8Decode (utf8Char c @ bs) = map_option ((#) c) (utf8Decode bs)"
proof (cases "(of_char c :: nat) < 128")
  case True
  then have "utf8Char c = [word_of_nat (of_char c)]" by (simp add: utf8Char_def Let_def)
  with True show ?thesis by (cases bs) (simp_all add: unat_byte char_of_eq_iff)
next
  case False
  let ?n = "of_char c :: nat"
  have n: "128 \<le> ?n" "?n < 256" using False of_char_256 [of c] by simp_all
  then have d: "?n div 64 = 2 \<or> ?n div 64 = 3" by linarith
  have u: "utf8Char c = [word_of_nat (192 + ?n div 64), word_of_nat (128 + ?n mod 64)]"
    using False by (simp add: utf8Char_def Let_def)
  have b: "unat (word_of_nat (192 + ?n div 64) :: u8) = 192 + ?n div 64"
    "unat (word_of_nat (128 + ?n mod 64) :: u8) = 128 + ?n mod 64"
    using d mod_less_divisor [of 64 ?n] by (auto simp only: intro!: unat_byte)
  have "?n div 64 * 64 + ?n mod 64 = ?n" by simp
  then have "char_of (?n div 64 * 64 + ?n mod 64) = c" by simp
  with u b d show ?thesis by (auto simp del: of_nat_add)
qed

lemma utf8Decode_concat: "utf8Decode (concat (map utf8Char s)) = Some s"
  by (induction s) (simp_all add: utf8Decode_Cons)

section \<open>The reader\<close>

type_synonym buf_reader = "bytes \<times> nat"

definition bufRemaining :: "buf_reader \<Rightarrow> bytes" where
  "bufRemaining = (\<lambda>(buf, pos). drop pos buf)"

definition readVarint :: "buf_reader \<Rightarrow> jserr + nat \<times> buf_reader" where
  "readVarint = (\<lambda>(buf, pos). case unleb 10 (drop pos buf) of
       None \<Rightarrow> Inl ''RangeError: premature EOF''
     | Some (v, rest) \<Rightarrow> Inr (v, (buf, length buf - length rest)))"

definition advance :: "nat \<Rightarrow> buf_reader \<Rightarrow> jserr + unit \<times> buf_reader" where
  "advance n = (\<lambda>(buf, pos). if pos + n \<le> length buf then Inr ((), (buf, pos + n))
     else Inl ''RangeError: premature EOF'')"

definition readString :: "buf_reader \<Rightarrow> jserr + string \<times> buf_reader" where
  "readString r = bindE (readVarint r) (\<lambda>(n, r1).
     let n = n mod 2 ^ 32 in
     bindE (advance n r1) (\<lambda>(_, r2).
     case utf8Decode (take n (bufRemaining r1)) of
       None \<Rightarrow> Inl ''TypeError: invalid text'' | Some s \<Rightarrow> Inr (s, r2)))"

definition readBytes :: "buf_reader \<Rightarrow> jserr + bytes \<times> buf_reader" where
  "readBytes r = bindE (readVarint r) (\<lambda>(n, r1).
     let n = n mod 2 ^ 32 in
     bindE (advance n r1) (\<lambda>(_, r2). Inr (take n (bufRemaining r1), r2)))"

definition readDouble :: "buf_reader \<Rightarrow> jserr + number \<times> buf_reader" where
  "readDouble r = bindE (advance 8 r) (\<lambda>(_, r'). Inr (doubleOf (take 8 (bufRemaining r)), r'))"

definition skipField :: "u32 \<Rightarrow> buf_reader \<Rightarrow> jserr + unit \<times> buf_reader" where
  "skipField wireType r =
     (if wireType = 0 then bindE (readVarint r) (\<lambda>(_, r'). Inr ((), r'))
      else if wireType = 1 then advance 8 r
      else if wireType = 2 then bindE (readVarint r) (\<lambda>(n, r'). advance (n mod 2 ^ 32) r')
      else if wireType = 5 then advance 4 r
      else Inl ''Error: cannot skip wire type'')"

definition bufReader :: "buf_reader reader_ops" where
  "bufReader = \<lparr>r_new = (\<lambda>bs. (bs, 0)), r_pos = snd, r_len = (\<lambda>r. length (fst r)),
     r_uint32 = (\<lambda>r. bindE (readVarint r) (\<lambda>(v, r'). Inr (word_of_nat v, r'))),
     r_int32 = (\<lambda>r. bindE (readVarint r) (\<lambda>(v, r'). Inr (sint (word_of_nat v :: u32), r'))),
     r_string = readString,
     r_bool = (\<lambda>r. bindE (readVarint r) (\<lambda>(v, r'). Inr (v \<noteq> 0, r'))),
     r_uint64 = (\<lambda>r. bindE (readVarint r) (\<lambda>(v, r'). Inr (uint (word_of_nat v :: u64), r'))),
     r_int64 = (\<lambda>r. bindE (readVarint r) (\<lambda>(v, r'). Inr (sint (word_of_nat v :: u64), r'))),
     r_double = readDouble,
     r_bytes = readBytes,
     r_skip = skipField\<rparr>"

definition format :: wire_format where
  "format = \<lparr>varint = leb, svarint = (\<lambda>i. leb (nat (i mod 2 ^ 64))), utf8 = (\<lambda>s. concat (map utf8Char s)),
     dbl = doubleBytes\<rparr>"

lemma readVarint_leb:
  assumes "n < 2 ^ 64" "bufRemaining r = leb n @ ys"
  shows "\<exists>r'. readVarint r = Inr (n, r') \<and> bufRemaining r' = ys \<and>
    snd r' = snd r + length (leb n) \<and> fst r' = fst r"
proof -
  obtain buf pos where r: "r = (buf, pos)" by force
  have d: "drop pos buf = leb n @ ys" using assms(2) r by (simp add: bufRemaining_def)
  have le: "pos < length buf" using d by (metis append_is_Nil_conv drop_all leb_nonempty not_le)
  have len: "length buf = pos + length (leb n) + length ys"
    using arg_cong [OF d, of length] le by simp
  have "n < 128 ^ Suc 9" using assms(1) by simp
  from unleb_leb [OF this, of ys] have "readVarint r = Inr (n, (buf, length buf - length ys))"
    using d r by (simp add: readVarint_def numeral_eq_Suc)
  moreover have "drop (pos + length (leb n)) buf = ys"
    using d by (metis append_eq_conv_conj drop_drop add.commute)
  ultimately show ?thesis using len r by (simp add: bufRemaining_def)
qed

lemma readVarint_progress:
  assumes "readVarint r = Inr (v, r')"
  shows "snd r < snd r'" "snd r' \<le> length (fst r')" "fst r' = fst r"
proof -
  obtain buf pos where r: "r = (buf, pos)" by force
  obtain rest where "unleb 10 (drop pos buf) = Some (v, rest)" "r' = (buf, length buf - length rest)"
    using assms r by (auto simp: readVarint_def split: option.splits)
  moreover from unleb_rest [OF this(1)] have "length rest < length buf - pos" by simp
  ultimately show "snd r < snd r'" "snd r' \<le> length (fst r')" "fst r' = fst r"
    using r by auto
qed

lemma readVarint_moves:
  "readVarint r = Inr (v, r') \<Longrightarrow> snd r < snd r' \<and> snd r' \<le> length (fst r') \<and> fst r' = fst r"
  using readVarint_progress by blast

lemma advance_ok:
  assumes "bufRemaining r = xs @ ys" "snd r \<le> length (fst r)"
  shows "\<exists>r'. advance (length xs) r = Inr ((), r') \<and> bufRemaining r' = ys \<and>
    snd r' = snd r + length xs \<and> fst r' = fst r"
proof -
  obtain buf pos where r: "r = (buf, pos)" by force
  have d: "drop pos buf = xs @ ys" using assms r by (simp add: bufRemaining_def)
  then have "length buf - pos = length xs + length ys" by (metis length_append length_drop)
  then have "pos + length xs \<le> length buf" using assms(2) r by simp
  moreover have "drop (pos + length xs) buf = ys"
    using d by (metis append_eq_conv_conj drop_drop add.commute)
  ultimately show ?thesis using r by (simp add: advance_def bufRemaining_def)
qed

lemma advance_progress:
  "advance n r = Inr (u, r') \<Longrightarrow> snd r \<le> snd r' \<and> fst r' = fst r"
  by (auto simp: advance_def split: prod.splits if_splits)

lemma readString_ok:
  assumes "length (utf8 format s) < 2 ^ 32"
    "bufRemaining r = leb (length (utf8 format s)) @ utf8 format s @ ys"
  shows "\<exists>r'. readString r = Inr (s, r') \<and> bufRemaining r' = ys \<and>
    snd r' = snd r + length (leb (length (utf8 format s)) @ utf8 format s) \<and> fst r' = fst r"
proof -
  let ?u = "utf8 format s"
  have "length ?u < 2 ^ 64" using assms(1) by simp
  from readVarint_leb [OF this assms(2)] obtain r1 where r1: "readVarint r = Inr (length ?u, r1)"
      "bufRemaining r1 = ?u @ ys" "snd r1 = snd r + length (leb (length ?u))" "fst r1 = fst r"
    by blast
  have "snd r1 \<le> length (fst r1)" using readVarint_progress(2) [OF r1(1)] .
  from advance_ok [OF r1(2) this] obtain r2 where r2: "advance (length ?u) r1 = Inr ((), r2)"
      "bufRemaining r2 = ys" "snd r2 = snd r1 + length ?u" "fst r2 = fst r1" by blast
  have "utf8Decode (take (length ?u) (bufRemaining r1)) = Some s"
    using r1(2) by (simp add: format_def utf8Decode_concat)
  then show ?thesis
    using r1 r2 assms(1) by (simp add: readString_def Let_def)
qed

lemma readString_progress: "readString r = Inr (s, r') \<Longrightarrow> snd r \<le> snd r' \<and> fst r' = fst r"
  unfolding readString_def Let_def
  by (auto simp: bindE_Inr_iff split: option.splits dest!: advance_progress readVarint_moves)

lemma readBytes_ok:
  assumes "length bs < 2 ^ 32" "bufRemaining r = leb (length bs) @ bs @ ys"
  shows "\<exists>r'. readBytes r = Inr (bs, r') \<and> bufRemaining r' = ys \<and>
    snd r' = snd r + length (leb (length bs) @ bs) \<and> fst r' = fst r"
proof -
  have "length bs < 2 ^ 64" using assms(1) by simp
  from readVarint_leb [OF this assms(2)] obtain r1 where r1: "readVarint r = Inr (length bs, r1)"
      "bufRemaining r1 = bs @ ys" "snd r1 = snd r + length (leb (length bs))" "fst r1 = fst r"
    by blast
  have "snd r1 \<le> length (fst r1)" using readVarint_progress(2) [OF r1(1)] .
  from advance_ok [OF r1(2) this] r1 assms(1) show ?thesis by (auto simp: readBytes_def Let_def)
qed

lemma readDouble_ok:
  assumes "isDouble x" "bufRemaining r = doubleBytes x @ ys"
  shows "\<exists>r'. readDouble r = Inr (x, r') \<and> bufRemaining r' = ys \<and>
    snd r' = snd r + length (doubleBytes x) \<and> fst r' = fst r"
proof -
  have "length (bufRemaining r) = 8 + length ys" using assms(2) by simp
  then have "snd r \<le> length (fst r)" by (simp add: bufRemaining_def split: prod.splits)
  from advance_ok [OF assms(2) this] assms show ?thesis
    by (auto simp: readDouble_def doubleOf_doubleBytes)
qed

lemma readBytes_progress: "readBytes r = Inr (bs, r') \<Longrightarrow> snd r \<le> snd r' \<and> fst r' = fst r"
  unfolding readBytes_def Let_def
  by (auto simp: bindE_Inr_iff dest!: advance_progress readVarint_moves)

lemma readDouble_progress: "readDouble r = Inr (x, r') \<Longrightarrow> snd r \<le> snd r' \<and> fst r' = fst r"
  unfolding readDouble_def by (auto simp: bindE_Inr_iff dest!: advance_progress)

lemma skipField_progress: "skipField t r = Inr (u, r') \<Longrightarrow> snd r \<le> snd r' \<and> fst r' = fst r"
  unfolding skipField_def
  by (auto simp: bindE_Inr_iff split: if_splits dest!: advance_progress readVarint_moves)

lemma sint_word_of_nat:
  assumes "- (2 ^ 31) \<le> i" "i < 2 ^ 31"
  shows "sint (word_of_nat (nat (i mod 2 ^ 64)) :: u32) = i"
proof -
  have "(word_of_nat (nat (i mod 2 ^ 64)) :: u32) = word_of_int (i mod 2 ^ 64)"
    by simp
  also have "\<dots> = word_of_int i"
    by (simp add: word_of_int_eq_iff take_bit_eq_mod mod_mod_cancel)
  finally show ?thesis
    using assms by (simp add: sint_sbintrunc' signed_take_bit_int_eq_self)
qed

lemma sint_word_of_nat_64:
  assumes "- (2 ^ 63) \<le> i" "i < 2 ^ 63"
  shows "sint (word_of_nat (nat (i mod 2 ^ 64)) :: u64) = i"
proof -
  have "(word_of_nat (nat (i mod 2 ^ 64)) :: u64) = word_of_int (i mod 2 ^ 64)"
    by simp
  also have "\<dots> = word_of_int i"
    by (simp add: word_of_int_eq_iff take_bit_eq_mod)
  finally show ?thesis
    using assms by (simp add: sint_sbintrunc' signed_take_bit_int_eq_self)
qed

interpretation bufReader: wire_reader bufReader bufRemaining format
proof (unfold_locales, goal_cases)
  case (5 n r ys)
  then have "n < 2 ^ 64" by simp
  from readVarint_leb [OF this] 5(2) show ?case
    by (auto simp: bufReader_def format_def)
next
  case (6 i r ys)
  have "nat (i mod 2 ^ 64) < 2 ^ 64" by (simp add: nat_less_iff)
  from readVarint_leb [OF this] 6(3) sint_word_of_nat [OF 6(1,2)] show ?case
    by (auto simp: bufReader_def format_def)
next
  case (7 s r ys)
  then show ?case
    using readString_ok [of s r ys] by (auto simp: bufReader_def format_def)
next
  case (8 r b ys)
  have "(if b then 1 else 0) < (2::nat) ^ 64" by simp
  from readVarint_leb [OF this] 8 show ?case
    by (fastforce simp: bufReader_def format_def split: if_splits)
next
  case (15 n r ys)
  have "uint (word_of_nat n :: u64) = int n"
    using 15(1) by (simp add: unsigned_of_nat take_bit_nat_eq_self flip: of_nat_take_bit)
  with readVarint_leb [OF 15(1)] 15(2) show ?case
    by (auto simp: bufReader_def format_def)
next
  case (16 i r ys)
  have "nat (i mod 2 ^ 64) < 2 ^ 64" by (simp add: nat_less_iff)
  from readVarint_leb [OF this] 16(3) sint_word_of_nat_64 [OF 16(1,2)] show ?case
    by (auto simp: bufReader_def format_def)
next
  case (17 z r ys)
  then show ?case using readDouble_ok [of z r ys] by (auto simp: bufReader_def format_def)
next
  case (18 bs r ys)
  then show ?case using readBytes_ok [of bs r ys] by (auto simp: bufReader_def format_def)
qed (auto simp: bufReader_def format_def bufRemaining_def bindE_Inr_iff
    dest: readVarint_moves readString_progress skipField_progress readBytes_progress readDouble_progress)

section \<open>The writer\<close>

definition chunkAppend :: "bytes \<Rightarrow> bytes list \<Rightarrow> jserr + bytes list" where
  "chunkAppend bs w = (case w of [] \<Rightarrow> Inl ''Error: no chunk'' | c # cs \<Rightarrow> Inr ((c @ bs) # cs))"

definition chunkWriter :: "bytes list writer_ops" where
  "chunkWriter = \<lparr>w_new = [[]],
     w_uint32 = (\<lambda>x w. if isUInt32 x then chunkAppend (leb (nat (numToInt x))) w
                      else Inl ''Error: invalid uint32''),
     w_int32 = (\<lambda>x w. if isInt32 x then chunkAppend (svarint format (numToInt x)) w
                     else Inl ''Error: invalid int32''),
     w_string = (\<lambda>s. chunkAppend (leb (length (utf8 format s)) @ utf8 format s)),
     w_bool = (\<lambda>b. chunkAppend (leb (if b then 1 else 0))),
     w_uint64 = (\<lambda>x w. if isInteger x \<and> 0 \<le> numToInt x \<and> numToInt x < 2 ^ 64
                      then chunkAppend (leb (nat (numToInt x))) w else Inl ''Error: invalid uint64''),
     w_int64 = (\<lambda>x w. if isInteger x \<and> - (2 ^ 63) \<le> numToInt x \<and> numToInt x < 2 ^ 63
                     then chunkAppend (svarint format (numToInt x)) w else Inl ''Error: invalid int64''),
     w_double = (\<lambda>x. chunkAppend (doubleBytes x)),
     w_bytes = (\<lambda>bs. chunkAppend (leb (length bs) @ bs)),
     w_fork = (\<lambda>w. [] # w),
     w_join = (\<lambda>w. case w of c # d # cs \<Rightarrow> Inr ((d @ leb (length c) @ c) # cs)
                  | _ \<Rightarrow> Inl ''Error: invalid state, fork stack empty''),
     w_finish = (\<lambda>w. concat (rev w))\<rparr>"

interpretation chunkWriter: wire_writer chunkWriter "\<lambda>w. w" format
  by unfold_locales (auto simp: chunkWriter_def chunkAppend_def format_def isUInt64_def isSafe_def)

interpretation wireInstance: wire bufReader bufRemaining format chunkWriter "\<lambda>w. w"
  by unfold_locales

end
