(* ===== verification/Client_Theorems.thy ===== *)
theory Client_Theorems
  imports Query_Client Query_Json Http_Codec File_Codec Wire_Instance
begin

text \<open>
  The theorems on the TypeScript client and its messages, with applications to the concrete reader,
  writer and wire format.
\<close>

section \<open>Facts of the message functions\<close>

context wire
begin

lemmas proof_response_codec = query_proof_response.roundtrip [folded QueryProofResponse_decode_def]
lemmas batch_request_codec = batch_proofs_request.roundtrip [folded QueryBatchProofsRequest_decode_def]
lemmas batch_response_total = batch_proofs_response.decode_total [folded QueryBatchProofsResponse_decode_def]
lemmas http_rule_codec = http_rule.roundtrip [folded HttpRule_decode_unfold]
lemmas http_rule_total = http_rule.decode_total [folded HttpRule_decode_unfold]
lemmas proof_request_decodes = query_proof_request.decode_layout [folded QueryProofRequest_decode_def]
lemmas batch_request_decodes = batch_proofs_request.decode_layout [folded QueryBatchProofsRequest_decode_def]
lemmas file_set_codec = file_descriptor_set.roundtrip [folded FileDescriptorSet_decode_def]
lemmas file_set_total = file_descriptor_set.decode_total [folded FileDescriptorSet_decode_def]

end

section \<open>Example messages\<close>

lemma instance_wire: "wire bufReader bufRemaining format chunkWriter (\<lambda>w. w)"
  by unfold_locales

definition someProof :: Proof where
  "someProof = \<lparr>Proof_leaf = ''7'', Proof_path = [''5'', ''11''], Proof_index = numInt 3, Proof_root = ''42''\<rparr>"

definition someBatchProofs :: QueryBatchProofsResponse where
  "someBatchProofs = \<lparr>QueryBatchProofsResponse_initialRoot = ''42'',
     QueryBatchProofsResponse_proofs = [\<lparr>BatchProof_index = numInt 3, BatchProof_path = [''5'', ''11'']\<rparr>]\<rparr>"

lemma strOk_short: "length s < 2 ^ 31 \<Longrightarrow> strOk format s"
proof -
  assume s: "length s < 2 ^ 31"
  have "length (concat (map utf8Char s)) \<le> 2 * length s"
    by (induction s) (simp_all add: utf8Char_def Let_def)
  then show ?thesis using s by (simp add: strOk_def format_def)
qed

lemma leb_small: "n < 128 \<Longrightarrow> leb n = [word_of_nat n]"
  by (subst leb.simps) simp

lemmas small_bytes = msgOk_def isUInt32_def strBytes_def u32Bytes_def lenPrefixed_def format_def utf8Char_def leb_small Let_def

lemma someProof_ok: "Proof_ok format someProof" "msgOk (Proof_bytes format someProof)"
  by (simp add: Proof_ok_def someProof_def strOk_short isUInt32_def)
     (simp add: someProof_def Proof_bytes_def small_bytes)

lemma someBatchProofs_ok: "QueryBatchProofsResponse_ok format someBatchProofs"
  by (simp add: QueryBatchProofsResponse_ok_def someBatchProofs_def BatchProof_ok_def strOk_short isUInt32_def)
     (simp add: BatchProof_bytes_def small_bytes)

section \<open>Wire round trips\<close>

text \<open>
  C23.  \<open>QueryProofResponse.decode(QueryProofResponse.encode(m).finish())\<close> is \<open>m\<close>, for every message
  whose index is a 32-bit unsigned integer and whose strings and proof fit a 32-bit length.
\<close>

theorem QueryProofResponse_roundtrip:
  assumes "wire R remaining F W out" and "QueryProofResponse_ok F m"
  shows "\<exists>w r. QueryProofResponse_encode W m (w_new W) = Inr w \<and>
    QueryProofResponse_decode R (InBytes (w_finish W w)) None = Some (Inr (m, r))"
  by (rule wire.proof_response_codec [OF assms])

theorem QueryProofResponse_roundtrip_witness:
  "\<exists>w r. QueryProofResponse_encode chunkWriter \<lparr>QueryProofResponse_proof = Some someProof\<rparr> (w_new chunkWriter) = Inr w \<and>
    QueryProofResponse_decode bufReader (InBytes (w_finish chunkWriter w)) None =
      Some (Inr (\<lparr>QueryProofResponse_proof = Some someProof\<rparr>, r))"
  by (rule QueryProofResponse_roundtrip [OF instance_wire])
     (simp add: QueryProofResponse_ok_def someProof_ok)

text \<open>
  C24.  \<open>HttpRule\<close> contains itself in \<open>additionalBindings\<close>: a rule with bindings nested to any depth
  comes back from its encoding.
\<close>

theorem HttpRule_roundtrip:
  assumes "wire R remaining F W out" and "HttpRule_ok F m"
  shows "\<exists>w r. HttpRule_encode W m (w_new W) = Inr w \<and>
    HttpRule_decode R (InBytes (w_finish W w)) None = Some (Inr (m, r))"
  by (rule wire.http_rule_codec [OF assms])

definition innerRule :: HttpRule where
  "innerRule = HttpRule [] (Some ''/v1/b'') None None None None None [] [] []"

definition someRule :: HttpRule where
  "someRule = HttpRule ''Query.Proof'' (Some ''/v1/a'') None None None None None [] [] [innerRule]"

lemma someRule_ok: "HttpRule_ok format someRule"
  by (simp add: someRule_def innerRule_def strOk_short) (simp add: small_bytes)

theorem HttpRule_roundtrip_witness:
  "\<exists>w r. HttpRule_encode chunkWriter someRule (w_new chunkWriter) = Inr w \<and>
    HttpRule_decode bufReader (InBytes (w_finish chunkWriter w)) None = Some (Inr (someRule, r))"
  by (rule HttpRule_roundtrip [OF instance_wire someRule_ok])

section \<open>Decoding ends\<close>

text \<open>
  C25.  \<open>HttpRule.decode\<close> ends on every input, with a message or an exception: each turn of its loop
  consumes input, also when a nested rule claims a length beyond the end of the buffer.
\<close>

theorem HttpRule_decode_ends:
  assumes "wire R remaining F W out"
  shows "\<exists>res. HttpRule_decode R input len = Some res"
  by (rule wire.http_rule_total [OF assms])

theorem HttpRule_decode_ends_witness: "\<exists>res. HttpRule_decode bufReader (InBytes [90, 255]) None = Some res"
  by (rule HttpRule_decode_ends [OF instance_wire])

section \<open>Decoded values\<close>

text \<open>
  C26.  \<open>QueryBatchProofsResponse.decode\<close> ends on every input, with an exception or with a message of the
  declared type: whatever the bytes are, every index in it is a 32-bit unsigned integer.
\<close>

theorem QueryBatchProofsResponse_decode_typed:
  assumes "wire R remaining F W out"
  shows "\<exists>res. QueryBatchProofsResponse_decode R input len = Some res \<and>
    (case res of Inl e \<Rightarrow> True
     | Inr (m, r) \<Rightarrow> \<forall>b\<in>set (QueryBatchProofsResponse_proofs m). isUInt32 (BatchProof_index b))"
  using wire.batch_response_total [OF assms, of input len] QueryBatchProofsResponse_typed [of R input len]
  by (auto split: sum.split)

theorem QueryBatchProofsResponse_decode_typed_witness:
  "\<exists>res. QueryBatchProofsResponse_decode bufReader (InBytes [18, 200, 1]) None = Some res \<and>
    (case res of Inl e \<Rightarrow> True
     | Inr (m, r) \<Rightarrow> \<forall>b\<in>set (QueryBatchProofsResponse_proofs m). isUInt32 (BatchProof_index b))"
  by (rule QueryBatchProofsResponse_decode_typed [OF instance_wire])

section \<open>Encoding errors\<close>

text \<open>
  C37.  An index that is not a 32-bit unsigned integer (a fraction, a negative number, \<open>NaN\<close> or a number
  above \<open>2 ^ 32 - 1\<close>) makes \<open>encode\<close> throw, for a proof inside a response as well.
\<close>

theorem QueryProofResponse_encode_rejects_index:
  assumes "wire_writer W out F" and "QueryProofResponse_proof m = Some p" and "\<not> isUInt32 (Proof_index p)"
  shows "\<exists>e. QueryProofResponse_encode W m (w_new W) = Inl e"
  using wire_writer.QueryProofResponse_rejects [OF assms] wire_writer.new_writer [OF assms(1)]
  by (simp add: wire_writer.rejects_def [OF assms(1)])

theorem QueryProofResponse_encode_rejects_index_witness:
  "\<exists>e. QueryProofResponse_encode chunkWriter
     \<lparr>QueryProofResponse_proof = Some (someProof\<lparr>Proof_index := NaN\<rparr>)\<rparr> (w_new chunkWriter) = Inl e"
  by (rule QueryProofResponse_encode_rejects_index [OF chunkWriter.wire_writer_axioms,
      where p = "someProof\<lparr>Proof_index := NaN\<rparr>"])
     (simp_all add: isUInt32_def isInteger_def)

section \<open>JSON round trips\<close>

text \<open>
  C38.  \<open>fromJSON(toJSON(m))\<close> of a batch response is \<open>m\<close> with every index rounded to an integer, so a
  response with integral indexes comes back unchanged.
\<close>

theorem QueryBatchProofsResponse_json_roundtrip:
  "QueryBatchProofsResponse_fromJSON J (QueryBatchProofsResponse_toJSON m) =
     Inr (m\<lparr>QueryBatchProofsResponse_proofs :=
       map (\<lambda>b. b\<lparr>BatchProof_index := mathRound (BatchProof_index b)\<rparr>) (QueryBatchProofsResponse_proofs m)\<rparr>)"
  unfolding QueryBatchProofsResponse_json BatchProof_rounded_def [abs_def] ..

text \<open>
  C39.  \<open>HttpRule.fromJSON(HttpRule.toJSON(m))\<close> is \<open>m\<close>, for bindings nested to any depth.
\<close>

theorem HttpRule_json_roundtrip: "HttpRule_fromJSON J (HttpRule_toJSON m) = Inr m"
  by (rule HttpRule_json)

section \<open>Descriptors\<close>

text \<open>
  A file with a message, a message nested in it, and an option of every scalar kind.
\<close>

definition someOption :: UninterpretedOption where
  "someOption = createBaseUninterpretedOption\<lparr>
     UninterpretedOption_name :=
       [\<lparr>UninterpretedOption_NamePart_namePart = ''x'', UninterpretedOption_NamePart_isExtension = True\<rparr>],
     UninterpretedOption_positiveIntValue := Some (numInt (2 ^ 53 - 1)),
     UninterpretedOption_negativeIntValue := Some (numInt (- 5)),
     UninterpretedOption_doubleValue := Some (Fin (1 / 2)),
     UninterpretedOption_stringValue := Some [1, 255]\<rparr>"

definition someMessageOptions :: MessageOptions where
  "someMessageOptions = createBaseMessageOptions\<lparr>MessageOptions_uninterpretedOption := [someOption]\<rparr>"

definition someDescriptor :: DescriptorProto where
  "someDescriptor = DescriptorProto_set_nestedType [createBaseDescriptorProto]
     (DescriptorProto_set_options (Some someMessageOptions) createBaseDescriptorProto)"

definition someFiles :: FileDescriptorSet where
  "someFiles = \<lparr>FileDescriptorSet_file = [createBaseFileDescriptorProto\<lparr>
     FileDescriptorProto_publicDependency := [numInt 1, numInt 2],
     FileDescriptorProto_messageType := [someDescriptor]\<rparr>]\<rparr>"

lemma isDouble_half: "isDouble (Fin (1 / 2))"
proof -
  have "scaled (1 / 2) / 2 ^ 1073 = 1" by (simp add: scaled_def)
  then show ?thesis
    unfolding isDouble_def number.case Let_def list_ex_iff by (intro bexI [of _ 1073]) simp_all
qed

lemma format_sel: "varint format = leb" "svarint format i = leb (nat (i mod 2 ^ 64))"
  "utf8 format s = concat (map utf8Char s)" "dbl format = doubleBytes"
  by (simp_all add: format_def)

lemmas format_lengths = msgOk_def strOk_def lenPrefixed_def strBytes_def u64Bytes_def i64Bytes_def
  i32Bytes_def boolBytes_def dblBytes_def binBytes_def msgBytes_def packedBytes_def differs_def format_sel
  utf8Char_def isInt32_def isUInt64_def isSafe_def

lemma someOption_ok: "UninterpretedOption_ok format someOption"
  "length (UninterpretedOption_bytes format someOption) = 40"
proof -
  have "Fin (1 / 2) \<noteq> numInt 0" by (simp add: numInt_def)
  then show "UninterpretedOption_ok format someOption"
    "length (UninterpretedOption_bytes format someOption) = 40"
    by (simp_all add: UninterpretedOption_ok_def UninterpretedOption_NamePart_ok_def
        createBaseUninterpretedOption_def UninterpretedOption_bytes_def UninterpretedOption_NamePart_bytes_def
        someOption_def isDouble_half format_lengths leb.simps)
qed

lemma someMessageOptions_ok: "MessageOptions_ok format someMessageOptions"
  "length (MessageOptions_bytes format someMessageOptions) = 43"
  by (simp_all add: MessageOptions_ok_def MessageOptions_bytes_def someMessageOptions_def someOption_ok
      createBaseMessageOptions_def format_lengths leb.simps)

lemma someDescriptor_ok: "DescriptorProto_ok format someDescriptor"
  "length (DescriptorProto_bytes format someDescriptor) = 47"
  by (simp_all add: someDescriptor_def someMessageOptions_ok createBaseDescriptorProto_def
      format_lengths leb.simps)

lemma someFiles_ok: "FileDescriptorSet_ok format someFiles"
  by (simp add: FileDescriptorSet_ok_def FileDescriptorProto_ok_def FileDescriptorProto_bytes_def
      createBaseFileDescriptorProto_def someFiles_def someDescriptor_ok format_lengths leb.simps)

text \<open>
  C27.  A set of file descriptors comes back from its encoding: messages nested to any depth, packed
  lists, options with 64-bit integers, doubles and bytes, whenever every scalar field is defined, every
  64-bit integer is safe and the lengths have 32 bits.  \<open>decode\<close> ends on every input.
\<close>

theorem FileDescriptorSet_roundtrip:
  assumes "wire R remaining F W out" and "FileDescriptorSet_ok F m"
  shows "(\<exists>w r. FileDescriptorSet_encode W m (w_new W) = Inr w \<and>
      FileDescriptorSet_decode R (InBytes (w_finish W w)) None = Some (Inr (m, r))) \<and>
    (\<exists>res. FileDescriptorSet_decode R input len = Some res)"
  using wire.file_set_codec [OF assms] wire.file_set_total [OF assms(1)] by blast

theorem FileDescriptorSet_roundtrip_witness:
  "(\<exists>w r. FileDescriptorSet_encode chunkWriter someFiles (w_new chunkWriter) = Inr w \<and>
      FileDescriptorSet_decode bufReader (InBytes (w_finish chunkWriter w)) None = Some (Inr (someFiles, r))) \<and>
    (\<exists>res. FileDescriptorSet_decode bufReader (InBytes [10, 255]) None = Some res)"
  by (rule FileDescriptorSet_roundtrip [OF instance_wire someFiles_ok])

section \<open>Calls\<close>

text \<open>
  A transport that decodes the request, calls a handler and encodes its response.
\<close>

definition stubRpc ::
    "(buf_reader input \<Rightarrow> nat option \<Rightarrow> (jserr + 'q \<times> buf_reader) option) \<Rightarrow> ('p \<Rightarrow> bytes)
     \<Rightarrow> ('q \<Rightarrow> 'n \<Rightarrow> (jserr + 'p) \<times> 'n) \<Rightarrow> 'n rpc" where
  "stubRpc decode respBytes serve service method data n =
     (case decode (InBytes data) None of
        Some (Inr (q, _)) \<Rightarrow>
          (case serve q n of (Inl e, n') \<Rightarrow> (Inl e, n') | (Inr p, n') \<Rightarrow> (Inr (respBytes p), n'))
      | _ \<Rightarrow> (Inl ''invalid request'', n))"

lemma stubRpc_serves:
  assumes "\<And>q. reqOk q \<Longrightarrow> \<exists>r. decode (InBytes (reqBytes q)) None = Some (Inr (q, r))"
  shows "serves (stubRpc decode respBytes serve) service method reqBytes reqOk respBytes serve"
  using assms unfolding serves_def stubRpc_def by fastforce

text \<open>
  C28.  A call of \<open>client.GetBatchProofs\<close> delivers the list of operations to the handler in order and
  its list of proofs back to the caller.
\<close>

theorem Client_GetBatchProofs_delivers:
  assumes "wire R remaining F W out"
    and "serves (client_rpc c) (client_service c) ''GetBatchProofs'' (QueryBatchProofsRequest_bytes F)
      (QueryBatchProofsRequest_ok F) (QueryBatchProofsResponse_bytes F) serve"
    and "QueryBatchProofsRequest_ok F q"
    and "\<forall>p n'. serve q n = (Inr p, n') \<longrightarrow> QueryBatchProofsResponse_ok F p"
  shows "Client_GetBatchProofs R W c q n = (case serve q n of (r, n') \<Rightarrow> (settled r, n'))"
  using assms(4) by (intro wire.Client_GetBatchProofs_serves [OF assms(1-3)]) blast

definition batchClient :: "nat query_client" where
  "batchClient = QueryClientImpl
     (stubRpc (QueryBatchProofsRequest_decode bufReader) (QueryBatchProofsResponse_bytes format)
       (\<lambda>q n. (Inr someBatchProofs, n + length (QueryBatchProofsRequest_operations q)))) (Some (Some []))"

definition batchQuery :: QueryBatchProofsRequest where
  "batchQuery = \<lparr>QueryBatchProofsRequest_registry = ''0x07'', QueryBatchProofsRequest_operations =
     [\<lparr>BatchOperation_leafHash = ''7'', BatchOperation_isAddition = True\<rparr>,
      \<lparr>BatchOperation_leafHash = ''8'', BatchOperation_isAddition = False\<rparr>]\<rparr>"

lemma batchQuery_ok: "QueryBatchProofsRequest_ok format batchQuery"
  by (simp add: batchQuery_def QueryBatchProofsRequest_ok_def BatchOperation_ok_def strOk_short)
     (simp add: BatchOperation_bytes_def boolBytes_def small_bytes)

theorem Client_GetBatchProofs_delivers_witness:
  "Client_GetBatchProofs bufReader chunkWriter batchClient batchQuery 0 = (Fulfilled someBatchProofs, 2) \<and>
   client_service batchClient = QueryServiceName"
proof -
  have "serves (client_rpc batchClient) (client_service batchClient) ''GetBatchProofs''
      (QueryBatchProofsRequest_bytes format) (QueryBatchProofsRequest_ok format) (QueryBatchProofsResponse_bytes format)
      (\<lambda>q n. (Inr someBatchProofs, n + length (QueryBatchProofsRequest_operations q)))"
    unfolding batchClient_def QueryClientImpl_def query_client.simps
    by (rule stubRpc_serves) (rule wire.batch_request_decodes [OF instance_wire])
  then have "Client_GetBatchProofs bufReader chunkWriter batchClient batchQuery 0 =
      (case (Inr someBatchProofs, 0 + length (QueryBatchProofsRequest_operations batchQuery)) of
         (r, n') \<Rightarrow> (settled r, n'))"
    by (rule Client_GetBatchProofs_delivers [OF instance_wire]) (auto simp: batchQuery_ok someBatchProofs_ok)
  then show ?thesis
    by (simp add: settled_def batchQuery_def batchClient_def QueryClientImpl_def)
qed

end
