(* ===== verification/Registry_Index.thy ===== *)
theory Registry_Index
  imports Storage_Keys Kv_Store
begin

text \<open>
  The index of a registry address (\<open>internal/zkregistry/index_storage.go\<close>).  An address gets the
  next value of a one-byte counter when it is first seen, and keeps it.

  \<open>indexed m addrs\<close> says that the database \<open>m\<close> has registered the addresses \<open>addrs\<close> in this order:
  the address at position \<open>i\<close> has the index \<open>i\<close> modulo 256.  \<open>ApplyAddressToIndex\<close> keeps it, and
  appends the address when it is new.
\<close>

section \<open>Operations\<close>

definition FindRegistryIndex :: "('d, 'b) db_ops \<Rightarrow> 'd \<Rightarrow> address \<Rightarrow> goerr + u8" where
  "FindRegistryIndex D d address =
     bindE (dbGet D d (makeRegistryIndexKey address)) (\<lambda>data.
     if length data = 0 then Inl ErrNotFound else goIndex data 0)"

definition setIndex :: "('d, 'b) db_ops \<Rightarrow> 'd \<Rightarrow> address \<Rightarrow> u8 \<Rightarrow> ('b, unit) go" where
  "setIndex D d address index batch =
     (case FindRegistryIndex D d address of
        Inr _ \<Rightarrow> (Inl (ErrNew ''address index already set for address''), batch)
      | Inl _ \<Rightarrow> batchSet D (makeRegistryIndexKey address) [index] batch)"

definition getNextRegistryIndex :: "('d, 'b) db_ops \<Rightarrow> 'd \<Rightarrow> goerr + u8" where
  "getNextRegistryIndex D d =
     bindE (dbGet D d makeRegistryIndexCounterKey) (\<lambda>counter.
     if length counter = 0 then Inr 0
     else bindE (goIndex counter 0) (\<lambda>c. Inr (c + 1)))"

definition setIndexCounter :: "('d, 'b) db_ops \<Rightarrow> u8 \<Rightarrow> ('b, unit) go" where
  "setIndexCounter D index = batchSet D makeRegistryIndexCounterKey [index]"

definition ApplyAddressToIndex :: "('d, 'b) db_ops \<Rightarrow> address \<Rightarrow> ('d, u8) go" where
  "ApplyAddressToIndex D address d =
     (case FindRegistryIndex D d address of
        Inr index \<Rightarrow> (Inr index, d)
      | Inl _ \<Rightarrow>
          (case wrapE ''get next address index'' (getNextRegistryIndex D d) of
             Inl e \<Rightarrow> (Inl e, d)
           | Inr index \<Rightarrow>
               (case bindG (wrapG ''set address to index'' (setIndex D d address index)) (\<lambda>_.
                       wrapG ''set index counter'' (setIndexCounter D index)) (dbNewBatch D d) of
                  (Inl e, _) \<Rightarrow> (Inl e, d)
                | (Inr _, batch) \<Rightarrow>
                    (case wrapG ''write batch'' (batchWriteSync D) (d, batch) of
                       (Inl e, d', _) \<Rightarrow> (Inl e, d')
                     | (Inr _, d', _) \<Rightarrow> (Inr index, d')))))"

section \<open>The registered addresses\<close>

definition storedIndex :: "kv \<Rightarrow> address \<Rightarrow> u8 option" where
  "storedIndex m a = (case m (makeRegistryIndexKey a) of Some (x # xs) \<Rightarrow> Some x | _ \<Rightarrow> None)"

definition indexed :: "kv \<Rightarrow> address list \<Rightarrow> bool" where
  "indexed m addrs \<longleftrightarrow> distinct addrs \<and> (\<forall>a\<in>set addrs. addressOk a) \<and>
     (\<forall>i<length addrs. storedIndex m (addrs ! i) = Some (word_of_nat i)) \<and>
     (\<forall>a. addressOk a \<longrightarrow> a \<notin> set addrs \<longrightarrow> storedIndex m a = None) \<and>
     kvRead m makeRegistryIndexCounterKey =
       (if addrs = [] then [] else [word_of_nat (length addrs - 1)])"

definition register :: "address \<Rightarrow> address list \<Rightarrow> address list" where
  "register a addrs = (if a \<in> set addrs then addrs else addrs @ [a])"

lemma registryIndexKey_simps [simp]:
  "addressOk a \<Longrightarrow> makeRegistryIndexKey a \<noteq> []"
  "addressOk a \<Longrightarrow> makeRegistryIndexKey a \<noteq> makeRegistryIndexCounterKey"
  "addressOk a \<Longrightarrow> addressOk b \<Longrightarrow> makeRegistryIndexKey a = makeRegistryIndexKey b \<longleftrightarrow> a = b"
  by (simp_all add: key_simps makeRegistryIndexCounterKey_def prefix_defs)

lemma indexed_empty: "indexed Map.empty []"
  by (simp add: indexed_def storedIndex_def kvRead_def)

text \<open>Only the index keys and the counter key matter.\<close>

lemma indexed_cong:
  assumes "indexed m addrs" and "m' makeRegistryIndexCounterKey = m makeRegistryIndexCounterKey"
    and "\<And>a. addressOk a \<Longrightarrow> m' (makeRegistryIndexKey a) = m (makeRegistryIndexKey a)"
  shows "indexed m' addrs"
  using assms by (auto simp: indexed_def storedIndex_def kvRead_def)

text \<open>At most 256 addresses have different indexes.\<close>

lemma word8_inject:
  assumes "i < 256" "j < 256"
  shows "(word_of_nat i :: u8) = word_of_nat j \<longleftrightarrow> i = j"
  using assms by (simp add: word_of_nat_eq_iff take_bit_nat_eq_self)

section \<open>Allocation\<close>

context kv_db
begin

lemma FindRegistryIndex_eq:
  assumes "addressOk a"
  shows "FindRegistryIndex D d a =
    (case storedIndex (content d) a of Some x \<Rightarrow> Inr x | None \<Rightarrow> Inl ErrNotFound)"
  using assms by (auto simp: FindRegistryIndex_def get_ok kvRead_def storedIndex_def
      split: option.splits list.splits)

lemma getNextRegistryIndex_eq:
  assumes "indexed (content d) addrs"
  shows "getNextRegistryIndex D d = Inr (word_of_nat (length addrs))"
  using assms by (cases addrs) (simp_all add: getNextRegistryIndex_def get_ok indexed_def)

text \<open>What an allocation writes.\<close>

lemma ApplyAddressToIndex_new:
  assumes a: "addressOk a" and ix: "indexed (content d) addrs" and new: "a \<notin> set addrs"
  shows "runs (ApplyAddressToIndex D a) d (\<lambda>i d'. i = word_of_nat (length addrs) \<and>
    content d' = (content d)(makeRegistryIndexKey a \<mapsto> [i], makeRegistryIndexCounterKey \<mapsto> [i]))"
proof -
  let ?i = "word_of_nat (length addrs) :: u8"
  have none: "FindRegistryIndex D d a = Inl ErrNotFound"
    using ix new a by (simp add: FindRegistryIndex_eq indexed_def)
  obtain b1 where b1: "batchSet D (makeRegistryIndexKey a) [?i] (dbNewBatch D d) = (Inr (), b1)"
      "isOpen b1" "pending b1 = [makeRegistryIndexKey a \<mapsto> Some [?i]]"
    using bset_ok [of "dbNewBatch D d" "makeRegistryIndexKey a" "[?i]"] new_ok a by auto
  obtain b2 where b2: "batchSet D makeRegistryIndexCounterKey [?i] b1 = (Inr (), b2)"
      "isOpen b2" "pending b2 = [makeRegistryIndexKey a \<mapsto> Some [?i], makeRegistryIndexCounterKey \<mapsto> Some [?i]]"
    using bset_ok [of b1 makeRegistryIndexCounterKey "[?i]"] b1 by auto
  obtain d' b3 where w: "batchWriteSync D (d, b2) = (Inr (), d', b3)"
      "content d' = applyOverlay (pending b2) (content d)"
    using write_ok [OF b2(2)] by blast
  have "bindG (wrapG ''set address to index'' (setIndex D d a ?i)) (\<lambda>_.
          wrapG ''set index counter'' (setIndexCounter D ?i)) (dbNewBatch D d) = (Inr (), b2)"
    using b1(1) b2(1) none by (simp add: setIndex_def setIndexCounter_def bindG_def wrapG_def)
  then have "ApplyAddressToIndex D a d = (Inr ?i, d')"
    using w(1) none getNextRegistryIndex_eq [OF ix] by (simp add: ApplyAddressToIndex_def)
  moreover have "content d' = (content d)(makeRegistryIndexKey a \<mapsto> [?i], makeRegistryIndexCounterKey \<mapsto> [?i])"
    using w(2) b2(3) by (auto simp: applyOverlay_def)
  ultimately show ?thesis by (simp add: runs_def)
qed

lemma indexed_register:
  assumes a: "addressOk a" and ix: "indexed m addrs" and new: "a \<notin> set addrs"
    and m': "m' = m(makeRegistryIndexKey a \<mapsto> [word_of_nat (length addrs)],
      makeRegistryIndexCounterKey \<mapsto> [word_of_nat (length addrs)])"
  shows "indexed m' (addrs @ [a])"
proof -
  have "storedIndex m' b = (if b = a then Some (word_of_nat (length addrs)) else storedIndex m b)"
    if "addressOk b" for b
    using that a m' by (simp add: storedIndex_def)
  then show ?thesis
    using ix a new m' by (auto simp: indexed_def nth_append less_Suc_eq)
qed

lemma ApplyAddressToIndex_ok:
  assumes a: "addressOk a" and ix: "indexed (content d) addrs"
  shows "runs (ApplyAddressToIndex D a) d (\<lambda>i d'. indexed (content d') (register a addrs) \<and>
    (a \<in> set addrs \<longrightarrow> d' = d) \<and> storedIndex (content d') a = Some i \<and>
    (\<forall>k. k \<noteq> makeRegistryIndexKey a \<longrightarrow> k \<noteq> makeRegistryIndexCounterKey \<longrightarrow> content d' k = content d k))"
proof (cases "a \<in> set addrs")
  case True
  then obtain i where i: "storedIndex (content d) a = Some i"
    using ix by (auto simp: indexed_def in_set_conv_nth)
  then have "ApplyAddressToIndex D a d = (Inr i, d)"
    using a by (simp add: ApplyAddressToIndex_def FindRegistryIndex_eq)
  with True i ix show ?thesis by (simp add: runs_def register_def)
next
  case False
  show ?thesis
    using ApplyAddressToIndex_new [OF a ix False]
  proof (rule runs_mono)
    fix i d'
    assume "i = word_of_nat (length addrs) \<and>
      content d' = (content d)(makeRegistryIndexKey a \<mapsto> [i], makeRegistryIndexCounterKey \<mapsto> [i])"
    then show "indexed (content d') (register a addrs) \<and> (a \<in> set addrs \<longrightarrow> d' = d) \<and>
        storedIndex (content d') a = Some i \<and>
        (\<forall>k. k \<noteq> makeRegistryIndexKey a \<longrightarrow> k \<noteq> makeRegistryIndexCounterKey \<longrightarrow> content d' k = content d k)"
      using indexed_register [OF a ix False] a False by (simp add: register_def storedIndex_def)
  qed
qed

end

text \<open>Indexes stay apart for the first 256 addresses, and repeat from then on.\<close>

lemma indexed_distinct:
  assumes "indexed m addrs" "length addrs \<le> 256" "a \<in> set addrs" "b \<in> set addrs"
    and "storedIndex m a = storedIndex m b"
  shows "a = b"
  using assms word8_inject by (auto simp: indexed_def in_set_conv_nth)

lemma indexed_repeats:
  assumes "indexed m addrs" "i + 256 < length addrs"
  shows "storedIndex m (addrs ! (i + 256)) = storedIndex m (addrs ! i)"
  using assms by (auto simp: indexed_def word_of_nat_eq_iff take_bit_eq_mod)

end
