(* ===== verification/Msgpack.thy ===== *)
theory Msgpack
  imports Big_Endian
begin

text \<open>
  The codec of stored records.  \<open>github.com/ugorji/go/codec\<close> is outside the repository: its encoder
  and decoder with the msgpack handle are the record \<open>codec_ops\<close>, an argument of the storages that
  use it.  The locale \<open>msgpack_codec\<close> is the contract: every value of the type has an encoding, which
  is not empty, and decodes to the value; decoding nothing fails.

  A self-delimiting packing of byte strings satisfies the contract for every type whose values are
  given by a list of byte strings.
\<close>

record 'm codec_ops =
  codecEncode :: "'m \<Rightarrow> goerr + bytes"
  codecDecode :: "bytes \<Rightarrow> goerr + 'm"

text \<open>The bytes of a value.\<close>

definition encoded :: "'m codec_ops \<Rightarrow> 'm \<Rightarrow> bytes" where
  "encoded C v = (case codecEncode C v of Inr bs \<Rightarrow> bs | Inl _ \<Rightarrow> [])"

locale msgpack_codec =
  fixes C :: "'m codec_ops"
  assumes encodes: "\<exists>x xs. codecEncode C v = Inr (x # xs) \<and> codecDecode C (x # xs) = Inr v"
    and decode_nothing: "\<exists>e. codecDecode C [] = Inl e \<and> \<not> errorsIs e ErrNotFound"
begin

lemma encode_eq: "codecEncode C v = Inr (encoded C v)"
  and decode_encoded [simp]: "codecDecode C (encoded C v) = Inr v"
  and encoded_nonempty [simp]: "encoded C v \<noteq> []"
  using encodes [of v] by (auto simp: encoded_def)

end

section \<open>A packing of byte strings\<close>

fun packBytes :: "bytes \<Rightarrow> bytes" where
  "packBytes [] = [0]"
| "packBytes (b # bs) = 1 # b # packBytes bs"

fun unpackBytes :: "bytes \<Rightarrow> (bytes \<times> bytes) option" where
  "unpackBytes [] = None"
| "unpackBytes [x] = (if x = 0 then Some ([], []) else None)"
| "unpackBytes (x # y # r) = (if x = 0 then Some ([], y # r)
     else case unpackBytes r of None \<Rightarrow> None | Some (bs, r') \<Rightarrow> Some (y # bs, r'))"

lemma unpack_pack: "unpackBytes (packBytes bs @ r) = Some (bs, r)"
proof (induction bs)
  case Nil
  show ?case by (cases r) simp_all
qed simp

fun packAll :: "bytes list \<Rightarrow> bytes" where
  "packAll [] = []"
| "packAll (bs # bss) = packBytes bs @ packAll bss"

fun unpackAll :: "nat \<Rightarrow> bytes \<Rightarrow> bytes list option" where
  "unpackAll 0 r = (if r = [] then Some [] else None)"
| "unpackAll (Suc n) r = (case unpackBytes r of None \<Rightarrow> None
     | Some (bs, r') \<Rightarrow> (case unpackAll n r' of None \<Rightarrow> None | Some bss \<Rightarrow> Some (bs # bss)))"

lemma unpackAll_packAll [simp]: "unpackAll (length bss) (packAll bss) = Some bss"
  by (induction bss) (simp_all add: unpack_pack)

text \<open>A codec from a conversion to \<open>n\<close> byte strings and back.\<close>

definition packCodec :: "nat \<Rightarrow> ('m \<Rightarrow> bytes list) \<Rightarrow> (bytes list \<Rightarrow> 'm) \<Rightarrow> 'm codec_ops" where
  "packCodec n to from = \<lparr>codecEncode = (\<lambda>v. Inr (packAll (to v))),
     codecDecode = (\<lambda>bs. case unpackAll n bs of None \<Rightarrow> Inl (ErrNew ''EOF'') | Some bss \<Rightarrow> Inr (from bss))\<rparr>"

lemma packCodec_ok:
  assumes "0 < n" "\<And>v. length (to v) = n" "\<And>v. from (to v) = v"
  shows "msgpack_codec (packCodec n to from)"
proof
  fix v
  have "to v \<noteq> []" using assms(1) assms(2) [of v] by auto
  then obtain bs bss where v: "to v = bs # bss" by (cases "to v") auto
  then obtain x xs where x: "packAll (to v) = x # xs"
    by (cases bs) auto
  have "unpackAll n (packAll (to v)) = Some (to v)"
    using unpackAll_packAll [of "to v"] assms(2) by simp
  then show "\<exists>x xs. codecEncode (packCodec n to from) v = Inr (x # xs) \<and>
      codecDecode (packCodec n to from) (x # xs) = Inr v"
    using x assms(3) by (simp add: packCodec_def)
next
  show "\<exists>e. codecDecode (packCodec n to from) [] = Inl e \<and> \<not> errorsIs e ErrNotFound"
    using assms(1) by (cases n) (simp_all add: packCodec_def)
qed

end
