(* ===== verification/Registry_Service.thy ===== *)
theory Registry_Service
  imports Registry_Correct Registry_Index Msgpack
begin

text \<open>
  The registry service (\<open>internal/zkregistry/service.go\<close>) with the storage of registry metadata
  (\<open>metadata_storage.go\<close>).  The state is the database and the cache of registries by index.

  The contract caller is generated from the contract's interface and talks to an Ethereum node: the
  record \<open>contract_caller\<close> holds what its calls return.  The timeouts of the calls are among their
  errors.
\<close>

section \<open>Metadata storage\<close>

definition encodeMetadata :: "metadata codec_ops \<Rightarrow> metadata \<Rightarrow> goerr + bytes" where
  "encodeMetadata C md = wrapE ''encode metadata'' (codecEncode C md)"

definition decodeMetadata :: "metadata codec_ops \<Rightarrow> bytes \<Rightarrow> goerr + metadata" where
  "decodeMetadata C metadataBytes = wrapE ''decode metadata'' (codecDecode C metadataBytes)"

definition SetMetadata :: "('d, 'b) db_ops \<Rightarrow> metadata codec_ops \<Rightarrow> metadata \<Rightarrow> ('b, unit) go" where
  "SetMetadata D C md batch =
     (case encodeMetadata C md of
        Inl e \<Rightarrow> (Inl e, batch)
      | Inr metadataBytes \<Rightarrow> batchSet D (makeZKCertificateRegistryKey (mdAddress md)) metadataBytes batch)"

definition GetMetadata :: "('d, 'b) db_ops \<Rightarrow> metadata codec_ops \<Rightarrow> 'd \<Rightarrow> address \<Rightarrow> goerr + metadata" where
  "GetMetadata D C d address =
     bindE (dbGet D d (makeZKCertificateRegistryKey address)) (\<lambda>metadataBytes.
     if length metadataBytes = 0 then Inl ErrNotFound else decodeMetadata C metadataBytes)"

section \<open>Metadata from the contract\<close>

text \<open>\<open>big.Int\<close> values returned by the contract are unsigned.\<close>

record contract_caller =
  ccNew :: "address \<Rightarrow> goerr + unit"
  ccTreeDepth :: "address \<Rightarrow> goerr + nat"
  ccZEROVALUE :: "address \<Rightarrow> goerr + bytes"
  ccInitBlockHeight :: "address \<Rightarrow> goerr + nat"
  ccDescription :: "address \<Rightarrow> goerr + string"

text \<open>
  \<open>new(big.Int).SetBytes\<close>, \<open>big.Int.Uint64\<close> (the low 64 bits) and \<open>uint256.FromBig\<close>, which also
  reports an overflow.
\<close>

definition bigSetBytes :: "bytes \<Rightarrow> nat" where
  "bigSetBytes bs = foldl (\<lambda>n b. 256 * n + unat b) 0 bs"

definition bigUint64 :: "nat \<Rightarrow> u64" where
  "bigUint64 n = word_of_nat n"

definition uint256FromBig :: "nat \<Rightarrow> u256 \<times> bool" where
  "uint256FromBig n = (word_of_nat n, 2 ^ 256 \<le> n)"

definition fetchMetadataFromContract :: "contract_caller \<Rightarrow> address \<Rightarrow> goerr + metadata" where
  "fetchMetadataFromContract K address =
     bindE (wrapE ''failed to create contract caller'' (ccNew K address)) (\<lambda>_.
     bindE (wrapE ''failed to get tree depth'' (ccTreeDepth K address)) (\<lambda>treeDepth.
     bindE (wrapE ''failed to get tree depth'' (ccZEROVALUE K address)) (\<lambda>emptyValue.
     let (emptyValueUint256, overflow) = uint256FromBig (bigSetBytes emptyValue) in
     if overflow then Inl (ErrNew ''failed to convert empty value to uint256'')
     else
       bindE (wrapE ''failed to get init block height'' (ccInitBlockHeight K address)) (\<lambda>initBlockHeight.
       bindE (wrapE ''failed to get description'' (ccDescription K address)) (\<lambda>description.
       Inr \<lparr>mdAddress = address, mdDepth = ucast (bigUint64 treeDepth), mdEmptyValue = emptyValueUint256,
            mdInitBlockHeight = bigUint64 initBlockHeight, mdDescription = description, mdIndex = 0\<rparr>)))))"

section \<open>The service\<close>

record 'd service_state =
  svcDb :: 'd
  svcRegistry :: "u8 \<rightharpoonup> registry"

definition NewService :: "'d \<Rightarrow> 'd service_state" where
  "NewService kvDB = \<lparr>svcDb = kvDB, svcRegistry = Map.empty\<rparr>"

definition InitializeService :: "'d \<Rightarrow> 'd service_state" where
  "InitializeService kvDB = NewService kvDB"

text \<open>The method \<open>ZKCertificateRegistry\<close>.\<close>

definition Service_Registry ::
    "('d, 'b) db_ops \<Rightarrow> 'd service_state \<Rightarrow> address \<Rightarrow> goerr + registry" where
  "Service_Registry D s address =
     bindE (wrapE ''failed to find registry index'' (FindRegistryIndex D (svcDb s) address)) (\<lambda>index.
     case svcRegistry s index of Some registry \<Rightarrow> Inr registry | None \<Rightarrow> Inl ErrNotFound)"

text \<open>The first part of \<open>InitializeRegistry\<close>: the index of the address, allocated when there is none.\<close>

definition registryIndexFor :: "('d, 'b) db_ops \<Rightarrow> address \<Rightarrow> ('d, u8) go" where
  "registryIndexFor D address d =
     (case FindRegistryIndex D d address of
        Inr registryIndex \<Rightarrow> (Inr registryIndex, d)
      | Inl err \<Rightarrow>
          if \<not> errorsIs err ErrNotFound then (Inl (Wrap ''failed to find registry index'' err), d)
          else wrapG ''failed to apply address to index'' (ApplyAddressToIndex D address) d)"

text \<open>The second part: the metadata, from the storage or from the contract.\<close>

definition writeMetadata ::
    "('d, 'b) db_ops \<Rightarrow> metadata codec_ops \<Rightarrow> metadata \<Rightarrow> ('d, metadata) go" where
  "writeMetadata D C md d =
     (case wrapG ''failed to set metadata'' (SetMetadata D C md) (dbNewBatch D d) of
        (Inl e, _) \<Rightarrow> (Inl e, d)
      | (Inr _, batch) \<Rightarrow>
          (case wrapG ''failed to write batch'' (batchWriteSync D) (d, batch) of
             (Inl e, d', _) \<Rightarrow> (Inl e, d')
           | (Inr _, d', _) \<Rightarrow> (Inr md, d')))"

definition metadataFor ::
    "('d, 'b) db_ops \<Rightarrow> metadata codec_ops \<Rightarrow> contract_caller \<Rightarrow> address \<Rightarrow> u8 \<Rightarrow> ('d, metadata) go" where
  "metadataFor D C K address registryIndex d =
     (case GetMetadata D C d address of
        Inr md \<Rightarrow> (Inr md, d)
      | Inl err \<Rightarrow>
          if \<not> errorsIs err ErrNotFound then (Inl (Wrap ''failed to get registry metadata'' err), d)
          else
            (case wrapE ''failed to fetch metadata from contract'' (fetchMetadataFromContract K address) of
               Inl e \<Rightarrow> (Inl e, d)
             | Inr md \<Rightarrow> writeMetadata D C (md\<lparr>mdIndex := registryIndex\<rparr>) d))"

text \<open>The third part: the registry over the leaf view of its index.\<close>

definition newRegistry :: "('d, 'b) db_ops \<Rightarrow> u256_ops \<Rightarrow> 'd \<Rightarrow> metadata \<Rightarrow> u8 \<Rightarrow> goerr + registry" where
  "newRegistry D U d md registryIndex =
     bindE (wrapE ''failed to create sparse tree''
       (NewSparseTree (mdDepth md) (mdEmptyValue md) (LeafView_GetLeaf D U d registryIndex))) (\<lambda>sparseTree.
     Inr (NewZKCertificateRegistry md sparseTree registryIndex registryIndex 0))"

definition InitializeRegistry ::
    "('d, 'b) db_ops \<Rightarrow> u256_ops \<Rightarrow> metadata codec_ops \<Rightarrow> contract_caller \<Rightarrow> address
     \<Rightarrow> ('d service_state, registry) go" where
  "InitializeRegistry D U C K address s =
     (case registryIndexFor D address (svcDb s) of
        (Inl e, d) \<Rightarrow> (Inl e, s\<lparr>svcDb := d\<rparr>)
      | (Inr registryIndex, d) \<Rightarrow>
          (case metadataFor D C K address registryIndex d of
             (Inl e, d) \<Rightarrow> (Inl e, s\<lparr>svcDb := d\<rparr>)
           | (Inr md, d) \<Rightarrow>
               (case newRegistry D U d md registryIndex of
                  Inl e \<Rightarrow> (Inl e, s\<lparr>svcDb := d\<rparr>)
                | Inr zkCertificateRegistry \<Rightarrow>
                    (Inr zkCertificateRegistry,
                     s\<lparr>svcDb := d, svcRegistry := (svcRegistry s)(registryIndex \<mapsto> zkCertificateRegistry)\<rparr>))))"

text \<open>The registry is a pointer: what a call changes in it is seen by everybody.\<close>

definition putRegistry :: "registry \<Rightarrow> 'd service_state \<Rightarrow> 'd service_state" where
  "putRegistry reg s = s\<lparr>svcRegistry := (svcRegistry s)(regLeafView reg \<mapsto> reg)\<rparr>"

end
