(* ===== verification/Service_Correct.thy ===== *)
theory Service_Correct
  imports Registry_Service
begin

text \<open>
  The service keeps many registries in one database.  The abstract service \<open>S\<close> maps an address to
  the metadata and the abstract registry of that address.  \<open>serviceOk\<close> relates it to the database and
  to the cache; initialisation of a registry, new or after a restart, keeps the relation.
\<close>

section \<open>What a database represents\<close>

type_synonym abs_service = "address \<rightharpoonup> metadata \<times> abs_registry"

text \<open>A registry object made from the metadata, with any correct cache in its tree.\<close>

definition regFits :: "poseidon \<Rightarrow> metadata \<Rightarrow> registry \<Rightarrow> bool" where
  "regFits P md reg \<longleftrightarrow> regMetadata reg = md \<and> regLeafView reg = mdIndex md \<and> regMutex reg = mdIndex md \<and>
     depth (regTree reg) = mdDepth md \<and> emtpyLeaf (regTree reg) = mdEmptyValue md \<and> cacheOk P (regTree reg)"

definition coldRegistry :: "metadata \<Rightarrow> registry" where
  "coldRegistry md = NewZKCertificateRegistry md
     \<lparr>emtpyLeaf = mdEmptyValue md, depth = mdDepth md, emptyBranchLevels = None,
      storageLeafGetter = (\<lambda>l i. Inl ErrNotFound)\<rparr> (mdIndex md) (mdIndex md) 0"

definition metadataOk :: "nat \<Rightarrow> metadata \<Rightarrow> bool" where
  "metadataOk p md \<longleftrightarrow> 1 \<le> unat (mdDepth md) \<and> unat (mdDepth md) \<le> 32 \<and> unat (mdEmptyValue md) < p"

definition freshAbs :: "metadata \<Rightarrow> abs_registry" where
  "freshAbs md = (\<lambda>_. mdEmptyValue md, Map.empty)"

definition serviceOk ::
    "poseidon \<Rightarrow> nat \<Rightarrow> u256_ops \<Rightarrow> metadata codec_ops \<Rightarrow> kv \<Rightarrow> (u8 \<rightharpoonup> registry) \<Rightarrow> address list \<Rightarrow> abs_service \<Rightarrow> bool" where
  "serviceOk P p U C m cache addrs S \<longleftrightarrow>
     indexed m addrs \<and> length addrs \<le> 256 \<and> dom S \<subseteq> set addrs \<and>
     (\<forall>a. addressOk a \<longrightarrow> kvRead m (makeZKCertificateRegistryKey a) =
        (case S a of None \<Rightarrow> [] | Some (md, _) \<Rightarrow> encoded C md)) \<and>
     (\<forall>a md A. S a = Some (md, A) \<longrightarrow> storedIndex m a = Some (mdIndex md) \<and>
        represents P p U (coldRegistry md) m A) \<and>
     (\<forall>r. (\<forall>a md A. S a = Some (md, A) \<longrightarrow> mdIndex md \<noteq> r) \<longrightarrow>
        (\<forall>k. registryKey U r k \<longrightarrow> m k = None)) \<and>
     (\<forall>r reg. cache r = Some reg \<longrightarrow> mdIndex (regMetadata reg) = r \<and> regFits P (regMetadata reg) reg \<and>
        (\<exists>a A. S a = Some (regMetadata reg, A)))"

lemma serviceOkD:
  assumes "serviceOk P p U C m cache addrs S"
  shows "indexed m addrs" "length addrs \<le> 256" "S a = Some (md, A) \<Longrightarrow> a \<in> set addrs"
    "addressOk a \<Longrightarrow> kvRead m (makeZKCertificateRegistryKey a) =
       (case S a of None \<Rightarrow> [] | Some (md, _) \<Rightarrow> encoded C md)"
    "S a = Some (md, A) \<Longrightarrow> storedIndex m a = Some (mdIndex md)"
    "S a = Some (md, A) \<Longrightarrow> represents P p U (coldRegistry md) m A"
    "(\<And>a md A. S a = Some (md, A) \<Longrightarrow> mdIndex md \<noteq> r) \<Longrightarrow> registryKey U r k \<Longrightarrow> m k = None"
    "cache r = Some reg \<Longrightarrow> mdIndex (regMetadata reg) = r"
    "cache r = Some reg \<Longrightarrow> regFits P (regMetadata reg) reg"
    "cache r = Some reg \<Longrightarrow> \<exists>a A. S a = Some (regMetadata reg, A)"
    "a \<in> set addrs \<Longrightarrow> addressOk a"
  using assms by (unfold serviceOk_def indexed_def) (blast+)

lemma serviceOkI:
  assumes "indexed m addrs" "length addrs \<le> 256" "\<And>a md A. S a = Some (md, A) \<Longrightarrow> a \<in> set addrs"
    "\<And>a. addressOk a \<Longrightarrow> kvRead m (makeZKCertificateRegistryKey a) =
       (case S a of None \<Rightarrow> [] | Some (md, _) \<Rightarrow> encoded C md)"
    "\<And>a md A. S a = Some (md, A) \<Longrightarrow> storedIndex m a = Some (mdIndex md)"
    "\<And>a md A. S a = Some (md, A) \<Longrightarrow> represents P p U (coldRegistry md) m A"
    "\<And>r k. (\<And>a md A. S a = Some (md, A) \<Longrightarrow> mdIndex md \<noteq> r) \<Longrightarrow> registryKey U r k \<Longrightarrow> m k = None"
    "\<And>r reg. cache r = Some reg \<Longrightarrow> mdIndex (regMetadata reg) = r"
    "\<And>r reg. cache r = Some reg \<Longrightarrow> regFits P (regMetadata reg) reg"
    "\<And>r reg. cache r = Some reg \<Longrightarrow> \<exists>a A. S a = Some (regMetadata reg, A)"
  shows "serviceOk P p U C m cache addrs S"
proof -
  have "dom S \<subseteq> set addrs" using assms(3) by (auto simp: dom_def simp del: split_paired_Ex)
  then show ?thesis unfolding serviceOk_def by (intro conjI allI impI) (blast intro: assms)+
qed

lemma regFits_cold: "regFits P md (coldRegistry md)"
  by (simp add: regFits_def coldRegistry_def NewZKCertificateRegistry_def cacheOk_def)

lemma represents_regFits:
  assumes "regFits P md reg" "regFits P md reg'"
  shows "represents P p U reg m A \<longleftrightarrow> represents P p U reg' m A"
proof -
  have "storageView P (kvTree U m r (regTree reg)) = storageView P (kvTree U m r (regTree reg'))" for r
    using assms by (intro ext) (simp add: storageView_def regFits_def split: sum.split)
  then show ?thesis
    using assms by (cases A) (auto simp: represents_def wfTree_def regFits_def)
qed

lemma regFits_sameRegistry:
  assumes "regFits P md reg" "sameRegistry reg reg'" "represents P p U reg' m A"
  shows "regFits P md reg'"
  using assms by (cases A) (auto simp: regFits_def sameRegistry_def represents_def wfTree_def)

section \<open>Keys of a registry\<close>

lemma represents_frame:
  assumes "\<And>k. registryKey U (regLeafView reg) k \<Longrightarrow> m' k = m k"
  shows "represents P p U reg m' A \<longleftrightarrow> represents P p U reg m A"
proof -
  have "kvLeaf U m' (regLeafView reg) = kvLeaf U m (regLeafView reg)"
    using assms by (intro ext) (auto simp: kvLeaf_def registryKey_def)
  then have "kvTree U m' (regLeafView reg) = kvTree U m (regLeafView reg)"
    by (intro ext) (simp add: kvTree_def)
  moreover have "m' (makeLeafIndexKey U (regLeafView reg) v) = m (makeLeafIndexKey U (regLeafView reg) v)" for v
    using assms by (auto simp: registryKey_def)
  ultimately show ?thesis by (cases A) (simp add: represents_def)
qed

lemma represents_fresh:
  assumes "metadataOk p md" "\<And>k. registryKey U (mdIndex md) k \<Longrightarrow> m k = None"
  shows "represents P p U (coldRegistry md) m (freshAbs md)"
proof -
  let ?t = "kvTree U m (mdIndex md) (regTree (coldRegistry md))"
  have g: "storageLeafGetter ?t l i = Inl ErrNotFound" for l i
    using assms(2) by (auto simp: kvLeaf_def registryKey_def)
  have "wfTree P p ?t"
    using g by (rule empty_wfTree)
      (use assms(1) in \<open>simp_all add: coldRegistry_def NewZKCertificateRegistry_def kvTree_def metadataOk_def\<close>)
  moreover have "treeOf P n (storageView P ?t) (\<lambda>_. mdEmptyValue md)" for n
    using empty_treeOf [of ?t P n, OF g] by (simp add: coldRegistry_def NewZKCertificateRegistry_def)
  moreover have "m (makeLeafIndexKey U (mdIndex md) v) = None" for v
    using assms(2) by (auto simp: registryKey_def)
  ultimately show ?thesis
    by (simp add: represents_def freshAbs_def coldRegistry_def NewZKCertificateRegistry_def)
qed

context u256_codec
begin

lemma registryKey_first: "registryKey U r k \<Longrightarrow> \<exists>x xs. k = x # r # xs \<and> x \<in> {MerkleTreeLeafKeyPrefix, MerkleTreeLeafIndexPrefix}"
  using u256_codec_axioms by (auto simp: registryKey_def key_simps)

lemma registryKey_other:
  "registryKey U r k \<Longrightarrow> registryKey U r' k \<Longrightarrow> r = r'"
  "registryKey U r k \<Longrightarrow> addressOk a \<Longrightarrow> k \<noteq> makeRegistryIndexKey a"
  "registryKey U r k \<Longrightarrow> k \<noteq> makeRegistryIndexCounterKey"
  "registryKey U r k \<Longrightarrow> addressOk a \<Longrightarrow> k \<noteq> makeZKCertificateRegistryKey a"
  "registryKey U r k \<Longrightarrow> k \<noteq> makeJobKey j"
  by (auto dest!: registryKey_first simp: key_simps prefix_defs makeRegistryIndexCounterKey_def makeJobKey_def)

end

lemma metadataKey_simps [simp]:
  "addressOk a \<Longrightarrow> makeZKCertificateRegistryKey a \<noteq> []"
  "addressOk a \<Longrightarrow> addressOk b \<Longrightarrow> makeZKCertificateRegistryKey a \<noteq> makeRegistryIndexKey b"
  "addressOk a \<Longrightarrow> makeZKCertificateRegistryKey a \<noteq> makeRegistryIndexCounterKey"
  "addressOk a \<Longrightarrow> makeRegistryIndexCounterKey \<noteq> makeZKCertificateRegistryKey a"
  "addressOk a \<Longrightarrow> makeZKCertificateRegistryKey a \<noteq> makeJobKey j"
  "addressOk a \<Longrightarrow> makeRegistryIndexKey a \<noteq> makeJobKey j" "makeRegistryIndexCounterKey \<noteq> makeJobKey j"
  "addressOk a \<Longrightarrow> addressOk b \<Longrightarrow> makeRegistryIndexKey b \<noteq> makeZKCertificateRegistryKey a"
  "addressOk a \<Longrightarrow> addressOk b \<Longrightarrow>
     makeZKCertificateRegistryKey a = makeZKCertificateRegistryKey b \<longleftrightarrow> a = b"
  by (auto simp: key_simps makeRegistryIndexCounterKey_def prefix_defs makeJobKey_def)

section \<open>Initialisation\<close>

locale service_env = registry_env P p D content pending isOpen U + msgpack_codec C
  for P p and D :: "('d, 'b) db_ops" and content pending isOpen U and C :: "metadata codec_ops"
begin

lemma GetMetadata_eq:
  assumes "serviceOk P p U C (content d) cache addrs S" "addressOk a"
  shows "GetMetadata D C d a = (case S a of None \<Rightarrow> Inl ErrNotFound | Some (md, A) \<Rightarrow> Inr md)"
  using assms by (auto simp: GetMetadata_def get_ok serviceOk_def decodeMetadata_def split: option.splits)

text \<open>The relation does not look at keys other than those of the service.\<close>

lemma serviceOk_frame:
  assumes ok: "serviceOk P p U C m cache addrs S"
    and "\<And>r k. registryKey U r k \<Longrightarrow> m' k = m k"
    and "\<And>a. addressOk a \<Longrightarrow> m' (makeZKCertificateRegistryKey a) = m (makeZKCertificateRegistryKey a)"
    and ix: "indexed m' addrs'" "length addrs' \<le> 256" "set addrs \<subseteq> set addrs'"
    and "\<And>a. a \<in> set addrs \<Longrightarrow> storedIndex m' a = storedIndex m a"
  shows "serviceOk P p U C m' cache addrs' S"
  using ix(1,2)
proof (rule serviceOkI)
  fix a md A
  assume S: "S a = Some (md, A)"
  show "a \<in> set addrs'" using serviceOkD(3) [OF ok S] ix(3) by blast
  show "storedIndex m' a = Some (mdIndex md)"
    using assms(7) [OF serviceOkD(3) [OF ok S]] serviceOkD(5) [OF ok S] by simp
  show "represents P p U (coldRegistry md) m' A"
    using represents_frame [of U "coldRegistry md" m' m, OF assms(2)] serviceOkD(6) [OF ok S] by simp
next
  show "kvRead m' (makeZKCertificateRegistryKey a) = (case S a of None \<Rightarrow> [] | Some (md, _) \<Rightarrow> encoded C md)"
    if "addressOk a" for a
    using serviceOkD(4) [OF ok that] assms(3) [OF that] by (simp add: kvRead_def)
next
  show "m' k = None" if "\<And>a md A. S a = Some (md, A) \<Longrightarrow> mdIndex md \<noteq> r" "registryKey U r k" for r k
    using serviceOkD(7) [OF ok that] assms(2) [OF that(2)] by simp
qed (use serviceOkD(8-10) [OF ok] in blast)+

lemma registryIndexFor_ok:
  assumes ok: "serviceOk P p U C (content d) cache addrs S" and a: "addressOk a"
    and room: "length (register a addrs) \<le> 256"
  shows "runs (registryIndexFor D a) d (\<lambda>i d'. serviceOk P p U C (content d') cache (register a addrs) S \<and>
    storedIndex (content d') a = Some i)"
proof (cases "storedIndex (content d) a")
  case (Some i)
  then have "a \<in> set addrs" using ok a by (auto simp: serviceOk_def indexed_def)
  with Some ok a show ?thesis
    by (auto simp: runs_def registryIndexFor_def FindRegistryIndex_eq register_def)
next
  case None
  have ix: "indexed (content d) addrs" using ok by (simp add: serviceOk_def)
  obtain i d' where run: "ApplyAddressToIndex D a d = (Inr i, d')"
      and d': "indexed (content d') (register a addrs)" "storedIndex (content d') a = Some i"
        "\<And>k. k \<noteq> makeRegistryIndexKey a \<Longrightarrow> k \<noteq> makeRegistryIndexCounterKey \<Longrightarrow> content d' k = content d k"
    using ApplyAddressToIndex_ok [OF a ix] by (auto simp: runs_def)
  have new: "a \<notin> set addrs"
    using None ix by (auto simp: indexed_def in_set_conv_nth)
  have "serviceOk P p U C (content d') cache (register a addrs) S"
    using ok
  proof (rule serviceOk_frame)
    show "storedIndex (content d') b = storedIndex (content d) b" if "b \<in> set addrs" for b
    proof -
      have "addressOk b" "b \<noteq> a" using that new ix by (auto simp: indexed_def)
      then show ?thesis using d'(3) [of "makeRegistryIndexKey b"] a by (simp add: storedIndex_def)
    qed
  qed (use d' a room registryKey_other(2,3) in \<open>auto simp: register_def\<close>)
  then show ?thesis
    using run d'(2) None a by (simp add: runs_def registryIndexFor_def FindRegistryIndex_eq)
qed

text \<open>Storing the metadata of a registry with no nodes adds the empty registry.\<close>

lemma serviceOk_add:
  assumes ok: "serviceOk P p U C m cache addrs S" and a: "a \<in> set addrs" and new: "S a = None"
    and md: "metadataOk p md" "storedIndex m a = Some (mdIndex md)"
    and m': "m' = m(makeZKCertificateRegistryKey a \<mapsto> encoded C md)"
  shows "serviceOk P p U C m' cache addrs (S(a \<mapsto> (md, freshAbs md)))"
proof -
  have aok: "addressOk a" using serviceOkD(11) [OF ok a] .
  have fresh: "mdIndex md' \<noteq> mdIndex md" if b: "S b = Some (md', A)" for b md' A
  proof
    assume "mdIndex md' = mdIndex md"
    then have "b = a"
      using indexed_distinct [OF serviceOkD(1,2) [OF ok] serviceOkD(3) [OF ok b] a]
        serviceOkD(5) [OF ok b] md(2) by simp
    with b new show False by simp
  qed
  have keep: "m' k = m k" if "registryKey U r k" for r k
    using that aok registryKey_other(4) by (auto simp: m')
  have none: "m' k = None" if "registryKey U (mdIndex md) k" for k
    using keep [OF that] serviceOkD(7) [OF ok fresh that] by simp
  have st: "storedIndex m' b = storedIndex m b" if "addressOk b" for b
    using that aok by (simp add: m' storedIndex_def)
  show ?thesis
  proof (rule serviceOkI)
    show "indexed m' addrs"
      using serviceOkD(1) [OF ok] by (rule indexed_cong) (use aok in \<open>simp_all add: m'\<close>)
    show "kvRead m' (makeZKCertificateRegistryKey b) =
        (case (S(a \<mapsto> (md, freshAbs md))) b of None \<Rightarrow> [] | Some (md, _) \<Rightarrow> encoded C md)" if "addressOk b" for b
      using serviceOkD(4) [OF ok that] aok that by (simp add: m' kvRead_def)
  next
    fix b md' A
    assume b: "(S(a \<mapsto> (md, freshAbs md))) b = Some (md', A)"
    have cases: "b = a \<and> md' = md \<and> A = freshAbs md \<or> S b = Some (md', A)"
      using b by (auto split: if_splits)
    then show "b \<in> set addrs" using a serviceOkD(3) [OF ok] by blast
    then show "storedIndex m' b = Some (mdIndex md')"
      using cases st serviceOkD(11) [OF ok] md(2) serviceOkD(5) [OF ok] by metis
    show "represents P p U (coldRegistry md') m' A"
      using cases
    proof
      assume "b = a \<and> md' = md \<and> A = freshAbs md"
      then show ?thesis using represents_fresh [of p md U m', OF md(1)] none by blast
    next
      assume "S b = Some (md', A)"
      then show ?thesis
        using represents_frame [of U "coldRegistry md'" m' m] keep serviceOkD(6) [OF ok] by blast
    qed
  next
    fix r k
    assume r: "\<And>b md' A. (S(a \<mapsto> (md, freshAbs md))) b = Some (md', A) \<Longrightarrow> mdIndex md' \<noteq> r"
      and k: "registryKey U r k"
    have "m k = None"
      using ok _ k by (rule serviceOkD(7)) (use r new in \<open>metis fun_upd_other option.distinct(1)\<close>)
    then show "m' k = None" using keep [OF k] by simp
  next
    show "\<exists>b A. (S(a \<mapsto> (md, freshAbs md))) b = Some (regMetadata reg, A)" if "cache r = Some reg" for r reg
      using serviceOkD(10) [OF ok that] new by (metis fun_upd_other option.distinct(1))
  qed (use serviceOkD(2,8,9) [OF ok] in blast)+
qed

lemma writeMetadata_ok:
  assumes "addressOk (mdAddress md)"
  shows "runs (writeMetadata D C md) d (\<lambda>r d'. r = md \<and>
    content d' = (content d)(makeZKCertificateRegistryKey (mdAddress md) \<mapsto> encoded C md))"
proof -
  let ?k = "makeZKCertificateRegistryKey (mdAddress md)"
  obtain b where b: "batchSet D ?k (encoded C md) (dbNewBatch D d) = (Inr (), b)" "isOpen b"
      "pending b = [?k \<mapsto> Some (encoded C md)]"
    using bset_ok [of "dbNewBatch D d" ?k "encoded C md"] new_ok assms by auto
  obtain d' b' where w: "batchWriteSync D (d, b) = (Inr (), d', b')"
      "content d' = applyOverlay (pending b) (content d)"
    using write_ok [OF b(2)] by blast
  have "content d' = (content d)(?k \<mapsto> encoded C md)"
    using w(2) b(3) by (auto simp: applyOverlay_def)
  then show ?thesis
    using b(1) w(1) by (simp add: runs_def writeMetadata_def SetMetadata_def encodeMetadata_def encode_eq)
qed

end

definition absInit :: "address \<Rightarrow> metadata \<Rightarrow> abs_service \<Rightarrow> abs_service" where
  "absInit a md S = (case S a of None \<Rightarrow> S(a \<mapsto> (md, freshAbs md)) | Some _ \<Rightarrow> S)"

text \<open>The contract of a registry describes a tree the service can hold.\<close>

definition contractOk :: "nat \<Rightarrow> contract_caller \<Rightarrow> address \<Rightarrow> bool" where
  "contractOk p K a \<longleftrightarrow> (\<forall>md. fetchMetadataFromContract K a = Inr md \<longrightarrow> metadataOk p md)"

lemma fetchMetadata_address:
  "fetchMetadataFromContract K a = Inr md \<Longrightarrow> mdAddress md = a"
  by (auto simp: fetchMetadataFromContract_def bindE_Inr_iff Let_def uint256FromBig_def split: if_splits)

context service_env
begin

lemma metadataFor_ok:
  assumes ok: "serviceOk P p U C (content d) cache addrs S" and a: "a \<in> set addrs"
    and i: "storedIndex (content d) a = Some i" and K: "contractOk p K a"
  shows "case metadataFor D C K a i d of
      (Inl e, d') \<Rightarrow> d' = d \<and> S a = None \<and> (\<exists>e'. fetchMetadataFromContract K a = Inl e')
    | (Inr md, d') \<Rightarrow> serviceOk P p U C (content d') cache addrs (absInit a md S) \<and> mdIndex md = i \<and>
        storedIndex (content d') a = Some i \<and> (\<exists>A. absInit a md S a = Some (md, A)) \<and>
        (S a = None \<longrightarrow> map_sum id (mdIndex_update (\<lambda>_. i)) (fetchMetadataFromContract K a) = Inr md)"
proof (cases "S a")
  case (Some x)
  then obtain md A where S: "S a = Some (md, A)" by (cases x) auto
  then have "metadataFor D C K a i d = (Inr md, d)"
    using GetMetadata_eq [OF ok serviceOkD(11) [OF ok a]] by (simp add: metadataFor_def)
  then show ?thesis
    using S ok i serviceOkD(5) [OF ok S] by (simp add: absInit_def)
next
  case None
  have aok: "addressOk a" using serviceOkD(11) [OF ok a] .
  have get: "GetMetadata D C d a = Inl ErrNotFound"
    using GetMetadata_eq [OF ok aok] None by simp
  show ?thesis
  proof (cases "fetchMetadataFromContract K a")
    case (Inl e)
    then show ?thesis using get None by (simp add: metadataFor_def)
  next
    case (Inr md0)
    define md where "md = md0\<lparr>mdIndex := i\<rparr>"
    have md: "metadataOk p md" "mdAddress md = a" "mdIndex md = i"
      using Inr K fetchMetadata_address [OF Inr] by (auto simp: md_def contractOk_def metadataOk_def)
    obtain d' where d': "writeMetadata D C md d = (Inr md, d')"
        "content d' = (content d)(makeZKCertificateRegistryKey a \<mapsto> encoded C md)"
      using writeMetadata_ok [of md d] md(2) aok by (auto simp: runs_def)
    have "serviceOk P p U C (content d') cache addrs (S(a \<mapsto> (md, freshAbs md)))"
      using ok a None md(1) _ d'(2) by (rule serviceOk_add) (simp add: i md(3))
    then show ?thesis
      using get Inr None d' md(3) aok i
      by (simp add: metadataFor_def md_def [symmetric] absInit_def storedIndex_def)
  qed
qed

lemma serviceOk_cache:
  assumes ok: "serviceOk P p U C m cache addrs S" and S: "S a = Some (md, A)" and reg: "regFits P md reg"
  shows "serviceOk P p U C m (cache(mdIndex md \<mapsto> reg)) addrs S"
proof (rule serviceOkI)
  fix r reg'
  assume "(cache(mdIndex md \<mapsto> reg)) r = Some reg'"
  then have c: "r = mdIndex md \<and> reg' = reg \<or> cache r = Some reg'" by (auto split: if_splits)
  have md: "regMetadata reg = md" using reg by (simp add: regFits_def)
  show "mdIndex (regMetadata reg') = r" using c md serviceOkD(8) [OF ok] by auto
  show "regFits P (regMetadata reg') reg'" using c md reg serviceOkD(9) [OF ok] by auto
  show "\<exists>a A. S a = Some (regMetadata reg', A)" using c md S serviceOkD(10) [OF ok] by blast
qed (use serviceOkD(1-7) [OF ok] in blast)+

lemma InitializeRegistry_ok:
  assumes ok: "serviceOk P p U C (content (svcDb s)) (svcRegistry s) addrs S" and a: "addressOk a"
    and room: "length (register a addrs) \<le> 256" and K: "contractOk p K a"
  shows "case InitializeRegistry D U C K a s of
      (Inl e, s') \<Rightarrow> serviceOk P p U C (content (svcDb s')) (svcRegistry s') (register a addrs) S \<and>
        svcRegistry s' = svcRegistry s \<and> S a = None \<and> (\<exists>e'. fetchMetadataFromContract K a = Inl e')
    | (Inr reg, s') \<Rightarrow> serviceOk P p U C (content (svcDb s')) (svcRegistry s') (register a addrs)
          (absInit a (regMetadata reg) S) \<and> Service_Registry D s' a = Inr reg \<and>
        (S a = None \<longrightarrow> map_sum id (mdIndex_update (\<lambda>_. mdIndex (regMetadata reg))) (fetchMetadataFromContract K a) =
          Inr (regMetadata reg)) \<and>
        (\<exists>A. absInit a (regMetadata reg) S a = Some (regMetadata reg, A) \<and> represents P p U reg (content (svcDb s')) A)"
proof -
  obtain i d1 where r1: "registryIndexFor D a (svcDb s) = (Inr i, d1)"
      and ok1: "serviceOk P p U C (content d1) (svcRegistry s) (register a addrs) S"
      and i1: "storedIndex (content d1) a = Some i"
    using registryIndexFor_ok [OF ok a room] by (auto simp: runs_def)
  have mem: "a \<in> set (register a addrs)" by (simp add: register_def)
  show ?thesis
  proof (cases "metadataFor D C K a i d1")
    case (Pair r d2)
    note m = metadataFor_ok [OF ok1 mem i1 K, unfolded Pair]
    show ?thesis
    proof (cases r)
      case (Inl e)
      then show ?thesis using m r1 Pair ok1 by (simp add: InitializeRegistry_def)
    next
      case (Inr md)
      let ?S = "absInit a md S"
      obtain A where ok2: "serviceOk P p U C (content d2) (svcRegistry s) (register a addrs) ?S"
          and md: "mdIndex md = i" "storedIndex (content d2) a = Some i" "?S a = Some (md, A)"
          and fetched: "S a = None \<longrightarrow> map_sum id (mdIndex_update (\<lambda>_. i)) (fetchMetadataFromContract K a) = Inr md"
        using m Inr by auto
      define reg where "reg = NewZKCertificateRegistry md
        \<lparr>emtpyLeaf = mdEmptyValue md, depth = mdDepth md, emptyBranchLevels = None,
         storageLeafGetter = LeafView_GetLeaf D U d2 i\<rparr> i i 0"
      have new: "newRegistry D U d2 md i = Inr reg"
        by (simp add: newRegistry_def NewSparseTree_def reg_def)
      have fit: "regFits P md reg"
        by (simp add: reg_def regFits_def NewZKCertificateRegistry_def cacheOk_def md(1))
      have run: "InitializeRegistry D U C K a s =
          (Inr reg, s\<lparr>svcDb := d2, svcRegistry := (svcRegistry s)(i \<mapsto> reg)\<rparr>)"
        using r1 Pair Inr new by (simp add: InitializeRegistry_def)
      have rep: "represents P p U reg (content d2) A"
        using serviceOkD(6) [OF ok2 md(3)] represents_regFits [OF fit regFits_cold] by blast
      have "regMetadata reg = md" using fit by (simp add: regFits_def)
      then show ?thesis
        using run rep md fetched serviceOk_cache [OF ok2 md(3) fit] a
        by (simp add: Service_Registry_def FindRegistryIndex_eq)
    qed
  qed
qed

end

end
