(* ===== verification/Query_Server.thy ===== *)
theory Query_Server
  imports Service_Correct Simulation
begin

text \<open>
  The three handlers of the query server (\<open>internal/query/proof_handler.go\<close>,
  \<open>get_empty_index_handler.go\<close>, \<open>batch_proofs_handler.go\<close>).  The messages are the structs the
  generated Go code gives them.  \<open>common.IsHexAddress\<close> and \<open>common.HexToAddress\<close> belong to
  \<open>go-ethereum\<close> and are the record \<open>hex_ops\<close>.

  A handler works on the registry that the service has in its cache; the cache of empty branches
  inside the registry's tree is all it changes.  The database may change between the lookup of an
  index and the read lock: \<open>d1\<close> is the database under the lock.
\<close>

section \<open>Messages and status\<close>

record go_proof =
  gpLeaf :: string
  gpPath :: "string list"
  gpIndex :: u32
  gpRoot :: string

record go_batch_operation =
  gboLeafHash :: string
  gboIsAddition :: bool

record go_batch_proof =
  gbpIndex :: u32
  gbpPath :: "string list"

record go_batch_response =
  gbrInitialRoot :: string
  gbrProofs :: "go_batch_proof list"

datatype grpc_code = InvalidArgument | NotFound | FailedPrecondition | Internal

text \<open>A status of the call, or a panic that no handler recovers from.\<close>

datatype grpc_error = Status grpc_code string | Crash goerr

fun panicked :: "goerr \<Rightarrow> bool" where
  "panicked (Panic m) = True"
| "panicked (Wrap m e) = panicked e"
| "panicked _ = False"

record hex_ops =
  isHexAddress :: "string \<Rightarrow> bool"
  hexToAddress :: "string \<Rightarrow> address"

section \<open>Handlers\<close>

text \<open>The checks that the three handlers share: the address, the registry, and the progress flag.\<close>

definition findRegistry ::
    "('d, 'b) db_ops \<Rightarrow> hex_ops \<Rightarrow> string \<Rightarrow> 'd service_state \<Rightarrow> string \<Rightarrow> grpc_error + registry" where
  "findRegistry D H notFound s reqRegistry =
     (if \<not> isHexAddress H reqRegistry
      then Inl (Status InvalidArgument ''invalid registry address, must be a hex string'')
      else case Service_Registry D s (hexToAddress H reqRegistry) of
             Inl err \<Rightarrow> Inl (Status NotFound notFound)
           | Inr registry \<Rightarrow>
               if \<not> IsOnHead (regProgress registry)
               then Inl (Status FailedPrecondition ''registry indexer is not on head, try again later'')
               else Inr registry)"

definition Server_Proof ::
    "poseidon \<Rightarrow> ('d, 'b) db_ops \<Rightarrow> u256_ops \<Rightarrow> hex_ops \<Rightarrow> 'd \<Rightarrow> string \<Rightarrow> string
     \<Rightarrow> 'd service_state \<times> ctx \<Rightarrow> (grpc_error + go_proof) \<times> 'd service_state \<times> ctx" where
  "Server_Proof P D U H d1 reqRegistry reqLeaf = (\<lambda>(s, ctx).
     case findRegistry D H ''registry not found'' s reqRegistry of
       Inl st \<Rightarrow> (Inl st, s, ctx)
     | Inr registry \<Rightarrow>
         (case uFromDecimal U reqLeaf of
            Inl err \<Rightarrow> (Inl (Status InvalidArgument ''invalid leaf value, must be a decimal number''), s, ctx)
          | Inr leafVal \<Rightarrow>
              (case Registry_CreateProof P D U (svcDb s) d1 leafVal (registry, ctx) of
                 (Inl err, registry, ctx) \<Rightarrow>
                   ((if panicked err then Inl (Crash err)
                     else if errorsIs err ErrNotFound then Inl (Status NotFound ''leaf not found'')
                     else Inl (Status Internal ''failed to create proof for leaf'')),
                    putRegistry registry s, ctx)
               | (Inr proof, registry, ctx) \<Rightarrow>
                   (Inr \<lparr>gpLeaf = reqLeaf, gpPath = map (uString U) (Path proof), gpIndex = Index proof,
                         gpRoot = uString U (Root proof)\<rparr>,
                    putRegistry registry s, ctx))))"

definition Server_GetEmptyLeafProof ::
    "poseidon \<Rightarrow> ('d, 'b) db_ops \<Rightarrow> u256_ops \<Rightarrow> hex_ops \<Rightarrow> ('g \<Rightarrow> u64 \<times> 'g) \<Rightarrow> 'd \<Rightarrow> string
     \<Rightarrow> 'd service_state \<times> ctx \<times> 'g \<Rightarrow> (grpc_error + go_proof) \<times> 'd service_state \<times> ctx \<times> 'g" where
  "Server_GetEmptyLeafProof P D U H rand d1 reqRegistry = (\<lambda>(s, ctx, g).
     case findRegistry D H ''tree not found'' s reqRegistry of
       Inl st \<Rightarrow> (Inl st, s, ctx, g)
     | Inr registry \<Rightarrow>
         (case GetRandomEmptyLeafProof P D U rand (svcDb s) d1 (registry, ctx, g) of
            (Inl err, registry, ctx, g) \<Rightarrow>
              ((if panicked err then Inl (Crash err)
                else Inl (Status Internal ''failed to get empty leaf proof, try again'')),
               putRegistry registry s, ctx, g)
          | (Inr proof, registry, ctx, g) \<Rightarrow>
              (Inr \<lparr>gpLeaf = uString U (Leaf proof), gpPath = map (uString U) (Path proof),
                    gpIndex = Index proof, gpRoot = uString U (Root proof)\<rparr>,
               putRegistry registry s, ctx, g)))"

text \<open>Validation and conversion of the operations of a batch request.\<close>

fun convertOperations :: "u256_ops \<Rightarrow> go_batch_operation list \<Rightarrow> grpc_error + leaf_operation list" where
  "convertOperations U [] = Inr []"
| "convertOperations U (op # ops) =
     (case uFromDecimal U (gboLeafHash op) of
        Inl err \<Rightarrow> Inl (Status InvalidArgument ''invalid leaf hash at index, must be a decimal number'')
      | Inr leafHash \<Rightarrow>
          bindE (convertOperations U ops) (\<lambda>operations.
          Inr (\<lparr>opLeaf = \<lparr>leafIndex = 0, leafValue = leafHash\<rparr>,
                opOp = (if gboIsAddition op then OperationAddition else OperationRevocation)\<rparr> # operations)))"

definition Server_GetBatchProofs ::
    "poseidon \<Rightarrow> ('d, 'b) db_ops \<Rightarrow> u256_ops \<Rightarrow> hex_ops \<Rightarrow> ('g \<Rightarrow> u64 \<times> 'g) \<Rightarrow> string \<Rightarrow> go_batch_operation list
     \<Rightarrow> 'd service_state \<times> ctx \<times> 'g \<Rightarrow> (grpc_error + go_batch_response) \<times> 'd service_state \<times> ctx \<times> 'g" where
  "Server_GetBatchProofs P D U H rand reqRegistry reqOperations = (\<lambda>(s, ctx, g).
     case findRegistry D H ''registry not found'' s reqRegistry of
       Inl st \<Rightarrow> (Inl st, s, ctx, g)
     | Inr registry \<Rightarrow>
         if length reqOperations = 0
         then (Inl (Status InvalidArgument ''operations cannot be empty''), s, ctx, g)
         else
           (case convertOperations U reqOperations of
              Inl st \<Rightarrow> (Inl st, s, ctx, g)
            | Inr operations \<Rightarrow>
                (let w = \<lparr>w_tree = liveTree D U (svcDb s) registry,
                          w_batch = NewSimulationBatch (\<lambda>l i. Inl ErrNotFound), w_ctx = ctx, w_rng = g\<rparr>
                 in case SimulateBatchOperations P rand operations w of
                      (Inl err, w) \<Rightarrow>
                        ((if panicked err then Inl (Crash err)
                          else Inl (Status Internal ''failed to simulate batch operations'')),
                         putRegistry (registry\<lparr>regTree := w_tree w\<rparr>) s, w_ctx w, w_rng w)
                    | (Inr (initialRoot, proofs), w) \<Rightarrow>
                        (Inr \<lparr>gbrInitialRoot = uString U initialRoot,
                              gbrProofs = map (\<lambda>pr. \<lparr>gbpIndex = bprIndex pr, gbpPath = map (uString U) (bprPath pr)\<rparr>) proofs\<rparr>,
                         putRegistry (registry\<lparr>regTree := w_tree w\<rparr>) s, w_ctx w, w_rng w))))"

end
