(* ===== verification/Server_Correct.thy ===== *)
theory Server_Correct
  imports Query_Server Simulation_Total
begin

text \<open>
  What the handlers answer, in terms of the abstract service: proofs verify against the root of the
  registry's tree, and every failure is one of the statuses the handlers document.
\<close>

section \<open>Finding the registry\<close>

context service_env
begin

lemma findRegistry_ok:
  assumes "serviceOk P p U C (content (svcDb s)) (svcRegistry s) addrs S"
    and "S (hexToAddress H r) = Some (md, A)" and "isHexAddress H r"
    and "svcRegistry s (mdIndex md) = Some reg"
  shows "findRegistry D H nf s r = (if IsOnHead (regProgress reg) then Inr reg
    else Inl (Status FailedPrecondition ''registry indexer is not on head, try again later''))"
proof -
  have "addressOk (hexToAddress H r)"
    using serviceOkD(11) [OF assms(1) serviceOkD(3) [OF assms(1,2)]] .
  then have "Service_Registry D s (hexToAddress H r) = Inr reg"
    using serviceOkD(5) [OF assms(1,2)] assms(4) by (simp add: Service_Registry_def FindRegistryIndex_eq)
  then show ?thesis using assms(3) by (simp add: findRegistry_def)
qed

text \<open>Distinct registries have distinct indexes, so the cached registry is the one of the address.\<close>

lemma cached_fits:
  assumes ok: "serviceOk P p U C m cache addrs S" and S: "S a = Some (md, A)"
    and reg: "cache (mdIndex md) = Some reg"
  shows "regFits P md reg"
proof -
  obtain b B where b: "S b = Some (regMetadata reg, B)" using serviceOkD(10) [OF ok reg] by blast
  have "storedIndex m b = storedIndex m a"
    using serviceOkD(5) [OF ok b] serviceOkD(5) [OF ok S] serviceOkD(8) [OF ok reg] by simp
  then have "b = a"
    using indexed_distinct [OF serviceOkD(1,2) [OF ok] serviceOkD(3) [OF ok b] serviceOkD(3) [OF ok S]] by simp
  then show ?thesis using b S serviceOkD(9) [OF ok reg] by simp
qed

lemma cached_represents:
  assumes "serviceOk P p U C m cache addrs S" "S a = Some (md, A)" "cache (mdIndex md) = Some reg"
  shows "represents P p U reg m A"
  using serviceOkD(6) [OF assms(1,2)] represents_regFits [OF cached_fits [OF assms] regFits_cold] by blast

lemma putRegistry_ok:
  assumes ok: "serviceOk P p U C (content (svcDb s)) (svcRegistry s) addrs S" and S: "S a = Some (md, A)"
    and reg: "regFits P md reg"
  shows "serviceOk P p U C (content (svcDb (putRegistry reg s))) (svcRegistry (putRegistry reg s)) addrs S"
  using serviceOk_cache [OF ok S reg] reg by (simp add: putRegistry_def regFits_def)

section \<open>Proofs of stored leaves\<close>

lemma Server_Proof_ok:
  assumes ok: "serviceOk P p U C (content (svcDb s)) (svcRegistry s) addrs S"
    and S: "S (hexToAddress H r) = Some (md, (lf, ix))" and hex: "isHexAddress H r"
    and reg: "svcRegistry s (mdIndex md) = Some reg" and on: "IsOnHead (regProgress reg)"
    and v: "uFromDecimal U l = Inr v" and n: "n = unat (mdDepth md)"
    and cons: "indexConsistent (mdEmptyValue md) n (lf, ix)" and c: "ctxAlive n c"
  shows "\<exists>res s' c'. Server_Proof P D U H (svcDb s) r l (s, c) = (res, s', c') \<and>
    serviceOk P p U C (content (svcDb s')) (svcRegistry s') addrs S \<and>
    (case ix v of
       None \<Rightarrow> res = Inl (Status NotFound ''leaf not found'')
     | Some i \<Rightarrow> \<exists>path. res = Inr \<lparr>gpLeaf = l, gpPath = map (uString U) path, gpIndex = i,
           gpRoot = uString U (node (hashOf P) lf n 0)\<rparr> \<and> length path = n \<and>
         computeRoot (hashOf P) v path (unat i) = node (hashOf P) lf n 0)"
proof -
  have fit: "regFits P md reg" using cached_fits [OF ok S reg] .
  have rep: "represents P p U reg (content (svcDb s)) (lf, ix)" using cached_represents [OF ok S reg] .
  have n': "unat (depth (regTree reg)) = n" using fit n by (simp add: regFits_def)
  have find: "findRegistry D H ''registry not found'' s r = Inr reg"
    using findRegistry_ok [OF ok S hex reg] on by simp
  show ?thesis
  proof (cases "ix v")
    case None
    then have "Registry_CreateProof P D U (svcDb s) (svcDb s) v (reg, c) =
        (Inl (Wrap ''failed to get leaf index'' ErrNotFound), (reg, c))"
      using GetLeafIndex_ok [OF rep, of v] by (simp add: Registry_CreateProof_def)
    then show ?thesis
      using None find v putRegistry_ok [OF ok S fit] by (simp add: Server_Proof_def)
  next
    case (Some i)
    have i: "unat i < 2 ^ n" "lf (unat i) = v" using cons Some by (auto simp: indexConsistent_def)
    obtain reg' c' where run: "Registry_CreateProof P D U (svcDb s) (svcDb s) v (reg, c) =
        (Inr \<lparr>Leaf = v, Path = pathFrom (hashOf P) lf n 0 (unat i), Index = i,
              Root = node (hashOf P) lf n 0\<rparr>, (reg', c'))"
      and r': "represents P p U reg' (content (svcDb s)) (lf, ix)" "sameRegistry reg reg'"
      using Registry_CreateProof_ok [OF rep Some rep, of c] i c by (auto simp: runs_def n')
    have "computeRoot (hashOf P) v (pathFrom (hashOf P) lf n 0 (unat i)) (unat i) = node (hashOf P) lf n 0"
      using computeRoot_pathFrom [of "hashOf P" lf 0 "unat i" n] i by simp
    moreover have "length (pathFrom (hashOf P) lf n 0 (unat i)) = n"
      by simp
    ultimately show ?thesis
      using Some find v run putRegistry_ok [OF ok S regFits_sameRegistry [OF fit r'(2,1)]]
      by (auto simp: Server_Proof_def)
  qed
qed

section \<open>Batch proofs\<close>

lemma convertOperations_length:
  "convertOperations U ops = Inr ops' \<Longrightarrow> length ops' = length ops"
  by (induction ops arbitrary: ops') (auto simp: bindE_Inr_iff split: sum.splits)

lemma Server_GetBatchProofs_ok:
  assumes ok: "serviceOk P p U C (content (svcDb s)) (svcRegistry s) addrs S"
    and S: "S (hexToAddress H r) = Some (md, (lf, ix))" and hex: "isHexAddress H r"
    and reg: "svcRegistry s (mdIndex md) = Some reg"
    and conv: "convertOperations U ops = Inr ops'" and f: "\<forall>op\<in>set ops'. unat (leafValue (opLeaf op)) < p"
    and n: "n = unat (mdDepth md)" and e: "e = mdEmptyValue md"
    and run: "Server_GetBatchProofs P D U H rand r ops (s, c, g) = (Inr resp, s', c', g')"
  shows "\<exists>prs. resp = \<lparr>gbrInitialRoot = uString U (node (hashOf P) lf n 0),
      gbrProofs = map (\<lambda>pr. \<lparr>gbpIndex = bprIndex pr, gbpPath = map (uString U) (bprPath pr)\<rparr>) prs\<rparr> \<and>
    length prs = length ops \<and>
    verifyBatch (hashOf P) e (node (hashOf P) lf n 0) ops' prs = Some (node (hashOf P) (simLeaves e lf ops' prs) n 0)"
proof -
  have fit: "regFits P md reg" using cached_fits [OF ok S reg] .
  have rep: "represents P p U reg (content (svcDb s)) (lf, ix)" using cached_represents [OF ok S reg] .
  let ?w = "\<lparr>w_tree = liveTree D U (svcDb s) reg, w_batch = NewSimulationBatch (\<lambda>l i. Inl ErrNotFound),
    w_ctx = c, w_rng = g\<rparr>"
  have wf: "wfTree P p (w_tree ?w)" "unat (depth (w_tree ?w)) = n" "emtpyLeaf (w_tree ?w) = e"
    "treeOf P n (storageView P (w_tree ?w)) lf"
    using rep fit n e by (auto simp: represents_def liveTree_kvTree regFits_def)
  obtain root prs w' where sim: "SimulateBatchOperations P rand ops' ?w = (Inr (root, prs), w')"
    and resp: "resp = \<lparr>gbrInitialRoot = uString U root,
      gbrProofs = map (\<lambda>pr. \<lparr>gbpIndex = bprIndex pr, gbpPath = map (uString U) (bprPath pr)\<rparr>) prs\<rparr>"
    using run conv findRegistry_ok [OF ok S hex reg]
    by (auto simp: Server_GetBatchProofs_def Let_def split: if_splits prod.splits sum.splits)
  show ?thesis
    using safeD [OF SimulateBatchOperations_safe [OF wf(1,2,4) f] sim] resp wf(3) convertOperations_length [OF conv]
    by auto
qed

text \<open>
  The handler answers exactly if the simulation finds a leaf for every operation.
\<close>

lemma Server_GetBatchProofs_answers:
  assumes ok: "serviceOk P p U C (content (svcDb s)) (svcRegistry s) addrs S"
    and S: "S (hexToAddress H r) = Some (md, (lf, ix))" and hex: "isHexAddress H r"
    and reg: "svcRegistry s (mdIndex md) = Some reg" and on: "IsOnHead (regProgress reg)"
    and conv: "convertOperations U ops = Inr ops'" and f: "\<forall>op\<in>set ops'. unat (leafValue (opLeaf op)) < p"
    and n: "n = unat (mdDepth md)" and e: "e = mdEmptyValue md" and ne: "ops \<noteq> []"
  shows "case pickOps rand (maxLeaves (regTree reg)) e ops' lf g of
      Some is \<Rightarrow> \<exists>resp s' c' g'. Server_GetBatchProofs P D U H rand r ops (s, None, g) = (Inr resp, s', c', g') \<and>
        map gbpIndex (gbrProofs resp) = is
    | None \<Rightarrow> \<exists>err s' c' g'. Server_GetBatchProofs P D U H rand r ops (s, None, g) = (Inl err, s', c', g')"
proof -
  have fit: "regFits P md reg" using cached_fits [OF ok S reg] .
  have rep: "represents P p U reg (content (svcDb s)) (lf, ix)" using cached_represents [OF ok S reg] .
  let ?w = "\<lparr>w_tree = liveTree D U (svcDb s) reg, w_batch = NewSimulationBatch (\<lambda>l i. Inl ErrNotFound),
    w_ctx = None, w_rng = g\<rparr>"
  have wf: "wfTree P p (w_tree ?w)" "unat (depth (w_tree ?w)) = n" "emtpyLeaf (w_tree ?w) = e"
    "treeOf P n (storageView P (w_tree ?w)) lf" "maxLeaves (w_tree ?w) = maxLeaves (regTree reg)"
    using rep fit n e by (auto simp: represents_def liveTree_kvTree regFits_def maxLeaves_def kvTree_def)
  have find: "findRegistry D H ''registry not found'' s r = Inr reg"
    using findRegistry_ok [OF ok S hex reg] on by simp
  have sim: "case pickOps rand (maxLeaves (regTree reg)) e ops' lf g of
      Some is \<Rightarrow> runs (SimulateBatchOperations P rand ops') ?w (\<lambda>(root, prs) w'. map bprIndex prs = is)
    | None \<Rightarrow> (\<exists>e w'. SimulateBatchOperations P rand ops' ?w = (Inl e, w'))"
    using SimulateBatchOperations_pick [OF wf(1) _ wf(2,4) f, of rand] wf(3,5) by simp
  show ?thesis
  proof (cases "pickOps rand (maxLeaves (regTree reg)) e ops' lf g")
    case None
    then show ?thesis
      using sim find conv ne by (auto simp: Server_GetBatchProofs_def Let_def)
  next
    case (Some js)
    then obtain root prs w' where "SimulateBatchOperations P rand ops' ?w = (Inr (root, prs), w')" "map bprIndex prs = js"
      using sim by (auto elim!: runsE)
    then show ?thesis
      using Some find conv ne by (auto simp: Server_GetBatchProofs_def Let_def comp_def)
  qed
qed

end

end
