(* ===== verification/Query_Correct.thy ===== *)
theory Query_Correct
  imports Server_Correct
begin

text \<open>
  What a query leaves behind, whatever its outcome.  A handler may answer, refuse, run into a cancelled
  context or fail to find an empty leaf; in each case it has at most filled the cache of empty branches
  of the registry it asked, so the service still represents what it represented before.
\<close>

section \<open>Operations that change a tree at most in its cache\<close>

definition treeShape :: "poseidon \<Rightarrow> nat \<Rightarrow> tree_level \<Rightarrow> u256 \<Rightarrow> sparse_tree \<Rightarrow> bool" where
  "treeShape P p d e t \<longleftrightarrow> depth t = d \<and> emtpyLeaf t = e \<and> cacheOk P t \<and>
     1 \<le> unat d \<and> unat d \<le> 32 \<and> unat e < p"

definition keepsShape :: "poseidon \<Rightarrow> nat \<Rightarrow> tree_level \<Rightarrow> u256 \<Rightarrow> (('b, 'g) world, 'a) go \<Rightarrow> bool" where
  "keepsShape P p d e m \<longleftrightarrow> (\<forall>w. treeShape P p d e (w_tree w) \<longrightarrow> treeShape P p d e (w_tree (snd (m w))))"

named_theorems shape_intros

lemma keepsI: "(\<And>w. treeShape P p d e (w_tree w) \<Longrightarrow> treeShape P p d e (w_tree (snd (m w)))) \<Longrightarrow> keepsShape P p d e m"
  by (simp add: keepsShape_def)

lemma keepsD: "keepsShape P p d e m \<Longrightarrow> m w = (r, w') \<Longrightarrow> treeShape P p d e (w_tree w) \<Longrightarrow> treeShape P p d e (w_tree w')"
  by (metis keepsShape_def snd_conv)

lemma keeps_basic [shape_intros]:
  "keepsShape P p d e (retG x)" "keepsShape P p d e (raiseG err)" "keepsShape P p d e (Pair r)"
  "keepsShape P p d e pollCtx" "keepsShape P p d e (randomIndex rand)" "keepsShape P p d e (setLeaf B l i v)"
  by (auto simp: keepsShape_def retG_def raiseG_def pollCtx_def randomIndex_def setLeaf_def Let_def
      split: option.split nat.split prod.split)

lemma keeps_bindG [shape_intros]:
  fixes m :: "(('b, 'g) world, 'a) go"
  assumes m: "keepsShape P p d e m" and f: "\<And>x. keepsShape P p d e (f x)"
  shows "keepsShape P p d e (bindG m f)"
proof (rule keepsI)
  fix w :: "('b, 'g) world"
  assume w: "treeShape P p d e (w_tree w)"
  show "treeShape P p d e (w_tree (snd (bindG m f w)))"
  proof (cases "m w")
    case (Pair r w')
    have w': "treeShape P p d e (w_tree w')" by (rule keepsD [OF m Pair w])
    then show ?thesis using f Pair by (cases r) (auto simp: keepsShape_def)
  qed
qed

lemma keeps_wrapG [shape_intros]: "keepsShape P p d e m \<Longrightarrow> keepsShape P p d e (wrapG msg m)"
  by (simp add: keepsShape_def wrapG_def split_beta)

lemma keeps_if [shape_intros]:
  "(c \<Longrightarrow> keepsShape P p d e m) \<Longrightarrow> (\<not> c \<Longrightarrow> keepsShape P p d e m') \<Longrightarrow> keepsShape P p d e (if c then m else m')"
  by simp

text \<open>An operation chosen by the state it is applied to.\<close>

lemma keeps_state: "(\<And>w. keepsShape P p d e (m w)) \<Longrightarrow> keepsShape P p d e (\<lambda>w. m w w)"
  by (simp add: keepsShape_def)

lemma keeps_checked:
  "(\<And>t. keepsShape P p d e (m t)) \<Longrightarrow> keepsShape P p d e (\<lambda>w. if c (w_tree w) then (r, w) else m (w_tree w) w)"
  by (simp add: keepsShape_def)

lemma keeps_fresh: "keepsShape P p d e m \<Longrightarrow> keepsShape P p d e (\<lambda>w. m (w\<lparr>w_batch := b (w_tree w)\<rparr>))"
  by (simp add: keepsShape_def)

context poseidon_field
begin

lemma calculateEmptyBranchHashes_shape:
  assumes "treeShape P p d e t"
  shows "calculateEmptyBranchHashes P t = Inr (map (emptyHash P e) [0..<Suc (unat d)])"
proof -
  let ?t = "t\<lparr>storageLeafGetter := \<lambda>l i. Inl ErrNotFound\<rparr>"
  have "wfTree P p ?t"
    using assms by (auto simp: wfTree_def treeShape_def getterOk_def cacheOk_def split: option.splits)
  then have "calculateEmptyBranchHashes P ?t = Inr (map (emptyHash P e) [0..<Suc (unat d)])"
    using calculateEmptyBranchHashes_ok [of ?t] assms by (simp add: treeShape_def)
  moreover have "calculateEmptyBranchHashes P ?t = calculateEmptyBranchHashes P t"
    by (simp add: calculateEmptyBranchHashes_def Let_def)
  ultimately show ?thesis by simp
qed

lemma getEmptyBranchValue_keeps [shape_intros]: "keepsShape P p d e (getEmptyBranchValue P l :: (('b, 'g) world, u256) go)"
proof (rule keepsI)
  fix w :: "('b, 'g) world"
  assume w: "treeShape P p d e (w_tree w)"
  show "treeShape P p d e (w_tree (snd (getEmptyBranchValue P l w)))"
    using w calculateEmptyBranchHashes_shape [OF w]
    by (auto simp: getEmptyBranchValue_def Let_def treeShape_def cacheOk_def simp del: upt_Suc split: option.split)
qed

lemma getLeafFromStorage_keeps [shape_intros]: "keepsShape P p d e (getLeafFromStorage P l i)"
  using getEmptyBranchValue_keeps by (auto simp: keepsShape_def getLeafFromStorage_def Let_def split: sum.split)

lemma getLeafFromBatchOrStorage_keeps [shape_intros]:
  "keepsShape P p d e (getLeafFromBatchOrStorage P B l i :: (('b, 'g) world, u256) go)"
proof -
  have "keepsShape P p d e (wrapG ''get leaf from storage'' (getLeafFromStorage P l i) :: (('b, 'g) world, u256) go)"
    by (intro shape_intros)
  then show ?thesis by (simp add: keepsShape_def getLeafFromBatchOrStorage_def split: sum.split)
qed

lemma GetRoot_keeps [shape_intros]: "keepsShape P p d e (GetRoot P)"
  unfolding GetRoot_def by (rule keeps_state [where m = "\<lambda>w. getLeafFromStorage P (depth (w_tree w)) 0"]) (rule shape_intros)

lemma calculateHashForNode_keeps [shape_intros]: "keepsShape P p d e (calculateHashForNode P B l i)"
proof -
  have "keepsShape P p d e (getSiblingNodes P B l i)"
    unfolding getSiblingNodes_def by (auto intro!: shape_intros simp: Let_def)
  then show ?thesis unfolding calculateHashForNode_def by (auto intro!: shape_intros)
qed

lemma insertLeafLoop_keeps [shape_intros]: "keepsShape P p d e (insertLeafLoop P B n l i)"
proof (induction "unat n - unat l" arbitrary: l i rule: less_induct)
  case less
  then show ?case
    by (subst insertLeafLoop.simps) (auto intro!: shape_intros simp: unat_plus1 word_less_nat_alt)
qed

lemma InsertLeaf_keeps [shape_intros]: "keepsShape P p d e (InsertLeaf P B i v)"
  unfolding InsertLeaf_def
  by (intro shape_intros keeps_state [where m = "\<lambda>w. insertLeafLoop P B (depth (w_tree w)) 0 i"])

lemma createProofLoop_keeps [shape_intros]: "keepsShape P p d e (createProofLoop P n l i)"
proof (induction "unat n - unat l" arbitrary: l i rule: less_induct)
  case less
  then show ?case
    by (subst createProofLoop.simps) (auto intro!: shape_intros simp: unat_plus1 word_less_nat_alt)
qed

lemma CreateProof_keeps [shape_intros]: "keepsShape P p d e (CreateProof P i)"
  unfolding CreateProof_def
  by (intro shape_intros keeps_state [where m = "\<lambda>w. createProofLoop P (depth (w_tree w)) 0 i"])

lemma proofWithBatchLoop_keeps [shape_intros]: "keepsShape P p d e (proofWithBatchLoop P B n l i)"
proof (induction "unat n - unat l" arbitrary: l i rule: less_induct)
  case less
  then show ?case
    by (subst proofWithBatchLoop.simps) (auto intro!: shape_intros simp: unat_plus1 word_less_nat_alt)
qed

lemma createProofWithBatch_keeps [shape_intros]: "keepsShape P p d e (createProofWithBatch P B i)"
  unfolding createProofWithBatch_def
  by (intro shape_intros keeps_state [where m = "\<lambda>w. proofWithBatchLoop P B (depth (w_tree w)) 0 i"]
      keeps_state [where m = "\<lambda>w. wrapG ''get root'' (getLeafFromBatchOrStorage P B (depth (w_tree w)) 0)"])

section \<open>Searching and simulating\<close>

lemma randomEmptyLoop_keeps [shape_intros]:
  "keepsShape P p d e (randomEmptyLoop rand n :: (('b, 'g) world, leaf_index) go)"
proof (induction n)
  case (Suc n)
  then have "keepsShape P p d e (\<lambda>w :: ('b, 'g) world. case storageLeafGetter (w_tree w) 0 i of
      Inr v \<Rightarrow> randomEmptyLoop rand n w
    | Inl err \<Rightarrow> if errorsIs err ErrNotFound then (Inr i, w) else randomEmptyLoop rand n w)" for i
    by (auto simp: keepsShape_def split: sum.split)
  then show ?case by (auto intro!: shape_intros)
qed (auto intro!: shape_intros)

lemma GetRandomEmptyLeafIndex_keeps: "keepsShape P p d e (GetRandomEmptyLeafIndex rand)"
  unfolding GetRandomEmptyLeafIndex_def by (rule shape_intros)

lemma findEmptyLoop_keeps [shape_intros]:
  "keepsShape P p d e (findEmptyLoop P B rand n :: (('b, 'g) world, leaf_index) go)"
proof (induction n)
  case (Suc n)
  then have "keepsShape P p d e (\<lambda>w :: ('b, 'g) world. if v = emtpyLeaf (w_tree w) then (Inr i, w) else findEmptyLoop P B rand n w)" for i v
    by (auto simp: keepsShape_def)
  then show ?case by (auto intro!: shape_intros)
qed (auto intro!: shape_intros)

text \<open>The scan goes on after a read that failed.\<close>

lemma keeps_caught [shape_intros]:
  assumes m: "keepsShape P p d e m" and f: "keepsShape P p d e f" and g: "\<And>x. keepsShape P p d e (g x)"
  shows "keepsShape P p d e (\<lambda>w. case m w of (Inl err, w') \<Rightarrow> f w' | (Inr x, w') \<Rightarrow> g x w')"
  using assms unfolding keepsShape_def by (auto simp: split_beta split: sum.split)

lemma findLeafLoop_keeps [shape_intros]: "keepsShape P p d e (findLeafLoop P B v n i)"
proof (induction "unat n - unat i" arbitrary: i rule: less_induct)
  case less
  have found: "keepsShape P p d e (\<lambda>w. if c then (r, w) else m w)" if "keepsShape P p d e m"
    for c and r :: "goerr + leaf_index" and m :: "(('a, 'b) world, leaf_index) go"
    using that by (simp add: keepsShape_def)
  show ?case
    by (subst findLeafLoop.simps)
       (auto intro!: shape_intros found less.hyps simp: unat_plus1 word_less_nat_alt simp del: if_split)
qed

lemma simulateOp_keeps [shape_intros]: "keepsShape P p d e (simulateOp P B rand op)"
proof -
  have search: "keepsShape P p d e (findEmptyLeafIndexInSimulation P B rand)"
    "keepsShape P p d e (findLeafByValueInSimulation P B v)" for v
    unfolding findEmptyLeafIndexInSimulation_def findLeafByValueInSimulation_def
    by (intro shape_intros keeps_state [where m = "\<lambda>w. findLeafLoop P B v (maxLeaves (w_tree w)) 0"])+
  show ?thesis
    unfolding simulateOp_def
    by (intro shape_intros search
        keeps_checked [where m = "\<lambda>t. bindG (wrapG ''insert leaf'' (InsertLeaf P B i (leafValue (opLeaf op)))) f" for i f]
        keeps_checked [where m = "\<lambda>t. bindG (wrapG ''revoke leaf'' (InsertLeaf P B i (emtpyLeaf t))) f" for i f])
qed

lemma simulateOps_keeps [shape_intros]: "keepsShape P p d e (simulateOps P B rand ops)"
  by (induction ops) (auto intro!: shape_intros)

lemma SimulateBatchOperations_keeps: "keepsShape P p d e (SimulateBatchOperations P rand ops)"
  unfolding SimulateBatchOperations_def
  by (intro shape_intros keeps_fresh [where b = "\<lambda>t. NewSimulationBatch (storageLeafGetter t)"])

section \<open>Handlers\<close>

lemma regFits_shape:
  "regFits P md reg \<Longrightarrow> metadataOk p md \<Longrightarrow> treeShape P p (mdDepth md) (mdEmptyValue md) (liveTree D U d reg)"
  "regFits P md reg \<Longrightarrow> treeShape P p (mdDepth md) (mdEmptyValue md) t \<Longrightarrow> regFits P md (reg\<lparr>regTree := t\<rparr>)"
  by (auto simp: regFits_def treeShape_def metadataOk_def liveTree_def cacheOk_def split: option.splits)

lemma Registry_CreateProof_fits:
  assumes "Registry_CreateProof P D U d0 d l (reg, c) = (r, reg', c')" "regFits P md reg" "metadataOk p md"
  shows "regFits P md reg'"
proof (cases "GetLeafIndex D U d0 (regLeafView reg) l")
  case (Inl err)
  then show ?thesis using assms(1,2) by (simp add: Registry_CreateProof_def)
next
  case (Inr i)
  let ?w = "\<lparr>w_tree = liveTree D U d reg, w_batch = (), w_ctx = c, w_rng = ()\<rparr>"
  obtain r1 w where w: "wrapG ''failed to create proof'' (CreateProof P i) ?w = (r1, w)" by fastforce
  have "treeShape P p (mdDepth md) (mdEmptyValue md) (w_tree w)"
    by (rule keepsD [OF keeps_wrapG [OF CreateProof_keeps] w]) (simp add: regFits_shape(1) [OF assms(2,3)])
  then show ?thesis
    using assms(1) Inr w regFits_shape(2) [OF assms(2)] by (auto simp: Registry_CreateProof_def)
qed

lemma GetRandomEmptyLeafProof_fits:
  assumes "GetRandomEmptyLeafProof P D U rand d0 d (reg, c, g) = (r, reg', c', g')"
    and fit: "regFits P md reg" and md: "metadataOk p md"
  shows "regFits P md reg'"
proof -
  let ?shape = "treeShape P p (mdDepth md) (mdEmptyValue md)"
  let ?w = "\<lparr>w_tree = liveTree D U d0 reg, w_batch = (), w_ctx = c, w_rng = g\<rparr>"
  obtain r1 w where w: "wrapG ''failed to get random empty leaf proof'' (GetRandomEmptyLeafIndex rand) ?w = (r1, w)"
    by fastforce
  have "?shape (w_tree w)"
    by (rule keepsD [OF keeps_wrapG [OF GetRandomEmptyLeafIndex_keeps] w]) (simp add: regFits_shape(1) [OF fit md])
  then have fit1: "regFits P md (reg\<lparr>regTree := w_tree w\<rparr>)" by (rule regFits_shape(2) [OF fit])
  show ?thesis
  proof (cases r1)
    case (Inl err)
    then show ?thesis using assms(1) w fit1 by (simp add: GetRandomEmptyLeafProof_def)
  next
    case (Inr i)
    let ?w1 = "w\<lparr>w_tree := liveTree D U d (reg\<lparr>regTree := w_tree w\<rparr>)\<rparr>"
    obtain r2 w2 where w2: "wrapG ''failed to create proof'' (CreateProof P i) ?w1 = (r2, w2)" by fastforce
    have "?shape (w_tree w2)"
      by (rule keepsD [OF keeps_wrapG [OF CreateProof_keeps] w2]) (simp add: regFits_shape(1) [OF fit1 md])
    then show ?thesis
      using assms(1) w Inr w2 regFits_shape(2) [OF fit] by (auto simp: GetRandomEmptyLeafProof_def)
  qed
qed

end

context service_env
begin

text \<open>The registry that a handler works on fits its metadata.\<close>

lemma findRegistry_cached:
  assumes ok: "serviceOk P p U C (content (svcDb s)) (svcRegistry s) addrs S" and f: "findRegistry D H m s r = Inr reg"
  obtains a md A where "S a = Some (md, A)" "regFits P md reg" "metadataOk p md"
proof -
  obtain i where c: "svcRegistry s i = Some reg"
    using f by (auto simp: findRegistry_def Service_Registry_def bindE_Inr_iff split: if_splits sum.splits option.splits)
  obtain a A where S: "S a = Some (regMetadata reg, A)" using serviceOkD(10) [OF ok c] by blast
  have "metadataOk p (regMetadata reg)"
    using serviceOkD(6) [OF ok S] by (cases A) (simp add: represents_def wfTree_def metadataOk_def
        coldRegistry_def NewZKCertificateRegistry_def)
  then show ?thesis using that [OF S serviceOkD(9) [OF ok c]] by blast
qed

lemma queries_keep_service:
  assumes ok: "serviceOk P p U C (content (svcDb s)) (svcRegistry s) addrs S"
  shows "Server_Proof P D U H d1 r l (s, c) = (res, s', c') \<Longrightarrow>
      serviceOk P p U C (content (svcDb s')) (svcRegistry s') addrs S"
    and "Server_GetEmptyLeafProof P D U H rand d1 r (s, c, g) = (res, s', c', g') \<Longrightarrow>
      serviceOk P p U C (content (svcDb s')) (svcRegistry s') addrs S"
    and "Server_GetBatchProofs P D U H rand r ops (s, c, g) = (bres, s', c', g') \<Longrightarrow>
      serviceOk P p U C (content (svcDb s')) (svcRegistry s') addrs S"
proof -
  assume run: "Server_Proof P D U H d1 r l (s, c) = (res, s', c')"
  have "s' = s \<or> (\<exists>reg leaf r1 reg'. findRegistry D H ''registry not found'' s r = Inr reg \<and>
      Registry_CreateProof P D U (svcDb s) d1 leaf (reg, c) = (r1, reg', c') \<and> s' = putRegistry reg' s)"
    using run by (auto simp: Server_Proof_def split: sum.splits prod.splits)
  then show "serviceOk P p U C (content (svcDb s')) (svcRegistry s') addrs S"
    using ok putRegistry_ok [OF ok] Registry_CreateProof_fits findRegistry_cached [OF ok] by metis
next
  assume run: "Server_GetEmptyLeafProof P D U H rand d1 r (s, c, g) = (res, s', c', g')"
  have "s' = s \<or> (\<exists>reg r1 reg'. findRegistry D H ''tree not found'' s r = Inr reg \<and>
      GetRandomEmptyLeafProof P D U rand (svcDb s) d1 (reg, c, g) = (r1, reg', c', g') \<and> s' = putRegistry reg' s)"
    using run by (auto simp: Server_GetEmptyLeafProof_def split: sum.splits prod.splits)
  then show "serviceOk P p U C (content (svcDb s')) (svcRegistry s') addrs S"
    using ok putRegistry_ok [OF ok] GetRandomEmptyLeafProof_fits findRegistry_cached [OF ok] by metis
next
  assume run: "Server_GetBatchProofs P D U H rand r ops (s, c, g) = (bres, s', c', g')"
  let ?w = "\<lambda>reg. \<lparr>w_tree = liveTree D U (svcDb s) reg, w_batch = NewSimulationBatch (\<lambda>l i. Inl ErrNotFound),
      w_ctx = c, w_rng = g\<rparr>"
  have "s' = s \<or> (\<exists>reg os r1 w. findRegistry D H ''registry not found'' s r = Inr reg \<and>
      SimulateBatchOperations P rand os (?w reg) = (r1, w) \<and> s' = putRegistry (reg\<lparr>regTree := w_tree w\<rparr>) s)"
    using run by (auto simp: Server_GetBatchProofs_def Let_def split: sum.splits prod.splits if_splits)
  then show "serviceOk P p U C (content (svcDb s')) (svcRegistry s') addrs S"
  proof
    assume "\<exists>reg os r1 w. findRegistry D H ''registry not found'' s r = Inr reg \<and>
      SimulateBatchOperations P rand os (?w reg) = (r1, w) \<and> s' = putRegistry (reg\<lparr>regTree := w_tree w\<rparr>) s"
    then obtain reg os r1 w where f: "findRegistry D H ''registry not found'' s r = Inr reg"
      and w: "SimulateBatchOperations P rand os (?w reg) = (r1, w)" and s': "s' = putRegistry (reg\<lparr>regTree := w_tree w\<rparr>) s"
      by blast
    obtain a md A where S: "S a = Some (md, A)" and fit: "regFits P md reg" and md: "metadataOk p md"
      by (rule findRegistry_cached [OF ok f])
    have "treeShape P p (mdDepth md) (mdEmptyValue md) (w_tree w)"
      by (rule keepsD [OF SimulateBatchOperations_keeps w]) (simp add: regFits_shape(1) [OF fit md])
    then show ?thesis using putRegistry_ok [OF ok S] regFits_shape(2) [OF fit] s' by blast
  qed (use ok in simp)
qed

end

end
