(* ===== verification/Indexer_Job.thy ===== *)
theory Indexer_Job
  imports Registry_Service
begin

text \<open>
  The indexing job of one registry: stored jobs (\<open>internal/indexer/job_storage.go\<close>,
  \<open>job_contract.go\<close>), the handler of event logs (\<open>ZkCertificateRegistry.go\<close>), the factory
  (\<open>job_factory.go\<close>) and \<open>handleLogs\<close> of \<open>indexer.go\<close>, which runs one batch of logs.

  The contract's ABI and the parser of its events are generated code over \<open>go-ethereum\<close>: the record
  \<open>event_abi\<close> holds the event's topic and what the parser returns.
\<close>

section \<open>Contracts\<close>

definition ContractZkCertificateRegistry :: u8 where "ContractZkCertificateRegistry = 1"
definition ContractZkCertificateRegistryString :: string where
  "ContractZkCertificateRegistryString = ''ZkCertificateRegistry''"

definition Contract_String :: "u8 \<Rightarrow> string" where
  "Contract_String s = (if s = ContractZkCertificateRegistry then ContractZkCertificateRegistryString
     else ''unknown'')"

definition Contract_UnmarshalText :: "string \<Rightarrow> (u8, unit) go" where
  "Contract_UnmarshalText txt s =
     (Inr (), if txt = ContractZkCertificateRegistryString then ContractZkCertificateRegistry else 0)"

definition ContractFromString :: "string \<Rightarrow> (goerr + unit) \<times> u8" where
  "ContractFromString s = Contract_UnmarshalText s 0"

definition Contract_MarshalText :: "u8 \<Rightarrow> goerr + string" where
  "Contract_MarshalText s = Inr (Contract_String s)"

definition Contract_UnmarshalJSON :: "string \<Rightarrow> (u8, unit) go" where
  "Contract_UnmarshalJSON data = Contract_UnmarshalText data"

definition Contract_MarshalJSON :: "u8 \<Rightarrow> goerr + string" where
  "Contract_MarshalJSON s = Contract_MarshalText s"

section \<open>Stored jobs\<close>

record job =
  jobDescriptor :: job_descriptor
  jobCurrentBlock :: u64

definition UpsertJob :: "('d, 'b) db_ops \<Rightarrow> job codec_ops \<Rightarrow> job \<Rightarrow> ('b, unit) go" where
  "UpsertJob D J jb store =
     (case wrapE ''serialize job'' (codecEncode J jb) of
        Inl e \<Rightarrow> (Inl e, store)
      | Inr jobBytes \<Rightarrow> batchSet D (makeJobKey (jobDescriptor jb)) jobBytes store)"

definition DeleteJob :: "('d, 'b) db_ops \<Rightarrow> job_descriptor \<Rightarrow> ('b, unit) go" where
  "DeleteJob D jd = batchDelete D (makeJobKey jd)"

definition SelectJob :: "('d, 'b) db_ops \<Rightarrow> job codec_ops \<Rightarrow> 'd \<Rightarrow> job_descriptor \<Rightarrow> goerr + job" where
  "SelectJob D J d jd =
     bindE (dbGet D d (makeJobKey jd)) (\<lambda>jobBytes. wrapE ''deserialize job'' (codecDecode J jobBytes))"

text \<open>
  \<open>SelectAllJobs\<close>: \<open>iteratePrefix\<close> gives the values under a key prefix in the order of their keys.
\<close>

fun selectJobsLoop :: "job codec_ops \<Rightarrow> bytes list \<Rightarrow> job list \<Rightarrow> (ctx, job list) go" where
  "selectJobsLoop J [] jobs = retG jobs"
| "selectJobsLoop J (value # values) jobs = (\<lambda>c.
     case c of
       Some 0 \<Rightarrow> (Inl ErrCanceled, c)
     | _ \<Rightarrow>
        (case wrapE ''deserialize job'' (codecDecode J value) of
           Inl e \<Rightarrow> (Inl e, map_option (\<lambda>n. n - 1) c)
         | Inr jb \<Rightarrow> selectJobsLoop J values (jobs @ [jb]) (map_option (\<lambda>n. n - 1) c)))"

definition SelectAllJobs ::
    "job codec_ops \<Rightarrow> ('d \<Rightarrow> bytes \<Rightarrow> goerr + bytes list) \<Rightarrow> 'd \<Rightarrow> (ctx, job list) go" where
  "SelectAllJobs J iteratePrefix d c =
     (case iteratePrefix d [JobKeyPrefix] of
        Inl e \<Rightarrow> (Inl e, c)
      | Inr values \<Rightarrow> selectJobsLoop J values [] c)"

section \<open>Event logs\<close>

record evm_log =
  logTopics :: "bytes list"
  logData :: bytes
  logBlockNumber :: u64
  logRemoved :: bool

record certificate_processed =
  cpLeafHash :: bytes
  cpOperation :: u8
  cpLeafIndex :: nat

record event_abi =
  abiCertificateProcessed :: "goerr + bytes"
  abiNewFilterer :: "address \<Rightarrow> goerr + unit"
  abiParse :: "evm_log \<Rightarrow> goerr + certificate_processed"

text \<open>
  The job object; \<open>zjParser\<close> tells whether the parser has been made.  The operations buffer travels in
  the context of the calls.
\<close>

record zk_job =
  zjDescriptor :: job_descriptor
  zjRegistry :: registry
  zjParser :: bool

definition NewZkCertificateRegistryJob :: "job_descriptor \<Rightarrow> registry \<Rightarrow> zk_job" where
  "NewZkCertificateRegistryJob jd registry = \<lparr>zjDescriptor = jd, zjRegistry = registry, zjParser = False\<rparr>"

type_synonym buffer_ctx = "operations_buffer option"

definition WithOperationsBuffer :: "operations_buffer \<Rightarrow> buffer_ctx \<Rightarrow> buffer_ctx" where
  "WithOperationsBuffer buffer c = Some buffer"

definition PrepareContext :: "buffer_ctx \<Rightarrow> goerr + buffer_ctx" where
  "PrepareContext c = Inr (WithOperationsBuffer NewOperationsBuffer c)"

definition getParserLazy :: "event_abi \<Rightarrow> (zk_job, unit) go" where
  "getParserLazy E jb =
     (if zjParser jb then (Inr (), jb)
      else case wrapE ''bind contract'' (abiNewFilterer E (jdAddress (zjDescriptor jb))) of
             Inl e \<Rightarrow> (Inl e, jb)
           | Inr _ \<Rightarrow> (Inr (), jb\<lparr>zjParser := True\<rparr>))"

definition handleCertificateProcessedLog :: "event_abi \<Rightarrow> evm_log \<Rightarrow> (zk_job \<times> buffer_ctx, unit) go" where
  "handleCertificateProcessedLog E log = (\<lambda>(jb, c).
     case wrapG ''get parser'' (getParserLazy E) jb of
       (Inl e, jb) \<Rightarrow> (Inl e, (jb, c))
     | (Inr _, jb) \<Rightarrow>
         (case wrapE ''parse CertificateProcessed'' (abiParse E log) of
            Inl e \<Rightarrow> (Inl e, (jb, c))
          | Inr certificateProcessed \<Rightarrow>
              (let index = ucast (bigUint64 (cpLeafIndex certificateProcessed)) :: leaf_index;
                   (leaf, overflow) = uint256FromBig (bigSetBytes (cpLeafHash certificateProcessed))
               in if overflow then (Inl (ErrNew ''CertificateProcessed: leaf hash overflow''), (jb, c))
                  else case c of
                         None \<Rightarrow> (Inl (ErrNew ''operations buffer not found in context''), (jb, c))
                       | Some operationsBuffer \<Rightarrow>
                           if cpOperation certificateProcessed = 0 then
                             (case wrapG ''append addition operation to buffer''
                                     (AppendAddition index leaf) operationsBuffer of
                                (r, operationsBuffer) \<Rightarrow> (r, (jb, Some operationsBuffer)))
                           else if cpOperation certificateProcessed = 1 then
                             (case wrapG ''append revocation operation to buffer''
                                     (AppendRevocation index leaf) operationsBuffer of
                                (r, operationsBuffer) \<Rightarrow> (r, (jb, Some operationsBuffer)))
                           else (Inl (ErrNew ''unknown operation type''), (jb, c)))))"

definition HandleEVMLog :: "event_abi \<Rightarrow> evm_log \<Rightarrow> (zk_job \<times> buffer_ctx, unit) go" where
  "HandleEVMLog E log s =
     (case wrapE ''get abi'' (abiCertificateProcessed E) of
        Inl e \<Rightarrow> (Inl e, s)
      | Inr eventID \<Rightarrow>
          if logRemoved log then (Inr (), s)
          else case goIndex (logTopics log) 0 of
                 Inl e \<Rightarrow> (Inl e, s)
               | Inr topic \<Rightarrow>
                   if topic = eventID
                   then wrapG ''handle CertificateProcessed log'' (handleCertificateProcessedLog E log) s
                   else (Inl (ErrNew ''unknown event''), s))"

section \<open>Commit\<close>

text \<open>
  The batch is created, filled and written inside \<open>Commit\<close>; the write lock is held around the write
  only.
\<close>

definition writeBatchWithLock :: "('d, 'b) db_ops \<Rightarrow> ('d \<times> 'b, unit) go" where
  "writeBatchWithLock D = batchWriteSync D"

definition Job_Commit ::
    "poseidon \<Rightarrow> ('d, 'b) db_ops \<Rightarrow> u256_ops \<Rightarrow> job codec_ops \<Rightarrow> ctx \<Rightarrow> buffer_ctx \<Rightarrow> u64
     \<Rightarrow> (zk_job \<times> 'd, unit) go" where
  "Job_Commit P D U J ctx c block = (\<lambda>(jb, d).
     case c of
       None \<Rightarrow> (Inl (ErrNew ''leaves buffer not found in context''), (jb, d))
     | Some operationsBuffer \<Rightarrow>
         (let batch = dbNewBatch D d; operations = Operations operationsBuffer in
          case (if length operations > 0
                then wrapG ''insert leaves'' (CommitOperations P D U d ctx operations) (zjRegistry jb, batch)
                else (Inr (), (zjRegistry jb, batch))) of
            (Inl e, registry, batch) \<Rightarrow> (Inl e, (jb\<lparr>zjRegistry := registry\<rparr>, d))
          | (Inr _, registry, batch) \<Rightarrow>
              (case wrapG ''update job's current startBlock''
                      (UpsertJob D J \<lparr>jobDescriptor = zjDescriptor jb, jobCurrentBlock = block\<rparr>) batch of
                 (Inl e, batch) \<Rightarrow> (Inl e, (jb\<lparr>zjRegistry := registry\<rparr>, d))
               | (Inr _, batch) \<Rightarrow>
                   (case wrapG ''write batch with lock'' (writeBatchWithLock D) (d, batch) of
                      (r, d, batch) \<Rightarrow> (r, (jb\<lparr>zjRegistry := registry\<rparr>, d))))))"

section \<open>The query for the logs of a job\<close>

record filter_query =
  fqAddresses :: "address list"
  fqTopics :: "bytes list list"

text \<open>\<open>abi.MakeTopics\<close> of \<open>go-ethereum\<close> is the argument \<open>makeTopics\<close>.\<close>

definition FilterQuery ::
    "event_abi \<Rightarrow> (bytes list list \<Rightarrow> goerr + bytes list list) \<Rightarrow> zk_job \<Rightarrow> goerr + filter_query" where
  "FilterQuery E makeTopics jb =
     bindE (wrapE ''get abi'' (abiCertificateProcessed E)) (\<lambda>eventID.
     bindE (wrapE ''make topics'' (makeTopics [[eventID]])) (\<lambda>topics.
     Inr \<lparr>fqAddresses = [jdAddress (zjDescriptor jb)], fqTopics = topics\<rparr>))"

section \<open>Batches of logs\<close>

fun handleEach :: "event_abi \<Rightarrow> evm_log list \<Rightarrow> (zk_job \<times> buffer_ctx, unit) go" where
  "handleEach E [] = retG ()"
| "handleEach E (eventLog # logs) =
     bindG (wrapG ''handle event'' (HandleEVMLog E eventLog)) (\<lambda>_. handleEach E logs)"

definition handleLogs ::
    "poseidon \<Rightarrow> ('d, 'b) db_ops \<Rightarrow> u256_ops \<Rightarrow> job codec_ops \<Rightarrow> event_abi \<Rightarrow> ctx \<Rightarrow> evm_log list \<Rightarrow> u64
     \<Rightarrow> (zk_job \<times> 'd, unit) go" where
  "handleLogs P D U J E ctx logs progressBlock = (\<lambda>(jb, d).
     case wrapE ''prepare context'' (PrepareContext None) of
       Inl e \<Rightarrow> (Inl e, (jb, d))
     | Inr c \<Rightarrow>
         (case handleEach E logs (jb, c) of
            (Inl e, jb, c) \<Rightarrow> (Inl e, (jb, d))
          | (Inr _, jb, c) \<Rightarrow> wrapG ''job commit'' (Job_Commit P D U J ctx c progressBlock) (jb, d)))"

section \<open>Modes and production\<close>

datatype mode = ModePoll | ModeWS | ModeHistory | ModeOther string

definition OnIndexerModeChange :: "mode \<Rightarrow> zk_job \<Rightarrow> zk_job" where
  "OnIndexerModeChange md jb =
     (let reg = zjRegistry jb; progressTracker = regProgress reg in
      if md = ModeWS \<or> md = ModePoll then
        (if \<not> IsOnHead progressTracker
         then jb\<lparr>zjRegistry := reg\<lparr>regProgress := SetOnHead True progressTracker\<rparr>\<rparr> else jb)
      else if md = ModeHistory then
        (if IsOnHead progressTracker
         then jb\<lparr>zjRegistry := reg\<lparr>regProgress := SetOnHead False progressTracker\<rparr>\<rparr> else jb)
      else jb)"

definition Produce :: "('d, 'b) db_ops \<Rightarrow> 'd service_state \<Rightarrow> job_descriptor \<Rightarrow> goerr + zk_job" where
  "Produce D s jd =
     (if jdContract jd = ContractZkCertificateRegistry then
        bindE (wrapE ''get zk certificate registry for address'' (Service_Registry D s (jdAddress jd)))
          (\<lambda>registry. Inr (NewZkCertificateRegistryJob jd registry))
      else Inl (ErrNew ''unknown contract''))"

end
