(* ===== verification/Job_Correct.thy ===== *)
theory Job_Correct
  imports Indexer_Job Service_Correct
begin

text \<open>
  A batch of logs that parses is committed together with the progress of the job, in one write; a
  batch that does not parse changes nothing in the database.  Replaying a batch changes nothing,
  which makes it safe to resume a job from the last block it has processed.
\<close>

section \<open>The operations of a list of logs\<close>

definition eventOp :: "certificate_processed \<Rightarrow> leaf_operation list option" where
  "eventOp cp =
     (let leaf = \<lparr>leafIndex = word_of_nat (cpLeafIndex cp), leafValue = word_of_nat (bigSetBytes (cpLeafHash cp))\<rparr> in
      if 2 ^ 256 \<le> bigSetBytes (cpLeafHash cp) then None
      else if cpOperation cp = 0 then Some [\<lparr>opLeaf = leaf, opOp = OperationAddition\<rparr>]
      else if cpOperation cp = 1 then Some [\<lparr>opLeaf = leaf, opOp = OperationRevocation\<rparr>]
      else None)"

definition logOp :: "event_abi \<Rightarrow> evm_log \<Rightarrow> leaf_operation list option" where
  "logOp E log =
     (if logRemoved log then Some []
      else case logTopics log of
             [] \<Rightarrow> None
           | topic # _ \<Rightarrow>
               if Inr topic \<noteq> abiCertificateProcessed E then None
               else case abiParse E log of Inl _ \<Rightarrow> None | Inr cp \<Rightarrow> eventOp cp)"

fun logsOps :: "event_abi \<Rightarrow> evm_log list \<Rightarrow> leaf_operation list option" where
  "logsOps E [] = Some []"
| "logsOps E (log # logs) =
     (case logOp E log of None \<Rightarrow> None
      | Some ops \<Rightarrow> (case logsOps E logs of None \<Rightarrow> None | Some ops' \<Rightarrow> Some (ops @ ops')))"

lemma logsOps_append:
  "logsOps E (xs @ ys) = (case logsOps E xs of None \<Rightarrow> None
     | Some ops \<Rightarrow> (case logsOps E ys of None \<Rightarrow> None | Some ops' \<Rightarrow> Some (ops @ ops')))"
  by (induction xs) (auto split: option.splits)

text \<open>The ABI has the event, and binding the parser succeeds.\<close>

definition abiOk :: "event_abi \<Rightarrow> bool" where
  "abiOk E \<longleftrightarrow> (\<exists>i. abiCertificateProcessed E = Inr i) \<and> (\<forall>a. abiNewFilterer E a = Inr ())"

lemma ucast_bigUint64: "(ucast (bigUint64 n) :: leaf_index) = word_of_nat n"
  by (simp add: bigUint64_def unsigned_of_nat word_of_nat_eq_iff)

lemma parser_same: "\<exists>pr. jb = jb\<lparr>zjParser := pr\<rparr>"
  by (rule exI [of _ "zjParser jb"]) simp

lemma HandleEVMLog_ok:
  assumes "abiOk E"
  shows "case logOp E log of
      Some ops \<Rightarrow> \<exists>pr. HandleEVMLog E log (jb, Some buffer) = (Inr (), (jb\<lparr>zjParser := pr\<rparr>, Some (buffer @ ops)))
    | None \<Rightarrow> \<exists>e pr. HandleEVMLog E log (jb, Some buffer) = (Inl e, (jb\<lparr>zjParser := pr\<rparr>, Some buffer))"
proof -
  obtain i where i: "abiCertificateProcessed E = Inr i" using assms by (auto simp: abiOk_def)
  define jb' where "jb' = jb\<lparr>zjParser := True\<rparr>"
  have lazy: "getParserLazy E jb = (Inr (), jb')"
    using assms by (auto simp: getParserLazy_def abiOk_def jb'_def)
  have ev: "case (case abiParse E log of Inl _ \<Rightarrow> None | Inr cp \<Rightarrow> eventOp cp) of
      Some ops \<Rightarrow> handleCertificateProcessedLog E log (jb, Some buffer) = (Inr (), (jb', Some (buffer @ ops)))
    | None \<Rightarrow> \<exists>e. handleCertificateProcessedLog E log (jb, Some buffer) = (Inl e, (jb', Some buffer))"
    using lazy
    by (auto simp: handleCertificateProcessedLog_def eventOp_def uint256FromBig_def Let_def ucast_bigUint64
        AppendAddition_def AppendRevocation_def wrapG_def split: sum.splits)
  show ?thesis
  proof (cases "logRemoved log \<or> logTopics log = [] \<or> hd (logTopics log) \<noteq> i")
    case True
    then show ?thesis
      using i parser_same [of jb] by (cases "logTopics log") (auto simp: logOp_def HandleEVMLog_def goIndex_def)
  next
    case False
    then have "HandleEVMLog E log (jb, Some buffer) =
        wrapG ''handle CertificateProcessed log'' (handleCertificateProcessedLog E log) (jb, Some buffer)"
      "logOp E log = (case abiParse E log of Inl _ \<Rightarrow> None | Inr cp \<Rightarrow> eventOp cp)"
      using i by (cases "logTopics log"; simp add: HandleEVMLog_def goIndex_def logOp_def)+
    then show ?thesis
      using ev by (auto simp: jb'_def wrapG_def split: option.splits)
  qed
qed

lemma handleEach_ok:
  assumes "abiOk E"
  shows "case logsOps E logs of
      Some ops \<Rightarrow> \<exists>pr. handleEach E logs (jb, Some buffer) = (Inr (), (jb\<lparr>zjParser := pr\<rparr>, Some (buffer @ ops)))
    | None \<Rightarrow> \<exists>e pr c. handleEach E logs (jb, Some buffer) = (Inl e, (jb\<lparr>zjParser := pr\<rparr>, c))"
proof (induction logs arbitrary: jb buffer)
  case Nil
  show ?case using parser_same [of jb] by simp
next
  case (Cons log logs)
  note h = HandleEVMLog_ok [OF assms, of log jb buffer]
  show ?case
  proof (cases "logOp E log")
    case None
    then show ?thesis using h by (auto simp: wrapG_def bindG_def)
  next
    case (Some ops)
    then obtain pr where step: "HandleEVMLog E log (jb, Some buffer) = (Inr (), (jb\<lparr>zjParser := pr\<rparr>, Some (buffer @ ops)))"
      using h by auto
    have "handleEach E (log # logs) (jb, Some buffer) = handleEach E logs (jb\<lparr>zjParser := pr\<rparr>, Some (buffer @ ops))"
      using step by (simp add: wrapG_def bindG_def)
    then show ?thesis
      using Cons.IH [of "jb\<lparr>zjParser := pr\<rparr>" "buffer @ ops"] Some by (auto split: option.splits)
  qed
qed

section \<open>Commits\<close>

lemma sameRegistry_refl: "sameRegistry reg reg"
  by (simp add: sameRegistry_def)

text \<open>\<open>jobStored J m jd block\<close>: the database \<open>m\<close> holds the job with this progress.\<close>

definition jobStored :: "job codec_ops \<Rightarrow> kv \<Rightarrow> job_descriptor \<Rightarrow> u64 \<Rightarrow> bool" where
  "jobStored J m jd block \<longleftrightarrow>
     m (makeJobKey jd) = Some (encoded J \<lparr>jobDescriptor = jd, jobCurrentBlock = block\<rparr>)"

locale job_env = registry_env P p D content pending isOpen U + jobs: msgpack_codec J
  for P p and D :: "('d, 'b) db_ops" and content pending isOpen U and J :: "job codec_ops"
begin

lemma SelectJob_stored:
  "jobStored J (content d) jd block \<Longrightarrow>
    SelectJob D J d jd = Inr \<lparr>jobDescriptor = jd, jobCurrentBlock = block\<rparr>"
  by (simp add: SelectJob_def get_ok jobStored_def)

lemma UpsertJob_ok:
  assumes "isOpen b"
  shows "runs (UpsertJob D J jb) b (\<lambda>_ b'. isOpen b' \<and>
    pending b' = (pending b)(makeJobKey (jobDescriptor jb) \<mapsto> Some (encoded J jb)))"
  using bset_ok [OF assms keys_nonempty(3)] by (simp add: runs_def UpsertJob_def jobs.encode_eq)

lemma finish_commit:
  assumes b: "isOpen b"
    and ops: "(if length operations > 0
       then wrapG ''insert leaves'' (CommitOperations P D U d ctx operations) (zjRegistry jb, dbNewBatch D d)
       else (Inr (), (zjRegistry jb, dbNewBatch D d))) = (Inr (), (reg', b))"
  shows "\<exists>d'. Job_Commit P D U J ctx (Some operations) block (jb, d) =
      (Inr (), (jb\<lparr>zjRegistry := reg'\<rparr>, d')) \<and>
    content d' = (applyOverlay (pending b) (content d))(makeJobKey (zjDescriptor jb) \<mapsto>
      encoded J \<lparr>jobDescriptor = zjDescriptor jb, jobCurrentBlock = block\<rparr>)"
proof -
  let ?job = "\<lparr>jobDescriptor = zjDescriptor jb, jobCurrentBlock = block\<rparr>"
  obtain b' where b': "UpsertJob D J ?job b = (Inr (), b')" "isOpen b'"
      "pending b' = (pending b)(makeJobKey (zjDescriptor jb) \<mapsto> Some (encoded J ?job))"
    using UpsertJob_ok [OF b, of ?job] by (auto simp: runs_def)
  obtain d' b'' where w: "batchWriteSync D (d, b') = (Inr (), d', b'')"
      "content d' = applyOverlay (pending b') (content d)"
    using write_ok [OF b'(2)] by blast
  have "content d' = (applyOverlay (pending b) (content d))(makeJobKey (zjDescriptor jb) \<mapsto> encoded J ?job)"
    using w(2) b'(3) by (auto simp: applyOverlay_def)
  moreover have "Job_Commit P D U J ctx (Some operations) block (jb, d) = (Inr (), (jb\<lparr>zjRegistry := reg'\<rparr>, d'))"
    using ops b'(1) w(1) by (simp add: Job_Commit_def Operations_def Let_def writeBatchWithLock_def wrapG_def)
  ultimately show ?thesis by blast
qed

lemma Job_Commit_ok:
  assumes rep: "represents P p U (zjRegistry jb) (content d) A"
    and ops: "\<forall>op\<in>set operations. opOk p (unat (depth (regTree (zjRegistry jb)))) op"
    and nz: "nonzeroTree P (mdEmptyValue (regMetadata (zjRegistry jb))) (unat (depth (regTree (zjRegistry jb))))
      (fst (absOps (mdEmptyValue (regMetadata (zjRegistry jb))) operations A))"
  shows "\<exists>reg' d'. Job_Commit P D U J ctx (Some operations) block (jb, d) =
      (Inr (), (jb\<lparr>zjRegistry := reg'\<rparr>, d')) \<and> sameRegistry (zjRegistry jb) reg' \<and>
    represents P p U reg' (content d') (absOps (mdEmptyValue (regMetadata (zjRegistry jb))) operations A) \<and>
    jobStored J (content d') (zjDescriptor jb) block \<and>
    (\<forall>k. \<not> registryKey U (regLeafView (zjRegistry jb)) k \<longrightarrow> k \<noteq> makeJobKey (zjDescriptor jb) \<longrightarrow>
       content d' k = content d k)"
proof -
  let ?reg = "zjRegistry jb" and ?b = "dbNewBatch D d"
  let ?A = "absOps (mdEmptyValue (regMetadata ?reg)) operations A"
  obtain lf ix where A: "A = (lf, ix)" by (cases A)
  have "\<exists>reg' b. isOpen b \<and> (if length operations > 0
       then wrapG ''insert leaves'' (CommitOperations P D U d ctx operations) (?reg, ?b)
       else (Inr (), (?reg, ?b))) = (Inr (), (reg', b)) \<and> sameRegistry ?reg reg' \<and>
     represents P p U reg' (applyOverlay (pending b) (content d)) ?A \<and>
     (\<forall>k. \<not> registryKey U (regLeafView ?reg) k \<longrightarrow> pending b k = None)"
  proof (cases "operations = []")
    case True
    then show ?thesis
      using rep new_ok [of d] sameRegistry_refl [of ?reg] by (auto simp: absOps_def)
  next
    case False
    have nb: "isOpen ?b" "pending ?b = Map.empty" using new_ok by auto
    show ?thesis
      using CommitOperations_ok [OF rep [unfolded A] nb(1) _ ops nz [unfolded A], of ctx] False
      by (fastforce simp: runs_def nb(2) A)
  qed
  then obtain reg' b where b: "isOpen b" "(if length operations > 0
       then wrapG ''insert leaves'' (CommitOperations P D U d ctx operations) (?reg, ?b)
       else (Inr (), (?reg, ?b))) = (Inr (), (reg', b))"
    and r: "sameRegistry ?reg reg'" "represents P p U reg' (applyOverlay (pending b) (content d)) ?A"
    and k: "\<And>k. \<not> registryKey U (regLeafView ?reg) k \<Longrightarrow> pending b k = None"
    by blast
  obtain d' where d': "Job_Commit P D U J ctx (Some operations) block (jb, d) = (Inr (), (jb\<lparr>zjRegistry := reg'\<rparr>, d'))"
      "content d' = (applyOverlay (pending b) (content d))(makeJobKey (zjDescriptor jb) \<mapsto>
        encoded J \<lparr>jobDescriptor = zjDescriptor jb, jobCurrentBlock = block\<rparr>)"
    using finish_commit [OF b] by blast
  have "represents P p U reg' (content d') ?A"
    using represents_frame [of U reg' "content d'" "applyOverlay (pending b) (content d)"] r(2)
      registryKey_other(5) by (auto simp: d'(2))
  then show ?thesis
    using d' r(1) k by (auto simp: jobStored_def)
qed

lemma handleLogs_ok:
  assumes E: "abiOk E" and logs: "logsOps E logs = Some ops"
    and rep: "represents P p U (zjRegistry jb) (content d) A"
    and ops: "\<forall>op\<in>set ops. opOk p (unat (depth (regTree (zjRegistry jb)))) op"
    and nz: "nonzeroTree P (mdEmptyValue (regMetadata (zjRegistry jb))) (unat (depth (regTree (zjRegistry jb))))
      (fst (absOps (mdEmptyValue (regMetadata (zjRegistry jb))) ops A))"
  shows "\<exists>jb' d'. handleLogs P D U J E ctx logs block (jb, d) = (Inr (), (jb', d')) \<and>
    zjDescriptor jb' = zjDescriptor jb \<and> sameRegistry (zjRegistry jb) (zjRegistry jb') \<and>
    represents P p U (zjRegistry jb') (content d') (absOps (mdEmptyValue (regMetadata (zjRegistry jb))) ops A) \<and>
    jobStored J (content d') (zjDescriptor jb) block \<and>
    (\<forall>k. \<not> registryKey U (regLeafView (zjRegistry jb)) k \<longrightarrow> k \<noteq> makeJobKey (zjDescriptor jb) \<longrightarrow>
       content d' k = content d k)"
proof -
  obtain pr where each: "handleEach E logs (jb, Some []) = (Inr (), (jb\<lparr>zjParser := pr\<rparr>, Some ops))"
    using handleEach_ok [OF E, of logs jb "[]"] logs by auto
  obtain reg' d' where c: "Job_Commit P D U J ctx (Some ops) block (jb\<lparr>zjParser := pr\<rparr>, d) =
      (Inr (), (jb\<lparr>zjParser := pr, zjRegistry := reg'\<rparr>, d'))"
    and r: "sameRegistry (zjRegistry jb) reg'"
      "represents P p U reg' (content d') (absOps (mdEmptyValue (regMetadata (zjRegistry jb))) ops A)"
      "jobStored J (content d') (zjDescriptor jb) block"
      "\<forall>k. \<not> registryKey U (regLeafView (zjRegistry jb)) k \<longrightarrow> k \<noteq> makeJobKey (zjDescriptor jb) \<longrightarrow>
         content d' k = content d k"
    using Job_Commit_ok [of "jb\<lparr>zjParser := pr\<rparr>" d A ops ctx block] rep ops nz by auto
  have "handleLogs P D U J E ctx logs block (jb, d) = (Inr (), (jb\<lparr>zjParser := pr, zjRegistry := reg'\<rparr>, d'))"
    using each c by (simp add: handleLogs_def PrepareContext_def WithOperationsBuffer_def NewOperationsBuffer_def wrapG_def)
  then show ?thesis using r by (intro exI conjI) (assumption | simp)+
qed

end

lemma handleLogs_refused:
  assumes "abiOk E" and "logsOps E logs = None"
  shows "\<exists>e jb'. handleLogs P D U J E ctx logs block (jb, d) = (Inl e, (jb', d)) \<and>
    zjRegistry jb' = zjRegistry jb \<and> zjDescriptor jb' = zjDescriptor jb"
  using handleEach_ok [OF assms(1), of logs jb "[]"] assms(2)
  by (auto simp: handleLogs_def PrepareContext_def WithOperationsBuffer_def NewOperationsBuffer_def)

section \<open>Replaying operations\<close>

definition touched :: "leaf_operation list \<Rightarrow> nat set" where
  "touched ops = (\<lambda>op. unat (leafIndex (opLeaf op))) ` set ops"

definition touchedValues :: "leaf_operation list \<Rightarrow> u256 set" where
  "touchedValues ops = (\<lambda>op. leafValue (opLeaf op)) ` set ops"

lemma absOps_Cons: "absOps e (op # ops) A = absOps e ops (absOp e op A)"
  by (simp add: absOps_def)

lemma absOps_append: "absOps e (xs @ ys) A = absOps e ys (absOps e xs A)"
  by (simp add: absOps_def)

lemma absOps_untouched:
  "i \<notin> touched ops \<Longrightarrow> fst (absOps e ops A) i = fst A i"
  "v \<notin> touchedValues ops \<Longrightarrow> snd (absOps e ops A) v = snd A v"
  by (induction ops arbitrary: A)
     (auto simp: absOps_Cons touched_def touchedValues_def absOp_def absOps_def split: prod.splits)

lemma absOps_touched:
  assumes "i \<in> touched ops"
  shows "fst (absOps e ops A) i = fst (absOps e ops B) i"
  using assms
proof (induction ops arbitrary: A B)
  case (Cons op ops)
  show ?case
  proof (cases "i \<in> touched ops")
    case False
    then have "i = unat (leafIndex (opLeaf op))" using Cons.prems by (simp add: touched_def)
    then show ?thesis
      using absOps_untouched(1) [OF False] by (simp add: absOps_Cons absOp_def split: prod.splits)
  qed (simp add: absOps_Cons Cons.IH)
qed (simp add: touched_def)

lemma absOps_touchedValues:
  assumes "v \<in> touchedValues ops"
  shows "snd (absOps e ops A) v = snd (absOps e ops B) v"
  using assms
proof (induction ops arbitrary: A B)
  case (Cons op ops)
  show ?case
  proof (cases "v \<in> touchedValues ops")
    case False
    then have "v = leafValue (opLeaf op)" using Cons.prems by (simp add: touchedValues_def)
    then show ?thesis
      using absOps_untouched(2) [OF False] by (simp add: absOps_Cons absOp_def split: prod.splits)
  qed (simp add: absOps_Cons Cons.IH)
qed (simp add: touchedValues_def)

lemma absOps_replay: "absOps e ops (absOps e ops A) = absOps e ops A"
proof (rule prod_eqI; rule ext)
  show "fst (absOps e ops (absOps e ops A)) i = fst (absOps e ops A) i" for i
    by (cases "i \<in> touched ops") (metis absOps_touched absOps_untouched(1))+
  show "snd (absOps e ops (absOps e ops A)) v = snd (absOps e ops A) v" for v
    by (cases "v \<in> touchedValues ops") (metis absOps_touchedValues absOps_untouched(2))+
qed

end
