(* ===== verification/Evm_Indexer.thy ===== *)
theory Evm_Indexer
  imports Job_Correct
begin

text \<open>
  The loop of the indexer (\<open>internal/indexer/indexer.go\<close>).  \<open>IndexEVMLogs\<close> runs for as long as the
  service does, so it is a machine that takes one step at a time: a round of the loop over block
  ranges, one look at the head while polling, or one \<open>select\<close> of the subscription loop.

  The Ethereum client is the record \<open>eth_client\<close> over the state \<open>'e\<close> of the outside world, which
  also decides what a \<open>select\<close> sees.  Sleeping and logging are left out.
\<close>

section \<open>Configuration\<close>

record ix_config =
  cfgMaxBlocksDistance :: u64
  cfgSinkChannelSize :: u64
  cfgSinkProgressTick :: u64
  cfgIndexerMode :: mode
  cfgPollingInterval :: u64

definition MaxBlocksDistance :: u64 where "MaxBlocksDistance = 10000"
definition SinkSize :: u64 where "SinkSize = 100"
definition SinkProgressTick :: u64 where "SinkProgressTick = 5000000000"
definition PollingInterval :: u64 where "PollingInterval = 1000000000"

definition NewEVMIndexer :: "ix_config \<Rightarrow> ix_config" where
  "NewEVMIndexer config =
     (let config = (if cfgMaxBlocksDistance config = 0
                    then config\<lparr>cfgMaxBlocksDistance := MaxBlocksDistance\<rparr> else config);
          config = (if cfgSinkChannelSize config = 0
                    then config\<lparr>cfgSinkChannelSize := SinkSize\<rparr> else config);
          config = (if cfgSinkProgressTick config = 0
                    then config\<lparr>cfgSinkProgressTick := SinkProgressTick\<rparr> else config);
          config = (if cfgIndexerMode config = ModeOther ''''
                    then config\<lparr>cfgIndexerMode := ModePoll\<rparr> else config);
          config = (if cfgPollingInterval config = 0
                    then config\<lparr>cfgPollingInterval := PollingInterval\<rparr> else config)
      in config)"

section \<open>The machine\<close>

text \<open>
  What one \<open>select\<close> of the subscription loop receives: the end of the context, a tick of the timer, a
  closed channel, or a log, followed by what \<open>readUntilEmpty\<close> reads after it.
\<close>

datatype sink_event = SinkDone | SinkTick | SinkClosed | SinkLog evm_log "goerr + evm_log list"

record 'e eth_client =
  ecBlockNumber :: "('e, u64) go"
  ecFilterLogs :: "u64 \<Rightarrow> u64 \<Rightarrow> ('e, evm_log list) go"
  ecSubscribe :: "'e \<Rightarrow> 'e"
  ecSelect :: "'e \<Rightarrow> sink_event \<times> 'e"

datatype ix_phase = Indexing | Polling | Sink | Stopped "goerr + unit"

record ('d, 'e) ix_state =
  ixPhase :: ix_phase
  ixFrom :: u64
  ixCurrent :: u64
  ixOnHead :: bool
  ixSubscribed :: bool
  ixJob :: zk_job
  ixDb :: 'd
  ixEnv :: 'e
  ixCtx :: ctx

text \<open>The parameters of a run: hash, database, codecs, ABI, client.\<close>

record ('d, 'b, 'e) ix_env =
  ieHash :: poseidon
  ieDb :: "('d, 'b) db_ops"
  ieU256 :: u256_ops
  ieCodec :: "job codec_ops"
  ieAbi :: event_abi
  ieClient :: "'e eth_client"

definition stop :: "goerr + unit \<Rightarrow> ('d, 'e) ix_state \<Rightarrow> ('d, 'e) ix_state" where
  "stop r s = s\<lparr>ixPhase := Stopped r\<rparr>"

definition ctxDone :: "ctx \<Rightarrow> bool" where
  "ctxDone c \<longleftrightarrow> c = Some 0"

definition tickCtx :: "('d, 'e) ix_state \<Rightarrow> ('d, 'e) ix_state" where
  "tickCtx s = s\<lparr>ixCtx := map_option (\<lambda>n. n - 1) (ixCtx s)\<rparr>"

text \<open>Everything before the loop.\<close>

definition IndexEVMLogs ::
    "('d, 'b, 'e) ix_env \<Rightarrow> u64 \<Rightarrow> zk_job \<Rightarrow> 'd \<Rightarrow> 'e \<Rightarrow> ctx \<Rightarrow> ('d, 'e) ix_state" where
  "IndexEVMLogs I startBlock handler d env c =
     (case ecBlockNumber (ieClient I) env of
        (r, env) \<Rightarrow>
          (let s = \<lparr>ixPhase = Indexing, ixFrom = startBlock, ixCurrent = 0, ixOnHead = False,
                    ixSubscribed = False, ixJob = handler, ixDb = d, ixEnv = env, ixCtx = c\<rparr>
           in case wrapE ''get current block number'' r of
                Inl e \<Rightarrow> stop (Inl e) s
              | Inr currentBlock \<Rightarrow>
                  if startBlock > currentBlock
                  then stop (Inl (ErrNew ''start block is greater than the current block'')) s
                  else s\<lparr>ixCurrent := currentBlock, ixJob := OnIndexerModeChange ModeHistory handler\<rparr>))"

text \<open>The range of the next query; the addition wraps around.\<close>

definition nextTo :: "ix_config \<Rightarrow> ('d, 'e) ix_state \<Rightarrow> u64" where
  "nextTo cfg s = min (ixFrom s + cfgMaxBlocksDistance cfg - 1) (ixCurrent s)"

text \<open>The \<open>switch\<close> at the end of a round.\<close>

definition afterPoll :: "('d, 'e) ix_state \<Rightarrow> ('d, 'e) ix_state" where
  "afterPoll s =
     (if ixFrom s \<le> ixCurrent s then s
      else (if \<not> ixOnHead s
            then s\<lparr>ixOnHead := True, ixJob := OnIndexerModeChange ModePoll (ixJob s)\<rparr> else s)
           \<lparr>ixPhase := Polling\<rparr>)"

definition closeToHead :: "ix_config \<Rightarrow> ('d, 'e) ix_state \<Rightarrow> bool" where
  "closeToHead cfg s \<longleftrightarrow> ixCurrent s - ixFrom s \<le> cfgMaxBlocksDistance cfg"

definition afterWS ::
    "('d, 'b, 'e) ix_env \<Rightarrow> ix_config \<Rightarrow> ('d, 'e) ix_state \<Rightarrow> ('d, 'e) ix_state" where
  "afterWS I cfg s =
     (if \<not> ixSubscribed s \<and> closeToHead cfg s then
        (let s = s\<lparr>ixSubscribed := True, ixEnv := ecSubscribe (ieClient I) (ixEnv s)\<rparr> in
         case wrapG ''get current block number'' (ecBlockNumber (ieClient I)) (ixEnv s) of
           (Inl e, env) \<Rightarrow> stop (Inl e) (s\<lparr>ixEnv := env\<rparr>)
         | (Inr currentBlock, env) \<Rightarrow> s\<lparr>ixCurrent := currentBlock, ixEnv := env\<rparr>)
      else s)"

text \<open>One round of the loop over block ranges, and what follows the loop.\<close>

definition indexRound ::
    "('d, 'b, 'e) ix_env \<Rightarrow> ix_config \<Rightarrow> ('d, 'e) ix_state \<Rightarrow> ('d, 'e) ix_state" where
  "indexRound I cfg s =
     (let toBlock = nextTo cfg s in
      case wrapG ''filter logs'' (ecFilterLogs (ieClient I) (ixFrom s) toBlock) (ixEnv s) of
        (Inl e, env) \<Rightarrow> stop (Inl e) (s\<lparr>ixEnv := env\<rparr>)
      | (Inr logs, env) \<Rightarrow>
          (case wrapG ''handle logs'' (handleLogs (ieHash I) (ieDb I) (ieU256 I) (ieCodec I) (ieAbi I)
                  (ixCtx s) logs toBlock) (ixJob s, ixDb s) of
             (Inl e, jb, d) \<Rightarrow> stop (Inl e) (s\<lparr>ixEnv := env, ixJob := jb, ixDb := d\<rparr>)
           | (Inr _, jb, d) \<Rightarrow>
               (let s = s\<lparr>ixEnv := env, ixJob := jb, ixDb := d, ixFrom := toBlock + 1\<rparr> in
                if ctxDone (ixCtx s) then stop (Inl ErrCanceled) s
                else let s = tickCtx s in
                     case cfgIndexerMode cfg of
                       ModePoll \<Rightarrow> afterPoll s
                     | ModeWS \<Rightarrow> afterWS I cfg s
                     | _ \<Rightarrow> stop (Inl (ErrNew ''unknown indexer mode'')) s)))"

definition afterLoop ::
    "('d, 'b, 'e) ix_env \<Rightarrow> ix_config \<Rightarrow> ('d, 'e) ix_state \<Rightarrow> ('d, 'e) ix_state" where
  "afterLoop I cfg s =
     (if cfgIndexerMode cfg \<noteq> ModeWS then stop (Inr ()) s
      else (let s = (if ixSubscribed s then s
                     else s\<lparr>ixEnv := ecSubscribe (ieClient I) (ixEnv s)\<rparr>)
            in s\<lparr>ixPhase := Sink, ixJob := OnIndexerModeChange ModeWS (ixJob s)\<rparr>))"

text \<open>One look at the head while polling.\<close>

definition pollRound :: "('d, 'b, 'e) ix_env \<Rightarrow> ('d, 'e) ix_state \<Rightarrow> ('d, 'e) ix_state" where
  "pollRound I s =
     (case wrapG ''get current block number'' (ecBlockNumber (ieClient I)) (ixEnv s) of
        (Inl e, env) \<Rightarrow> stop (Inl e) (s\<lparr>ixEnv := env\<rparr>)
      | (Inr currentBlock, env) \<Rightarrow>
          (let s = s\<lparr>ixCurrent := currentBlock, ixEnv := env\<rparr> in
           if currentBlock \<ge> ixFrom s then s\<lparr>ixPhase := Indexing\<rparr>
           else if ctxDone (ixCtx s) then stop (Inl ErrCanceled) s
           else tickCtx s))"

text \<open>One \<open>select\<close> of \<open>runSinkIndexation\<close>.\<close>

definition sinkRound :: "('d, 'b, 'e) ix_env \<Rightarrow> ('d, 'e) ix_state \<Rightarrow> ('d, 'e) ix_state" where
  "sinkRound I s =
     (case ecSelect (ieClient I) (ixEnv s) of
        (ev, env) \<Rightarrow>
          (let s = s\<lparr>ixEnv := env\<rparr> in
           case ev of
             SinkDone \<Rightarrow> stop (Inl ErrCanceled) s
           | SinkTick \<Rightarrow>
               (case wrapG ''get current block number'' (ecBlockNumber (ieClient I)) (ixEnv s) of
                  (Inl e, env) \<Rightarrow> stop (Inl e) (s\<lparr>ixEnv := env\<rparr>)
                | (Inr _, env) \<Rightarrow> s\<lparr>ixEnv := env\<rparr>)
           | SinkClosed \<Rightarrow> stop (Inr ()) s
           | SinkLog eventLog r \<Rightarrow>
               (case wrapE ''read until empty'' r of
                  Inl e \<Rightarrow> stop (Inl e) s
                | Inr logs \<Rightarrow>
                    (let logs = eventLog # logs;
                         progressBlock = logBlockNumber (last logs);
                         logsToProcess = filter (\<lambda>l. logBlockNumber l \<ge> ixFrom s) logs
                     in case wrapG ''handle logs'' (handleLogs (ieHash I) (ieDb I) (ieU256 I) (ieCodec I)
                               (ieAbi I) (ixCtx s) logsToProcess progressBlock) (ixJob s, ixDb s) of
                          (Inl e, jb, d) \<Rightarrow> stop (Inl e) (s\<lparr>ixJob := jb, ixDb := d\<rparr>)
                        | (Inr _, jb, d) \<Rightarrow> s\<lparr>ixJob := jb, ixDb := d\<rparr>))))"

definition ixStep ::
    "('d, 'b, 'e) ix_env \<Rightarrow> ix_config \<Rightarrow> ('d, 'e) ix_state \<Rightarrow> ('d, 'e) ix_state" where
  "ixStep I cfg s =
     (case ixPhase s of
        Indexing \<Rightarrow> if ixFrom s \<le> ixCurrent s then indexRound I cfg s else afterLoop I cfg s
      | Polling \<Rightarrow> pollRound I s
      | Sink \<Rightarrow> sinkRound I s
      | Stopped _ \<Rightarrow> s)"

fun ixRun :: "('d, 'b, 'e) ix_env \<Rightarrow> ix_config \<Rightarrow> nat \<Rightarrow> ('d, 'e) ix_state \<Rightarrow> ('d, 'e) ix_state" where
  "ixRun I cfg 0 s = s"
| "ixRun I cfg (Suc n) s = ixRun I cfg n (ixStep I cfg s)"

end
