(* ===== verification/Indexer_Correct.thy ===== *)
theory Indexer_Correct
  imports Evm_Indexer
begin

text \<open>
  The polling indexer keeps the registry in step with the chain: at every moment the database
  represents the operations of all blocks from the first one up to the last one processed, each block
  once and in order.  The contract \<open>chain_client\<close> is what the indexer relies on: a query for a range
  of blocks returns the logs of these blocks in order, and heads leave room for the arithmetic on
  block numbers.
\<close>

section \<open>Operations of a range of blocks\<close>

definition chainLogs :: "(nat \<Rightarrow> evm_log list) \<Rightarrow> nat \<Rightarrow> nat \<Rightarrow> evm_log list" where
  "chainLogs chain m n = concat (map chain [m..<n])"

definition chainOps :: "event_abi \<Rightarrow> (nat \<Rightarrow> evm_log list) \<Rightarrow> nat \<Rightarrow> nat \<Rightarrow> leaf_operation list" where
  "chainOps E chain m n = concat (map (\<lambda>b. the (logsOps E (chain b))) [m..<n])"

lemma chainOps_split:
  "m \<le> k \<Longrightarrow> k \<le> n \<Longrightarrow> chainOps E chain m n = chainOps E chain m k @ chainOps E chain k n"
proof -
  assume "m \<le> k" "k \<le> n"
  then have "[m..<n] = [m..<k] @ [k..<n]"
    using upt_add_eq_append [of m k "n - k"] by simp
  then show ?thesis by (simp add: chainOps_def)
qed

lemma chainOps_empty [simp]: "chainOps E chain m m = []"
  by (simp add: chainOps_def)

lemma logsOps_chainLogs:
  assumes "\<And>b. logsOps E (chain b) \<noteq> None"
  shows "logsOps E (chainLogs chain m n) = Some (chainOps E chain m n)"
proof -
  have "logsOps E (concat (map chain bs)) = Some (concat (map (\<lambda>b. the (logsOps E (chain b))) bs))" for bs
    using assms by (induction bs) (auto simp: logsOps_append split: option.splits)
  then show ?thesis by (simp add: chainLogs_def chainOps_def)
qed

text \<open>Resuming from the last processed block replays its operations, to no effect.\<close>

lemma chainOps_resume:
  assumes "m \<le> b" "b < n"
  shows "absOps e (chainOps E chain b n) (absOps e (chainOps E chain m (Suc b)) A) =
    absOps e (chainOps E chain m n) A"
proof -
  let ?X = "chainOps E chain m b" and ?L = "chainOps E chain b (Suc b)" and ?Y = "chainOps E chain (Suc b) n"
  have "chainOps E chain m (Suc b) = ?X @ ?L" "chainOps E chain b n = ?L @ ?Y"
    "chainOps E chain m n = ?X @ ?L @ ?Y"
    using assms chainOps_split [of m b "Suc b"] chainOps_split [of b "Suc b" n]
      chainOps_split [of m b n] by auto
  then show ?thesis by (simp add: absOps_append absOps_replay)
qed

section \<open>The contract of the client\<close>

locale chain_client =
  fixes K :: "'e eth_client" and chain :: "nat \<Rightarrow> evm_log list" and maxHead :: nat
  assumes head: "ecBlockNumber K env = (Inr n, env') \<Longrightarrow> unat n \<le> maxHead"
    and logs_of_range: "ecFilterLogs K from to env = (Inr logs, env') \<Longrightarrow> from \<le> to \<Longrightarrow>
      logs = chainLogs chain (unat from) (Suc (unat to))"

text \<open>The range of a round lies between the next block and the head.\<close>

lemma nextTo_range:
  assumes "ixFrom s \<le> ixCurrent s" "cfgMaxBlocksDistance cfg \<noteq> 0"
    "unat (ixCurrent s) + unat (cfgMaxBlocksDistance cfg) < 2 ^ 64"
  shows "ixFrom s \<le> nextTo cfg s" "nextTo cfg s \<le> ixCurrent s"
    "unat (nextTo cfg s) = min (unat (ixFrom s) + unat (cfgMaxBlocksDistance cfg) - 1) (unat (ixCurrent s))"
    "unat (nextTo cfg s + 1) = Suc (unat (nextTo cfg s))"
proof -
  let ?f = "ixFrom s" and ?c = "ixCurrent s" and ?k = "cfgMaxBlocksDistance cfg"
  have k: "1 \<le> unat ?k" using assms(2) by (simp add: unat_gt_0 Suc_le_eq)
  have fc: "unat ?f \<le> unat ?c" using assms(1) by (simp add: word_le_nat_alt)
  have sum: "unat (?f + ?k) = unat ?f + unat ?k"
    using fc assms(3) by (simp add: unat_word_ariths)
  have nz: "1 \<le> ?f + ?k" using sum k by (simp add: word_le_nat_alt)
  have sub: "unat (?f + ?k - 1) = unat ?f + unat ?k - 1"
    using sum nz by (simp add: unat_sub)
  have min: "unat (min a b) = min (unat a) (unat b)" for a b :: u64
    by (simp add: min_def word_le_nat_alt)
  show eq: "unat (nextTo cfg s) = min (unat ?f + unat ?k - 1) (unat ?c)"
    by (simp add: nextTo_def min sub)
  show "?f \<le> nextTo cfg s" "nextTo cfg s \<le> ?c"
    using eq k fc by (auto simp: word_le_nat_alt)
  have "Suc (unat (nextTo cfg s)) < 2 ^ 64"
    using eq assms(3) k by simp
  then show "unat (nextTo cfg s + 1) = Suc (unat (nextTo cfg s))"
    by (simp add: unat_word_ariths)
qed

section \<open>The invariant of the polling indexer\<close>

text \<open>
  The chain fits a registry of depth \<open>dp\<close> and empty value \<open>e\<close>: every log parses to an operation the
  registry accepts, and the tree never has a node that the database cannot store.
\<close>

definition chainFits ::
    "('d, 'b, 'e) ix_env \<Rightarrow> nat \<Rightarrow> (nat \<Rightarrow> evm_log list) \<Rightarrow> nat \<Rightarrow> tree_level \<Rightarrow> u256 \<Rightarrow> abs_registry \<Rightarrow> bool" where
  "chainFits I p chain b0 dp e A \<longleftrightarrow> abiOk (ieAbi I) \<and> (\<forall>b. logsOps (ieAbi I) (chain b) \<noteq> None) \<and>
     (\<forall>b n. \<forall>op\<in>set (chainOps (ieAbi I) chain b n). opOk p (unat dp) op) \<and>
     (\<forall>n\<ge>b0. nonzeroTree (ieHash I) e (unat dp) (fst (absOps e (chainOps (ieAbi I) chain b0 n) A)))"

definition indexedTo ::
    "('d, 'b, 'e) ix_env \<Rightarrow> nat \<Rightarrow> ('d \<Rightarrow> kv) \<Rightarrow> (nat \<Rightarrow> evm_log list) \<Rightarrow> nat \<Rightarrow> u256 \<Rightarrow> abs_registry
     \<Rightarrow> ('d, 'e) ix_state \<Rightarrow> bool" where
  "indexedTo I p content chain b0 e A s \<longleftrightarrow>
     represents (ieHash I) p (ieU256 I) (zjRegistry (ixJob s)) (content (ixDb s))
       (absOps e (chainOps (ieAbi I) chain b0 (unat (ixFrom s))) A) \<and>
     b0 \<le> unat (ixFrom s) \<and>
     (b0 < unat (ixFrom s) \<longrightarrow>
        jobStored (ieCodec I) (content (ixDb s)) (zjDescriptor (ixJob s)) (ixFrom s - 1))"

definition headOk :: "nat \<Rightarrow> ('d, 'e) ix_state \<Rightarrow> bool" where
  "headOk head0 s \<longleftrightarrow> ixPhase s \<noteq> Sink \<and> (IsOnHead (regProgress (zjRegistry (ixJob s))) \<longrightarrow> ixOnHead s) \<and>
     (if ixOnHead s then head0 < unat (ixFrom s) else unat (ixCurrent s) = head0 \<and> ixPhase s \<noteq> Polling)"

definition ixInv ::
    "('d, 'b, 'e) ix_env \<Rightarrow> nat \<Rightarrow> ('d \<Rightarrow> kv) \<Rightarrow> (nat \<Rightarrow> evm_log list) \<Rightarrow> nat \<Rightarrow> nat \<Rightarrow> tree_level \<Rightarrow> u256
     \<Rightarrow> abs_registry \<Rightarrow> job_descriptor \<Rightarrow> nat \<Rightarrow> ('d, 'e) ix_state \<Rightarrow> bool" where
  "ixInv I p content chain maxHead b0 dp e A jd head0 s \<longleftrightarrow>
     indexedTo I p content chain b0 e A s \<and> headOk head0 s \<and> unat (ixCurrent s) \<le> maxHead \<and>
     depth (regTree (zjRegistry (ixJob s))) = dp \<and> mdEmptyValue (regMetadata (zjRegistry (ixJob s))) = e \<and>
     zjDescriptor (ixJob s) = jd"

lemma represents_progress [simp]:
  "represents P p U (reg\<lparr>regProgress := x\<rparr>) m A = represents P p U reg m A"
  by (simp add: represents_def split: prod.split)

lemma OnIndexerModeChange_eq:
  "\<exists>x. OnIndexerModeChange md jb = jb\<lparr>zjRegistry := (zjRegistry jb)\<lparr>regProgress := x\<rparr>\<rparr> \<and>
    (md = ModeHistory \<longrightarrow> \<not> IsOnHead x) \<and> (md = ModePoll \<longrightarrow> IsOnHead x)"
  by (rule exI [of _ "regProgress (zjRegistry (OnIndexerModeChange md jb))"], cases md)
     (simp_all add: OnIndexerModeChange_def Let_def IsOnHead_def SetOnHead_def)

lemma modeChange_inv:
  assumes "indexedTo I p content chain b0 e A s"
  shows "indexedTo I p content chain b0 e A (s\<lparr>ixJob := OnIndexerModeChange md (ixJob s)\<rparr>)"
  using assms OnIndexerModeChange_eq [of md "ixJob s"] by (auto simp: indexedTo_def)

locale indexer_env = job_env "ieHash I" p "ieDb I" content pending isOpen "ieU256 I" "ieCodec I" +
    chain_client "ieClient I" chain maxHead
  for I :: "('d, 'b, 'e) ix_env" and p content pending isOpen chain maxHead
begin

lemma indexRound_handles:
  assumes inv: "ixInv I p content chain maxHead b0 dp e A jd head0 s" and le: "ixFrom s \<le> ixCurrent s"
    and fits: "chainFits I p chain b0 dp e A"
    and cfg: "cfgMaxBlocksDistance cfg \<noteq> 0" "maxHead + unat (cfgMaxBlocksDistance cfg) < 2 ^ 64"
    and logs: "ecFilterLogs (ieClient I) (ixFrom s) (nextTo cfg s) (ixEnv s) = (Inr logs, env)"
  shows "\<exists>jb d. handleLogs (ieHash I) (ieDb I) (ieU256 I) (ieCodec I) (ieAbi I) (ixCtx s) logs (nextTo cfg s)
      (ixJob s, ixDb s) = (Inr (), (jb, d)) \<and> sameRegistry (zjRegistry (ixJob s)) (zjRegistry jb) \<and>
    zjDescriptor jb = jd \<and>
    indexedTo I p content chain b0 e A (s\<lparr>ixEnv := env, ixJob := jb, ixDb := d, ixFrom := nextTo cfg s + 1\<rparr>)"
proof -
  let ?t = "nextTo cfg s" and ?f = "unat (ixFrom s)"
  let ?E = "ieAbi I"
  have bound: "unat (ixCurrent s) + unat (cfgMaxBlocksDistance cfg) < 2 ^ 64"
    using inv cfg(2) by (simp add: ixInv_def)
  note t = nextTo_range [OF le cfg(1) bound]
  have tf: "?f \<le> unat ?t" using t(1) by (simp add: word_le_nat_alt)
  have inv': "represents (ieHash I) p (ieU256 I) (zjRegistry (ixJob s)) (content (ixDb s))
      (absOps e (chainOps ?E chain b0 ?f) A)" "b0 \<le> ?f"
    "depth (regTree (zjRegistry (ixJob s))) = dp" "mdEmptyValue (regMetadata (zjRegistry (ixJob s))) = e"
    "zjDescriptor (ixJob s) = jd"
    using inv by (simp_all add: ixInv_def indexedTo_def)
  have ops: "logsOps ?E logs = Some (chainOps ?E chain ?f (Suc (unat ?t)))"
    using logs_of_range [OF logs t(1)] logsOps_chainLogs fits by (simp add: chainFits_def)
  have split: "absOps e (chainOps ?E chain ?f (Suc (unat ?t))) (absOps e (chainOps ?E chain b0 ?f) A) =
      absOps e (chainOps ?E chain b0 (Suc (unat ?t))) A"
    using chainOps_split [of b0 ?f "Suc (unat ?t)"] inv'(2) tf by (simp add: absOps_append)
  have nz: "nonzeroTree (ieHash I) e (unat dp) (fst (absOps e (chainOps ?E chain b0 (Suc (unat ?t))) A))"
    using fits inv'(2) tf by (simp add: chainFits_def)
  obtain jb d where h: "handleLogs (ieHash I) (ieDb I) (ieU256 I) (ieCodec I) ?E (ixCtx s) logs ?t
      (ixJob s, ixDb s) = (Inr (), (jb, d))" "zjDescriptor jb = jd" "sameRegistry (zjRegistry (ixJob s)) (zjRegistry jb)"
    "represents (ieHash I) p (ieU256 I) (zjRegistry jb) (content d) (absOps e (chainOps ?E chain b0 (Suc (unat ?t))) A)"
    "jobStored (ieCodec I) (content d) jd ?t"
    using handleLogs_ok [of ?E logs _ "ixJob s" "ixDb s" _ "ixCtx s" ?t, OF _ ops inv'(1)] fits nz
    by (auto simp: chainFits_def inv'(3-5) split)
  have "indexedTo I p content chain b0 e A (s\<lparr>ixEnv := env, ixJob := jb, ixDb := d, ixFrom := ?t + 1\<rparr>)"
    using h inv'(2) tf by (simp add: indexedTo_def t(4))
  then show ?thesis using h(1-3) by blast
qed

text \<open>The state after the logs of a round have been handled.\<close>

lemma indexRound_inv:
  assumes inv: "ixInv I p content chain maxHead b0 dp e A jd head0 s" and le: "ixFrom s \<le> ixCurrent s"
    and fits: "chainFits I p chain b0 dp e A"
    and cfg: "cfgMaxBlocksDistance cfg \<noteq> 0" "maxHead + unat (cfgMaxBlocksDistance cfg) < 2 ^ 64"
    and logs: "ecFilterLogs (ieClient I) (ixFrom s) (nextTo cfg s) (ixEnv s) = (Inr logs, env)"
  shows "\<exists>jb d. handleLogs (ieHash I) (ieDb I) (ieU256 I) (ieCodec I) (ieAbi I) (ixCtx s) logs (nextTo cfg s)
      (ixJob s, ixDb s) = (Inr (), (jb, d)) \<and>
    ixInv I p content chain maxHead b0 dp e A jd head0
      (s\<lparr>ixEnv := env, ixJob := jb, ixDb := d, ixFrom := nextTo cfg s + 1\<rparr>)"
proof -
  obtain jb d where h: "handleLogs (ieHash I) (ieDb I) (ieU256 I) (ieCodec I) (ieAbi I) (ixCtx s) logs
      (nextTo cfg s) (ixJob s, ixDb s) = (Inr (), (jb, d))"
    and r: "sameRegistry (zjRegistry (ixJob s)) (zjRegistry jb)" "zjDescriptor jb = jd"
      "indexedTo I p content chain b0 e A (s\<lparr>ixEnv := env, ixJob := jb, ixDb := d, ixFrom := nextTo cfg s + 1\<rparr>)"
    using indexRound_handles [OF assms] by blast
  have bound: "unat (ixCurrent s) + unat (cfgMaxBlocksDistance cfg) < 2 ^ 64"
    using inv cfg(2) by (simp add: ixInv_def)
  have "unat (ixFrom s) < unat (nextTo cfg s + 1)"
    using nextTo_range(1,4) [OF le cfg(1) bound] by (simp add: word_le_nat_alt)
  then show ?thesis
    using h r inv by (auto simp: ixInv_def headOk_def sameRegistry_def)
qed

lemma ixInv_stop:
  "ixInv I p content chain maxHead b0 dp e A jd head0 s \<Longrightarrow>
    ixInv I p content chain maxHead b0 dp e A jd head0 (stop r (s\<lparr>ixEnv := env\<rparr>))"
  "ixInv I p content chain maxHead b0 dp e A jd head0 s \<Longrightarrow>
    ixInv I p content chain maxHead b0 dp e A jd head0 (stop r s)"
  "ixInv I p content chain maxHead b0 dp e A jd head0 s \<Longrightarrow>
    ixInv I p content chain maxHead b0 dp e A jd head0 (tickCtx s)"
  by (auto simp: ixInv_def indexedTo_def headOk_def stop_def tickCtx_def split: if_splits)

lemma afterPoll_inv:
  assumes "ixInv I p content chain maxHead b0 dp e A jd head0 s"
  shows "ixInv I p content chain maxHead b0 dp e A jd head0 (afterPoll s)"
proof (cases "ixFrom s \<le> ixCurrent s")
  case False
  then have "unat (ixCurrent s) < unat (ixFrom s)" by (simp add: word_le_nat_alt)
  then show ?thesis
    using assms False OnIndexerModeChange_eq [of ModePoll "ixJob s"]
    by (auto simp: afterPoll_def ixInv_def indexedTo_def headOk_def split: if_splits)
qed (simp add: afterPoll_def assms)

lemma pollRound_inv:
  assumes inv: "ixInv I p content chain maxHead b0 dp e A jd head0 s" and ph: "ixPhase s = Polling"
  shows "ixInv I p content chain maxHead b0 dp e A jd head0 (pollRound I s)"
proof (cases "ecBlockNumber (ieClient I) (ixEnv s)")
  case (Pair r env)
  show ?thesis
  proof (cases r)
    case (Inl e)
    then show ?thesis using Pair inv ixInv_stop(1) by (simp add: pollRound_def wrapG_def)
  next
    case (Inr n)
    have on: "ixOnHead s" using inv ph by (auto simp: ixInv_def headOk_def split: if_splits)
    have "ixInv I p content chain maxHead b0 dp e A jd head0 (s\<lparr>ixCurrent := n, ixEnv := env\<rparr>)"
      using inv on head [OF Pair [unfolded Inr]] by (auto simp: ixInv_def indexedTo_def headOk_def)
    moreover have "ixInv I p content chain maxHead b0 dp e A jd head0
        (s\<lparr>ixCurrent := n, ixEnv := env, ixPhase := Indexing\<rparr>)"
      using calculation on by (auto simp: ixInv_def indexedTo_def headOk_def)
    ultimately show ?thesis
      using Pair Inr ixInv_stop(2,3) by (simp add: pollRound_def wrapG_def Let_def)
  qed
qed

lemma ixStep_inv:
  assumes inv: "ixInv I p content chain maxHead b0 dp e A jd head0 s"
    and fits: "chainFits I p chain b0 dp e A"
    and cfg: "cfgMaxBlocksDistance cfg \<noteq> 0" "maxHead + unat (cfgMaxBlocksDistance cfg) < 2 ^ 64"
      "cfgIndexerMode cfg = ModePoll"
  shows "ixInv I p content chain maxHead b0 dp e A jd head0 (ixStep I cfg s)"
proof (cases "ixPhase s")
  case Indexing
  show ?thesis
  proof (cases "ixFrom s \<le> ixCurrent s")
    case True
    show ?thesis
    proof (cases "ecFilterLogs (ieClient I) (ixFrom s) (nextTo cfg s) (ixEnv s)")
      case (Pair r env)
      show ?thesis
      proof (cases r)
        case (Inl err)
        then show ?thesis
          using Indexing True Pair inv ixInv_stop(1) by (simp add: ixStep_def indexRound_def wrapG_def)
      next
        case (Inr logs)
        obtain jb d where h: "handleLogs (ieHash I) (ieDb I) (ieU256 I) (ieCodec I) (ieAbi I) (ixCtx s) logs
            (nextTo cfg s) (ixJob s, ixDb s) = (Inr (), (jb, d))"
          and inv': "ixInv I p content chain maxHead b0 dp e A jd head0
            (s\<lparr>ixEnv := env, ixJob := jb, ixDb := d, ixFrom := nextTo cfg s + 1\<rparr>)"
          using indexRound_inv [OF inv True fits cfg(1,2) Pair [unfolded Inr]] by blast
        show ?thesis
          using Indexing True Pair Inr h cfg(3) ixInv_stop(2) [OF inv'] afterPoll_inv [OF ixInv_stop(3) [OF inv']]
          by (simp add: ixStep_def indexRound_def wrapG_def Let_def)
      qed
    qed
  qed (use Indexing inv cfg(3) ixInv_stop(2) in \<open>simp add: ixStep_def afterLoop_def\<close>)
next
  case Polling
  then show ?thesis using pollRound_inv [OF inv] by (simp add: ixStep_def)
qed (use inv in \<open>auto simp: ixStep_def ixInv_def headOk_def\<close>)

lemma ixRun_inv:
  assumes "ixInv I p content chain maxHead b0 dp e A jd head0 s"
    and "chainFits I p chain b0 dp e A"
    and "cfgMaxBlocksDistance cfg \<noteq> 0" "maxHead + unat (cfgMaxBlocksDistance cfg) < 2 ^ 64"
      "cfgIndexerMode cfg = ModePoll"
  shows "ixInv I p content chain maxHead b0 dp e A jd head0 (ixRun I cfg n s)"
  using assms(1) by (induction n arbitrary: s) (simp_all add: ixStep_inv [OF _ assms(2-5)])

section \<open>Reaching the head\<close>

text \<open>Before the first poll every round that succeeds moves the next block forward, at most past the head.\<close>

lemma indexRound_progress:
  assumes inv: "ixInv I p content chain maxHead b0 dp e A jd head0 s"
    and ph: "ixPhase s = Indexing" "\<not> ixOnHead s" "ixFrom s \<le> ixCurrent s" "ixCtx s = None"
    and fits: "chainFits I p chain b0 dp e A"
    and cfg: "cfgMaxBlocksDistance cfg \<noteq> 0" "maxHead + unat (cfgMaxBlocksDistance cfg) < 2 ^ 64"
      "cfgIndexerMode cfg = ModePoll"
    and rel: "\<And>f t env. \<exists>logs env'. ecFilterLogs (ieClient I) f t env = (Inr logs, env')"
  shows "let s' = ixStep I cfg s in unat (ixFrom s) < unat (ixFrom s') \<and> ixCtx s' = None \<and>
    (if unat (ixFrom s') \<le> head0 then ixPhase s' = Indexing \<and> \<not> ixOnHead s' \<and> ixFrom s' \<le> ixCurrent s'
     else unat (ixFrom s') = Suc head0 \<and> ixPhase s' = Polling \<and> IsOnHead (regProgress (zjRegistry (ixJob s'))))"
proof -
  obtain logs env where l: "ecFilterLogs (ieClient I) (ixFrom s) (nextTo cfg s) (ixEnv s) = (Inr logs, env)"
    using rel by blast
  obtain jb d where h: "handleLogs (ieHash I) (ieDb I) (ieU256 I) (ieCodec I) (ieAbi I) (ixCtx s) logs
      (nextTo cfg s) (ixJob s, ixDb s) = (Inr (), (jb, d))"
    using indexRound_inv [OF inv ph(3) fits cfg(1,2) l] by blast
  let ?s = "tickCtx (s\<lparr>ixEnv := env, ixJob := jb, ixDb := d, ixFrom := nextTo cfg s + 1\<rparr>)"
  have step: "ixStep I cfg s = afterPoll ?s"
    using ph l h cfg(3) by (simp add: ixStep_def indexRound_def wrapG_def Let_def ctxDone_def)
  have head0: "unat (ixCurrent s) = head0" "head0 \<le> maxHead"
    using inv ph(2) by (auto simp: ixInv_def headOk_def)
  have "unat (ixCurrent s) + unat (cfgMaxBlocksDistance cfg) < 2 ^ 64"
    using head0 cfg(2) by simp
  note t = nextTo_range [OF ph(3) cfg(1) this]
  have lt: "unat (ixFrom s) < unat (nextTo cfg s + 1)" "unat (nextTo cfg s + 1) \<le> Suc head0"
    using t(1,2,4) head0(1) by (simp_all add: word_le_nat_alt)
  obtain x where x: "OnIndexerModeChange ModePoll jb = jb\<lparr>zjRegistry := (zjRegistry jb)\<lparr>regProgress := x\<rparr>\<rparr>" "IsOnHead x"
    using OnIndexerModeChange_eq [of ModePoll jb] by auto
  show ?thesis
    using lt x ph head0(1) unfolding step Let_def
    by (auto simp: afterPoll_def tickCtx_def word_le_nat_alt simp del: unat_plus1)
qed

lemma reaches_head:
  assumes "ixInv I p content chain maxHead b0 dp e A jd head0 s"
    and "ixPhase s = Indexing" "\<not> ixOnHead s" "ixFrom s \<le> ixCurrent s" "ixCtx s = None"
    and fits: "chainFits I p chain b0 dp e A"
    and cfg: "cfgMaxBlocksDistance cfg \<noteq> 0" "maxHead + unat (cfgMaxBlocksDistance cfg) < 2 ^ 64"
      "cfgIndexerMode cfg = ModePoll"
    and rel: "\<And>f t env. \<exists>logs env'. ecFilterLogs (ieClient I) f t env = (Inr logs, env')"
  shows "\<exists>n. let s' = ixRun I cfg n s in unat (ixFrom s') = Suc head0 \<and> ixPhase s' = Polling \<and>
    IsOnHead (regProgress (zjRegistry (ixJob s')))"
  using assms(1-5)
proof (induction "Suc head0 - unat (ixFrom s)" arbitrary: s rule: less_induct)
  case less
  let ?s = "ixStep I cfg s"
  note pr = indexRound_progress [OF less.prems fits cfg rel, unfolded Let_def]
  show ?case
  proof (cases "unat (ixFrom ?s) \<le> head0")
    case True
    then have "Suc head0 - unat (ixFrom ?s) < Suc head0 - unat (ixFrom s)" using pr by auto
    then obtain n where "let s' = ixRun I cfg n ?s in unat (ixFrom s') = Suc head0 \<and> ixPhase s' = Polling \<and>
        IsOnHead (regProgress (zjRegistry (ixJob s')))"
      using less.hyps [of ?s] ixStep_inv [OF less.prems(1) fits cfg] pr True by auto
    then have "let s' = ixRun I cfg (Suc n) s in unat (ixFrom s') = Suc head0 \<and> ixPhase s' = Polling \<and>
        IsOnHead (regProgress (zjRegistry (ixJob s')))" by simp
    then show ?thesis by blast
  next
    case False
    then have "let s' = ixRun I cfg (Suc 0) s in unat (ixFrom s') = Suc head0 \<and> ixPhase s' = Polling \<and>
        IsOnHead (regProgress (zjRegistry (ixJob s')))" using pr by simp
    then show ?thesis by blast
  qed
qed

text \<open>The state in which the loop is entered.\<close>

lemma IndexEVMLogs_inv:
  assumes start: "ecBlockNumber (ieClient I) env = (Inr cur, env')" "b \<le> cur"
    and rep: "represents (ieHash I) p (ieU256 I) (zjRegistry jb) (content d) A"
  shows "ixInv I p content chain maxHead (unat b) (depth (regTree (zjRegistry jb)))
      (mdEmptyValue (regMetadata (zjRegistry jb))) A (zjDescriptor jb) (unat cur) (IndexEVMLogs I b jb d env c)"
    "ixPhase (IndexEVMLogs I b jb d env c) = Indexing" "\<not> ixOnHead (IndexEVMLogs I b jb d env c)"
    "ixFrom (IndexEVMLogs I b jb d env c) \<le> ixCurrent (IndexEVMLogs I b jb d env c)"
    "ixCtx (IndexEVMLogs I b jb d env c) = c"
proof -
  have s: "IndexEVMLogs I b jb d env c = \<lparr>ixPhase = Indexing, ixFrom = b, ixCurrent = cur, ixOnHead = False,
      ixSubscribed = False, ixJob = OnIndexerModeChange ModeHistory jb, ixDb = d, ixEnv = env', ixCtx = c\<rparr>"
    using start by (simp add: IndexEVMLogs_def Let_def)
  obtain x where x: "OnIndexerModeChange ModeHistory jb = jb\<lparr>zjRegistry := (zjRegistry jb)\<lparr>regProgress := x\<rparr>\<rparr>"
      "\<not> IsOnHead x"
    using OnIndexerModeChange_eq [of ModeHistory jb] by auto
  show "ixInv I p content chain maxHead (unat b) (depth (regTree (zjRegistry jb)))
      (mdEmptyValue (regMetadata (zjRegistry jb))) A (zjDescriptor jb) (unat cur) (IndexEVMLogs I b jb d env c)"
    using rep x head [OF start(1)] by (simp add: s ixInv_def indexedTo_def headOk_def absOps_def)
  show "ixPhase (IndexEVMLogs I b jb d env c) = Indexing" "\<not> ixOnHead (IndexEVMLogs I b jb d env c)"
    "ixFrom (IndexEVMLogs I b jb d env c) \<le> ixCurrent (IndexEVMLogs I b jb d env c)"
    "ixCtx (IndexEVMLogs I b jb d env c) = c"
    using start(2) by (simp_all add: s)
qed

end

end
