(* ===== verification/System_Correct.thy ===== *)
theory System_Correct
  imports Query_Correct Indexer_Correct
begin

text \<open>
  Service and jobs together.  A job of one registry commits its logs into the database all registries
  share; the other registries, their indexes and their metadata are untouched.
\<close>

locale system_env = service_env P p D content pending isOpen U C + job_env P p D content pending isOpen U J
  for P p and D :: "('d, 'b) db_ops" and content pending isOpen U and C :: "metadata codec_ops"
    and J :: "job codec_ops"
begin

text \<open>An update of the keys of one registry, and of job keys.\<close>

lemma serviceOk_update:
  assumes ok: "serviceOk P p U C m cache addrs S" and S: "S a = Some (md, A)"
    and keep: "\<And>k. \<not> registryKey U (mdIndex md) k \<Longrightarrow> (\<And>j. k \<noteq> makeJobKey j) \<Longrightarrow> m' k = m k"
    and reg: "regFits P md reg" "represents P p U reg m' A'"
  shows "serviceOk P p U C m' (cache(mdIndex md \<mapsto> reg)) addrs (S(a \<mapsto> (md, A')))"
proof -
  have other: "m' k = m k" if "registryKey U r k" "r \<noteq> mdIndex md" for r k
    using that registryKey_other(1,5) by (intro keep) blast+
  have meta: "m' (makeZKCertificateRegistryKey b) = m (makeZKCertificateRegistryKey b)"
    "m' (makeRegistryIndexKey b) = m (makeRegistryIndexKey b)" if "addressOk b" for b
    using that registryKey_other(2,4) metadataKey_simps by (intro keep; blast)+
  have counter: "m' makeRegistryIndexCounterKey = m makeRegistryIndexCounterKey"
    using registryKey_other(3) metadataKey_simps by (intro keep) blast+
  have idx: "mdIndex mb \<noteq> mdIndex md" if "S b = Some (mb, B)" "b \<noteq> a" for b mb B
    using indexed_distinct [OF serviceOkD(1,2) [OF ok] serviceOkD(3) [OF ok that(1)] serviceOkD(3) [OF ok S]]
      serviceOkD(5) [OF ok that(1)] serviceOkD(5) [OF ok S] that(2) by metis
  show ?thesis
  proof (rule serviceOkI)
    show "indexed m' addrs"
      using serviceOkD(1) [OF ok] counter meta(2) by (rule indexed_cong)
    show "kvRead m' (makeZKCertificateRegistryKey b) =
        (case (S(a \<mapsto> (md, A'))) b of None \<Rightarrow> [] | Some (md, _) \<Rightarrow> encoded C md)" if "addressOk b" for b
      using serviceOkD(4) [OF ok that] meta(1) [OF that] S by (simp add: kvRead_def)
  next
    fix b mb B
    assume "(S(a \<mapsto> (md, A'))) b = Some (mb, B)"
    then have b: "b = a \<and> mb = md \<and> B = A' \<or> b \<noteq> a \<and> S b = Some (mb, B)" by (auto split: if_splits)
    then show "b \<in> set addrs" using serviceOkD(3) [OF ok] S by blast
    then have "storedIndex m' b = storedIndex m b"
      using meta(2) serviceOkD(11) [OF ok] by (simp add: storedIndex_def)
    then show "storedIndex m' b = Some (mdIndex mb)"
      using b serviceOkD(5) [OF ok] S by metis
    show "represents P p U (coldRegistry mb) m' B"
      using b
    proof
      assume "b = a \<and> mb = md \<and> B = A'"
      then show ?thesis using reg represents_regFits [OF reg(1) regFits_cold] by blast
    next
      assume b': "b \<noteq> a \<and> S b = Some (mb, B)"
      have "regLeafView (coldRegistry mb) \<noteq> mdIndex md"
        using idx [of b mb B] b' by (simp add: coldRegistry_def NewZKCertificateRegistry_def)
      then show ?thesis
        using represents_frame [of U "coldRegistry mb" m' m] other serviceOkD(6) [OF ok] b' by blast
    qed
  next
    fix r k
    assume r: "\<And>b mb B. (S(a \<mapsto> (md, A'))) b = Some (mb, B) \<Longrightarrow> mdIndex mb \<noteq> r" and k: "registryKey U r k"
    have "r \<noteq> mdIndex md" using r [of a md A'] by auto
    moreover have "mdIndex mb \<noteq> r" if "S b = Some (mb, B)" for b mb B
      using r [of b mb B] that calculation S by (cases "b = a") auto
    ultimately show "m' k = None"
      using serviceOkD(7) [OF ok _ k] other [OF k] by metis
  next
    fix r reg'
    assume "(cache(mdIndex md \<mapsto> reg)) r = Some reg'"
    then have c: "r = mdIndex md \<and> reg' = reg \<or> cache r = Some reg'" by (auto split: if_splits)
    have md: "regMetadata reg = md" using reg(1) by (simp add: regFits_def)
    show "mdIndex (regMetadata reg') = r" using c md serviceOkD(8) [OF ok] by auto
    show "regFits P (regMetadata reg') reg'" using c md reg(1) serviceOkD(9) [OF ok] by auto
    have "\<exists>b B. S b = Some (regMetadata reg', B)" using c md S serviceOkD(10) [OF ok] by blast
    then show "\<exists>b B. (S(a \<mapsto> (md, A'))) b = Some (regMetadata reg', B)"
      using S by (metis fun_upd_apply option.inject prod.inject)
  qed (use serviceOkD(2) [OF ok] in blast)
qed

lemma job_keeps_service:
  assumes ok: "serviceOk P p U C (content (svcDb s)) (svcRegistry s) addrs S"
    and S: "S (jdAddress jd) = Some (md, A)" and jb: "Produce D s jd = Inr jb"
    and E: "abiOk E" and logs: "logsOps E logs = Some ops"
    and ops: "\<forall>op\<in>set ops. opOk p (unat (mdDepth md)) op"
    and nz: "nonzeroTree P (mdEmptyValue md) (unat (mdDepth md)) (fst (absOps (mdEmptyValue md) ops A))"
  shows "\<exists>jb' d'. handleLogs P D U J E ctx logs block (jb, svcDb s) = (Inr (), (jb', d')) \<and>
    serviceOk P p U C (content d') ((svcRegistry s)(mdIndex md \<mapsto> zjRegistry jb')) addrs
      (S(jdAddress jd \<mapsto> (md, absOps (mdEmptyValue md) ops A))) \<and>
    jobStored J (content d') jd block"
proof -
  have aok: "addressOk (jdAddress jd)" using serviceOkD(11) [OF ok serviceOkD(3) [OF ok S]] .
  have j: "zjDescriptor jb = jd" "svcRegistry s (mdIndex md) = Some (zjRegistry jb)"
    using jb aok serviceOkD(5) [OF ok S]
    by (auto simp: Produce_def bindE_Inr_iff Service_Registry_def FindRegistryIndex_eq
        NewZkCertificateRegistryJob_def split: if_splits option.splits)
  have fit: "regFits P md (zjRegistry jb)" using cached_fits [OF ok S j(2)] .
  have f: "depth (regTree (zjRegistry jb)) = mdDepth md" "regMetadata (zjRegistry jb) = md"
    "regLeafView (zjRegistry jb) = mdIndex md"
    using fit by (simp_all add: regFits_def)
  obtain jb' d' where h: "handleLogs P D U J E ctx logs block (jb, svcDb s) = (Inr (), (jb', d'))"
    and r: "sameRegistry (zjRegistry jb) (zjRegistry jb')"
      "represents P p U (zjRegistry jb') (content d') (absOps (mdEmptyValue md) ops A)"
      "jobStored J (content d') jd block"
    and k: "\<And>k. \<not> registryKey U (mdIndex md) k \<Longrightarrow> k \<noteq> makeJobKey jd \<Longrightarrow> content d' k = content (svcDb s) k"
    using handleLogs_ok [OF E logs cached_represents [OF ok S j(2)], of ctx block] ops nz by (auto simp: f j(1))
  have "serviceOk P p U C (content d') ((svcRegistry s)(mdIndex md \<mapsto> zjRegistry jb')) addrs
      (S(jdAddress jd \<mapsto> (md, absOps (mdEmptyValue md) ops A)))"
    using ok S _ regFits_sameRegistry [OF fit r(1,2)] r(2) by (rule serviceOk_update) (use k in blast)
  then show ?thesis using h r(3) by blast
qed

end

section \<open>Runs of the service\<close>

text \<open>
  What happens to the service over its life: it starts on an empty database, initialises registries
  (the contract may fail to answer), indexes batches of logs, refuses batches it cannot parse, moves
  between history and head, answers or refuses the three queries, and is restarted with an empty cache on
  the database it left.  The abstract service follows along.

  A query may find any request, context and database of the later read (\<open>d1\<close>, after a commit in between);
  the states of the random number generator are numbered, so \<open>rand\<close> ranges over all sequences of draws.
  Steps are limited to at most 256 registered addresses, the range of the index, and to events that the
  contract can emit (\<open>opsLegal\<close>: an addition puts a value into an empty leaf, a revocation removes a leaf that the index holds).
\<close>

inductive sysReach ::
    "poseidon \<Rightarrow> nat \<Rightarrow> ('d, 'b) db_ops \<Rightarrow> ('d \<Rightarrow> kv) \<Rightarrow> u256_ops \<Rightarrow> metadata codec_ops \<Rightarrow> job codec_ops
     \<Rightarrow> 'd service_state \<Rightarrow> address list \<Rightarrow> abs_service \<Rightarrow> bool"
  for P p D content U C J where
  sys_boot: "content d = Map.empty \<Longrightarrow> sysReach P p D content U C J (InitializeService d) [] Map.empty"
| sys_init: "sysReach P p D content U C J s addrs S \<Longrightarrow> addressOk a \<Longrightarrow> length (register a addrs) \<le> 256 \<Longrightarrow>
    contractOk p K a \<Longrightarrow> InitializeRegistry D U C K a s = (Inr reg, s') \<Longrightarrow>
    sysReach P p D content U C J s' (register a addrs) (absInit a (regMetadata reg) S)"
| sys_init_fails: "sysReach P p D content U C J s addrs S \<Longrightarrow> addressOk a \<Longrightarrow>
    length (register a addrs) \<le> 256 \<Longrightarrow> contractOk p K a \<Longrightarrow>
    InitializeRegistry D U C K a s = (Inl e, s') \<Longrightarrow> sysReach P p D content U C J s' (register a addrs) S"
| sys_logs: "sysReach P p D content U C J s addrs S \<Longrightarrow> S (jdAddress jd) = Some (md, A) \<Longrightarrow>
    Produce D s jd = Inr jb \<Longrightarrow> abiOk E \<Longrightarrow> logsOps E logs = Some ops \<Longrightarrow>
    \<forall>op\<in>set ops. opOk p (unat (mdDepth md)) op \<Longrightarrow> opsLegal (mdEmptyValue md) (unat (mdDepth md)) A ops \<Longrightarrow>
    nonzeroTree P (mdEmptyValue md) (unat (mdDepth md)) (fst (absOps (mdEmptyValue md) ops A)) \<Longrightarrow>
    handleLogs P D U J E c logs block (jb, svcDb s) = (r, (jb', d')) \<Longrightarrow>
    sysReach P p D content U C J
      (s\<lparr>svcDb := d', svcRegistry := (svcRegistry s)(mdIndex md \<mapsto> zjRegistry jb')\<rparr>) addrs
      (S(jdAddress jd \<mapsto> (md, absOps (mdEmptyValue md) ops A)))"
| sys_refuse: "sysReach P p D content U C J s addrs S \<Longrightarrow> Produce D s jd = Inr jb \<Longrightarrow> abiOk E \<Longrightarrow>
    logsOps E logs = None \<Longrightarrow> handleLogs P D U J E c logs block (jb, svcDb s) = (r, (jb', d')) \<Longrightarrow>
    sysReach P p D content U C J (s\<lparr>svcDb := d'\<rparr>) addrs S"
| sys_mode: "sysReach P p D content U C J s addrs S \<Longrightarrow> Produce D s jd = Inr jb \<Longrightarrow>
    addressOk (jdAddress jd) \<Longrightarrow>
    sysReach P p D content U C J (putRegistry (zjRegistry (OnIndexerModeChange mo jb)) s) addrs S"
| sys_proof: "sysReach P p D content U C J s addrs S \<Longrightarrow>
    Server_Proof P D U H d1 reqRegistry reqLeaf (s, c) = (proof_res, s', c') \<Longrightarrow>
    sysReach P p D content U C J s' addrs S"
| sys_empty_proof: "sysReach P p D content U C J s addrs S \<Longrightarrow>
    Server_GetEmptyLeafProof P D U H (rand :: nat \<Rightarrow> u64 \<times> nat) d1 reqRegistry (s, c, g) = (proof_res, s', c', g') \<Longrightarrow>
    sysReach P p D content U C J s' addrs S"
| sys_batch_proofs: "sysReach P p D content U C J s addrs S \<Longrightarrow>
    Server_GetBatchProofs P D U H (rand :: nat \<Rightarrow> u64 \<times> nat) reqRegistry reqOperations (s, c, g) = (batch_res, s', c', g') \<Longrightarrow>
    sysReach P p D content U C J s' addrs S"
| sys_restart: "sysReach P p D content U C J s addrs S \<Longrightarrow>
    sysReach P p D content U C J (InitializeService (svcDb s)) addrs S"

definition serviceConsistent :: "abs_service \<Rightarrow> bool" where
  "serviceConsistent S \<longleftrightarrow> (\<forall>a md A. S a = Some (md, A) \<longrightarrow>
     indexConsistent (mdEmptyValue md) (unat (mdDepth md)) A)"

lemma serviceConsistent_upd:
  "serviceConsistent S \<Longrightarrow> indexConsistent (mdEmptyValue md) (unat (mdDepth md)) A \<Longrightarrow>
    serviceConsistent (S(a \<mapsto> (md, A)))"
  by (auto simp: serviceConsistent_def)

lemma absInit_consistent: "serviceConsistent S \<Longrightarrow> serviceConsistent (absInit a md S)"
  by (auto simp: absInit_def freshAbs_def indexConsistent_def intro!: serviceConsistent_upd split: option.split)

context system_env
begin

lemma serviceOk_empty: "serviceOk P p U C Map.empty Map.empty [] Map.empty"
  by (rule serviceOkI) (simp_all add: indexed_empty kvRead_def)

lemma serviceOk_restart:
  "serviceOk P p U C m cache addrs S \<Longrightarrow> serviceOk P p U C m Map.empty addrs S"
  by (simp add: serviceOk_def)

lemma sysReach_ok:
  assumes "sysReach P p D content U C J s addrs S"
  shows "serviceOk P p U C (content (svcDb s)) (svcRegistry s) addrs S \<and> serviceConsistent S"
  using assms
proof (induction rule: sysReach.induct)
  case (sys_boot d)
  then show ?case
    using serviceOk_empty by (simp add: InitializeService_def NewService_def serviceConsistent_def)
next
  case (sys_init s addrs S a K reg s')
  then show ?case
    using InitializeRegistry_ok [of s addrs S a K] absInit_consistent by simp
next
  case (sys_init_fails s addrs S a K e s')
  then show ?case
    using InitializeRegistry_ok [of s addrs S a K] by auto
next
  case (sys_logs s addrs S jd md A jb E logs ops c block r jb' d')
  have "indexConsistent (mdEmptyValue md) (unat (mdDepth md)) A"
    using sys_logs.IH sys_logs.hyps(2) unfolding serviceConsistent_def by blast
  then have "serviceConsistent (S(jdAddress jd \<mapsto> (md, absOps (mdEmptyValue md) ops A)))"
    using sys_logs.IH sys_logs.hyps(7) absOps_consistent by (blast intro: serviceConsistent_upd)
  then show ?case
    using job_keeps_service [of s addrs S jd md A jb E logs ops c block] sys_logs by (auto simp del: fun_upd_apply)
next
  case (sys_refuse s addrs S jd jb E logs c block r jb' d')
  then show ?case
    using handleLogs_refused [of E logs P D U J c block jb "svcDb s"] by auto
next
  case (sys_mode s addrs S jd jb mo)
  note ok = conjunct1 [OF sys_mode.IH]
  obtain i where c: "svcRegistry s i = Some (zjRegistry jb)"
    using sys_mode.hyps(2) by (auto simp: Produce_def bindE_Inr_iff Service_Registry_def
        NewZkCertificateRegistryJob_def split: if_splits option.splits)
  obtain a A where S: "S a = Some (regMetadata (zjRegistry jb), A)" using serviceOkD(10) [OF ok c] by blast
  have "regFits P (regMetadata (zjRegistry jb)) (zjRegistry (OnIndexerModeChange mo jb))"
    using serviceOkD(9) [OF ok c] OnIndexerModeChange_eq [of mo jb] by (auto simp: regFits_def)
  then show ?case using putRegistry_ok [OF ok S] sys_mode.IH by blast
next
  case (sys_proof s addrs S H d1 reqRegistry reqLeaf c proof_res s' c')
  then show ?case
    using queries_keep_service(1) [OF conjunct1 [OF sys_proof.IH] sys_proof.hyps(2)] by blast
next
  case (sys_empty_proof s addrs S H rand d1 reqRegistry c g proof_res s' c' g')
  then show ?case
    using queries_keep_service(2) [OF conjunct1 [OF sys_empty_proof.IH] sys_empty_proof.hyps(2)] by blast
next
  case (sys_batch_proofs s addrs S H rand reqRegistry reqOperations c g batch_res s' c' g')
  then show ?case
    using queries_keep_service(3) [OF conjunct1 [OF sys_batch_proofs.IH] sys_batch_proofs.hyps(2)] by blast
next
  case (sys_restart s addrs S)
  then show ?case
    using serviceOk_restart [of "content (svcDb s)"] by (auto simp: InitializeService_def NewService_def)
qed

end

end
