(* ===== verification/Configurator.thy ===== *)
theory Configurator
  imports Evm_Indexer
begin

text \<open>
  The configurator (\<open>internal/indexer/configurator.go\<close>) and the start of the application that uses it
  (\<open>pkg/indexer/application.go\<close>).

  Every job runs in a goroutine of its own.  The goroutines are a list, and a goroutine is named by its
  position in it; the map \<open>cfJobs\<close> from descriptors to goroutines is the field \<open>jobs\<close>.  They share the
  service with its database and its registries, and the node.  A step of a goroutine is one step of
  the indexer on this shared state.  Whoever waits for a goroutine lets the goroutines take turns in the
  order of a schedule; a wait that is not over when the schedule ends is \<open>None\<close>.

  The client of a job is the node seen through the query of the job: \<open>ceQuery\<close>.
\<close>

section \<open>State\<close>

record ('d, 'b, 'e) cf_env =
  ceIndexer :: "('d, 'b, 'e) ix_env"
  ceQuery :: "filter_query \<Rightarrow> 'e eth_client"
  ceConfig :: ix_config
  ceMakeTopics :: "bytes list list \<Rightarrow> goerr + bytes list list"
  ceIterate :: "'d \<Rightarrow> bytes \<Rightarrow> goerr + bytes list"

text \<open>A goroutine: \<open>jrState\<close> is \<open>None\<close> until it has entered \<open>IndexEVMLogs\<close>.\<close>

record ('d, 'e) job_routine =
  jrDescriptor :: job_descriptor
  jrQuery :: filter_query
  jrStart :: u64
  jrHandler :: zk_job
  jrCancelled :: bool
  jrState :: "('d, 'e) ix_state option"

record ('d, 'e) cf_state =
  cfService :: "'d service_state"
  cfNode :: 'e
  cfJobs :: "job_descriptor \<rightharpoonup> nat"
  cfRoutines :: "('d, 'e) job_routine list"

definition NewConfigurator :: "'d service_state \<Rightarrow> 'e \<Rightarrow> ('d, 'e) cf_state" where
  "NewConfigurator s w = \<lparr>cfService = s, cfNode = w, cfJobs = Map.empty, cfRoutines = []\<rparr>"

section \<open>Goroutines\<close>

definition jrResult :: "('d, 'e) job_routine \<Rightarrow> (goerr + unit) option" where
  "jrResult r = (case jrState r of
       None \<Rightarrow> None
     | Some s \<Rightarrow> (case ixPhase s of Stopped res \<Rightarrow> Some (wrapE ''index EVM logs'' res) | _ \<Rightarrow> None))"

definition CancelAll :: "('d, 'e) cf_state \<Rightarrow> ('d, 'e) cf_state" where
  "CancelAll st = st\<lparr>cfRoutines :=
     map (\<lambda>(g, r). if cfJobs st (jrDescriptor r) = Some g then r\<lparr>jrCancelled := True\<rparr> else r)
       (enumerate 0 (cfRoutines st))\<rparr>"

text \<open>The handler works on the registry of the service, which is a pointer.\<close>

definition sharedJob :: "'d service_state \<Rightarrow> zk_job \<Rightarrow> zk_job" where
  "sharedJob s jb = (case svcRegistry s (regLeafView (zjRegistry jb)) of
       None \<Rightarrow> jb | Some reg \<Rightarrow> jb\<lparr>zjRegistry := reg\<rparr>)"

definition jobCtx :: "('d, 'e) job_routine \<Rightarrow> ctx" where
  "jobCtx r = (if jrCancelled r then Some 0 else None)"

definition jobTurn :: "('d, 'b, 'e) cf_env \<Rightarrow> ('d, 'e) cf_state \<Rightarrow> ('d, 'e) job_routine \<Rightarrow> ('d, 'e) ix_state" where
  "jobTurn N st r =
     (let I = (ceIndexer N)\<lparr>ieClient := ceQuery N (jrQuery r)\<rparr>; d = svcDb (cfService st) in
      case jrState r of
        None \<Rightarrow> IndexEVMLogs I (jrStart r) (sharedJob (cfService st) (jrHandler r)) d (cfNode st) (jobCtx r)
      | Some s \<Rightarrow> ixStep I (ceConfig N) (s\<lparr>ixDb := d, ixEnv := cfNode st, ixCtx := jobCtx r,
                     ixJob := sharedJob (cfService st) (ixJob s)\<rparr>))"

text \<open>A turn of the goroutine \<open>g\<close>; when \<open>IndexEVMLogs\<close> fails it calls \<open>CancelAll\<close>.\<close>

definition goStep :: "('d, 'b, 'e) cf_env \<Rightarrow> nat \<Rightarrow> ('d, 'e) cf_state \<Rightarrow> ('d, 'e) cf_state" where
  "goStep N g st =
     (if length (cfRoutines st) \<le> g \<or> jrResult (cfRoutines st ! g) \<noteq> None then st
      else
        (let r = cfRoutines st ! g; s = jobTurn N st r;
             st = st\<lparr>cfService := putRegistry (zjRegistry (ixJob s)) ((cfService st)\<lparr>svcDb := ixDb s\<rparr>),
                     cfNode := ixEnv s, cfRoutines := (cfRoutines st)[g := r\<lparr>jrState := Some s\<rparr>]\<rparr>
         in case ixPhase s of Stopped (Inl e) \<Rightarrow> CancelAll st | _ \<Rightarrow> st))"

fun waitFor ::
    "('d, 'b, 'e) cf_env \<Rightarrow> nat \<Rightarrow> nat list \<Rightarrow> ('d, 'e) cf_state
     \<Rightarrow> ((goerr + unit) \<times> ('d, 'e) cf_state \<times> nat list) option" where
  "waitFor N g sched st =
     (case jrResult (cfRoutines st ! g) of
        Some res \<Rightarrow> Some (res, st, sched)
      | None \<Rightarrow> (case sched of [] \<Rightarrow> None | h # sched \<Rightarrow> waitFor N g sched (goStep N h st)))"

section \<open>Operations\<close>

definition StartJob :: "('d, 'b, 'e) cf_env \<Rightarrow> job_descriptor \<Rightarrow> u64 \<Rightarrow> (('d, 'e) cf_state, unit) go" where
  "StartJob N jd startBlock c =
     (case wrapE ''create event handler'' (Produce (ieDb (ceIndexer N)) (cfService c) jd) of
        Inl e \<Rightarrow> (Inl e, c)
      | Inr jobHandler \<Rightarrow>
          (case wrapE ''get job filter query'' (FilterQuery (ieAbi (ceIndexer N)) (ceMakeTopics N) jobHandler) of
             Inl e \<Rightarrow> (Inl e, c)
           | Inr filterQuery \<Rightarrow>
               (Inr (), c\<lparr>cfJobs := (cfJobs c)(jd \<mapsto> length (cfRoutines c)),
                  cfRoutines := cfRoutines c @ [\<lparr>jrDescriptor = jd, jrQuery = filterQuery,
                    jrStart = startBlock, jrHandler = jobHandler, jrCancelled = False, jrState = None\<rparr>]\<rparr>)))"

fun resumeLoop :: "('d, 'b, 'e) cf_env \<Rightarrow> job_descriptor list \<Rightarrow> job list \<Rightarrow> (('d, 'e) cf_state, unit) go" where
  "resumeLoop N activeSet [] = retG ()"
| "resumeLoop N activeSet (job # jobs) =
     (if jobDescriptor job \<notin> set activeSet then resumeLoop N activeSet jobs
      else bindG (wrapG ''start job'' (StartJob N (jobDescriptor job) (jobCurrentBlock job)))
             (\<lambda>_. resumeLoop N activeSet jobs))"

definition InitConfiguratorFromStorage ::
    "('d, 'b, 'e) cf_env \<Rightarrow> ctx \<Rightarrow> job_descriptor list \<Rightarrow> 'd service_state \<Rightarrow> 'e
     \<Rightarrow> (goerr + unit) \<times> ('d, 'e) cf_state" where
  "InitConfiguratorFromStorage N ctx activeSet s w =
     (let c = NewConfigurator s w in
      case wrapG ''select all jobs'' (SelectAllJobs (ieCodec (ceIndexer N)) (ceIterate N) (svcDb s)) ctx of
        (Inl e, _) \<Rightarrow> (Inl e, c)
      | (Inr jobs, _) \<Rightarrow> resumeLoop N activeSet jobs c)"

definition StopJob ::
    "('d, 'b, 'e) cf_env \<Rightarrow> job_descriptor \<Rightarrow> nat list \<Rightarrow> ('d, 'e) cf_state \<Rightarrow> 'b
     \<Rightarrow> ((goerr + unit) \<times> ('d, 'e) cf_state \<times> 'b \<times> nat list) option" where
  "StopJob N job sched c store =
     (let jobContext = cfJobs c job; c = c\<lparr>cfJobs := (cfJobs c)(job := None)\<rparr> in
      case wrapG ''delete job from storage'' (DeleteJob (ieDb (ceIndexer N)) job) store of
        (Inl e, store) \<Rightarrow> Some (Inl e, c, store, sched)
      | (Inr _, store) \<Rightarrow>
          (case jobContext of
             None \<Rightarrow> Some (Inl (Panic ''nil CancelFunc''), c, store, sched)
           | Some g \<Rightarrow>
               (let c = c\<lparr>cfRoutines := (cfRoutines c)[g := (cfRoutines c ! g)\<lparr>jrCancelled := True\<rparr>]\<rparr> in
                case waitFor N g sched c of
                  None \<Rightarrow> None
                | Some (Inl err, c, sched) \<Rightarrow>
                    if errorsIs err ErrCanceled then Some (Inr (), c, store, sched)
                    else Some (Inl (Wrap ''wait for job'' err), c, store, sched)
                | Some (Inr _, c, sched) \<Rightarrow> Some (Inr (), c, store, sched))))"

text \<open>
  \<open>ReloadConfig\<close>.  The loop over the map of jobs visits its keys in an order that the language leaves
  open: \<open>order\<close>.
\<close>

fun startLoop :: "('d, 'b, 'e) cf_env \<Rightarrow> job_descriptor list \<Rightarrow> (('d, 'e) cf_state, unit) go" where
  "startLoop N [] = retG ()"
| "startLoop N (job # config) = (\<lambda>c.
     if cfJobs c job = None
     then bindG (wrapG ''start job while reloading config'' (StartJob N job (jdStartBlock job)))
            (\<lambda>_. startLoop N config) c
     else startLoop N config c)"

fun stopLoop ::
    "('d, 'b, 'e) cf_env \<Rightarrow> job_descriptor list \<Rightarrow> job_descriptor list \<Rightarrow> nat list \<Rightarrow> ('d, 'e) cf_state \<Rightarrow> 'b
     \<Rightarrow> ((goerr + unit) \<times> ('d, 'e) cf_state \<times> 'b \<times> nat list) option" where
  "stopLoop N config [] sched c batch = Some (Inr (), c, batch, sched)"
| "stopLoop N config (job # order) sched c batch =
     (if job \<in> set config then stopLoop N config order sched c batch
      else case StopJob N job sched c batch of
             None \<Rightarrow> None
           | Some (Inl e, c, batch, sched) \<Rightarrow>
               Some (Inl (Wrap ''stop job while reloading config'' e), c, batch, sched)
           | Some (Inr _, c, batch, sched) \<Rightarrow> stopLoop N config order sched c batch)"

definition ReloadConfig ::
    "('d, 'b, 'e) cf_env \<Rightarrow> job_descriptor list \<Rightarrow> job_descriptor list \<Rightarrow> nat list \<Rightarrow> ('d, 'e) cf_state
     \<Rightarrow> ((goerr + unit) \<times> ('d, 'e) cf_state \<times> nat list) option" where
  "ReloadConfig N order config sched c =
     (case startLoop N config c of
        (Inl e, c) \<Rightarrow> Some (Inl e, c, sched)
      | (Inr _, c) \<Rightarrow>
          (case stopLoop N config order sched c (dbNewBatch (ieDb (ceIndexer N)) (svcDb (cfService c))) of
             None \<Rightarrow> None
           | Some (Inl e, c, batch, sched) \<Rightarrow> Some (Inl e, c, sched)
           | Some (Inr _, c, batch, sched) \<Rightarrow>
               (case wrapG ''write batch to storage'' (batchWriteSync (ieDb (ceIndexer N))) (svcDb (cfService c), batch) of
                  (r, d, _) \<Rightarrow> Some (r, c\<lparr>cfService := (cfService c)\<lparr>svcDb := d\<rparr>\<rparr>, sched))))"

section \<open>The application\<close>

text \<open>
  \<open>configureZkCertificateRegistry\<close>: a registry and a job for every configured address.
\<close>

fun configureZkCertificateRegistry ::
    "('d, 'b) db_ops \<Rightarrow> u256_ops \<Rightarrow> metadata codec_ops \<Rightarrow> contract_caller \<Rightarrow> address list
     \<Rightarrow> ('d service_state, job_descriptor list) go" where
  "configureZkCertificateRegistry D U C K [] = retG []"
| "configureZkCertificateRegistry D U C K (address # addresses) =
     bindG (wrapG ''initialize registry for address'' (InitializeRegistry D U C K address)) (\<lambda>registry.
     let initBlockHeight = mdInitBlockHeight (regMetadata registry);
         initBlockHeight = (if initBlockHeight > 0 then initBlockHeight - 1 else initBlockHeight)
     in bindG (configureZkCertificateRegistry D U C K addresses) (\<lambda>jobs.
        retG (\<lparr>jdAddress = address, jdContract = ContractZkCertificateRegistry, jdStartBlock = initBlockHeight\<rparr> # jobs)))"

text \<open>\<open>RunIndexer\<close> up to the point where it waits for the jobs.\<close>

definition RunIndexer ::
    "('d, 'b, 'e) cf_env \<Rightarrow> job_descriptor list \<Rightarrow> ctx \<Rightarrow> job_descriptor list \<Rightarrow> nat list \<Rightarrow> 'd service_state \<Rightarrow> 'e
     \<Rightarrow> ((goerr + unit) \<times> ('d, 'e) cf_state \<times> nat list) option" where
  "RunIndexer N order ctx jobs sched s w =
     (case InitConfiguratorFromStorage N ctx jobs s w of
        (Inl e, c) \<Rightarrow> Some (Inl (Wrap ''init configurator'' e), c, sched)
      | (Inr _, c) \<Rightarrow>
          (case ReloadConfig N order jobs sched c of
             None \<Rightarrow> None
           | Some (Inl e, c, sched) \<Rightarrow> Some (Inl (Wrap ''start job'' e), c, sched)
           | Some (Inr _, c, sched) \<Rightarrow> Some (Inr (), c, sched)))"

end
