(* ===== verification/Configurator_Correct.thy ===== *)
theory Configurator_Correct
  imports Configurator Job_Correct
begin

text \<open>
  What the configurator does with the set of jobs: starting, resuming and stopping jobs, and how long
  it has to wait for a job that it has cancelled.
\<close>

section \<open>Turns of goroutines\<close>

text \<open>The map of jobs leads to the goroutine of the job.\<close>

definition cfOk :: "('d, 'e) cf_state \<Rightarrow> bool" where
  "cfOk st \<longleftrightarrow> (\<forall>jd g. cfJobs st jd = Some g \<longrightarrow>
     g < length (cfRoutines st) \<and> jrDescriptor (cfRoutines st ! g) = jd)"

text \<open>What neither a turn of a goroutine nor a cancellation changes.\<close>

definition later :: "('d, 'e) cf_state \<Rightarrow> ('d, 'e) cf_state \<Rightarrow> bool" where
  "later st st' \<longleftrightarrow> cfJobs st' \<subseteq>\<^sub>m cfJobs st \<and> length (cfRoutines st') = length (cfRoutines st) \<and>
     (\<forall>g<length (cfRoutines st). let r = cfRoutines st ! g; r' = cfRoutines st' ! g in
        jrDescriptor r' = jrDescriptor r \<and> jrStart r' = jrStart r \<and> jrQuery r' = jrQuery r \<and>
        (jrResult r \<noteq> None \<longrightarrow> jrResult r' = jrResult r) \<and> (jrCancelled r \<longrightarrow> jrCancelled r'))"

lemma later_refl: "later st st"
  by (simp add: later_def Let_def)

lemma later_trans: "later st st' \<Longrightarrow> later st' st'' \<Longrightarrow> later st st''"
  by (auto simp: later_def Let_def intro: map_le_trans)

lemma CancelAll_nth:
  "g < length (cfRoutines st) \<Longrightarrow> cfRoutines (CancelAll st) ! g =
    (let r = cfRoutines st ! g in if cfJobs st (jrDescriptor r) = Some g then r\<lparr>jrCancelled := True\<rparr> else r)"
  "length (cfRoutines (CancelAll st)) = length (cfRoutines st)" "cfJobs (CancelAll st) = cfJobs st"
  by (simp_all add: CancelAll_def nth_enumerate_eq Let_def)

lemma jrResult_cancelled [simp]: "jrResult (r\<lparr>jrCancelled := b\<rparr>) = jrResult r"
  by (simp add: jrResult_def)

lemma later_CancelAll: "later st (CancelAll st)"
  by (auto simp: later_def CancelAll_nth Let_def)

text \<open>The two outcomes of a turn.\<close>

definition afterTurn :: "nat \<Rightarrow> ('d, 'e) ix_state \<Rightarrow> ('d, 'e) cf_state \<Rightarrow> ('d, 'e) cf_state" where
  "afterTurn g s st = st\<lparr>cfService := putRegistry (zjRegistry (ixJob s)) ((cfService st)\<lparr>svcDb := ixDb s\<rparr>),
     cfNode := ixEnv s, cfRoutines := (cfRoutines st)[g := (cfRoutines st ! g)\<lparr>jrState := Some s\<rparr>]\<rparr>"

lemma goStep_cases:
  obtains "goStep N g st = st" "length (cfRoutines st) \<le> g \<or> jrResult (cfRoutines st ! g) \<noteq> None"
  | s where "s = jobTurn N st (cfRoutines st ! g)" "g < length (cfRoutines st)" "jrResult (cfRoutines st ! g) = None"
      "goStep N g st = (if \<exists>e. ixPhase s = Stopped (Inl e) then CancelAll (afterTurn g s st) else afterTurn g s st)"
proof (cases "length (cfRoutines st) \<le> g \<or> jrResult (cfRoutines st ! g) \<noteq> None")
  case False
  then show ?thesis
    by (intro that(2) [OF refl])
       (auto simp: goStep_def afterTurn_def Let_def split: ix_phase.splits sum.splits)
qed (simp_all add: goStep_def that(1))

lemma later_afterTurn:
  "g < length (cfRoutines st) \<Longrightarrow> jrResult (cfRoutines st ! g) = None \<Longrightarrow> later st (afterTurn g s st)"
  by (auto simp: later_def afterTurn_def Let_def nth_list_update)

lemma later_goStep: "later st (goStep N g st)"
  by (cases rule: goStep_cases [of N g st])
     (auto simp: later_refl intro: later_afterTurn later_trans [OF later_afterTurn later_CancelAll])

lemma goStep_jobs [simp]: "cfJobs (goStep N g st) = cfJobs st"
  by (cases rule: goStep_cases [of N g st]) (simp_all add: afterTurn_def CancelAll_nth)

lemma later_jobs: "later st st' \<Longrightarrow> cfJobs st' jd = Some g \<Longrightarrow> cfJobs st jd = Some g"
  unfolding later_def map_le_def by (metis domI)

lemma later_routine:
  assumes "later st st'" "g < length (cfRoutines st)"
  shows "g < length (cfRoutines st')" "jrDescriptor (cfRoutines st' ! g) = jrDescriptor (cfRoutines st ! g)"
    "jrStart (cfRoutines st' ! g) = jrStart (cfRoutines st ! g)"
    "jrResult (cfRoutines st ! g) \<noteq> None \<Longrightarrow> jrResult (cfRoutines st' ! g) = jrResult (cfRoutines st ! g)"
    "jrCancelled (cfRoutines st ! g) \<Longrightarrow> jrCancelled (cfRoutines st' ! g)"
  using assms by (simp_all add: later_def Let_def)

lemma cfOk_job:
  assumes "cfOk st" "later st st'" "cfJobs st' jd = Some g"
  shows "cfJobs st jd = Some g" "g < length (cfRoutines st)" "jrDescriptor (cfRoutines st ! g) = jd"
  using later_jobs [OF assms(2,3)] assms(1) by (simp_all add: cfOk_def)

lemma cfOk_later:
  assumes "cfOk st" "later st st'"
  shows "cfOk st'"
  unfolding cfOk_def
proof (intro allI impI)
  fix jd g
  assume "cfJobs st' jd = Some g"
  then show "g < length (cfRoutines st') \<and> jrDescriptor (cfRoutines st' ! g) = jd"
    using cfOk_job [OF assms] later_routine(1,2) [OF assms(2)] by simp
qed

lemma goStep_result:
  assumes "g < length (cfRoutines st)" "jrResult (cfRoutines st ! g) = None"
    "ixPhase (jobTurn N st (cfRoutines st ! g)) = Stopped res"
  shows "jrResult (cfRoutines (goStep N g st) ! g) = Some (wrapE ''index EVM logs'' res)"
proof (cases rule: goStep_cases [of N g st])
  case (2 s)
  let ?st = "afterTurn g s st"
  have "g < length (cfRoutines ?st)" "jrResult (cfRoutines ?st ! g) = Some (wrapE ''index EVM logs'' res)"
    using assms 2(1) by (simp_all add: afterTurn_def jrResult_def)
  then show ?thesis using 2(4) later_routine(4) [OF later_CancelAll, of g ?st] by simp
qed (use assms in auto)

section \<open>Waiting\<close>

declare waitFor.simps [simp del]

lemma waitFor_ended:
  "waitFor N g sched st = Some (res, st', sched') \<Longrightarrow>
    later st st' \<and> cfJobs st' = cfJobs st \<and> jrResult (cfRoutines st' ! g) = Some res"
proof (induction sched arbitrary: st)
  case Nil
  then show ?case by (subst (asm) waitFor.simps) (auto simp: later_refl split: option.splits)
next
  case (Cons h sched)
  show ?case
  proof (cases "jrResult (cfRoutines st ! g)")
    case None
    then have "waitFor N g sched (goStep N h st) = Some (res, st', sched')"
      using Cons.prems by (subst (asm) waitFor.simps) simp
    then show ?thesis using Cons.IH later_trans [OF later_goStep] by fastforce
  next
    case (Some r)
    then show ?thesis using Cons.prems by (subst (asm) waitFor.simps) (simp add: later_refl)
  qed
qed

text \<open>
  In polling mode a goroutine never ends without an error, and once it is cancelled it ends after at most
  two turns.
\<close>

definition pollOk :: "('d, 'e) ix_state \<Rightarrow> bool" where
  "pollOk s \<longleftrightarrow> (case ixPhase s of
       Indexing \<Rightarrow> ixFrom s \<le> ixCurrent s | Polling \<Rightarrow> True | Sink \<Rightarrow> False | Stopped r \<Rightarrow> r \<noteq> Inr ())"

definition routinesOk :: "('d, 'e) cf_state \<Rightarrow> bool" where
  "routinesOk st \<longleftrightarrow> (\<forall>r\<in>set (cfRoutines st). \<forall>s. jrState r = Some s \<longrightarrow> pollOk s)"

lemma pollOk_ixStep:
  assumes "pollOk s" "cfgIndexerMode cfg = ModePoll"
  shows "pollOk (ixStep I cfg s)"
  using assms
  by (auto simp: pollOk_def ixStep_def indexRound_def pollRound_def afterPoll_def stop_def tickCtx_def Let_def
      split: ix_phase.splits sum.splits prod.splits if_splits)

lemma pollOk_IndexEVMLogs: "pollOk (IndexEVMLogs I b jb d w c)"
  by (auto simp: IndexEVMLogs_def pollOk_def stop_def Let_def split: prod.splits sum.splits)

lemma pollOk_turn:
  assumes "\<forall>s. jrState r = Some s \<longrightarrow> pollOk s" "cfgIndexerMode (ceConfig N) = ModePoll"
  shows "pollOk (jobTurn N st r)"
proof (cases "jrState r")
  case (Some s)
  have "pollOk (s\<lparr>ixDb := d, ixEnv := w, ixCtx := c, ixJob := jb\<rparr>)" for d w c jb
    using assms(1) Some by (cases "ixPhase s") (auto simp: pollOk_def)
  then show ?thesis using Some by (simp add: jobTurn_def Let_def pollOk_ixStep [OF _ assms(2)])
qed (simp add: jobTurn_def Let_def pollOk_IndexEVMLogs)

lemma routinesOk_goStep:
  assumes "routinesOk st" "cfgIndexerMode (ceConfig N) = ModePoll"
  shows "routinesOk (goStep N g st)"
proof (cases rule: goStep_cases [of N g st])
  case 1
  then show ?thesis using assms(1) by simp
next
  case (2 s)
  have "pollOk s"
    unfolding 2(1) using assms 2(2) by (intro pollOk_turn) (auto simp: routinesOk_def)
  then have ok: "routinesOk (afterTurn g s st)"
    using assms(1) set_update_subset_insert [of "cfRoutines st" g] by (fastforce simp: routinesOk_def afterTurn_def)
  then have "routinesOk (CancelAll (afterTurn g s st))"
    by (auto simp: routinesOk_def CancelAll_nth all_set_conv_all_nth Let_def)
  then show ?thesis using ok 2(4) by simp
qed

text \<open>Turns that a cancelled goroutine still takes.\<close>

definition turnsLeft :: "('d, 'e) job_routine \<Rightarrow> nat" where
  "turnsLeft r = (case jrState r of
       None \<Rightarrow> 2
     | Some s \<Rightarrow> (case ixPhase s of Indexing \<Rightarrow> 1 | Stopped _ \<Rightarrow> 0 | _ \<Rightarrow> 2))"

lemma turnsLeft_ended: "turnsLeft r = 0 \<longleftrightarrow> jrResult r \<noteq> None"
  by (auto simp: turnsLeft_def jrResult_def split: option.splits ix_phase.splits)

lemma cancelled_turn:
  assumes c: "jrCancelled r" and ok: "\<forall>s. jrState r = Some s \<longrightarrow> pollOk s"
    and m: "cfgIndexerMode (ceConfig N) = ModePoll" and r: "jrResult r = None"
  shows "turnsLeft (r\<lparr>jrState := Some (jobTurn N st r)\<rparr>) < turnsLeft r"
proof (cases "jrState r")
  case None
  then show ?thesis
    by (auto simp: turnsLeft_def jobTurn_def IndexEVMLogs_def stop_def Let_def split: prod.splits sum.splits)
next
  case (Some s)
  let ?I = "(ceIndexer N)\<lparr>ieClient := ceQuery N (jrQuery r)\<rparr>"
  have step: "turnsLeft (r\<lparr>jrState := Some (ixStep ?I (ceConfig N) s')\<rparr>) < turnsLeft r"
    if s': "ixPhase s' = ixPhase s" "ixCtx s' = Some 0" "ixPhase s' = Indexing \<Longrightarrow> ixFrom s' \<le> ixCurrent s'" for s'
  proof (cases "ixPhase s")
    case Indexing
    then show ?thesis
      using Some s' by (auto simp: turnsLeft_def ixStep_def indexRound_def ctxDone_def stop_def Let_def
          split: prod.splits sum.splits)
  next
    case Polling
    then show ?thesis
      using Some s' by (auto simp: turnsLeft_def ixStep_def pollRound_def ctxDone_def stop_def Let_def
          split: prod.splits sum.splits)
  qed (use Some ok r in \<open>auto simp: pollOk_def jrResult_def\<close>)
  have "ixPhase s = Indexing \<Longrightarrow> ixFrom s \<le> ixCurrent s"
    using ok Some by (auto simp: pollOk_def)
  then show ?thesis
    using Some c step by (simp add: jobTurn_def Let_def jobCtx_def)
qed

lemma turns_goStep:
  assumes "g < length (cfRoutines st)" "jrCancelled (cfRoutines st ! g)" "routinesOk st"
    and m: "cfgIndexerMode (ceConfig N) = ModePoll" and r: "jrResult (cfRoutines st ! g) = None"
  shows "turnsLeft (cfRoutines (goStep N h st) ! g) + (if h = g then 1 else 0) \<le> turnsLeft (cfRoutines st ! g)"
proof -
  let ?r = "cfRoutines st ! g"
  have "turnsLeft (?r\<lparr>jrState := Some (jobTurn N st ?r)\<rparr>) < turnsLeft ?r"
    using assms by (intro cancelled_turn [OF _ _ m r]) (auto simp: routinesOk_def)
  moreover have "turnsLeft (cfRoutines (goStep N h st) ! g) =
      (if h = g then turnsLeft (?r\<lparr>jrState := Some (jobTurn N st ?r)\<rparr>) else turnsLeft ?r)"
    by (cases rule: goStep_cases [of N h st])
       (use r assms(1) in \<open>auto simp: afterTurn_def CancelAll_nth turnsLeft_def Let_def nth_list_update\<close>)
  ultimately show ?thesis by simp
qed

text \<open>
  A wait over a schedule in two parts, and the turns that are left to a cancelled goroutine when the first
  part did not end the wait.
\<close>

lemma waitFor_append:
  "waitFor N g (xs @ ys) st = (case waitFor N g xs st of
     Some (res, st', zs) \<Rightarrow> Some (res, st', zs @ ys)
   | None \<Rightarrow> waitFor N g ys (fold (goStep N) xs st))"
proof (induction xs arbitrary: st)
  case Nil
  then show ?case
    by (cases "jrResult (cfRoutines st ! g)")
       (simp_all add: waitFor.simps [of N g "[]" st] waitFor.simps [of N g ys st])
next
  case (Cons h xs)
  then show ?case
    by (cases "jrResult (cfRoutines st ! g)")
       (simp_all add: waitFor.simps [of N g "h # xs" st] waitFor.simps [of N g "h # xs @ ys" st] split: option.split)
qed

definition stopping :: "nat \<Rightarrow> ('d, 'e) cf_state \<Rightarrow> bool" where
  "stopping g st \<longleftrightarrow> g < length (cfRoutines st) \<and> jrCancelled (cfRoutines st ! g) \<and> routinesOk st"

lemma stopping_goStep:
  "stopping g st \<Longrightarrow> cfgIndexerMode (ceConfig N) = ModePoll \<Longrightarrow> stopping g (goStep N h st)"
  using later_routine(1,5) [OF later_goStep [of st N h]] by (auto simp: stopping_def intro: routinesOk_goStep)

lemma stopping_waitFor:
  "stopping g st \<Longrightarrow> cfgIndexerMode (ceConfig N) = ModePoll \<Longrightarrow>
    waitFor N h sched st = Some (res, st', sched') \<Longrightarrow> stopping g st'"
proof (induction sched arbitrary: st)
  case Nil
  then show ?case by (simp add: waitFor.simps [of N h "[]" st] split: option.splits)
next
  case (Cons a sched)
  then show ?case
    using Cons.IH [OF stopping_goStep [OF Cons.prems(1,2)]]
    by (simp add: waitFor.simps [of N h "a # sched" st] split: option.splits)
qed

lemma turns_fold:
  assumes "stopping g st" and m: "cfgIndexerMode (ceConfig N) = ModePoll" and "waitFor N g xs st = None"
  shows "stopping g (fold (goStep N) xs st) \<and>
    turnsLeft (cfRoutines (fold (goStep N) xs st) ! g) + (if g \<in> set xs then 1 else 0) \<le> turnsLeft (cfRoutines st ! g)"
  using assms(1,3)
proof (induction xs arbitrary: st)
  case (Cons h xs)
  have w: "jrResult (cfRoutines st ! g) = None" "waitFor N g xs (goStep N h st) = None"
    using Cons.prems(2) by (simp_all add: waitFor.simps [of N g "h # xs" st] split: option.splits)
  have "turnsLeft (cfRoutines (goStep N h st) ! g) + (if h = g then 1 else 0) \<le> turnsLeft (cfRoutines st ! g)"
    using Cons.prems(1) by (intro turns_goStep [OF _ _ _ m w(1)]) (simp_all add: stopping_def)
  then show ?case using Cons.IH [OF stopping_goStep [OF Cons.prems(1) m] w(2)] by (auto split: if_splits)
qed simp

text \<open>
  A schedule in rounds that each give the goroutine a turn: the wait ends within as many rounds as the
  goroutine has turns left.  \<open>ys\<close> is the rest of a round that has begun.
\<close>

lemma concat_drop_later:
  assumes "i \<le> j"
  obtains zs where "concat (drop i xs) = zs @ concat (drop j xs)"
proof -
  have "drop i xs = take (j - i) (drop i xs) @ drop j xs"
    using assms append_take_drop_id [of "j - i" "drop i xs"] by simp
  then show ?thesis using that concat_append by metis
qed

lemma waitFor_turns:
  assumes "stopping g st" and m: "cfgIndexerMode (ceConfig N) = ModePoll" and "\<forall>xs\<in>set rounds. g \<in> set xs"
    and "turnsLeft (cfRoutines st ! g) \<le> length rounds"
  shows "\<exists>res st' ys. waitFor N g (concat rounds) st =
    Some (res, st', ys @ concat (drop (turnsLeft (cfRoutines st ! g)) rounds))"
  using assms(1,3,4)
proof (induction rounds arbitrary: st)
  case Nil
  then show ?case by (simp add: turnsLeft_ended waitFor.simps [of N g "[]" st] split: option.splits)
next
  case (Cons xs rounds)
  let ?n = "turnsLeft (cfRoutines st ! g)"
  show ?case
  proof (cases "waitFor N g xs st")
    case (Some r)
    then obtain res st' zs where r: "waitFor N g xs st = Some (res, st', zs)" by (cases r) auto
    show ?thesis
    proof (cases ?n)
      case 0
      then obtain y where "jrResult (cfRoutines st ! g) = Some y" using turnsLeft_ended by blast
      then have "waitFor N g (concat (xs # rounds)) st = Some (y, st, [] @ concat (drop ?n (xs # rounds)))"
        using 0 by (subst waitFor.simps) simp
      then show ?thesis by blast
    next
      case (Suc n)
      obtain ys where "concat rounds = ys @ concat (drop n rounds)" by (rule concat_drop_later [of 0 n rounds]) simp_all
      then have "waitFor N g (concat (xs # rounds)) st = Some (res, st', (zs @ ys) @ concat (drop ?n (xs # rounds)))"
        using r Suc by (simp add: waitFor_append)
      then show ?thesis by blast
    qed
  next
    case None
    let ?st = "fold (goStep N) xs st"
    let ?k = "turnsLeft (cfRoutines ?st ! g)"
    have t: "stopping g ?st" "?k < ?n"
      using turns_fold [OF Cons.prems(1) m None] Cons.prems(2) by auto
    then obtain res st' ys where w: "waitFor N g (concat rounds) ?st = Some (res, st', ys @ concat (drop ?k rounds))"
      using Cons.IH [of ?st] Cons.prems(2,3) by auto
    obtain n where n: "?n = Suc n" "?k \<le> n" using t(2) by (cases ?n) auto
    obtain zs where "concat (drop ?k rounds) = zs @ concat (drop n rounds)" by (rule concat_drop_later [OF n(2)])
    then have "waitFor N g (concat (xs # rounds)) st = Some (res, st', (ys @ zs) @ concat (drop ?n (xs # rounds)))"
      using w None n(1) by (simp add: waitFor_append)
    then show ?thesis by blast
  qed
qed

lemma waitFor_rounds:
  assumes "stopping g st" and m: "cfgIndexerMode (ceConfig N) = ModePoll" and "\<forall>xs\<in>set rounds. g \<in> set xs"
    and "2 \<le> length rounds"
  shows "\<exists>res st' zs. waitFor N g (ys @ concat rounds) st = Some (res, st', zs @ concat (drop 2 rounds))"
proof (cases "waitFor N g ys st")
  case (Some r)
  then obtain res st' zs where r: "waitFor N g ys st = Some (res, st', zs)" by (cases r) auto
  obtain zs' where "concat rounds = zs' @ concat (drop 2 rounds)" by (rule concat_drop_later [of 0 2 rounds]) simp_all
  then have "waitFor N g (ys @ concat rounds) st = Some (res, st', (zs @ zs') @ concat (drop 2 rounds))"
    using r by (simp add: waitFor_append)
  then show ?thesis by blast
next
  case None
  let ?st = "fold (goStep N) ys st"
  let ?n = "turnsLeft (cfRoutines ?st ! g)"
  have n: "?n \<le> 2" by (simp add: turnsLeft_def split: option.split ix_phase.split)
  have "stopping g ?st" using turns_fold [OF assms(1) m None] by blast
  then obtain res st' zs where w: "waitFor N g (concat rounds) ?st = Some (res, st', zs @ concat (drop ?n rounds))"
    using waitFor_turns [OF _ m assms(3), of ?st] n assms(4) by auto
  obtain zs' where "concat (drop ?n rounds) = zs' @ concat (drop 2 rounds)" by (rule concat_drop_later [OF n])
  then have "waitFor N g (ys @ concat rounds) st = Some (res, st', (zs @ zs') @ concat (drop 2 rounds))"
    using w None by (simp add: waitFor_append)
  then show ?thesis by blast
qed

section \<open>Starting jobs\<close>

definition canStart :: "('d, 'b, 'e) cf_env \<Rightarrow> 'd service_state \<Rightarrow> job_descriptor \<Rightarrow> bool" where
  "canStart N sv jd \<longleftrightarrow> (\<exists>h q. Produce (ieDb (ceIndexer N)) sv jd = Inr h \<and>
     FilterQuery (ieAbi (ceIndexer N)) (ceMakeTopics N) h = Inr q)"

text \<open>A goroutine for the job that starts at the block and has not taken a turn.\<close>

definition startedAt :: "('d, 'e) cf_state \<Rightarrow> job_descriptor \<Rightarrow> u64 \<Rightarrow> bool" where
  "startedAt st jd b \<longleftrightarrow> (\<exists>g. cfJobs st jd = Some g \<and> g < length (cfRoutines st) \<and>
     jrDescriptor (cfRoutines st ! g) = jd \<and> jrStart (cfRoutines st ! g) = b \<and>
     fqAddresses (jrQuery (cfRoutines st ! g)) = [jdAddress jd] \<and>
     \<not> jrCancelled (cfRoutines st ! g) \<and> jrState (cfRoutines st ! g) = None)"

definition extends :: "('d, 'e) cf_state \<Rightarrow> ('d, 'e) cf_state \<Rightarrow> bool" where
  "extends st st' \<longleftrightarrow> cfService st' = cfService st \<and> cfNode st' = cfNode st \<and>
     (\<exists>rs. cfRoutines st' = cfRoutines st @ rs \<and> (\<forall>r\<in>set rs. jrState r = None)) \<and>
     (\<forall>jd g. cfJobs st jd = Some g \<longrightarrow> cfJobs st' jd = Some g)"

lemma extends_refl: "extends st st"
  by (simp add: extends_def)

lemma extends_trans: "extends st st' \<Longrightarrow> extends st' st'' \<Longrightarrow> extends st st''"
  by (auto simp: extends_def)

lemma startedAt_extends: "startedAt st jd b \<Longrightarrow> extends st st' \<Longrightarrow> startedAt st' jd b"
  by (force simp: startedAt_def extends_def nth_append)

lemma routinesOk_extends: "routinesOk st \<Longrightarrow> extends st st' \<Longrightarrow> routinesOk st'"
  by (force simp: routinesOk_def extends_def)

lemma Produce_descriptor: "Produce D sv jd = Inr h \<Longrightarrow> zjDescriptor h = jd"
  by (auto simp: Produce_def NewZkCertificateRegistryJob_def bindE_def split: if_splits sum.splits)

lemma StartJob_ok:
  assumes "canStart N (cfService st) jd" "cfJobs st jd = None" "cfOk st"
  shows "\<exists>st'. StartJob N jd b st = (Inr (), st') \<and> extends st st' \<and> startedAt st' jd b \<and> cfOk st' \<and>
    dom (cfJobs st') = insert jd (dom (cfJobs st)) \<and> length (cfRoutines st') = Suc (length (cfRoutines st))"
proof -
  obtain h q where h: "Produce (ieDb (ceIndexer N)) (cfService st) jd = Inr h"
      "FilterQuery (ieAbi (ceIndexer N)) (ceMakeTopics N) h = Inr q"
    using assms(1) by (auto simp: canStart_def)
  have q: "fqAddresses q = [jdAddress jd]"
    using h(2) Produce_descriptor [OF h(1)] by (auto simp: FilterQuery_def bindE_Inr_iff)
  let ?r = "\<lparr>jrDescriptor = jd, jrQuery = q, jrStart = b, jrHandler = h, jrCancelled = False, jrState = None\<rparr>"
  let ?st = "st\<lparr>cfJobs := (cfJobs st)(jd \<mapsto> length (cfRoutines st)), cfRoutines := cfRoutines st @ [?r]\<rparr>"
  have "StartJob N jd b st = (Inr (), ?st)"
    by (simp add: StartJob_def h)
  moreover have "extends st ?st" "startedAt ?st jd b" "dom (cfJobs ?st) = insert jd (dom (cfJobs st))"
      "length (cfRoutines ?st) = Suc (length (cfRoutines st))"
    using assms(2) q by (auto simp: extends_def startedAt_def)
  moreover have "cfOk ?st"
    using assms(3) by (auto simp: cfOk_def nth_append less_SucI)
  ultimately show ?thesis by blast
qed

text \<open>Resuming stored jobs: every active one, from its progress.\<close>

lemma resumeLoop_ok:
  assumes "\<forall>jb\<in>set jobs. jobDescriptor jb \<in> set active \<longrightarrow> canStart N (cfService st) (jobDescriptor jb)"
    and "distinct (map jobDescriptor jobs)" "\<forall>jb\<in>set jobs. cfJobs st (jobDescriptor jb) = None" "cfOk st"
  shows "\<exists>st'. resumeLoop N active jobs st = (Inr (), st') \<and> extends st st' \<and> cfOk st' \<and>
    dom (cfJobs st') = dom (cfJobs st) \<union> (jobDescriptor ` set jobs \<inter> set active) \<and>
    length (cfRoutines st') = length (cfRoutines st) + card (jobDescriptor ` set jobs \<inter> set active) \<and>
    (\<forall>jb\<in>set jobs. jobDescriptor jb \<in> set active \<longrightarrow> startedAt st' (jobDescriptor jb) (jobCurrentBlock jb))"
  using assms
proof (induction jobs arbitrary: st)
  case (Cons jb jobs)
  show ?case
  proof (cases "jobDescriptor jb \<in> set active")
    case False
    then show ?thesis using Cons.IH [of st] Cons.prems by auto
  next
    case True
    let ?jd = "jobDescriptor jb"
    obtain st1 where s1: "StartJob N ?jd (jobCurrentBlock jb) st = (Inr (), st1)" "extends st st1"
      "startedAt st1 ?jd (jobCurrentBlock jb)" "cfOk st1" "dom (cfJobs st1) = insert ?jd (dom (cfJobs st))"
      "length (cfRoutines st1) = Suc (length (cfRoutines st))"
      using StartJob_ok [of N st ?jd "jobCurrentBlock jb"] True Cons.prems by auto
    have sv: "cfService st1 = cfService st" using s1(2) by (simp add: extends_def)
    have new: "?jd \<notin> jobDescriptor ` set jobs" using Cons.prems(2) by simp
    have "cfJobs st1 (jobDescriptor j) = None" if "j \<in> set jobs" for j
    proof -
      have "jobDescriptor j \<noteq> ?jd" using that new by (metis imageI)
      then have "jobDescriptor j \<notin> insert ?jd (dom (cfJobs st))" using that Cons.prems(3) by auto
      then show ?thesis unfolding s1(5) [symmetric] by (simp add: domIff)
    qed
    then obtain st2 where s2: "resumeLoop N active jobs st1 = (Inr (), st2)" "extends st1 st2" "cfOk st2"
      "dom (cfJobs st2) = dom (cfJobs st1) \<union> (jobDescriptor ` set jobs \<inter> set active)"
      "length (cfRoutines st2) = length (cfRoutines st1) + card (jobDescriptor ` set jobs \<inter> set active)"
      "\<forall>j\<in>set jobs. jobDescriptor j \<in> set active \<longrightarrow> startedAt st2 (jobDescriptor j) (jobCurrentBlock j)"
      using Cons.IH [of st1] Cons.prems s1(4) sv by auto
    have "jobDescriptor ` set (jb # jobs) \<inter> set active = insert ?jd (jobDescriptor ` set jobs \<inter> set active)"
      using True by auto
    then show ?thesis
      using s1 s2 True new extends_trans [OF s1(2) s2(2)] startedAt_extends [OF s1(3) s2(2)]
      by (simp add: bindG_def wrapG_def)
  qed
qed (simp add: extends_refl)

text \<open>Starting the jobs of a configuration that do not run yet.\<close>

lemma startLoop_ok:
  assumes "\<forall>jd\<in>set config. canStart N (cfService st) jd" "cfOk st"
  shows "\<exists>st'. startLoop N config st = (Inr (), st') \<and> extends st st' \<and> cfOk st' \<and>
    dom (cfJobs st') = dom (cfJobs st) \<union> set config \<and>
    length (cfRoutines st') = length (cfRoutines st) + card (set config - dom (cfJobs st)) \<and>
    (\<forall>jd\<in>set config. cfJobs st jd = None \<longrightarrow> startedAt st' jd (jdStartBlock jd))"
  using assms
proof (induction config arbitrary: st)
  case (Cons jd config)
  show ?case
  proof (cases "cfJobs st jd")
    case (Some g)
    then have "set (jd # config) - dom (cfJobs st) = set config - dom (cfJobs st)" by auto
    then show ?thesis using Some Cons.IH [of st] Cons.prems by auto
  next
    case None
    obtain st1 where s1: "StartJob N jd (jdStartBlock jd) st = (Inr (), st1)" "extends st st1"
      "startedAt st1 jd (jdStartBlock jd)" "cfOk st1" "dom (cfJobs st1) = insert jd (dom (cfJobs st))"
      "length (cfRoutines st1) = Suc (length (cfRoutines st))"
      using StartJob_ok [of N st jd "jdStartBlock jd"] None Cons.prems by auto
    have "cfService st1 = cfService st" using s1(2) by (simp add: extends_def)
    then obtain st2 where s2: "startLoop N config st1 = (Inr (), st2)" "extends st1 st2" "cfOk st2"
      "dom (cfJobs st2) = dom (cfJobs st1) \<union> set config"
      "length (cfRoutines st2) = length (cfRoutines st1) + card (set config - dom (cfJobs st1))"
      "\<forall>j\<in>set config. cfJobs st1 j = None \<longrightarrow> startedAt st2 j (jdStartBlock j)"
      using Cons.IH [of st1] Cons.prems s1(4) by auto
    have "startedAt st2 j (jdStartBlock j)" if "j \<in> set (jd # config)" "cfJobs st j = None" for j
      using that s1(5) s2(6) startedAt_extends [OF s1(3) s2(2)] by (cases "j = jd") (auto simp: domIff)
    moreover have "set (jd # config) - dom (cfJobs st) = insert jd (set config - dom (cfJobs st1))"
      using None s1(5) by auto
    ultimately show ?thesis
      using s1 s2 None extends_trans [OF s1(2) s2(2)] by (simp add: bindG_def wrapG_def)
  qed
qed (simp add: extends_refl)

section \<open>Stopping jobs\<close>

definition cancelJob :: "job_descriptor \<Rightarrow> nat \<Rightarrow> ('d, 'e) cf_state \<Rightarrow> ('d, 'e) cf_state" where
  "cancelJob jd g st = st\<lparr>cfJobs := (cfJobs st)(jd := None),
     cfRoutines := (cfRoutines st)[g := (cfRoutines st ! g)\<lparr>jrCancelled := True\<rparr>]\<rparr>"

lemma later_cancelJob: "g < length (cfRoutines st) \<Longrightarrow> later st (cancelJob jd g st)"
  by (auto simp: later_def cancelJob_def Let_def nth_list_update map_le_def)

lemma routinesOk_cancelJob: "routinesOk st \<Longrightarrow> g < length (cfRoutines st) \<Longrightarrow> routinesOk (cancelJob jd g st)"
  by (auto simp: routinesOk_def cancelJob_def all_set_conv_all_nth nth_list_update)

text \<open>
  How a goroutine that is stopped may end without making \<open>StopJob\<close> fail: without an error or with the
  error of the cancelled context.
\<close>

definition cleanEnd :: "('d, 'e) job_routine \<Rightarrow> bool" where
  "cleanEnd r \<longleftrightarrow> (case jrResult r of
       None \<Rightarrow> False | Some (Inl err) \<Rightarrow> errorsIs err ErrCanceled | Some (Inr _) \<Rightarrow> True)"

lemma cleanEnd_ended: "cleanEnd r \<Longrightarrow> jrResult r \<noteq> None"
  by (auto simp: cleanEnd_def split: option.splits)

lemma cleanEnd_later:
  "cleanEnd (cfRoutines st ! g) \<Longrightarrow> later st st' \<Longrightarrow> g < length (cfRoutines st) \<Longrightarrow> cleanEnd (cfRoutines st' ! g)"
  using later_routine(4) [of st st' g] cleanEnd_ended [of "cfRoutines st ! g"] by (simp add: cleanEnd_def)

text \<open>The part of the database for jobs has been written by \<open>UpsertJob\<close>.\<close>

definition jobsWritten :: "job codec_ops \<Rightarrow> kv \<Rightarrow> bool" where
  "jobsWritten J m \<longleftrightarrow> (\<forall>k v. m k = Some v \<and> take 1 k = [JobKeyPrefix] \<longrightarrow>
     (\<exists>jb. k = makeJobKey (jobDescriptor jb) \<and> v = encoded J jb))"

locale configurator_env = kv_db "ieDb (ceIndexer N)" content pending isOpen + jobs: msgpack_codec "ieCodec (ceIndexer N)"
  for N :: "('d, 'b, 'e) cf_env" and content pending isOpen +
  assumes iterate: "finite (dom (content d)) \<Longrightarrow> \<exists>entries. ceIterate N d pre = Inr (map snd entries) \<and>
    distinct (map fst entries) \<and> set entries = {(k, v). content d k = Some v \<and> take (length pre) k = pre}"
begin

lemma SelectJob_unique:
  assumes "jobStored (ieCodec (ceIndexer N)) m jd b" "jobStored (ieCodec (ceIndexer N)) m jd b'"
  shows "b = b'"
proof -
  have "encoded (ieCodec (ceIndexer N)) \<lparr>jobDescriptor = jd, jobCurrentBlock = b\<rparr> =
      encoded (ieCodec (ceIndexer N)) \<lparr>jobDescriptor = jd, jobCurrentBlock = b'\<rparr>"
    using assms by (simp add: jobStored_def)
  then show ?thesis by (metis jobs.decode_encoded job.select_convs(2) sum.inject(2))
qed

lemma StopJob_waits:
  assumes "StopJob N jd sched st b = Some (res, st', b', sched')" "cfJobs st jd = Some g" "isOpen b"
  shows "isOpen b' \<and> pending b' = (pending b)(makeJobKey jd \<mapsto> None) \<and>
    (\<exists>r. waitFor N g sched (cancelJob jd g st) = Some (r, st', sched') \<and>
       res = (case r of Inl err \<Rightarrow> if errorsIs err ErrCanceled then Inr () else Inl (Wrap ''wait for job'' err)
              | Inr _ \<Rightarrow> Inr ()))"
proof -
  obtain b1 where b1: "DeleteJob (ieDb (ceIndexer N)) jd b = (Inr (), b1)" "isOpen b1"
      "pending b1 = (pending b)(makeJobKey jd \<mapsto> None)"
    using bdelete_ok [OF assms(3) keys_nonempty(3)] by (auto simp: DeleteJob_def)
  have "b' = b1 \<and> (\<exists>r. waitFor N g sched (cancelJob jd g st) = Some (r, st', sched') \<and>
      res = (case r of Inl err \<Rightarrow> if errorsIs err ErrCanceled then Inr () else Inl (Wrap ''wait for job'' err)
              | Inr _ \<Rightarrow> Inr ()))"
    using assms(1,2) b1(1)
    by (auto simp: StopJob_def wrapG_def cancelJob_def Let_def split: option.splits sum.splits prod.splits if_splits)
  then show ?thesis using b1 by simp
qed

lemma StopJob_result:
  assumes "StopJob N jd sched st b = Some (res, st', b', sched')" "cfJobs st jd = Some g" "isOpen b"
  shows "later (cancelJob jd g st) st' \<and> cfJobs st' = (cfJobs st)(jd := None) \<and>
    isOpen b' \<and> pending b' = (pending b)(makeJobKey jd \<mapsto> None) \<and>
    (case res of Inr _ \<Rightarrow> cleanEnd (cfRoutines st' ! g)
     | Inl e \<Rightarrow> \<exists>err. jrResult (cfRoutines st' ! g) = Some (Inl err) \<and> \<not> errorsIs err ErrCanceled \<and>
         e = Wrap ''wait for job'' err)"
proof -
  obtain r where r: "waitFor N g sched (cancelJob jd g st) = Some (r, st', sched')"
      "res = (case r of Inl err \<Rightarrow> if errorsIs err ErrCanceled then Inr () else Inl (Wrap ''wait for job'' err)
              | Inr _ \<Rightarrow> Inr ())"
    using StopJob_waits [OF assms] by blast
  note w = waitFor_ended [OF r(1)]
  then have "cfJobs st' = (cfJobs st)(jd := None)" by (simp add: cancelJob_def)
  then show ?thesis
    using StopJob_waits [OF assms] w r(2) by (cases r) (simp_all add: cleanEnd_def)
qed

lemma StopJob_ok:
  assumes "StopJob N jd sched st b = Some (Inr (), st', b', sched')" "cfJobs st jd = Some g" "isOpen b"
  shows "later (cancelJob jd g st) st' \<and> cfJobs st' = (cfJobs st)(jd := None) \<and>
    cleanEnd (cfRoutines st' ! g) \<and> isOpen b' \<and> pending b' = (pending b)(makeJobKey jd \<mapsto> None)"
  using StopJob_result [OF assms] by simp

lemma stopLoop_ok:
  assumes "stopLoop N config order sched st b = Some (Inr (), st', b', sched')"
    "set order \<subseteq> dom (cfJobs st)" "distinct order" "cfOk st" "isOpen b"
  shows "later st st' \<and> cfJobs st' = cfJobs st |` (- (set order - set config)) \<and>
    (\<forall>jd\<in>set order - set config. cleanEnd (cfRoutines st' ! the (cfJobs st jd))) \<and> isOpen b' \<and>
    pending b' = (\<lambda>k. if k \<in> makeJobKey ` (set order - set config) then Some None else pending b k)"
  using assms
proof (induction order arbitrary: sched st b)
  case (Cons jd order)
  show ?case
  proof (cases "jd \<in> set config")
    case True
    then have "set (jd # order) - set config = set order - set config" by auto
    then show ?thesis using Cons.IH [of sched st b] Cons.prems True by simp
  next
    case False
    obtain g where g: "cfJobs st jd = Some g" using Cons.prems(2) by auto
    have gl: "g < length (cfRoutines st)" using g Cons.prems(4) by (simp add: cfOk_def)
    obtain st1 b1 sched1 where s1: "StopJob N jd sched st b = Some (Inr (), st1, b1, sched1)"
      and s2: "stopLoop N config order sched1 st1 b1 = Some (Inr (), st', b', sched')"
      using Cons.prems(1) False by (auto split: option.splits sum.splits prod.splits)
    note h = StopJob_ok [OF s1 g Cons.prems(5)]
    have l1: "later st st1" using h later_trans [OF later_cancelJob [OF gl]] by blast
    have sub: "set order \<subseteq> dom (cfJobs st1)" using h Cons.prems(2,3) by auto
    note ih = Cons.IH [OF s2 sub _ cfOk_later [OF Cons.prems(4) l1]]
    have l2: "later st1 st'" using ih h Cons.prems(3) by auto
    have g1: "cleanEnd (cfRoutines st' ! g)"
      using h cleanEnd_later [OF _ l2 later_routine(1) [OF l1 gl]] by blast
    have same: "cfJobs st1 j = cfJobs st j" if "j \<in> set order" for j
      using that h Cons.prems(3) by auto
    have order: "set (jd # order) - set config = insert jd (set order - set config)" using False by auto
    have "pending b' = (\<lambda>k. if k \<in> makeJobKey ` (set (jd # order) - set config) then Some None else pending b k)"
      unfolding order using ih h Cons.prems(3) by auto
    moreover have "cfJobs st' = cfJobs st |` (- (set (jd # order) - set config))"
      unfolding order using ih h Cons.prems(3) by (auto simp: restrict_map_def fun_eq_iff)
    moreover have "\<forall>j\<in>set (jd # order) - set config. cleanEnd (cfRoutines st' ! the (cfJobs st j))"
      unfolding order using ih h g g1 same Cons.prems(3) by auto
    ultimately show ?thesis using ih h Cons.prems(3) later_trans [OF l1 l2] by auto
  qed
qed (simp add: later_refl restrict_map_def fun_eq_iff)

text \<open>The loop fails only with the error of a goroutine that did not end cleanly.\<close>

lemma stopLoop_error:
  assumes "stopLoop N config order sched st b = Some (Inl e, st', b', sched')"
    "set order \<subseteq> dom (cfJobs st)" "distinct order" "cfOk st" "isOpen b"
  shows "\<exists>jd\<in>set order - set config. \<exists>err. jrResult (cfRoutines st' ! the (cfJobs st jd)) = Some (Inl err) \<and>
    \<not> errorsIs err ErrCanceled \<and> cfJobs st' jd = None \<and>
    e = Wrap ''stop job while reloading config'' (Wrap ''wait for job'' err)"
  using assms
proof (induction order arbitrary: sched st b)
  case (Cons jd order)
  show ?case
  proof (cases "jd \<in> set config")
    case True
    then show ?thesis using Cons.IH [of sched st b] Cons.prems by simp
  next
    case False
    obtain g where g: "cfJobs st jd = Some g" using Cons.prems(2) by auto
    have gl: "g < length (cfRoutines st)" using g Cons.prems(4) by (simp add: cfOk_def)
    obtain res st1 b1 sched1 where s1: "StopJob N jd sched st b = Some (res, st1, b1, sched1)"
      using Cons.prems(1) False by (auto split: option.splits)
    note h = StopJob_result [OF s1 g Cons.prems(5)]
    show ?thesis
    proof (cases res)
      case (Inl e1)
      then have "st' = st1" "e = Wrap ''stop job while reloading config'' e1"
        using Cons.prems(1) False s1 by simp_all
      then show ?thesis using h g False Inl by (intro bexI [of _ jd]) auto
    next
      case (Inr u)
      then have s2: "stopLoop N config order sched1 st1 b1 = Some (Inl e, st', b', sched')"
        using Cons.prems(1) False s1 by simp
      have ok1: "cfOk st1" using h cfOk_later [OF cfOk_later [OF Cons.prems(4) later_cancelJob [OF gl]]] by blast
      have sub: "set order \<subseteq> dom (cfJobs st1)" using h Cons.prems(2,3) by auto
      obtain j err where j: "j \<in> set order - set config"
          "jrResult (cfRoutines st' ! the (cfJobs st1 j)) = Some (Inl err)" "\<not> errorsIs err ErrCanceled"
          "cfJobs st' j = None" "e = Wrap ''stop job while reloading config'' (Wrap ''wait for job'' err)"
        using Cons.IH [OF s2 sub _ ok1] Cons.prems(3) h by auto
      have "cfJobs st1 j = cfJobs st j" using j(1) h Cons.prems(3) by auto
      then show ?thesis using j by (intro bexI [of _ j]) auto
    qed
  qed
qed simp

text \<open>
  With a schedule in rounds that give every goroutine to be stopped a turn, two rounds per goroutine, the
  loop returns.
\<close>

lemma StopJob_rounds:
  assumes st: "cfOk st" "routinesOk st" and m: "cfgIndexerMode (ceConfig N) = ModePoll"
    and g: "cfJobs st jd = Some g" and b: "isOpen b" and rounds: "\<forall>xs\<in>set rounds. g \<in> set xs" "2 \<le> length rounds"
  shows "\<exists>res st1 b1 zs. StopJob N jd (ys @ concat rounds) st b = Some (res, st1, b1, zs @ concat (drop 2 rounds)) \<and>
    routinesOk st1 \<and> cfOk st1"
proof -
  let ?c = "cancelJob jd g st"
  have gl: "g < length (cfRoutines st)" using g st(1) by (simp add: cfOk_def)
  then have stop: "stopping g ?c"
    using routinesOk_cancelJob [OF st(2)] by (simp add: stopping_def cancelJob_def)
  obtain r st1 zs where w: "waitFor N g (ys @ concat rounds) ?c = Some (r, st1, zs @ concat (drop 2 rounds))"
    using waitFor_rounds [OF stop m rounds] by blast
  have ok: "routinesOk st1" "cfOk st1"
    using stopping_waitFor [OF stop m w] waitFor_ended [OF w] cfOk_later [OF cfOk_later [OF st(1) later_cancelJob [OF gl]]]
    by (auto simp: stopping_def)
  obtain b1 where "DeleteJob (ieDb (ceIndexer N)) jd b = (Inr (), b1)"
    using bdelete_ok [OF b keys_nonempty(3)] by (auto simp: DeleteJob_def)
  then have "\<exists>res. StopJob N jd (ys @ concat rounds) st b = Some (res, st1, b1, zs @ concat (drop 2 rounds))"
    using g w by (cases r) (auto simp: StopJob_def wrapG_def cancelJob_def Let_def)
  then show ?thesis using ok by blast
qed

lemma stopLoop_returns:
  assumes "cfOk st" "routinesOk st" "isOpen b" "set order \<subseteq> dom (cfJobs st)" "distinct order"
    and "\<forall>xs\<in>set rounds. \<forall>jd\<in>set order - set config. the (cfJobs st jd) \<in> set xs"
    and "2 * card (set order - set config) \<le> length rounds" and m: "cfgIndexerMode (ceConfig N) = ModePoll"
  shows "\<exists>res. stopLoop N config order (ys @ concat rounds) st b = Some res"
  using assms(1-7)
proof (induction order arbitrary: ys rounds st b)
  case (Cons jd order)
  show ?case
  proof (cases "jd \<in> set config")
    case True
    then have "set (jd # order) - set config = set order - set config" by auto
    then show ?thesis using Cons.IH [of st b rounds ys] Cons.prems True by simp
  next
    case False
    then have removed: "set (jd # order) - set config = insert jd (set order - set config)" by auto
    have card: "2 + 2 * card (set order - set config) \<le> length rounds"
      using Cons.prems(5,7) unfolding removed by simp
    obtain g where g: "cfJobs st jd = Some g" using Cons.prems(4) by auto
    then have turns: "\<forall>xs\<in>set rounds. g \<in> set xs" using Cons.prems(6) unfolding removed by simp
    obtain res st1 b1 zs where
      s1: "StopJob N jd (ys @ concat rounds) st b = Some (res, st1, b1, zs @ concat (drop 2 rounds))"
      and ok: "routinesOk st1" "cfOk st1"
      using StopJob_rounds [OF Cons.prems(1,2) m g Cons.prems(3) turns, of ys] card by auto
    note h = StopJob_result [OF s1 g Cons.prems(3)]
    have same: "cfJobs st1 j = cfJobs st j" if "j \<in> set order" for j using that h Cons.prems(5) by auto
    have "\<exists>res. stopLoop N config order (zs @ concat (drop 2 rounds)) st1 b1 = Some res"
    proof (rule Cons.IH [OF ok(2,1)])
      show "isOpen b1" "distinct order" "set order \<subseteq> dom (cfJobs st1)" using h Cons.prems(4,5) by auto
      show "2 * card (set order - set config) \<le> length (drop 2 rounds)" using card by simp
      show "\<forall>xs\<in>set (drop 2 rounds). \<forall>jd\<in>set order - set config. the (cfJobs st1 jd) \<in> set xs"
        using Cons.prems(6) same in_set_dropD [of _ 2 rounds] unfolding removed by simp
    qed
    then show ?thesis using False s1 by (cases res) (auto simp del: split_paired_Ex)
  qed
qed simp

end

section \<open>Cancellation spreads\<close>

text \<open>
  A goroutine that ends with an error cancels the jobs of the map.  In polling mode every end is an error,
  also the one that a cancellation causes.
\<close>

definition allCancelled :: "('d, 'e) cf_state \<Rightarrow> bool" where
  "allCancelled st \<longleftrightarrow> (\<forall>jd g. cfJobs st jd = Some g \<longrightarrow> jrCancelled (cfRoutines st ! g))"

definition spread :: "nat \<Rightarrow> ('d, 'e) cf_state \<Rightarrow> bool" where
  "spread g st \<longleftrightarrow> cfOk st \<and> routinesOk st \<and> g < length (cfRoutines st) \<and>
     (jrResult (cfRoutines st ! g) = None \<or> allCancelled st)"

lemma allCancelled_later:
  assumes "allCancelled st" "cfOk st" "later st st'"
  shows "allCancelled st'"
  unfolding allCancelled_def
proof (intro allI impI)
  fix jd g
  assume j: "cfJobs st' jd = Some g"
  then have "jrCancelled (cfRoutines st ! g)" using assms(1) cfOk_job(1) [OF assms(2,3) j] by (auto simp: allCancelled_def)
  then show "jrCancelled (cfRoutines st' ! g)"
    using later_routine(5) [OF assms(3) cfOk_job(2) [OF assms(2,3) j]] by simp
qed

lemma allCancelled_CancelAll: "cfOk st \<Longrightarrow> allCancelled (CancelAll st)"
  by (auto simp: allCancelled_def cfOk_def CancelAll_nth Let_def)

lemma spread_goStep:
  assumes "spread g st" "cfgIndexerMode (ceConfig N) = ModePoll"
  shows "spread g (goStep N h st)"
proof -
  have st: "cfOk st" "routinesOk st" "g < length (cfRoutines st)"
    "jrResult (cfRoutines st ! g) = None \<or> allCancelled st"
    using assms(1) by (simp_all add: spread_def)
  have ok: "cfOk (goStep N h st)" "routinesOk (goStep N h st)" "g < length (cfRoutines (goStep N h st))"
    using cfOk_later [OF st(1) later_goStep] routinesOk_goStep [OF st(2) assms(2)] st(3) later_goStep [of st N h]
    by (auto simp: later_def)
  have "jrResult (cfRoutines (goStep N h st) ! g) = None \<or> allCancelled (goStep N h st)"
  proof (cases rule: goStep_cases [of N h st])
    case 1
    then show ?thesis using st(4) by simp
  next
    case (2 s)
    have p: "pollOk s" unfolding 2(1) using st(2) assms(2) 2(2) by (intro pollOk_turn) (auto simp: routinesOk_def)
    show ?thesis
    proof (cases "\<exists>e. ixPhase s = Stopped (Inl e)")
      case True
      then show ?thesis
        using 2(4) allCancelled_CancelAll [OF cfOk_later [OF st(1) later_afterTurn [OF 2(2,3), of s]]] by simp
    next
      case False
      have "ixPhase s \<noteq> Stopped r" for r using p False by (cases r) (auto simp: pollOk_def)
      then have "jrResult ((cfRoutines st ! h)\<lparr>jrState := Some s\<rparr>) = None"
        by (simp add: jrResult_def split: ix_phase.splits)
      then show ?thesis
        using False 2(2,4) st(3,4) allCancelled_later [OF _ st(1) later_goStep [of st N h]]
        by (auto simp: afterTurn_def nth_list_update)
    qed
  qed
  then show ?thesis using ok by (simp add: spread_def)
qed

lemma spread_waitFor:
  "spread g st \<Longrightarrow> cfgIndexerMode (ceConfig N) = ModePoll \<Longrightarrow>
    waitFor N h sched st = Some (res, st', sched') \<Longrightarrow> spread g st'"
proof (induction sched arbitrary: st)
  case Nil
  then show ?case by (simp add: waitFor.simps [of N h "[]" st] split: option.splits)
next
  case (Cons a sched)
  have "spread g (goStep N a st)" using Cons.prems(1,2) by (rule spread_goStep)
  then show ?case
    using Cons.prems Cons.IH [of "goStep N a st"]
    by (simp add: waitFor.simps [of N h "a # sched" st] split: option.splits)
qed

lemma spread_cancelJob: "spread g st \<Longrightarrow> h < length (cfRoutines st) \<Longrightarrow> spread g (cancelJob jd h st)"
  using later_cancelJob [of h st jd] allCancelled_later [of st "cancelJob jd h st"]
    cfOk_later [of st "cancelJob jd h st"] routinesOk_cancelJob [of st h jd]
  by (auto simp: spread_def cancelJob_def nth_list_update)

context configurator_env
begin

lemma StopJob_spread:
  assumes "spread g st" "cfgIndexerMode (ceConfig N) = ModePoll" "cfJobs st jd = Some h" "isOpen b"
    "StopJob N jd sched st b = Some (Inr (), st', b', sched')"
  shows "spread g st'"
proof -
  have h: "h < length (cfRoutines st)" using assms(1,3) by (simp add: spread_def cfOk_def)
  show ?thesis
    using StopJob_waits [OF assms(5,3,4)] spread_waitFor [OF spread_cancelJob [OF assms(1) h] assms(2)] by blast
qed

lemma stopLoop_spread:
  assumes "stopLoop N config order sched st b = Some (Inr (), st', b', sched')"
    "set order \<subseteq> dom (cfJobs st)" "distinct order" "isOpen b" "spread g st"
    and m: "cfgIndexerMode (ceConfig N) = ModePoll"
  shows "spread g st'"
  using assms(1-5)
proof (induction order arbitrary: sched st b)
  case (Cons jd order)
  show ?case
  proof (cases "jd \<in> set config")
    case True
    then show ?thesis using Cons.IH [of sched st b] Cons.prems by simp
  next
    case False
    obtain h where h: "cfJobs st jd = Some h" using Cons.prems(2) by auto
    obtain st1 b1 sched1 where s1: "StopJob N jd sched st b = Some (Inr (), st1, b1, sched1)"
      and s2: "stopLoop N config order sched1 st1 b1 = Some (Inr (), st', b', sched')"
      using Cons.prems(1) False by (auto split: option.splits sum.splits prod.splits)
    note ok = StopJob_ok [OF s1 h Cons.prems(4)]
    then have sub: "set order \<subseteq> dom (cfJobs st1)" using Cons.prems(2,3) by auto
    show ?thesis
      using Cons.IH [OF s2 sub] Cons.prems(3) ok StopJob_spread [OF Cons.prems(5) m h Cons.prems(4) s1] by simp
  qed
qed simp

section \<open>Reloading a configuration\<close>

lemma ReloadConfig_steps:
  assumes start: "\<forall>jd\<in>set config. canStart N (cfService st) jd" and ok: "cfOk st"
    and order: "set order = dom (cfJobs st) \<union> set config" "distinct order"
    and run: "ReloadConfig N order config sched st = Some (Inr (), st', sched')"
  obtains st1 b b' st2 where "startLoop N config st = (Inr (), st1)" "extends st st1" "cfOk st1"
    "dom (cfJobs st1) = set order" "\<forall>jd\<in>set config. cfJobs st jd = None \<longrightarrow> startedAt st1 jd (jdStartBlock jd)"
    "isOpen b" "pending b = Map.empty" "stopLoop N config order sched st1 b = Some (Inr (), st2, b', sched')"
    "cfJobs st' = cfJobs st2" "cfRoutines st' = cfRoutines st2"
    "content (svcDb (cfService st')) = applyOverlay (pending b') (content (svcDb (cfService st2)))"
proof -
  obtain st1 where s1: "startLoop N config st = (Inr (), st1)" "extends st st1" "cfOk st1"
    "dom (cfJobs st1) = dom (cfJobs st) \<union> set config"
    "\<forall>jd\<in>set config. cfJobs st jd = None \<longrightarrow> startedAt st1 jd (jdStartBlock jd)"
    using startLoop_ok [OF start ok] by blast
  let ?b = "dbNewBatch (ieDb (ceIndexer N)) (svcDb (cfService st1))"
  have b: "isOpen ?b" "pending ?b = Map.empty" using new_ok by auto
  obtain st2 b' where s2: "stopLoop N config order sched st1 ?b = Some (Inr (), st2, b', sched')"
    and w: "\<exists>d b''. batchWriteSync (ieDb (ceIndexer N)) (svcDb (cfService st2), b') = (Inr (), d, b'') \<and>
      st' = st2\<lparr>cfService := (cfService st2)\<lparr>svcDb := d\<rparr>\<rparr>"
    using run s1(1) by (auto simp: ReloadConfig_def wrapG_def split: option.splits sum.splits prod.splits)
  have "set order \<subseteq> dom (cfJobs st1)" using order(1) s1(4) by simp
  then have "isOpen b'" using stopLoop_ok [OF s2 _ order(2) s1(3) b(1)] by blast
  then have "cfJobs st' = cfJobs st2" "cfRoutines st' = cfRoutines st2"
    "content (svcDb (cfService st')) = applyOverlay (pending b') (content (svcDb (cfService st2)))"
    using w write_ok [of b' "svcDb (cfService st2)"] by auto
  then show ?thesis using that [OF s1(1-3) _ s1(5) b s2] s1(4) order(1) by simp
qed

lemma ReloadConfig_error:
  assumes start: "\<forall>jd\<in>set config. canStart N (cfService st) jd" and ok: "cfOk st"
    and order: "set order = dom (cfJobs st) \<union> set config" "distinct order"
    and run: "ReloadConfig N order config sched st = Some (Inl e, st', sched')"
  shows "\<exists>jd\<in>dom (cfJobs st) - set config. \<exists>err. jrResult (cfRoutines st' ! the (cfJobs st jd)) = Some (Inl err) \<and>
    \<not> errorsIs err ErrCanceled \<and> cfJobs st' jd = None \<and>
    e = Wrap ''stop job while reloading config'' (Wrap ''wait for job'' err)"
proof -
  obtain st1 where s1: "startLoop N config st = (Inr (), st1)" "extends st st1" "cfOk st1"
    "dom (cfJobs st1) = dom (cfJobs st) \<union> set config"
    using startLoop_ok [OF start ok] by blast
  let ?b = "dbNewBatch (ieDb (ceIndexer N)) (svcDb (cfService st1))"
  have b: "isOpen ?b" using new_ok by auto
  have sub: "set order \<subseteq> dom (cfJobs st1)" using order(1) s1(4) by simp
  obtain res st2 b' sched2 where s2: "stopLoop N config order sched st1 ?b = Some (res, st2, b', sched2)"
    using run s1(1) by (auto simp: ReloadConfig_def split: option.splits)
  show ?thesis
  proof (cases res)
    case (Inr u)
    then have "isOpen b'" using stopLoop_ok [OF _ sub order(2) s1(3) b] s2 by simp
    then show ?thesis using write_ok [of b' "svcDb (cfService st2)"] run s1(1) s2 Inr
      by (auto simp: ReloadConfig_def wrapG_def)
  next
    case (Inl e')
    then have "st2 = st'" "e' = e" using run s1(1) s2 by (simp_all add: ReloadConfig_def)
    then obtain jd err where jd: "jd \<in> set order - set config"
        "jrResult (cfRoutines st' ! the (cfJobs st1 jd)) = Some (Inl err)" "\<not> errorsIs err ErrCanceled"
        "cfJobs st' jd = None" "e = Wrap ''stop job while reloading config'' (Wrap ''wait for job'' err)"
      using stopLoop_error [OF _ sub order(2) s1(3) b] s2 Inl by blast
    then have "jd \<in> dom (cfJobs st) - set config" using order(1) by auto
    moreover have "the (cfJobs st1 jd) = the (cfJobs st jd)" using calculation s1(2) by (auto simp: extends_def)
    ultimately show ?thesis using jd by auto
  qed
qed

lemma ReloadConfig_returns:
  assumes start: "\<forall>jd\<in>set config. canStart N (cfService st) jd" and ok: "cfOk st" "routinesOk st"
    and order: "set order = dom (cfJobs st) \<union> set config" "distinct order"
    and m: "cfgIndexerMode (ceConfig N) = ModePoll"
    and turns: "\<forall>xs\<in>set rounds. \<forall>jd\<in>dom (cfJobs st) - set config. the (cfJobs st jd) \<in> set xs"
      "2 * card (dom (cfJobs st) - set config) \<le> length rounds"
  shows "\<exists>res. ReloadConfig N order config (concat rounds) st = Some res"
proof -
  obtain st1 where s1: "startLoop N config st = (Inr (), st1)" "extends st st1" "cfOk st1"
    "dom (cfJobs st1) = dom (cfJobs st) \<union> set config"
    using startLoop_ok [OF start ok(1)] by blast
  let ?b = "dbNewBatch (ieDb (ceIndexer N)) (svcDb (cfService st1))"
  have b: "isOpen ?b" using new_ok by auto
  have removed: "set order - set config = dom (cfJobs st) - set config" using order(1) by auto
  have same: "the (cfJobs st1 jd) = the (cfJobs st jd)" if "jd \<in> dom (cfJobs st)" for jd
    using that s1(2) by (auto simp: extends_def)
  have sub: "set order \<subseteq> dom (cfJobs st1)" using order(1) s1(4) by simp
  have "\<exists>res. stopLoop N config order ([] @ concat rounds) st1 ?b = Some res"
    using turns same
    by (intro stopLoop_returns [OF s1(3) routinesOk_extends [OF ok(2) s1(2)] b sub order(2) _ _ m])
       (simp_all add: removed)
  then obtain res where "stopLoop N config order (concat rounds) st1 ?b = Some res" by auto
  then show ?thesis by (auto simp: ReloadConfig_def s1(1) split: prod.split sum.split)
qed

section \<open>Resuming from the storage\<close>

lemma SelectAllJobs_ok:
  assumes fin: "finite (dom (content d))" and jw: "jobsWritten (ieCodec (ceIndexer N)) (content d)"
  shows "\<exists>jobs. SelectAllJobs (ieCodec (ceIndexer N)) (ceIterate N) d None = (Inr jobs, None) \<and>
    distinct (map jobDescriptor jobs) \<and>
    (\<forall>jb. jb \<in> set jobs \<longleftrightarrow> jobStored (ieCodec (ceIndexer N)) (content d) (jobDescriptor jb) (jobCurrentBlock jb))"
proof -
  let ?J = "ieCodec (ceIndexer N)"
  obtain es where es: "ceIterate N d [JobKeyPrefix] = Inr (map snd es)" "distinct (map fst es)"
      "set es = {(k, v). content d k = Some v \<and> take 1 k = [JobKeyPrefix]}"
    using iterate [OF fin, of "[JobKeyPrefix]"] by auto
  define jobOf where "jobOf e = (case codecDecode ?J (snd e) of Inr jb \<Rightarrow> jb | Inl _ \<Rightarrow> undefined)" for e :: "bytes \<times> bytes"
  have stored: "content d (fst e) = Some (snd e) \<and> take 1 (fst e) = [JobKeyPrefix]" if "e \<in> set es" for e
    using that es(3) by auto
  have dec: "codecDecode ?J (snd e) = Inr (jobOf e)" "fst e = makeJobKey (jobDescriptor (jobOf e))"
      "snd e = encoded ?J (jobOf e)" if "e \<in> set es" for e
  proof -
    note st = stored [OF that]
    obtain jb where "fst e = makeJobKey (jobDescriptor jb)" "snd e = encoded ?J jb"
      using jw st unfolding jobsWritten_def by blast
    then show "codecDecode ?J (snd e) = Inr (jobOf e)" "fst e = makeJobKey (jobDescriptor (jobOf e))"
        "snd e = encoded ?J (jobOf e)"
      by (simp_all add: jobOf_def)
  qed
  have "selectJobsLoop ?J (map snd es') acc None = (Inr (acc @ map jobOf es'), None)" if "set es' \<subseteq> set es" for es' acc
    using that by (induction es' arbitrary: acc) (simp_all add: dec(1))
  then have sel: "SelectAllJobs ?J (ceIterate N) d None = (Inr (map jobOf es), None)"
    by (simp add: SelectAllJobs_def es(1))
  have "map makeJobKey (map jobDescriptor (map jobOf es)) = map fst es"
    using dec(2) by (auto simp: comp_def)
  then have dist: "distinct (map jobDescriptor (map jobOf es))"
    using es(2) distinct_map by metis
  have "jb \<in> jobOf ` set es \<longleftrightarrow> jobStored ?J (content d) (jobDescriptor jb) (jobCurrentBlock jb)" for jb
  proof
    assume "jb \<in> jobOf ` set es"
    then obtain e where e: "e \<in> set es" "jb = jobOf e" by blast
    have "content d (makeJobKey (jobDescriptor jb)) = Some (encoded ?J jb)"
      using stored [OF e(1)] unfolding dec(2) [OF e(1)] dec(3) [OF e(1)] e(2) by simp
    then show "jobStored ?J (content d) (jobDescriptor jb) (jobCurrentBlock jb)"
      by (cases jb) (simp add: jobStored_def)
  next
    assume "jobStored ?J (content d) (jobDescriptor jb) (jobCurrentBlock jb)"
    then have "(makeJobKey (jobDescriptor jb), encoded ?J jb) \<in> set es"
      by (cases jb) (simp add: es(3) jobStored_def makeJobKey_def)
    then show "jb \<in> jobOf ` set es" by (rule rev_image_eqI) (simp add: jobOf_def)
  qed
  then show ?thesis using sel dist by auto
qed

text \<open>Jobs that run already are left alone.\<close>

lemma stopLoop_nothing: "set order \<subseteq> set config \<Longrightarrow> stopLoop N config order sched st b = Some (Inr (), st, b, sched)"
  by (induction order) simp_all

lemma RunIndexer_ok:
  assumes fin: "finite (dom (content (svcDb s)))" and jw: "jobsWritten (ieCodec (ceIndexer N)) (content (svcDb s))"
    and start: "\<forall>jd\<in>set config. canStart N s jd" and order: "set order = set config"
  shows "\<exists>st. RunIndexer N order None config sched s w = Some (Inr (), st, sched) \<and>
    dom (cfJobs st) = set config \<and> length (cfRoutines st) = card (set config) \<and>
    content (svcDb (cfService st)) = content (svcDb s) \<and> svcRegistry (cfService st) = svcRegistry s \<and>
    (\<forall>jd\<in>set config. \<exists>b. startedAt st jd b \<and>
       (\<forall>b'. jobStored (ieCodec (ceIndexer N)) (content (svcDb s)) jd b' \<longrightarrow> b = b') \<and>
       ((\<forall>b'. \<not> jobStored (ieCodec (ceIndexer N)) (content (svcDb s)) jd b') \<longrightarrow> b = jdStartBlock jd))"
proof -
  let ?J = "ieCodec (ceIndexer N)" and ?c = "NewConfigurator s w" and ?D = "ieDb (ceIndexer N)"
  obtain jobs where jobs: "SelectAllJobs ?J (ceIterate N) (svcDb s) None = (Inr jobs, None)"
      "distinct (map jobDescriptor jobs)"
      "\<And>jb. jb \<in> set jobs \<longleftrightarrow> jobStored ?J (content (svcDb s)) (jobDescriptor jb) (jobCurrentBlock jb)"
    using SelectAllJobs_ok [OF fin jw] by blast
  let ?A = "jobDescriptor ` set jobs \<inter> set config"
  have c: "cfService ?c = s" "cfOk ?c" "cfJobs ?c = Map.empty" "cfRoutines ?c = []"
    by (simp_all add: NewConfigurator_def cfOk_def)
  obtain st1 where s1: "resumeLoop N config jobs ?c = (Inr (), st1)" "extends ?c st1" "cfOk st1"
      "dom (cfJobs st1) = ?A" "length (cfRoutines st1) = card ?A"
      "\<forall>jb\<in>set jobs. jobDescriptor jb \<in> set config \<longrightarrow> startedAt st1 (jobDescriptor jb) (jobCurrentBlock jb)"
    using resumeLoop_ok [of jobs config N ?c] start jobs(2) c by auto
  have sv: "cfService st1 = s" using s1(2) c(1) by (simp add: extends_def)
  obtain st2 where s2: "startLoop N config st1 = (Inr (), st2)" "extends st1 st2"
      "dom (cfJobs st2) = ?A \<union> set config" "length (cfRoutines st2) = card ?A + card (set config - ?A)"
      "\<forall>jd\<in>set config. cfJobs st1 jd = None \<longrightarrow> startedAt st2 jd (jdStartBlock jd)"
    using startLoop_ok [of config N st1] start sv s1(3-5) by auto
  have sv2: "cfService st2 = s" using s2(2) sv by (simp add: extends_def)
  let ?b = "dbNewBatch ?D (svcDb s)"
  obtain d b where wr: "batchWriteSync ?D (svcDb s, ?b) = (Inr (), d, b)" "content d = content (svcDb s)"
    using write_ok [of ?b "svcDb s"] new_ok by auto
  let ?st = "st2\<lparr>cfService := s\<lparr>svcDb := d\<rparr>\<rparr>"
  have run: "RunIndexer N order None config sched s w = Some (Inr (), ?st, sched)"
    using jobs(1) s1(1) s2(1) sv2 wr(1) order
    by (simp add: RunIndexer_def InitConfiguratorFromStorage_def ReloadConfig_def stopLoop_nothing wrapG_def)
  have card: "card ?A + card (set config - ?A) = card (set config)"
    using card_Un_disjoint [of ?A "set config - ?A"] by (simp add: Un_absorb1)
  have "\<exists>b. startedAt ?st jd b \<and> (\<forall>b'. jobStored ?J (content (svcDb s)) jd b' \<longrightarrow> b = b') \<and>
      ((\<forall>b'. \<not> jobStored ?J (content (svcDb s)) jd b') \<longrightarrow> b = jdStartBlock jd)" if jd: "jd \<in> set config" for jd
  proof (cases "\<exists>b'. jobStored ?J (content (svcDb s)) jd b'")
    case True
    then obtain b' where b': "jobStored ?J (content (svcDb s)) jd b'" by blast
    then have "startedAt st1 jd b'"
      using s1(6) jobs(3) [of "\<lparr>jobDescriptor = jd, jobCurrentBlock = b'\<rparr>"] jd by fastforce
    then have "startedAt ?st jd b'" using startedAt_extends [OF _ s2(2)] by (simp add: startedAt_def)
    moreover have "b' = b''" if "jobStored ?J (content (svcDb s)) jd b''" for b''
      using SelectJob_unique [OF b' that] .
    ultimately show ?thesis using b' by blast
  next
    case False
    then have "jd \<notin> dom (cfJobs st1)" unfolding s1(4) using jobs(3) by fastforce
    then have "cfJobs st1 jd = None" by (simp add: domIff)
    then have "startedAt ?st jd (jdStartBlock jd)" using s2(5) jd by (simp add: startedAt_def)
    then show ?thesis using False by blast
  qed
  then show ?thesis
    using run s2(3,4) card wr(2) by (intro exI [of _ ?st]) (auto simp: Un_absorb1)
qed

end

end
