(* ===== verification/System_Instances.thy ===== *)
theory System_Instances
  imports Instances System_Correct Configurator_Correct "HOL-Library.List_Lexorder"
begin

text \<open>
  Concrete parameters of the service, the jobs and the indexer: codecs that pack the fields of a
  record, a contract, an event ABI whose logs carry an operation, an index and a hash in their data,
  and a client of a fixed chain.
\<close>

section \<open>Codecs\<close>

definition metadataFields :: "metadata \<Rightarrow> bytes list" where
  "metadataFields md = [mdAddress md, [mdDepth md], beBytes32 (mdEmptyValue md), be64 (mdInitBlockHeight md),
     map (\<lambda>c. word_of_nat (of_char c)) (mdDescription md), [mdIndex md]]"

definition fieldsMetadata :: "bytes list \<Rightarrow> metadata" where
  "fieldsMetadata bss = \<lparr>mdAddress = bss ! 0, mdDepth = hd (bss ! 1), mdEmptyValue = beSetBytes (bss ! 2),
     mdInitBlockHeight = (case Uint64 (bss ! 3) of Inr h \<Rightarrow> h | Inl _ \<Rightarrow> 0),
     mdDescription = map (\<lambda>b. char_of (unat b)) (bss ! 4), mdIndex = hd (bss ! 5)\<rparr>"

definition metadataCodec :: "metadata codec_ops" where
  "metadataCodec = packCodec 6 metadataFields fieldsMetadata"

lemma char_byte: "char_of (unat (word_of_nat (of_char c) :: u8)) = c"
proof -
  have "(of_char c :: nat) < 256"
    using nat_of_char_less_256 .
  then show ?thesis by (simp add: unat_of_nat take_bit_nat_eq_self)
qed

interpretation metaCodec: msgpack_codec metadataCodec
proof -
  have "Uint64 (be64 h) = Inr h" for h
    using Uint64_be64 [of h "[]"] by simp
  then have "fieldsMetadata (metadataFields md) = md" for md
    by (simp add: fieldsMetadata_def metadataFields_def beSetBytes_beBytes32 comp_def char_byte)
  then show "msgpack_codec metadataCodec"
    unfolding metadataCodec_def by (intro packCodec_ok) (simp_all add: metadataFields_def)
qed

definition jobFields :: "job \<Rightarrow> bytes list" where
  "jobFields jb = [jdAddress (jobDescriptor jb), [jdContract (jobDescriptor jb)],
     be64 (jdStartBlock (jobDescriptor jb)), be64 (jobCurrentBlock jb)]"

definition fieldsJob :: "bytes list \<Rightarrow> job" where
  "fieldsJob bss = \<lparr>jobDescriptor = \<lparr>jdAddress = bss ! 0, jdContract = hd (bss ! 1),
       jdStartBlock = (case Uint64 (bss ! 2) of Inr b \<Rightarrow> b | Inl _ \<Rightarrow> 0)\<rparr>,
     jobCurrentBlock = (case Uint64 (bss ! 3) of Inr b \<Rightarrow> b | Inl _ \<Rightarrow> 0)\<rparr>"

definition jobCodec :: "job codec_ops" where
  "jobCodec = packCodec 4 jobFields fieldsJob"

interpretation jobCodec: msgpack_codec jobCodec
proof -
  have "Uint64 (be64 h) = Inr h" for h
    using Uint64_be64 [of h "[]"] by simp
  then have "fieldsJob (jobFields jb) = jb" for jb
    by (simp add: fieldsJob_def jobFields_def)
  then show "msgpack_codec jobCodec"
    unfolding jobCodec_def by (intro packCodec_ok) (simp_all add: jobFields_def)
qed

interpretation memService: service_env mixHash scalarField memdb "\<lambda>d. d" memPending memIsOpen uint256 metadataCodec
  by unfold_locales

interpretation memJob: job_env mixHash scalarField memdb "\<lambda>d. d" memPending memIsOpen uint256 jobCodec
  by unfold_locales

interpretation memSystem: system_env mixHash scalarField memdb "\<lambda>d. d" memPending memIsOpen uint256
    metadataCodec jobCodec
  by unfold_locales

section \<open>A contract and its events\<close>

definition smallContract :: contract_caller where
  "smallContract = \<lparr>ccNew = (\<lambda>a. Inr ()), ccTreeDepth = (\<lambda>a. Inr 3),
     ccZEROVALUE = (\<lambda>a. Inr (replicate 31 0 @ [5])), ccInitBlockHeight = (\<lambda>a. Inr 2),
     ccDescription = (\<lambda>a. Inr ''small'')\<rparr>"

definition smallAbi :: event_abi where
  "smallAbi = \<lparr>abiCertificateProcessed = Inr [7], abiNewFilterer = (\<lambda>a. Inr ()),
     abiParse = (\<lambda>l. case logData l of
        oper # i # hash \<Rightarrow> Inr \<lparr>cpLeafHash = hash, cpOperation = oper, cpLeafIndex = unat i\<rparr>
      | _ \<Rightarrow> Inl (ErrNew ''abi: cannot unmarshal''))\<rparr>"

definition eventLog :: "nat \<Rightarrow> u8 \<Rightarrow> u8 \<Rightarrow> u8 \<Rightarrow> evm_log" where
  "eventLog b oper i v = \<lparr>logTopics = [[7]], logData = [oper, i, v], logBlockNumber = word_of_nat b, logRemoved = False\<rparr>"

text \<open>Block 2 adds 7 at leaf 2, block 3 adds 9 at leaf 6, block 5 revokes 7.\<close>

definition smallChain :: "nat \<Rightarrow> evm_log list" where
  "smallChain b = (if b = 2 then [eventLog 2 0 2 7] else if b = 3 then [eventLog 3 0 6 9]
     else if b = 5 then [eventLog 5 1 2 7] else [])"

text \<open>A client of this chain: the head is one block further at every question, up to block 100.\<close>

definition chainClient :: "nat eth_client" where
  "chainClient = \<lparr>ecBlockNumber = (\<lambda>n. (Inr (word_of_nat (min n 100)), Suc n)),
     ecFilterLogs = (\<lambda>f t n. (Inr (chainLogs smallChain (unat f) (Suc (unat t))), n)),
     ecSubscribe = (\<lambda>n. n), ecSelect = (\<lambda>n. (SinkTick, n))\<rparr>"

interpretation smallClient: chain_client chainClient smallChain 100
  by unfold_locales (auto simp: chainClient_def unat_of_nat take_bit_nat_eq_self min_def)

definition smallIndexer :: "(kv, mem_batch, nat) ix_env" where
  "smallIndexer = \<lparr>ieHash = mixHash, ieDb = memdb, ieU256 = uint256, ieCodec = jobCodec, ieAbi = smallAbi,
     ieClient = chainClient\<rparr>"

interpretation smallIndexer: indexer_env smallIndexer scalarField "\<lambda>d. d" memPending memIsOpen smallChain 100
  unfolding indexer_env_def
  by (simp add: smallIndexer_def memJob.job_env_axioms smallClient.chain_client_axioms)

lemma smallIndexer_simps [simp]:
  "ieHash smallIndexer = mixHash" "ieDb smallIndexer = memdb" "ieU256 smallIndexer = uint256"
  "ieCodec smallIndexer = jobCodec" "ieAbi smallIndexer = smallAbi" "ieClient smallIndexer = chainClient"
  by (simp_all add: smallIndexer_def)

section \<open>The configurator\<close>

definition pollConfig :: ix_config where
  "pollConfig = \<lparr>cfgMaxBlocksDistance = 2, cfgSinkChannelSize = 0, cfgSinkProgressTick = 0,
     cfgIndexerMode = ModeOther '''', cfgPollingInterval = 0\<rparr>"

text \<open>The values under a prefix, in the order of their keys.\<close>

definition memIterate :: "kv \<Rightarrow> bytes \<Rightarrow> goerr + bytes list" where
  "memIterate d pre = Inr (map (\<lambda>k. the (d k)) (sorted_list_of_set {k \<in> dom d. take (length pre) k = pre}))"

definition smallConfigurator :: "(kv, mem_batch, nat) cf_env" where
  "smallConfigurator = \<lparr>ceIndexer = smallIndexer, ceQuery = (\<lambda>q. chainClient), ceConfig = NewEVMIndexer pollConfig,
     ceMakeTopics = Inr, ceIterate = memIterate\<rparr>"

lemma smallConfigurator_simps [simp]:
  "ceIndexer smallConfigurator = smallIndexer" "ceQuery smallConfigurator q = chainClient"
  "ceConfig smallConfigurator = NewEVMIndexer pollConfig" "ceMakeTopics smallConfigurator = Inr"
  "ceIterate smallConfigurator = memIterate"
  by (simp_all add: smallConfigurator_def)

lemma memIterate_ok:
  assumes "finite (dom d)"
  shows "\<exists>entries. memIterate d pre = Inr (map snd entries) \<and> distinct (map fst entries) \<and>
    set entries = {(k, v). d k = Some v \<and> take (length pre) k = pre}"
proof -
  let ?A = "{k \<in> dom d. take (length pre) k = pre}"
  let ?es = "map (\<lambda>k. (k, the (d k))) (sorted_list_of_set ?A)"
  have "finite ?A" using assms by simp
  then have "set ?es = {(k, v). d k = Some v \<and> take (length pre) k = pre}" by auto
  moreover have "memIterate d pre = Inr (map snd ?es)" "distinct (map fst ?es)"
    by (simp_all add: memIterate_def comp_def)
  ultimately show ?thesis by blast
qed

interpretation smallConfigurator: configurator_env smallConfigurator "\<lambda>d. d" memPending memIsOpen
  unfolding configurator_env_def configurator_env_axioms_def
  by (simp add: memdb.kv_db_axioms jobCodec.msgpack_codec_axioms memIterate_ok)

end
