(* ===== verification/Registry_Mutex.thy ===== *)
theory Registry_Mutex
  imports Prelude
begin

text \<open>
  The map of locks (\<open>internal/zkregistry/mutex.go\<close>).  \<open>getOrCreateMutex\<close> looks a lock up under the
  read lock of the map, and creates a missing one under the write lock after a second look.

  Goroutines interleave, so the function is a step relation: each goroutine has a program counter,
  and the read-write lock of the map admits readers while there is no writer and a writer while there
  is nobody.  In every reachable state two goroutines hold the same lock exactly if they asked for the
  same registry, and nobody writes the map while somebody else reads or writes it.
\<close>

section \<open>States\<close>

datatype mx_pc =
    MxStart u8
  | MxReading u8
  | MxRead u8 "nat option"
  | MxMissed u8
  | MxWriting u8
  | MxHave u8 nat
  | MxDone u8 nat

text \<open>A lock is the address at which it was allocated; \<open>mxNext\<close> is the next free address.\<close>

record 't mutex_state =
  mxMutexes :: "u8 \<rightharpoonup> nat"
  mxNext :: nat
  mxReaders :: "'t set"
  mxWriter :: "'t option"
  mxPc :: "'t \<Rightarrow> mx_pc"

definition NewMutex :: "('t \<Rightarrow> u8) \<Rightarrow> 't mutex_state" where
  "NewMutex req = \<lparr>mxMutexes = Map.empty, mxNext = 0, mxReaders = {}, mxWriter = None,
     mxPc = (\<lambda>t. MxStart (req t))\<rparr>"

section \<open>Steps\<close>

inductive getOrCreateMutex :: "'t \<Rightarrow> 't mutex_state \<Rightarrow> 't mutex_state \<Rightarrow> bool" where
  RLock: "mxPc s t = MxStart a \<Longrightarrow> mxWriter s = None \<Longrightarrow>
    getOrCreateMutex t s (s\<lparr>mxReaders := insert t (mxReaders s), mxPc := (mxPc s)(t := MxReading a)\<rparr>)"
| Lookup: "mxPc s t = MxReading a \<Longrightarrow>
    getOrCreateMutex t s (s\<lparr>mxPc := (mxPc s)(t := MxRead a (mxMutexes s a))\<rparr>)"
| RUnlock_found: "mxPc s t = MxRead a (Some m) \<Longrightarrow>
    getOrCreateMutex t s (s\<lparr>mxReaders := mxReaders s - {t}, mxPc := (mxPc s)(t := MxDone a m)\<rparr>)"
| RUnlock_missing: "mxPc s t = MxRead a None \<Longrightarrow>
    getOrCreateMutex t s (s\<lparr>mxReaders := mxReaders s - {t}, mxPc := (mxPc s)(t := MxMissed a)\<rparr>)"
| Lock: "mxPc s t = MxMissed a \<Longrightarrow> mxWriter s = None \<Longrightarrow> mxReaders s = {} \<Longrightarrow>
    getOrCreateMutex t s (s\<lparr>mxWriter := Some t, mxPc := (mxPc s)(t := MxWriting a)\<rparr>)"
| Recheck_found: "mxPc s t = MxWriting a \<Longrightarrow> mxMutexes s a = Some m \<Longrightarrow>
    getOrCreateMutex t s (s\<lparr>mxPc := (mxPc s)(t := MxHave a m)\<rparr>)"
| Recheck_create: "mxPc s t = MxWriting a \<Longrightarrow> mxMutexes s a = None \<Longrightarrow>
    getOrCreateMutex t s (s\<lparr>mxMutexes := (mxMutexes s)(a \<mapsto> mxNext s), mxNext := Suc (mxNext s),
      mxPc := (mxPc s)(t := MxHave a (mxNext s))\<rparr>)"
| Unlock: "mxPc s t = MxHave a m \<Longrightarrow>
    getOrCreateMutex t s (s\<lparr>mxWriter := None, mxPc := (mxPc s)(t := MxDone a m)\<rparr>)"

inductive mxReachable :: "('t \<Rightarrow> u8) \<Rightarrow> 't mutex_state \<Rightarrow> bool" for req where
  mx_init: "mxReachable req (NewMutex req)"
| mx_step: "mxReachable req s \<Longrightarrow> getOrCreateMutex t s s' \<Longrightarrow> mxReachable req s'"

text \<open>The step of a goroutine as a function: \<open>None\<close> when it waits for the lock or has finished.\<close>

definition mxNextStep :: "'t \<Rightarrow> 't mutex_state \<Rightarrow> 't mutex_state option" where
  "mxNextStep t s =
     (let go = (\<lambda>s pc. Some (s\<lparr>mxPc := (mxPc s)(t := pc)\<rparr>)) in
      case mxPc s t of
        MxStart a \<Rightarrow> if mxWriter s = None then go (s\<lparr>mxReaders := insert t (mxReaders s)\<rparr>) (MxReading a) else None
      | MxReading a \<Rightarrow> go s (MxRead a (mxMutexes s a))
      | MxRead a (Some m) \<Rightarrow> go (s\<lparr>mxReaders := mxReaders s - {t}\<rparr>) (MxDone a m)
      | MxRead a None \<Rightarrow> go (s\<lparr>mxReaders := mxReaders s - {t}\<rparr>) (MxMissed a)
      | MxMissed a \<Rightarrow> if mxWriter s = None \<and> mxReaders s = {} then go (s\<lparr>mxWriter := Some t\<rparr>) (MxWriting a) else None
      | MxWriting a \<Rightarrow>
          (case mxMutexes s a of
             Some m \<Rightarrow> go s (MxHave a m)
           | None \<Rightarrow> go (s\<lparr>mxMutexes := (mxMutexes s)(a \<mapsto> mxNext s), mxNext := Suc (mxNext s)\<rparr>) (MxHave a (mxNext s)))
      | MxHave a m \<Rightarrow> go (s\<lparr>mxWriter := None\<rparr>) (MxDone a m)
      | MxDone a m \<Rightarrow> None)"

lemma mxNextStep_sound: "mxNextStep t s = Some s' \<Longrightarrow> getOrCreateMutex t s s'"
  by (auto simp: mxNextStep_def Let_def split: mx_pc.splits option.splits if_splits
      intro: getOrCreateMutex.intros)

fun mxSchedule :: "'t list \<Rightarrow> 't mutex_state \<Rightarrow> 't mutex_state option" where
  "mxSchedule [] s = Some s"
| "mxSchedule (t # ts) s = (case mxNextStep t s of None \<Rightarrow> None | Some s' \<Rightarrow> mxSchedule ts s')"

lemma mxSchedule_reachable:
  "mxSchedule ts s = Some s' \<Longrightarrow> mxReachable req s \<Longrightarrow> mxReachable req s'"
  by (induction ts arbitrary: s) (auto split: option.splits dest: mxNextStep_sound intro: mx_step)

section \<open>Invariant\<close>

text \<open>What the map says about the lock a goroutine has seen.\<close>

fun pcLock :: "mx_pc \<Rightarrow> (u8 \<times> nat) option" where
  "pcLock (MxRead a (Some m)) = Some (a, m)"
| "pcLock (MxHave a m) = Some (a, m)"
| "pcLock (MxDone a m) = Some (a, m)"
| "pcLock _ = None"

fun pcReads :: "mx_pc \<Rightarrow> bool" where
  "pcReads (MxReading a) = True"
| "pcReads (MxRead a r) = True"
| "pcReads _ = False"

fun pcWrites :: "mx_pc \<Rightarrow> bool" where
  "pcWrites (MxWriting a) = True"
| "pcWrites (MxHave a m) = True"
| "pcWrites _ = False"

definition mxInv :: "'t mutex_state \<Rightarrow> bool" where
  "mxInv s \<longleftrightarrow>
     (\<forall>t a m. pcLock (mxPc s t) = Some (a, m) \<longrightarrow> mxMutexes s a = Some m) \<and>
     (\<forall>a m. mxMutexes s a = Some m \<longrightarrow> m < mxNext s) \<and> inj_on (mxMutexes s) (dom (mxMutexes s)) \<and>
     (\<forall>t. pcReads (mxPc s t) \<longleftrightarrow> t \<in> mxReaders s) \<and> (\<forall>t. pcWrites (mxPc s t) \<longleftrightarrow> mxWriter s = Some t) \<and>
     (mxWriter s \<noteq> None \<longrightarrow> mxReaders s = {})"

lemma mxInv_init: "mxInv (NewMutex req)"
  by (simp add: mxInv_def NewMutex_def)

lemma mxInv_step:
  assumes step: "getOrCreateMutex t s s'" and inv: "mxInv s"
  shows "mxInv s'"
proof -
  have at: "\<forall>a m. pcLock (mxPc s t) = Some (a, m) \<longrightarrow> mxMutexes s a = Some m"
    "pcReads (mxPc s t) \<longleftrightarrow> t \<in> mxReaders s" "pcWrites (mxPc s t) \<longleftrightarrow> mxWriter s = Some t"
    using inv by (simp_all add: mxInv_def)
  show ?thesis
    using step
  proof cases
    case (Lookup a)
    then show ?thesis using inv at by (cases "mxMutexes s a") (auto simp: mxInv_def)
  next
    case (Recheck_create a)
    have "mxMutexes s b \<noteq> Some (mxNext s)" for b
      using inv by (auto simp: mxInv_def)
    then have "inj_on ((mxMutexes s)(a \<mapsto> mxNext s)) (insert a (dom (mxMutexes s)))"
      using inv Recheck_create(3) by (auto simp: mxInv_def inj_on_def dom_def)
    then show ?thesis
      using Recheck_create inv at by (auto simp: mxInv_def less_Suc_eq)
  qed (use inv at in \<open>auto simp: mxInv_def\<close>)
qed

lemma mxInv_reachable: "mxReachable req s \<Longrightarrow> mxInv s"
  by (induction rule: mxReachable.induct) (auto simp: mxInv_init mxInv_step)

lemma same_lock:
  assumes "mxInv s" "pcLock (mxPc s t) = Some (a, m)" "pcLock (mxPc s t') = Some (a', m')"
  shows "m = m' \<longleftrightarrow> a = a'"
proof -
  have m: "mxMutexes s a = Some m" "mxMutexes s a' = Some m'"
    using assms by (simp_all add: mxInv_def)
  moreover have "inj_on (mxMutexes s) (dom (mxMutexes s))"
    using assms(1) by (simp add: mxInv_def)
  ultimately show ?thesis by (auto dest: inj_onD [of _ _ a a'])
qed

end
