(* ===== verification/Service_Theorems.thy ===== *)
theory Service_Theorems
  imports System_Instances Registry_Mutex
begin

text \<open>
  The theorems on the registry service, the jobs, the query server and the locks, with applications
  to the in-memory database and a small contract.
\<close>

section \<open>Indexes of registries\<close>

text \<open>
  C18.  \<open>ApplyAddressToIndex\<close> gives a known address the index it has and a new address the next one,
  and changes the index of no other address.  Among the first 256 addresses the new index is not
  taken; the 257th address gets the index of the first.
\<close>

theorem ApplyAddressToIndex_allocates:
  assumes env: "kv_db D content pending isOpen" and a: "addressOk a" and ix: "indexed (content d) addrs"
  shows "runs (ApplyAddressToIndex D a) d (\<lambda>i d'. indexed (content d') (register a addrs) \<and>
    FindRegistryIndex D d' a = Inr i \<and>
    (\<forall>b\<in>set addrs. FindRegistryIndex D d' b = FindRegistryIndex D d b) \<and>
    (a \<notin> set addrs \<and> length addrs < 256 \<longrightarrow> (\<forall>b\<in>set addrs. FindRegistryIndex D d' b \<noteq> Inr i)) \<and>
    (a \<notin> set addrs \<and> length addrs = 256 \<longrightarrow> FindRegistryIndex D d' (addrs ! 0) = Inr i))"
  using kv_db.ApplyAddressToIndex_ok [OF env a ix]
proof (rule runs_mono, elim conjE)
  fix i d'
  assume ix': "indexed (content d') (register a addrs)" and same: "a \<in> set addrs \<longrightarrow> d' = d"
    and i: "storedIndex (content d') a = Some i"
    and keep: "\<forall>k. k \<noteq> makeRegistryIndexKey a \<longrightarrow> k \<noteq> makeRegistryIndexCounterKey \<longrightarrow> content d' k = content d k"
  have ok: "addressOk b" if "b \<in> set addrs" for b using ix that by (simp add: indexed_def)
  note find = kv_db.FindRegistryIndex_eq [OF env]
  have old: "FindRegistryIndex D d' b = FindRegistryIndex D d b" if "b \<in> set addrs" for b
    using that same keep ok [OF that] a
    by (cases "a \<in> set addrs"; cases "b = a") (auto simp: find storedIndex_def)
  have new: "FindRegistryIndex D d' b \<noteq> Inr i" if "a \<notin> set addrs" "length addrs < 256" "b \<in> set addrs" for b
    using indexed_distinct [OF ix', of b a] that i ok [OF that(3)]
    by (auto simp: register_def find split: option.splits)
  have wrap: "FindRegistryIndex D d' (addrs ! 0) = Inr i" if "a \<notin> set addrs" "length addrs = 256"
  proof -
    have r: "register a addrs = addrs @ [a]" and "addrs \<noteq> []" using that by (auto simp: register_def)
    then have "storedIndex (content d') (addrs ! 0) = Some i"
      using indexed_repeats [OF ix', of 0] that(2) i by (simp add: nth_append)
    then show ?thesis using ok [of "addrs ! 0"] \<open>addrs \<noteq> []\<close> by (simp add: find)
  qed
  show "indexed (content d') (register a addrs) \<and> FindRegistryIndex D d' a = Inr i \<and>
    (\<forall>b\<in>set addrs. FindRegistryIndex D d' b = FindRegistryIndex D d b) \<and>
    (a \<notin> set addrs \<and> length addrs < 256 \<longrightarrow> (\<forall>b\<in>set addrs. FindRegistryIndex D d' b \<noteq> Inr i)) \<and>
    (a \<notin> set addrs \<and> length addrs = 256 \<longrightarrow> FindRegistryIndex D d' (addrs ! 0) = Inr i)"
    using ix' i old new wrap a by (simp add: find)
qed

definition addrA :: address where "addrA = replicate 20 7"
definition addrB :: address where "addrB = replicate 20 8"

lemma addr_ok [simp]: "addressOk addrA" "addressOk addrB" "addrA \<noteq> addrB" "addrB \<noteq> addrA"
  by (simp_all add: addrA_def addrB_def addressOk_def AddressLength_def)

lemma mem_contracts:
  "kv_db memdb (\<lambda>d. d) memPending memIsOpen"
  "service_env mixHash scalarField memdb (\<lambda>d. d) memPending memIsOpen uint256 metadataCodec"
  "job_env mixHash scalarField memdb (\<lambda>d. d) memPending memIsOpen uint256 jobCodec"
  "system_env mixHash scalarField memdb (\<lambda>d. d) memPending memIsOpen uint256 metadataCodec jobCodec"
  "indexer_env smallIndexer scalarField (\<lambda>d. d) memPending memIsOpen smallChain 100"
  by (rule memdb.kv_db_axioms memService.service_env_axioms memJob.job_env_axioms
      memSystem.system_env_axioms smallIndexer.indexer_env_axioms)+

theorem ApplyAddressToIndex_allocates_witness:
  "\<exists>d1 d2 i. ApplyAddressToIndex memdb addrA Map.empty = (Inr 0, d1) \<and>
     ApplyAddressToIndex memdb addrB d1 = (Inr i, d2) \<and> FindRegistryIndex memdb d2 addrB = Inr i \<and>
     FindRegistryIndex memdb d2 addrA \<noteq> Inr i"
proof -
  obtain d1 where d1: "ApplyAddressToIndex memdb addrA Map.empty = (Inr 0, d1)" "indexed d1 [addrA]"
    using memdb.ApplyAddressToIndex_new [OF addr_ok(1) indexed_empty]
      memdb.indexed_register [OF addr_ok(1) indexed_empty] by (auto simp: runs_def)
  show ?thesis
    using ApplyAddressToIndex_allocates [OF mem_contracts(1) addr_ok(2), of d1 "[addrA]"] d1 by (auto simp: runs_def)
qed

section \<open>Initialisation of registries\<close>

text \<open>
  C14.  \<open>InitializeRegistry\<close> keeps everything the service knows: it returns a registry that represents
  what the database holds for the address, the empty registry of the contract's depth and empty value
  if the address is new, and caches it; the other registries are untouched.  It fails only when the
  contract does not answer for a new address, and a later call can complete the initialisation.
\<close>

theorem InitializeRegistry_keeps_registries:
  assumes env: "service_env P p D content pending isOpen U C"
    and ok: "serviceOk P p U C (content (svcDb s)) (svcRegistry s) addrs S" and a: "addressOk a"
    and room: "length (register a addrs) \<le> 256" and K: "contractOk p K a"
  shows "case InitializeRegistry D U C K a s of
      (Inl e, s') \<Rightarrow> serviceOk P p U C (content (svcDb s')) (svcRegistry s') (register a addrs) S \<and>
        svcRegistry s' = svcRegistry s \<and> S a = None \<and> (\<exists>e'. fetchMetadataFromContract K a = Inl e')
    | (Inr reg, s') \<Rightarrow> serviceOk P p U C (content (svcDb s')) (svcRegistry s') (register a addrs)
          (absInit a (regMetadata reg) S) \<and> Service_Registry D s' a = Inr reg \<and>
        (S a = None \<longrightarrow> map_sum id (mdIndex_update (\<lambda>_. mdIndex (regMetadata reg))) (fetchMetadataFromContract K a) =
          Inr (regMetadata reg)) \<and>
        (\<exists>A. absInit a (regMetadata reg) S a = Some (regMetadata reg, A) \<and> represents P p U reg (content (svcDb s')) A)"
  by (rule service_env.InitializeRegistry_ok [OF env ok a room K])

definition bootService :: "kv service_state" where
  "bootService = InitializeService Map.empty"

definition contractMetadata :: "address \<Rightarrow> metadata" where
  "contractMetadata a = \<lparr>mdAddress = a, mdDepth = 3, mdEmptyValue = 5, mdInitBlockHeight = 2,
     mdDescription = ''small'', mdIndex = 0\<rparr>"

lemma fetch_small: "fetchMetadataFromContract smallContract a = Inr (contractMetadata a)"
proof -
  have "foldl (\<lambda>n b. 256 * n + unat b) 0 (replicate k (0::u8)) = 0" for k
    by (induction k) simp_all
  then have "bigSetBytes (replicate 31 0 @ [5]) = 5"
    by (simp add: bigSetBytes_def)
  then show ?thesis
    by (simp add: fetchMetadataFromContract_def smallContract_def uint256FromBig_def bigUint64_def
        contractMetadata_def)
qed

lemma smallContract_ok: "contractOk scalarField smallContract a"
  by (simp add: contractOk_def fetch_small contractMetadata_def metadataOk_def scalarField_def)

lemma bootService_ok:
  "serviceOk mixHash scalarField uint256 metadataCodec (svcDb bootService) (svcRegistry bootService) [] Map.empty"
  "svcRegistry bootService = Map.empty" "svcDb bootService = Map.empty"
  using memSystem.serviceOk_empty by (simp_all add: bootService_def InitializeService_def NewService_def)

theorem InitializeRegistry_keeps_registries_witness:
  "\<exists>reg s'. InitializeRegistry memdb uint256 metadataCodec smallContract addrA bootService = (Inr reg, s') \<and>
     Service_Registry memdb s' addrA = Inr reg \<and> mdDepth (regMetadata reg) = 3"
  using InitializeRegistry_keeps_registries [OF mem_contracts(2) _ addr_ok(1) _ smallContract_ok,
      of bootService "[]" Map.empty] bootService_ok
  by (auto simp: register_def fetch_small contractMetadata_def split: prod.splits sum.splits)
    (metis metadata.select_convs(2))

text \<open>The registry of \<open>addrA\<close> after its initialisation.\<close>

definition mdA :: metadata where "mdA = contractMetadata addrA"

lemma mdA_simps [simp]: "mdIndex mdA = 0" "mdDepth mdA = 3" "mdEmptyValue mdA = 5"
  by (simp_all add: mdA_def contractMetadata_def)

lemma init_small:
  obtains reg s where "InitializeRegistry memdb uint256 metadataCodec smallContract addrA bootService = (Inr reg, s)"
    "regMetadata reg = mdA" "Service_Registry memdb s addrA = Inr reg"
    "serviceOk mixHash scalarField uint256 metadataCodec (svcDb s) (svcRegistry s) [addrA] [addrA \<mapsto> (mdA, freshAbs mdA)]"
proof -
  have *: "case InitializeRegistry memdb uint256 metadataCodec smallContract addrA bootService of
      (Inl e, s') \<Rightarrow> \<exists>e'. fetchMetadataFromContract smallContract addrA = Inl e'
    | (Inr reg, s') \<Rightarrow> serviceOk mixHash scalarField uint256 metadataCodec (svcDb s') (svcRegistry s') [addrA]
          (absInit addrA (regMetadata reg) Map.empty) \<and> Service_Registry memdb s' addrA = Inr reg \<and>
        map_sum id (mdIndex_update (\<lambda>_. mdIndex (regMetadata reg))) (fetchMetadataFromContract smallContract addrA) =
          Inr (regMetadata reg)"
    using memService.InitializeRegistry_ok [of bootService "[]" Map.empty addrA smallContract] bootService_ok
      smallContract_ok by (auto simp: register_def split: prod.splits sum.splits)
  obtain reg s where run: "InitializeRegistry memdb uint256 metadataCodec smallContract addrA bootService = (Inr reg, s)"
    using * by (auto simp: fetch_small split: prod.splits sum.splits)
  have ok: "serviceOk mixHash scalarField uint256 metadataCodec (svcDb s) (svcRegistry s) [addrA]
      [addrA \<mapsto> (regMetadata reg, freshAbs (regMetadata reg))]" "Service_Registry memdb s addrA = Inr reg"
    and md: "regMetadata reg = mdA\<lparr>mdIndex := mdIndex (regMetadata reg)\<rparr>"
    using * run by (simp_all add: absInit_def fetch_small mdA_def del: fun_upd_apply)
  have "storedIndex (svcDb s) addrA = Some 0"
    using serviceOkD(1) [OF ok(1)] by (simp add: indexed_def)
  then have "mdIndex (regMetadata reg) = 0"
    using serviceOkD(5) [OF ok(1), of addrA] by simp
  with md have "regMetadata reg = mdA" by (simp add: mdA_def contractMetadata_def)
  with run ok that show ?thesis by simp
qed

section \<open>Batches of logs\<close>

text \<open>
  C13.  A batch of logs is all or nothing.  If every log parses, \<open>handleLogs\<close> succeeds, the database
  represents the operations of the logs in order, and the job's progress is stored in the same write;
  keys of other objects are untouched.  If a log does not parse, the call fails and the database and
  the registry are unchanged.
\<close>

theorem handleLogs_atomic:
  assumes env: "job_env P p D content pending isOpen U J" and E: "abiOk E"
    and rep: "represents P p U (zjRegistry jb) (content d) A"
    and n: "n = unat (depth (regTree (zjRegistry jb)))" and e: "e = mdEmptyValue (regMetadata (zjRegistry jb))"
    and ops: "\<forall>ops. logsOps E logs = Some ops \<longrightarrow>
      (\<forall>op\<in>set ops. opOk p n op) \<and> nonzeroTree P e n (fst (absOps e ops A))"
  shows "case logsOps E logs of
      Some ops \<Rightarrow> (\<exists>jb' d'. handleLogs P D U J E ctx logs block (jb, d) = (Inr (), (jb', d')) \<and>
        represents P p U (zjRegistry jb') (content d') (absOps e ops A) \<and>
        SelectJob D J d' (zjDescriptor jb) = Inr \<lparr>jobDescriptor = zjDescriptor jb, jobCurrentBlock = block\<rparr> \<and>
        (\<forall>k. \<not> registryKey U (regLeafView (zjRegistry jb)) k \<and> k \<noteq> makeJobKey (zjDescriptor jb) \<longrightarrow>
           content d' k = content d k))
    | None \<Rightarrow> (\<exists>err jb'. handleLogs P D U J E ctx logs block (jb, d) = (Inl err, (jb', d)) \<and>
        zjRegistry jb' = zjRegistry jb)"
proof (cases "logsOps E logs")
  case None
  then show ?thesis
    using handleLogs_refused [OF E None, of P D U J ctx block jb d] by auto
next
  case (Some ops)
  then show ?thesis
    using job_env.handleLogs_ok [OF env E Some rep, of ctx block] job_env.SelectJob_stored [OF env] ops
    unfolding n e by fastforce
qed

definition descA :: job_descriptor where
  "descA = \<lparr>jdAddress = addrA, jdContract = 1, jdStartBlock = 1\<rparr>"

definition jobA :: zk_job where
  "jobA = NewZkCertificateRegistryJob descA (coldRegistry mdA)"

lemma jobA_simps [simp]:
  "zjRegistry jobA = coldRegistry mdA" "zjDescriptor jobA = descA"
  "depth (regTree (coldRegistry mdA)) = 3" "regMetadata (coldRegistry mdA) = mdA"
  by (simp_all add: jobA_def NewZkCertificateRegistryJob_def coldRegistry_def NewZKCertificateRegistry_def)

lemma jobA_represents:
  "represents mixHash scalarField uint256 (coldRegistry mdA) Map.empty (freshAbs mdA)"
  by (rule represents_fresh) (simp_all add: metadataOk_def scalarField_def)

definition opAt :: "u8 \<Rightarrow> u32 \<Rightarrow> u256 \<Rightarrow> leaf_operation" where
  "opAt oper i v = \<lparr>opLeaf = \<lparr>leafIndex = i, leafValue = v\<rparr>, opOp = oper\<rparr>"

lemma smallAbi_ok: "abiOk smallAbi"
  by (simp add: abiOk_def smallAbi_def)

lemma smallChain_ops:
  "logsOps smallAbi (smallChain b) = Some (if b = 2 then [opAt OperationAddition 2 7]
     else if b = 3 then [opAt OperationAddition 6 9]
     else if b = 5 then [opAt OperationRevocation 2 7] else [])"
  by (simp add: smallChain_def eventLog_def logOp_def smallAbi_def eventOp_def bigSetBytes_def opAt_def)

text \<open>With nonzero field elements as values, no node of the tree is 0.\<close>

definition opFits :: "leaf_operation \<Rightarrow> bool" where
  "opFits op \<longleftrightarrow> opOk scalarField 3 op \<and> leafValue (opLeaf op) \<noteq> 0"

lemma absOps_fits:
  assumes "\<forall>op\<in>set ops. opFits op" "\<And>j. unat (fst A j) < scalarField \<and> fst A j \<noteq> 0"
  shows "unat (fst (absOps 5 ops A) j) < scalarField \<and> fst (absOps 5 ops A) j \<noteq> 0"
  using assms
proof (induction ops arbitrary: A)
  case (Cons op ops)
  have "unat (fst (absOp 5 op A) i) < scalarField \<and> fst (absOp 5 op A) i \<noteq> 0" for i
    using Cons.prems by (auto simp: absOp_def opFits_def opOk_def scalarField_def split: prod.splits)
  then show ?case using Cons.IH [of "absOp 5 op A"] Cons.prems(1) by (simp add: absOps_Cons)
qed (simp add: absOps_def)

lemma freshA_nonzero:
  assumes "\<forall>op\<in>set ops. opFits op"
  shows "nonzeroTree mixHash 5 3 (fst (absOps 5 ops (freshAbs mdA)))"
  using absOps_fits [OF assms, of "freshAbs mdA"]
  by (intro mixHash_nonzeroTree) (auto simp: freshAbs_def scalarField_def)

lemma opAt_fits [simp]:
  "opFits (opAt OperationAddition 2 7)" "opFits (opAt OperationAddition 6 9)" "opFits (opAt OperationRevocation 2 7)"
  by (simp_all add: opFits_def opOk_def opAt_def scalarField_def)

theorem handleLogs_atomic_witness:
  "\<exists>jb' d'. handleLogs mixHash memdb uint256 jobCodec smallAbi None (smallChain 2) 2 (jobA, Map.empty) =
      (Inr (), (jb', d')) \<and>
    represents mixHash scalarField uint256 (zjRegistry jb') d' (absOps 5 [opAt OperationAddition 2 7] (freshAbs mdA)) \<and>
    SelectJob memdb jobCodec d' descA = Inr \<lparr>jobDescriptor = descA, jobCurrentBlock = 2\<rparr>"
proof -
  have "(\<forall>op\<in>set [opAt OperationAddition 2 7]. opOk scalarField 3 op) \<and>
      nonzeroTree mixHash 5 3 (fst (absOps 5 [opAt OperationAddition 2 7] (freshAbs mdA)))"
    using freshA_nonzero [of "[opAt OperationAddition 2 7]"] opAt_fits(1) by (auto simp: opFits_def)
  then show ?thesis
    using handleLogs_atomic [OF mem_contracts(3) smallAbi_ok, of jobA Map.empty "freshAbs mdA" 3 5 "smallChain 2" None 2]
      jobA_represents by (auto simp: smallChain_ops)
qed

section \<open>Runs of the service\<close>

text \<open>
  C5.  In every state the service can reach, from an empty database and through initialisations that
  succeed or fail, batches of logs, refused batches, mode changes, queries with any outcome and restarts,
  the database and the cache represent the abstract service, every index of leaf values is consistent,
  and a registry that the service hands out represents the operations of its own contract and of no other.
\<close>

theorem service_runs:
  assumes env: "system_env P p D content pending isOpen U C J"
    and run: "sysReach P p D content U C J s addrs S"
  shows "serviceOk P p U C (content (svcDb s)) (svcRegistry s) addrs S \<and> serviceConsistent S \<and>
    (\<forall>a md A reg. S a = Some (md, A) \<and> Service_Registry D s a = Inr reg \<longrightarrow>
       regMetadata reg = md \<and> represents P p U reg (content (svcDb s)) A)"
proof -
  have sv: "service_env P p D content pending isOpen U C"
    using env by (simp add: system_env_def)
  have ok: "serviceOk P p U C (content (svcDb s)) (svcRegistry s) addrs S" and cs: "serviceConsistent S"
    using system_env.sysReach_ok [OF env run] by auto
  have "regMetadata reg = md \<and> represents P p U reg (content (svcDb s)) A"
    if S: "S a = Some (md, A)" and reg: "Service_Registry D s a = Inr reg" for a md A reg
  proof -
    have "kv_db D content pending isOpen"
      using sv by (simp add: service_env_def registry_env_def leaf_store_def)
    then have "svcRegistry s (mdIndex md) = Some reg"
      using reg serviceOkD(5) [OF ok S] kv_db.FindRegistryIndex_eq serviceOkD(11) [OF ok serviceOkD(3) [OF ok S]]
      by (fastforce simp: Service_Registry_def split: option.splits)
    then show ?thesis
      using service_env.cached_represents [OF sv ok S] service_env.cached_fits [OF sv ok S]
      by (auto simp: regFits_def)
  qed
  with ok cs show ?thesis by blast
qed

definition addSeven :: "leaf_operation list" where "addSeven = [opAt OperationAddition 2 7]"

lemma addSeven_ok:
  "\<forall>op\<in>set addSeven. opOk scalarField 3 op" "opsLegal 5 3 (freshAbs mdA) addSeven"
  "nonzeroTree mixHash 5 3 (fst (absOps 5 addSeven (freshAbs mdA)))"
  "logsOps smallAbi (smallChain 2) = Some addSeven"
  "absOps 5 addSeven (freshAbs mdA) = ((\<lambda>_. 5)(2 := 7), [7 \<mapsto> 2])"
proof -
  show "logsOps smallAbi (smallChain 2) = Some addSeven" by (simp add: smallChain_ops addSeven_def)
  show "\<forall>op\<in>set addSeven. opOk scalarField 3 op"
    using opAt_fits(1) by (simp add: addSeven_def opFits_def)
  show "opsLegal 5 3 (freshAbs mdA) addSeven"
    by (simp add: addSeven_def opLegal_def freshAbs_def opAt_def)
  show "nonzeroTree mixHash 5 3 (fst (absOps 5 addSeven (freshAbs mdA)))"
    using opAt_fits(1) by (intro freshA_nonzero) (simp add: addSeven_def)
  show "absOps 5 addSeven (freshAbs mdA) = ((\<lambda>_. 5)(2 := 7), [7 \<mapsto> 2])"
    by (simp add: addSeven_def absOps_def absOp_def freshAbs_def opAt_def fun_eq_iff)
qed

text \<open>
  The service starts, initialises the registry of \<open>addrA\<close>, indexes one batch of logs and reaches the
  head.
\<close>

abbreviation smallReach :: "kv service_state \<Rightarrow> address list \<Rightarrow> abs_service \<Rightarrow> bool" where
  "smallReach \<equiv> sysReach mixHash scalarField memdb (\<lambda>d. d) uint256 metadataCodec jobCodec"

abbreviation absA :: abs_registry where
  "absA \<equiv> ((\<lambda>_. 5)(2 := 7), [7 \<mapsto> 2])"

lemma smallSystem:
  obtains s reg where "smallReach s [addrA] [addrA \<mapsto> (mdA, absA)]" "svcRegistry s 0 = Some reg"
    "IsOnHead (regProgress reg)"
proof -
  obtain reg1 s1 where i: "InitializeRegistry memdb uint256 metadataCodec smallContract addrA bootService = (Inr reg1, s1)"
      "regMetadata reg1 = mdA" "Service_Registry memdb s1 addrA = Inr reg1"
    and ok1: "serviceOk mixHash scalarField uint256 metadataCodec (svcDb s1) (svcRegistry s1) [addrA]
      [addrA \<mapsto> (mdA, freshAbs mdA)]"
    by (rule init_small)
  have r0: "smallReach bootService [] Map.empty"
    unfolding bootService_def by (rule sys_boot) simp
  have "smallReach s1 (register addrA []) (absInit addrA (regMetadata reg1) Map.empty)"
    by (rule sys_init [OF r0 addr_ok(1) _ smallContract_ok i(1)]) (simp add: register_def)
  then have r1: "smallReach s1 [addrA] [addrA \<mapsto> (mdA, freshAbs mdA)]"
    by (simp add: register_def absInit_def i(2))
  have prod: "Produce memdb s1 descA = Inr (NewZkCertificateRegistryJob descA reg1)"
    using i(3) by (simp add: Produce_def descA_def ContractZkCertificateRegistry_def)
  let ?S = "[addrA \<mapsto> (mdA, freshAbs mdA)] :: abs_service"
  have S: "?S (jdAddress descA) = Some (mdA, freshAbs mdA)" by (simp add: descA_def)
  obtain jb2 d2 where h: "handleLogs mixHash memdb uint256 jobCodec smallAbi None (smallChain 2) 2
      (NewZkCertificateRegistryJob descA reg1, svcDb s1) = (Inr (), (jb2, d2))"
    using memSystem.job_keeps_service [OF ok1 S prod smallAbi_ok addSeven_ok(4), of None 2] addSeven_ok(1,3)
    by (auto simp del: fun_upd_apply)
  define s2 where "s2 = s1\<lparr>svcDb := d2, svcRegistry := (svcRegistry s1)(0 \<mapsto> zjRegistry jb2)\<rparr>"
  have "smallReach (s1\<lparr>svcDb := d2, svcRegistry := (svcRegistry s1)(mdIndex mdA \<mapsto> zjRegistry jb2)\<rparr>) [addrA]
      (?S(jdAddress descA \<mapsto> (mdA, absOps (mdEmptyValue mdA) addSeven (freshAbs mdA))))"
    by (rule sys_logs [OF r1 S prod smallAbi_ok addSeven_ok(4) _ _ _ h])
      (simp_all add: addSeven_ok(1-3))
  then have r2: "smallReach s2 [addrA] [addrA \<mapsto> (mdA, absA)]"
    by (simp add: s2_def descA_def addSeven_ok(5) del: fun_upd_apply)
  have ok2: "serviceOk mixHash scalarField uint256 metadataCodec (svcDb s2) (svcRegistry s2) [addrA] [addrA \<mapsto> (mdA, absA)]"
    using memSystem.sysReach_ok [OF r2] by blast
  have c2: "svcRegistry s2 0 = Some (zjRegistry jb2)" by (simp add: s2_def)
  have "storedIndex (svcDb s2) addrA = Some 0" using serviceOkD(5) [OF ok2, of addrA] by simp
  then have "Service_Registry memdb s2 addrA = Inr (zjRegistry jb2)"
    using c2 by (simp add: Service_Registry_def memdb.FindRegistryIndex_eq)
  then have prod2: "Produce memdb s2 descA = Inr (NewZkCertificateRegistryJob descA (zjRegistry jb2))"
    by (simp add: Produce_def descA_def ContractZkCertificateRegistry_def)
  let ?jb = "OnIndexerModeChange ModePoll (NewZkCertificateRegistryJob descA (zjRegistry jb2))"
  obtain x where x: "zjRegistry ?jb = (zjRegistry jb2)\<lparr>regProgress := x\<rparr>" "IsOnHead x"
    using OnIndexerModeChange_eq [of ModePoll "NewZkCertificateRegistryJob descA (zjRegistry jb2)"]
    by (auto simp: NewZkCertificateRegistryJob_def)
  have "regLeafView (zjRegistry jb2) = 0"
    using serviceOkD(8,9) [OF ok2 c2] by (simp add: regFits_def)
  then have "svcRegistry (putRegistry (zjRegistry ?jb) s2) 0 = Some (zjRegistry ?jb)"
    by (simp add: putRegistry_def x(1))
  moreover have "smallReach (putRegistry (zjRegistry ?jb) s2) [addrA] [addrA \<mapsto> (mdA, absA)]"
    by (rule sys_mode [OF r2 prod2]) (simp add: descA_def)
  ultimately show ?thesis using that x by auto
qed

theorem service_runs_witness:
  "\<exists>s reg. Service_Registry memdb s addrA = Inr reg \<and> represents mixHash scalarField uint256 reg (svcDb s) absA"
proof -
  obtain s reg where s: "smallReach s [addrA] [addrA \<mapsto> (mdA, absA)]" "svcRegistry s 0 = Some reg"
    by (rule smallSystem)
  have ok: "serviceOk mixHash scalarField uint256 metadataCodec (svcDb s) (svcRegistry s) [addrA] [addrA \<mapsto> (mdA, absA)]"
    using memSystem.sysReach_ok [OF s(1)] by blast
  have "Service_Registry memdb s addrA = Inr reg"
    using serviceOkD(5) [OF ok, of addrA] s(2) by (simp add: Service_Registry_def memdb.FindRegistryIndex_eq)
  moreover have "[addrA \<mapsto> (mdA, absA)] addrA = Some (mdA, absA) \<and> Service_Registry memdb s addrA = Inr reg \<longrightarrow>
      regMetadata reg = mdA \<and> represents mixHash scalarField uint256 reg (svcDb s) absA"
    using service_runs [OF mem_contracts(4) s(1)] by blast
  ultimately show ?thesis by auto
qed

section \<open>Locks\<close>

text \<open>
  C17.  However goroutines interleave inside \<open>getOrCreateMutex\<close>, two of them get the same lock exactly
  if they asked for the same registry, and the map of locks is never written while another goroutine
  reads or writes it.
\<close>

theorem getOrCreateMutex_one_lock:
  assumes "mxReachable req s"
  shows "(mxPc s t = MxDone a m \<and> mxPc s t' = MxDone a' m' \<longrightarrow> (m = m' \<longleftrightarrow> a = a')) \<and>
    (pcWrites (mxPc s t) \<and> (pcWrites (mxPc s t') \<or> pcReads (mxPc s t')) \<longrightarrow> t = t')"
proof -
  have inv: "mxInv s" using mxInv_reachable [OF assms] .
  have w: "\<And>t. pcWrites (mxPc s t) \<longleftrightarrow> mxWriter s = Some t" "\<And>t. pcReads (mxPc s t) \<longleftrightarrow> t \<in> mxReaders s"
    "mxWriter s \<noteq> None \<Longrightarrow> mxReaders s = {}"
    using inv by (simp_all add: mxInv_def)
  show ?thesis
    using same_lock [OF inv, of t a m t' a' m'] w by auto
qed

text \<open>Two goroutines both miss the lock of registry 3 before one of them creates it; a third asks for 4.\<close>

definition mxReq :: "nat \<Rightarrow> u8" where "mxReq t = (if t = 2 then 4 else 3)"

definition mxOrder :: "nat list" where
  "mxOrder = [0, 1, 0, 1, 0, 1, 1, 1, 1, 0, 0, 0, 2, 2, 2, 2, 2, 2]"

lemma mxOrder_run:
  obtains s m0 m1 m2 where "mxReachable mxReq s" "mxPc s 0 = MxDone 3 m0" "mxPc s 1 = MxDone 3 m1"
    "mxPc s 2 = MxDone 4 m2"
proof -
  obtain s where "mxSchedule mxOrder (NewMutex mxReq) = Some s" "mxPc s 0 = MxDone 3 0" "mxPc s 1 = MxDone 3 0"
    "mxPc s 2 = MxDone 4 1"
    by (simp add: mxOrder_def mxReq_def NewMutex_def mxNextStep_def insert_Diff_if)
  with mxSchedule_reachable mx_init that show ?thesis by blast
qed

theorem getOrCreateMutex_one_lock_witness:
  "\<exists>s m m'. mxReachable mxReq s \<and> mxPc s 0 = MxDone 3 m \<and> mxPc s 1 = MxDone 3 m \<and>
     mxPc s 2 = MxDone 4 m' \<and> m \<noteq> m'"
proof -
  obtain s m0 m1 m2 where s: "mxReachable mxReq s" "mxPc s 0 = MxDone 3 m0" "mxPc s 1 = MxDone 3 m1"
      "mxPc s 2 = MxDone 4 m2"
    by (rule mxOrder_run)
  have "m0 = m1" "m0 \<noteq> m2"
    using getOrCreateMutex_one_lock [OF s(1), of 0 3 m0 1 3 m1] getOrCreateMutex_one_lock [OF s(1), of 0 3 m0 2 4 m2] s
    by auto
  then show ?thesis using s by blast
qed

end
