(* ===== verification/Indexer_Theorems.thy ===== *)
theory Indexer_Theorems
  imports Service_Theorems
begin

text \<open>
  The theorems on the loop of the indexer, with applications to a small chain.
\<close>

section \<open>Polling\<close>

lemma NewEVMIndexer_distance: "cfgMaxBlocksDistance (NewEVMIndexer cfg) \<noteq> 0"
  by (simp add: NewEVMIndexer_def Let_def MaxBlocksDistance_def)

text \<open>
  C4.  After any number of steps of the polling indexer the registry represents the operations of all
  blocks from the start block up to the last processed one, each once and in order, the stored progress
  is the last processed block, and the registry is marked as on head only when every block up to the
  first head has been processed.
\<close>

theorem IndexEVMLogs_follows_chain:
  assumes env: "indexer_env I p content pending isOpen chain maxHead"
    and cfg: "cfg = NewEVMIndexer cfg0" "cfgIndexerMode cfg = ModePoll"
      "maxHead + unat (cfgMaxBlocksDistance cfg) < 2 ^ 64"
    and start: "ecBlockNumber (ieClient I) w = (Inr head0, w')" "b \<le> head0"
    and rep: "represents (ieHash I) p (ieU256 I) (zjRegistry jb) (content d) A"
    and e: "e = mdEmptyValue (regMetadata (zjRegistry jb))"
    and fits: "chainFits I p chain (unat b) (depth (regTree (zjRegistry jb))) e A"
    and s: "s = ixRun I cfg n (IndexEVMLogs I b jb d w c)"
  shows "unat b \<le> unat (ixFrom s) \<and>
    represents (ieHash I) p (ieU256 I) (zjRegistry (ixJob s)) (content (ixDb s))
      (absOps e (chainOps (ieAbi I) chain (unat b) (unat (ixFrom s))) A) \<and>
    (unat b < unat (ixFrom s) \<longrightarrow> SelectJob (ieDb I) (ieCodec I) (ixDb s) (zjDescriptor jb) =
       Inr \<lparr>jobDescriptor = zjDescriptor jb, jobCurrentBlock = ixFrom s - 1\<rparr>) \<and>
    (IsOnHead (regProgress (zjRegistry (ixJob s))) \<longrightarrow> unat head0 < unat (ixFrom s))"
proof -
  have dist: "cfgMaxBlocksDistance cfg \<noteq> 0" using cfg(1) NewEVMIndexer_distance by simp
  have inv: "ixInv I p content chain maxHead (unat b) (depth (regTree (zjRegistry jb))) e A (zjDescriptor jb)
      (unat head0) s"
    unfolding s e by (rule indexer_env.ixRun_inv [OF env indexer_env.IndexEVMLogs_inv(1) [OF env start rep]
          fits [unfolded e] dist cfg(3,2)])
  have "job_env (ieHash I) p (ieDb I) content pending isOpen (ieU256 I) (ieCodec I)"
    using env by (simp add: indexer_env_def)
  then show ?thesis
    using inv job_env.SelectJob_stored by (fastforce simp: ixInv_def indexedTo_def headOk_def split: if_splits)
qed

lemma chainOps_fit: "\<forall>op\<in>set (chainOps smallAbi smallChain m n). opFits op"
  by (simp add: chainOps_def smallChain_ops)

lemma smallChain_fits: "chainFits smallIndexer scalarField smallChain b 3 5 (freshAbs mdA)"
  using chainOps_fit freshA_nonzero [OF chainOps_fit]
  by (auto simp: chainFits_def smallAbi_ok smallChain_ops opFits_def)

lemma pollConfig_ok:
  "cfgIndexerMode (NewEVMIndexer pollConfig) = ModePoll" "cfgMaxBlocksDistance (NewEVMIndexer pollConfig) = 2"
  by (simp_all add: NewEVMIndexer_def pollConfig_def Let_def)

lemma chainClient_head: "ecBlockNumber chainClient 4 = (Inr 4, 5)"
  by (simp add: chainClient_def)

theorem IndexEVMLogs_follows_chain_witness:
  "represents mixHash scalarField uint256
     (zjRegistry (ixJob (ixRun smallIndexer (NewEVMIndexer pollConfig) 3 (IndexEVMLogs smallIndexer 1 jobA Map.empty 4 None))))
     (ixDb (ixRun smallIndexer (NewEVMIndexer pollConfig) 3 (IndexEVMLogs smallIndexer 1 jobA Map.empty 4 None)))
     (absOps 5 (chainOps smallAbi smallChain 1
       (unat (ixFrom (ixRun smallIndexer (NewEVMIndexer pollConfig) 3 (IndexEVMLogs smallIndexer 1 jobA Map.empty 4 None)))))
       (freshAbs mdA))"
  using IndexEVMLogs_follows_chain [OF mem_contracts(5) refl _ _ _ _ _ refl _ refl,
      of pollConfig 4 4 5 1 jobA Map.empty "freshAbs mdA" 3 None]
    pollConfig_ok chainClient_head jobA_represents smallChain_fits by auto

text \<open>
  C11.  A job that resumes from its last processed block \<open>lastBlock\<close> processes that block again; the registry
  still represents every block once and in order, up to the last one processed before or after the
  restart.
\<close>

theorem IndexEVMLogs_resumes:
  assumes env: "indexer_env I p content pending isOpen chain maxHead"
    and cfg: "cfg = NewEVMIndexer cfg0" "cfgIndexerMode cfg = ModePoll"
      "maxHead + unat (cfgMaxBlocksDistance cfg) < 2 ^ 64"
    and start: "ecBlockNumber (ieClient I) w = (Inr head0, w')" "lastBlock \<le> head0" "b0 \<le> unat lastBlock"
    and e: "e = mdEmptyValue (regMetadata (zjRegistry jb))"
    and rep: "represents (ieHash I) p (ieU256 I) (zjRegistry jb) (content d)
      (absOps e (chainOps (ieAbi I) chain b0 (Suc (unat lastBlock))) A)"
    and fits: "chainFits I p chain b0 (depth (regTree (zjRegistry jb))) e A"
    and s: "s = ixRun I cfg n (IndexEVMLogs I lastBlock jb d w c)"
  shows "represents (ieHash I) p (ieU256 I) (zjRegistry (ixJob s)) (content (ixDb s))
    (absOps e (chainOps (ieAbi I) chain b0 (max (Suc (unat lastBlock)) (unat (ixFrom s)))) A)"
proof -
  let ?A = "absOps e (chainOps (ieAbi I) chain b0 (Suc (unat lastBlock))) A"
  have dist: "cfgMaxBlocksDistance cfg \<noteq> 0" using cfg(1) NewEVMIndexer_distance by simp
  have replay: "absOps e (chainOps (ieAbi I) chain (unat lastBlock) m) ?A =
      absOps e (chainOps (ieAbi I) chain b0 (max (Suc (unat lastBlock)) m)) A" if "unat lastBlock \<le> m" for m
    using chainOps_resume [OF start(3), of m] that by (cases "m = unat lastBlock") (auto simp: absOps_def max_def)
  have "chainFits I p chain (unat lastBlock) (depth (regTree (zjRegistry jb))) e ?A"
    using fits start(3) by (simp add: chainFits_def replay)
  then have "ixInv I p content chain maxHead (unat lastBlock) (depth (regTree (zjRegistry jb))) e ?A (zjDescriptor jb)
      (unat head0) s"
    unfolding s e by (rule indexer_env.ixRun_inv [OF env indexer_env.IndexEVMLogs_inv(1) [OF env start(1,2)
            rep [unfolded e]] _ dist cfg(3,2)])
  then have "represents (ieHash I) p (ieU256 I) (zjRegistry (ixJob s)) (content (ixDb s))
      (absOps e (chainOps (ieAbi I) chain (unat lastBlock) (unat (ixFrom s))) ?A)" "unat lastBlock \<le> unat (ixFrom s)"
    by (simp_all add: ixInv_def indexedTo_def)
  then show ?thesis by (simp only: replay)
qed

theorem IndexEVMLogs_resumes_witness:
  "\<exists>(jb :: zk_job) d. zjDescriptor jb = descA \<and>
     represents mixHash scalarField uint256
       (zjRegistry (ixJob (ixRun smallIndexer (NewEVMIndexer pollConfig) 5 (IndexEVMLogs smallIndexer 2 jb d 4 None))))
       (ixDb (ixRun smallIndexer (NewEVMIndexer pollConfig) 5 (IndexEVMLogs smallIndexer 2 jb d 4 None)))
       (absOps 5 (chainOps smallAbi smallChain 1 (max 3
         (unat (ixFrom (ixRun smallIndexer (NewEVMIndexer pollConfig) 5 (IndexEVMLogs smallIndexer 2 jb d 4 None))))))
         (freshAbs mdA))"
proof -
  have ops: "chainOps smallAbi smallChain 1 3 = addSeven"
    by (simp add: chainOps_def smallChain_ops upt_rec addSeven_def)
  obtain jb :: zk_job and d where h: "zjDescriptor jb = descA" "sameRegistry (coldRegistry mdA) (zjRegistry jb)"
    "represents mixHash scalarField uint256 (zjRegistry jb) d (absOps 5 addSeven (freshAbs mdA))"
    using memJob.handleLogs_ok [OF smallAbi_ok addSeven_ok(4), of jobA Map.empty "freshAbs mdA" None 2]
      jobA_represents addSeven_ok(1,3) by (auto simp del: fun_upd_apply intro: that)
  have r: "depth (regTree (zjRegistry jb)) = 3" "mdEmptyValue (regMetadata (zjRegistry jb)) = 5"
    using h(2) by (simp_all add: sameRegistry_def)
  have "represents mixHash scalarField uint256
       (zjRegistry (ixJob (ixRun smallIndexer (NewEVMIndexer pollConfig) 5 (IndexEVMLogs smallIndexer 2 jb d 4 None))))
       (ixDb (ixRun smallIndexer (NewEVMIndexer pollConfig) 5 (IndexEVMLogs smallIndexer 2 jb d 4 None)))
       (absOps 5 (chainOps smallAbi smallChain 1 (max (Suc (unat (2::u64)))
         (unat (ixFrom (ixRun smallIndexer (NewEVMIndexer pollConfig) 5 (IndexEVMLogs smallIndexer 2 jb d 4 None))))))
         (freshAbs mdA))"
    using IndexEVMLogs_resumes [OF mem_contracts(5) refl _ _ _ _ _ refl _ _ refl,
        of pollConfig 4 4 5 2 1 jb d "freshAbs mdA" 5 None]
      pollConfig_ok chainClient_head h(3) smallChain_fits r ops by simp
  then show ?thesis using h(1) by auto
qed

text \<open>
  C12.  If the node answers the queries for logs and the context is not cancelled, the polling indexer
  gets to the first head: after finitely many rounds the next block is the one after it, the registry is
  marked as on head and the indexer polls for new blocks.
\<close>

theorem IndexEVMLogs_reaches_head:
  assumes env: "indexer_env I p content pending isOpen chain maxHead"
    and cfg: "cfg = NewEVMIndexer cfg0" "cfgIndexerMode cfg = ModePoll"
      "maxHead + unat (cfgMaxBlocksDistance cfg) < 2 ^ 64"
    and start: "ecBlockNumber (ieClient I) w = (Inr head0, w')" "b \<le> head0"
    and rep: "represents (ieHash I) p (ieU256 I) (zjRegistry jb) (content d) A"
    and fits: "chainFits I p chain (unat b) (depth (regTree (zjRegistry jb)))
      (mdEmptyValue (regMetadata (zjRegistry jb))) A"
    and answers: "\<And>f t w. \<exists>logs w'. ecFilterLogs (ieClient I) f t w = (Inr logs, w')"
  shows "\<exists>n. let s = ixRun I cfg n (IndexEVMLogs I b jb d w None) in
    unat (ixFrom s) = Suc (unat head0) \<and> ixPhase s = Polling \<and> IsOnHead (regProgress (zjRegistry (ixJob s)))"
proof -
  have dist: "cfgMaxBlocksDistance cfg \<noteq> 0" using cfg(1) NewEVMIndexer_distance by simp
  show ?thesis
    by (rule indexer_env.reaches_head [OF env indexer_env.IndexEVMLogs_inv [OF env start rep] fits dist
          cfg(3,2) answers])
qed

theorem IndexEVMLogs_reaches_head_witness:
  "\<exists>n. let s = ixRun smallIndexer (NewEVMIndexer pollConfig) n (IndexEVMLogs smallIndexer 1 jobA Map.empty 4 None) in
    unat (ixFrom s) = 5 \<and> ixPhase s = Polling \<and> IsOnHead (regProgress (zjRegistry (ixJob s)))"
proof -
  have "\<exists>logs w'. ecFilterLogs (ieClient smallIndexer) f t w = (Inr logs, w')" for f t w
    by (simp add: chainClient_def)
  then show ?thesis
    using IndexEVMLogs_reaches_head [OF mem_contracts(5) refl,
        of pollConfig 4 4 5 1 jobA Map.empty "freshAbs mdA"]
      pollConfig_ok chainClient_head jobA_represents smallChain_fits by simp
qed

section \<open>Subscription\<close>

text \<open>
  C40.  In WebSocket mode a job that starts at most one range of blocks behind the head subscribes only
  after it has processed that range, because the distance to the head wraps around below zero, and does
  not look at the head again: the head of the start is the last block whose logs are queried, and a block
  that arrives between the query and the subscription is in neither.
\<close>

theorem IndexEVMLogs_subscription_gap:
  assumes env: "indexer_env I p content pending isOpen chain maxHead"
    and cfg: "cfg = NewEVMIndexer cfg0" "cfgIndexerMode cfg = ModeWS"
      "maxHead + unat (cfgMaxBlocksDistance cfg) < 2 ^ 64 - 1"
    and start: "ecBlockNumber (ieClient I) w = (Inr head0, w')" "b \<le> head0"
      "unat head0 < unat b + unat (cfgMaxBlocksDistance cfg)"
    and rep: "represents (ieHash I) p (ieU256 I) (zjRegistry jb) (content d) A"
    and fits: "chainFits I p chain (unat b) (depth (regTree (zjRegistry jb)))
      (mdEmptyValue (regMetadata (zjRegistry jb))) A"
    and logs: "ecFilterLogs (ieClient I) b head0 w' = (Inr logs, w'')"
    and s: "s = ixRun I cfg 2 (IndexEVMLogs I b jb d w None)"
  shows "ixPhase s = Sink \<and> ixFrom s = head0 + 1 \<and> ixEnv s = ecSubscribe (ieClient I) w'' \<and>
    represents (ieHash I) p (ieU256 I) (zjRegistry (ixJob s)) (content (ixDb s))
      (absOps (mdEmptyValue (regMetadata (zjRegistry jb)))
        (chainOps (ieAbi I) chain (unat b) (Suc (unat head0))) A)"
proof -
  let ?s0 = "IndexEVMLogs I b jb d w None"
  have dist: "cfgMaxBlocksDistance cfg \<noteq> 0" using cfg(1) NewEVMIndexer_distance by simp
  have room: "maxHead + unat (cfgMaxBlocksDistance cfg) < 2 ^ 64" using cfg(3) by simp
  note inv = indexer_env.IndexEVMLogs_inv [OF env start(1,2) rep, where c = None]
  have s0: "ixFrom ?s0 = b" "ixCurrent ?s0 = head0" "ixEnv ?s0 = w'" "\<not> ixSubscribed ?s0" "ixPhase ?s0 = Indexing"
    "ixCtx ?s0 = None"
    using start(1) leD [OF start(2)] by (simp_all add: IndexEVMLogs_def Let_def)
  have le: "unat head0 \<le> maxHead" using inv(1) s0 by (simp add: ixInv_def)
  then have "unat (ixCurrent ?s0) + unat (cfgMaxBlocksDistance cfg) < 2 ^ 64" using cfg(3) s0 by simp
  note t = nextTo_range [OF inv(4) dist this, unfolded s0]
  have to: "nextTo cfg ?s0 = head0"
    using t(3) start(3) by (auto simp: min_def word_unat_eq_iff)
  obtain jb' d' where h: "handleLogs (ieHash I) (ieDb I) (ieU256 I) (ieCodec I) (ieAbi I) None logs head0
      (ixJob ?s0, ixDb ?s0) = (Inr (), (jb', d'))"
    and r: "indexedTo I p content chain (unat b) (mdEmptyValue (regMetadata (zjRegistry jb))) A
      (?s0\<lparr>ixEnv := w'', ixJob := jb', ixDb := d', ixFrom := head0 + 1\<rparr>)"
    using indexer_env.indexRound_handles [OF env inv(1,4) fits dist room, unfolded to s0, OF logs] s0 by auto
  have far: "\<not> head0 - (head0 + 1) \<le> cfgMaxBlocksDistance cfg" "\<not> head0 + 1 \<le> head0"
    using t(4) cfg(3) unfolding to by (simp_all add: word_le_nat_alt unsigned_minus_1_eq_mask mask_eq_exp_minus_1)
  let ?s1 = "?s0\<lparr>ixEnv := w'', ixJob := jb', ixDb := d', ixFrom := head0 + 1\<rparr>"
  have s1: "ixStep I cfg ?s0 = ?s1"
    using s0 start(2) to logs h cfg(2) far
    by (simp add: ixStep_def indexRound_def wrapG_def Let_def ctxDone_def tickCtx_def afterWS_def closeToHead_def)
  have "s = ixStep I cfg ?s1" unfolding s by (simp add: numeral_2_eq_2 s1)
  then have s2: "s = ?s1\<lparr>ixEnv := ecSubscribe (ieClient I) w'', ixPhase := Sink,
      ixJob := OnIndexerModeChange ModeWS jb'\<rparr>"
    using s0 far cfg(2) by (simp add: ixStep_def afterLoop_def)
  show ?thesis
    using r OnIndexerModeChange_eq [of ModeWS jb'] t(4) unfolding s2 to by (auto simp: indexedTo_def)
qed

definition wsConfig :: ix_config where
  "wsConfig = \<lparr>cfgMaxBlocksDistance = 10, cfgSinkChannelSize = 0, cfgSinkProgressTick = 0,
     cfgIndexerMode = ModeWS, cfgPollingInterval = 0\<rparr>"

lemma wsConfig_ok:
  "cfgIndexerMode (NewEVMIndexer wsConfig) = ModeWS" "cfgMaxBlocksDistance (NewEVMIndexer wsConfig) = 10"
  by (simp_all add: NewEVMIndexer_def wsConfig_def Let_def)

theorem IndexEVMLogs_subscription_gap_witness:
  "let s = ixRun smallIndexer (NewEVMIndexer wsConfig) 2 (IndexEVMLogs smallIndexer 1 jobA Map.empty 4 None) in
    ixPhase s = Sink \<and> ixFrom s = 5 \<and> ixEnv s = ecSubscribe chainClient 5"
proof -
  have "ecFilterLogs chainClient 1 4 5 = (Inr (chainLogs smallChain 1 5), 5)"
    by (simp add: chainClient_def)
  then show ?thesis
    using IndexEVMLogs_subscription_gap [OF mem_contracts(5) refl _ _ _ _ _ _ _ _ refl,
        of wsConfig 4 4 5 1 jobA Map.empty "freshAbs mdA" "chainLogs smallChain 1 5" 5]
      wsConfig_ok chainClient_head jobA_represents smallChain_fits by simp
qed

end
