(* ===== verification/Configurator_Theorems.thy ===== *)
theory Configurator_Theorems
  imports Indexer_Theorems
begin

text \<open>
  The theorems on the configurator, with applications to a service of two registries.
\<close>

section \<open>A service of two registries\<close>

definition descB :: job_descriptor where
  "descB = \<lparr>jdAddress = addrB, jdContract = 1, jdStartBlock = 50\<rparr>"

definition mdB :: metadata where
  "mdB = (contractMetadata addrB)\<lparr>mdIndex := 1\<rparr>"

definition twoDb :: kv where
  "twoDb = [makeRegistryIndexKey addrA \<mapsto> [0], makeRegistryIndexKey addrB \<mapsto> [1],
     makeJobKey descA \<mapsto> encoded jobCodec \<lparr>jobDescriptor = descA, jobCurrentBlock = 3\<rparr>]"

definition twoService :: "kv service_state" where
  "twoService = \<lparr>svcDb = twoDb, svcRegistry = [0 \<mapsto> coldRegistry mdA, 1 \<mapsto> coldRegistry mdB]\<rparr>"

lemma small_contract: "configurator_env smallConfigurator (\<lambda>d. d) memPending memIsOpen"
  by unfold_locales

lemma two_keys:
  "makeRegistryIndexKey addrA = ZKCertificateRegistryIndexPrefix # addrA"
  "makeRegistryIndexKey addrB = ZKCertificateRegistryIndexPrefix # addrB"
  "\<exists>k. makeJobKey jd = JobKeyPrefix # k" "ZKCertificateRegistryIndexPrefix \<noteq> JobKeyPrefix"
  by (simp_all add: makeRegistryIndexKey_layout makeJobKey_def ZKCertificateRegistryIndexPrefix_def JobKeyPrefix_def)

lemma twoDb_ok: "finite (dom twoDb)" "jobsWritten jobCodec twoDb"
  "storedIndex twoDb addrA = Some 0" "storedIndex twoDb addrB = Some 1"
  "jobStored jobCodec twoDb descA 3" "\<not> jobStored jobCodec twoDb descB b"
proof -
  have ne: "descB \<noteq> descA" "makeJobKey descB \<noteq> makeJobKey descA"
    by (simp_all add: descA_def descB_def makeJobKey_layout addrA_def addrB_def addressOk_def AddressLength_def)
  show "finite (dom twoDb)" by (simp add: twoDb_def)
  show "jobsWritten jobCodec twoDb"
    using two_keys(3) [of descA] two_keys(4)
    by (auto simp: jobsWritten_def twoDb_def two_keys(1,2) split: if_splits
        intro!: exI [of _ "\<lparr>jobDescriptor = descA, jobCurrentBlock = 3\<rparr>"])
  show "storedIndex twoDb addrA = Some 0" "storedIndex twoDb addrB = Some 1"
    using two_keys(3) [of descA] two_keys(4) by (auto simp: storedIndex_def twoDb_def two_keys(1,2))
  show "jobStored jobCodec twoDb descA 3" by (simp add: jobStored_def twoDb_def)
  show "\<not> jobStored jobCodec twoDb descB b"
    using two_keys(3) [of descB] two_keys(4) ne by (auto simp: jobStored_def twoDb_def two_keys(1,2))
qed

lemma two_start: "\<forall>jd\<in>set [descA, descB]. canStart smallConfigurator twoService jd"
  by (auto simp: canStart_def Produce_def Service_Registry_def memdb.FindRegistryIndex_eq twoService_def twoDb_ok
      descA_def descB_def ContractZkCertificateRegistry_def FilterQuery_def smallAbi_def)

section \<open>Restart\<close>

text \<open>
  C10.  When the indexer starts, every configured job gets exactly one goroutine and no other job gets
  one.  A job with stored progress starts at its last processed block, a new one at the start block of
  its descriptor, and both query the address of their registry; the database keeps its content.
\<close>

theorem RunIndexer_resumes_jobs:
  assumes "configurator_env N content pending isOpen"
    and "finite (dom (content (svcDb s)))" "jobsWritten (ieCodec (ceIndexer N)) (content (svcDb s))"
    and "\<forall>jd\<in>set config. canStart N s jd" "set order = set config"
  shows "\<exists>st. RunIndexer N order None config sched s w = Some (Inr (), st, sched) \<and>
    dom (cfJobs st) = set config \<and> length (cfRoutines st) = card (set config) \<and>
    content (svcDb (cfService st)) = content (svcDb s) \<and> svcRegistry (cfService st) = svcRegistry s \<and>
    (\<forall>jd\<in>set config. \<exists>b. startedAt st jd b \<and>
       (\<forall>b'. jobStored (ieCodec (ceIndexer N)) (content (svcDb s)) jd b' \<longrightarrow> b = b') \<and>
       ((\<forall>b'. \<not> jobStored (ieCodec (ceIndexer N)) (content (svcDb s)) jd b') \<longrightarrow> b = jdStartBlock jd))"
  by (rule configurator_env.RunIndexer_ok [OF assms])

theorem RunIndexer_resumes_jobs_witness:
  "\<exists>st. RunIndexer smallConfigurator [descB, descA] None [descA, descB] [] twoService 60 = Some (Inr (), st, []) \<and>
    dom (cfJobs st) = {descA, descB} \<and> startedAt st descA 3 \<and> startedAt st descB 50"
proof -
  have order: "set [descB, descA] = set [descA, descB]" by auto
  have db: "svcDb twoService = twoDb" by (simp add: twoService_def)
  note r = RunIndexer_resumes_jobs [OF small_contract _ _ two_start order, of "[]" 60,
      unfolded db smallConfigurator_simps smallIndexer_simps, OF twoDb_ok(1,2)]
  obtain st where st: "RunIndexer smallConfigurator [descB, descA] None [descA, descB] [] twoService 60 = Some (Inr (), st, [])"
    "dom (cfJobs st) = set [descA, descB]"
    and jobs: "\<forall>jd\<in>set [descA, descB]. \<exists>b. startedAt st jd b \<and> (\<forall>b'. jobStored jobCodec twoDb jd b' \<longrightarrow> b = b') \<and>
      ((\<forall>b'. \<not> jobStored jobCodec twoDb jd b') \<longrightarrow> b = jdStartBlock jd)"
    using r by (elim exE conjE)
  obtain a where a: "startedAt st descA a" "\<forall>b'. jobStored jobCodec twoDb descA b' \<longrightarrow> a = b'"
    using jobs by auto
  obtain b where b: "startedAt st descB b" "(\<forall>b'. \<not> jobStored jobCodec twoDb descB b') \<longrightarrow> b = jdStartBlock descB"
    using jobs by auto
  have "a = 3" "b = 50" using a(2) b(2) twoDb_ok(5,6) by (simp_all add: descB_def)
  then show ?thesis using st a(1) b(1) by (intro exI [of _ st]) simp
qed

section \<open>Reloading\<close>




text \<open>
  C16.  Stopping one job stops them all: in polling mode, when \<open>ReloadConfig\<close> has stopped a running job,
  every job that it keeps has been cancelled, because the goroutine that ends with the cancellation error
  calls \<open>CancelAll\<close>.
\<close>

theorem ReloadConfig_cancels_kept_jobs:
  assumes env: "configurator_env N content pending isOpen" and m: "cfgIndexerMode (ceConfig N) = ModePoll"
    and start: "\<forall>jd\<in>set config. canStart N (cfService st) jd" and ok: "cfOk st" "routinesOk st"
    and order: "set order = dom (cfJobs st) \<union> set config" "distinct order"
    and removed: "cfJobs st jd = Some g" "jd \<notin> set config" "jrResult (cfRoutines st ! g) = None"
    and run: "ReloadConfig N order config sched st = Some (Inr (), st', sched')"
    and kept: "cfJobs st' jd' = Some g'"
  shows "jrCancelled (cfRoutines st' ! g')"
proof -
  obtain st1 b b' st2 where "startLoop N config st = (Inr (), st1)"
    and s1: "extends st st1" "cfOk st1" "dom (cfJobs st1) = set order"
      "\<forall>jd\<in>set config. cfJobs st jd = None \<longrightarrow> startedAt st1 jd (jdStartBlock jd)"
    and b: "isOpen b" "pending b = Map.empty"
    and s2: "stopLoop N config order sched st1 b = Some (Inr (), st2, b', sched')"
    and st': "cfJobs st' = cfJobs st2" "cfRoutines st' = cfRoutines st2"
      "content (svcDb (cfService st')) = applyOverlay (pending b') (content (svcDb (cfService st2)))"
    by (rule configurator_env.ReloadConfig_steps [OF env start ok(1) order run])
  have sub: "set order \<subseteq> dom (cfJobs st1)" using s1(3) by simp
  have g: "g < length (cfRoutines st)" "cfJobs st1 jd = Some g"
    using removed(1) ok(1) s1(1) by (simp_all add: cfOk_def extends_def)
  then have "spread g st1"
    using s1(1,2) removed(3) routinesOk_extends [OF ok(2)] by (auto simp: spread_def extends_def nth_append)
  then have "spread g st2" by (rule configurator_env.stopLoop_spread [OF env s2 sub order(2) b(1) _ m])
  moreover have "jd \<in> set order - set config" using removed(1,2) order(1) by auto
  then have "jrResult (cfRoutines st2 ! the (cfJobs st1 jd)) \<noteq> None"
    using configurator_env.stopLoop_ok [OF env s2 sub order(2) s1(2) b(1)] cleanEnd_ended by blast
  ultimately show ?thesis using kept g(2) by (auto simp: spread_def allCancelled_def st')
qed

text \<open>Two jobs that have not taken a turn yet; the second one is stopped by a reload.\<close>

definition twoJobs :: "(kv, nat) cf_state" where
  "twoJobs = \<lparr>cfService = twoService, cfNode = 60, cfJobs = [descA \<mapsto> 0, descB \<mapsto> 1],
     cfRoutines = map (\<lambda>(jd, md, b). \<lparr>jrDescriptor = jd, jrQuery = \<lparr>fqAddresses = [jdAddress jd], fqTopics = [[[7]]]\<rparr>,
       jrStart = b, jrHandler = NewZkCertificateRegistryJob jd (coldRegistry md), jrCancelled = False, jrState = None\<rparr>)
       [(descA, mdA, 3), (descB, mdB, 50)]\<rparr>"

lemma twoJobs_ok: "cfOk twoJobs" "routinesOk twoJobs" "dom (cfJobs twoJobs) = {descA, descB}"
  "cfJobs twoJobs descB = Some 1" "descB \<noteq> descA"
  by (auto simp: twoJobs_def cfOk_def routinesOk_def descA_def descB_def split: if_splits)

lemma handle_nothing:
  "handleLogs mixHash memdb uint256 jobCodec smallAbi c [] b (jb, d) =
     (Inr (), jb, d(makeJobKey (zjDescriptor jb) \<mapsto> encoded jobCodec \<lparr>jobDescriptor = zjDescriptor jb, jobCurrentBlock = b\<rparr>))"
proof -
  have "applyOverlay [k \<mapsto> Some v] d = d(k \<mapsto> v)" for k v and d :: kv
    by (auto simp: applyOverlay_def)
  then show ?thesis
    by (simp add: handleLogs_def PrepareContext_def WithOperationsBuffer_def NewOperationsBuffer_def Job_Commit_def
        Operations_def UpsertJob_def jobCodec.encode_eq writeBatchWithLock_def memdb_def memBatchWrite_def wrapG_def
        keys_nonempty)
qed

text \<open>The two turns of the cancelled job.\<close>

definition routineB :: "(kv, nat) job_routine" where
  "routineB = (cfRoutines twoJobs ! 1)\<lparr>jrCancelled := True\<rparr>"

definition indexB :: "(kv, nat) ix_state" where
  "indexB = \<lparr>ixPhase = Indexing, ixFrom = 50, ixCurrent = 60, ixOnHead = False, ixSubscribed = False,
     ixJob = NewZkCertificateRegistryJob descB (coldRegistry mdB), ixDb = twoDb, ixEnv = 61, ixCtx = Some 0\<rparr>"

lemma mdB_simps [simp]: "mdIndex mdB = 1" "regLeafView (coldRegistry mdB) = 1" "\<not> IsOnHead (regProgress (coldRegistry mdB))"
  by (simp_all add: mdB_def coldRegistry_def NewZKCertificateRegistry_def IsOnHead_def)

lemma sharedB: "sharedJob s (NewZkCertificateRegistryJob descB (coldRegistry mdB)) = NewZkCertificateRegistryJob descB (coldRegistry mdB)"
  if "svcRegistry s 1 = Some (coldRegistry mdB)" for s :: "kv service_state"
  using that by (simp add: sharedJob_def NewZkCertificateRegistryJob_def)

lemma first_turn: "jobTurn smallConfigurator twoJobs routineB = indexB"
proof -
  have "ecBlockNumber chainClient 60 = (Inr 60, 61)" by (simp add: chainClient_def)
  then show ?thesis
    by (simp add: jobTurn_def routineB_def twoJobs_def sharedB twoService_def IndexEVMLogs_def Let_def indexB_def
        OnIndexerModeChange_def jobCtx_def NewZkCertificateRegistryJob_def sharedJob_def smallIndexer_def)
qed

lemma second_turn:
  assumes "cfService st = putRegistry (coldRegistry mdB) twoService" "cfNode st = 61"
  shows "ixPhase (jobTurn smallConfigurator st (routineB\<lparr>jrState := Some indexB\<rparr>)) = Stopped (Inl ErrCanceled)"
proof -
  have chain: "chainLogs smallChain 50 52 = []"
    by (simp add: chainLogs_def smallChain_def upt_rec)
  have logs: "ecFilterLogs chainClient 50 51 61 = (Inr [], 61)"
    using chain by (simp add: chainClient_def)
  show ?thesis
    using assms logs
    by (simp add: jobTurn_def sharedB twoService_def putRegistry_def ixStep_def indexRound_def Let_def indexB_def
        nextTo_def pollConfig_ok handle_nothing wrapG_def ctxDone_def stop_def jobCtx_def routineB_def smallIndexer_def)
qed

lemma jobTurn_cong: "cfService st = cfService st' \<Longrightarrow> cfNode st = cfNode st' \<Longrightarrow> jobTurn N st r = jobTurn N st' r"
  by (simp add: jobTurn_def Let_def cong: option.case_cong)

lemma wait_two:
  "\<exists>st'. waitFor smallConfigurator 1 [1, 1] (cancelJob descB 1 twoJobs) =
     Some (Inl (Wrap ''index EVM logs'' ErrCanceled), st', [])"
proof -
  let ?N = smallConfigurator and ?c = "cancelJob descB 1 twoJobs"
  let ?c1 = "afterTurn 1 indexB ?c"
  have c: "cfRoutines ?c ! 1 = routineB" "length (cfRoutines ?c) = 2" "cfService ?c = twoService" "cfNode ?c = 60"
    by (simp_all add: cancelJob_def routineB_def twoJobs_def)
  have r: "jrResult routineB = None" by (simp add: jrResult_def routineB_def twoJobs_def)
  have "cfService twoJobs = twoService" "cfNode twoJobs = 60" by (simp_all add: twoJobs_def)
  then have "jobTurn ?N ?c routineB = indexB"
    using first_turn jobTurn_cong [of ?c twoJobs ?N routineB] c(3,4) by simp
  then have t1: "goStep ?N 1 ?c = ?c1"
    by (cases rule: goStep_cases [of ?N 1 ?c]) (use c r in \<open>simp_all add: indexB_def\<close>)
  have c1: "cfRoutines ?c1 ! 1 = routineB\<lparr>jrState := Some indexB\<rparr>" "length (cfRoutines ?c1) = 2"
      "cfService ?c1 = putRegistry (coldRegistry mdB) twoService" "cfNode ?c1 = 61"
    using c by (simp_all add: afterTurn_def indexB_def NewZkCertificateRegistryJob_def twoService_def)
  have r1: "jrResult (routineB\<lparr>jrState := Some indexB\<rparr>) = None" by (simp add: jrResult_def indexB_def)
  have "jrResult (cfRoutines (goStep ?N 1 ?c1) ! 1) = Some (Inl (Wrap ''index EVM logs'' ErrCanceled))"
    using goStep_result [of 1 ?c1 ?N "Inl ErrCanceled"] second_turn [OF c1(3,4)] c1(1,2) r1 by simp
  then have "waitFor ?N 1 [] (goStep ?N 1 ?c1) =
      Some (Inl (Wrap ''index EVM logs'' ErrCanceled), goStep ?N 1 ?c1, [])"
    by (subst waitFor.simps) simp
  then have "waitFor ?N 1 [1] ?c1 = Some (Inl (Wrap ''index EVM logs'' ErrCanceled), goStep ?N 1 ?c1, [])"
    using c1(1) r1 by (subst waitFor.simps) simp
  then have "waitFor ?N 1 [1, 1] ?c = Some (Inl (Wrap ''index EVM logs'' ErrCanceled), goStep ?N 1 ?c1, [])"
    using c(1) r t1 by (subst waitFor.simps) simp
  then show ?thesis by blast
qed

lemma two_reload:
  "\<exists>st'. ReloadConfig smallConfigurator [descA, descB] [descA] [1, 1] twoJobs = Some (Inr (), st', [])"
proof -
  let ?N = smallConfigurator and ?b = "dbNewBatch memdb twoDb"
  obtain st2 where w: "waitFor ?N 1 [1, 1] (cancelJob descB 1 twoJobs) =
      Some (Inl (Wrap ''index EVM logs'' ErrCanceled), st2, [])"
    using wait_two by blast
  obtain b1 where b1: "DeleteJob memdb descB ?b = (Inr (), b1)" "memIsOpen b1"
    using memdb.bdelete_ok [of ?b "makeJobKey descB" for b] memdb.new_ok [of twoDb] keys_nonempty(3)
    by (fastforce simp: DeleteJob_def)
  have "StopJob ?N descB [1, 1] twoJobs ?b = Some (Inr (), st2, b1, [])"
    using w b1(1) twoJobs_ok(4) by (simp add: StopJob_def cancelJob_def wrapG_def Let_def)
  then have stop: "stopLoop ?N [descA] [descA, descB] [1, 1] twoJobs ?b = Some (Inr (), st2, b1, [])"
    using twoJobs_ok(5) by simp
  obtain d b2 where "batchWriteSync memdb (svcDb (cfService st2), b1) = (Inr (), d, b2)"
    using memdb.write_ok [OF b1(2)] by blast
  moreover have "startLoop ?N [descA] twoJobs = (Inr (), twoJobs)" "svcDb (cfService twoJobs) = twoDb"
    using twoJobs_ok(5) by (simp_all add: twoJobs_def twoService_def)
  ultimately show ?thesis using stop by (simp add: ReloadConfig_def wrapG_def del: startLoop.simps stopLoop.simps)
qed

lemma two_hypotheses:
  "cfgIndexerMode (ceConfig smallConfigurator) = ModePoll"
  "\<forall>jd\<in>set [descA]. canStart smallConfigurator (cfService twoJobs) jd"
  "set [descA, descB] = dom (cfJobs twoJobs) \<union> set [descA]" "distinct [descA, descB]"
  "descB \<notin> set [descA]" "jrResult (cfRoutines twoJobs ! 1) = None"
proof -
  show "\<forall>jd\<in>set [descA]. canStart smallConfigurator (cfService twoJobs) jd"
    using two_start by (simp add: twoJobs_def)
  show "set [descA, descB] = dom (cfJobs twoJobs) \<union> set [descA]" unfolding twoJobs_ok(3) by auto
  show "distinct [descA, descB]" "descB \<notin> set [descA]" using twoJobs_ok(5) by auto
qed (simp_all add: pollConfig_ok twoJobs_def jrResult_def)


theorem ReloadConfig_cancels_kept_jobs_witness:
  "\<exists>st' g. ReloadConfig smallConfigurator [descA, descB] [descA] [1, 1] twoJobs = Some (Inr (), st', []) \<and>
     cfJobs st' descA = Some g \<and> jrCancelled (cfRoutines st' ! g)"
proof -
  obtain st' where run: "ReloadConfig smallConfigurator [descA, descB] [descA] [1, 1] twoJobs = Some (Inr (), st', [])"
    using two_reload by blast
  obtain st1 b b' st2 where "startLoop smallConfigurator [descA] twoJobs = (Inr (), st1)"
    and s1: "extends twoJobs st1" "cfOk st1" "dom (cfJobs st1) = set [descA, descB]"
      "\<forall>jd\<in>set [descA]. cfJobs twoJobs jd = None \<longrightarrow> startedAt st1 jd (jdStartBlock jd)"
    and b: "memIsOpen b" "memPending b = Map.empty"
    and s2: "stopLoop smallConfigurator [descA] [descA, descB] [1, 1] st1 b = Some (Inr (), st2, b', [])"
    and st': "cfJobs st' = cfJobs st2" "cfRoutines st' = cfRoutines st2"
      "svcDb (cfService st') = applyOverlay (memPending b') (svcDb (cfService st2))"
    by (rule smallConfigurator.ReloadConfig_steps [OF two_hypotheses(2) twoJobs_ok(1) two_hypotheses(3,4) run])
  have "cfJobs twoJobs descA = Some 0" using twoJobs_ok(5) by (simp add: twoJobs_def)
  then have "cfJobs st1 descA = Some 0" using s1(1) by (simp add: extends_def)
  moreover have "cfJobs st2 = cfJobs st1 |` (- (set [descA, descB] - set [descA]))"
    using smallConfigurator.stopLoop_ok [OF s2 _ two_hypotheses(4) s1(2) b(1)] s1(3) by blast
  ultimately have "cfJobs st' descA = Some 0" by (simp add: st' restrict_map_def)
  then show ?thesis
    using run ReloadConfig_cancels_kept_jobs [OF small_contract two_hypotheses(1,2) twoJobs_ok(1,2) two_hypotheses(3,4)
        twoJobs_ok(4) two_hypotheses(5,6) run] by blast
qed

end
