(* ===== verification/Server_Theorems.thy ===== *)
theory Server_Theorems
  imports Service_Theorems
begin

text \<open>
  The theorem on the batch handler of the query server, applied to the small service.
\<close>

section \<open>Batch proofs\<close>

text \<open>
  C9.  In every reachable state of the service, a batch request for a registry on head is answered
  exactly if the simulation finds a leaf for every operation.  The answer has one proof per operation,
  and whoever applies the operations one after the other, checking each proof against the root so far,
  accepts all of them, starts from the root of the registry and ends at the root of the updated tree.
\<close>

theorem Server_GetBatchProofs_verifies:
  assumes env: "system_env P p D content pending isOpen U C J"
    and run: "sysReach P p D content U C J s addrs S"
    and S: "S (hexToAddress H r) = Some (md, (lf, ix))" and hex: "isHexAddress H r"
    and reg: "svcRegistry s (mdIndex md) = Some reg" "IsOnHead (regProgress reg)"
    and ops: "convertOperations U ops = Inr ops'" "\<forall>op\<in>set ops'. unat (leafValue (opLeaf op)) < p" "ops \<noteq> []"
    and n: "n = unat (mdDepth md)" and e: "e = mdEmptyValue md"
  shows "case pickOps rand (maxLeaves (regTree reg)) e ops' lf g of
      None \<Rightarrow> \<exists>err s' c' g'. Server_GetBatchProofs P D U H rand r ops (s, None, g) = (Inl err, s', c', g')
    | Some picked \<Rightarrow>
        \<exists>prs s' c' g'. Server_GetBatchProofs P D U H rand r ops (s, None, g) =
          (Inr \<lparr>gbrInitialRoot = uString U (node (hashOf P) lf n 0),
                gbrProofs = map (\<lambda>pr. \<lparr>gbpIndex = bprIndex pr, gbpPath = map (uString U) (bprPath pr)\<rparr>) prs\<rparr>,
           s', c', g') \<and> map bprIndex prs = picked \<and> length prs = length ops \<and>
        verifyBatch (hashOf P) e (node (hashOf P) lf n 0) ops' prs =
          Some (node (hashOf P) (simLeaves e lf ops' prs) n 0)"
proof -
  have sv: "service_env P p D content pending isOpen U C"
    using env by (simp add: system_env_def)
  have ok: "serviceOk P p U C (content (svcDb s)) (svcRegistry s) addrs S"
    using system_env.sysReach_ok [OF env run] by auto
  note answers = service_env.Server_GetBatchProofs_answers [OF sv ok S hex reg ops(1,2) n e ops(3), of rand g]
  show ?thesis
  proof (cases "pickOps rand (maxLeaves (regTree reg)) e ops' lf g")
    case None
    then show ?thesis using answers by simp
  next
    case (Some picked)
    then obtain resp s' c' g' where run: "Server_GetBatchProofs P D U H rand r ops (s, None, g) = (Inr resp, s', c', g')"
        "map gbpIndex (gbrProofs resp) = picked"
      using answers by auto
    then show ?thesis
      using Some service_env.Server_GetBatchProofs_ok [OF sv ok S hex reg(1) ops(1,2) n e run(1)]
      by (auto simp: comp_def)
  qed
qed

definition hexOps :: hex_ops where
  "hexOps = \<lparr>isHexAddress = (\<lambda>s. s = ''0xA''), hexToAddress = (\<lambda>s. addrA)\<rparr>"

definition goOps :: "go_batch_operation list" where
  "goOps = [\<lparr>gboLeafHash = ''9'', gboIsAddition = True\<rparr>, \<lparr>gboLeafHash = ''7'', gboIsAddition = False\<rparr>]"

definition simOperations :: "leaf_operation list" where
  "simOperations = [\<lparr>opLeaf = \<lparr>leafIndex = 0, leafValue = 9\<rparr>, opOp = OperationAddition\<rparr>,
     \<lparr>opLeaf = \<lparr>leafIndex = 0, leafValue = 7\<rparr>, opOp = OperationRevocation\<rparr>]"

lemma goOps_ok:
  "convertOperations uint256 goOps = Inr simOperations"
  "\<forall>op\<in>set simOperations. unat (leafValue (opLeaf op)) < scalarField" "goOps \<noteq> []"
  by (simp_all add: goOps_def simOperations_def uint256_def decFromString_def horner_def scalarField_def)

lemma goOps_pick: "pickOps counter 8 5 simOperations ((\<lambda>_. 5)(2 := 7)) 0 = Some [0, 2]"
  by code_simp

theorem Server_GetBatchProofs_verifies_witness:
  "\<exists>s prs s' c' g'. Server_GetBatchProofs mixHash memdb uint256 hexOps counter ''0xA'' goOps (s, None, 0) =
     (Inr \<lparr>gbrInitialRoot = uString uint256 (node (hashOf mixHash) ((\<lambda>_. 5)(2 := 7)) 3 0),
           gbrProofs = map (\<lambda>pr. \<lparr>gbpIndex = bprIndex pr, gbpPath = map (uString uint256) (bprPath pr)\<rparr>) prs\<rparr>,
      s', c', g') \<and> map bprIndex prs = [0, 2] \<and> length prs = length goOps \<and>
   verifyBatch (hashOf mixHash) 5 (node (hashOf mixHash) ((\<lambda>_. 5)(2 := 7)) 3 0) simOperations prs =
     Some (node (hashOf mixHash) (simLeaves 5 ((\<lambda>_. 5)(2 := 7)) simOperations prs) 3 0)"
proof -
  obtain s reg where s: "smallReach s [addrA] [addrA \<mapsto> (mdA, absA)]" "svcRegistry s 0 = Some reg"
    "IsOnHead (regProgress reg)"
    by (rule smallSystem)
  have ok: "serviceOk mixHash scalarField uint256 metadataCodec (svcDb s) (svcRegistry s) [addrA] [addrA \<mapsto> (mdA, absA)]"
    using memSystem.sysReach_ok [OF s(1)] by blast
  have "regFits mixHash mdA reg"
    using memService.cached_fits [OF ok, of addrA mdA absA] s(2) by simp
  then have m: "maxLeaves (regTree reg) = 8" by (simp add: regFits_def maxLeaves_def)
  have "[addrA \<mapsto> (mdA, absA)] (hexToAddress hexOps ''0xA'') = Some (mdA, absA)" "isHexAddress hexOps ''0xA''"
    by (simp_all add: hexOps_def)
  note a = Server_GetBatchProofs_verifies [OF mem_contracts(4) s(1) this _ s(3) goOps_ok refl refl,
      of counter 0]
  show ?thesis using a s(2) m goOps_pick by (intro exI [of _ s]) (simp del: fun_upd_apply)
qed

end
