(* ===== verification/Spec2Isabelle.thy ===== *)
theory Spec2Isabelle
  imports Registry_Theorems Client_Theorems Configurator_Theorems Server_Theorems
begin

text \<open>
  Verification of the Merkle proof service.

  \<^bold>\<open>The program.\<close>  A Go service follows the events of certificate registries on an Ethereum chain,
  keeps a sparse Merkle tree for every registry in a key-value database, and answers queries for
  proofs over gRPC.  A TypeScript client, generated from the protobuf definitions, encodes the
  requests and decodes the responses.  The path of a certificate through the program is: a block of
  the chain, \<open>IndexEVMLogs\<close>, the buffer of operations of a job, \<open>CommitOperations\<close>, one database batch with
  the nodes, the leaf indexes and the progress of the job, \<open>CreateProof\<close>, the handler of the query
  server, the bytes of the response, the message of the client.  The theorem
  \<open>Client_Proof_end_to_end\<close> below follows it from the database to the client,
  \<open>Indexer_Theorems.IndexEVMLogs_follows_chain\<close> from the chain to the database.

  \<^bold>\<open>Conventions.\<close>  A Go function that can fail returns \<open>goerr + 'a\<close>; one with state is a function
  \<open>('s, 'a) go\<close> that returns the result and the new state, also on an error (\<open>Prelude\<close>).  A panic is an
  error value of its own.  Machine integers are words (\<open>u8\<close>, \<open>u32\<close>, \<open>u64\<close>); a \<open>uint256\<close> is \<open>u256\<close>.  A TypeScript
  function that can throw returns \<open>jserr + 'a\<close>; a \<open>decode\<close> returns an option, \<open>None\<close> for not ending.  Code
  outside the repository is an argument, and what it promises is a locale: the Poseidon hash
  (\<open>poseidon_field\<close>), the key-value database (\<open>kv_db\<close>), the \<open>uint256\<close> package (\<open>u256_codec\<close>), msgpack
  (\<open>msgpack_codec\<close>), the Ethereum client (\<open>chain_client\<close>), the wire package (\<open>wire_reader\<close>, \<open>wire_writer\<close>), the
  transport of the client (\<open>serves\<close>).  Every locale is interpreted on concrete definitions (\<open>Kv_Store\<close>,
  \<open>U256_Bytes\<close>, \<open>Instances\<close>, \<open>System_Instances\<close>, \<open>Wire_Instance\<close>), and the locales of the program's own interfaces
  (\<open>leaf_batch\<close>, \<open>tree_env\<close>, \<open>leaf_store\<close>, \<open>registry_env\<close>, \<open>service_env\<close>, \<open>job_env\<close>, \<open>indexer_env\<close>, \<open>system_env\<close>,
  \<open>configurator_env\<close>, \<open>message_fns\<close>) on the definitions that model its code.

  \<^bold>\<open>Trees and registries.\<close>
  \<^item> \<open>Sparse_Tree\<close>: \<open>internal/zkregistry/sparse_tree.go\<close>, one definition per method of
    \<open>SparseMerkleTree\<close>; the loops are recursive functions.  \<open>Tree_Spec\<close> is the reference tree (\<open>node\<close> of a
    leaf function), \<open>Tree_Correct\<close> shows that reads, \<open>InsertLeaf\<close>, \<open>InsertLeaves\<close> and \<open>CreateProof\<close> compute it,
    also with the backing array that \<open>InsertLeaves\<close> shares between levels.
  \<^item> \<open>Simulation\<close>, \<open>Simulation_Correct\<close>, \<open>Simulation_Total\<close>: \<open>SimulationBatch\<close> and \<open>SimulateBatchOperations\<close>
    of the same file: the proofs of a batch verify one after the other, and when the simulation succeeds.
  \<^item> \<open>Big_Endian\<close>, \<open>Storage_Keys\<close>, \<open>Kv_Store\<close>, \<open>Leaf_Storage\<close>, \<open>U256_Bytes\<close>: \<open>internal/utils/uint.go\<close>,
    \<open>internal/storage/keys.go\<close>, \<open>leaf_storage.go\<close> and \<open>batch_with_leaves.go\<close>: different objects have different
    keys, and a stored value is read back.
  \<^item> \<open>Registry\<close>, \<open>Registry_Correct\<close>: \<open>zk_certificate_registry.go\<close>, \<open>operations_buffer.go\<close>, \<open>progress.go\<close>;
    \<open>CommitOperations\<close> refines the abstract registry, a pair of a leaf function and an index.
  \<^item> \<open>Registry_Index\<close>, \<open>Msgpack\<close>, \<open>Registry_Service\<close>, \<open>Service_Correct\<close>: \<open>index_storage.go\<close>,
    \<open>metadata_storage.go\<close> and \<open>service.go\<close>; the database and the cache represent the abstract service, a map
    from addresses to metadata and abstract registries.
  \<^item> \<open>Registry_Mutex\<close>: \<open>mutex.go\<close> as a step relation over goroutines with an invariant.

  \<^bold>\<open>Indexing.\<close>
  \<^item> \<open>Indexer_Job\<close>, \<open>Job_Correct\<close>: \<open>internal/indexer/ZkCertificateRegistry.go\<close>, \<open>job_storage.go\<close>,
    \<open>job_factory.go\<close>: a batch of logs is committed with its progress, or nothing is.
  \<^item> \<open>Evm_Indexer\<close>, \<open>Indexer_Correct\<close>: \<open>indexer.go\<close> as a machine with one step per round of the loop;
    the registry follows the chain, a resumed run equals an uninterrupted one, the head is reached.
  \<^item> \<open>Configurator\<close>, \<open>Configurator_Correct\<close>: \<open>configurator.go\<close> and \<open>RunIndexer\<close> of
    \<open>pkg/indexer/application.go\<close>; goroutines take turns in the order of a schedule.

  \<^bold>\<open>Queries.\<close>
  \<^item> \<open>Query_Server\<close>, \<open>Server_Correct\<close>, \<open>Query_Correct\<close>: the handlers of \<open>internal/query\<close>, what they answer, and
    that whatever they answer they change no more than the cache of a tree.
  \<^item> \<open>System_Correct\<close>: \<open>sysReach\<close>, the states the service reaches by initialisation, indexing, mode changes,
    queries and restarts, for at most 256 addresses (the range of the registry index) and for events that
    the contract can emit.
  \<^item> \<open>Js_Value\<close>, \<open>Js_Bytes\<close>, \<open>Ieee_Double\<close>: JavaScript values and conversions, base64, doubles.
  \<^item> \<open>Wire\<close>, \<open>Wire_Laws\<close>, \<open>Wire_Instance\<close>: the loop of every \<open>decode\<close>, and the calculus \<open>writes\<close>, \<open>consumes\<close>,
    \<open>ends\<close>, \<open>keeps\<close> that the codecs are proved with.
  \<^item> \<open>Query_Messages\<close>, \<open>Query_Codec\<close>, \<open>Query_Json\<close>, \<open>Query_Client\<close>: \<open>gen/ts/galactica/merkle/query.ts\<close>.
  \<^item> \<open>Http_Messages\<close>, \<open>Http_Codec\<close>: \<open>gen/ts/google/api/http.ts\<close>.
  \<^item> \<open>Descriptor_Enums\<close>, \<open>Descriptor_Messages\<close>, \<open>Options_Messages\<close>, \<open>File_Options_Messages\<close>, \<open>Proto_Messages\<close>,
    \<open>File_Messages\<close> and their codecs: all of \<open>gen/ts/google/protobuf/descriptor.ts\<close>.

  The theorems that state the properties are in the theories named \<open>..._Theorems\<close> and here.

  \<^bold>\<open>Bounds and schedules.\<close>  No definition needs fuel to end: the loops of the tree end by the level or by
  the number of leaves, the search for an empty leaf by the number of attempts in the code.  A loop that
  runs as long as the service (\<open>IndexEVMLogs\<close>) is a step function, and liveness is stated for a number of
  steps.  A wait for a goroutine is bounded by its schedule, a finite list of turns; \<open>None\<close> says that the
  list ended before the goroutine did.  In polling mode two turns of the cancelled goroutine are enough
  (\<open>turnsLeft\<close>), and a reload returns under every schedule in rounds with two rounds per stopped job.
  \<open>decode\<close> is a partial function, and it is proved to end on every input.

  \<^bold>\<open>Assumed behaviour.\<close>  The contract \<open>kv_db\<close> describes a database without I/O failures: reads and operations
  on an open batch succeed; the definitions keep the error branches of the code.  A log subscription of the
  node does not end with an error.  Strings of the client hold characters below 256, and the two zeros of
  JavaScript are one number.  Error messages keep their text and drop the numbers formatted into it (the
  number of the operation in \<open>CommitOperations\<close>).  The progress tracker of a registry is never nil, since the
  service makes every registry with a new one.

  \<^bold>\<open>Not modelled.\<close>  Process and network I/O: the commands under \<open>cmd\<close>, the listeners of
  \<open>internal/query/server.go\<close>, opening of the database and of the node in \<open>application.go\<close>, logging and
  sleeping.  \<open>Configurator.Wait\<close> and \<open>String\<close> methods, which change no state.  \<open>EvmHandlers\<close> of \<open>handler.go\<close>, which
  forwards to function values and is not used by the service.  The generated Go messages, the gateway and
  the contract bindings, which call libraries outside the repository: their results are arguments.
  \<open>gen/ts/google/api/annotations.ts\<close>, which only names its package.  The type-level definitions of the
  TypeScript files (\<open>DeepPartial\<close>, \<open>Exact\<close>, \<open>MessageFns\<close>), which have no values.  The data races of Go that the
  model excludes by its atomic steps are stated in the theories that choose the steps.
\<close>

section \<open>From the database to the client\<close>

text \<open>
  The answer of the handler as the message the client declares.  How a transport turns a status into
  an error of the client is the parameter \<open>report\<close>.
\<close>

definition proofMessage :: "go_proof \<Rightarrow> QueryProofResponse" where
  "proofMessage pr = \<lparr>QueryProofResponse_proof = Some
     \<lparr>Proof_leaf = gpLeaf pr, Proof_path = gpPath pr, Proof_index = ofU32 (gpIndex pr), Proof_root = gpRoot pr\<rparr>\<rparr>"

definition serveProof ::
    "(grpc_error \<Rightarrow> jserr) \<Rightarrow> poseidon \<Rightarrow> ('d, 'b) db_ops \<Rightarrow> u256_ops \<Rightarrow> hex_ops \<Rightarrow> QueryProofRequest
     \<Rightarrow> 'd service_state \<times> ctx \<Rightarrow> (jserr + QueryProofResponse) \<times> 'd service_state \<times> ctx" where
  "serveProof report P D U H q n =
     (case Server_Proof P D U H (svcDb (fst n)) (QueryProofRequest_registry q) (QueryProofRequest_leaf q) n of
        (Inl err, n') \<Rightarrow> (Inl (report err), n')
      | (Inr pr, n') \<Rightarrow> (Inr (proofMessage pr), n'))"

text \<open>
  C3.  A TypeScript client that asks a reachable, on-head service for the proof of a leaf gets, through
  the bytes of the request and of the response, a proof whose path leads from the leaf at its index to
  the root of the registry's tree, or the status that the leaf is not in the registry.
\<close>

theorem Client_Proof_end_to_end:
  assumes w: "wire R remaining F W out" and env: "system_env P p D content pending isOpen U C J"
    and run: "sysReach P p D content U C J s addrs S"
    and rpc: "serves (client_rpc cl) (client_service cl) ''Proof'' (QueryProofRequest_bytes F)
      (QueryProofRequest_ok F) (QueryProofResponse_bytes F) (serveProof report P D U H)"
    and q: "q = \<lparr>QueryProofRequest_registry = r, QueryProofRequest_leaf = l\<rparr>" "QueryProofRequest_ok F q"
    and S: "S (hexToAddress H r) = Some (md, (lf, ix))" "isHexAddress H r"
    and reg: "svcRegistry s (mdIndex md) = Some reg" "IsOnHead (regProgress reg)"
    and v: "uFromDecimal U l = Inr v" and n: "n = unat (mdDepth md)" and c: "ctxAlive n c"
    and fits: "\<forall>path i. length path = n \<and> ix v = Some i \<longrightarrow> QueryProofResponse_ok F (proofMessage
      \<lparr>gpLeaf = l, gpPath = map (uString U) path, gpIndex = i, gpRoot = uString U (node (hashOf P) lf n 0)\<rparr>)"
  shows "\<exists>res s' c'. Client_Proof R W cl q (s, c) = (res, s', c') \<and>
    serviceOk P p U C (content (svcDb s')) (svcRegistry s') addrs S \<and>
    (case ix v of
       None \<Rightarrow> res = Rejected (report (Status NotFound ''leaf not found''))
     | Some i \<Rightarrow> \<exists>path. res = Fulfilled (proofMessage \<lparr>gpLeaf = l, gpPath = map (uString U) path, gpIndex = i,
           gpRoot = uString U (node (hashOf P) lf n 0)\<rparr>) \<and> length path = n \<and>
         computeRoot (hashOf P) v path (unat i) = node (hashOf P) lf n 0)"
proof -
  have ok: "serviceOk P p U C (content (svcDb s)) (svcRegistry s) addrs S" and cs: "serviceConsistent S"
    using system_env.sysReach_ok [OF env run] by auto
  have cons: "indexConsistent (mdEmptyValue md) n (lf, ix)"
    using cs S(1) n by (auto simp: serviceConsistent_def)
  have sv: "service_env P p D content pending isOpen U C"
    using env by (simp add: system_env_def)
  obtain res s' c' where h: "Server_Proof P D U H (svcDb s) r l (s, c) = (res, s', c')"
      "serviceOk P p U C (content (svcDb s')) (svcRegistry s') addrs S"
    and res: "case ix v of
       None \<Rightarrow> res = Inl (Status NotFound ''leaf not found'')
     | Some i \<Rightarrow> \<exists>path. res = Inr \<lparr>gpLeaf = l, gpPath = map (uString U) path, gpIndex = i,
           gpRoot = uString U (node (hashOf P) lf n 0)\<rparr> \<and> length path = n \<and>
         computeRoot (hashOf P) v path (unat i) = node (hashOf P) lf n 0"
    using service_env.Server_Proof_ok [OF sv ok S reg v n cons c] by blast
  have serve: "serveProof report P D U H q (s, c) =
      ((case res of Inl err \<Rightarrow> Inl (report err) | Inr pr \<Rightarrow> Inr (proofMessage pr)), s', c')"
    by (simp add: serveProof_def q(1) h(1) split: sum.split)
  have "QueryProofResponse_ok F m" if "serveProof report P D U H q (s, c) = (Inr m, n')" for m n'
    using that fits res unfolding serve by (auto split: option.splits)
  then have "Client_Proof R W cl q (s, c) = (settled (case res of Inl err \<Rightarrow> Inl (report err)
      | Inr pr \<Rightarrow> Inr (proofMessage pr)), s', c')"
    using wire.Client_Proof_serves [OF w rpc q(2), of "(s, c)"] serve by auto
  then show ?thesis
    using h(2) res by (auto simp: settled_def split: option.splits)
qed

text \<open>The sizes of the messages of the small service.\<close>

lemma decString_length: "length (decString x) \<le> 78"
proof -
  let ?s = "map (\<lambda>d. char_of (d + 48)) (dropWhile (\<lambda>d. d = 0) (digits 10 78 (unat x)))"
  have "length ?s \<le> 78"
    using length_dropWhile_le [of "\<lambda>d. d = 0" "digits 10 78 (unat x)"] by simp
  moreover have "length (case s of [] \<Rightarrow> ''0'' | c # cs \<Rightarrow> c # cs) \<le> 78" if "length s \<le> 78" for s
    using that by (cases s) simp_all
  ultimately show ?thesis unfolding decString_def by blast
qed

lemma leb_length: "length (leb n) \<le> Suc n"
proof (induction n rule: leb.induct)
  case (1 n)
  then show ?case by (subst leb.simps) auto
qed

lemma strBytes_length:
  assumes "tag < 128" "length s \<le> 78"
  shows "length (strBytes format tag s) \<le> 400"
proof -
  have "length (concat (map utf8Char s)) \<le> 2 * length s"
    by (induction s) (simp_all add: utf8Char_def Let_def)
  then show ?thesis
    using assms leb_length [of "length (concat (map utf8Char s))"]
    by (simp add: strBytes_def lenPrefixed_def format_def leb_small)
qed

lemma smallProof_fits:
  assumes "length path = 3"
  shows "QueryProofResponse_ok format (proofMessage \<lparr>gpLeaf = ''7'', gpPath = map (uString uint256) path,
    gpIndex = 2, gpRoot = uString uint256 rt\<rparr>)"
proof -
  obtain a b c where path: "path = [a, b, c]"
    using assms by (auto simp: numeral_3_eq_3 length_Suc_conv)
  have str: "strOk format (decString x)" for x
    using decString_length [of x] by (intro strOk_short) simp
  have "length (u32Bytes format 24 (ofU32 2)) = 2"
    by (simp add: u32Bytes_def format_def leb_small ofU32_def)
  then show ?thesis
    using strBytes_length [OF _ decString_length, of 18 a] strBytes_length [OF _ decString_length, of 18 b]
      strBytes_length [OF _ decString_length, of 18 c] strBytes_length [OF _ decString_length, of 34 rt]
      strBytes_length [of 10 "''7''"]
    by (simp add: QueryProofResponse_ok_def proofMessage_def Proof_ok_def Proof_bytes_def msgOk_def path
        uint256_def str strOk_short isUInt32_def ofU32_def)
qed

definition smallTransport :: "(kv service_state \<times> ctx) query_client" where
  "smallTransport = QueryClientImpl (stubRpc (QueryProofRequest_decode bufReader) (QueryProofResponse_bytes format)
     (serveProof (\<lambda>_. ''status'') mixHash memdb uint256 hexOps)) None"

lemma smallTransport_serves:
  "serves (client_rpc smallTransport) (client_service smallTransport) ''Proof'' (QueryProofRequest_bytes format)
     (QueryProofRequest_ok format) (QueryProofResponse_bytes format)
     (serveProof (\<lambda>_. ''status'') mixHash memdb uint256 hexOps)"
  unfolding smallTransport_def QueryClientImpl_def query_client.simps
  by (rule stubRpc_serves) (rule wire.proof_request_decodes [OF instance_wire])

abbreviation smallLeaves :: "nat \<Rightarrow> u256" where
  "smallLeaves \<equiv> (\<lambda>_. 5)(2 := 7)"

theorem Client_Proof_end_to_end_witness:
  "\<exists>s s' c' path. Client_Proof bufReader chunkWriter smallTransport
       \<lparr>QueryProofRequest_registry = ''0xA'', QueryProofRequest_leaf = ''7''\<rparr> (s, Some 3) =
     (Fulfilled (proofMessage \<lparr>gpLeaf = ''7'', gpPath = map (uString uint256) path, gpIndex = 2,
        gpRoot = uString uint256 (node (hashOf mixHash) smallLeaves 3 0)\<rparr>), s', c') \<and>
     length path = 3 \<and> computeRoot (hashOf mixHash) 7 path 2 = node (hashOf mixHash) smallLeaves 3 0"
proof -
  obtain s reg where s: "smallReach s [addrA] [addrA \<mapsto> (mdA, absA)]" "svcRegistry s 0 = Some reg"
    "IsOnHead (regProgress reg)"
    by (rule smallSystem)
  have h: "[addrA \<mapsto> (mdA, absA)] (hexToAddress hexOps ''0xA'') = Some (mdA, absA)" "isHexAddress hexOps ''0xA''"
    by (simp_all add: hexOps_def)
  have q: "QueryProofRequest_ok format \<lparr>QueryProofRequest_registry = ''0xA'', QueryProofRequest_leaf = ''7''\<rparr>"
    by (simp add: QueryProofRequest_ok_def strOk_short)
  have v: "uFromDecimal uint256 ''7'' = Inr 7"
    by (simp add: uint256_def decFromString_def horner_def)
  have "svcRegistry s (mdIndex mdA) = Some reg" using s(2) by simp
  note a = Client_Proof_end_to_end [OF instance_wire mem_contracts(4) s(1) smallTransport_serves refl q h this s(3) v
      refl, of "Some 3"]
  obtain res s' c' path where
    "Client_Proof bufReader chunkWriter smallTransport
       \<lparr>QueryProofRequest_registry = ''0xA'', QueryProofRequest_leaf = ''7''\<rparr> (s, Some 3) = (res, s', c')"
    "res = Fulfilled (proofMessage \<lparr>gpLeaf = ''7'', gpPath = map (uString uint256) path, gpIndex = 2,
        gpRoot = uString uint256 (node (hashOf mixHash) smallLeaves 3 0)\<rparr>)"
    "length path = 3" "computeRoot (hashOf mixHash) 7 path 2 = node (hashOf mixHash) smallLeaves 3 0"
    using a smallProof_fits by (auto simp: ctxAlive_def)
  then show ?thesis by blast
qed

end
